(* ===== verification/Numi_Prelude.thy ===== *)
theory Numi_Prelude
  imports Main "HOL-Library.Sublist" "HOL-Library.Char_ord" "HOL-Library.List_Lexorder"
begin

text \<open>
  What every component shares: the error-and-state computations the services are written in,
  the string operations of the Python standard library that the sources call, JSON values,
  and the generic lemmas on lists, options and strings the component proofs use.

  Strings are \<^typ>\<open>string\<close>, lists of 8-bit characters; the string operations below are the
  Python ones on ASCII text. Moments are integers counting microseconds since the epoch.
\<close>

named_theorems op_simps \<open>unfolding of the error-and-state combinators\<close>
named_theorems preserve_intros \<open>invariants of computations, by their shape\<close>
named_theorems py_simps \<open>the string operations of the Python standard library\<close>

section \<open>Results and computations\<close>

text \<open>
  A fallible pure function returns \<open>'e + 'a\<close>, with \<open>Inl\<close> for a raised exception. A
  computation that also changes state keeps the state reached when it raises: an exception
  does not undo what was written before it.
\<close>

type_synonym ('s, 'e, 'a) comp = "'s \<Rightarrow> ('e + 'a) \<times> 's"

definition bindE :: "'e + 'a \<Rightarrow> ('a \<Rightarrow> 'e + 'b) \<Rightarrow> 'e + 'b" where
  "bindE r f = (case r of Inl e \<Rightarrow> Inl e | Inr a \<Rightarrow> f a)"

definition returnM :: "'a \<Rightarrow> ('s, 'e, 'a) comp" where
  "returnM a s = (Inr a, s)"

definition raiseM :: "'e \<Rightarrow> ('s, 'e, 'a) comp" where
  "raiseM e s = (Inl e, s)"

definition liftE :: "'e + 'a \<Rightarrow> ('s, 'e, 'a) comp" where
  "liftE r s = (r, s)"

definition bindM :: "('s, 'e, 'a) comp \<Rightarrow> ('a \<Rightarrow> ('s, 'e, 'b) comp) \<Rightarrow> ('s, 'e, 'b) comp" where
  "bindM m f s = (case m s of (r, s') \<Rightarrow> (case r of Inl e \<Rightarrow> (Inl e, s') | Inr a \<Rightarrow> f a s'))"

definition zoom :: "('s \<Rightarrow> 't) \<Rightarrow> ('t \<Rightarrow> 's \<Rightarrow> 's) \<Rightarrow> ('t, 'e, 'a) comp \<Rightarrow> ('s, 'e, 'a) comp" where
  \<comment> \<open>run a computation on one part of a larger state\<close>
  "zoom get put m s = (case m (get s) of (r, t) \<Rightarrow> (r, put t s))"

definition preserves :: "('s \<Rightarrow> bool) \<Rightarrow> ('s, 'e, 'a) comp \<Rightarrow> bool" where
  "preserves P m \<longleftrightarrow> (\<forall>s. P s \<longrightarrow> P (snd (m s)))"

lemma bindE_simps [simp]: "bindE (Inl e) f = Inl e" "bindE (Inr a) f = f a"
  by (simp_all add: bindE_def)

lemma bindE_Inr_iff [simp]: "bindE r f = Inr b \<longleftrightarrow> (\<exists>a. r = Inr a \<and> f a = Inr b)"
  by (cases r) auto

lemma bindE_Inl_iff:
  "bindE r f = Inl e \<longleftrightarrow> r = Inl e \<or> (\<exists>a. r = Inr a \<and> f a = Inl e)"
  by (cases r) auto

lemma returnM_apply [simp, op_simps]: "returnM a s = (Inr a, s)"
  by (simp add: returnM_def)

lemma raiseM_apply [simp, op_simps]: "raiseM e s = (Inl e, s)"
  by (simp add: raiseM_def)

lemma liftE_apply [simp, op_simps]: "liftE r s = (r, s)"
  by (simp add: liftE_def)

lemma bindM_Inl [op_simps]: "m s = (Inl e, s') \<Longrightarrow> bindM m f s = (Inl e, s')"
  by (simp add: bindM_def)

lemma bindM_Inr [op_simps]: "m s = (Inr a, s') \<Longrightarrow> bindM m f s = f a s'"
  by (simp add: bindM_def)

lemma bindM_eq_Inr_iff:
  "bindM m f s = (Inr b, t) \<longleftrightarrow> (\<exists>a s'. m s = (Inr a, s') \<and> f a s' = (Inr b, t))"
  by (auto simp: bindM_def split: prod.splits sum.splits)

lemma bindM_eq_Inl_iff:
  "bindM m f s = (Inl e, t) \<longleftrightarrow>
     m s = (Inl e, t) \<or> (\<exists>a s'. m s = (Inr a, s') \<and> f a s' = (Inl e, t))"
  by (auto simp: bindM_def split: prod.splits sum.splits)

lemma bindM_returnM [simp]: "bindM (returnM a) f = f a"
  by (rule ext) (simp add: bindM_def)

lemma bindM_raiseM [simp]: "bindM (raiseM e) f = raiseM e"
  by (rule ext) (simp add: bindM_def)

lemma bindM_liftE_simps [simp]:
  "bindM (liftE (Inl e)) f = raiseM e" "bindM (liftE (Inr a)) f = f a"
  by (rule ext, simp add: bindM_def)+

lemma zoom_apply [op_simps]: "m (get s) = (r, t) \<Longrightarrow> zoom get put m s = (r, put t s)"
  by (simp add: zoom_def)

lemma preservesI: "(\<And>s. P s \<Longrightarrow> P (snd (m s))) \<Longrightarrow> preserves P m"
  by (simp add: preserves_def)

lemma preservesD: "preserves P m \<Longrightarrow> P s \<Longrightarrow> m s = (r, t) \<Longrightarrow> P t"
  unfolding preserves_def by (metis snd_conv)

lemma preserves_returnM [preserve_intros]: "preserves P (returnM a)"
  by (simp add: preserves_def)

lemma preserves_raiseM [preserve_intros]: "preserves P (raiseM e)"
  by (simp add: preserves_def)

lemma preserves_liftE [preserve_intros]: "preserves P (liftE r)"
  by (simp add: preserves_def)

lemma preserves_bindM [preserve_intros]:
  assumes "preserves P m" and "\<And>a. preserves P (f a)"
  shows "preserves P (bindM m f)"
proof (rule preservesI)
  fix s assume "P s"
  obtain r s' where m: "m s = (r, s')" by (cases "m s")
  with assms(1) \<open>P s\<close> have "P s'" by (rule preservesD)
  with assms(2) m show "P (snd (bindM m f s))"
    by (cases r) (auto simp: bindM_def preserves_def)
qed

lemma preserves_if [preserve_intros]:
  "(b \<Longrightarrow> preserves P m) \<Longrightarrow> (\<not> b \<Longrightarrow> preserves P n) \<Longrightarrow> preserves P (if b then m else n)"
  by simp

lemma preserves_zoom:
  assumes "preserves Q m" and "\<And>s. P s \<Longrightarrow> Q (get s)" and "\<And>s t. P s \<Longrightarrow> Q t \<Longrightarrow> P (put t s)"
  shows "preserves P (zoom get put m)"
  using assms by (auto simp: preserves_def zoom_def split: prod.splits) (metis snd_conv)

section \<open>JSON values\<close>

text \<open>
  The values of \<open>dict[str, Any]\<close> arguments, targets, payloads and result rows. A dict keeps
  its insertion order, so it is an association list with distinct keys.
\<close>

datatype json =
    JNull
  | JBool bool
  | JInt int
  | JStr string
  | JArr "json list"
  | JObj "(string \<times> json) list"

type_synonym jdict = "(string \<times> json) list"

fun truthy :: "json \<Rightarrow> bool" where
  "truthy JNull = False"
| "truthy (JBool b) = b"
| "truthy (JInt i) = (i \<noteq> 0)"
| "truthy (JStr s) = (s \<noteq> [])"
| "truthy (JArr xs) = (xs \<noteq> [])"
| "truthy (JObj kvs) = (kvs \<noteq> [])"

definition opt_json :: "string option \<Rightarrow> json" where
  "opt_json s = (case s of None \<Rightarrow> JNull | Some x \<Rightarrow> JStr x)"

fun dict_set :: "(string \<times> 'v) list \<Rightarrow> string \<Rightarrow> 'v \<Rightarrow> (string \<times> 'v) list" where
  \<comment> \<open>assignment of a key: in place when the key is there, at the end when it is not\<close>
  "dict_set [] k v = [(k, v)]"
| "dict_set ((k', v') # d) k v = (if k' = k then (k, v) # d else (k', v') # dict_set d k v)"

fun dict_merge :: "(string \<times> 'v) list \<Rightarrow> (string \<times> 'v) list \<Rightarrow> (string \<times> 'v) list" where
  \<comment> \<open>\<open>{**d, **e}\<close>\<close>
  "dict_merge d [] = d"
| "dict_merge d ((k, v) # e) = dict_merge (dict_set d k v) e"

lemma map_of_dict_set [simp]: "map_of (dict_set d k v) = (map_of d)(k \<mapsto> v)"
  by (induction d k v rule: dict_set.induct) auto

lemma map_of_dict_merge:
  "distinct (map fst e) \<Longrightarrow> map_of (dict_merge d e) = map_of d ++ map_of e"
proof (induction d e rule: dict_merge.induct)
  case (2 d k v e)
  then have "map_of e k = None" by (simp add: map_of_eq_None_iff)
  with 2 show ?case by (auto simp: map_add_def fun_eq_iff split: option.splits)
qed simp

section \<open>Strings of the Python standard library\<close>

definition char_code :: "char \<Rightarrow> nat" where
  "char_code c = of_char c"

definition is_digit :: "char \<Rightarrow> bool" where
  "is_digit c \<longleftrightarrow> 48 \<le> char_code c \<and> char_code c \<le> 57"

definition is_lower :: "char \<Rightarrow> bool" where
  "is_lower c \<longleftrightarrow> 97 \<le> char_code c \<and> char_code c \<le> 122"

definition is_upper :: "char \<Rightarrow> bool" where
  "is_upper c \<longleftrightarrow> 65 \<le> char_code c \<and> char_code c \<le> 90"

definition is_space :: "char \<Rightarrow> bool" where
  "is_space c \<longleftrightarrow> (9 \<le> char_code c \<and> char_code c \<le> 13) \<or> (28 \<le> char_code c \<and> char_code c \<le> 32)"

definition lower_char :: "char \<Rightarrow> char" where
  "lower_char c = (if is_upper c then char_of (char_code c + 32) else c)"

definition lower :: "string \<Rightarrow> string" where
  "lower s = map lower_char s"

definition strip :: "string \<Rightarrow> string" where
  "strip s = rev (dropWhile is_space (rev (dropWhile is_space s)))"

abbreviation contains :: "string \<Rightarrow> string \<Rightarrow> bool" where
  \<comment> \<open>\<open>needle in hay\<close>\<close>
  "contains needle hay \<equiv> sublist needle hay"

fun join :: "string \<Rightarrow> string list \<Rightarrow> string" where
  "join sep [] = []"
| "join sep [x] = x"
| "join sep (x # y # ys) = x @ sep @ join sep (y # ys)"

fun nat_str :: "nat \<Rightarrow> string" where
  "nat_str n = (if n < 10 then [char_of (48 + n)] else nat_str (n div 10) @ [char_of (48 + n mod 10)])"

declare nat_str.simps [simp del]

definition int_str :: "int \<Rightarrow> string" where
  "int_str i = (if i < 0 then CHR ''-'' # nat_str (nat (- i)) else nat_str (nat i))"

definition digits_val :: "string \<Rightarrow> nat" where
  \<comment> \<open>\<open>int(s)\<close> of a string of ASCII digits\<close>
  "digits_val s = foldl (\<lambda>n c. 10 * n + (char_code c - 48)) 0 s"

definition em_dash :: string where
  \<comment> \<open>the UTF-8 encoding of U+2014, which the source's messages use\<close>
  "em_dash = [CHR 0xE2, CHR 0x80, CHR 0x94]"

definition nonempty :: "string option \<Rightarrow> bool" where
  \<comment> \<open>truth of a \<open>str | None\<close>\<close>
  "nonempty s = (case s of None \<Rightarrow> False | Some x \<Rightarrow> x \<noteq> [])"

definition opt_or :: "string option \<Rightarrow> string \<Rightarrow> string" where
  \<comment> \<open>\<open>s or d\<close> for \<open>s : str | None\<close>\<close>
  "opt_or s d = (case s of None \<Rightarrow> d | Some x \<Rightarrow> (if x = [] then d else x))"

definition intersects :: "'a list \<Rightarrow> 'a list \<Rightarrow> bool" where
  \<comment> \<open>truth of \<open>set(xs) & set(ys)\<close>\<close>
  "intersects xs ys = list_ex (\<lambda>x. List.member ys x) xs"

definition is_infix_of_any :: "string list \<Rightarrow> string \<Rightarrow> bool" where
  \<comment> \<open>\<open>any(bad in text for bad in bads)\<close>\<close>
  "is_infix_of_any bads text = list_ex (\<lambda>bad. contains bad text) bads"

lemma intersects_iff [simp]: "intersects xs ys \<longleftrightarrow> (\<exists>x. x \<in> set xs \<and> x \<in> set ys)"
  by (auto simp: intersects_def list_ex_iff)

lemma nonempty_Some [simp]: "nonempty (Some x) \<longleftrightarrow> x \<noteq> []"
  by (simp add: nonempty_def)

lemma nonempty_None [simp]: "\<not> nonempty None"
  by (simp add: nonempty_def)

lemma opt_or_simps [simp]:
  "opt_or None d = d" "opt_or (Some []) d = d" "x \<noteq> [] \<Longrightarrow> opt_or (Some x) d = x"
  by (simp_all add: opt_or_def)

lemma char_code_char_of [simp]: "n < 256 \<Longrightarrow> char_code (char_of n) = n"
  by (simp add: char_code_def)

lemma char_of_char_code [simp]: "char_of (char_code c) = c"
  by (simp add: char_code_def)

lemma char_code_less [simp]: "char_code c < 256"
  by (metis char_code_def mod_less_divisor of_char_mod_256 zero_less_numeral)

lemma lower_char_idem [simp]: "lower_char (lower_char c) = lower_char c"
  by (auto simp: lower_char_def is_upper_def)

lemma lower_idem [simp]: "lower (lower s) = lower s"
  by (simp add: lower_def)

lemma length_lower [simp]: "length (lower s) = length s"
  by (simp add: lower_def)

lemma lower_Nil_iff [simp]: "lower s = [] \<longleftrightarrow> s = []"
  by (simp add: lower_def)

section \<open>Decimal numerals\<close>

lemma is_digit_char_of [simp]: "(n::nat) < 10 \<Longrightarrow> is_digit (char_of (48 + n))"
  by (simp add: is_digit_def)

lemma nat_str_not_Nil [simp]: "nat_str n \<noteq> []"
  by (subst nat_str.simps) simp

lemma nat_str_digits: "\<forall>c \<in> set (nat_str n). is_digit c"
proof (induction n rule: nat_str.induct)
  case (1 n)
  then show ?case by (subst nat_str.simps) (auto simp: is_digit_def)
qed

lemma digits_val_snoc [simp]: "digits_val (s @ [c]) = 10 * digits_val s + (char_code c - 48)"
  by (simp add: digits_val_def)

lemma digits_val_single [simp]: "digits_val [c] = char_code c - 48"
  by (simp add: digits_val_def)

lemma digits_val_nat_str [simp]: "digits_val (nat_str n) = n"
proof (induction n rule: nat_str.induct)
  case (1 n)
  show ?case
  proof (cases "n < 10")
    case True
    then show ?thesis by (simp add: nat_str.simps [of n])
  next
    case False
    with 1 show ?thesis by (simp add: nat_str.simps [of n])
  qed
qed

section \<open>Lists\<close>

lemma find_Some_iff_mem: "find P xs = Some x \<Longrightarrow> x \<in> set xs \<and> P x"
  by (induction xs) (auto split: if_splits)

lemma find_None_filter: "find P xs = None \<longleftrightarrow> filter P xs = []"
  by (induction xs) auto

lemma takeWhile_append_stop:
  "\<forall>x \<in> set xs. P x \<Longrightarrow> (ys = [] \<or> \<not> P (hd ys)) \<Longrightarrow> takeWhile P (xs @ ys) = xs"
  by (induction xs) (auto, cases ys, auto)

lemma dropWhile_append_stop:
  "\<forall>x \<in> set xs. P x \<Longrightarrow> (ys = [] \<or> \<not> P (hd ys)) \<Longrightarrow> dropWhile P (xs @ ys) = ys"
  by (induction xs) (auto, cases ys, auto)

end
