(* ===== verification/Json_Canonical.thy ===== *)
theory Json_Canonical
  imports Numi_Prelude
begin

text \<open>
  The canonical JSON text the action and argument hashes are taken of:
  \<open>json.dumps(v, sort_keys=True, separators=(",", ":"))\<close>, on which approvals and the audit
  log rest. The text determines the value up to the order of object keys.
\<close>

section \<open>Printing\<close>

definition hex_digit :: "nat \<Rightarrow> char" where
  "hex_digit n = (if n < 10 then char_of (48 + n) else char_of (87 + n))"

definition escape :: "char \<Rightarrow> string" where
  \<comment> \<open>every character outside the printable ASCII range is a \<open>\u00XX\<close> escape\<close>
  "escape c =
     (if c = CHR 0x22 then [CHR 0x5C, CHR 0x22]
      else if c = CHR 0x5C then [CHR 0x5C, CHR 0x5C]
      else if c = CHR 0x0A then [CHR 0x5C, CHR ''n'']
      else if c = CHR 0x0D then [CHR 0x5C, CHR ''r'']
      else if c = CHR 0x09 then [CHR 0x5C, CHR ''t'']
      else if c = CHR 0x0C then [CHR 0x5C, CHR ''f'']
      else if c = CHR 0x08 then [CHR 0x5C, CHR ''b'']
      else if 32 \<le> char_code c \<and> char_code c \<le> 126 then [c]
      else [CHR 0x5C, CHR ''u'', CHR ''0'', CHR ''0'', hex_digit (char_code c div 16), hex_digit (char_code c mod 16)])"

definition dumps_string :: "string \<Rightarrow> string" where
  "dumps_string s = [CHR 0x22] @ concat (map escape s) @ [CHR 0x22]"

fun dumps :: "json \<Rightarrow> string" and dumps_list :: "json list \<Rightarrow> string" and dumps_members :: "jdict \<Rightarrow> string"
where
  "dumps JNull = ''null''"
| "dumps (JBool b) = (if b then ''true'' else ''false'')"
| "dumps (JInt i) = int_str i"
| "dumps (JStr s) = dumps_string s"
| "dumps (JArr xs) = ''['' @ dumps_list xs @ '']''"
| "dumps (JObj kvs) = ''{'' @ dumps_members kvs @ ''}''"
| "dumps_list [] = []"
| "dumps_list (x # xs) = dumps x @ (if xs = [] then [] else '','' @ dumps_list xs)"
| "dumps_members [] = []"
| "dumps_members ((k, v) # kvs) =
     dumps_string k @ '':'' @ dumps v @ (if kvs = [] then [] else '','' @ dumps_members kvs)"

text \<open>Sorting the keys of every object, recursively.\<close>

fun canon :: "json \<Rightarrow> json" and canon_list :: "json list \<Rightarrow> json list" and canon_members :: "jdict \<Rightarrow> jdict"
where
  "canon (JArr xs) = JArr (canon_list xs)"
| "canon (JObj kvs) = JObj (sort_key fst (canon_members kvs))"
| "canon v = v"
| "canon_list [] = []"
| "canon_list (x # xs) = canon x # canon_list xs"
| "canon_members [] = []"
| "canon_members ((k, v) # kvs) = (k, canon v) # canon_members kvs"

definition json_dumps_sorted :: "json \<Rightarrow> string" where
  "json_dumps_sorted v = dumps (canon v)"

section \<open>Reading back one character\<close>

definition hex_val :: "char \<Rightarrow> nat" where
  "hex_val c = (if char_code c < 58 then char_code c - 48 else char_code c - 87)"

lemma hex_val_digit [simp]: "n < 16 \<Longrightarrow> hex_val (hex_digit n) = n"
  by (auto simp: hex_val_def hex_digit_def)

fun unescape :: "string \<Rightarrow> char \<times> string" where
  "unescape (a # b # s) =
     (if a \<noteq> CHR 0x5C then (a, b # s)
      else if b = CHR ''n'' then (CHR 0x0A, s)
      else if b = CHR ''r'' then (CHR 0x0D, s)
      else if b = CHR ''t'' then (CHR 0x09, s)
      else if b = CHR ''f'' then (CHR 0x0C, s)
      else if b = CHR ''b'' then (CHR 0x08, s)
      else if b = CHR ''u'' then (char_of (16 * hex_val (s ! 2) + hex_val (s ! 3)), drop 4 s)
      else (b, s))"
| "unescape (a # s) = (a, s)"
| "unescape [] = (CHR 0x00, [])"

lemma unescape_single [simp]: "c \<noteq> CHR 0x5C \<Longrightarrow> unescape (c # s) = (c, s)"
  by (cases s) auto

lemma unescape_escape: "unescape (escape c @ s) = (c, s)"
proof -
  have "char_code c div 16 < 16" using char_code_less [of c] by (simp add: less_mult_imp_div_less)
  then have "char_of (16 * hex_val (hex_digit (char_code c div 16)) + hex_val (hex_digit (char_code c mod 16))) = c"
    by simp
  then show ?thesis by (auto simp: escape_def)
qed

lemma escape_inj: "escape c @ r = escape d @ s \<Longrightarrow> c = d \<and> r = s"
  by (metis unescape_escape prod.inject)

lemma escape_hd: "escape c \<noteq> [] \<and> hd (escape c) \<noteq> CHR 0x22"
  by (auto simp: escape_def)

section \<open>The text determines the value\<close>

locale escaped_text =
  fixes enc :: "char \<Rightarrow> string" and q :: char
  assumes enc_inj: "enc c @ r = enc d @ s \<Longrightarrow> c = d \<and> r = s"
    and enc_hd: "enc c \<noteq> [] \<and> hd (enc c) \<noteq> q"
begin

lemma text_inj:
  "concat (map enc s) @ q # r = concat (map enc t) @ q # r' \<Longrightarrow> s = t \<and> r = r'"
proof (induction s arbitrary: t)
  case Nil
  then show ?case
  proof (cases t)
    case (Cons d t')
    with Nil show ?thesis using enc_hd [of d] by (cases "enc d") auto
  qed simp
next
  case (Cons c s)
  show ?case
  proof (cases t)
    case Nil
    with Cons.prems show ?thesis using enc_hd [of c] by (cases "enc c") auto
  next
    case (Cons d t')
    with Cons.prems have "c = d \<and> concat (map enc s) @ q # r = concat (map enc t') @ q # r'"
      using enc_inj by simp
    with Cons.IH Cons show ?thesis by blast
  qed
qed

end

interpretation json_text: escaped_text escape "CHR 0x22"
  by unfold_locales (use escape_inj escape_hd in blast)+

lemma dumps_string_inj: "dumps_string s @ r = dumps_string t @ r' \<Longrightarrow> s = t \<and> r = r'"
  using json_text.text_inj [of s r t r'] by (simp add: dumps_string_def)

definition stops :: "string \<Rightarrow> bool" where
  "stops r \<longleftrightarrow> r = [] \<or> \<not> is_digit (hd r)"

lemma nat_str_inj: "nat_str m @ r = nat_str n @ r' \<Longrightarrow> stops r \<Longrightarrow> stops r' \<Longrightarrow> m = n \<and> r = r'"
proof -
  assume eq: "nat_str m @ r = nat_str n @ r'" and st: "stops r" "stops r'"
  have "takeWhile is_digit (nat_str m @ r) = nat_str m" "takeWhile is_digit (nat_str n @ r') = nat_str n"
    using st by (intro takeWhile_append_stop [OF nat_str_digits], simp add: stops_def)+
  with eq have same: "nat_str m = nat_str n" by simp
  then have "m = n" by (metis digits_val_nat_str)
  with eq show "m = n \<and> r = r'" by simp
qed

lemma nat_str_hd: "is_digit (hd (nat_str n))"
  using nat_str_digits [of n] by simp

lemma int_str_inj:
  assumes "int_str i @ r = int_str j @ r'" and "stops r" and "stops r'"
  shows "i = j \<and> r = r'"
proof -
  have minus: "\<not> is_digit CHR ''-''" by code_simp
  have hd_ne: "hd (nat_str n @ x) \<noteq> CHR ''-''" for n x
    using nat_str_hd [of n] minus by (auto simp: hd_append)
  have neg: "k < 0 \<longleftrightarrow> hd (int_str k @ x) = CHR ''-''" for k x
    using hd_ne by (simp add: int_str_def)
  have same: "(i < 0) = (j < 0)" using neg [of i r] neg [of j r'] assms(1) by simp
  show ?thesis
  proof (cases "i < 0")
    case True
    with same assms nat_str_inj [of "nat (- i)" r "nat (- j)" r'] show ?thesis
      by (auto simp: int_str_def)
  next
    case False
    with same assms nat_str_inj [of "nat i" r "nat j" r'] show ?thesis
      by (auto simp: int_str_def)
  qed
qed

fun shape :: "json \<Rightarrow> nat" where
  "shape JNull = 0" | "shape (JBool b) = (if b then 1 else 2)" | "shape (JInt i) = 3"
| "shape (JStr s) = 4" | "shape (JArr xs) = 5" | "shape (JObj kvs) = 6"

definition char_shape :: "char \<Rightarrow> nat" where
  "char_shape c = (if c = CHR ''n'' then 0 else if c = CHR ''t'' then 1 else if c = CHR ''f'' then 2
     else if c = CHR 0x22 then 4 else if c = CHR ''['' then 5 else if c = CHR ''{'' then 6 else 3)"

lemma char_shape_digit: "is_digit c \<Longrightarrow> char_shape c = 3"
  unfolding char_shape_def by (intro if_not_P if_not_P [THEN trans] notI) (simp_all add: is_digit_def char_code_def)

lemma dumps_not_Nil [simp]: "dumps v \<noteq> []"
  by (cases v) (auto simp: int_str_def dumps_string_def)

lemma stops_punct [simp]:
  "stops (CHR '','' # r)" "stops (CHR '']'' # r)" "stops (CHR ''}'' # r)" "stops []"
  by (simp_all add: stops_def) code_simp+

text \<open>
  A printer of JSON values: numbers in decimal, arrays and objects in their brackets with commas and
  colons, each followed by the same gap, texts by a printer that can be read back with anything
  behind it, and the kind of a value visible in its first character. Whatever such a printer
  prints determines the value.
\<close>

locale json_printer =
  fixes pr :: "json \<Rightarrow> string" and prl :: "json list \<Rightarrow> string" and prm :: "jdict \<Rightarrow> string"
    and pstr :: "string \<Rightarrow> string" and gap :: string and kind :: "char \<Rightarrow> nat"
  assumes pr_int: "pr (JInt i) = int_str i"
    and pr_str: "pr (JStr s) = pstr s"
    and pr_arr: "pr (JArr xs) = ''['' @ prl xs @ '']''"
    and pr_obj: "pr (JObj kvs) = ''{'' @ prm kvs @ ''}''"
    and prl_Nil: "prl [] = []"
    and prl_Cons: "prl (x # xs) = pr x @ (if xs = [] then [] else '','' @ gap @ prl xs)"
    and prm_Nil: "prm [] = []"
    and prm_Cons: "prm ((k, v) # kvs) = pstr k @ '':'' @ gap @ pr v @ (if kvs = [] then [] else '','' @ gap @ prm kvs)"
    and pstr_inj: "pstr s @ r = pstr t @ r' \<Longrightarrow> s = t \<and> r = r'"
    and pstr_hd: "pstr s \<noteq> [] \<and> hd (pstr s) \<noteq> CHR ''}''"
    and pr_hd: "pr v \<noteq> [] \<and> hd (pr v) \<noteq> CHR '']'' \<and> kind (hd (pr v)) = shape v"
begin

lemma same_shape: "pr v @ r = pr v' @ r' \<Longrightarrow> shape v = shape v'"
  by (metis pr_hd hd_append2)

definition read_value :: "json \<Rightarrow> bool" where
  "read_value v \<longleftrightarrow> (\<forall>v' r r'. pr v @ r = pr v' @ r' \<and> stops r \<and> stops r' \<longrightarrow> v = v' \<and> r = r')"

definition read_list :: "json list \<Rightarrow> bool" where
  "read_list xs \<longleftrightarrow> (\<forall>xs' r r'. prl xs @ CHR '']'' # r = prl xs' @ CHR '']'' # r' \<longrightarrow> xs = xs' \<and> r = r')"

definition read_members :: "jdict \<Rightarrow> bool" where
  "read_members m \<longleftrightarrow> (\<forall>m' r r'. prm m @ CHR ''}'' # r = prm m' @ CHR ''}'' # r' \<longrightarrow> m = m' \<and> r = r')"

lemma read_atom:
  assumes "\<And>v'. shape v' = shape v \<Longrightarrow> v' = v" shows "read_value v"
  unfolding read_value_def using assms same_shape by (metis same_append_eq)

lemma read_int: "read_value (JInt i)"
  unfolding read_value_def
proof (intro allI impI)
  fix v' r r' assume a: "pr (JInt i) @ r = pr v' @ r' \<and> stops r \<and> stops r'"
  then have "shape v' = 3" using same_shape [of "JInt i" r v' r'] by simp
  then obtain j where "v' = JInt j" by (cases v') (auto split: if_splits)
  with a int_str_inj [of i r j r'] show "JInt i = v' \<and> r = r'" by (auto simp: pr_int)
qed

lemma read_str: "read_value (JStr s)"
  unfolding read_value_def
proof (intro allI impI)
  fix v' r r' assume a: "pr (JStr s) @ r = pr v' @ r' \<and> stops r \<and> stops r'"
  then have "shape v' = 4" using same_shape [of "JStr s" r v' r'] by simp
  then obtain t where "v' = JStr t" by (cases v') (auto split: if_splits)
  with a pstr_inj [of s r t r'] show "JStr s = v' \<and> r = r'" by (auto simp: pr_str)
qed

lemma read_arr: "read_list xs \<Longrightarrow> read_value (JArr xs)"
  unfolding read_value_def
proof (intro allI impI)
  fix v' r r' assume xs: "read_list xs" and a: "pr (JArr xs) @ r = pr v' @ r' \<and> stops r \<and> stops r'"
  then have "shape v' = 5" using same_shape [of "JArr xs" r v' r'] by simp
  then obtain ys where "v' = JArr ys" by (cases v') (auto split: if_splits)
  with a xs show "JArr xs = v' \<and> r = r'" by (auto simp: pr_arr read_list_def)
qed

lemma read_obj: "read_members m \<Longrightarrow> read_value (JObj m)"
  unfolding read_value_def
proof (intro allI impI)
  fix v' r r' assume m: "read_members m" and a: "pr (JObj m) @ r = pr v' @ r' \<and> stops r \<and> stops r'"
  then have "shape v' = 6" using same_shape [of "JObj m" r v' r'] by simp
  then obtain m' where "v' = JObj m'" by (cases v') (auto split: if_splits)
  with a m show "JObj m = v' \<and> r = r'" by (auto simp: pr_obj read_members_def)
qed

lemma read_Nil: "read_list []"
  unfolding read_list_def
proof (intro allI impI)
  fix ys r r' assume a: "prl [] @ CHR '']'' # r = prl ys @ CHR '']'' # r'"
  show "[] = ys \<and> r = r'"
  proof (cases ys)
    case (Cons y ys')
    have "hd (prl ys @ CHR '']'' # r') = CHR '']''" using arg_cong [OF a, of hd] by (simp add: prl_Nil)
    with Cons pr_hd [of y] show ?thesis by (simp add: prl_Cons hd_append)
  qed (use a in simp)
qed

lemma read_Cons: "read_value x \<Longrightarrow> read_list xs \<Longrightarrow> read_list (x # xs)"
  unfolding read_list_def [of "x # xs"]
proof (intro allI impI)
  fix ys r r' assume x: "read_value x" and xs: "read_list xs" and a: "prl (x # xs) @ CHR '']'' # r = prl ys @ CHR '']'' # r'"
  show "x # xs = ys \<and> r = r'"
  proof (cases ys)
    case Nil
    have "hd (prl (x # xs) @ CHR '']'' # r) = CHR '']''" using arg_cong [OF a, of hd] Nil by (simp add: prl_Nil)
    with pr_hd [of x] show ?thesis by (simp add: prl_Cons hd_append)
  next
    case (Cons y ys')
    let ?t = "(if xs = [] then [] else '','' @ gap @ prl xs) @ CHR '']'' # r"
    let ?t' = "(if ys' = [] then [] else '','' @ gap @ prl ys') @ CHR '']'' # r'"
    from a Cons have "pr x @ ?t = pr y @ ?t'" by (simp add: prl_Cons)
    moreover have "stops ?t" "stops ?t'" by simp_all
    ultimately have "x = y" and t: "?t = ?t'" using x unfolding read_value_def by blast+
    have "xs = ys' \<and> r = r'"
      using t xs [unfolded read_list_def, rule_format, of r ys' r'] by (cases "xs = []"; cases "ys' = []") simp_all
    with Cons \<open>x = y\<close> show ?thesis by simp
  qed
qed

lemma read_no_members: "read_members []"
  unfolding read_members_def
proof (intro allI impI)
  fix m r r' assume a: "prm [] @ CHR ''}'' # r = prm m @ CHR ''}'' # r'"
  show "[] = m \<and> r = r'"
  proof (cases m)
    case (Cons kv m')
    obtain k v where kv: "kv = (k, v)" by (cases kv)
    have "hd (prm m @ CHR ''}'' # r') = CHR ''}''" using arg_cong [OF a, of hd] by (simp add: prm_Nil)
    with Cons kv pstr_hd [of k] show ?thesis by (simp add: prm_Cons hd_append)
  qed (use a in simp)
qed

lemma read_member: "read_value v \<Longrightarrow> read_members m \<Longrightarrow> read_members ((k, v) # m)"
  unfolding read_members_def [of "(k, v) # m"]
proof (intro allI impI)
  fix n r r' assume v: "read_value v" and m: "read_members m"
    and a: "prm ((k, v) # m) @ CHR ''}'' # r = prm n @ CHR ''}'' # r'"
  show "(k, v) # m = n \<and> r = r'"
  proof (cases n)
    case Nil
    have "hd (prm ((k, v) # m) @ CHR ''}'' # r) = CHR ''}''" using arg_cong [OF a, of hd] Nil by (simp add: prm_Nil)
    with pstr_hd [of k] show ?thesis by (simp add: prm_Cons hd_append)
  next
    case (Cons kv n')
    obtain k' v' where kv: "kv = (k', v')" by (cases kv)
    let ?t = "(if m = [] then [] else '','' @ gap @ prm m) @ CHR ''}'' # r"
    let ?t' = "(if n' = [] then [] else '','' @ gap @ prm n') @ CHR ''}'' # r'"
    from a Cons kv have "pstr k @ CHR '':'' # gap @ pr v @ ?t = pstr k' @ CHR '':'' # gap @ pr v' @ ?t'"
      by (simp add: prm_Cons)
    from pstr_inj [OF this] have "k = k'" and "pr v @ ?t = pr v' @ ?t'" by auto
    moreover have "stops ?t" "stops ?t'" by simp_all
    ultimately have "v = v'" and t: "?t = ?t'" using v unfolding read_value_def by blast+
    have "m = n' \<and> r = r'"
      using t m [unfolded read_members_def, rule_format, of r n' r'] by (cases "m = []"; cases "n' = []") simp_all
    with Cons kv \<open>k = k'\<close> \<open>v = v'\<close> show ?thesis by simp
  qed
qed

lemma shape_atom: "shape v' = shape JNull \<Longrightarrow> v' = JNull" "shape v' = shape (JBool b) \<Longrightarrow> v' = JBool b"
  by (cases v'; simp split: if_splits)+

lemma printed_unique: "read_value v" "read_list xs" "read_members m"
  by (induction v and xs and m rule: dumps_dumps_list_dumps_members.induct)
     (auto intro: read_atom shape_atom read_int read_str read_arr read_obj read_Nil read_Cons read_no_members read_member)

lemma printed_inj: "pr v = pr v' \<longleftrightarrow> v = v'"
  using printed_unique(1) [of v, unfolded read_value_def, rule_format, of "[]" v' "[]"] by auto

end

lemma shape_hd: "char_shape (hd (dumps v)) = shape v"
proof (cases v)
  case (JInt i)
  have "char_shape (hd (int_str i)) = 3"
    using char_shape_digit [OF nat_str_hd] by (auto simp: int_str_def) (simp add: char_shape_def)
  with JInt show ?thesis by simp
qed (auto simp: char_shape_def dumps_string_def)

lemma int_str_hd: "int_str i \<noteq> [] \<and> hd (int_str i) \<noteq> CHR '']''"
proof -
  have "\<not> is_digit CHR '']''" by code_simp
  then have "hd (nat_str n) \<noteq> CHR '']''" for n using nat_str_hd [of n] by auto
  then show ?thesis by (simp add: int_str_def)
qed

lemma hd_dumps: "dumps v \<noteq> [] \<and> hd (dumps v) \<noteq> CHR '']''"
  using int_str_hd by (cases v) (auto simp: dumps_string_def)

interpretation printed: json_printer dumps dumps_list dumps_members dumps_string "[]" char_shape
proof unfold_locales
  show "dumps_string s @ r = dumps_string t @ r' \<Longrightarrow> s = t \<and> r = r'" for s r t r' by (rule dumps_string_inj)
  show "dumps_string s \<noteq> [] \<and> hd (dumps_string s) \<noteq> CHR ''}''" for s by (simp add: dumps_string_def)
  show "dumps v \<noteq> [] \<and> hd (dumps v) \<noteq> CHR '']'' \<and> char_shape (hd (dumps v)) = shape v" for v
    by (simp add: shape_hd hd_dumps)
qed simp_all

lemma dumps_inj: "dumps v = dumps v' \<Longrightarrow> v = v'"
  by (simp add: printed.printed_inj)

text \<open>The canonical text of an object fixes each member's canonical value.\<close>

lemma canon_members_map: "canon_members m = map (\<lambda>(k, v). (k, canon v)) m"
  by (induction m) auto

lemma json_dumps_sorted_inj: "json_dumps_sorted v = json_dumps_sorted w \<Longrightarrow> canon v = canon w"
  unfolding json_dumps_sorted_def by (rule dumps_inj)

lemma alist_eqI:
  assumes "map fst xs = map fst ys" and "distinct (map fst xs)" and "set xs = set ys"
  shows "xs = ys"
  using assms
proof (induction xs arbitrary: ys)
  case (Cons x xs)
  then obtain y ys' where ys: "ys = y # ys'" and f: "fst x = fst y" by (cases ys) auto
  with Cons.prems have fresh: "fst x \<notin> fst ` set xs" "fst x \<notin> fst ` set ys'"
    by (auto simp: image_set simp del: set_map)
  have "x \<in> set ys" using Cons.prems(3) by auto
  with fresh f ys have xy: "x = y" by (auto simp: image_iff)
  have "set xs = set ys'" using Cons.prems(3) fresh ys xy by (auto simp: image_iff)
  then have "xs = ys'" using Cons.IH [of ys'] Cons.prems ys by simp
  with ys xy show ?case by simp
qed simp

lemma json_dumps_sorted_members:
  assumes "json_dumps_sorted (JObj m) = json_dumps_sorted (JObj m')"
    and "map fst m = map fst m'" and "distinct (map fst m)"
  shows "map (\<lambda>(k, v). (k, canon v)) m = map (\<lambda>(k, v). (k, canon v)) m'"
proof (rule alist_eqI)
  let ?c = "map (\<lambda>(k, v). (k, canon v))"
  show "map fst (?c m) = map fst (?c m')" "distinct (map fst (?c m))"
    using assms(2,3) by (simp_all add: comp_def case_prod_beta)
  have "sort_key fst (?c m) = sort_key fst (?c m')"
    using json_dumps_sorted_inj [OF assms(1)] by (simp add: canon_members_map)
  then have "set (sort_key fst (?c m)) = set (sort_key fst (?c m'))" by (rule arg_cong)
  then show "set (?c m) = set (?c m')" by (simp only: set_sort)
qed

end
