(* ===== verification/Common_Models.thy ===== *)
theory Common_Models
  imports Numi_Prelude
begin

text \<open>
  The shared vocabulary of the services (src/numi/common/models): failure codes and the
  exceptions that carry them, verified identities and roles, risk and blast radius, targets,
  tool definitions, tool calls, the Gateway/Execution contract and the discovered catalog.
  Enumerations whose names clash carry a prefix; record fields carry the prefix of their class.
\<close>

section \<open>Failure codes and exceptions (models/failures.py)\<close>

datatype FailureCode =
    AUTHENTICATION_FAILED | UNAUTHORIZED | TOOL_NOT_FOUND | TOOL_NOT_AVAILABLE
  | INVALID_ARGUMENTS | INVALID_TARGET | POLICY_DENIED | APPROVAL_REQUIRED
  | APPROVAL_EXPIRED | APPROVAL_INVALID | APPROVAL_MISMATCH | APPROVAL_ALREADY_DECIDED
  | SEPARATION_OF_DUTIES_VIOLATION | DUAL_APPROVAL_REQUIRED | RATE_LIMITED
  | DATABASE_UNAVAILABLE | EXECUTION_TIMEOUT | EXECUTION_FAILED | VERIFICATION_FAILED
  | RESULT_TRUNCATED | SECURITY_BLOCKED | PREFLIGHT_FAILED
  | STATE_CHANGED_REAPPROVAL_REQUIRED | DEPENDENCY_UNAVAILABLE | CHANGE_TICKET_REQUIRED

fun failure_value :: "FailureCode \<Rightarrow> string" where
  "failure_value AUTHENTICATION_FAILED = ''AUTHENTICATION_FAILED''"
| "failure_value UNAUTHORIZED = ''UNAUTHORIZED''"
| "failure_value TOOL_NOT_FOUND = ''TOOL_NOT_FOUND''"
| "failure_value TOOL_NOT_AVAILABLE = ''TOOL_NOT_AVAILABLE''"
| "failure_value INVALID_ARGUMENTS = ''INVALID_ARGUMENTS''"
| "failure_value INVALID_TARGET = ''INVALID_TARGET''"
| "failure_value POLICY_DENIED = ''POLICY_DENIED''"
| "failure_value APPROVAL_REQUIRED = ''APPROVAL_REQUIRED''"
| "failure_value APPROVAL_EXPIRED = ''APPROVAL_EXPIRED''"
| "failure_value APPROVAL_INVALID = ''APPROVAL_INVALID''"
| "failure_value APPROVAL_MISMATCH = ''APPROVAL_MISMATCH''"
| "failure_value APPROVAL_ALREADY_DECIDED = ''APPROVAL_ALREADY_DECIDED''"
| "failure_value SEPARATION_OF_DUTIES_VIOLATION = ''SEPARATION_OF_DUTIES_VIOLATION''"
| "failure_value DUAL_APPROVAL_REQUIRED = ''DUAL_APPROVAL_REQUIRED''"
| "failure_value RATE_LIMITED = ''RATE_LIMITED''"
| "failure_value DATABASE_UNAVAILABLE = ''DATABASE_UNAVAILABLE''"
| "failure_value EXECUTION_TIMEOUT = ''EXECUTION_TIMEOUT''"
| "failure_value EXECUTION_FAILED = ''EXECUTION_FAILED''"
| "failure_value VERIFICATION_FAILED = ''VERIFICATION_FAILED''"
| "failure_value RESULT_TRUNCATED = ''RESULT_TRUNCATED''"
| "failure_value SECURITY_BLOCKED = ''SECURITY_BLOCKED''"
| "failure_value PREFLIGHT_FAILED = ''PREFLIGHT_FAILED''"
| "failure_value STATE_CHANGED_REAPPROVAL_REQUIRED = ''STATE_CHANGED_REAPPROVAL_REQUIRED''"
| "failure_value DEPENDENCY_UNAVAILABLE = ''DEPENDENCY_UNAVAILABLE''"
| "failure_value CHANGE_TICKET_REQUIRED = ''CHANGE_TICKET_REQUIRED''"

definition failure_codes :: "FailureCode list" where
  "failure_codes =
     [AUTHENTICATION_FAILED, UNAUTHORIZED, TOOL_NOT_FOUND, TOOL_NOT_AVAILABLE,
      INVALID_ARGUMENTS, INVALID_TARGET, POLICY_DENIED, APPROVAL_REQUIRED,
      APPROVAL_EXPIRED, APPROVAL_INVALID, APPROVAL_MISMATCH, APPROVAL_ALREADY_DECIDED,
      SEPARATION_OF_DUTIES_VIOLATION, DUAL_APPROVAL_REQUIRED, RATE_LIMITED,
      DATABASE_UNAVAILABLE, EXECUTION_TIMEOUT, EXECUTION_FAILED, VERIFICATION_FAILED,
      RESULT_TRUNCATED, SECURITY_BLOCKED, PREFLIGHT_FAILED,
      STATE_CHANGED_REAPPROVAL_REQUIRED, DEPENDENCY_UNAVAILABLE, CHANGE_TICKET_REQUIRED]"

text \<open>
  \<open>NumiError\<close> is the exception every privileged boundary raises. Any other Python exception
  is \<open>PyExn\<close> with its class name: the code treats the two differently wherever it catches.
  An HTTP route turns failures into \<open>HTTPException\<close>s.
\<close>

datatype exn =
    NumiError FailureCode string
  | PyExn string
  | HTTPException int string

type_synonym 'a result = "exn + 'a"
type_synonym ('s, 'a) op = "('s, exn, 'a) comp"

definition FailureCode_of :: "string \<Rightarrow> FailureCode result" where
  \<comment> \<open>the enum's constructor: an unknown value is a \<open>ValueError\<close>\<close>
  "FailureCode_of s = (case find (\<lambda>c. failure_value c = s) failure_codes of
      Some c \<Rightarrow> Inr c | None \<Rightarrow> Inl (PyExn ''ValueError''))"

section \<open>Verified identities (models/identity.py)\<close>

datatype DBARole = DBA_L1 | DBA_L2 | DBA_L3 | DBA_MANAGER

fun role_value :: "DBARole \<Rightarrow> string" where
  "role_value DBA_L1 = ''DBA_L1''"
| "role_value DBA_L2 = ''DBA_L2''"
| "role_value DBA_L3 = ''DBA_L3''"
| "role_value DBA_MANAGER = ''DBA_MANAGER''"

fun ROLE_RANK :: "DBARole \<Rightarrow> nat" where
  "ROLE_RANK DBA_L1 = 1"
| "ROLE_RANK DBA_L2 = 2"
| "ROLE_RANK DBA_L3 = 3"
| "ROLE_RANK DBA_MANAGER = 4"

record VerifiedIdentity =
  subject_id :: string
  email :: string
  display_name :: string
  enterprise_groups :: "string list"
  dba_roles :: "DBARole list"
  mfa_satisfied :: bool
  authenticated_at :: string

definition is_dba :: "VerifiedIdentity \<Rightarrow> bool" where
  "is_dba i \<longleftrightarrow> length (dba_roles i) > 0"

definition has_role :: "VerifiedIdentity \<Rightarrow> DBARole \<Rightarrow> bool" where
  "has_role i r \<longleftrightarrow> r \<in> set (dba_roles i)"

fun max_role :: "DBARole \<Rightarrow> DBARole list \<Rightarrow> DBARole" where
  \<comment> \<open>\<open>max(..., key=ROLE_RANK)\<close> over a non-empty list: the first of the largest\<close>
  "max_role r [] = r"
| "max_role r (x # xs) = max_role (if ROLE_RANK x > ROLE_RANK r then x else r) xs"

definition highest_role :: "VerifiedIdentity \<Rightarrow> DBARole option" where
  "highest_role i = (case dba_roles i of [] \<Rightarrow> None | r # rs \<Rightarrow> Some (max_role r rs))"

section \<open>Risk vocabulary (models/risk.py)\<close>

datatype RiskLevel = LOW | MEDIUM | HIGH | CRITICAL

fun risk_value :: "RiskLevel \<Rightarrow> string" where
  "risk_value LOW = ''LOW''"
| "risk_value MEDIUM = ''MEDIUM''"
| "risk_value HIGH = ''HIGH''"
| "risk_value CRITICAL = ''CRITICAL''"

datatype BlastRadius =
    SINGLE_QUERY | SINGLE_SESSION | SINGLE_OBJECT | SINGLE_DATABASE
  | MULTIPLE_OBJECTS | MULTIPLE_DATABASES | CLUSTER | ENTERPRISE

datatype ReasonCode =
    RC_PRODUCTION | RC_NON_PRODUCTION | RC_CRITICAL_DATABASE | RC_HIGH_CRITICALITY_DATABASE
  | RC_WRITE_OPERATION | RC_READ_OPERATION | RC_IRREVERSIBLE | RC_AVAILABILITY_IMPACT
  | RC_OUTSIDE_MAINTENANCE_WINDOW | RC_INSIDE_MAINTENANCE_WINDOW | RC_HIGH_CURRENT_LOAD
  | RC_LARGE_BLAST_RADIUS | RC_MANY_AFFECTED_SESSIONS | RC_MANY_AFFECTED_OBJECTS
  | RC_PRIVILEGED_OPERATION

record RiskAssessment =
  ra_risk_level :: RiskLevel
  ra_score :: int
  ra_blast_radius :: BlastRadius
  ra_reversible :: bool
  ra_availability_impact :: bool
  ra_reason_codes :: "ReasonCode list"

section \<open>Targets (models/target.py)\<close>

datatype Environment = DEVELOPMENT | UAT | PRODUCTION

fun env_value :: "Environment \<Rightarrow> string" where
  "env_value DEVELOPMENT = ''development''"
| "env_value UAT = ''uat''"
| "env_value PRODUCTION = ''production''"

datatype Platform = SQLSERVER | POSTGRESQL | MYSQL | ORACLE | MARIADB

fun platform_value :: "Platform \<Rightarrow> string" where
  "platform_value SQLSERVER = ''sqlserver''"
| "platform_value POSTGRESQL = ''postgresql''"
| "platform_value MYSQL = ''mysql''"
| "platform_value ORACLE = ''oracle''"
| "platform_value MARIADB = ''mariadb''"

record DatabaseTarget =
  dt_environment :: Environment
  dt_platform :: "Platform option"
  dt_cluster :: "string option"
  dt_instance :: "string option"
  dt_database :: "string option"
  dt_schema_name :: "string option"
  dt_object_name :: "string option"
  dt_session_id :: "string option"
  dt_query_id :: "string option"

text \<open>
  The keys a target can be built from: the two aliased fields are read under their alias
  only, and the model forbids every other key. A dump is keyed by the field names.
\<close>

definition DatabaseTarget_aliases :: "string list" where
  "DatabaseTarget_aliases =
     [''environment'', ''platform'', ''cluster'', ''instance'', ''database'',
      ''schema'', ''object'', ''session_id'', ''query_id'']"

definition DatabaseTarget_fields :: "string list" where
  "DatabaseTarget_fields =
     [''environment'', ''platform'', ''cluster'', ''instance'', ''database'',
      ''schema_name'', ''object_name'', ''session_id'', ''query_id'']"

definition target_dump :: "DatabaseTarget \<Rightarrow> jdict" where
  \<comment> \<open>\<open>target.model_dump(mode="json")\<close>\<close>
  "target_dump t =
     [(''environment'', JStr (env_value (dt_environment t))),
      (''platform'', (case dt_platform t of None \<Rightarrow> JNull | Some p \<Rightarrow> JStr (platform_value p))),
      (''cluster'', opt_json (dt_cluster t)),
      (''instance'', opt_json (dt_instance t)),
      (''database'', opt_json (dt_database t)),
      (''schema_name'', opt_json (dt_schema_name t)),
      (''object_name'', opt_json (dt_object_name t)),
      (''session_id'', opt_json (dt_session_id t)),
      (''query_id'', opt_json (dt_query_id t))]"

definition scope_key :: "DatabaseTarget \<Rightarrow> string" where
  "scope_key t = join '':''
     [env_value (dt_environment t), opt_or (dt_instance t) ''*'', opt_or (dt_database t) ''*'',
      opt_or (dt_schema_name t) ''*'', opt_or (dt_object_name t) ''*'']"

section \<open>Tools and tool calls (models/tool.py, models/tool_arguments.py)\<close>

datatype OperationType = READ | WRITE | PRIVILEGED

fun operation_value :: "OperationType \<Rightarrow> string" where
  "operation_value READ = ''READ''"
| "operation_value WRITE = ''WRITE''"
| "operation_value PRIVILEGED = ''PRIVILEGED''"

datatype args_model =
    NoArgs | TopQueriesArgs | QueryPlanArgs | ErrorLogArgs | ReadOnlySqlArgs
  | CancelQueryArgs | KillSessionArgs | UpdateStatisticsArgs | CreateIndexArgs
  | RebuildIndexArgs | ModifyConfigurationArgs | RestartInstanceArgs | FailoverArgs
  | ExecuteSqlArgs | RestoreDatabaseArgs | CreateDatabaseArgs | DropDatabaseArgs
  | TruncateTableArgs | BulkDeleteArgs

datatype result_model = DiagnosticResult | WriteResult

text \<open>The schema documents of a tool are represented by the models they are generated from.\<close>

record ToolDefinition =
  td_tool_id :: string
  td_version :: string
  td_description :: string
  td_operation_type :: OperationType
  td_risk_level :: RiskLevel
  td_reversible :: bool
  td_availability_impact :: bool
  td_data_modification :: bool
  td_requires_approval :: bool
  td_allowed_roles :: "DBARole list"
  td_allowed_environments :: "Environment list"
  td_required_target_scope :: "string list"
  td_argument_schema :: args_model
  td_result_schema :: result_model
  td_max_execution_time :: nat
  td_max_result_rows :: nat
  td_audit_required :: bool
  td_enabled :: bool
  td_requires_change_ticket :: bool
  td_requires_dual_approval :: bool

record ToolCallRequest =
  rq_tool_id :: string
  rq_tool_version :: "string option"
  rq_arguments :: jdict
  rq_target :: jdict
  rq_reason :: string
  rq_conversation_id :: string
  rq_investigation_id :: "string option"
  rq_request_id :: string
  rq_channel :: string
  rq_channel_account_id :: string
  rq_approval_id :: "string option"
  rq_change_id :: "string option"

datatype ToolCallStatus = TC_EXECUTED | TC_APPROVAL_REQUIRED | TC_DENIED | TC_FAILED

type_synonym jrow = jdict

record tool_result =
  tr_columns :: "string list"
  tr_rows :: "jrow list"
  tr_row_count :: nat
  tr_truncated :: bool
  tr_masked_fields :: "string list"
  tr_literal_scrubbed_fields :: "string list"
  tr_affected :: jdict

record ToolCallResponse =
  rs_status :: ToolCallStatus
  rs_execution_id :: "string option"
  rs_approval_id :: "string option"
  rs_result :: "tool_result option"
  rs_failure_code :: "string option"
  rs_message :: string
  rs_risk :: "RiskAssessment option"
  rs_policy_decision :: "string option"

section \<open>Gateway and Execution Service contract (models/execution.py)\<close>

record ExecutionRequest =
  ex_execution_id :: string
  ex_tool_id :: string
  ex_tool_version :: string
  ex_platform :: Platform
  ex_server_id :: string
  ex_database :: string
  ex_schema_name :: "string option"
  ex_object_name :: "string option"
  ex_session_id :: "string option"
  ex_query_id :: "string option"
  ex_arguments :: jdict
  ex_max_execution_time :: nat
  ex_max_result_rows :: nat

record DiscoveryRequest =
  dq_server_id :: string
  dq_platform :: Platform
  dq_max_objects_per_database :: nat

record ExecutionResult =
  xr_execution_id :: string
  xr_success :: bool
  xr_columns :: "string list"
  xr_rows :: "jrow list"
  xr_row_count :: nat
  xr_truncated :: bool
  xr_affected :: jdict
  xr_error_code :: "string option"
  xr_error_detail :: "string option"
  xr_verification_status :: string
  xr_verification_detail :: string
  xr_duration_ms :: int

section \<open>The discovered catalog (models/catalog.py)\<close>

record DiscoveredObject =
  do_schema_name :: string
  do_name :: string
  do_kind :: string
  do_row_estimate :: "int option"
  do_size_bytes :: "int option"
  do_properties :: jdict

record DiscoveredExtension =
  de_name :: string
  de_installed_version :: "string option"
  de_default_version :: "string option"
  de_available :: bool

record DiscoveredDatabase =
  dd_name :: string
  dd_state :: string
  dd_size_bytes :: "int option"
  dd_options :: jdict
  dd_objects :: "DiscoveredObject list"
  dd_extensions :: "DiscoveredExtension list"

record LeastPrivilegeFinding =
  lp_checked :: bool
  lp_login :: string
  lp_has_user_table_select :: bool
  lp_granted_object_count :: int
  lp_count_is_lower_bound :: bool
  lp_sample_objects :: "string list"
  lp_scope_note :: string

definition warning_sign :: string where
  \<comment> \<open>the UTF-8 encoding of U+26A0 U+FE0F\<close>
  "warning_sign = [CHR 0xE2, CHR 0x9A, CHR 0xA0, CHR 0xEF, CHR 0xB8, CHR 0x8F]"

definition warning_text :: "LeastPrivilegeFinding \<Rightarrow> string option" where
  "warning_text f =
     (if \<not> lp_checked f \<or> \<not> lp_has_user_table_select f then None
      else
        let approx = (if lp_count_is_lower_bound f then ''at least '' else []);
            plural = (if lp_granted_object_count f = 1 then [] else ''s'');
            detail = (if lp_sample_objects f \<noteq> []
                      then '' (e.g. '' @ join '', '' (take 3 (lp_sample_objects f)) @ '')'' else [])
        in Some (warning_sign @ '' This server's diagnostic login ('' @
             opt_or (Some (lp_login f)) ''unknown'' @ '') has SELECT on '' @ approx @
             int_str (lp_granted_object_count f) @ '' user table/view'' @ plural @ detail @ '' '' @
             em_dash @ '' should be revoked for least-privilege; Numi never needs to read table data.''))"

record ServerCatalog =
  sc_server_id :: string
  sc_discovered_at :: "int option"
  sc_engine_version :: string
  sc_engine_edition :: string
  sc_instance_properties :: jdict
  sc_databases :: "DiscoveredDatabase list"
  sc_warnings :: "string list"
  sc_least_privilege :: "LeastPrivilegeFinding option"

definition catalog_database :: "ServerCatalog \<Rightarrow> string \<Rightarrow> DiscoveredDatabase option" where
  "catalog_database c name =
     (let lowered = lower (strip name)
      in find (\<lambda>d. lower (dd_name d) = lowered) (sc_databases c))"

definition database_names :: "ServerCatalog \<Rightarrow> string list" where
  "database_names c = map dd_name (sc_databases c)"

section \<open>Facts about the vocabulary\<close>

lemma failure_codes_all: "set failure_codes = UNIV"
proof -
  have "c \<in> set failure_codes" for c
    by (cases c) (simp_all add: failure_codes_def)
  then show ?thesis by auto
qed

lemma failure_value_inj: "failure_value c = failure_value d \<Longrightarrow> c = d"
  by (cases c; simp; cases d; simp)

lemma FailureCode_of_value [simp]: "FailureCode_of (failure_value c) = Inr c"
proof -
  have "c \<in> set failure_codes" by (simp add: failure_codes_all)
  then obtain d where d: "find (\<lambda>c'. failure_value c' = failure_value c) failure_codes = Some d"
    by (cases "find (\<lambda>c'. failure_value c' = failure_value c) failure_codes")
      (auto simp: find_None_iff)
  then have "failure_value d = failure_value c" by (auto dest: find_Some_iff_mem)
  then have "d = c" by (rule failure_value_inj)
  with d show ?thesis by (simp add: FailureCode_of_def)
qed

lemma role_value_inj [simp]: "role_value a = role_value b \<longleftrightarrow> a = b"
  by (cases a; cases b; simp)

lemma env_value_inj [simp]: "env_value a = env_value b \<longleftrightarrow> a = b"
  by (cases a; cases b; simp)

lemma platform_value_inj [simp]: "platform_value a = platform_value b \<longleftrightarrow> a = b"
  by (cases a; cases b; simp)

lemma risk_value_inj [simp]: "risk_value a = risk_value b \<longleftrightarrow> a = b"
  by (cases a; cases b; simp)

lemma opt_json_inj [simp]: "opt_json a = opt_json b \<longleftrightarrow> a = b"
  by (cases a; cases b; simp add: opt_json_def)

lemma target_dump_inj: "target_dump t = target_dump u \<Longrightarrow> t = u"
  by (cases t; cases u) (simp add: target_dump_def split: option.splits)

lemma target_dump_keys: "map fst (target_dump t) = DatabaseTarget_fields"
  by (simp add: target_dump_def DatabaseTarget_fields_def)

lemma ROLE_RANK_inj [simp]: "ROLE_RANK a = ROLE_RANK b \<longleftrightarrow> a = b"
  by (cases a; cases b; simp)

lemma max_role_mem: "max_role r rs \<in> insert r (set rs)"
  by (induction rs arbitrary: r) auto

lemma max_role_ub: "x \<in> insert r (set rs) \<Longrightarrow> ROLE_RANK x \<le> ROLE_RANK (max_role r rs)"
proof (induction rs arbitrary: r x)
  case (Cons y ys)
  let ?m = "if ROLE_RANK y > ROLE_RANK r then y else r"
  have "ROLE_RANK ?m \<le> ROLE_RANK (max_role ?m ys)" by (rule Cons.IH) simp
  with Cons.IH [of x ?m] Cons.prems show ?case by (auto split: if_splits)
qed simp

lemma highest_role_None [simp]: "highest_role i = None \<longleftrightarrow> \<not> is_dba i"
  by (simp add: highest_role_def is_dba_def split: list.splits)

lemma highest_role_Some:
  "highest_role i = Some r \<Longrightarrow>
     r \<in> set (dba_roles i) \<and> (\<forall>x \<in> set (dba_roles i). ROLE_RANK x \<le> ROLE_RANK r)"
  using max_role_mem max_role_ub by (fastforce simp: highest_role_def split: list.splits)

section \<open>Roles and risk levels are ordered\<close>

instantiation DBARole :: linorder
begin
definition less_eq_DBARole :: "DBARole \<Rightarrow> DBARole \<Rightarrow> bool" where
  "less_eq_DBARole a b \<longleftrightarrow> ROLE_RANK a \<le> ROLE_RANK b"
definition less_DBARole :: "DBARole \<Rightarrow> DBARole \<Rightarrow> bool" where
  "less_DBARole a b \<longleftrightarrow> ROLE_RANK a < ROLE_RANK b"
instance
  by standard (auto simp: less_eq_DBARole_def less_DBARole_def)
end

fun risk_index :: "RiskLevel \<Rightarrow> nat" where
  "risk_index LOW = 0"
| "risk_index MEDIUM = 1"
| "risk_index HIGH = 2"
| "risk_index CRITICAL = 3"

lemma risk_index_inj [simp]: "risk_index a = risk_index b \<longleftrightarrow> a = b"
  by (cases a; cases b; simp)

instantiation RiskLevel :: linorder
begin
definition less_eq_RiskLevel :: "RiskLevel \<Rightarrow> RiskLevel \<Rightarrow> bool" where
  "less_eq_RiskLevel a b \<longleftrightarrow> risk_index a \<le> risk_index b"
definition less_RiskLevel :: "RiskLevel \<Rightarrow> RiskLevel \<Rightarrow> bool" where
  "less_RiskLevel a b \<longleftrightarrow> risk_index a < risk_index b"
instance
  by standard (auto simp: less_eq_RiskLevel_def less_RiskLevel_def)
end

end
