(* ===== verification/Server_Registry.thy ===== *)
theory Server_Registry
  imports Common_Models
begin

text \<open>
  The server registry (gateway/domain/servers.py) and the normalisation of free-text server
  references it matches with (common/server_reference.py). The registry is the ordered list
  of entries read from the configuration; looking a target up either returns the single
  registered server it names or raises.
\<close>

section \<open>Normalising a server reference (server_reference.py)\<close>

definition is_alnum_lower :: "char \<Rightarrow> bool" where
  "is_alnum_lower c \<longleftrightarrow> is_lower c \<or> is_digit c"

function collapse_digits :: "string \<Rightarrow> string" where
  \<comment> \<open>every maximal run of digits becomes \<open>str(int(run))\<close>\<close>
  "collapse_digits [] = []"
| "collapse_digits (c # cs) =
     (if is_digit c
      then nat_str (digits_val (takeWhile is_digit (c # cs))) @ collapse_digits (dropWhile is_digit cs)
      else c # collapse_digits cs)"
  by pat_completeness auto
termination
  by (relation "measure length") (auto simp: le_imp_less_Suc length_dropWhile_le)

definition normalize_server_reference :: "string \<Rightarrow> string" where
  "normalize_server_reference text = collapse_digits (filter is_alnum_lower (lower text))"

section \<open>Registered servers (servers.py)\<close>

record DatabaseOverride =
  ov_criticality :: "string option"
  ov_classification :: "string option"
  ov_allowed_roles :: "DBARole list option"

record EffectivePolicy =
  ep_criticality :: string
  ep_classification :: string
  ep_allowed_roles :: "DBARole list"

record ServerEntry =
  se_id :: string
  se_platform :: Platform
  se_environment :: Environment
  se_host :: string
  se_port :: int
  se_aliases :: "string list"
  se_organization :: string
  se_region :: string
  se_criticality :: string
  se_classification :: string
  se_owner :: string
  se_support_team :: string
  se_maintenance_window :: "(string \<times> string) list"
  se_allowed_roles :: "DBARole list"
  se_database_overrides :: "(string \<times> DatabaseOverride) list"
  se_status :: string

definition default_override :: DatabaseOverride where
  "default_override =
     \<lparr>ov_criticality = None, ov_classification = None, ov_allowed_roles = None\<rparr>"

definition effective_for :: "ServerEntry \<Rightarrow> string option \<Rightarrow> EffectivePolicy" where
  "effective_for e database =
     (let override = (case map_of (se_database_overrides e) (opt_or database []) of
                        None \<Rightarrow> default_override | Some ov \<Rightarrow> ov)
      in \<lparr>ep_criticality = opt_or (ov_criticality override) (se_criticality e),
          ep_classification = opt_or (ov_classification override) (se_classification e),
          ep_allowed_roles = (case ov_allowed_roles override of
             Some rs \<Rightarrow> rs | None \<Rightarrow> se_allowed_roles e)\<rparr>)"

type_synonym ServerRegistry = "ServerEntry list"

definition by_id :: "ServerRegistry \<Rightarrow> string \<Rightarrow> ServerEntry option" where
  "by_id reg server_id = find (\<lambda>e. se_id e = server_id) reg"

definition exact_match :: "string \<Rightarrow> ServerEntry \<Rightarrow> bool" where
  "exact_match needle e \<longleftrightarrow>
     (let needle_normalized = normalize_server_reference needle
      in lower (se_id e) = needle
       \<or> list_ex (\<lambda>a. lower a = needle) (se_aliases e)
       \<or> lower (se_host e) = needle
       \<or> normalize_server_reference (se_id e) = needle_normalized
       \<or> list_ex (\<lambda>a. normalize_server_reference a = needle_normalized) (se_aliases e))"

definition substring_match :: "string \<Rightarrow> ServerEntry \<Rightarrow> bool" where
  "substring_match needle e \<longleftrightarrow>
     (let needle_normalized = normalize_server_reference needle
      in contains needle (lower (se_id e))
       \<or> list_ex (\<lambda>a. contains needle (lower a)) (se_aliases e)
       \<or> contains needle (lower (se_host e))
       \<or> contains needle_normalized (normalize_server_reference (se_id e))
       \<or> list_ex (\<lambda>a. contains needle_normalized (normalize_server_reference a)) (se_aliases e))"

definition narrow_by_hint :: "string option \<Rightarrow> ServerEntry list \<Rightarrow> ServerEntry list" where
  \<comment> \<open>one round of the loop over \<open>(target.instance, target.cluster)\<close>\<close>
  "narrow_by_hint hint candidates =
     (case hint of
        None \<Rightarrow> candidates
      | Some h \<Rightarrow>
          if h = [] then candidates
          else
            let needle = lower (strip h);
                exact = filter (exact_match needle) candidates
            in if exact \<noteq> [] then exact else filter (substring_match needle) candidates)"

definition database_match :: "string \<Rightarrow> ServerEntry \<Rightarrow> bool" where
  "database_match needle e \<longleftrightarrow>
     list_ex (\<lambda>a. contains needle (lower a)) (se_aliases e) \<or> contains needle (lower (se_id e))"

definition narrow_by_database :: "string option \<Rightarrow> ServerEntry list \<Rightarrow> ServerEntry list" where
  "narrow_by_database db candidates =
     (if nonempty db \<and> length candidates > 1
      then let needle = lower (strip (opt_or db []));
               narrowed = filter (database_match needle) candidates
           in if narrowed \<noteq> [] then narrowed else candidates
      else candidates)"

definition find_candidates :: "ServerRegistry \<Rightarrow> DatabaseTarget \<Rightarrow> ServerEntry list" where
  "find_candidates reg target =
     (let c0 = filter (\<lambda>e. se_environment e = dt_environment target \<and> se_status e = ''active'') reg;
          c1 = (case dt_platform target of
                  None \<Rightarrow> c0 | Some p \<Rightarrow> filter (\<lambda>e. se_platform e = p) c0);
          c2 = narrow_by_hint (dt_instance target) c1;
          c3 = narrow_by_hint (dt_cluster target) c2
      in narrow_by_database (dt_database target) c3)"

datatype resolve_error = NoServerError | AmbiguousServerError "ServerEntry list"

definition resolve :: "ServerRegistry \<Rightarrow> DatabaseTarget \<Rightarrow> resolve_error + ServerEntry" where
  "resolve reg target =
     (case find_candidates reg target of
        [] \<Rightarrow> Inl NoServerError
      | [e] \<Rightarrow> Inr e
      | candidates \<Rightarrow> Inl (AmbiguousServerError candidates))"

section \<open>The normal form of a reference\<close>

lemma filter_alnum_digits: "\<forall>c \<in> set s. is_digit c \<Longrightarrow> filter is_alnum_lower s = s"
  by (auto simp: is_alnum_lower_def filter_id_conv)

lemma collapse_digits_alnum:
  "\<forall>c \<in> set s. is_alnum_lower c \<Longrightarrow> \<forall>c \<in> set (collapse_digits s). is_alnum_lower c"
proof (induction s rule: collapse_digits.induct)
  case (2 c cs)
  show ?case
  proof (cases "is_digit c")
    case True
    have "\<forall>d \<in> set (dropWhile is_digit cs). is_alnum_lower d"
      using "2.prems" by (auto dest: set_dropWhileD)
    with True 2 show ?thesis by (auto simp: is_alnum_lower_def dest: bspec [OF nat_str_digits])
  next
    case False
    with 2 show ?thesis by auto
  qed
qed simp

lemma lower_alnum: "\<forall>c \<in> set s. is_alnum_lower c \<Longrightarrow> lower s = s"
  by (induction s) (auto simp: lower_def lower_char_def is_alnum_lower_def is_lower_def is_digit_def is_upper_def)

lemma collapse_digits_run:
  assumes "\<forall>c \<in> set ds. is_digit c" and "ds \<noteq> []" and "rest = [] \<or> \<not> is_digit (hd rest)"
  shows "collapse_digits (ds @ rest) = nat_str (digits_val ds) @ collapse_digits rest"
proof -
  from assms(2) obtain d ds' where ds: "ds = d # ds'" by (cases ds) auto
  have t: "takeWhile is_digit (ds @ rest) = ds"
    using assms by (intro takeWhile_append_stop) auto
  have "dropWhile is_digit (ds' @ rest) = rest"
    using assms ds by (intro dropWhile_append_stop) auto
  with t ds assms(1) show ?thesis by simp
qed

lemma collapse_digits_hd:
  "s \<noteq> [] \<Longrightarrow> \<not> is_digit (hd s) \<Longrightarrow> collapse_digits s \<noteq> [] \<and> \<not> is_digit (hd (collapse_digits s))"
  by (cases s) auto

lemma collapse_digits_Nil_iff [simp]: "collapse_digits s = [] \<longleftrightarrow> s = []"
  by (cases s) auto

lemma collapse_digits_idem: "collapse_digits (collapse_digits s) = collapse_digits s"
proof (induction s rule: collapse_digits.induct)
  case (2 c cs)
  show ?case
  proof (cases "is_digit c")
    case True
    let ?run = "takeWhile is_digit (c # cs)" and ?rest = "dropWhile is_digit cs"
    have stop: "collapse_digits ?rest = [] \<or> \<not> is_digit (hd (collapse_digits ?rest))"
      using collapse_digits_hd [of ?rest] hd_dropWhile [of is_digit cs] by auto
    have "collapse_digits (nat_str (digits_val ?run) @ collapse_digits ?rest)
        = nat_str (digits_val (nat_str (digits_val ?run))) @ collapse_digits (collapse_digits ?rest)"
      by (rule collapse_digits_run [OF nat_str_digits nat_str_not_Nil stop])
    with True 2 show ?thesis by simp
  next
    case False
    with 2 show ?thesis by simp
  qed
qed simp

lemma digits_val_cons: "digits_val (c # s) = (char_code c - 48) * 10 ^ length s + digits_val s"
proof (induction s rule: rev_induct)
  case (snoc x xs)
  have "digits_val (c # xs @ [x]) = 10 * digits_val (c # xs) + (char_code x - 48)"
    using digits_val_snoc [of "c # xs" x] by simp
  with snoc show ?case by (simp add: algebra_simps)
qed (simp add: digits_val_def)

lemma digits_val_zeros: "digits_val (replicate n CHR ''0'' @ ds) = digits_val ds"
  by (induction n) (simp_all add: digits_val_cons char_code_def)

section \<open>What the lookup returns\<close>

lemma narrow_by_hint_subset: "set (narrow_by_hint h cs) \<subseteq> set cs"
  by (auto simp: narrow_by_hint_def Let_def split: option.splits if_splits)

lemma narrow_by_database_subset: "set (narrow_by_database db cs) \<subseteq> set cs"
  by (auto simp: narrow_by_database_def Let_def split: if_splits)

lemma narrow_by_database_empty [simp]: "narrow_by_database db cs = [] \<longleftrightarrow> cs = []"
  by (auto simp: narrow_by_database_def Let_def split: if_splits)

lemma narrow_by_hint_match:
  "e \<in> set (narrow_by_hint (Some h) cs) \<Longrightarrow> h \<noteq> [] \<Longrightarrow>
     exact_match (lower (strip h)) e \<or> substring_match (lower (strip h)) e"
  by (auto simp: narrow_by_hint_def Let_def split: if_splits)

lemma find_candidates_sound:
  assumes "e \<in> set (find_candidates reg target)"
  shows "e \<in> set reg \<and> se_environment e = dt_environment target \<and> se_status e = ''active'' \<and>
         (\<forall>p. dt_platform target = Some p \<longrightarrow> se_platform e = p)"
proof -
  let ?c0 = "filter (\<lambda>e. se_environment e = dt_environment target \<and> se_status e = ''active'') reg"
  let ?c1 = "case dt_platform target of None \<Rightarrow> ?c0 | Some p \<Rightarrow> filter (\<lambda>e. se_platform e = p) ?c0"
  from assms have "e \<in> set ?c1"
    unfolding find_candidates_def Let_def
    using narrow_by_hint_subset narrow_by_database_subset by (metis (no_types, lifting) subsetD)
  then show ?thesis by (auto split: option.splits)
qed

lemma resolve_Inr_iff: "resolve reg target = Inr e \<longleftrightarrow> find_candidates reg target = [e]"
  by (auto simp: resolve_def split: list.splits)

lemma resolve_None_iff: "resolve reg target = Inl NoServerError \<longleftrightarrow> find_candidates reg target = []"
  by (auto simp: resolve_def split: list.splits)

lemma resolve_sound:
  assumes "resolve reg target = Inr e"
  shows "e \<in> set reg" "se_environment e = dt_environment target" "se_status e = ''active''"
proof -
  from assms have "e \<in> set (find_candidates reg target)" by (simp add: resolve_Inr_iff)
  then show "e \<in> set reg" "se_environment e = dt_environment target" "se_status e = ''active''"
    by (simp_all add: find_candidates_sound)
qed


section \<open>Guarantees of the registry\<close>

lemma collapse_digits_append:
  "a = [] \<or> \<not> is_digit (last a) \<Longrightarrow> collapse_digits (a @ b) = collapse_digits a @ collapse_digits b"
proof (induction a rule: collapse_digits.induct)
  case (2 c cs)
  show ?case
  proof (cases "is_digit c")
    case True
    with 2(3) have ne: "cs \<noteq> []" "\<not> is_digit (last cs)" by (auto split: if_splits)
    then have "\<exists>x \<in> set cs. \<not> is_digit x" by (meson last_in_set)
    then have d: "dropWhile is_digit (cs @ b) = dropWhile is_digit cs @ b"
      and t: "takeWhile is_digit (cs @ b) = takeWhile is_digit cs" and "dropWhile is_digit cs \<noteq> []"
      by (auto simp: dropWhile_append1 takeWhile_append1)
    then have "last (dropWhile is_digit cs) = last cs"
      by (metis last_append takeWhile_dropWhile_id)
    with 2(1) True ne d t show ?thesis by simp
  next
    case False
    with 2 show ?thesis by (auto split: if_splits)
  qed
qed simp

lemma collapse_digits_zeros:
  assumes "is_digit d"
  shows "collapse_digits (replicate n CHR ''0'' @ d # s) = collapse_digits (d # s)"
proof -
  have z: "is_digit CHR ''0''" by (simp add: is_digit_def char_code_def)
  let ?run = "takeWhile is_digit (d # s)" and ?rest = "dropWhile is_digit s"
  have split: "d # s = ?run @ ?rest" using assms by simp
  have stop: "?rest = [] \<or> \<not> is_digit (hd ?rest)" using hd_dropWhile [of is_digit s] by blast
  have "collapse_digits ((replicate n CHR ''0'' @ ?run) @ ?rest) =
      nat_str (digits_val (replicate n CHR ''0'' @ ?run)) @ collapse_digits ?rest"
    using assms z by (intro collapse_digits_run stop) (auto dest: set_takeWhileD)
  with split have "collapse_digits (replicate n CHR ''0'' @ d # s) = nat_str (digits_val ?run) @ collapse_digits ?rest"
    by (simp add: digits_val_zeros del: takeWhile.simps)
  with assms show ?thesis by simp
qed

text \<open>
  The normal form of a server reference is idempotent, and zero padding never matters: a
  number written with leading zeros after anything but another digit has the same normal form
  as the number without them, wherever it stands in the reference.
\<close>

theorem normalize_idempotent_unpadded:
  "normalize_server_reference (normalize_server_reference text) = normalize_server_reference text \<and>
   (is_digit d \<and> (filter is_alnum_lower (lower a) = [] \<or> \<not> is_digit (last (filter is_alnum_lower (lower a)))) \<longrightarrow>
      normalize_server_reference (a @ replicate n CHR ''0'' @ d # b) = normalize_server_reference (a @ d # b))"
proof (intro conjI impI)
  let ?f = "filter is_alnum_lower (lower text)"
  have n: "\<forall>c \<in> set (collapse_digits ?f). is_alnum_lower c" by (rule collapse_digits_alnum) simp
  then have f: "filter is_alnum_lower (collapse_digits ?f) = collapse_digits ?f" by (rule filter_True)
  show "normalize_server_reference (normalize_server_reference text) = normalize_server_reference text"
    unfolding normalize_server_reference_def by (simp only: lower_alnum [OF n] f collapse_digits_idem)
next
  let ?a = "filter is_alnum_lower (lower a)"
  assume h: "is_digit d \<and> (?a = [] \<or> \<not> is_digit (last ?a))"
  have digit_kept: "filter is_alnum_lower (lower (x # xs)) = x # filter is_alnum_lower (lower xs)" if "is_digit x" for x xs
    using that by (simp add: lower_def lower_char_def is_alnum_lower_def is_digit_def is_upper_def)
  have z: "filter is_alnum_lower (lower (replicate n CHR ''0'')) = replicate n CHR ''0''"
  proof (induction n)
    case (Suc n)
    have "is_digit CHR ''0''" by (simp add: is_digit_def char_code_def)
    then show ?case unfolding replicate_Suc by (simp only: digit_kept Suc)
  qed (simp add: lower_def)
  have app: "filter is_alnum_lower (lower (x @ y)) = filter is_alnum_lower (lower x) @ filter is_alnum_lower (lower y)" for x y
    by (simp add: lower_def)
  show "normalize_server_reference (a @ replicate n CHR ''0'' @ d # b) = normalize_server_reference (a @ d # b)"
    using h unfolding normalize_server_reference_def app
    by (simp add: z digit_kept collapse_digits_append collapse_digits_zeros)
qed

theorem normalize_idempotent_unpadded_witness:
  "normalize_server_reference ''prod-pg-001'' = normalize_server_reference ''prod-pg-1''"
  using normalize_idempotent_unpadded [of "[]" "CHR ''1''" "''prod-pg-''" 2 "[]"]
  by (simp add: numeral_2_eq_2 is_digit_def char_code_def lower_def lower_char_def is_alnum_lower_def is_lower_def is_upper_def)

text \<open>
  A target is resolved to a server only when the registry leaves no choice: the server is
  registered, active, in the target's environment and on its platform, and it is the only
  candidate; when the target names an instance, the server matches that name, and it matches it
  exactly if any active server of that environment and platform does.
\<close>

theorem resolve_unique:
  assumes "resolve reg target = Inr e"
  shows "find_candidates reg target = [e] \<and> e \<in> set reg \<and> se_status e = ''active'' \<and>
     se_environment e = dt_environment target \<and> (\<forall>p. dt_platform target = Some p \<longrightarrow> se_platform e = p) \<and>
     (\<forall>h. dt_instance target = Some h \<and> h \<noteq> [] \<longrightarrow>
        exact_match (lower (strip h)) e \<or>
        substring_match (lower (strip h)) e \<and>
        (\<forall>x \<in> set reg. se_status x = ''active'' \<and> se_environment x = dt_environment target \<and>
            (\<forall>p. dt_platform target = Some p \<longrightarrow> se_platform x = p) \<longrightarrow> \<not> exact_match (lower (strip h)) x))"
proof -
  from assms have one: "find_candidates reg target = [e]" by (simp add: resolve_Inr_iff)
  then have mem: "e \<in> set (find_candidates reg target)" by simp
  let ?c0 = "filter (\<lambda>e. se_environment e = dt_environment target \<and> se_status e = ''active'') reg"
  let ?c1 = "case dt_platform target of None \<Rightarrow> ?c0 | Some p \<Rightarrow> filter (\<lambda>e. se_platform e = p) ?c0"
  have c1: "x \<in> set ?c1 \<longleftrightarrow> x \<in> set reg \<and> se_status x = ''active'' \<and> se_environment x = dt_environment target \<and>
      (\<forall>p. dt_platform target = Some p \<longrightarrow> se_platform x = p)" for x
    by (auto split: option.splits)
  have "e \<in> set (narrow_by_hint (dt_instance target) ?c1)"
    using mem unfolding find_candidates_def Let_def
    using narrow_by_hint_subset narrow_by_database_subset by (metis (no_types, lifting) subsetD)
  then have "exact_match (lower (strip h)) e \<or>
      substring_match (lower (strip h)) e \<and> (\<forall>x \<in> set ?c1. \<not> exact_match (lower (strip h)) x)"
    if "dt_instance target = Some h \<and> h \<noteq> []" for h
    using that by (auto simp: narrow_by_hint_def Let_def filter_empty_conv split: if_splits)
  with one find_candidates_sound [OF mem] show ?thesis unfolding Ball_def c1 by auto
qed

definition server_named :: "string \<Rightarrow> ServerEntry" where
  "server_named name = \<lparr>se_id = name, se_platform = POSTGRESQL, se_environment = PRODUCTION, se_host = ''h'',
     se_port = 5432, se_aliases = [], se_organization = [], se_region = [], se_criticality = ''high'',
     se_classification = ''internal'', se_owner = [], se_support_team = [], se_maintenance_window = [],
     se_allowed_roles = [DBA_L1], se_database_overrides = [], se_status = ''active''\<rparr>"

definition instance_target :: "string \<Rightarrow> DatabaseTarget" where
  "instance_target name = \<lparr>dt_environment = PRODUCTION, dt_platform = None, dt_cluster = None,
     dt_instance = Some name, dt_database = None, dt_schema_name = None, dt_object_name = None,
     dt_session_id = None, dt_query_id = None\<rparr>"

lemmas registry_eval =
  resolve_def find_candidates_def narrow_by_hint_def narrow_by_database_def exact_match_def
  normalize_server_reference_def server_named_def instance_target_def Let_def lower_def lower_char_def strip_def
  is_alnum_lower_def is_digit_def is_lower_def is_upper_def is_space_def char_code_def digits_val_def nat_str.simps

theorem resolve_unique_witness:
  "resolve [server_named ''db-01'', server_named ''db-02''] (instance_target ''db 1'') = Inr (server_named ''db-01'') \<and>
   find_candidates [server_named ''db-01'', server_named ''db-02''] (instance_target ''db 1'') = [server_named ''db-01'']"
proof
  show r: "resolve [server_named ''db-01'', server_named ''db-02''] (instance_target ''db 1'') = Inr (server_named ''db-01'')"
    by (simp add: registry_eval)
  show "find_candidates [server_named ''db-01'', server_named ''db-02''] (instance_target ''db 1'') = [server_named ''db-01'']"
    using resolve_unique [OF r] by simp
qed

text \<open>
  Normalisation merges numbers that a separator keeps apart, so a reference can be resolved
  with confidence to a server it does not name: with only \<open>db-11\<close> registered, \<open>db-1-1\<close> is
  that server.
\<close>

theorem separated_numbers_merge:
  "resolve [server_named ''db-11''] (instance_target ''db-1-1'') = Inr (server_named ''db-11'')"
  by (simp add: registry_eval)

end
