(* ===== verification/Catalog_Store.thy ===== *)
theory Catalog_Store
  imports Common_Models
begin

text \<open>
  The catalog stores: the interface (gateway/domain/catalog.py, class CatalogStore) as a
  locale, the process-local store and the cached, database-backed store
  (gateway/infrastructure/catalog_store.py) as its two providers. A read may change a store
  (the first one loads the cache), so every operation returns the store it leaves. The JSON
  form of a catalog is made and read back by the model library: \<open>encode\<close> and \<open>decode\<close>. A
  write whose session fails is an outcome of \<open>db_write\<close>; the other components use \<open>db_put\<close>, a
  write that is committed.
\<close>

section \<open>The process-local store (class InMemoryCatalogStore)\<close>

type_synonym InMemoryCatalogStore = "(string \<times> ServerCatalog) list"

definition mem_get :: "InMemoryCatalogStore \<Rightarrow> string \<Rightarrow> ServerCatalog option \<times> InMemoryCatalogStore" where
  "mem_get s server_id = (map_of s server_id, s)"

definition mem_put :: "InMemoryCatalogStore \<Rightarrow> ServerCatalog \<Rightarrow> InMemoryCatalogStore" where
  "mem_put s catalog = dict_set s (sc_server_id catalog) catalog"

definition mem_all :: "InMemoryCatalogStore \<Rightarrow> ServerCatalog list \<times> InMemoryCatalogStore" where
  "mem_all s = (map snd s, s)"

section \<open>The database-backed store (class DbCatalogStore)\<close>

record ServerCatalogRecord =
  scr_server_id :: string
  scr_discovered_at :: "int option"
  scr_engine_version :: string
  scr_engine_edition :: string
  scr_catalog :: json

record DbCatalogStore =
  cs_cache :: "(string \<times> ServerCatalog) list"
  cs_loaded :: bool
  cs_rows :: "ServerCatalogRecord list"

definition load_row ::
    "(json \<Rightarrow> ServerCatalog option) \<Rightarrow> (string \<times> ServerCatalog) list \<Rightarrow> ServerCatalogRecord
       \<Rightarrow> (string \<times> ServerCatalog) list" where
  "load_row decode cache row =
     (case decode (scr_catalog row) of
        Some c \<Rightarrow> dict_set cache (scr_server_id row) c
      | None \<Rightarrow> cache)"

definition ensure_loaded :: "(json \<Rightarrow> ServerCatalog option) \<Rightarrow> DbCatalogStore \<Rightarrow> DbCatalogStore" where
  "ensure_loaded decode s =
     (if cs_loaded s then s
      else s\<lparr>cs_cache := foldl (load_row decode) (cs_cache s) (cs_rows s), cs_loaded := True\<rparr>)"

definition db_get ::
    "(json \<Rightarrow> ServerCatalog option) \<Rightarrow> DbCatalogStore \<Rightarrow> string \<Rightarrow> ServerCatalog option \<times> DbCatalogStore" where
  "db_get decode s server_id =
     (let s' = ensure_loaded decode s in (map_of (cs_cache s') server_id, s'))"

definition catalog_row :: "(ServerCatalog \<Rightarrow> json) \<Rightarrow> ServerCatalog \<Rightarrow> ServerCatalogRecord" where
  "catalog_row encode c =
     \<lparr>scr_server_id = sc_server_id c, scr_discovered_at = sc_discovered_at c,
      scr_engine_version = sc_engine_version c, scr_engine_edition = sc_engine_edition c,
      scr_catalog = encode c\<rparr>"

fun upsert_row :: "ServerCatalogRecord \<Rightarrow> ServerCatalogRecord list \<Rightarrow> ServerCatalogRecord list" where
  \<comment> \<open>\<open>session.get\<close> by primary key, then add or overwrite every other column\<close>
  "upsert_row r [] = [r]"
| "upsert_row r (x # xs) = (if scr_server_id x = scr_server_id r then r # xs else x # upsert_row r xs)"

definition db_write ::
    "(ServerCatalog \<Rightarrow> json) \<Rightarrow> (json \<Rightarrow> ServerCatalog option) \<Rightarrow> string option \<Rightarrow> DbCatalogStore \<Rightarrow> ServerCatalog
       \<Rightarrow> (string + unit) \<times> DbCatalogStore" where
  \<comment> \<open>\<open>put\<close>: the cache is set first; \<open>failure\<close> is the exception the session raises, up to its commit, if any\<close>
  "db_write encode decode failure s catalog =
     (let s' = ensure_loaded decode s;
          cached = s'\<lparr>cs_cache := dict_set (cs_cache s') (sc_server_id catalog) catalog\<rparr>
      in case failure of
           Some e \<Rightarrow> (Inl e, cached)
         | None \<Rightarrow> (Inr (), cached\<lparr>cs_rows := upsert_row (catalog_row encode catalog) (cs_rows cached)\<rparr>))"

definition db_put ::
    "(ServerCatalog \<Rightarrow> json) \<Rightarrow> (json \<Rightarrow> ServerCatalog option) \<Rightarrow> DbCatalogStore \<Rightarrow> ServerCatalog \<Rightarrow> DbCatalogStore" where
  \<comment> \<open>\<open>put\<close> on a database that commits\<close>
  "db_put encode decode s catalog = snd (db_write encode decode None s catalog)"

lemma db_put_eq:
  "db_put encode decode s catalog =
     (let s' = ensure_loaded decode s
      in s'\<lparr>cs_cache := dict_set (cs_cache s') (sc_server_id catalog) catalog,
            cs_rows := upsert_row (catalog_row encode catalog) (cs_rows s')\<rparr>)"
  by (simp add: db_put_def db_write_def Let_def)

definition db_all ::
    "(json \<Rightarrow> ServerCatalog option) \<Rightarrow> DbCatalogStore \<Rightarrow> ServerCatalog list \<times> DbCatalogStore" where
  "db_all decode s = (let s' = ensure_loaded decode s in (map snd (cs_cache s'), s'))"

section \<open>What a store promises\<close>

text \<open>
  \<open>view\<close> is the abstract content of a store. Reading returns it and leaves it as it is,
  writing updates it at one server, and the listing holds exactly the stored catalogs.
\<close>

locale catalog_store =
  fixes get :: "'s \<Rightarrow> string \<Rightarrow> ServerCatalog option \<times> 's"
    and put :: "'s \<Rightarrow> ServerCatalog \<Rightarrow> 's"
    and all :: "'s \<Rightarrow> ServerCatalog list \<times> 's"
    and view :: "'s \<Rightarrow> string \<rightharpoonup> ServerCatalog"
    and invar :: "'s \<Rightarrow> bool"
  assumes get_value: "invar s \<Longrightarrow> fst (get s k) = view s k"
    and get_view: "invar s \<Longrightarrow> view (snd (get s k)) = view s"
    and get_invar: "invar s \<Longrightarrow> invar (snd (get s k))"
    and put_view: "invar s \<Longrightarrow> view (put s c) = (view s)(sc_server_id c \<mapsto> c)"
    and put_invar: "invar s \<Longrightarrow> invar (put s c)"
    and all_value: "invar s \<Longrightarrow> set (fst (all s)) = ran (view s)"
    and all_view: "invar s \<Longrightarrow> view (snd (all s)) = view s"
begin

lemma get_after_put:
  "invar s \<Longrightarrow> fst (get (put s c) k) = (if k = sc_server_id c then Some c else fst (get s k))"
  by (simp add: get_value put_view put_invar)

lemma get_twice: "invar s \<Longrightarrow> fst (get (snd (get s j)) k) = fst (get s k)"
  by (simp add: get_value get_view get_invar)

lemma puts_invar: "invar s \<Longrightarrow> invar (foldl put s cs)"
  by (induction cs arbitrary: s) (auto simp: put_invar)

lemma get_after_puts:
  assumes "invar s"
  shows "fst (get (foldl put s cs) k) =
     (case find (\<lambda>c. sc_server_id c = k) (rev cs) of Some c \<Rightarrow> Some c | None \<Rightarrow> fst (get s k))"
  using assms
proof (induction cs rule: rev_induct)
  case (snoc c cs)
  then show ?case by (simp add: get_after_put puts_invar)
qed simp

end

section \<open>Both stores keep the promise\<close>

lemma dict_set_distinct: "distinct (map fst d) \<Longrightarrow> distinct (map fst (dict_set d k v))"
proof (induction d k v rule: dict_set.induct)
  case (2 k' v' d k v)
  have "set (map fst (dict_set d k v)) = insert k (set (map fst d))"
    by (induction d k v rule: dict_set.induct) auto
  with 2 show ?case by auto
qed simp

lemma ran_map_of_distinct: "distinct (map fst d) \<Longrightarrow> ran (map_of d) = snd ` set d"
  by (rule ran_distinct)

definition mem_invar :: "InMemoryCatalogStore \<Rightarrow> bool" where
  "mem_invar s \<longleftrightarrow> distinct (map fst s)"

interpretation mem: catalog_store mem_get mem_put mem_all map_of mem_invar
  by unfold_locales
    (auto simp: mem_get_def mem_put_def mem_all_def mem_invar_def dict_set_distinct ran_map_of_distinct)

definition db_invar :: "DbCatalogStore \<Rightarrow> bool" where
  "db_invar s \<longleftrightarrow> distinct (map fst (cs_cache s))"

definition db_view :: "(json \<Rightarrow> ServerCatalog option) \<Rightarrow> DbCatalogStore \<Rightarrow> string \<rightharpoonup> ServerCatalog" where
  "db_view decode s = map_of (cs_cache (ensure_loaded decode s))"

lemma load_rows_distinct:
  "distinct (map fst c) \<Longrightarrow> distinct (map fst (foldl (load_row decode) c rows))"
  by (induction rows arbitrary: c) (auto simp: load_row_def dict_set_distinct split: option.splits)

lemma ensure_loaded_loaded [simp]: "cs_loaded (ensure_loaded decode s)"
  by (simp add: ensure_loaded_def)

lemma ensure_loaded_idem [simp]: "ensure_loaded decode (ensure_loaded decode s) = ensure_loaded decode s"
  by (simp add: ensure_loaded_def)

lemma ensure_loaded_invar: "db_invar s \<Longrightarrow> db_invar (ensure_loaded decode s)"
  by (simp add: db_invar_def ensure_loaded_def load_rows_distinct)

lemma ensure_loaded_put [simp]:
  "ensure_loaded decode (db_put encode decode s c) = db_put encode decode s c"
proof -
  have "cs_loaded (db_put encode decode s c)" by (simp add: db_put_eq Let_def)
  then show ?thesis by (simp add: ensure_loaded_def)
qed

interpretation db: catalog_store "db_get decode" "db_put encode decode" "db_all decode"
    "db_view decode" db_invar for encode decode
proof unfold_locales
  fix s :: DbCatalogStore and k c
  assume inv: "db_invar s"
  then have inv': "db_invar (ensure_loaded decode s)" by (rule ensure_loaded_invar)
  show "fst (db_get decode s k) = db_view decode s k"
    by (simp add: db_get_def db_view_def Let_def)
  show "db_view decode (snd (db_get decode s k)) = db_view decode s"
    by (simp add: db_get_def db_view_def Let_def)
  show "db_invar (snd (db_get decode s k))"
    using inv' by (simp add: db_get_def Let_def)
  show "db_view decode (db_put encode decode s c) = (db_view decode s)(sc_server_id c \<mapsto> c)"
    unfolding db_view_def ensure_loaded_put by (simp add: db_put_eq Let_def)
  show "db_invar (db_put encode decode s c)"
    using inv' by (simp add: db_put_eq db_invar_def Let_def dict_set_distinct)
  show "set (fst (db_all decode s)) = ran (db_view decode s)"
    using inv' by (simp add: db_all_def db_view_def db_invar_def Let_def ran_map_of_distinct)
  show "db_view decode (snd (db_all decode s)) = db_view decode s"
    by (simp add: db_all_def db_view_def Let_def)
qed

section \<open>Durability\<close>

text \<open>
  A restart loses the cache and keeps the rows. The rows follow the cache: what a fresh
  process loads is what the previous one stored, provided a catalog survives its JSON form.
\<close>

definition restart :: "DbCatalogStore \<Rightarrow> DbCatalogStore" where
  "restart s = \<lparr>cs_cache = [], cs_loaded = False, cs_rows = cs_rows s\<rparr>"

lemma load_row_dom:
  "map_of (load_row decode c r) k =
     (if k = scr_server_id r \<and> decode (scr_catalog r) \<noteq> None then decode (scr_catalog r) else map_of c k)"
  by (auto simp: load_row_def split: option.splits)

lemma load_rows_other:
  "k \<notin> scr_server_id ` set rows \<Longrightarrow> map_of (foldl (load_row decode) c rows) k = map_of c k"
  by (induction rows arbitrary: c) (auto simp: load_row_dom)

lemma upsert_row_ids: "scr_server_id ` set (upsert_row r rows) = insert (scr_server_id r) (scr_server_id ` set rows)"
  by (induction r rows rule: upsert_row.induct) auto

lemma upsert_row_distinct:
  "distinct (map scr_server_id rows) \<Longrightarrow> distinct (map scr_server_id (upsert_row r rows))"
proof (induction r rows rule: upsert_row.induct)
  case (2 r x xs)
  have "scr_server_id ` set (upsert_row r xs) = insert (scr_server_id r) (scr_server_id ` set xs)"
    by (rule upsert_row_ids)
  with 2 show ?case by auto
qed simp

lemma load_rows_cong:
  "map_of m1 k = map_of m2 k \<Longrightarrow>
     map_of (foldl (load_row decode) m1 rows) k = map_of (foldl (load_row decode) m2 rows) k"
proof (induction rows arbitrary: m1 m2)
  case (Cons r rows)
  from Cons.prems have "map_of (load_row decode m1 r) k = map_of (load_row decode m2 r) k"
    by (auto simp: load_row_def split: option.splits)
  then have "map_of (foldl (load_row decode) (load_row decode m1 r) rows) k =
      map_of (foldl (load_row decode) (load_row decode m2 r) rows) k"
    by (rule Cons.IH)
  then show ?case by simp
qed simp

lemma load_upsert:
  assumes "distinct (map scr_server_id rows)" and "decode (scr_catalog r) = Some c"
  shows "map_of (foldl (load_row decode) m (upsert_row r rows)) k =
     (if k = scr_server_id r then Some c else map_of (foldl (load_row decode) m rows) k)"
  using assms
proof (induction r rows arbitrary: m rule: upsert_row.induct)
  case (2 r x xs)
  show ?case
  proof (cases "scr_server_id x = scr_server_id r")
    case True
    have other: "scr_server_id r \<notin> scr_server_id ` set xs" using "2.prems" True by auto
    show ?thesis
    proof (cases "k = scr_server_id r")
      case True
      with other \<open>scr_server_id x = scr_server_id r\<close> "2.prems" show ?thesis
        by (simp add: load_rows_other load_row_dom)
    next
      case False
      then have "map_of (load_row decode m r) k = map_of (load_row decode m x) k"
        using True by (simp add: load_row_dom)
      with True False show ?thesis by (auto intro: load_rows_cong)
    qed
  next
    case False
    with 2 show ?thesis by simp
  qed
qed (simp add: load_row_dom)

definition rows_follow_cache :: "(json \<Rightarrow> ServerCatalog option) \<Rightarrow> DbCatalogStore \<Rightarrow> bool" where
  "rows_follow_cache decode s \<longleftrightarrow> distinct (map scr_server_id (cs_rows s)) \<and>
     (\<forall>k. db_view decode (restart s) k = db_view decode s k)"

lemma db_put_rows_follow:
  assumes "rows_follow_cache decode s" and "decode (encode c) = Some c"
  shows "rows_follow_cache decode (db_put encode decode s c)"
proof -
  let ?s' = "db_put encode decode s c"
  have rows: "cs_rows ?s' = upsert_row (catalog_row encode c) (cs_rows s)"
    by (simp add: db_put_eq Let_def ensure_loaded_def)
  have d: "distinct (map scr_server_id (cs_rows s))"
    using assms(1) by (simp add: rows_follow_cache_def)
  have "db_view decode (restart ?s') k = db_view decode ?s' k" for k
  proof -
    have "db_view decode (restart ?s') k =
        (if k = sc_server_id c then Some c else db_view decode (restart s) k)"
      using load_upsert [OF d, of decode "catalog_row encode c" c "[]" k] assms(2) rows
      by (simp add: db_view_def restart_def ensure_loaded_def catalog_row_def)
    also have "\<dots> = db_view decode ?s' k"
      using assms(1) by (simp add: rows_follow_cache_def db_view_def db_put_eq Let_def ensure_loaded_def)
    finally show ?thesis .
  qed
  with d rows show ?thesis by (simp add: rows_follow_cache_def upsert_row_distinct)
qed


definition empty_store :: "ServerCatalogRecord list \<Rightarrow> DbCatalogStore" where
  \<comment> \<open>a freshly constructed store on the given table\<close>
  "empty_store rows = \<lparr>cs_cache = [], cs_loaded = False, cs_rows = rows\<rparr>"

lemma db_puts_rows_follow:
  "rows_follow_cache decode s \<Longrightarrow> \<forall>c \<in> set cs. decode (encode c) = Some c \<Longrightarrow>
     rows_follow_cache decode (foldl (db_put encode decode) s cs)"
  by (induction cs arbitrary: s) (auto intro: db_put_rows_follow)

lemma empty_store_follows:
  "distinct (map scr_server_id rows) \<Longrightarrow> rows_follow_cache decode (empty_store rows)"
  by (simp add: rows_follow_cache_def empty_store_def restart_def)

text \<open>
  A write that fails is half done: the exception is raised, but the cache was set before the
  session was opened. The process goes on to serve the catalog and a restart forgets it.
\<close>

theorem failed_write_served:
  assumes "db_write encode decode (Some e) s c = (r, s')" and "rows_follow_cache decode s"
  shows "r = Inl e \<and> fst (db_get decode s' (sc_server_id c)) = Some c \<and>
     fst (db_get decode (restart s') k) = fst (db_get decode s k)"
proof -
  have "restart s' = restart s" using assms(1) by (auto simp: db_write_def Let_def restart_def ensure_loaded_def)
  moreover have "db_view decode (restart s) k = db_view decode s k" using assms(2) by (simp add: rows_follow_cache_def)
  moreover have "r = Inl e" "cs_loaded s'" "map_of (cs_cache s') (sc_server_id c) = Some c"
    using assms(1) by (auto simp: db_write_def Let_def)
  ultimately show ?thesis by (simp add: db_get_def db_view_def Let_def ensure_loaded_def [of _ s'])
qed

text \<open>
  C35. A catalog that was stored survives a restart: after any sequence of writes to a fresh
  store on an existing table, a new process that starts on the same table reads, for every
  server, the catalog written last, and for a server never written what the table held before;
  so does the process that made the writes. The writes are those the database commits.
\<close>

theorem catalog_durable:
  assumes "\<forall>c \<in> set cs. decode (encode c) = Some c" and "distinct (map scr_server_id rows)"
  shows "fst (db_get decode (restart (foldl (db_put encode decode) (empty_store rows) cs)) k) =
       (case find (\<lambda>c. sc_server_id c = k) (rev cs) of
          Some c \<Rightarrow> Some c | None \<Rightarrow> fst (db_get decode (empty_store rows) k)) \<and>
     fst (db_get decode (foldl (db_put encode decode) (empty_store rows) cs) k) =
       fst (db_get decode (restart (foldl (db_put encode decode) (empty_store rows) cs)) k)"
proof -
  let ?s = "foldl (db_put encode decode) (empty_store rows) cs"
  have inv0: "db_invar (empty_store rows)" by (simp add: db_invar_def empty_store_def)
  have "rows_follow_cache decode ?s"
    by (rule db_puts_rows_follow [OF empty_store_follows [OF assms(2)] assms(1)])
  then have "db_view decode (restart ?s) k = db_view decode ?s k" by (simp add: rows_follow_cache_def)
  then have "fst (db_get decode (restart ?s) k) = fst (db_get decode ?s k)"
    by (simp add: db_get_def db_view_def Let_def)
  with db.get_after_puts [OF inv0, of decode encode cs k] show ?thesis by simp
qed

definition small_catalog :: "string \<Rightarrow> string \<Rightarrow> ServerCatalog" where
  "small_catalog server version = \<lparr>sc_server_id = server, sc_discovered_at = None, sc_engine_version = version,
     sc_engine_edition = [], sc_instance_properties = [], sc_databases = [], sc_warnings = [], sc_least_privilege = None\<rparr>"

definition small_encode :: "ServerCatalog \<Rightarrow> json" where
  "small_encode c = JArr [JStr (sc_server_id c), JStr (sc_engine_version c)]"

fun small_decode :: "json \<Rightarrow> ServerCatalog option" where
  "small_decode (JArr [JStr server, JStr version]) = Some (small_catalog server version)"
| "small_decode _ = None"

theorem catalog_durable_witness:
  "fst (db_get small_decode (restart (foldl (db_put small_encode small_decode) (empty_store [])
     [small_catalog ''a'' ''15'', small_catalog ''b'' ''8'', small_catalog ''a'' ''16''])) ''a'') =
   Some (small_catalog ''a'' ''16'')"
  using catalog_durable [of "[small_catalog ''a'' ''15'', small_catalog ''b'' ''8'', small_catalog ''a'' ''16'']"
      small_decode small_encode "[]" "''a''"]
  by (simp add: small_catalog_def small_encode_def)

text \<open>
  The two stores are interchangeable: after the same writes, the process-local store and
  the database-backed one answer every read alike and list the same catalogs.
\<close>

theorem stores_agree:
  "fst (db_get decode (foldl (db_put encode decode) (empty_store []) cs) k) = fst (mem_get (foldl mem_put [] cs) k) \<and>
   set (fst (db_all decode (foldl (db_put encode decode) (empty_store []) cs))) =
     set (fst (mem_all (foldl mem_put [] cs)))"
proof -
  let ?d = "foldl (db_put encode decode) (empty_store []) cs" and ?m = "foldl mem_put [] cs"
  have d0: "db_invar (empty_store [])" by (simp add: db_invar_def empty_store_def)
  have m0: "mem_invar []" by (simp add: mem_invar_def)
  have dinv: "db_invar ?d" by (rule db.puts_invar [OF d0])
  have minv: "mem_invar ?m" by (rule mem.puts_invar [OF m0])
  have start: "fst (db_get decode (empty_store []) j) = fst (mem_get [] j)" for j
    by (simp add: db_get_def mem_get_def empty_store_def ensure_loaded_def Let_def)
  have get: "fst (db_get decode ?d j) = fst (mem_get ?m j)" for j
    unfolding db.get_after_puts [OF d0] mem.get_after_puts [OF m0] start ..
  then have "db_view decode ?d = map_of ?m"
    using db.get_value [OF dinv, of decode] mem.get_value [OF minv] by (auto simp: fun_eq_iff)
  with get db.all_value [OF dinv, of decode] mem.all_value [OF minv] show ?thesis by simp
qed

end
