(* ===== verification/Target_Validation.thy ===== *)
theory Target_Validation
  imports Server_Registry Catalog_Store
begin

text \<open>
  Target validation (gateway/domain/target_validation.py): a proposed target becomes a
  \<open>TargetContext\<close> only if it names exactly one registered server, a database (and object)
  the discovered catalog knows, and every field the tool requires.
\<close>

record TargetContext =
  ctx_target :: DatabaseTarget
  ctx_server :: ServerEntry
  ctx_database :: string
  ctx_criticality :: string
  ctx_classification :: string
  ctx_allowed_roles :: "DBARole list"
  ctx_discovered_database :: "DiscoveredDatabase option"

definition ctx_environment :: "TargetContext \<Rightarrow> Environment" where
  "ctx_environment ctx = se_environment (ctx_server ctx)"

definition ctx_platform :: "TargetContext \<Rightarrow> Platform" where
  "ctx_platform ctx = se_platform (ctx_server ctx)"

definition ctx_maintenance_window :: "TargetContext \<Rightarrow> (string \<times> string) list" where
  "ctx_maintenance_window ctx = se_maintenance_window (ctx_server ctx)"

definition FIELD_ALIASES :: "(string \<times> string) list" where
  "FIELD_ALIASES = [(''schema'', ''schema_name''), (''object'', ''object_name'')]"

definition field_alias :: "string \<Rightarrow> string" where
  "field_alias name = (case map_of FIELD_ALIASES name of None \<Rightarrow> name | Some a \<Rightarrow> a)"

definition effective_fields ::
    "DatabaseTarget \<Rightarrow> ServerEntry \<Rightarrow> string \<Rightarrow> (string \<times> string option) list" where
  "effective_fields target server database =
     [(''environment'', Some (env_value (dt_environment target))),
      (''instance'', Some (opt_or (dt_instance target) (se_id server))),
      (''cluster'', Some (opt_or (dt_cluster target) (se_id server))),
      (''database'', Some database),
      (''schema_name'', dt_schema_name target),
      (''object_name'', dt_object_name target),
      (''session_id'', dt_session_id target),
      (''query_id'', dt_query_id target)]"

definition missing_fields ::
    "DatabaseTarget \<Rightarrow> ServerEntry \<Rightarrow> string \<Rightarrow> string list \<Rightarrow> string list" where
  "missing_fields target server database required_scope =
     filter (\<lambda>name. \<not> nonempty
       (case map_of (effective_fields target server database) (field_alias name) of
          None \<Rightarrow> None | Some v \<Rightarrow> v)) required_scope"

definition check_required_fields ::
    "DatabaseTarget \<Rightarrow> ServerEntry \<Rightarrow> string \<Rightarrow> string list \<Rightarrow> unit result" where
  "check_required_fields target server database required_scope =
     (let missing = missing_fields target server database required_scope
      in if missing \<noteq> []
         then Inl (NumiError INVALID_TARGET
                (''Missing required target field(s) for this operation: '' @ join '', '' missing @ ''.''))
         else Inr ())"

definition resolve_server :: "ServerRegistry \<Rightarrow> DatabaseTarget \<Rightarrow> ServerEntry result" where
  "resolve_server reg target =
     (case resolve reg target of
        Inr e \<Rightarrow> Inr e
      | Inl (AmbiguousServerError cs) \<Rightarrow>
          Inl (NumiError INVALID_TARGET
            (''Multiple servers match this target '' @ em_dash @ '' please say which one: '' @
             join '', '' (map (\<lambda>c. se_id c @ '' ('' @ env_value (se_environment c) @ '')'') cs) @ ''.''))
      | Inl NoServerError \<Rightarrow>
          Inl (NumiError INVALID_TARGET ''No registered server matches the given target.''))"

definition check_database ::
    "ServerCatalog option \<Rightarrow> ServerEntry \<Rightarrow> string \<Rightarrow> string list
       \<Rightarrow> (string \<times> DiscoveredDatabase option) result" where
  "check_database catalog server database required_scope =
     (case catalog of
        None \<Rightarrow> Inr (database, None)
      | Some c \<Rightarrow>
          if sc_databases c = [] then Inr (database, None)
          else
            let names = join '', '' (take 20 (database_names c))
            in if database = []
               then if ''database'' \<in> set required_scope
                    then Inl (NumiError INVALID_TARGET
                           (''Which database on '' @ se_id server @ ''? Discovered: '' @ names))
                    else Inr (database, None)
               else (case catalog_database c database of
                       None \<Rightarrow> Inl (NumiError INVALID_TARGET
                         (''Database '' @ [CHR 0x27] @ database @ [CHR 0x27] @ '' was not found on '' @
                          se_id server @ ''. Discovered databases: '' @ names))
                     | Some d \<Rightarrow> Inr (dd_name d, Some d)))"

definition check_object ::
    "DatabaseTarget \<Rightarrow> ServerEntry \<Rightarrow> string \<Rightarrow> DiscoveredDatabase option \<Rightarrow> unit result" where
  "check_object target server database discovered_db =
     (case discovered_db of
        None \<Rightarrow> Inr ()
      | Some d \<Rightarrow>
          (case dt_object_name target of
             None \<Rightarrow> Inr ()
           | Some obj \<Rightarrow>
               if obj \<noteq> [] \<and> dd_objects d \<noteq> []
                  \<and> lower obj \<notin> set (map (\<lambda>x. lower (do_name x)) (dd_objects d))
               then Inl (NumiError INVALID_TARGET
                      (''Object '' @ [CHR 0x27] @ obj @ [CHR 0x27] @ '' was not found in '' @
                       se_id server @ ''/'' @ database @ ''.''))
               else Inr ()))"

definition make_context ::
    "DatabaseTarget \<Rightarrow> ServerEntry \<Rightarrow> string \<Rightarrow> DiscoveredDatabase option \<Rightarrow> TargetContext" where
  "make_context target server database discovered_db =
     (let eff = effective_for server (Some database)
      in \<lparr>ctx_target = target, ctx_server = server, ctx_database = database,
          ctx_criticality = ep_criticality eff, ctx_classification = ep_classification eff,
          ctx_allowed_roles = ep_allowed_roles eff, ctx_discovered_database = discovered_db\<rparr>)"

definition validate_on ::
    "DatabaseTarget \<Rightarrow> string list \<Rightarrow> ServerEntry \<Rightarrow> ServerCatalog option \<Rightarrow> TargetContext result" where
  \<comment> \<open>steps 2 to 4, on the resolved server and the catalog the store holds for it\<close>
  "validate_on target required_scope server catalog =
     bindE (check_database catalog server
              (strip (opt_or (dt_database target) [])) required_scope) (\<lambda>(database, discovered_db).
     bindE (check_required_fields target server database required_scope) (\<lambda>_.
     bindE (check_object target server database discovered_db) (\<lambda>_.
     Inr (make_context target server database discovered_db))))"

definition validate ::
    "ServerRegistry \<Rightarrow> (json \<Rightarrow> ServerCatalog option) \<Rightarrow> DatabaseTarget \<Rightarrow> string list
       \<Rightarrow> (DbCatalogStore, TargetContext) op" where
  \<comment> \<open>the store is only read once a server is resolved; the read may load its cache\<close>
  "validate reg decode target required_scope =
     bindM (liftE (resolve_server reg target)) (\<lambda>server.
     bindM (\<lambda>s. case db_get decode s (se_id server) of (c, s') \<Rightarrow> (Inr c, s')) (\<lambda>catalog.
     liftE (validate_on target required_scope server catalog)))"

definition validate_with ::
    "ServerRegistry \<Rightarrow> (string \<Rightarrow> ServerCatalog option) \<Rightarrow> DatabaseTarget \<Rightarrow> string list
       \<Rightarrow> TargetContext result" where
  \<comment> \<open>the outcome of \<open>validate\<close>, as a function of what the store holds\<close>
  "validate_with reg catalogs target required_scope =
     bindE (resolve_server reg target) (\<lambda>server.
       validate_on target required_scope server (catalogs (se_id server)))"

section \<open>What validation establishes\<close>

lemma validate_eq:
  assumes "db_invar s"
  shows "fst (validate reg decode target scope s) = validate_with reg (db_view decode s) target scope"
proof (cases "resolve_server reg target")
  case (Inr server)
  have "fst (db_get decode s (se_id server)) = db_view decode s (se_id server)"
    using assms by (rule db.get_value)
  with Inr show ?thesis
    by (auto simp: validate_def validate_with_def bindM_def split: prod.splits)
qed (simp add: validate_def validate_with_def)

lemma validate_store:
  "db_invar s \<Longrightarrow> db_invar (snd (validate reg decode target scope s)) \<and>
     db_view decode (snd (validate reg decode target scope s)) = db_view decode s"
  using db.get_invar [of s] db.get_view [of s]
  by (cases "resolve_server reg target")
    (auto simp: validate_def bindM_def split: prod.splits dest!: arg_cong [where f = snd])

lemma resolve_server_Inr [simp]: "resolve_server reg target = Inr e \<longleftrightarrow> resolve reg target = Inr e"
  by (auto simp: resolve_server_def split: sum.splits resolve_error.splits)

lemma resolve_server_Inl: "resolve_server reg target = Inl x \<Longrightarrow> \<exists>d. x = NumiError INVALID_TARGET d"
  by (auto simp: resolve_server_def split: sum.splits resolve_error.splits)

lemma check_database_Inl:
  "check_database c e d r = Inl x \<Longrightarrow> \<exists>m. x = NumiError INVALID_TARGET m"
  by (auto simp: check_database_def Let_def split: option.splits if_splits)

lemma check_required_fields_Inl:
  "check_required_fields t e d r = Inl x \<Longrightarrow> \<exists>m. x = NumiError INVALID_TARGET m"
  by (auto simp: check_required_fields_def Let_def split: if_splits)

lemma check_object_Inl: "check_object t e d o' = Inl x \<Longrightarrow> \<exists>m. x = NumiError INVALID_TARGET m"
  by (auto simp: check_object_def split: option.splits if_splits)

lemma validate_with_Inr:
  assumes "validate_with reg catalogs target scope = Inr ctx"
  obtains server database dd where
    "resolve reg target = Inr server"
    "check_database (catalogs (se_id server)) server (strip (opt_or (dt_database target) [])) scope
       = Inr (database, dd)"
    "check_required_fields target server database scope = Inr ()"
    "check_object target server database dd = Inr ()"
    "ctx = make_context target server database dd"
  using assms by (auto simp: validate_with_def validate_on_def split: prod.splits)

lemma validate_with_Inl:
  "validate_with reg catalogs target scope = Inl x \<Longrightarrow> \<exists>m. x = NumiError INVALID_TARGET m"
  by (auto simp: validate_with_def validate_on_def bindE_Inl_iff split: prod.splits
      dest: resolve_server_Inl check_database_Inl check_required_fields_Inl check_object_Inl)

lemma check_database_known:
  assumes "check_database (Some c) server database scope = Inr (db', dd)" and "sc_databases c \<noteq> []"
  shows "(database = [] \<and> db' = [] \<and> dd = None \<and> ''database'' \<notin> set scope) \<or>
     (\<exists>d. catalog_database c database = Some d \<and> db' = dd_name d \<and> dd = Some d)"
proof (cases "database = []")
  case True
  with assms show ?thesis by (auto simp: check_database_def Let_def split: if_splits)
next
  case False
  show ?thesis
  proof (cases "catalog_database c database")
    case (Some d)
    with assms False have "db' = dd_name d \<and> dd = Some d" by (simp add: check_database_def Let_def)
    with Some show ?thesis by simp
  qed (use assms False in \<open>simp add: check_database_def Let_def\<close>)
qed

lemma catalog_database_mem:
  "catalog_database c name = Some d \<Longrightarrow> d \<in> set (sc_databases c) \<and> lower (dd_name d) = lower (strip name)"
  by (auto simp: catalog_database_def Let_def dest: find_Some_iff_mem)

lemma make_context_simps [simp]:
  "ctx_server (make_context t e d dd) = e"
  "ctx_target (make_context t e d dd) = t"
  "ctx_database (make_context t e d dd) = d"
  "ctx_discovered_database (make_context t e d dd) = dd"
  by (simp_all add: make_context_def Let_def)

lemma missing_fields_Nil_iff:
  "missing_fields t e d scope = [] \<longleftrightarrow>
     (\<forall>name \<in> set scope. \<exists>v. map_of (effective_fields t e d) (field_alias name) = Some (Some v) \<and> v \<noteq> [])"
proof -
  have "nonempty (case m of None \<Rightarrow> None | Some v \<Rightarrow> v) \<longleftrightarrow> (\<exists>v. m = Some (Some v) \<and> v \<noteq> [])" for m
    by (cases m) (auto simp: nonempty_def split: option.splits)
  then show ?thesis by (simp add: missing_fields_def filter_empty_conv)
qed

lemma check_required_fields_Inr [simp]:
  "check_required_fields t e d scope = Inr () \<longleftrightarrow> missing_fields t e d scope = []"
  by (simp add: check_required_fields_def Let_def)


section \<open>Guarantees of validation\<close>

definition valid_context ::
    "ServerRegistry \<Rightarrow> (string \<Rightarrow> ServerCatalog option) \<Rightarrow> DatabaseTarget \<Rightarrow> string list \<Rightarrow> TargetContext \<Rightarrow> bool" where
  \<comment> \<open>what a validated target is promised to satisfy\<close>
  "valid_context reg catalogs target scope ctx \<longleftrightarrow>
     resolve reg target = Inr (ctx_server ctx) \<and> ctx_server ctx \<in> set reg \<and>
     ctx_environment ctx = dt_environment target \<and> ctx_target ctx = target \<and>
     (\<forall>c. catalogs (se_id (ctx_server ctx)) = Some c \<and> sc_databases c \<noteq> [] \<longrightarrow>
        (ctx_database ctx = [] \<and> ''database'' \<notin> set scope) \<or>
        (\<exists>d \<in> set (sc_databases c). ctx_discovered_database ctx = Some d \<and> ctx_database ctx = dd_name d \<and>
           (\<forall>obj. dt_object_name target = Some obj \<and> obj \<noteq> [] \<and> dd_objects d \<noteq> [] \<longrightarrow>
              lower obj \<in> lower ` do_name ` set (dd_objects d)))) \<and>
     (\<forall>name \<in> set scope. \<exists>v. map_of (effective_fields target (ctx_server ctx) (ctx_database ctx)) (field_alias name)
        = Some (Some v) \<and> v \<noteq> [])"

lemma check_object_known:
  "check_object target server database (Some d) = Inr () \<Longrightarrow> dt_object_name target = Some obj \<Longrightarrow> obj \<noteq> [] \<Longrightarrow>
     dd_objects d \<noteq> [] \<Longrightarrow> lower obj \<in> lower ` do_name ` set (dd_objects d)"
  by (auto simp: check_object_def image_image split: if_splits)

lemma validate_with_valid:
  assumes "validate_with reg catalogs target scope = Inr ctx"
  shows "valid_context reg catalogs target scope ctx"
proof -
  from assms obtain server database dd where r: "resolve reg target = Inr server"
    and db: "check_database (catalogs (se_id server)) server (strip (opt_or (dt_database target) [])) scope
       = Inr (database, dd)"
    and f: "check_required_fields target server database scope = Inr ()"
    and ob: "check_object target server database dd = Inr ()"
    and ctx: "ctx = make_context target server database dd"
    by (rule validate_with_Inr)
  have known: "(database = [] \<and> ''database'' \<notin> set scope) \<or>
      (\<exists>d \<in> set (sc_databases c). dd = Some d \<and> database = dd_name d)"
    if "catalogs (se_id server) = Some c" "sc_databases c \<noteq> []" for c
    using check_database_known [of c server _ scope database dd] db that catalog_database_mem by fastforce
  show ?thesis unfolding valid_context_def ctx make_context_simps
  proof (intro conjI allI impI)
    fix c assume "catalogs (se_id server) = Some c \<and> sc_databases c \<noteq> []"
    with known [of c] ob check_object_known [of target server database]
    show "(database = [] \<and> ''database'' \<notin> set scope) \<or>
        (\<exists>d \<in> set (sc_databases c). dd = Some d \<and> database = dd_name d \<and>
           (\<forall>obj. dt_object_name target = Some obj \<and> obj \<noteq> [] \<and> dd_objects d \<noteq> [] \<longrightarrow>
              lower obj \<in> lower ` do_name ` set (dd_objects d)))" by blast
  qed (use r resolve_sound [OF r] f in \<open>simp_all add: ctx_environment_def missing_fields_Nil_iff\<close>)
qed

text \<open>
  Target validation fails closed: a target passes only when it resolves to one registered,
  active server of its own environment; when that server has been discovered, the database is
  one the catalog lists (under the catalog's spelling) or was neither given nor required, and a
  named object exists in it if its objects are known; and every field the tool requires is
  there. It raises nothing but INVALID_TARGET, and never changes what the catalog store holds.
\<close>

theorem validation_fails_closed:
  assumes "db_invar s" and "validate reg decode target scope s = (r, s')"
  shows "(\<forall>ctx. r = Inr ctx \<longrightarrow> valid_context reg (db_view decode s) target scope ctx) \<and>
     (\<forall>x. r = Inl x \<longrightarrow> (\<exists>m. x = NumiError INVALID_TARGET m)) \<and> db_view decode s' = db_view decode s"
  using validate_eq [OF assms(1), of reg decode target scope] validate_store [OF assms(1), of reg decode target scope]
    assms(2) validate_with_valid [of reg "db_view decode s" target scope] validate_with_Inl [of reg "db_view decode s" target scope]
  by auto

theorem validation_fails_closed_witness:
  "valid_context [server_named ''db-01''] (db_view small_decode (empty_store [])) (instance_target ''db 1'') [''instance'']
     (make_context (instance_target ''db 1'') (server_named ''db-01'') [] None)"
proof -
  let ?v = "validate [server_named ''db-01''] small_decode (instance_target ''db 1'') [''instance''] (empty_store [])"
  obtain r s' where v: "?v = (r, s')" by fastforce
  have inv: "db_invar (empty_store [])" by (simp add: db_invar_def empty_store_def)
  have res: "resolve [server_named ''db-01''] (instance_target ''db 1'') = Inr (server_named ''db-01'')"
    by (simp add: registry_eval)
  have "fst ?v = Inr (make_context (instance_target ''db 1'') (server_named ''db-01'') [] None)"
    unfolding validate_eq [OF inv]
    unfolding validate_with_def res [unfolded resolve_server_Inr [symmetric]] bindE_simps
    by (simp add: validate_on_def check_database_def check_object_def
        check_required_fields_def missing_fields_def effective_fields_def field_alias_def FIELD_ALIASES_def
        instance_target_def strip_def db_view_def empty_store_def ensure_loaded_def)
  with validation_fails_closed [OF inv v] v show ?thesis by simp
qed

end
