(* ===== verification/Approval.thy ===== *)
theory Approval
  imports Json_Canonical Target_Validation
begin

text \<open>
  The approval engine (gateway/domain/approval.py) on the two approval tables of the control
  database. A row's own surrogate id is left out. SHA-256 is a parameter. The tables are those
  a session sees: an operation that raises keeps the rows it changed before raising, until the
  caller commits or rolls back.
\<close>

section \<open>Rows (infrastructure/db/models.py)\<close>

datatype ApprovalStatus =
    AP_PENDING | AP_AWAITING_SECOND_APPROVAL | AP_APPROVED | AP_REJECTED | AP_EXPIRED | AP_EXECUTED

fun approval_value :: "ApprovalStatus \<Rightarrow> string" where
  "approval_value AP_PENDING = ''PENDING''"
| "approval_value AP_AWAITING_SECOND_APPROVAL = ''AWAITING_SECOND_APPROVAL''"
| "approval_value AP_APPROVED = ''APPROVED''"
| "approval_value AP_REJECTED = ''REJECTED''"
| "approval_value AP_EXPIRED = ''EXPIRED''"
| "approval_value AP_EXECUTED = ''EXECUTED''"

datatype ApprovalDecision = APPROVE | REJECT

record ApprovalRecord =
  ap_approval_id :: string
  ap_request_id :: string
  ap_actor_subject_id :: string
  ap_tool_id :: string
  ap_tool_version :: string
  ap_target :: jdict
  ap_normalized_arguments :: jdict
  ap_risk :: RiskAssessment
  ap_policy :: "(string \<times> string) list"
  ap_action_hash :: string
  ap_requires_dual_approval :: bool
  ap_approver_1_subject_id :: "string option"
  ap_approver_2_subject_id :: "string option"
  ap_status :: ApprovalStatus
  ap_created_at :: int
  ap_expires_at :: int
  ap_decided_at :: "int option"

record ApprovalEventRecord =
  ae_approval_id :: string
  ae_event_type :: string
  ae_actor_subject_id :: string
  ae_detail :: jdict
  ae_created_at :: int

record ApprovalDb =
  adb_approvals :: "string \<rightharpoonup> ApprovalRecord"
  adb_events :: "ApprovalEventRecord list"

section \<open>Binding an approval to an action\<close>

definition action_json ::
    "string \<Rightarrow> string \<Rightarrow> string \<Rightarrow> jdict \<Rightarrow> jdict \<Rightarrow> string \<Rightarrow> string \<Rightarrow> string \<Rightarrow> json" where
  "action_json actor_subject_id tool_id tool_version target normalized_arguments environment
       database_id risk_level =
     JObj [(''actor'', JStr actor_subject_id), (''tool_id'', JStr tool_id),
           (''tool_version'', JStr tool_version), (''target'', JObj target),
           (''arguments'', JObj normalized_arguments), (''environment'', JStr environment),
           (''database_id'', JStr database_id), (''risk_level'', JStr risk_level)]"

definition compute_action_hash ::
    "(string \<Rightarrow> string) \<Rightarrow> string \<Rightarrow> string \<Rightarrow> string \<Rightarrow> jdict \<Rightarrow> jdict \<Rightarrow> string \<Rightarrow> string \<Rightarrow> string \<Rightarrow> string" where
  "compute_action_hash sha256 actor_subject_id tool_id tool_version target normalized_arguments
       environment database_id risk_level =
     sha256 (json_dumps_sorted (action_json actor_subject_id tool_id tool_version target
       normalized_arguments environment database_id risk_level))"

record ApprovalContext =
  ac_request_id :: string
  ac_actor :: VerifiedIdentity
  ac_tool :: ToolDefinition
  ac_target :: DatabaseTarget
  ac_normalized_arguments :: jdict
  ac_environment :: string
  ac_database_id :: string
  ac_risk :: RiskAssessment

definition action_hash :: "(string \<Rightarrow> string) \<Rightarrow> ApprovalContext \<Rightarrow> string" where
  "action_hash sha256 ctx =
     compute_action_hash sha256 (subject_id (ac_actor ctx)) (td_tool_id (ac_tool ctx))
       (td_version (ac_tool ctx)) (target_dump (ac_target ctx)) (ac_normalized_arguments ctx)
       (ac_environment ctx) (ac_database_id ctx) (risk_value (ra_risk_level (ac_risk ctx)))"

section \<open>The engine (class ApprovalEngine)\<close>

definition DEFAULT_TTL_SECONDS :: int where
  "DEFAULT_TTL_SECONDS = 600"

definition approval_event :: "string \<Rightarrow> string \<Rightarrow> string \<Rightarrow> jdict \<Rightarrow> int \<Rightarrow> ApprovalEventRecord" where
  "approval_event approval_id event_type actor detail now =
     \<lparr>ae_approval_id = approval_id, ae_event_type = event_type, ae_actor_subject_id = actor,
      ae_detail = detail, ae_created_at = now\<rparr>"

definition add_event :: "ApprovalEventRecord \<Rightarrow> ApprovalDb \<Rightarrow> ApprovalDb" where
  "add_event ev db = db\<lparr>adb_events := adb_events db @ [ev]\<rparr>"

definition put_record :: "ApprovalRecord \<Rightarrow> ApprovalDb \<Rightarrow> ApprovalDb" where
  "put_record r db = db\<lparr>adb_approvals := (adb_approvals db)(ap_approval_id r \<mapsto> r)\<rparr>"

definition create ::
    "(string \<Rightarrow> string) \<Rightarrow> int \<Rightarrow> string \<Rightarrow> ApprovalContext \<Rightarrow> bool \<Rightarrow> int
       \<Rightarrow> (ApprovalDb, ApprovalRecord) op" where
  \<comment> \<open>\<open>approval_id\<close> is the fresh id; \<open>ttl\<close> the engine's validity window in seconds\<close>
  "create sha256 ttl approval_id ctx requires_dual now db =
     (let record =
        \<lparr>ap_approval_id = approval_id, ap_request_id = ac_request_id ctx,
         ap_actor_subject_id = subject_id (ac_actor ctx), ap_tool_id = td_tool_id (ac_tool ctx),
         ap_tool_version = td_version (ac_tool ctx), ap_target = target_dump (ac_target ctx),
         ap_normalized_arguments = ac_normalized_arguments ctx, ap_risk = ac_risk ctx,
         ap_policy = [(''database_id'', ac_database_id ctx), (''environment'', ac_environment ctx)],
         ap_action_hash = action_hash sha256 ctx, ap_requires_dual_approval = requires_dual,
         ap_approver_1_subject_id = None, ap_approver_2_subject_id = None, ap_status = AP_PENDING,
         ap_created_at = now, ap_expires_at = now + ttl * 1000000, ap_decided_at = None\<rparr>
      in (Inr record,
          add_event (approval_event approval_id ''CREATED'' (subject_id (ac_actor ctx))
              [(''tool_id'', JStr (td_tool_id (ac_tool ctx)))] now)
            (put_record record db)))"

definition get_record :: "string \<Rightarrow> (ApprovalDb, ApprovalRecord) op" where
  "get_record approval_id db =
     (case adb_approvals db approval_id of
        None \<Rightarrow> (Inl (NumiError APPROVAL_INVALID ''Approval not found.''), db)
      | Some r \<Rightarrow> (Inr r, db))"

definition expire_if_needed :: "ApprovalRecord \<Rightarrow> int \<Rightarrow> (ApprovalDb, ApprovalRecord) op" where
  \<comment> \<open>returns the record as it is after the call\<close>
  "expire_if_needed r now db =
     (if ap_status r \<in> {AP_PENDING, AP_AWAITING_SECOND_APPROVAL, AP_APPROVED} \<and> ap_expires_at r < now
      then let r' = r\<lparr>ap_status := AP_EXPIRED\<rparr>
           in (Inr r', add_event (approval_event (ap_approval_id r) ''EXPIRED'' [] [] now) (put_record r' db))
      else (Inr r, db))"

definition save :: "ApprovalRecord \<Rightarrow> string \<Rightarrow> string \<Rightarrow> int \<Rightarrow> (ApprovalDb, ApprovalRecord) op" where
  \<comment> \<open>write the changed record and its event, and return it\<close>
  "save r event_type actor now db =
     (Inr r, add_event (approval_event (ap_approval_id r) event_type actor [] now) (put_record r db))"

definition decide_record ::
    "VerifiedIdentity \<Rightarrow> ApprovalDecision \<Rightarrow> int \<Rightarrow> ApprovalRecord \<Rightarrow> (ApprovalDb, ApprovalRecord) op" where
  "decide_record approver decision now r =
     (let sub = subject_id approver
      in if ap_status r = AP_EXPIRED
         then raiseM (NumiError APPROVAL_EXPIRED ''This approval request has expired.'')
         else if ap_status r = AP_APPROVED \<or> ap_status r = AP_REJECTED
         then raiseM (NumiError APPROVAL_ALREADY_DECIDED
                (''This approval was already '' @ lower (approval_value (ap_status r)) @ ''.''))
         else if decision = REJECT
         then save (r\<lparr>ap_status := AP_REJECTED, ap_decided_at := Some now\<rparr>) ''REJECTED'' sub now
         else if ap_requires_dual_approval r
         then if sub = ap_actor_subject_id r
              then raiseM (NumiError SEPARATION_OF_DUTIES_VIOLATION
                     ''The requester cannot approve their own critical action.'')
              else if ap_approver_1_subject_id r = None
              then save (r\<lparr>ap_approver_1_subject_id := Some sub, ap_status := AP_AWAITING_SECOND_APPROVAL\<rparr>)
                     ''APPROVER_1_APPROVED'' sub now
              else if ap_approver_1_subject_id r = Some sub
              then raiseM (NumiError SEPARATION_OF_DUTIES_VIOLATION
                     ''A second, different approver is required for this critical action.'')
              else save (r\<lparr>ap_approver_2_subject_id := Some sub, ap_status := AP_APPROVED,
                           ap_decided_at := Some now\<rparr>)
                     ''APPROVER_2_APPROVED'' sub now
         else save (r\<lparr>ap_status := AP_APPROVED, ap_approver_1_subject_id := Some sub,
                      ap_decided_at := Some now\<rparr>)
                ''APPROVED'' sub now)"

definition decide ::
    "string \<Rightarrow> VerifiedIdentity \<Rightarrow> ApprovalDecision \<Rightarrow> int \<Rightarrow> (ApprovalDb, ApprovalRecord) op" where
  "decide approval_id approver decision now =
     bindM (get_record approval_id) (\<lambda>r0.
     bindM (expire_if_needed r0 now) (\<lambda>r.
     decide_record approver decision now r))"

definition verify_record :: "string \<Rightarrow> ApprovalRecord \<Rightarrow> ApprovalRecord result" where
  "verify_record expected_action_hash r =
     (if ap_status r = AP_EXPIRED
      then Inl (NumiError APPROVAL_EXPIRED ''This approval request has expired.'')
      else if ap_status r = AP_PENDING \<or> ap_status r = AP_AWAITING_SECOND_APPROVAL
      then Inl (NumiError APPROVAL_REQUIRED ''This action has not yet been fully approved.'')
      else if ap_status r = AP_REJECTED
      then Inl (NumiError APPROVAL_INVALID ''This action was rejected.'')
      else if ap_status r = AP_EXECUTED
      then Inl (NumiError APPROVAL_INVALID
             ''This approval has already been used to execute an action and cannot be reused.'')
      else if ap_action_hash r \<noteq> expected_action_hash
      then Inl (NumiError APPROVAL_MISMATCH ''The action being executed does not match what was approved.'')
      else Inr r)"

definition verify_for_execution :: "string \<Rightarrow> string \<Rightarrow> int \<Rightarrow> (ApprovalDb, ApprovalRecord) op" where
  "verify_for_execution approval_id expected_action_hash now =
     bindM (get_record approval_id) (\<lambda>r0.
     bindM (expire_if_needed r0 now) (\<lambda>r.
     liftE (verify_record expected_action_hash r)))"

definition mark_executed :: "string \<Rightarrow> int \<Rightarrow> (ApprovalDb, unit) op" where
  "mark_executed approval_id now =
     bindM (get_record approval_id) (\<lambda>r.
     bindM (save (r\<lparr>ap_status := AP_EXECUTED\<rparr>) ''EXECUTED'' [] now) (\<lambda>_. returnM ()))"

end
