(* ===== verification/Audit_Log.thy ===== *)
theory Audit_Log
  imports Json_Canonical Common_Models
begin

text \<open>
  The audit log (gateway/domain/audit.py) on the two append-only tables of the control
  database. The generated id and the creation time of a row are left out. SHA-256 is a
  parameter.
\<close>

record AuditEventRecord =
  au_event_type :: string
  au_correlation_ids :: "(string \<times> string) list"
  au_actor_subject_id :: string
  au_identity_provider :: string
  au_channel :: string
  au_agent_version :: string
  au_tool_id :: string
  au_tool_version :: string
  au_target :: jdict
  au_arguments_hash :: string
  au_policy_decision :: string
  au_risk :: "RiskAssessment option"
  au_approval_id :: "string option"
  au_execution_result :: string
  au_error_code :: "string option"
  au_duration_ms :: "int option"

record SecurityEventRecord =
  sv_event_type :: string
  sv_actor_subject_id :: string
  sv_detail :: jdict
  sv_severity :: string

record AuditDb =
  al_events :: "AuditEventRecord list"
  al_security_events :: "SecurityEventRecord list"

definition hash_arguments :: "(string \<Rightarrow> string) \<Rightarrow> jdict \<Rightarrow> string" where
  "hash_arguments sha256 arguments = sha256 (json_dumps_sorted (JObj arguments))"

definition audit_event ::
    "(string \<Rightarrow> string) \<Rightarrow> string \<Rightarrow> (string \<times> string) list \<Rightarrow> string \<Rightarrow> string \<Rightarrow> string \<Rightarrow> string \<Rightarrow> string
       \<Rightarrow> string \<Rightarrow> jdict \<Rightarrow> jdict \<Rightarrow> AuditEventRecord" where
  \<comment> \<open>the row \<open>record\<close> builds from its leading arguments; the others have their defaults\<close>
  "audit_event sha256 event_type correlation_ids actor_subject_id identity_provider channel agent_version
       tool_id tool_version target arguments =
     \<lparr>au_event_type = event_type, au_correlation_ids = correlation_ids, au_actor_subject_id = actor_subject_id,
      au_identity_provider = identity_provider, au_channel = channel, au_agent_version = agent_version,
      au_tool_id = tool_id, au_tool_version = tool_version, au_target = target,
      au_arguments_hash = hash_arguments sha256 arguments, au_policy_decision = [], au_risk = None,
      au_approval_id = None, au_execution_result = [], au_error_code = None, au_duration_ms = None\<rparr>"

definition record_event :: "AuditEventRecord \<Rightarrow> AuditDb \<Rightarrow> AuditDb" where
  "record_event ev db = db\<lparr>al_events := al_events db @ [ev]\<rparr>"

definition record_security_event :: "string \<Rightarrow> string \<Rightarrow> jdict \<Rightarrow> AuditDb \<Rightarrow> AuditDb" where
  "record_security_event event_type actor_subject_id detail db =
     db\<lparr>al_security_events := al_security_events db @
        [\<lparr>sv_event_type = event_type, sv_actor_subject_id = actor_subject_id, sv_detail = detail,
          sv_severity = ''WARNING''\<rparr>]\<rparr>"

lemma record_event_simps [simp]:
  "al_events (record_event ev db) = al_events db @ [ev]"
  "al_security_events (record_event ev db) = al_security_events db"
  by (simp_all add: record_event_def)

lemma record_security_event_simps [simp]:
  "al_events (record_security_event e a d db) = al_events db"
  "al_security_events (record_security_event e a d db) = al_security_events db @
     [\<lparr>sv_event_type = e, sv_actor_subject_id = a, sv_detail = d, sv_severity = ''WARNING''\<rparr>]"
  by (simp_all add: record_security_event_def)

end
