(* ===== verification/Config.thy ===== *)
theory Config
  imports Common_Models
begin

text \<open>
  Process configuration (common/config.py): the settings the modelled components read, the
  choice of a default LLM, and the start-up check that refuses a production process with a
  development configuration.
\<close>

record ToolFlags =
  enable_readonly_sql_tool :: bool
  enable_execute_sql_tool :: bool
  enable_restore_database_tool :: bool
  enable_create_database_tool :: bool
  enable_drop_database_tool :: bool
  enable_truncate_table_tool :: bool
  enable_bulk_delete_tool :: bool

record Settings =
  numi_env :: string
  rate_limit_backend :: string
  secrets_provider :: string
  identity_provider :: string
  oidc_issuer :: string
  anthropic_api_key :: string
  openai_api_key :: string
  gemini_api_key :: string
  deepseek_api_key :: string
  llm_provider :: string
  llm_model :: string
  service_jwt_secret :: string
  service_jwt_issuer :: string
  discovery_refresh_minutes :: int
  discovery_max_objects_per_database :: nat
  cross_server_correlation_enabled :: bool
  cross_server_correlation_lookback_days :: int
  tool_flags :: ToolFlags

definition default_tool_flags :: ToolFlags where
  "default_tool_flags =
     \<lparr>enable_readonly_sql_tool = False, enable_execute_sql_tool = False,
      enable_restore_database_tool = False, enable_create_database_tool = False,
      enable_drop_database_tool = False, enable_truncate_table_tool = False,
      enable_bulk_delete_tool = False\<rparr>"

definition DEV_JWT_SECRET :: string where
  "DEV_JWT_SECRET = ''dev-only-insecure-secret-change-me''"

definition default_settings :: Settings where
  "default_settings =
     \<lparr>numi_env = ''development'', rate_limit_backend = ''memory'', secrets_provider = ''local_dev'',
      identity_provider = ''mock'', oidc_issuer = [], anthropic_api_key = [], openai_api_key = [],
      gemini_api_key = [], deepseek_api_key = [], llm_provider = [], llm_model = [],
      service_jwt_secret = DEV_JWT_SECRET, service_jwt_issuer = ''numi-internal'',
      discovery_refresh_minutes = 60, discovery_max_objects_per_database = 5000,
      cross_server_correlation_enabled = True, cross_server_correlation_lookback_days = 30,
      tool_flags = default_tool_flags\<rparr>"

definition LLM_PROVIDER_PREFERENCE :: "string list" where
  "LLM_PROVIDER_PREFERENCE = [''anthropic'', ''openai'', ''gemini'', ''deepseek'']"

definition is_production :: "Settings \<Rightarrow> bool" where
  "is_production s \<longleftrightarrow> numi_env s = ''production''"

definition llm_api_keys :: "Settings \<Rightarrow> (string \<times> string) list" where
  "llm_api_keys s =
     [(''anthropic'', anthropic_api_key s), (''openai'', openai_api_key s),
      (''gemini'', gemini_api_key s), (''deepseek'', deepseek_api_key s)]"

definition configured_llm_providers :: "Settings \<Rightarrow> string list" where
  "configured_llm_providers s =
     filter (\<lambda>p. strip (case map_of (llm_api_keys s) p of None \<Rightarrow> [] | Some k \<Rightarrow> k) \<noteq> [])
       LLM_PROVIDER_PREFERENCE"

definition llm_selection_locked :: "Settings \<Rightarrow> bool" where
  "llm_selection_locked s \<longleftrightarrow> llm_provider s \<noteq> [] \<and> llm_provider s \<notin> {''auto'', ''mock''}"

definition effective_default_llm :: "Settings \<Rightarrow> string \<times> string" where
  "effective_default_llm s =
     (if llm_provider s = ''mock'' then (''mock'', ''mock-planner'')
      else if llm_selection_locked s then (llm_provider s, llm_model s)
      else (case configured_llm_providers s of
              p # _ \<Rightarrow> (p, llm_model s)
            | [] \<Rightarrow> (''mock'', ''mock-planner'')))"

datatype violation =
    NoRealLlmProvider | LlmKeyMissing string | MockIdentity | LocalSecrets | PlaceholderSecret
  | RateLimitNotRedis

definition production_violations :: "Settings \<Rightarrow> violation list" where
  "production_violations s =
     (let provider = fst (effective_default_llm s)
      in (if provider = ''mock'' then [NoRealLlmProvider]
          else if provider \<notin> set (configured_llm_providers s) then [LlmKeyMissing provider] else [])
       @ (if identity_provider s = ''mock'' then [MockIdentity] else [])
       @ (if secrets_provider s = ''local_dev'' then [LocalSecrets] else [])
       @ (if service_jwt_secret s = DEV_JWT_SECRET then [PlaceholderSecret] else [])
       @ (if rate_limit_backend s \<noteq> ''redis'' then [RateLimitNotRedis] else []))"

definition validate_for_production :: "Settings \<Rightarrow> unit result" where
  \<comment> \<open>the message of the \<open>RuntimeError\<close> lists the violations\<close>
  "validate_for_production s =
     (if \<not> is_production s then Inr ()
      else if production_violations s \<noteq> [] then Inl (PyExn ''RuntimeError'') else Inr ())"

section \<open>The default LLM and the start-up check\<close>

lemma configured_llm_providers_preference:
  "subseq (configured_llm_providers s) LLM_PROVIDER_PREFERENCE"
  by (simp add: configured_llm_providers_def)

lemma validate_for_production_Inr_iff:
  "validate_for_production s = Inr () \<longleftrightarrow> \<not> is_production s \<or> production_violations s = []"
  by (simp add: validate_for_production_def)

lemma production_violations_Nil_iff:
  "production_violations s = [] \<longleftrightarrow>
     fst (effective_default_llm s) \<noteq> ''mock'' \<and>
     fst (effective_default_llm s) \<in> set (configured_llm_providers s) \<and>
     identity_provider s \<noteq> ''mock'' \<and> secrets_provider s \<noteq> ''local_dev'' \<and>
     service_jwt_secret s \<noteq> DEV_JWT_SECRET \<and> rate_limit_backend s = ''redis''"
  by (auto simp: production_violations_def Let_def)

text \<open>
  A production process starts only with a real LLM provider whose key is set, a
  non-mock identity provider by the literal name check, a real secrets provider, a replaced
  service secret and the shared rate-limit backend; every other production configuration is
  refused with an exception, and outside production nothing is refused.
\<close>
theorem validate_for_production_iff:
  "validate_for_production s =
     (if numi_env s = ''production'' \<and>
         \<not> (fst (effective_default_llm s) \<noteq> ''mock'' \<and>
            fst (effective_default_llm s) \<in> set (configured_llm_providers s) \<and>
            identity_provider s \<noteq> ''mock'' \<and> secrets_provider s \<noteq> ''local_dev'' \<and>
            service_jwt_secret s \<noteq> DEV_JWT_SECRET \<and> rate_limit_backend s = ''redis'')
      then Inl (PyExn ''RuntimeError'') else Inr ())"
  by (simp add: validate_for_production_def is_production_def production_violations_Nil_iff [symmetric])

end
