(* ===== verification/Tool_Catalog.thy ===== *)
theory Tool_Catalog
  imports Config
begin

text \<open>
  The tool catalog (gateway/domain/tool_catalog.py) and the registry that serves it
  (gateway/domain/tool_registry.py). A default argument of a constructor function is written
  out at each call; an empty list stands for an argument left out, which the source replaces.
\<close>

section \<open>Constructors of tool definitions\<close>

definition ALL_ENVS :: "Environment list" where
  "ALL_ENVS = [DEVELOPMENT, UAT, PRODUCTION]"

definition ALL_ROLES :: "DBARole list" where
  "ALL_ROLES = [DBA_L1, DBA_L2, DBA_L3, DBA_MANAGER]"

definition WRITE_ROLES :: "DBARole list" where
  "WRITE_ROLES = [DBA_L2, DBA_L3, DBA_MANAGER]"

definition ADVANCED_ROLES :: "DBARole list" where
  "ADVANCED_ROLES = [DBA_L3, DBA_MANAGER]"

definition read_tool ::
    "string \<Rightarrow> string \<Rightarrow> args_model \<Rightarrow> string list \<Rightarrow> nat \<Rightarrow> ToolDefinition" where
  "read_tool tool_id description args required_scope max_result_rows =
     \<lparr>td_tool_id = tool_id, td_version = ''1.0.0'', td_description = description,
      td_operation_type = READ, td_risk_level = LOW, td_reversible = True,
      td_availability_impact = False, td_data_modification = False, td_requires_approval = False,
      td_allowed_roles = ALL_ROLES, td_allowed_environments = ALL_ENVS,
      td_required_target_scope =
        (if required_scope = [] then [''environment'', ''instance'', ''database''] else required_scope),
      td_argument_schema = args, td_result_schema = DiagnosticResult,
      td_max_execution_time = 30, td_max_result_rows = max_result_rows,
      td_audit_required = True, td_enabled = True,
      td_requires_change_ticket = False, td_requires_dual_approval = False\<rparr>"

definition write_tool ::
    "string \<Rightarrow> string \<Rightarrow> args_model \<Rightarrow> RiskLevel \<Rightarrow> bool \<Rightarrow> bool \<Rightarrow> string list \<Rightarrow> bool
       \<Rightarrow> DBARole list \<Rightarrow> bool \<Rightarrow> ToolDefinition" where
  "write_tool tool_id description args risk_level reversible availability_impact required_scope
       requires_dual_approval allowed_roles enabled =
     \<lparr>td_tool_id = tool_id, td_version = ''1.0.0'', td_description = description,
      td_operation_type = WRITE, td_risk_level = risk_level, td_reversible = reversible,
      td_availability_impact = availability_impact, td_data_modification = True,
      td_requires_approval = True,
      td_allowed_roles = (if allowed_roles = [] then WRITE_ROLES else allowed_roles),
      td_allowed_environments = ALL_ENVS, td_required_target_scope = required_scope,
      td_argument_schema = args, td_result_schema = WriteResult,
      td_max_execution_time = 60, td_max_result_rows = 1,
      td_audit_required = True, td_enabled = enabled,
      td_requires_change_ticket = False, td_requires_dual_approval = requires_dual_approval\<rparr>"

definition restricted_tool ::
    "string \<Rightarrow> string \<Rightarrow> args_model \<Rightarrow> bool \<Rightarrow> RiskLevel \<Rightarrow> bool \<Rightarrow> ToolDefinition" where
  "restricted_tool tool_id description args enabled risk_level reversible =
     \<lparr>td_tool_id = tool_id, td_version = ''1.0.0'', td_description = description,
      td_operation_type = PRIVILEGED, td_risk_level = risk_level, td_reversible = reversible,
      td_availability_impact = True, td_data_modification = True, td_requires_approval = True,
      td_allowed_roles = ADVANCED_ROLES, td_allowed_environments = ALL_ENVS,
      td_required_target_scope = [''environment'', ''instance'', ''database''],
      td_argument_schema = args, td_result_schema = WriteResult,
      td_max_execution_time = 30, td_max_result_rows = 100,
      td_audit_required = True, td_enabled = enabled,
      td_requires_change_ticket = False, td_requires_dual_approval = True\<rparr>"

section \<open>The catalog\<close>

definition ARGUMENT_MODELS :: "(string \<times> args_model) list" where
  "ARGUMENT_MODELS =
     [(''database.get_health'', NoArgs),
      (''database.get_version'', NoArgs),
      (''database.get_sessions'', NoArgs),
      (''database.get_blocking_sessions'', NoArgs),
      (''database.get_deadlocks'', NoArgs),
      (''database.get_running_queries'', NoArgs),
      (''database.get_wait_statistics'', NoArgs),
      (''database.get_query_plan'', QueryPlanArgs),
      (''database.get_top_queries'', TopQueriesArgs),
      (''database.get_indexes'', NoArgs),
      (''database.get_statistics'', NoArgs),
      (''database.get_tables'', NoArgs),
      (''database.get_storage'', NoArgs),
      (''database.get_transaction_log'', NoArgs),
      (''database.get_replication_status'', NoArgs),
      (''database.get_backup_status'', NoArgs),
      (''database.get_configuration'', NoArgs),
      (''database.get_error_logs'', ErrorLogArgs),
      (''database.cancel_query'', CancelQueryArgs),
      (''database.kill_session'', KillSessionArgs),
      (''database.update_statistics'', UpdateStatisticsArgs),
      (''database.create_index'', CreateIndexArgs),
      (''database.rebuild_index'', RebuildIndexArgs),
      (''database.modify_configuration'', ModifyConfigurationArgs),
      (''database.restart_instance'', RestartInstanceArgs),
      (''database.failover'', FailoverArgs),
      (''database.execute_readonly_sql'', ReadOnlySqlArgs),
      (''database.execute_sql'', ExecuteSqlArgs),
      (''database.restore_database'', RestoreDatabaseArgs),
      (''database.create_database'', CreateDatabaseArgs),
      (''database.drop_database'', DropDatabaseArgs),
      (''database.truncate_table'', TruncateTableArgs),
      (''database.bulk_delete'', BulkDeleteArgs)]"

definition INSTANCE_WIDE_SCOPE :: "string list" where
  "INSTANCE_WIDE_SCOPE = [''environment'', ''instance'']"

definition read_tools :: "ToolDefinition list" where
  "read_tools =
     [read_tool ''database.get_health'' ''Overall instance/database health snapshot.'' NoArgs INSTANCE_WIDE_SCOPE 100,
      read_tool ''database.get_version'' ''Engine version and edition/build info.'' NoArgs INSTANCE_WIDE_SCOPE 100,
      read_tool ''database.get_sessions'' ''Active session list.'' NoArgs INSTANCE_WIDE_SCOPE 100,
      read_tool ''database.get_blocking_sessions'' ''Current blocking chains.'' NoArgs INSTANCE_WIDE_SCOPE 100,
      read_tool ''database.get_deadlocks'' ''Recent deadlock graphs.'' NoArgs INSTANCE_WIDE_SCOPE 100,
      read_tool ''database.get_running_queries'' ''Currently executing queries.'' NoArgs INSTANCE_WIDE_SCOPE 100,
      read_tool ''database.get_wait_statistics'' ''Aggregated wait statistics.'' NoArgs INSTANCE_WIDE_SCOPE 100,
      read_tool ''database.get_query_plan'' ''Execution plan for a specific query id.'' QueryPlanArgs [''environment'', ''instance'', ''database'', ''query_id''] 100,
      read_tool ''database.get_top_queries'' ''Top resource-consuming queries.'' TopQueriesArgs [] 100,
      read_tool ''database.get_indexes'' ''Index metadata for a schema/table.'' NoArgs [''environment'', ''instance'', ''database'', ''schema_name'', ''object_name''] 100,
      read_tool ''database.get_statistics'' ''Statistics metadata/staleness for a schema/table.'' NoArgs [''environment'', ''instance'', ''database'', ''schema_name'', ''object_name''] 100,
      read_tool ''database.get_tables'' ''Table inventory for a database.'' NoArgs [] 100,
      read_tool ''database.get_storage'' ''Storage/space utilization.'' NoArgs INSTANCE_WIDE_SCOPE 100,
      read_tool ''database.get_transaction_log'' ''Transaction log / WAL usage.'' NoArgs [] 100,
      read_tool ''database.get_replication_status'' ''Replication / Always On / streaming status.'' NoArgs INSTANCE_WIDE_SCOPE 100,
      read_tool ''database.get_backup_status'' ''Recent backup history and status.'' NoArgs INSTANCE_WIDE_SCOPE 100,
      read_tool ''database.get_configuration'' ''Server/database configuration parameters.'' NoArgs INSTANCE_WIDE_SCOPE 100,
      read_tool ''database.get_error_logs'' ''Recent error log entries.'' ErrorLogArgs INSTANCE_WIDE_SCOPE 200]"

definition write_tools :: "ToolDefinition list" where
  "write_tools =
     [write_tool ''database.cancel_query''
        ''Cancel (soft-abort) a single running query without dropping the session.'' CancelQueryArgs
        LOW True False [''environment'', ''instance'', ''database'', ''session_id'']
        False [] True,
      write_tool ''database.kill_session''
        ''Terminate a database session.'' KillSessionArgs
        MEDIUM False True [''environment'', ''instance'', ''database'', ''session_id'']
        False [] True,
      write_tool ''database.update_statistics''
        ''Refresh optimizer statistics for a table.'' UpdateStatisticsArgs
        LOW True False [''environment'', ''instance'', ''database'', ''schema_name'', ''object_name'']
        False [] True,
      write_tool ''database.create_index''
        ''Create a new index on a table.'' CreateIndexArgs
        MEDIUM True True [''environment'', ''instance'', ''database'', ''schema_name'', ''object_name'']
        False [] True,
      write_tool ''database.rebuild_index''
        ''Rebuild an existing index.'' RebuildIndexArgs
        MEDIUM True True [''environment'', ''instance'', ''database'', ''schema_name'', ''object_name'']
        False [] True,
      write_tool ''database.modify_configuration''
        ''Change a server/database configuration parameter.'' ModifyConfigurationArgs
        HIGH True True [''environment'', ''instance'', ''database'']
        False ADVANCED_ROLES True,
      write_tool ''database.restart_instance''
        ''Restart a database instance.'' RestartInstanceArgs
        CRITICAL False True [''environment'', ''instance'']
        True (ADVANCED_ROLES @ [DBA_MANAGER]) True,
      write_tool ''database.failover''
        ''Force a cluster/Always On failover to another instance.'' FailoverArgs
        CRITICAL False True [''environment'', ''cluster'']
        True [DBA_L3, DBA_MANAGER] True]"

definition restricted_tools :: "ToolFlags \<Rightarrow> ToolDefinition list" where
  "restricted_tools flags =
     [restricted_tool ''database.execute_readonly_sql''
        ''Execute a parsed, validated, single read-only statement. Disabled by default.''
        ReadOnlySqlArgs (enable_readonly_sql_tool flags) MEDIUM True,
      restricted_tool ''database.execute_sql''
        ''Execute arbitrary SQL. Disabled by default and NOT recommended to enable.''
        ExecuteSqlArgs (enable_execute_sql_tool flags) CRITICAL False,
      restricted_tool ''database.restore_database''
        ''Restore a database from backup. Disabled by default.''
        RestoreDatabaseArgs (enable_restore_database_tool flags) CRITICAL False,
      restricted_tool ''database.create_database''
        ''Create a new database. Disabled by default.''
        CreateDatabaseArgs (enable_create_database_tool flags) CRITICAL False,
      restricted_tool ''database.drop_database''
        ''Drop a database. Disabled by default.''
        DropDatabaseArgs (enable_drop_database_tool flags) CRITICAL False,
      restricted_tool ''database.truncate_table''
        ''Truncate a table. Disabled by default.''
        TruncateTableArgs (enable_truncate_table_tool flags) CRITICAL False,
      restricted_tool ''database.bulk_delete''
        ''Bulk-delete rows matching a predicate. Disabled by default.''
        BulkDeleteArgs (enable_bulk_delete_tool flags) CRITICAL False]"

definition build_tool_catalog :: "Settings \<Rightarrow> ToolDefinition list" where
  "build_tool_catalog settings = read_tools @ write_tools @ restricted_tools (tool_flags settings)"

section \<open>The registry (tool_registry.py)\<close>

type_synonym ToolRegistry = "(string \<times> ToolDefinition) list"

definition ToolRegistry_init :: "Settings \<Rightarrow> ToolRegistry" where
  \<comment> \<open>\<open>{t.tool_id: t for t in ...}\<close>: a later tool of the same id would replace an earlier one\<close>
  "ToolRegistry_init settings =
     foldl (\<lambda>d t. dict_set d (td_tool_id t) t) [] (build_tool_catalog settings)"

definition registry_all :: "ToolRegistry \<Rightarrow> ToolDefinition list" where
  "registry_all reg = map snd reg"

definition quoted :: "string \<Rightarrow> string" where
  "quoted s = [CHR 0x27] @ s @ [CHR 0x27]"

definition registry_get :: "ToolRegistry \<Rightarrow> string \<Rightarrow> string option \<Rightarrow> ToolDefinition result" where
  "registry_get reg tool_id tool_version =
     (case map_of reg tool_id of
        None \<Rightarrow> Inl (NumiError TOOL_NOT_FOUND (''Unknown tool '' @ quoted tool_id @ ''.''))
      | Some tool \<Rightarrow>
          if tool_version \<noteq> None \<and> tool_version \<noteq> Some (td_version tool)
          then Inl (NumiError TOOL_NOT_FOUND
                 (''Tool '' @ quoted tool_id @ '' version '' @ quoted (opt_or tool_version []) @
                  '' not found (latest is '' @ quoted (td_version tool) @ '').''))
          else if \<not> td_enabled tool
          then Inl (NumiError TOOL_NOT_AVAILABLE
                 (''Tool '' @ quoted tool_id @ '' is disabled by platform configuration.''))
          else Inr tool)"

definition tools_for_role :: "ToolRegistry \<Rightarrow> DBARole \<Rightarrow> ToolDefinition list" where
  "tools_for_role reg role =
     filter (\<lambda>t. td_enabled t \<and> role \<in> set (td_allowed_roles t)) (map snd reg)"

section \<open>Shape of the catalog\<close>

named_theorems tool_defs \<open>unfolding of the catalog\<close>

lemmas tool_constructors [tool_defs] = read_tool_def write_tool_def restricted_tool_def

lemma catalog_cases:
  assumes "t \<in> set (build_tool_catalog s)"
  obtains (read_case) "t \<in> set read_tools" | (write_case) "t \<in> set write_tools"
    | (restricted_case) "t \<in> set (restricted_tools (tool_flags s))"
  using assms by (auto simp: build_tool_catalog_def)

lemma read_tools_shape:
  "t \<in> set read_tools \<Longrightarrow>
     td_operation_type t = READ \<and> \<not> td_data_modification t \<and> \<not> td_availability_impact t \<and>
     \<not> td_requires_approval t \<and> td_risk_level t = LOW \<and> td_enabled t \<and> td_reversible t \<and>
     \<not> td_requires_dual_approval t"
  unfolding read_tools_def read_tool_def by (simp, elim disjE) simp_all

lemma write_tools_shape:
  "t \<in> set write_tools \<Longrightarrow>
     td_operation_type t = WRITE \<and> td_data_modification t \<and> td_requires_approval t \<and>
     DBA_L1 \<notin> set (td_allowed_roles t) \<and> td_enabled t \<and>
     (td_risk_level t = CRITICAL \<longrightarrow> td_requires_dual_approval t)"
  by (auto simp: write_tools_def write_tool_def ADVANCED_ROLES_def WRITE_ROLES_def)

lemma restricted_tools_shape:
  "t \<in> set (restricted_tools f) \<Longrightarrow>
     td_operation_type t = PRIVILEGED \<and> td_requires_approval t \<and> td_requires_dual_approval t \<and>
     set (td_allowed_roles t) = {DBA_L3, DBA_MANAGER}"
  by (auto simp: restricted_tools_def restricted_tool_def ADVANCED_ROLES_def)

lemma catalog_ids: "map td_tool_id (build_tool_catalog s) = map fst ARGUMENT_MODELS"
  by (simp add: build_tool_catalog_def read_tools_def write_tools_def restricted_tools_def
      ARGUMENT_MODELS_def tool_defs)

lemma ARGUMENT_MODELS_distinct: "distinct (map fst ARGUMENT_MODELS)"
  by code_simp

lemma catalog_ids_distinct: "distinct (map td_tool_id (build_tool_catalog s))"
  by (simp only: catalog_ids ARGUMENT_MODELS_distinct)

lemma foldl_dict_set_fresh:
  "distinct (map fst d @ map f ts) \<Longrightarrow>
     foldl (\<lambda>d t. dict_set d (f t) t) d ts = d @ map (\<lambda>t. (f t, t)) ts"
proof (induction ts arbitrary: d)
  case (Cons t ts)
  have "k \<notin> set (map fst d) \<Longrightarrow> dict_set d k v = d @ [(k, v)]" for k v and d :: "(string \<times> 'a) list"
    by (induction d k v rule: dict_set.induct) auto
  with Cons show ?case by auto
qed simp

lemma ToolRegistry_init_eq:
  "ToolRegistry_init s = map (\<lambda>t. (td_tool_id t, t)) (build_tool_catalog s)"
  using catalog_ids_distinct [of s] by (simp add: ToolRegistry_init_def foldl_dict_set_fresh)

lemma registry_lookup:
  "map_of (ToolRegistry_init s) i = Some t \<longleftrightarrow> t \<in> set (build_tool_catalog s) \<and> td_tool_id t = i"
proof -
  have "distinct (map fst (ToolRegistry_init s))"
    using catalog_ids_distinct [of s] by (simp add: ToolRegistry_init_eq comp_def)
  then have "map_of (ToolRegistry_init s) i = Some t \<longleftrightarrow> (i, t) \<in> set (ToolRegistry_init s)"
    by simp
  then show ?thesis by (auto simp: ToolRegistry_init_eq)
qed

lemma registry_get_Inr_iff:
  "registry_get reg i v = Inr t \<longleftrightarrow>
     map_of reg i = Some t \<and> td_enabled t \<and> (v = None \<or> v = Some (td_version t))"
  by (auto simp: registry_get_def split: option.splits)

lemma registry_get_Inl:
  "registry_get reg i v = Inl x \<Longrightarrow> \<exists>d. x = NumiError TOOL_NOT_FOUND d \<or> x = NumiError TOOL_NOT_AVAILABLE d"
  by (auto simp: registry_get_def split: option.splits if_splits)

lemma argument_model_of_tool:
  assumes "t \<in> set (build_tool_catalog s)"
  shows "map_of ARGUMENT_MODELS (td_tool_id t) = Some (td_argument_schema t)"
proof -
  have "map (\<lambda>t. (td_tool_id t, td_argument_schema t)) (build_tool_catalog s) = ARGUMENT_MODELS"
    by (simp add: build_tool_catalog_def read_tools_def write_tools_def restricted_tools_def
        ARGUMENT_MODELS_def tool_defs)
  then have "(td_tool_id t, td_argument_schema t) \<in> set ARGUMENT_MODELS" using assms by (metis (mono_tags, lifting) image_eqI list.set_map)
  then show ?thesis using ARGUMENT_MODELS_distinct by simp
qed

section \<open>Properties of the catalog\<close>

text \<open>
  The registry serves exactly the enabled tools of the catalog at the requested (or only)
  version: anything else is refused with TOOL_NOT_FOUND or TOOL_NOT_AVAILABLE, and every tool
  served has the argument model its schema was generated from.
\<close>
theorem registry_get_exact:
  "(registry_get (ToolRegistry_init s) i v = Inr t \<longleftrightarrow>
      t \<in> set (build_tool_catalog s) \<and> td_tool_id t = i \<and> td_enabled t \<and>
      (v = None \<or> v = Some (td_version t)) \<and>
      map_of ARGUMENT_MODELS i = Some (td_argument_schema t)) \<and>
   (case registry_get (ToolRegistry_init s) i v of
      Inl x \<Rightarrow> \<exists>d. x = NumiError TOOL_NOT_FOUND d \<or> x = NumiError TOOL_NOT_AVAILABLE d
    | Inr _ \<Rightarrow> True)"
proof (rule conjI)
  show "registry_get (ToolRegistry_init s) i v = Inr t \<longleftrightarrow>
      t \<in> set (build_tool_catalog s) \<and> td_tool_id t = i \<and> td_enabled t \<and>
      (v = None \<or> v = Some (td_version t)) \<and>
      map_of ARGUMENT_MODELS i = Some (td_argument_schema t)"
    using argument_model_of_tool by (auto simp: registry_get_Inr_iff registry_lookup)
qed (auto split: sum.splits dest: registry_get_Inl)

text \<open>
  Under the default flags no restricted tool can be obtained: arbitrary SQL, restore,
  create, drop, truncate and bulk delete are all refused by the registry as unavailable, so
  what the registry serves never has operation type PRIVILEGED.
\<close>
theorem restricted_disabled_by_default:
  assumes "tool_flags s = default_tool_flags" and "t \<in> set (restricted_tools (tool_flags s))"
  shows "\<exists>d. registry_get (ToolRegistry_init s) (td_tool_id t) None = Inl (NumiError TOOL_NOT_AVAILABLE d)"
proof -
  have "\<not> td_enabled t"
    using assms by (auto simp: restricted_tools_def restricted_tool_def default_tool_flags_def)
  moreover have "map_of (ToolRegistry_init s) (td_tool_id t) = Some t"
    using assms(2) by (auto simp: registry_lookup build_tool_catalog_def)
  ultimately show ?thesis by (simp add: registry_get_def)
qed

theorem restricted_disabled_by_default_witness:
  "\<exists>d. registry_get (ToolRegistry_init default_settings) ''database.drop_database'' None
     = Inl (NumiError TOOL_NOT_AVAILABLE d)"
proof -
  let ?t = "restricted_tools (tool_flags default_settings) ! 4"
  have id: "td_tool_id ?t = ''database.drop_database''"
    by (simp add: restricted_tools_def restricted_tool_def)
  have "\<exists>d. registry_get (ToolRegistry_init default_settings) (td_tool_id ?t) None
      = Inl (NumiError TOOL_NOT_AVAILABLE d)"
    by (rule restricted_disabled_by_default) (simp_all add: default_settings_def restricted_tools_def)
  then show ?thesis by (simp only: id)
qed

text \<open>
  The catalog classifies consistently: a tool is a READ exactly when it modifies no data,
  reads never need approval or affect availability, every tool that modifies data is marked as
  requiring approval and is closed to DBA_L1, and every enabled CRITICAL tool needs two
  approvers.
\<close>
theorem catalog_classification:
  assumes "t \<in> set (build_tool_catalog s)"
  shows "(td_operation_type t = READ \<longleftrightarrow> \<not> td_data_modification t) \<and>
     (td_operation_type t = READ \<longrightarrow> \<not> td_requires_approval t \<and> \<not> td_availability_impact t) \<and>
     (td_data_modification t \<longrightarrow> td_requires_approval t \<and> DBA_L1 \<notin> set (td_allowed_roles t)) \<and>
     (td_risk_level t = CRITICAL \<longrightarrow> td_requires_dual_approval t)"
  using assms
proof (cases rule: catalog_cases)
  case read_case
  then show ?thesis by (simp add: read_tools_shape)
next
  case write_case
  then show ?thesis by (simp add: write_tools_shape)
next
  case restricted_case
  then have "td_data_modification t" by (auto simp: restricted_tools_def restricted_tool_def)
  with restricted_case show ?thesis by (simp add: restricted_tools_shape)
qed

theorem catalog_classification_witness:
  "let t = build_tool_catalog default_settings ! 19 in
     td_tool_id t = ''database.kill_session'' \<and> td_requires_approval t \<and> DBA_L1 \<notin> set (td_allowed_roles t)"
proof -
  let ?t = "build_tool_catalog default_settings ! 19"
  have l: "length (build_tool_catalog default_settings) = 33"
    by (simp add: build_tool_catalog_def read_tools_def write_tools_def restricted_tools_def)
  have "?t \<in> set (build_tool_catalog default_settings)" by (rule nth_mem) (simp add: l)
  note c = catalog_classification [OF this]
  have "td_tool_id ?t = ''database.kill_session'' \<and> td_data_modification ?t"
    by (simp add: build_tool_catalog_def read_tools_def write_tools_def tool_defs nth_append)
  with c show ?thesis by (simp add: Let_def)
qed

end
