(* ===== verification/Authorization.thy ===== *)
theory Authorization
  imports Target_Validation Tool_Catalog
begin

text \<open>
  The authorization gate (gateway/domain/authorization.py): coarse, identity-only checks that
  run before the policy engine.
\<close>

definition authorize :: "VerifiedIdentity \<Rightarrow> ToolDefinition \<Rightarrow> TargetContext \<Rightarrow> unit result" where
  "authorize identity tool ctx =
     (if \<not> is_dba identity
      then Inl (NumiError UNAUTHORIZED ''This account is not a member of the DBA team.'')
      else if \<not> mfa_satisfied identity
      then Inl (NumiError AUTHENTICATION_FAILED
             ''Multi-factor authentication has not been satisfied for this session.'')
      else if \<not> intersects (dba_roles identity) (td_allowed_roles tool)
      then Inl (NumiError UNAUTHORIZED
             (''Your role does not permit use of '' @ quoted (td_tool_id tool) @ ''.''))
      else if ctx_allowed_roles ctx \<noteq> [] \<and> \<not> intersects (dba_roles identity) (ctx_allowed_roles ctx)
      then Inl (NumiError UNAUTHORIZED
             (''Your role does not permit access to '' @
              quoted (if ctx_database ctx \<noteq> [] then se_id (ctx_server ctx) @ ''/'' @ ctx_database ctx
                      else se_id (ctx_server ctx)) @ ''.''))
      else if ctx_environment ctx \<notin> set (td_allowed_environments tool)
      then Inl (NumiError UNAUTHORIZED
             (quoted (td_tool_id tool) @ '' is not permitted in environment '' @
              quoted (env_value (ctx_environment ctx)) @ ''.''))
      else Inr ())"

definition authorized :: "VerifiedIdentity \<Rightarrow> ToolDefinition \<Rightarrow> TargetContext \<Rightarrow> bool" where
  \<comment> \<open>the contract: who may use which tool where\<close>
  "authorized identity tool ctx \<longleftrightarrow>
     mfa_satisfied identity \<and>
     (\<exists>r \<in> set (dba_roles identity). r \<in> set (td_allowed_roles tool)) \<and>
     (ctx_allowed_roles ctx = [] \<or> (\<exists>r \<in> set (dba_roles identity). r \<in> set (ctx_allowed_roles ctx))) \<and>
     ctx_environment ctx \<in> set (td_allowed_environments tool)"

lemma authorize_Inr_iff: "authorize i t c = Inr () \<longleftrightarrow> authorized i t c"
  by (auto simp: authorize_def authorized_def is_dba_def)

lemma authorize_Inl:
  "authorize i t c = Inl x \<Longrightarrow> \<exists>d. x = NumiError UNAUTHORIZED d \<or> x = NumiError AUTHENTICATION_FAILED d"
  by (auto simp: authorize_def split: if_splits)

lemma authorized_is_dba: "authorized i t c \<Longrightarrow> is_dba i"
  by (auto simp: authorized_def is_dba_def)

text \<open>
  The gate decides exactly the contract: it returns without raising if and only if the
  session has multi-factor authentication, a verified role is allowed for the tool, a verified
  role is allowed on the server or database when that restricts roles at all, and the tool is
  permitted in the environment; otherwise it raises UNAUTHORIZED, or AUTHENTICATION_FAILED
  exactly when the person is a DBA without multi-factor authentication.
\<close>
theorem authorize_exact:
  "(authorize i t c = Inr () \<longleftrightarrow> authorized i t c) \<and>
   ((\<exists>d. authorize i t c = Inl (NumiError AUTHENTICATION_FAILED d)) \<longleftrightarrow> is_dba i \<and> \<not> mfa_satisfied i) \<and>
   ((\<exists>d. authorize i t c = Inl (NumiError UNAUTHORIZED d)) \<longleftrightarrow>
      \<not> authorized i t c \<and> \<not> (is_dba i \<and> \<not> mfa_satisfied i))"
proof -
  have "(\<exists>d. authorize i t c = Inl (NumiError AUTHENTICATION_FAILED d)) \<longleftrightarrow> is_dba i \<and> \<not> mfa_satisfied i"
    by (auto simp: authorize_def)
  moreover have "(\<exists>d. authorize i t c = Inl (NumiError UNAUTHORIZED d)) \<longleftrightarrow>
      \<not> authorized i t c \<and> \<not> (is_dba i \<and> \<not> mfa_satisfied i)"
    by (auto simp: authorize_def authorized_def is_dba_def)
  ultimately show ?thesis by (simp add: authorize_Inr_iff)
qed

text \<open>
  Separation by role: a tool that modifies data can never be used by someone whose only
  verified role is DBA_L1, whatever the target.
\<close>
theorem l1_never_writes:
  assumes "t \<in> set (build_tool_catalog s)" and "td_data_modification t" and "set (dba_roles i) \<subseteq> {DBA_L1}"
  shows "authorize i t c \<noteq> Inr ()"
proof -
  have "DBA_L1 \<notin> set (td_allowed_roles t)"
    using assms(1,2)
  proof (cases rule: catalog_cases)
    case read_case
    with assms(2) show ?thesis by (simp add: read_tools_shape)
  qed (simp_all add: write_tools_shape restricted_tools_shape)
  then have "\<not> authorized i t c" using assms(3) by (auto simp: authorized_def)
  then show ?thesis by (simp add: authorize_Inr_iff)
qed

definition example_l1 :: VerifiedIdentity where
  "example_l1 = \<lparr>subject_id = ''s1'', email = ''l1@x'', display_name = ''L1'',
     enterprise_groups = [''Enterprise-DBA''], dba_roles = [DBA_L1], mfa_satisfied = True,
     authenticated_at = ''t''\<rparr>"

theorem l1_never_writes_witness:
  "\<forall>c. authorize example_l1 (build_tool_catalog default_settings ! 19) c \<noteq> Inr ()"
proof
  fix c
  let ?t = "build_tool_catalog default_settings ! 19"
  have l: "length (build_tool_catalog default_settings) = 33"
    by (simp add: build_tool_catalog_def read_tools_def write_tools_def restricted_tools_def)
  show "authorize example_l1 ?t c \<noteq> Inr ()"
  proof (rule l1_never_writes)
    show "?t \<in> set (build_tool_catalog default_settings)" by (rule nth_mem) (simp add: l)
    show "td_data_modification ?t"
      by (simp add: build_tool_catalog_def read_tools_def write_tools_def tool_defs nth_append)
  qed (simp add: example_l1_def)
qed

end
