(* ===== verification/Sql_Text.thy ===== *)
theory Sql_Text
  imports Common_Models
begin

text \<open>
  SQL text in the Gateway: the read-only validator (gateway/domain/sql_validator.py) and the
  literal scrubber (gateway/domain/query_scrubber.py). The sqlglot parser, its syntax trees and
  its generator are parameters: a record of the calls the two modules make on it, over an
  arbitrary type of tree. The fallback scrub is a regular expression of the standard library
  and is modelled on characters.
\<close>

section \<open>What is called of sqlglot\<close>

datatype limit_clause =
    NoLimit
  | LimitOf "int option"
  \<comment> \<open>\<open>int(limit.expression.this)\<close>, or None when that raises\<close>

record 'n sqlglot =
  sg_parse :: "string \<Rightarrow> string \<Rightarrow> string + 'n option list"  \<comment> \<open>\<open>parse(sql, read=dialect)\<close>\<close>
  sg_parse_one :: "string \<Rightarrow> string option \<Rightarrow> string + 'n option"  \<comment> \<open>\<open>parse_one\<close> at level RAISE\<close>
  sg_is_select :: "'n \<Rightarrow> bool"
  sg_is_statement :: "'n \<Rightarrow> bool"  \<comment> \<open>an instance of one of \<open>_SQL_STATEMENT_TYPES\<close>\<close>
  sg_has_into :: "'n \<Rightarrow> bool"
  sg_function_names :: "'n \<Rightarrow> string list"  \<comment> \<open>\<open>name\<close> of each \<open>find_all(Anonymous, Func)\<close>\<close>
  sg_node_texts :: "'n \<Rightarrow> string list"  \<comment> \<open>\<open>str(n.this)\<close> of each node of \<open>walk()\<close>\<close>
  sg_table_names :: "'n \<Rightarrow> string list"
  sg_limit :: "'n \<Rightarrow> limit_clause"
  sg_set_limit :: "'n \<Rightarrow> int \<Rightarrow> 'n"
  sg_is_literal :: "'n \<Rightarrow> bool"
  sg_literal_string :: "string \<Rightarrow> 'n"
  sg_transform :: "'n \<Rightarrow> ('n \<Rightarrow> 'n) \<Rightarrow> 'n"
  sg_sql :: "'n \<Rightarrow> string option \<Rightarrow> string + string"

section \<open>The read-only validator (sql_validator.py)\<close>

definition DANGEROUS_FUNCTIONS :: "string list" where
  "DANGEROUS_FUNCTIONS =
     [''xp_cmdshell'', ''sp_configure'', ''opendatasource'', ''openrowset'', ''openquery'',
      ''pg_read_file'', ''pg_read_binary_file'', ''pg_ls_dir'', ''lo_import'', ''lo_export'',
      ''dblink'', ''load_file'', ''into_outfile'', ''sleep'', ''pg_sleep'', ''waitfor'', ''benchmark'']"

definition MAX_STATEMENT_LENGTH :: nat where
  "MAX_STATEMENT_LENGTH = 4000"

record ValidatedReadOnlySql =
  normalized_sql :: string
  referenced_tables :: "string list"

definition check_statement :: "'n sqlglot \<Rightarrow> 'n \<Rightarrow> unit result" where
  "check_statement sg statement =
     (if \<not> sg_is_select sg statement
      then Inl (NumiError SECURITY_BLOCKED ''Only SELECT statements are permitted through execute_readonly_sql.'')
      else if sg_has_into sg statement
      then Inl (NumiError SECURITY_BLOCKED ''SELECT ... INTO is not permitted.'')
      else case find (\<lambda>name. name \<in> set DANGEROUS_FUNCTIONS) (map lower (sg_function_names sg statement)) of
        Some name \<Rightarrow> Inl (NumiError SECURITY_BLOCKED
          (''Use of function '' @ [CHR 0x27] @ name @ [CHR 0x27] @ '' is not permitted.''))
      | None \<Rightarrow>
          if list_ex (\<lambda>text. is_infix_of_any DANGEROUS_FUNCTIONS (lower text)) (sg_node_texts sg statement)
          then Inl (NumiError SECURITY_BLOCKED ''Statement references a disallowed construct.'')
          else Inr ())"

definition cap_limit :: "'n sqlglot \<Rightarrow> int \<Rightarrow> 'n \<Rightarrow> 'n" where
  "cap_limit sg max_result_rows statement =
     (case sg_limit sg statement of
        NoLimit \<Rightarrow> sg_set_limit sg statement max_result_rows
      | LimitOf None \<Rightarrow> sg_set_limit sg statement max_result_rows
      | LimitOf (Some requested) \<Rightarrow>
          if requested > max_result_rows then sg_set_limit sg statement max_result_rows else statement)"

definition validate_readonly_sql ::
    "'n sqlglot \<Rightarrow> string \<Rightarrow> string \<Rightarrow> int \<Rightarrow> ValidatedReadOnlySql result" where
  "validate_readonly_sql sg sql dialect max_result_rows =
     (if length sql > MAX_STATEMENT_LENGTH
      then Inl (NumiError INVALID_ARGUMENTS ''SQL statement is too long.'')
      else case sg_parse sg sql dialect of
        Inl exc \<Rightarrow> Inl (NumiError INVALID_ARGUMENTS (''Could not parse SQL: '' @ exc))
      | Inr parsed \<Rightarrow>
          (case [s. Some s \<leftarrow> parsed] of
             [statement] \<Rightarrow>
               bindE (check_statement sg statement) (\<lambda>_.
                 let tables = sort (remdups (sg_table_names sg statement))
                 in case sg_sql sg (cap_limit sg max_result_rows statement) (Some dialect) of
                      Inl exc \<Rightarrow> Inl (PyExn exc)
                    | Inr text \<Rightarrow> Inr \<lparr>normalized_sql = text, referenced_tables = tables\<rparr>)
           | _ \<Rightarrow> Inl (NumiError SECURITY_BLOCKED
                 (''Only a single SQL statement is permitted '' @ em_dash @ '' reject multi-statement input.''))))"

section \<open>The fallback scrub (query_scrubber.py)\<close>

definition REDACTION_PLACEHOLDER :: string where
  "REDACTION_PLACEHOLDER = ''<redacted>''"

definition is_quote :: "char \<Rightarrow> bool" where
  "is_quote c \<longleftrightarrow> c = CHR 0x27"

definition is_wordy :: "char \<Rightarrow> bool" where
  \<comment> \<open>the class \<open>[\w.]\<close>\<close>
  "is_wordy c \<longleftrightarrow> is_lower c \<or> is_upper c \<or> is_digit c \<or> c = CHR ''_'' \<or> c = CHR ''.''"

fun quoted_rest :: "string \<Rightarrow> string option \<Rightarrow> string option" where
  \<comment> \<open>what is left after the longest \<open>(?:[^']|'')*'\<close>, the greedy match with its backtracking:
     without a closing quote the match ends at the first quote of the last pair\<close>
  "quoted_rest [] fallback = fallback"
| "quoted_rest (c # cs) fallback =
     (if \<not> is_quote c then quoted_rest cs fallback
      else case cs of
        [] \<Rightarrow> Some []
      | d # ds \<Rightarrow> if is_quote d then quoted_rest ds (Some cs) else Some cs)"

definition at_boundary :: "string \<Rightarrow> bool" where
  \<comment> \<open>\<open>(?![\w.])\<close>\<close>
  "at_boundary s \<longleftrightarrow> (case s of [] \<Rightarrow> True | c # _ \<Rightarrow> \<not> is_wordy c)"

definition number_rest :: "string \<Rightarrow> string option" where
  \<comment> \<open>what is left after \<open>\d+(?:\.\d+)?(?![\w.])\<close>; giving digits fallback never helps, since the
     next character would then be a digit\<close>
  "number_rest s =
     (if takeWhile is_digit s = [] then None
      else case dropWhile is_digit s of
        [] \<Rightarrow> Some []
      | c # r \<Rightarrow>
          if c = CHR ''.'' \<and> takeWhile is_digit r \<noteq> [] \<and> at_boundary (dropWhile is_digit r)
          then Some (dropWhile is_digit r)
          else if at_boundary (c # r) then Some (c # r) else None)"

definition literal_rest :: "char option \<Rightarrow> string \<Rightarrow> string option" where
  \<comment> \<open>the pattern at one position: \<open>prev\<close> is the character before it\<close>
  "literal_rest prev s =
     (case s of
        [] \<Rightarrow> None
      | c # cs \<Rightarrow>
          if is_quote c then quoted_rest cs None
          else if (case prev of None \<Rightarrow> False | Some p \<Rightarrow> is_wordy p) then None
          else number_rest s)"

lemma quoted_rest_length: "quoted_rest s fallback = Some r \<Longrightarrow> length r \<le> length s \<or> fallback = Some r"
proof (induction s fallback rule: quoted_rest.induct)
  case (2 c cs fallback)
  then show ?case by (cases "is_quote c"; cases cs; cases "is_quote (hd cs)") auto
qed simp

lemma number_rest_length: "number_rest s = Some r \<Longrightarrow> length r < length s"
proof -
  assume n: "number_rest s = Some r"
  then have "takeWhile is_digit s \<noteq> []" by (auto simp: number_rest_def split: if_splits)
  then have "length (dropWhile is_digit s) < length s"
    by (metis length_append length_greater_0_conv less_add_same_cancel2 takeWhile_dropWhile_id)
  moreover have "length r \<le> length (dropWhile is_digit s)"
  proof (cases "dropWhile is_digit s")
    case (Cons c cs)
    have "r = c # cs \<or> r = dropWhile is_digit cs"
      using n unfolding number_rest_def Cons by (auto split: if_splits)
    with Cons length_dropWhile_le [of is_digit cs] show ?thesis by auto
  next
    case Nil
    show ?thesis using n unfolding number_rest_def Nil by (auto split: if_splits)
  qed
  ultimately show ?thesis by simp
qed

lemma literal_rest_length: "literal_rest prev s = Some r \<Longrightarrow> length r < length s"
  by (cases s) (auto simp: literal_rest_def less_Suc_eq_le dest: quoted_rest_length number_rest_length split: if_splits)

function scrub_from :: "char option \<Rightarrow> string \<Rightarrow> string" where
  \<comment> \<open>\<open>re.sub\<close>: replace the leftmost match and go on after it. A match ends in a quote or a
     digit; only whether that character is in \<open>[\w.]\<close> matters for what follows\<close>
  "scrub_from prev s =
     (case s of
        [] \<Rightarrow> []
      | c # cs \<Rightarrow>
          (case literal_rest prev s of
             Some r \<Rightarrow> REDACTION_PLACEHOLDER @ scrub_from (Some (if is_quote c then c else CHR ''0'')) r
           | None \<Rightarrow> c # scrub_from (Some c) cs))"
  by pat_completeness auto
termination
  by (relation "measure (length \<circ> snd)") (auto dest: literal_rest_length)

declare scrub_from.simps [simp del]

definition regex_scrub :: "string \<Rightarrow> string" where
  "regex_scrub text = scrub_from None text"

definition redact_literal :: "'n sqlglot \<Rightarrow> 'n \<Rightarrow> 'n" where
  "redact_literal sg node =
     (if sg_is_literal sg node then sg_literal_string sg REDACTION_PLACEHOLDER else node)"

definition scrub_sql_literals :: "'n sqlglot \<Rightarrow> string option \<Rightarrow> string \<Rightarrow> string" where
  "scrub_sql_literals sg dialect text =
     (if text = [] \<or> strip text = [] then text
      else case sg_parse_one sg text dialect of
        Inl _ \<Rightarrow> regex_scrub text
      | Inr None \<Rightarrow> regex_scrub text
      | Inr (Some parsed) \<Rightarrow>
          if \<not> sg_is_statement sg parsed then regex_scrub text
          else (case sg_sql sg (sg_transform sg parsed (redact_literal sg)) dialect of
                  Inl _ \<Rightarrow> regex_scrub text
                | Inr sql \<Rightarrow> sql))"

section \<open>What the fallback scrub removes\<close>

lemma quote_not_wordy [simp]: "is_quote c \<Longrightarrow> \<not> is_wordy c"
  by (auto simp: is_quote_def is_wordy_def is_lower_def is_upper_def is_digit_def char_code_def)

lemma digit_wordy [simp]: "is_digit c \<Longrightarrow> is_wordy c"
  by (simp add: is_wordy_def)

lemma quoted_rest_None: "quoted_rest s fallback = None \<longleftrightarrow> fallback = None \<and> (\<forall>c \<in> set s. \<not> is_quote c)"
proof (induction s fallback rule: quoted_rest.induct)
  case (2 c cs fallback)
  then show ?case by (cases "is_quote c"; cases cs; cases "is_quote (hd cs)") auto
qed simp

definition quotes :: "string \<Rightarrow> nat" where
  "quotes s = length (filter is_quote s)"

lemma quotes_simps [simp]:
  "quotes [] = 0" "quotes (c # s) = (if is_quote c then Suc (quotes s) else quotes s)"
  "quotes (s @ t) = quotes s + quotes t" "quotes REDACTION_PLACEHOLDER = 0"
  by (simp_all add: quotes_def REDACTION_PLACEHOLDER_def is_quote_def)

lemma quotes_0_iff: "quotes s = 0 \<longleftrightarrow> (\<forall>c \<in> set s. \<not> is_quote c)"
  by (simp add: quotes_def filter_empty_conv)

lemma literal_rest_quotes: "literal_rest prev s = Some r \<Longrightarrow> quotes s = 0 \<Longrightarrow> quotes r = 0"
proof -
  assume l: "literal_rest prev s = Some r" and q: "quotes s = 0"
  then have "number_rest s = Some r" by (cases s) (auto simp: literal_rest_def split: if_splits)
  then have "set r \<subseteq> set s"
    by (auto simp: number_rest_def split: if_splits list.splits)
      (metis list.set_intros(2) set_dropWhileD, (metis set_dropWhileD)+)
  with q show ?thesis by (auto simp: quotes_0_iff)
qed

lemma scrub_from_Nil [simp]: "scrub_from prev [] = []"
  by (simp add: scrub_from.simps)

lemma scrub_from_keep: "literal_rest prev (c # cs) = None \<Longrightarrow> scrub_from prev (c # cs) = c # scrub_from (Some c) cs"
  by (simp add: scrub_from.simps [of prev])

lemma scrub_from_redact: "literal_rest prev (c # cs) = Some r \<Longrightarrow>
    scrub_from prev (c # cs) = REDACTION_PLACEHOLDER @ scrub_from (Some (if is_quote c then c else CHR ''0'')) r"
  by (simp add: scrub_from.simps [of prev])

lemma scrub_induct [case_names Nil Keep Redact]:
  assumes "\<And>prev. P prev []"
    and "\<And>prev c cs. literal_rest prev (c # cs) = None \<Longrightarrow> P (Some c) cs \<Longrightarrow> P prev (c # cs)"
    and "\<And>prev c cs r. literal_rest prev (c # cs) = Some r \<Longrightarrow>
      P (Some (if is_quote c then c else CHR ''0'')) r \<Longrightarrow> P prev (c # cs)"
  shows "P prev s"
proof (induction prev s rule: scrub_from.induct)
  case (1 prev s)
  show ?case
  proof (cases s)
    case (Cons c cs)
    with 1 assms(2) [of prev c cs] assms(3) [of prev c cs] show ?thesis
      by (cases "literal_rest prev s") auto
  qed (simp add: assms(1))
qed

lemma scrub_from_quotes_0: "quotes s = 0 \<Longrightarrow> quotes (scrub_from prev s) = 0"
proof (induction prev s rule: scrub_induct)
  case (Redact prev c cs r)
  with literal_rest_quotes [of prev "c # cs" r] show ?case by (simp add: scrub_from_redact)
qed (auto simp: scrub_from_keep split: if_splits)

lemma scrub_from_quotes: "quotes (scrub_from prev s) \<le> 1"
proof (induction prev s rule: scrub_induct)
  case (Keep prev c cs)
  show ?case
  proof (cases "is_quote c")
    case True
    with Keep have "quoted_rest cs None = None" by (simp add: literal_rest_def)
    then have "quotes cs = 0" by (simp add: quoted_rest_None quotes_0_iff)
    with Keep True show ?thesis by (simp add: scrub_from_keep scrub_from_quotes_0)
  qed (use Keep in \<open>simp add: scrub_from_keep\<close>)
qed (simp_all add: scrub_from_redact)

definition is_number :: "string \<Rightarrow> bool" where
  \<comment> \<open>\<open>\d+(\.\d+)?\<close> of the whole string\<close>
  "is_number w \<longleftrightarrow> takeWhile is_digit w \<noteq> [] \<and>
     (case dropWhile is_digit w of [] \<Rightarrow> True
      | c # r \<Rightarrow> c = CHR ''.'' \<and> r \<noteq> [] \<and> list_all is_digit r)"

function runs :: "string \<Rightarrow> string list" where
  \<comment> \<open>the maximal runs of word characters and dots\<close>
  "runs [] = []"
| "runs (c # cs) = (if is_wordy c then takeWhile is_wordy (c # cs) # runs (dropWhile is_wordy cs) else runs cs)"
  by pat_completeness auto
termination
  by (relation "measure length") (auto simp: le_imp_less_Suc length_dropWhile_le)

lemma at_boundary_simps [simp]: "at_boundary []" "at_boundary (c # s) \<longleftrightarrow> \<not> is_wordy c"
  by (simp_all add: at_boundary_def)

lemma at_boundary_dropWhile [simp]: "at_boundary (dropWhile is_wordy s)"
  by (induction s) auto

lemma dot_facts [simp]: "is_wordy CHR ''.''" "\<not> is_digit CHR ''.''"
  by (simp_all add: is_wordy_def is_digit_def char_code_def)

lemma takeWhile_wordy_digits:
  "takeWhile is_wordy s = takeWhile is_digit s @ takeWhile is_wordy (dropWhile is_digit s)"
  "dropWhile is_wordy s = dropWhile is_wordy (dropWhile is_digit s)"
  by (induction s) auto

lemma takeWhile_digits_only: "list_all is_digit (takeWhile is_wordy r) \<longleftrightarrow> at_boundary (dropWhile is_digit r)"
  by (induction r) auto

lemma dropWhile_digits_wordy: "at_boundary (dropWhile is_digit r) \<Longrightarrow> dropWhile is_wordy r = dropWhile is_digit r"
  by (induction r) auto

lemma dropWhile_digit_run:
  "dropWhile is_digit (takeWhile is_digit s @ t) = dropWhile is_digit t"
  by (induction s) auto

lemma takeWhile_digit_run:
  "takeWhile is_digit (takeWhile is_digit s @ t) = takeWhile is_digit s @ takeWhile is_digit t"
  by (induction s) auto

lemma number_rest_iff:
  "number_rest s = (if is_number (takeWhile is_wordy s) then Some (dropWhile is_wordy s) else None)"
proof (cases "takeWhile is_digit s = []")
  case True
  then have "takeWhile is_digit (takeWhile is_wordy s) = []" by (cases s) (auto split: if_splits)
  with True show ?thesis by (simp add: number_rest_def is_number_def)
next
  case some: False
  show ?thesis
  proof (cases "dropWhile is_digit s")
    case Nil
    have t: "takeWhile is_wordy s = takeWhile is_digit s @ []" and d: "dropWhile is_wordy s = []"
      using takeWhile_wordy_digits [of s] by (simp_all only: Nil takeWhile.simps dropWhile.simps)
    have "is_number (takeWhile is_wordy s)"
      unfolding is_number_def t dropWhile_digit_run takeWhile_digit_run using some by simp
    then show ?thesis using some unfolding number_rest_def Nil d by simp
  next
    case (Cons c r)
    then have nd: "\<not> is_digit c" using hd_dropWhile [of is_digit s] by simp
    have d: "dropWhile is_wordy s = dropWhile is_wordy (c # r)" using takeWhile_wordy_digits(2) [of s] Cons by simp
    have t: "takeWhile is_wordy s = takeWhile is_digit s @ takeWhile is_wordy (c # r)"
      using takeWhile_wordy_digits(1) [of s] Cons by simp
    have n: "is_number (takeWhile is_wordy s) \<longleftrightarrow>
        (if \<not> is_wordy c then True else c = CHR ''.'' \<and> takeWhile is_digit r \<noteq> [] \<and> at_boundary (dropWhile is_digit r))"
    proof -
      have "takeWhile is_wordy r \<noteq> [] \<and> list_all is_digit (takeWhile is_wordy r) \<longleftrightarrow>
          takeWhile is_digit r \<noteq> [] \<and> at_boundary (dropWhile is_digit r)"
        unfolding takeWhile_digits_only by (cases r) auto
      with nd some show ?thesis
        unfolding is_number_def t dropWhile_digit_run takeWhile_digit_run by auto
    qed
    show ?thesis
      using some nd unfolding number_rest_def Cons n d by (auto simp: dropWhile_digits_wordy)
  qed
qed

lemma scrub_keeps_run:
  "is_wordy p \<Longrightarrow> \<forall>c \<in> set w. is_wordy c \<Longrightarrow> scrub_from (Some p) (w @ s) = w @ scrub_from (Some (last (p # w))) s"
proof (induction w arbitrary: p)
  case (Cons c w)
  then have "literal_rest (Some p) (c # w @ s) = None"
    by (auto simp: literal_rest_def dest: quote_not_wordy)
  with Cons show ?case by (simp add: scrub_from_keep)
qed simp

lemma runs_append: "w \<noteq> [] \<Longrightarrow> \<forall>c \<in> set w. is_wordy c \<Longrightarrow> at_boundary x \<Longrightarrow> runs (w @ x) = w # runs x"
proof -
  assume w: "w \<noteq> []" "\<forall>c \<in> set w. is_wordy c" and x: "at_boundary x"
  then obtain c v where v: "w = c # v" by (cases w) auto
  have stop: "x = [] \<or> \<not> is_wordy (hd x)" using x by (cases x) auto
  have "takeWhile is_wordy (w @ x) = w" using w(2) stop by (rule takeWhile_append_stop)
  moreover have "dropWhile is_wordy (v @ x) = x" using w(2) v stop by (intro dropWhile_append_stop) auto
  ultimately show ?thesis using w(2) v by simp
qed

lemma runs_placeholder: "runs (REDACTION_PLACEHOLDER @ x) = ''redacted'' # runs x"
proof -
  have "runs (''redacted'' @ CHR ''>'' # x) = ''redacted'' # runs (CHR ''>'' # x)"
    by (rule runs_append) (simp_all add: is_wordy_def is_lower_def is_upper_def is_digit_def char_code_def)
  then show ?thesis
    by (simp add: REDACTION_PLACEHOLDER_def is_wordy_def is_lower_def is_upper_def is_digit_def char_code_def)
qed

lemma scrub_from_boundary: "at_boundary s \<Longrightarrow> at_boundary (scrub_from prev s)"
proof (cases s)
  case (Cons c cs)
  assume "at_boundary s"
  then show ?thesis using Cons
    by (cases "literal_rest prev s")
      (simp_all add: scrub_from_keep scrub_from_redact REDACTION_PLACEHOLDER_def is_wordy_def is_lower_def is_upper_def is_digit_def char_code_def)
qed simp

lemma scrub_from_runs:
  "(case prev of None \<Rightarrow> True | Some p \<Rightarrow> \<not> is_wordy p) \<or> at_boundary s \<Longrightarrow>
     \<forall>w \<in> set (runs (scrub_from prev s)). \<not> is_number w"
proof (induction "length s" arbitrary: prev s rule: less_induct)
  case less
  show ?case
  proof (cases s)
    case (Cons c cs)
    show ?thesis
    proof (cases "is_wordy c")
      case False
      show ?thesis
      proof (cases "literal_rest prev s")
        case None
        have "\<forall>w \<in> set (runs (scrub_from (Some c) cs)). \<not> is_number w"
          by (rule less.hyps) (use Cons False in simp_all)
        with None Cons False show ?thesis by (simp add: scrub_from_keep)
      next
        case (Some r)
        have q: "is_quote c"
        proof (rule ccontr)
          assume "\<not> is_quote c"
          with Some Cons have "number_rest s = Some r" by (auto simp: literal_rest_def split: if_splits)
          with Cons False show False by (auto simp: number_rest_def split: if_splits dest: digit_wordy)
        qed
        have "\<forall>w \<in> set (runs (scrub_from (Some c) r)). \<not> is_number w"
          by (rule less.hyps) (use literal_rest_length [OF Some] False in simp_all)
        moreover have "\<not> is_number ''redacted''" by (simp add: is_number_def is_digit_def char_code_def)
        ultimately show ?thesis using Some Cons q by (simp add: scrub_from_redact runs_placeholder)
      qed
    next
      case True
      let ?w = "takeWhile is_wordy s" and ?r = "dropWhile is_wordy s"
      have r: "\<forall>w \<in> set (runs (scrub_from p ?r)). \<not> is_number w" for p
      proof (rule less.hyps)
        show "length ?r < length s" using Cons True by (simp add: le_imp_less_Suc length_dropWhile_le)
      qed simp
      have lit: "literal_rest prev s = number_rest s"
        using less.prems Cons True quote_not_wordy [of c]
        by (auto simp: literal_rest_def split: option.splits)
      show ?thesis
      proof (cases "is_number ?w")
        case True
        moreover have "\<not> is_number ''redacted''" by (simp add: is_number_def is_digit_def char_code_def)
        ultimately show ?thesis
          using lit Cons r by (simp add: number_rest_iff scrub_from_redact runs_placeholder del: dropWhile.simps takeWhile.simps)
      next
        case False
        then have none: "literal_rest prev s = None" using lit by (simp add: number_rest_iff)
        have "cs = takeWhile is_wordy cs @ ?r" using Cons True by simp
        then have "scrub_from (Some c) cs = takeWhile is_wordy cs @ scrub_from (Some (last (c # takeWhile is_wordy cs))) ?r"
          using scrub_keeps_run [of c "takeWhile is_wordy cs" ?r] True by (metis set_takeWhileD)
        then have "scrub_from prev s = ?w @ scrub_from (Some (last ?w)) ?r"
          using none Cons True by (simp add: scrub_from_keep)
        moreover have "runs (?w @ scrub_from (Some (last ?w)) ?r) = ?w # runs (scrub_from (Some (last ?w)) ?r)"
          by (rule runs_append) (use Cons True in \<open>auto dest: set_takeWhileD intro: scrub_from_boundary\<close>)
        ultimately show ?thesis using r False by simp
      qed
    qed
  qed simp
qed

lemma scrub_unchanged:
  "\<forall>c \<in> set s. \<not> is_quote c \<and> \<not> is_digit c \<Longrightarrow> scrub_from prev s = s"
proof (induction prev s rule: scrub_induct)
  case (Redact prev c cs r)
  then show ?case by (auto simp: literal_rest_def number_rest_def split: if_splits)
qed (simp_all add: scrub_from_keep)

section \<open>Guarantees\<close>

text \<open>
  The fallback scrub leaves no quoted literal and no free-standing number: at most one quote
  character survives (an opening quote that is never closed), and no maximal run of word
  characters and dots in the result is a number. Text without quotes and digits is unchanged.
\<close>

theorem regex_scrub_redacts:
  "quotes (regex_scrub text) \<le> 1 \<and> filter is_number (runs (regex_scrub text)) = [] \<and>
   ((\<forall>c \<in> set text. \<not> is_quote c \<and> \<not> is_digit c) \<longrightarrow> regex_scrub text = text)"
  using scrub_from_quotes [of None "text"] scrub_from_runs [of None "text"] scrub_unchanged [of "text" None]
  by (simp add: regex_scrub_def filter_empty_conv)

theorem regex_scrub_redacts_witness: "regex_scrub ''duplicate key'' = ''duplicate key''"
  using regex_scrub_redacts [of "''duplicate key''"] by (simp add: is_quote_def is_digit_def char_code_def)

text \<open>
  The fallback scrub does not over-redact as far as its documentation says: a number that a
  full stop follows, as at the end of a sentence in a log line, is kept as it is.
\<close>

theorem number_before_full_stop_kept: "regex_scrub ''account 1234567890.'' = ''account 1234567890.''"
  by code_simp

lemma cap_limit_capped:
  assumes "\<And>n k. sg_limit sg (sg_set_limit sg n k) = LimitOf (Some k)"
  shows "\<exists>k \<le> cap. sg_limit sg (cap_limit sg cap st) = LimitOf (Some k)"
proof (cases "sg_limit sg st")
  case (LimitOf r)
  then show ?thesis by (cases r) (auto simp: cap_limit_def assms)
qed (simp add: cap_limit_def assms)

text \<open>
  C27. The read-only validator lets through only a single SELECT, no longer than the limit,
  without INTO, whose functions are none of the dangerous ones and none of whose nodes mentions
  one; the statement generated from it returns at most the tool's row cap. The hypothesis on the parser is that setting a limit on
  a statement sets it.
\<close>

theorem readonly_sql_single_capped_select:
  assumes limit_law: "\<And>n k. sg_limit sg (sg_set_limit sg n k) = LimitOf (Some k)"
    and "validate_readonly_sql sg sql dialect cap = Inr v"
  shows "length sql \<le> MAX_STATEMENT_LENGTH \<and>
     (\<exists>parsed st st' k. sg_parse sg sql dialect = Inr parsed \<and> filter (\<lambda>s. s \<noteq> None) parsed = [Some st] \<and>
        sg_is_select sg st \<and> \<not> sg_has_into sg st \<and>
        lower ` set (sg_function_names sg st) \<inter> set DANGEROUS_FUNCTIONS = {} \<and>
        (\<forall>text \<in> set (sg_node_texts sg st). \<not> is_infix_of_any DANGEROUS_FUNCTIONS (lower text)) \<and>
        st' \<in> {st, sg_set_limit sg st cap} \<and> sg_limit sg st' = LimitOf (Some k) \<and> k \<le> cap \<and>
        sg_sql sg st' (Some dialect) = Inr (normalized_sql v))"
proof -
  from assms(2) obtain parsed where p: "sg_parse sg sql dialect = Inr parsed" and l: "length sql \<le> MAX_STATEMENT_LENGTH"
    by (auto simp: validate_readonly_sql_def split: if_splits sum.splits)
  from assms(2) p l obtain st where st: "[s. Some s \<leftarrow> parsed] = [st]"
    by (auto simp: validate_readonly_sql_def split: list.splits if_splits)
  have f: "filter (\<lambda>s. s \<noteq> None) xs = map Some [s. Some s \<leftarrow> xs]" for xs :: "'a option list"
    by (induction xs) (auto split: option.splits)
  from assms(2) p l st have c: "check_statement sg st = Inr ()"
    and out: "sg_sql sg (cap_limit sg cap st) (Some dialect) = Inr (normalized_sql v)"
    by (auto simp: validate_readonly_sql_def split: sum.splits)
  from c have "sg_is_select sg st" "\<not> sg_has_into sg st"
    "lower ` set (sg_function_names sg st) \<inter> set DANGEROUS_FUNCTIONS = {}"
    "\<forall>text \<in> set (sg_node_texts sg st). \<not> is_infix_of_any DANGEROUS_FUNCTIONS (lower text)"
    by (auto simp: check_statement_def find_None_iff list_ex_iff split: if_splits option.splits)
  moreover obtain k where "k \<le> cap" "sg_limit sg (cap_limit sg cap st) = LimitOf (Some k)"
    using cap_limit_capped [OF limit_law] by blast
  moreover have "cap_limit sg cap st \<in> {st, sg_set_limit sg st cap}"
    by (auto simp: cap_limit_def split: limit_clause.splits option.splits)
  moreover have "filter (\<lambda>s. s \<noteq> None) parsed = [Some st]" using f [of parsed] st by simp
  ultimately show ?thesis using p l out
    by (intro conjI) (assumption, rule exI [of _ parsed], rule exI [of _ st], rule exI [of _ "cap_limit sg cap st"], rule exI [of _ k], simp)
qed

definition toy_sqlglot :: "limit_clause sqlglot" where
  \<comment> \<open>a parser whose trees are limit clauses\<close>
  "toy_sqlglot = \<lparr>sg_parse = (\<lambda>sql dialect. Inr [Some NoLimit, None]), sg_parse_one = (\<lambda>sql dialect. Inl []),
     sg_is_select = (\<lambda>n. True), sg_is_statement = (\<lambda>n. True), sg_has_into = (\<lambda>n. False),
     sg_function_names = (\<lambda>n. [''count'']), sg_node_texts = (\<lambda>n. []), sg_table_names = (\<lambda>n. [''t'']),
     sg_limit = (\<lambda>n. n), sg_set_limit = (\<lambda>n k. LimitOf (Some k)), sg_is_literal = (\<lambda>n. False),
     sg_literal_string = (\<lambda>s. NoLimit), sg_transform = (\<lambda>n f. f n),
     sg_sql = (\<lambda>n dialect. Inr (case n of LimitOf (Some k) \<Rightarrow> ''LIMIT '' @ int_str k | _ \<Rightarrow> []))\<rparr>"

theorem readonly_sql_single_capped_select_witness:
  "\<exists>st k. sg_limit toy_sqlglot st = LimitOf (Some k) \<and> k \<le> 100 \<and> sg_sql toy_sqlglot st (Some ''tsql'') = Inr (''LIMIT '' @ int_str 100)"
proof -
  have v: "validate_readonly_sql toy_sqlglot ''SELECT count(*) FROM t'' ''tsql'' 100 =
      Inr \<lparr>normalized_sql = ''LIMIT '' @ int_str 100, referenced_tables = [''t'']\<rparr>"
    by (simp add: validate_readonly_sql_def toy_sqlglot_def check_statement_def cap_limit_def MAX_STATEMENT_LENGTH_def
        DANGEROUS_FUNCTIONS_def lower_def lower_char_def is_upper_def char_code_def)
  have "\<And>n k. sg_limit toy_sqlglot (sg_set_limit toy_sqlglot n k) = LimitOf (Some k)" by (simp add: toy_sqlglot_def)
  from readonly_sql_single_capped_select [OF this v] show ?thesis by auto
qed

lemma validate_readonly_sql_errors:
  "validate_readonly_sql sg sql dialect cap = Inl x \<Longrightarrow>
     (\<exists>m. x = NumiError SECURITY_BLOCKED m) \<or> (\<exists>m. x = NumiError INVALID_ARGUMENTS m) \<or> (\<exists>m. x = PyExn m)"
  by (auto simp: validate_readonly_sql_def check_statement_def bindE_Inl_iff Let_def
      split: if_splits sum.splits list.splits option.splits)

end
