(* ===== verification/Data_Policy.thy ===== *)
theory Data_Policy
  imports Sql_Text
begin

text \<open>
  Data minimisation (gateway/domain/data_policy.py): what of a query result may leave the
  Gateway. Field patterns are regular expressions of the standard library; the model has the
  constructs the patterns use and represents a configured pattern by its syntax tree. The scrub
  of free-text fields is the one of Sql_Text, on the sqlglot parameter.
\<close>

section \<open>Regular expressions\<close>

datatype re =
    Lit string
  | Class string
  | Seq re re
  | Alt re re
  | Optional re
  | Bol
  | Eol
  | WordB

type_synonym re_pos = "char option \<times> string"
  \<comment> \<open>the character before the position, and the text after it\<close>

definition is_word :: "char \<Rightarrow> bool" where
  \<comment> \<open>the class \<open>\w\<close>\<close>
  "is_word c \<longleftrightarrow> is_lower c \<or> is_upper c \<or> is_digit c \<or> c = CHR ''_''"

fun lit_step :: "string \<Rightarrow> re_pos \<Rightarrow> re_pos list" where
  "lit_step [] p = [p]"
| "lit_step (c # cs) (b, []) = []"
| "lit_step (c # cs) (b, x # xs) = (if lower_char x = lower_char c then lit_step cs (Some x, xs) else [])"

fun re_step :: "re \<Rightarrow> re_pos \<Rightarrow> re_pos list" where
  \<comment> \<open>the positions a match that starts here can end at, case ignored\<close>
  "re_step (Lit s) p = lit_step s p"
| "re_step (Class cs) (b, []) = []"
| "re_step (Class cs) (b, x # xs) = (if lower_char x \<in> lower_char ` set cs then [(Some x, xs)] else [])"
| "re_step (Seq r s) p = concat (map (re_step s) (re_step r p))"
| "re_step (Alt r s) p = re_step r p @ re_step s p"
| "re_step (Optional r) p = re_step r p @ [p]"
| "re_step Bol p = (if fst p = None then [p] else [])"
| "re_step Eol p = (if snd p = [] \<or> snd p = [CHR 0x0A] then [p] else [])"
| "re_step WordB p =
     (if (case fst p of None \<Rightarrow> False | Some c \<Rightarrow> is_word c) \<noteq> (case snd p of [] \<Rightarrow> False | c # _ \<Rightarrow> is_word c)
      then [p] else [])"

fun search_from :: "re \<Rightarrow> char option \<Rightarrow> string \<Rightarrow> bool" where
  "search_from r b [] \<longleftrightarrow> re_step r (b, []) \<noteq> []"
| "search_from r b (x # xs) \<longleftrightarrow> re_step r (b, x # xs) \<noteq> [] \<or> search_from r (Some x) xs"

definition re_search :: "re \<Rightarrow> string \<Rightarrow> bool" where
  "re_search r s \<longleftrightarrow> search_from r None s"

fun re_join :: "re list \<Rightarrow> re" where
  \<comment> \<open>the pattern \<open>"|".join(patterns)\<close>: with no pattern it is empty and matches everything\<close>
  "re_join [] = Lit []"
| "re_join [r] = r"
| "re_join (r # s # rs) = Alt r (re_join (s # rs))"

section \<open>Field classes\<close>

definition DEFAULT_SENSITIVE_FIELD_PATTERNS :: "re list" where
  "DEFAULT_SENSITIVE_FIELD_PATTERNS =
     [Lit ''password'',
      Seq (Lit ''pass'') (Seq (Optional (Class ''_-'')) (Lit ''hash'')),
      Lit ''token'',
      Lit ''secret'',
      Seq (Lit ''api'') (Seq (Optional (Class ''_-'')) (Lit ''key'')),
      Seq (Lit ''card'') (Seq (Optional (Class ''_-'')) (Lit ''number'')),
      Seq (Lit ''account'') (Seq (Optional (Class ''_-'')) (Lit ''number'')),
      Seq WordB (Seq (Lit ''bvn'') WordB),
      Seq WordB (Seq (Lit ''nin'') WordB),
      Lit ''ssn'',
      Lit ''phone'',
      Seq (Lit ''e'') (Seq (Optional (Class ''-_'')) (Lit ''mail'')),
      Lit ''address'',
      Lit ''auth'',
      Lit ''credential'',
      Seq (Lit ''connection'') (Seq (Optional (Class ''_-'')) (Lit ''string''))]"

definition field_end :: "re \<Rightarrow> re" where
  \<comment> \<open>\<open>(^|_)r$\<close>\<close>
  "field_end r = Seq (Alt Bol (Lit ''_'')) (Seq r Eol)"

definition DEFAULT_FREE_TEXT_SQL_FIELD_PATTERNS :: "re list" where
  "DEFAULT_FREE_TEXT_SQL_FIELD_PATTERNS =
     [Lit ''query_text'',
      field_end (Lit ''query''),
      field_end (Seq (Lit ''sql'') (Optional (Lit ''_text''))),
      field_end (Seq (Lit ''statement'') (Optional (Lit ''_text''))),
      field_end (Lit ''text''),
      Lit ''query_plan'',
      Lit ''plan_summary'',
      Lit ''deadlock_graph'',
      Lit ''latest_detected_deadlock'',
      field_end (Lit ''message''),
      Lit ''log_line'',
      Lit ''log_text'']"

definition SQLGLOT_DIALECTS :: "(string \<times> string) list" where
  "SQLGLOT_DIALECTS =
     [(''sqlserver'', ''tsql''), (''postgresql'', ''postgres''), (''mysql'', ''mysql''), (''mariadb'', ''mysql'')]"

definition sqlglot_dialect_for_platform :: "string option \<Rightarrow> string option" where
  "sqlglot_dialect_for_platform platform =
     (if \<not> nonempty platform then None else map_of SQLGLOT_DIALECTS (lower (opt_or platform [])))"

section \<open>The minimiser (class DataMinimizer)\<close>

record DataPolicyConfig =
  sensitive_field_patterns :: "re list"
  free_text_sql_field_patterns :: "re list"
  field_allowlist :: "string list option"
  field_denylist :: "string list"
  max_rows :: nat
  max_columns :: nat
  max_result_bytes :: nat

definition default_data_policy :: DataPolicyConfig where
  "default_data_policy =
     \<lparr>sensitive_field_patterns = DEFAULT_SENSITIVE_FIELD_PATTERNS,
      free_text_sql_field_patterns = DEFAULT_FREE_TEXT_SQL_FIELD_PATTERNS,
      field_allowlist = None, field_denylist = [], max_rows = 100, max_columns = 50,
      max_result_bytes = 512000\<rparr>"

record MinimizedResult =
  mr_rows :: "jrow list"
  mr_masked_fields :: "string list"
  mr_truncated :: bool
  mr_literal_scrubbed_fields :: "string list"

definition is_sensitive :: "DataPolicyConfig \<Rightarrow> string \<Rightarrow> bool" where
  "is_sensitive cfg field_name = re_search (re_join (sensitive_field_patterns cfg)) field_name"

definition is_free_text_sql :: "DataPolicyConfig \<Rightarrow> string \<Rightarrow> bool" where
  "is_free_text_sql cfg field_name =
     (free_text_sql_field_patterns cfg \<noteq> []
      \<and> re_search (re_join (free_text_sql_field_patterns cfg)) field_name)"

record row_state =
  rw_clean :: jrow
  rw_masked :: "string list"
  rw_scrubbed :: "string list"
  rw_truncated :: bool

definition off_allowlist :: "DataPolicyConfig \<Rightarrow> string \<Rightarrow> bool" where
  "off_allowlist cfg k = (case field_allowlist cfg of None \<Rightarrow> False | Some ks \<Rightarrow> k \<notin> set ks)"

fun minimize_row ::
    "DataPolicyConfig \<Rightarrow> (string \<Rightarrow> string) \<Rightarrow> nat \<Rightarrow> row_state \<Rightarrow> jrow \<Rightarrow> row_state" where
  \<comment> \<open>the loop over \<open>row.items()\<close>, with the column count and what has been gathered; the keys of
     a row are distinct\<close>
  "minimize_row cfg scrub col_count st [] = st"
| "minimize_row cfg scrub col_count st ((k, v) # items) =
     (if off_allowlist cfg k
      then minimize_row cfg scrub col_count st items
      else if k \<in> set (field_denylist cfg)
      then minimize_row cfg scrub col_count st items
      else if col_count \<ge> max_columns cfg
      then st\<lparr>rw_truncated := True\<rparr>
      else if is_sensitive cfg k
      then minimize_row cfg scrub (col_count + 1)
             (st\<lparr>rw_clean := rw_clean st @ [(k, JStr ''***MASKED***'')], rw_masked := k # rw_masked st\<rparr>) items
      else (case v of
              JStr s \<Rightarrow>
                if is_free_text_sql cfg k
                then minimize_row cfg scrub (col_count + 1)
                       (st\<lparr>rw_clean := rw_clean st @ [(k, JStr (scrub s))],
                          rw_scrubbed := (if scrub s \<noteq> s then k # rw_scrubbed st else rw_scrubbed st)\<rparr>) items
                else minimize_row cfg scrub (col_count + 1) (st\<lparr>rw_clean := rw_clean st @ [(k, v)]\<rparr>) items
            | _ \<Rightarrow> minimize_row cfg scrub (col_count + 1) (st\<lparr>rw_clean := rw_clean st @ [(k, v)]\<rparr>) items))"

fun minimize_rows ::
    "DataPolicyConfig \<Rightarrow> (string \<Rightarrow> string) \<Rightarrow> jrow list \<Rightarrow> MinimizedResult \<Rightarrow> MinimizedResult" where
  \<comment> \<open>the loop over the rows; the field sets are gathered as lists\<close>
  "minimize_rows cfg scrub [] acc = acc"
| "minimize_rows cfg scrub (row # rows) acc =
     (let st = minimize_row cfg scrub 0
                 \<lparr>rw_clean = [], rw_masked = mr_masked_fields acc, rw_scrubbed = mr_literal_scrubbed_fields acc,
                  rw_truncated = mr_truncated acc\<rparr> row
      in minimize_rows cfg scrub rows
           \<lparr>mr_rows = mr_rows acc @ [rw_clean st], mr_masked_fields = rw_masked st,
            mr_truncated = rw_truncated st, mr_literal_scrubbed_fields = rw_scrubbed st\<rparr>)"

definition row_cap :: "DataPolicyConfig \<Rightarrow> nat option \<Rightarrow> nat" where
  "row_cap cfg requested = (case requested of None \<Rightarrow> max_rows cfg | Some n \<Rightarrow> if n = 0 then max_rows cfg else n)"

definition minimize ::
    "'n sqlglot \<Rightarrow> DataPolicyConfig \<Rightarrow> nat option \<Rightarrow> string option \<Rightarrow> jrow list \<Rightarrow> MinimizedResult" where
  "minimize sg cfg requested dialect rows =
     (let cap = row_cap cfg requested;
          out = minimize_rows cfg (scrub_sql_literals sg dialect) (take cap rows)
                  \<lparr>mr_rows = [], mr_masked_fields = [], mr_truncated = length rows > cap,
                   mr_literal_scrubbed_fields = []\<rparr>
      in out\<lparr>mr_masked_fields := sort (remdups (mr_masked_fields out)),
             mr_literal_scrubbed_fields := sort (remdups (mr_literal_scrubbed_fields out))\<rparr>)"

definition apply_policy ::
    "'n sqlglot \<Rightarrow> DataPolicyConfig \<Rightarrow> nat option \<Rightarrow> jrow list \<Rightarrow> jrow list \<times> string list \<times> bool" where
  "apply_policy sg cfg requested rows =
     (let outcome = minimize sg cfg requested None rows
      in (mr_rows outcome, mr_masked_fields outcome, mr_truncated outcome))"

section \<open>What minimisation computes\<close>

text \<open>The declarative reading of the loops: which fields pass, and what becomes of each.\<close>

definition passes :: "DataPolicyConfig \<Rightarrow> string \<times> json \<Rightarrow> bool" where
  "passes cfg f \<longleftrightarrow> \<not> off_allowlist cfg (fst f) \<and> fst f \<notin> set (field_denylist cfg)"

definition scrubs :: "DataPolicyConfig \<Rightarrow> string \<times> json \<Rightarrow> bool" where
  "scrubs cfg f \<longleftrightarrow> \<not> is_sensitive cfg (fst f) \<and> is_free_text_sql cfg (fst f) \<and> (\<exists>s. snd f = JStr s)"

definition treat :: "DataPolicyConfig \<Rightarrow> (string \<Rightarrow> string) \<Rightarrow> string \<times> json \<Rightarrow> string \<times> json" where
  "treat cfg scrub f =
     (fst f, if is_sensitive cfg (fst f) then JStr ''***MASKED***''
             else if is_free_text_sql cfg (fst f) then (case snd f of JStr s \<Rightarrow> JStr (scrub s) | v \<Rightarrow> v)
             else snd f)"

definition kept :: "DataPolicyConfig \<Rightarrow> jrow \<Rightarrow> jrow" where
  "kept cfg row = take (max_columns cfg) (filter (passes cfg) row)"

definition row_spec :: "DataPolicyConfig \<Rightarrow> (string \<Rightarrow> string) \<Rightarrow> nat \<Rightarrow> row_state \<Rightarrow> jrow \<Rightarrow> row_state" where
  "row_spec cfg scrub n st row =
     (let ps = filter (passes cfg) row; ks = take (max_columns cfg - n) ps
      in \<lparr>rw_clean = rw_clean st @ map (treat cfg scrub) ks,
          rw_masked = rev (map fst (filter (\<lambda>f. is_sensitive cfg (fst f)) ks)) @ rw_masked st,
          rw_scrubbed = rev (map fst (filter (\<lambda>f. scrubs cfg f \<and> treat cfg scrub f \<noteq> f) ks)) @ rw_scrubbed st,
          rw_truncated = (rw_truncated st \<or> length ps > max_columns cfg - n)\<rparr>)"

lemma row_spec_skip: "\<not> passes cfg f \<Longrightarrow> row_spec cfg scrub n st (f # items) = row_spec cfg scrub n st items"
  by (simp add: row_spec_def)

lemma row_spec_full: "passes cfg f \<Longrightarrow> max_columns cfg \<le> n \<Longrightarrow>
    row_spec cfg scrub n st (f # items) = st\<lparr>rw_truncated := True\<rparr>"
  by (simp add: row_spec_def)

definition take_field :: "DataPolicyConfig \<Rightarrow> (string \<Rightarrow> string) \<Rightarrow> row_state \<Rightarrow> string \<times> json \<Rightarrow> row_state" where
  "take_field cfg scrub st f =
     \<lparr>rw_clean = rw_clean st @ [treat cfg scrub f],
      rw_masked = (if is_sensitive cfg (fst f) then fst f # rw_masked st else rw_masked st),
      rw_scrubbed = (if scrubs cfg f \<and> treat cfg scrub f \<noteq> f then fst f # rw_scrubbed st else rw_scrubbed st),
      rw_truncated = rw_truncated st\<rparr>"

lemma row_spec_take:
  assumes p: "passes cfg f" and n: "n < max_columns cfg"
  shows "row_spec cfg scrub n st (f # items) = row_spec cfg scrub (n + 1) (take_field cfg scrub st f) items"
proof -
  from n obtain m where m: "max_columns cfg - n = Suc m" by (metis Suc_diff_Suc)
  then have "max_columns cfg - (n + 1) = m" by simp
  with p m show ?thesis by (simp add: row_spec_def take_field_def Let_def)
qed

lemma minimize_row_take:
  assumes "passes cfg (k, v)" and "n < max_columns cfg"
  shows "minimize_row cfg scrub n st ((k, v) # items) = minimize_row cfg scrub (n + 1) (take_field cfg scrub st (k, v)) items"
proof -
  have step: "minimize_row cfg scrub n st ((k, v) # items) = minimize_row cfg scrub (n + 1)
      (if is_sensitive cfg k
       then st\<lparr>rw_clean := rw_clean st @ [(k, JStr ''***MASKED***'')], rw_masked := k # rw_masked st\<rparr>
       else case v of
         JStr s \<Rightarrow> if is_free_text_sql cfg k
           then st\<lparr>rw_clean := rw_clean st @ [(k, JStr (scrub s))],
                  rw_scrubbed := (if scrub s \<noteq> s then k # rw_scrubbed st else rw_scrubbed st)\<rparr>
           else st\<lparr>rw_clean := rw_clean st @ [(k, v)]\<rparr>
       | _ \<Rightarrow> st\<lparr>rw_clean := rw_clean st @ [(k, v)]\<rparr>) items"
    using assms unfolding passes_def by (cases v) simp_all
  show ?thesis unfolding step by (cases st; cases v) (simp_all add: take_field_def treat_def scrubs_def)
qed

lemma minimize_row_spec: "minimize_row cfg scrub n st row = row_spec cfg scrub n st row"
proof (induction row arbitrary: n st)
  case Nil
  show ?case by (simp add: row_spec_def)
next
  case (Cons f row)
  obtain k v where f: "f = (k, v)" by (cases f)
  consider "\<not> passes cfg f" | "passes cfg f" "max_columns cfg \<le> n" | "passes cfg f" "n < max_columns cfg"
    by linarith
  then show ?case
  proof cases
    case 1
    then show ?thesis using Cons f by (auto simp: row_spec_skip passes_def)
  next
    case 2
    then show ?thesis using f by (auto simp: row_spec_full passes_def)
  next
    case 3
    then show ?thesis using Cons f by (simp add: row_spec_take minimize_row_take del: minimize_row.simps)
  qed
qed

definition masked_in :: "DataPolicyConfig \<Rightarrow> jrow list \<Rightarrow> string set" where
  \<comment> \<open>the names of the sensitive fields of some rows that are shown, masked\<close>
  "masked_in cfg rows = fst ` {f \<in> set (concat (map (kept cfg) rows)). is_sensitive cfg (fst f)}"

definition scrubbed_in :: "DataPolicyConfig \<Rightarrow> (string \<Rightarrow> string) \<Rightarrow> jrow list \<Rightarrow> string set" where
  \<comment> \<open>the names of the free-text fields of some rows that the scrub changed\<close>
  "scrubbed_in cfg scrub rows =
     fst ` {f \<in> set (concat (map (kept cfg) rows)). scrubs cfg f \<and> treat cfg scrub f \<noteq> f}"

definition wide :: "DataPolicyConfig \<Rightarrow> jrow \<Rightarrow> bool" where
  "wide cfg row \<longleftrightarrow> length (filter (passes cfg) row) > max_columns cfg"

lemma minimize_rows_spec:
  defines "out cfg scrub rows acc \<equiv> minimize_rows cfg scrub rows acc"
  shows "mr_rows (out cfg scrub rows acc) = mr_rows acc @ map (\<lambda>row. map (treat cfg scrub) (kept cfg row)) rows"
    and "set (mr_masked_fields (out cfg scrub rows acc)) = set (mr_masked_fields acc) \<union> masked_in cfg rows"
    and "set (mr_literal_scrubbed_fields (out cfg scrub rows acc)) =
           set (mr_literal_scrubbed_fields acc) \<union> scrubbed_in cfg scrub rows"
    and "mr_truncated (out cfg scrub rows acc) \<longleftrightarrow> mr_truncated acc \<or> list_ex (wide cfg) rows"
  unfolding out_def
  by (induction rows arbitrary: acc)
    (auto simp: minimize_row_spec row_spec_def Let_def kept_def masked_in_def scrubbed_in_def wide_def)

lemma sort_remdups_set: "sort (remdups xs) = sorted_list_of_set (set (xs :: string list))"
  by (simp add: sorted_list_of_set_sort_remdups)

lemma minimize_spec:
  "minimize sg cfg requested dialect rows =
     (let cap = row_cap cfg requested; scrub = scrub_sql_literals sg dialect
      in \<lparr>mr_rows = map (\<lambda>row. map (treat cfg scrub) (kept cfg row)) (take cap rows),
          mr_masked_fields = sorted_list_of_set (masked_in cfg (take cap rows)),
          mr_truncated = (length rows > cap \<or> list_ex (wide cfg) (take cap rows)),
          mr_literal_scrubbed_fields = sorted_list_of_set (scrubbed_in cfg scrub (take cap rows))\<rparr>)"
  unfolding minimize_def Let_def
  by (rule MinimizedResult.equality) (simp_all add: minimize_rows_spec sort_remdups_set)

lemma minimized_row:
  assumes "row \<in> set (mr_rows (minimize sg cfg requested dialect rows))"
  shows "length row \<le> max_columns cfg \<and>
     (\<forall>(k, v) \<in> set row. (is_sensitive cfg k \<longrightarrow> v = JStr ''***MASKED***'') \<and> passes cfg (k, v))"
proof -
  from assms obtain row0 where r: "row = map (treat cfg (scrub_sql_literals sg dialect)) (kept cfg row0)"
    by (auto simp: minimize_spec Let_def)
  have "passes cfg f" if "f \<in> set (kept cfg row0)" for f
    using in_set_takeD [of f "max_columns cfg" "filter (passes cfg) row0"] that by (simp add: kept_def)
  moreover have "passes cfg (treat cfg scrub f) = passes cfg f" for scrub f
    by (simp add: passes_def treat_def)
  moreover have "length row \<le> max_columns cfg" using r by (simp add: kept_def)
  ultimately show ?thesis using r by (auto simp: treat_def)
qed

lemma size_cap_unread:
  fixes cfg n
  defines "cfg' \<equiv> cfg\<lparr>max_result_bytes := n\<rparr>"
  shows "row_cap cfg' = row_cap cfg" "kept cfg' = kept cfg" "treat cfg' = treat cfg" "wide cfg' = wide cfg"
    "masked_in cfg' = masked_in cfg" "scrubbed_in cfg' = scrubbed_in cfg"
proof -
  have names: "is_sensitive cfg' = is_sensitive cfg" "is_free_text_sql cfg' = is_free_text_sql cfg" "passes cfg' = passes cfg"
    by (simp_all add: cfg'_def fun_eq_iff is_sensitive_def is_free_text_sql_def passes_def off_allowlist_def)
  have caps: "max_columns cfg' = max_columns cfg" "max_rows cfg' = max_rows cfg" by (simp_all add: cfg'_def)
  show k: "kept cfg' = kept cfg" and r: "treat cfg' = treat cfg" and "row_cap cfg' = row_cap cfg" "wide cfg' = wide cfg"
    by (simp_all add: fun_eq_iff kept_def treat_def row_cap_def wide_def names caps split: option.split)
  show "masked_in cfg' = masked_in cfg" "scrubbed_in cfg' = scrubbed_in cfg"
    by (simp_all add: fun_eq_iff masked_in_def scrubbed_in_def scrubs_def k r names)
qed

section \<open>Guarantees\<close>

text \<open>
  C26. Minimisation, in full: the result has at most the row cap of rows, the first ones; each
  shows the first fields, up to the column cap, that the allowlist has and the denylist does
  not; a field with a sensitive name shows the mask whatever its value and whatever other class
  its name is in, a text field of the free-text class shows its scrubbed text, every other
  field its value. The reported field names are exactly the masked and the changed ones, in
  order, and the result is marked truncated exactly when a row or a field was dropped by a cap.
  This is all: the cap on the size of the whole result that the module's documentation promises
  and the configuration carries (max_result_bytes) has no influence on any result.
\<close>

theorem minimize_exact:
  "minimize sg cfg requested dialect rows =
     (let cap = row_cap cfg requested; scrub = scrub_sql_literals sg dialect
      in \<lparr>mr_rows = map (\<lambda>row. map (treat cfg scrub) (kept cfg row)) (take cap rows),
          mr_masked_fields = sorted_list_of_set (masked_in cfg (take cap rows)),
          mr_truncated = (length rows > cap \<or> list_ex (wide cfg) (take cap rows)),
          mr_literal_scrubbed_fields = sorted_list_of_set (scrubbed_in cfg scrub (take cap rows))\<rparr>) \<and>
   minimize sg (cfg\<lparr>max_result_bytes := n\<rparr>) requested dialect rows = minimize sg cfg requested dialect rows"
proof
  show "minimize sg (cfg\<lparr>max_result_bytes := n\<rparr>) requested dialect rows = minimize sg cfg requested dialect rows"
    by (simp only: minimize_spec size_cap_unread)
qed (rule minimize_spec)

text \<open>
  No sensitive value gets out: in whatever result, for whatever configuration, every field
  of the minimised rows whose name is sensitive shows the mask, and no row has more fields than
  the column cap or a field off the allowlist or on the denylist.
\<close>

theorem sensitive_fields_masked:
  assumes "row \<in> set (mr_rows (minimize sg cfg requested dialect rows))"
  shows "length row \<le> max_columns cfg \<and>
     (\<forall>(k, v) \<in> set row. (is_sensitive cfg k \<longrightarrow> v = JStr ''***MASKED***'') \<and> passes cfg (k, v))"
  using assms by (rule minimized_row)

theorem sensitive_fields_masked_witness:
  "\<forall>(k, v) \<in> set (hd (mr_rows (minimize toy_sqlglot default_data_policy None None [[(''user_password'', JStr ''hunter2'')]]))).
     is_sensitive default_data_policy k \<longrightarrow> v = JStr ''***MASKED***''"
proof -
  let ?m = "minimize toy_sqlglot default_data_policy None None [[(''user_password'', JStr ''hunter2'')]]"
  have "hd (mr_rows ?m) \<in> set (mr_rows ?m)"
    by (rule hd_in_set) (simp add: minimize_spec Let_def row_cap_def default_data_policy_def)
  from sensitive_fields_masked [OF this] show ?thesis by auto
qed

text \<open>
  The word boundaries of the two national-id patterns see an underscore as a letter, so under
  the default configuration a column named \<open>customer_bvn\<close> is not sensitive and its value is
  shown.
\<close>

theorem customer_bvn_not_masked:
  "\<not> is_sensitive default_data_policy ''customer_bvn'' \<and>
   mr_rows (minimize sg default_data_policy None None [[(''customer_bvn'', JInt n)]]) = [[(''customer_bvn'', JInt n)]]"
proof
  show bvn: "\<not> is_sensitive default_data_policy ''customer_bvn''"
    by (simp add: is_sensitive_def default_data_policy_def DEFAULT_SENSITIVE_FIELD_PATTERNS_def re_search_def
        lower_char_def is_upper_def is_lower_def is_digit_def is_word_def char_code_def)
  have t: "treat default_data_policy scrub (''customer_bvn'', JInt n) = (''customer_bvn'', JInt n)" for scrub
    using bvn by (simp add: treat_def)
  have p: "kept default_data_policy [f] = [f]" "row_cap default_data_policy None = 100" for f
    by (simp_all add: kept_def passes_def off_allowlist_def row_cap_def default_data_policy_def)
  show "mr_rows (minimize sg default_data_policy None None [[(''customer_bvn'', JInt n)]]) = [[(''customer_bvn'', JInt n)]]"
    by (simp add: minimize_spec Let_def p t)
qed

end
