(* ===== verification/Discovery.thy ===== *)
theory Discovery
  imports Target_Validation
begin

text \<open>
  Discovery on the Gateway side (gateway/domain/discovery.py): asking the Execution Service to
  crawl a server and storing the catalog. The orchestrator works on any catalog store, so its
  operations take the store's \<open>get\<close> and \<open>put\<close>; what the Execution Service answers is a
  parameter. Log lines are left out.
\<close>

datatype discovery_exn =
    LookupError string
  | HTTPStatusError nat
  | ConnectError
  | ConnectTimeout
  | ReadTimeout
  | TimeoutException
  | OtherExn string
  \<comment> \<open>the name of its type\<close>

fun exn_type_name :: "discovery_exn \<Rightarrow> string" where
  "exn_type_name (LookupError _) = ''LookupError''"
| "exn_type_name (HTTPStatusError _) = ''HTTPStatusError''"
| "exn_type_name ConnectError = ''ConnectError''"
| "exn_type_name ConnectTimeout = ''ConnectTimeout''"
| "exn_type_name ReadTimeout = ''ReadTimeout''"
| "exn_type_name TimeoutException = ''TimeoutException''"
| "exn_type_name (OtherExn n) = n"

definition clean_discovery_error :: "discovery_exn \<Rightarrow> string" where
  "clean_discovery_error exc =
     (case exc of
        HTTPStatusError n \<Rightarrow> ''execution service returned an error (status '' @ nat_str n @ '')''
      | ConnectError \<Rightarrow> ''could not reach the execution service''
      | ConnectTimeout \<Rightarrow> ''could not reach the execution service''
      | ReadTimeout \<Rightarrow> ''discovery timed out''
      | TimeoutException \<Rightarrow> ''discovery timed out''
      | _ \<Rightarrow> ''discovery failed ('' @ exn_type_name exc @ '')'')"

type_synonym discover_client = "DiscoveryRequest \<Rightarrow> discovery_exn + ServerCatalog"

definition refresh_server ::
    "('s \<Rightarrow> ServerCatalog \<Rightarrow> 's) \<Rightarrow> ServerRegistry \<Rightarrow> discover_client \<Rightarrow> nat \<Rightarrow> string
       \<Rightarrow> ('s, discovery_exn, ServerCatalog) comp" where
  "refresh_server put reg discover max_objects server_id store =
     (case by_id reg server_id of
        None \<Rightarrow> (Inl (LookupError (''No registered server '' @ [CHR 0x27] @ server_id @ [CHR 0x27] @ ''.'')), store)
      | Some server \<Rightarrow>
          (case discover \<lparr>dq_server_id = se_id server, dq_platform = se_platform server,
                          dq_max_objects_per_database = max_objects\<rparr> of
             Inl e \<Rightarrow> (Inl e, store)
           | Inr catalog \<Rightarrow> (Inr catalog, put store catalog)))"

fun refresh_servers ::
    "('s \<Rightarrow> ServerCatalog \<Rightarrow> 's) \<Rightarrow> ServerRegistry \<Rightarrow> discover_client \<Rightarrow> nat \<Rightarrow> ServerEntry list
       \<Rightarrow> (string \<times> string) list \<Rightarrow> 's \<Rightarrow> (string \<times> string) list \<times> 's" where
  \<comment> \<open>the loop of \<open>refresh_all\<close>, with the results gathered so far\<close>
  "refresh_servers put reg discover max_objects [] results store = (results, store)"
| "refresh_servers put reg discover max_objects (server # servers) results store =
     (if se_status server \<noteq> ''active''
      then refresh_servers put reg discover max_objects servers results store
      else case refresh_server put reg discover max_objects (se_id server) store of
        (Inr cat, store') \<Rightarrow>
          refresh_servers put reg discover max_objects servers
            (dict_set results (se_id server) (''ok ('' @ nat_str (length (sc_databases cat)) @ '' databases)'')) store'
      | (Inl e, store') \<Rightarrow>
          refresh_servers put reg discover max_objects servers
            (dict_set results (se_id server) (''failed: '' @ clean_discovery_error e)) store')"

definition refresh_all ::
    "('s \<Rightarrow> ServerCatalog \<Rightarrow> 's) \<Rightarrow> ServerRegistry \<Rightarrow> discover_client \<Rightarrow> nat \<Rightarrow> 's
       \<Rightarrow> (string \<times> string) list \<times> 's" where
  "refresh_all put reg discover max_objects store = refresh_servers put reg discover max_objects reg [] store"

definition ensure_fresh ::
    "('s \<Rightarrow> string \<Rightarrow> ServerCatalog option \<times> 's) \<Rightarrow> ('s \<Rightarrow> ServerCatalog \<Rightarrow> 's) \<Rightarrow> ServerRegistry
       \<Rightarrow> discover_client \<Rightarrow> nat \<Rightarrow> int \<Rightarrow> int \<Rightarrow> string \<Rightarrow> 's \<Rightarrow> 's" where
  \<comment> \<open>no exception leaves it\<close>
  "ensure_fresh get put reg discover max_objects refresh_minutes now server_id store =
     (case get store server_id of (existing, store') \<Rightarrow>
        if (case existing of None \<Rightarrow> False
            | Some c \<Rightarrow> (case sc_discovered_at c of None \<Rightarrow> False
                         | Some t \<Rightarrow> now - t < refresh_minutes * 60000000))
        then store'
        else snd (refresh_server put reg discover max_objects server_id store'))"

section \<open>On any catalog store\<close>

definition asks :: "ServerEntry \<Rightarrow> nat \<Rightarrow> DiscoveryRequest" where
  "asks server n = \<lparr>dq_server_id = se_id server, dq_platform = se_platform server, dq_max_objects_per_database = n\<rparr>"

definition answers_asked :: "discover_client \<Rightarrow> bool" where
  \<comment> \<open>the service answers with the catalog of the server it was asked for\<close>
  "answers_asked discover \<longleftrightarrow> (\<forall>q c. discover q = Inr c \<longrightarrow> sc_server_id c = dq_server_id q)"

lemma by_id_mem: "by_id reg i = Some e \<Longrightarrow> e \<in> set reg \<and> se_id e = i"
  unfolding by_id_def by (drule find_Some_iff_mem) simp

lemma by_id_distinct: "distinct (map se_id reg) \<Longrightarrow> e \<in> set reg \<Longrightarrow> by_id reg (se_id e) = Some e"
proof (induction reg)
  case (Cons x xs)
  then show ?case by (cases "x = e") (auto simp: by_id_def)
qed simp

definition refreshed :: "discover_client \<Rightarrow> nat \<Rightarrow> ServerEntry list \<Rightarrow> (string \<rightharpoonup> ServerCatalog) \<Rightarrow> string \<rightharpoonup> ServerCatalog" where
  \<comment> \<open>the catalogs after a refresh of the given servers\<close>
  "refreshed discover n servers v k =
     (case find (\<lambda>e. se_id e = k \<and> se_status e = ''active'') servers of
        None \<Rightarrow> v k
      | Some e \<Rightarrow> (case discover (asks e n) of Inl _ \<Rightarrow> v k | Inr c \<Rightarrow> Some c))"

definition reported :: "discover_client \<Rightarrow> nat \<Rightarrow> ServerEntry \<Rightarrow> string" where
  "reported discover n e =
     (case discover (asks e n) of
        Inl x \<Rightarrow> ''failed: '' @ clean_discovery_error x
      | Inr c \<Rightarrow> ''ok ('' @ nat_str (length (sc_databases c)) @ '' databases)'')"

lemma refresh_server_registered:
  "by_id reg (se_id e) = Some e \<Longrightarrow> refresh_server put reg discover n (se_id e) s =
     (case discover (asks e n) of Inl x \<Rightarrow> (Inl x, s) | Inr c \<Rightarrow> (Inr c, put s c))"
  by (simp add: refresh_server_def asks_def)

lemma dict_set_new: "k \<notin> set (map fst d) \<Longrightarrow> dict_set d k v = d @ [(k, v)]"
  by (induction d k v rule: dict_set.induct) auto

context catalog_store
begin

lemma refresh_servers_result:
  assumes "answers_asked discover" and "distinct (map se_id reg)"
  shows "set servers \<subseteq> set reg \<Longrightarrow> distinct (map fst results @ map se_id servers) \<Longrightarrow> invar s \<Longrightarrow>
     refresh_servers put reg discover n servers results s = (out, s') \<Longrightarrow>
     out = results @ map (\<lambda>e. (se_id e, reported discover n e)) (filter (\<lambda>e. se_status e = ''active'') servers) \<and>
     invar s' \<and> view s' = refreshed discover n servers (view s)"
proof (induction servers arbitrary: results s)
  case Nil
  then show ?case by (simp add: refreshed_def fun_eq_iff)
next
  case (Cons e servers)
  show ?case
  proof (cases "se_status e = ''active''")
    case False
    with Cons show ?thesis by (auto simp: refreshed_def fun_eq_iff)
  next
    case True
    have e: "by_id reg (se_id e) = Some e" using Cons.prems(1) assms(2) by (simp add: by_id_distinct)
    have new: "dict_set results (se_id e) v = results @ [(se_id e, v)]" for v
      using Cons.prems(2) by (intro dict_set_new) auto
    have later: "find (\<lambda>x. se_id x = se_id e \<and> se_status x = ''active'') servers = None"
      using Cons.prems(2) by (auto simp: find_None_iff image_iff)
    show ?thesis
    proof (cases "discover (asks e n)")
      case (Inl x)
      with Cons.prems True e new
      have r: "refresh_servers put reg discover n servers (results @ [(se_id e, reported discover n e)]) s = (out, s')"
        by (simp add: refresh_server_registered reported_def)
      show ?thesis using Cons.IH [OF _ _ _ r] Cons.prems True Inl later
        by (auto simp: refreshed_def fun_eq_iff)
    next
      case (Inr c)
      have c: "sc_server_id c = se_id e" using assms(1) Inr by (auto simp: answers_asked_def asks_def)
      from Inr Cons.prems True e new
      have r: "refresh_servers put reg discover n servers (results @ [(se_id e, reported discover n e)]) (put s c) = (out, s')"
        by (simp add: refresh_server_registered reported_def)
      show ?thesis using Cons.IH [OF _ _ _ r] Cons.prems True Inr later c put_view [of s c] put_invar [of s c]
        by (auto simp: refreshed_def fun_eq_iff)
    qed
  qed
qed

lemma ensure_fresh_view:
  assumes "invar s" and "answers_asked discover"
  shows "invar (ensure_fresh get put reg discover n minutes now k s) \<and>
     (\<forall>j. j \<noteq> k \<longrightarrow> view (ensure_fresh get put reg discover n minutes now k s) j = view s j) \<and>
     view (ensure_fresh get put reg discover n minutes now k s) k =
       (if (\<exists>c t. view s k = Some c \<and> sc_discovered_at c = Some t \<and> now - t < minutes * 60000000) then view s k
        else case by_id reg k of None \<Rightarrow> view s k
          | Some e \<Rightarrow> (case discover (asks e n) of Inl _ \<Rightarrow> view s k | Inr c \<Rightarrow> Some c))"
proof -
  obtain existing s1 where g: "get s k = (existing, s1)" by fastforce
  have ex: "existing = view s k" and v: "view s1 = view s" and i: "invar s1"
    using get_value [OF assms(1), of k] get_view [OF assms(1), of k] get_invar [OF assms(1), of k] g by simp_all
  have fresh: "(case existing of None \<Rightarrow> False | Some c \<Rightarrow> (case sc_discovered_at c of None \<Rightarrow> False
      | Some t \<Rightarrow> now - t < minutes * 60000000)) \<longleftrightarrow>
      (\<exists>c t. view s k = Some c \<and> sc_discovered_at c = Some t \<and> now - t < minutes * 60000000)"
    unfolding ex by (auto split: option.splits)
  show ?thesis
  proof (cases "\<exists>c t. view s k = Some c \<and> sc_discovered_at c = Some t \<and> now - t < minutes * 60000000")
    case True
    then show ?thesis unfolding ensure_fresh_def g prod.case fresh using v i by simp
  next
    case False
    then have stale: "ensure_fresh get put reg discover n minutes now k s = snd (refresh_server put reg discover n k s1)"
      unfolding ensure_fresh_def g prod.case fresh by (simp only: if_False)
    show ?thesis
    proof (cases "by_id reg k")
      case None
      then show ?thesis unfolding stale if_not_P [OF False] using v i by (simp add: refresh_server_def)
    next
      case (Some e)
      from by_id_mem [OF Some] have k: "se_id e = k" by simp
      have r: "refresh_server put reg discover n k s1 =
          (case discover (asks e n) of Inl x \<Rightarrow> (Inl x, s1) | Inr c \<Rightarrow> (Inr c, put s1 c))"
        using refresh_server_registered [of reg e put discover n s1] Some k by simp
      show ?thesis
      proof (cases "discover (asks e n)")
        case (Inl x)
        with Some show ?thesis unfolding stale r if_not_P [OF False] using v i by simp
      next
        case (Inr c)
        have "sc_server_id c = k" using Inr assms(2) k by (auto simp: answers_asked_def asks_def)
        with Inr Some show ?thesis unfolding stale r if_not_P [OF False] using v put_view [OF i, of c] put_invar [OF i, of c] by simp
      qed
    qed
  qed
qed

end

section \<open>Guarantees\<close>

text \<open>
  A full refresh visits every active server once and no failure blocks the rest: with
  distinct server ids the report has exactly one entry for each active server, in registry
  order, whose text shows a failure only by its class; afterwards the database-backed store
  holds the new catalog of each server whose crawl succeeded and, for every other server, what
  it held before.
\<close>

theorem refresh_all_complete:
  assumes "answers_asked discover" and "distinct (map se_id reg)" and "db_invar s"
    and "refresh_all (db_put encode decode) reg discover n s = (report, s')"
  shows "report = map (\<lambda>e. (se_id e, reported discover n e)) (filter (\<lambda>e. se_status e = ''active'') reg) \<and>
     db_view decode s' = refreshed discover n reg (db_view decode s)"
  using db.refresh_servers_result [OF assms(1,2), of reg "[]" s encode decode n report s'] assms(2-4)
  by (simp add: refresh_all_def)

definition toy_discover :: discover_client where
  "toy_discover q = (if dq_server_id q = ''down'' then Inl (HTTPStatusError 500) else Inr (small_catalog (dq_server_id q) ''16''))"

theorem refresh_all_complete_witness:
  "refreshed toy_discover 10 [server_named ''down'', server_named ''up''] Map.empty ''up'' = Some (small_catalog ''up'' ''16'') \<and>
   fst (refresh_all (db_put small_encode small_decode) [server_named ''down'', server_named ''up''] toy_discover 10 (empty_store [])) =
     map (\<lambda>e. (se_id e, reported toy_discover 10 e)) [server_named ''down'', server_named ''up'']"
proof
  show "refreshed toy_discover 10 [server_named ''down'', server_named ''up''] Map.empty ''up'' = Some (small_catalog ''up'' ''16'')"
    by (simp add: refreshed_def toy_discover_def server_named_def asks_def)
  let ?r = "refresh_all (db_put small_encode small_decode) [server_named ''down'', server_named ''up''] toy_discover 10 (empty_store [])"
  have r: "?r = (fst ?r, snd ?r)" by simp
  have a: "answers_asked toy_discover"
    by (auto simp: answers_asked_def toy_discover_def small_catalog_def split: if_splits)
  have d: "distinct (map se_id [server_named ''down'', server_named ''up''])" by (simp add: server_named_def)
  have i: "db_invar (empty_store [])" by (simp add: db_invar_def empty_store_def)
  from refresh_all_complete [OF a d i r] show
    "fst ?r = map (\<lambda>e. (se_id e, reported toy_discover 10 e)) [server_named ''down'', server_named ''up'']"
    by (simp add: server_named_def)
qed

end
