(* ===== verification/Policy_Engine.thy ===== *)
theory Policy_Engine
  imports Target_Validation
begin

text \<open>
  The policy engine (gateway/domain/policy_engine.py): maintenance windows and the decision
  table. The time zone database is a parameter: \<open>zone name\<close> is the function from a moment to
  the local time of day in microseconds, or nothing when the name is unknown.
\<close>

section \<open>Maintenance windows\<close>

abbreviation DAY :: int where
  "DAY \<equiv> 86400000000"

type_synonym zones = "string \<Rightarrow> (int \<Rightarrow> int) option"

fun split_on :: "char \<Rightarrow> string \<Rightarrow> string list" where
  \<comment> \<open>\<open>s.split(c)\<close>\<close>
  "split_on c [] = [[]]"
| "split_on c (x # xs) =
     (if x = c then [] # split_on c xs
      else (case split_on c xs of [] \<Rightarrow> [[x]] | w # ws \<Rightarrow> (x # w) # ws))"

definition int_body :: "string \<Rightarrow> int option" where
  "int_body b =
     (if b \<noteq> [] \<and> list_all (\<lambda>c. is_digit c \<or> c = CHR ''_'') b \<and> is_digit (hd b) \<and> is_digit (last b)
         \<and> \<not> contains ''__'' b
      then Some (int (digits_val (filter is_digit b))) else None)"

definition py_int :: "string \<Rightarrow> int option" where
  \<comment> \<open>\<open>int(s)\<close>; \<open>None\<close> is the \<open>ValueError\<close>\<close>
  "py_int s =
     (case strip s of
        [] \<Rightarrow> None
      | c # cs \<Rightarrow> if c = CHR ''-'' then map_option uminus (int_body cs)
                  else if c = CHR ''+'' then int_body cs
                  else int_body (c # cs))"

definition parse_hm :: "string \<Rightarrow> (int \<times> int) result" where
  \<comment> \<open>\<open>h, m = (int(x) for x in s.split(":"))\<close>\<close>
  "parse_hm s =
     (case split_on CHR '':'' s of
        [a, b] \<Rightarrow> (case (py_int a, py_int b) of
                     (Some h, Some m) \<Rightarrow> Inr (h, m)
                   | _ \<Rightarrow> Inl (PyExn ''ValueError''))
      | _ \<Rightarrow> Inl (PyExn ''ValueError''))"

definition replace_hm :: "int \<times> int \<Rightarrow> int result" where
  \<comment> \<open>\<open>local_now.replace(hour=h, minute=m, second=0, microsecond=0)\<close>, as a time of day\<close>
  "replace_hm hm = (case hm of (h, m) \<Rightarrow>
     if 0 \<le> h \<and> h \<le> 23 \<and> 0 \<le> m \<and> m \<le> 59 then Inr ((h * 60 + m) * 60000000)
     else Inl (PyExn ''ValueError''))"

definition local_time_of_day :: "zones \<Rightarrow> (string \<times> string) list \<Rightarrow> int \<Rightarrow> int" where
  "local_time_of_day zone window now_utc =
     (case zone (case map_of window ''timezone'' of None \<Rightarrow> ''UTC'' | Some z \<Rightarrow> z) of
        Some f \<Rightarrow> f now_utc
      | None \<Rightarrow> now_utc mod DAY)"

definition is_within_maintenance_window ::
    "zones \<Rightarrow> (string \<times> string) list \<Rightarrow> int \<Rightarrow> bool result" where
  "is_within_maintenance_window zone window now_utc =
     (if \<not> nonempty (map_of window ''start'') \<or> \<not> nonempty (map_of window ''end'') then Inr True
      else
        let local_now = local_time_of_day zone window now_utc
        in bindE (parse_hm (opt_or (map_of window ''start'') [])) (\<lambda>start_hm.
           bindE (parse_hm (opt_or (map_of window ''end'') [])) (\<lambda>end_hm.
           bindE (replace_hm start_hm) (\<lambda>start.
           bindE (replace_hm end_hm) (\<lambda>end'.
           Inr (if start \<le> end' then start \<le> local_now \<and> local_now \<le> end'
                else local_now \<ge> start \<or> local_now \<le> end'))))))"

section \<open>The decision table (class PolicyEngine)\<close>

datatype PolicyDecision = ALLOW | DENY | REQUIRES_APPROVAL

fun decision_value :: "PolicyDecision \<Rightarrow> string" where
  "decision_value ALLOW = ''ALLOW''"
| "decision_value DENY = ''DENY''"
| "decision_value REQUIRES_APPROVAL = ''REQUIRES_APPROVAL''"

record PolicyEvaluation =
  pe_decision :: PolicyDecision
  pe_requires_dual_approval :: bool
  pe_requires_change_ticket :: bool
  pe_in_maintenance_window :: bool
  pe_reasons :: "string list"

record PolicyEngine =
  default_decision :: PolicyDecision
  policy_table :: "(string \<times> (string \<times> (string \<times> PolicyDecision) list) list) list"
  change_ticket_required :: "(string \<times> string list) list"
  dual_approval_required :: "string list"

definition dict_get :: "(string \<times> 'v list) list \<Rightarrow> string \<Rightarrow> 'v list" where
  \<comment> \<open>\<open>d.get(k, empty)\<close>\<close>
  "dict_get d k = (case map_of d k of None \<Rightarrow> [] | Some v \<Rightarrow> v)"

definition table_decision ::
    "PolicyEngine \<Rightarrow> Environment \<Rightarrow> string \<Rightarrow> DBARole \<Rightarrow> PolicyDecision \<times> string list" where
  "table_decision p environment tool_id role =
     (case map_of (dict_get (policy_table p) (env_value environment)) tool_id of
        None \<Rightarrow> (default_decision p, [''no_policy_entry_fail_closed''])
      | Some tool_table \<Rightarrow>
          (case map_of tool_table (role_value role) of
             Some d \<Rightarrow> (d, [])
           | None \<Rightarrow> (default_decision p, [''no_role_entry_fail_closed''])))"

definition evaluate ::
    "PolicyEngine \<Rightarrow> zones \<Rightarrow> Environment \<Rightarrow> ToolDefinition \<Rightarrow> DBARole \<Rightarrow> TargetContext
       \<Rightarrow> string option \<Rightarrow> bool \<Rightarrow> int \<Rightarrow> PolicyEvaluation result" where
  "evaluate p zone environment tool role ctx change_id current_load_critical now_utc =
     bindE (is_within_maintenance_window zone (ctx_maintenance_window ctx) now_utc) (\<lambda>in_window.
     let (d0, r0) = table_decision p environment (td_tool_id tool) role;
         r1 = (if td_availability_impact tool
               then r0 @ [if in_window then ''inside_maintenance_window'' else ''outside_maintenance_window'']
               else r0);
         escalate = (td_availability_impact tool \<and> d0 = ALLOW \<and> \<not> in_window);
         d1 = (if escalate then REQUIRES_APPROVAL else d0);
         r2 = (if escalate then r1 @ [''escalated_outside_maintenance_window''] else r1);
         load = (current_load_critical \<and> td_data_modification tool \<and> d1 = ALLOW);
         d2 = (if load then REQUIRES_APPROVAL else d1);
         r3 = (if load then r2 @ [''escalated_current_load_critical''] else r2);
         ticket = (td_tool_id tool \<in> set (dict_get (change_ticket_required p) (env_value environment)));
         r4 = (if ticket \<and> \<not> nonempty change_id \<and> d2 \<noteq> DENY
               then r3 @ [''change_ticket_required_but_missing''] else r3)
     in Inr \<lparr>pe_decision = d2,
             pe_requires_dual_approval =
               (td_requires_dual_approval tool \<or> td_tool_id tool \<in> set (dual_approval_required p)),
             pe_requires_change_ticket = ticket,
             pe_in_maintenance_window = in_window,
             pe_reasons = r4\<rparr>)"

section \<open>Lemmas\<close>

lemma evaluate_Inr:
  assumes "evaluate p zone env tool role ctx ch load now = Inr e"
  obtains w where "is_within_maintenance_window zone (ctx_maintenance_window ctx) now = Inr w"
    and "pe_in_maintenance_window e = w"
    and "pe_decision e =
       (let d0 = fst (table_decision p env (td_tool_id tool) role) in
        if d0 = ALLOW \<and> (td_availability_impact tool \<and> \<not> w \<or> load \<and> td_data_modification tool)
        then REQUIRES_APPROVAL else d0)"
    and "pe_requires_dual_approval e \<longleftrightarrow>
       td_requires_dual_approval tool \<or> td_tool_id tool \<in> set (dual_approval_required p)"
    and "pe_requires_change_ticket e \<longleftrightarrow>
       td_tool_id tool \<in> set (dict_get (change_ticket_required p) (env_value env))"
  using assms
  by (cases "table_decision p env (td_tool_id tool) role")
    (auto simp: evaluate_def Let_def split: if_splits)

lemma table_decision_default:
  "default_decision p \<noteq> ALLOW \<Longrightarrow> fst (table_decision p env tid role) = ALLOW \<Longrightarrow>
     \<exists>tt. map_of (dict_get (policy_table p) (env_value env)) tid = Some tt \<and>
          map_of tt (role_value role) = Some ALLOW"
  by (auto simp: table_decision_def split: option.splits)

section \<open>Properties\<close>

text \<open>
  Fail closed: when the configured default is not ALLOW, a decision of ALLOW is only ever
  returned for an (environment, tool, role) triple the configuration lists as ALLOW; an absent
  environment, tool or role never yields it. Run-time state only makes the decision stricter.
\<close>
theorem policy_fails_closed:
  assumes "default_decision p \<noteq> ALLOW"
    and "evaluate p zone env tool role ctx ch load now = Inr e" and "pe_decision e = ALLOW"
  shows "\<exists>tt. map_of (dict_get (policy_table p) (env_value env)) (td_tool_id tool) = Some tt \<and>
              map_of tt (role_value role) = Some ALLOW"
proof -
  from assms(2) have "fst (table_decision p env (td_tool_id tool) role) = ALLOW"
    by (rule evaluate_Inr) (use assms(3) in \<open>auto simp: Let_def split: if_splits\<close>)
  with assms(1) show ?thesis by (rule table_decision_default)
qed

definition example_policy :: PolicyEngine where
  "example_policy = \<lparr>default_decision = DENY,
     policy_table = [(''development'', [(''database.get_health'', [(''DBA_L1'', ALLOW)])])],
     change_ticket_required = [], dual_approval_required = []\<rparr>"

definition example_server :: ServerEntry where
  "example_server = \<lparr>se_id = ''pg-dev-01'', se_platform = POSTGRESQL, se_environment = DEVELOPMENT,
     se_host = ''10.0.0.7'', se_port = 5432, se_aliases = [''dev-pg''], se_organization = [],
     se_region = [], se_criticality = ''standard'', se_classification = ''internal'', se_owner = [],
     se_support_team = [], se_maintenance_window = [(''start'', ''22:00''), (''end'', ''04:00'')],
     se_allowed_roles = [], se_database_overrides = [], se_status = ''active''\<rparr>"

definition example_target :: DatabaseTarget where
  "example_target = \<lparr>dt_environment = DEVELOPMENT, dt_platform = None, dt_cluster = None,
     dt_instance = Some ''pg-dev-01'', dt_database = None, dt_schema_name = None,
     dt_object_name = None, dt_session_id = None, dt_query_id = None\<rparr>"

definition example_ctx :: TargetContext where
  "example_ctx = make_context example_target example_server [] None"

definition example_tool :: ToolDefinition where
  "example_tool = \<lparr>td_tool_id = ''database.get_health'', td_version = ''1.0.0'', td_description = [],
     td_operation_type = READ, td_risk_level = LOW, td_reversible = True,
     td_availability_impact = False, td_data_modification = False, td_requires_approval = False,
     td_allowed_roles = [DBA_L1], td_allowed_environments = [DEVELOPMENT],
     td_required_target_scope = [''environment'', ''instance''], td_argument_schema = NoArgs,
     td_result_schema = DiagnosticResult, td_max_execution_time = 30, td_max_result_rows = 100,
     td_audit_required = True, td_enabled = True, td_requires_change_ticket = False,
     td_requires_dual_approval = False\<rparr>"

lemma example_evaluate:
  "\<exists>e. evaluate example_policy (\<lambda>_. None) DEVELOPMENT example_tool DBA_L1 example_ctx None False 0 = Inr e
     \<and> pe_decision e = ALLOW"
  by (rule exI [of _ "projr (evaluate example_policy (\<lambda>_. None) DEVELOPMENT example_tool DBA_L1 example_ctx None False 0)"])
    code_simp

theorem policy_fails_closed_witness:
  "\<exists>tt. map_of (dict_get (policy_table example_policy) (env_value DEVELOPMENT)) ''database.get_health'' = Some tt \<and>
        map_of tt (role_value DBA_L1) = Some ALLOW"
proof -
  obtain e where e: "evaluate example_policy (\<lambda>_. None) DEVELOPMENT example_tool DBA_L1 example_ctx None False 0 = Inr e"
    and a: "pe_decision e = ALLOW" using example_evaluate by blast
  have "default_decision example_policy \<noteq> ALLOW" by (simp add: example_policy_def)
  from policy_fails_closed [OF this e a] show ?thesis by (simp add: example_tool_def)
qed

text \<open>
  Escalation: the decision is ALLOW exactly when the table says ALLOW, the operation
  either has no availability impact or falls inside the server's maintenance window, and the
  server is not under critical load for a write; an ALLOW of the table that fails one of
  these becomes REQUIRES_APPROVAL, and every other table entry is returned as it is.
\<close>
theorem policy_escalation:
  assumes "evaluate p zone env tool role ctx ch load now = Inr e"
  shows "(pe_decision e = ALLOW \<longleftrightarrow>
           fst (table_decision p env (td_tool_id tool) role) = ALLOW \<and>
           (td_availability_impact tool \<longrightarrow> pe_in_maintenance_window e) \<and>
           \<not> (load \<and> td_data_modification tool)) \<and>
         (fst (table_decision p env (td_tool_id tool) role) = ALLOW \<longrightarrow> pe_decision e \<noteq> DENY) \<and>
         (fst (table_decision p env (td_tool_id tool) role) \<noteq> ALLOW \<longrightarrow>
            pe_decision e = fst (table_decision p env (td_tool_id tool) role))"
  using assms by (rule evaluate_Inr) (auto simp: Let_def split: if_splits)

theorem policy_escalation_witness:
  "\<exists>e. evaluate example_policy (\<lambda>_. None) DEVELOPMENT (example_tool\<lparr>td_availability_impact := True\<rparr>)
         DBA_L1 example_ctx None False (12 * 3600000000) = Inr e \<and>
       pe_decision e = REQUIRES_APPROVAL \<and> \<not> pe_in_maintenance_window e \<and>
       (pe_decision e = ALLOW \<longleftrightarrow> fst (table_decision example_policy DEVELOPMENT ''database.get_health'' DBA_L1) = ALLOW \<and>
          pe_in_maintenance_window e)"
proof -
  let ?t = "example_tool\<lparr>td_availability_impact := True\<rparr>"
  let ?r = "evaluate example_policy (\<lambda>_. None) DEVELOPMENT ?t DBA_L1 example_ctx None False (12 * 3600000000)"
  have "isl ?r = False \<and> pe_decision (projr ?r) = REQUIRES_APPROVAL \<and> \<not> pe_in_maintenance_window (projr ?r)"
    by code_simp
  then obtain e where e: "?r = Inr e"
    and d: "pe_decision e = REQUIRES_APPROVAL" "\<not> pe_in_maintenance_window e"
    by (cases ?r) auto
  from policy_escalation [OF e] d show ?thesis
    using e by (auto simp: example_tool_def)
qed

text \<open>
  A maintenance window is a circular interval: for a window with valid start and end
  times, a moment is inside exactly when the time elapsed since the start, modulo one day, is
  at most the window's length, modulo one day, which covers windows that wrap past midnight.
\<close>
theorem maintenance_window_circular:
  assumes "map_of w ''start'' = Some st" "map_of w ''end'' = Some en" "st \<noteq> []" "en \<noteq> []"
    and "bindE (parse_hm st) replace_hm = Inr a" and "bindE (parse_hm en) replace_hm = Inr b"
    and "0 \<le> local_time_of_day zone w now" and "local_time_of_day zone w now < DAY"
  shows "is_within_maintenance_window zone w now =
     Inr ((local_time_of_day zone w now - a) mod DAY \<le> (b - a) mod DAY)"
proof -
  let ?x = "local_time_of_day zone w now"
  have bounds: "0 \<le> a" "a < DAY" "0 \<le> b" "b < DAY"
    using assms(5,6) by (auto simp: replace_hm_def split: if_splits)
  have shift: "(y - a) mod DAY = (if a \<le> y then y - a else y - a + DAY)" if "0 \<le> y" "y < DAY" for y
  proof (cases "a \<le> y")
    case True
    with that bounds show ?thesis by simp
  next
    case False
    have "(y - a) mod DAY = (y - a + DAY) mod DAY" by simp
    also have "\<dots> = y - a + DAY" using False that bounds by (intro mod_pos_pos_trivial) auto
    finally show ?thesis using False by simp
  qed
  have "is_within_maintenance_window zone w now =
      Inr (if a \<le> b then a \<le> ?x \<and> ?x \<le> b else ?x \<ge> a \<or> ?x \<le> b)"
    using assms by (auto simp: is_within_maintenance_window_def Let_def)
  also have "(if a \<le> b then a \<le> ?x \<and> ?x \<le> b else ?x \<ge> a \<or> ?x \<le> b) =
      ((?x - a) mod DAY \<le> (b - a) mod DAY)"
    using bounds assms(7,8) by (simp add: shift)
  finally show ?thesis .
qed

theorem maintenance_window_circular_witness:
  "is_within_maintenance_window (\<lambda>_. None) (se_maintenance_window example_server) (23 * 3600000000) =
     Inr ((23 * 3600000000 - 22 * 3600000000) mod DAY \<le> (4 * 3600000000 - 22 * 3600000000) mod DAY)"
proof -
  let ?w = "se_maintenance_window example_server"
  have loc: "local_time_of_day (\<lambda>_. None) ?w (23 * 3600000000) = 23 * 3600000000"
    by (simp add: local_time_of_day_def)
  have "is_within_maintenance_window (\<lambda>_. None) ?w (23 * 3600000000) =
      Inr ((local_time_of_day (\<lambda>_. None) ?w (23 * 3600000000) - 22 * 3600000000) mod DAY
            \<le> (4 * 3600000000 - 22 * 3600000000) mod DAY)"
  proof (rule maintenance_window_circular)
    show "map_of ?w ''start'' = Some ''22:00''" "map_of ?w ''end'' = Some ''04:00''"
      by (simp_all add: example_server_def)
    show "bindE (parse_hm ''22:00'') replace_hm = Inr (22 * 3600000000)" by code_simp
    show "bindE (parse_hm ''04:00'') replace_hm = Inr (4 * 3600000000)" by code_simp
    show "0 \<le> local_time_of_day (\<lambda>_. None) ?w (23 * 3600000000)" unfolding loc by simp
    show "local_time_of_day (\<lambda>_. None) ?w (23 * 3600000000) < DAY" unfolding loc by simp
  qed simp_all
  then show ?thesis by (simp only: loc)
qed

end
