(* ===== verification/Rate_Limiter.thy ===== *)
theory Rate_Limiter
  imports Tool_Catalog
begin

text \<open>
  Rate limiting: the counting backend (common/rate_limit_backend.py) with the contract a
  fixed-window counter keeps, and the Gateway's multi-key check on top of it
  (gateway/domain/rate_limiter.py). A backend counts a call before it decides, so a refused
  call is counted too. \<open>clock i\<close> is the i-th reading of the wall clock during a check.
\<close>

section \<open>The in-memory backend (class InMemoryRateLimitBackend)\<close>

type_synonym buckets = "string \<rightharpoonup> int \<times> int"

definition increment_and_check :: "int \<Rightarrow> string \<Rightarrow> int \<Rightarrow> int \<Rightarrow> buckets \<Rightarrow> bool \<times> buckets" where
  \<comment> \<open>a bucket is (count, window start)\<close>
  "increment_and_check now key limit window b =
     (let (count, window_start) = (case b key of None \<Rightarrow> (0, now) | Some cw \<Rightarrow> cw);
          (count, window_start) = (if now - window_start \<ge> window then (0, now) else (count, window_start));
          count = count + 1
      in (count \<le> limit, b(key \<mapsto> (count, window_start))))"

section \<open>The Gateway's limiter (class RateLimiter)\<close>

type_synonym rate_limits = "(string \<times> (string \<times> int) list) list"

definition tier_for :: "string \<Rightarrow> bool \<Rightarrow> string" where
  "tier_for operation_type requires_approval =
     (if operation_type = ''PRIVILEGED'' \<or> requires_approval then ''critical''
      else if operation_type = ''WRITE'' then ''write'' else ''read'')"

definition key_error :: "'v option \<Rightarrow> 'v result" where
  \<comment> \<open>\<open>d[k]\<close>\<close>
  "key_error v = (case v of None \<Rightarrow> Inl (PyExn ''KeyError'') | Some x \<Rightarrow> Inr x)"

definition rate_checks ::
    "rate_limits \<Rightarrow> string \<Rightarrow> string \<Rightarrow> string \<Rightarrow> string \<Rightarrow> string \<Rightarrow> string
       \<Rightarrow> (string \<times> int) list result" where
  "rate_checks rls tier user_subject_id conversation_id tool_id database_id environment =
     bindE (key_error (map_of rls tier)) (\<lambda>limits.
     bindE (key_error (map_of limits ''per_user_per_minute'')) (\<lambda>u.
     bindE (key_error (map_of limits ''per_conversation_per_minute'')) (\<lambda>c.
     bindE (key_error (map_of limits ''per_tool_per_minute'')) (\<lambda>t.
     bindE (key_error (map_of limits ''per_database_per_minute'')) (\<lambda>d.
     bindE (key_error (map_of limits ''per_environment_per_minute'')) (\<lambda>e.
     Inr [(''rl:'' @ tier @ '':user:'' @ user_subject_id, u),
          (''rl:'' @ tier @ '':conv:'' @ conversation_id, c),
          (''rl:'' @ tier @ '':tool:'' @ tool_id, t),
          (''rl:'' @ tier @ '':db:'' @ database_id, d),
          (''rl:'' @ tier @ '':env:'' @ environment, e)]))))))"

fun run_checks :: "(string \<times> int) list \<Rightarrow> (nat \<Rightarrow> int) \<Rightarrow> (buckets, unit) op" where
  "run_checks [] clock b = (Inr (), b)"
| "run_checks ((key, limit) # checks) clock b =
     (case increment_and_check (clock 0) key limit 60000000 b of (ok, b') \<Rightarrow>
        if ok then run_checks checks (\<lambda>i. clock (Suc i)) b'
        else (Inl (NumiError RATE_LIMITED
               (''Rate limit exceeded '' @ em_dash @ '' please slow down and try again shortly.'')), b'))"

definition rate_check ::
    "rate_limits \<Rightarrow> string \<Rightarrow> bool \<Rightarrow> string \<Rightarrow> string \<Rightarrow> string \<Rightarrow> string \<Rightarrow> string
       \<Rightarrow> (nat \<Rightarrow> int) \<Rightarrow> (buckets, unit) op" where
  "rate_check rls operation_type requires_approval user_subject_id conversation_id tool_id
       database_id environment clock =
     bindM (liftE (rate_checks rls (tier_for operation_type requires_approval) user_subject_id
              conversation_id tool_id database_id environment)) (\<lambda>checks. run_checks checks clock)"

section \<open>The contract of a counting backend\<close>

text \<open>
  \<open>used s now key\<close> is how many calls the window that is open for the key at that moment has
  counted. A call is granted when it fits and is counted either way; other keys are untouched;
  within one window the count does not depend on the moment it is read at.
\<close>

locale counting_backend =
  fixes incr :: "int \<Rightarrow> string \<Rightarrow> int \<Rightarrow> 's \<Rightarrow> bool \<times> 's"
    and used :: "'s \<Rightarrow> int \<Rightarrow> string \<Rightarrow> int"
    and same_window :: "'s \<Rightarrow> string \<Rightarrow> int \<Rightarrow> bool"
  assumes incr_grants: "fst (incr now k lim s) \<longleftrightarrow> used s now k + 1 \<le> lim"
    and incr_counts: "used (snd (incr now k lim s)) now k = used s now k + 1"
    and incr_other: "k' \<noteq> k \<Longrightarrow> used (snd (incr now k lim s)) t k' = used s t k'"
    and incr_window: "same_window s k now \<Longrightarrow> same_window s k t \<Longrightarrow> same_window (snd (incr now k lim s)) k t"
    and used_window: "same_window s k t \<Longrightarrow> same_window s k t' \<Longrightarrow> used s t k = used s t' k"
begin

primrec calls :: "string \<Rightarrow> int \<Rightarrow> int list \<Rightarrow> 's \<Rightarrow> bool list" where
  "calls k lim [] s = []"
| "calls k lim (t # ts) s = (let (ok, s') = incr t k lim s in ok # calls k lim ts s')"

lemma calls_granted:
  assumes "\<forall>t \<in> set ts. same_window s k t" and "\<forall>t \<in> set ts. used s t k = n" and "0 \<le> n"
  shows "calls k lim ts s =
     replicate (min (nat (lim - n)) (length ts)) True @ replicate (length ts - nat (lim - n)) False"
  using assms
proof (induction ts arbitrary: s n)
  case (Cons t ts)
  let ?s = "snd (incr t k lim s)"
  have w: "\<forall>t' \<in> set ts. same_window ?s k t'" using Cons.prems(1) incr_window by simp
  have "same_window ?s k t" using Cons.prems(1) incr_window by simp
  with w have u: "\<forall>t' \<in> set ts. used ?s t' k = n + 1"
    using incr_counts [of t k lim s] Cons.prems(2) used_window by (metis list.set_intros(1))
  have step: "calls k lim (t # ts) s = (n + 1 \<le> lim) # calls k lim ts ?s"
    using incr_grants [of t k lim s] Cons.prems(2) by (simp add: case_prod_beta Let_def)
  have IH: "calls k lim ts ?s = replicate (min (nat (lim - (n + 1))) (length ts)) True
      @ replicate (length ts - nat (lim - (n + 1))) False"
    using Cons.IH [OF w u] Cons.prems(3) by simp
  show ?case
  proof (cases "n + 1 \<le> lim")
    case True
    then have "nat (lim - n) = Suc (nat (lim - (n + 1)))" by arith
    with True show ?thesis unfolding step IH by simp
  next
    case False
    then have "nat (lim - n) = 0" "nat (lim - (n + 1)) = 0" by auto
    with False show ?thesis unfolding step IH by simp
  qed
qed simp

end

definition mem_used :: "int \<Rightarrow> buckets \<Rightarrow> int \<Rightarrow> string \<Rightarrow> int" where
  "mem_used window b now key =
     (case b key of None \<Rightarrow> 0 | Some (count, start) \<Rightarrow> if now - start \<ge> window then 0 else count)"

definition mem_same_window :: "int \<Rightarrow> buckets \<Rightarrow> string \<Rightarrow> int \<Rightarrow> bool" where
  "mem_same_window window b key t = (case b key of None \<Rightarrow> False | Some (_, start) \<Rightarrow> t - start < window)"

locale positive_window =
  fixes window :: int
  assumes window_pos: "0 < window"

sublocale positive_window \<subseteq> counting_backend
    "\<lambda>now k lim. increment_and_check now k lim window" "mem_used window" "mem_same_window window"
  by unfold_locales
    (use window_pos in \<open>auto simp: increment_and_check_def mem_used_def mem_same_window_def Let_def
      split: option.splits if_splits\<close>)

interpretation minute: positive_window 60000000
  by unfold_locales simp

section \<open>Properties\<close>

fun mem_calls :: "string \<Rightarrow> int \<Rightarrow> int list \<Rightarrow> buckets \<Rightarrow> bool list" where
  \<comment> \<open>what a caller sees of successive calls for one key\<close>
  "mem_calls key limit [] b = []"
| "mem_calls key limit (t # ts) b =
     (case increment_and_check t key limit 60000000 b of (ok, b') \<Rightarrow> ok # mem_calls key limit ts b')"

lemma mem_calls_eq: "mem_calls k lim ts b = minute.calls k lim ts b"
  by (induction ts arbitrary: b) (auto simp: case_prod_beta)

text \<open>
  Within one window the in-memory backend grants exactly the first \<open>limit\<close> calls of a key
  and refuses every later one: for calls at any moments less than a minute after the call that
  opened the window, the first \<open>limit\<close> answers are yes and all others no.
\<close>
theorem window_grants_exactly_limit:
  assumes "b key = None" and "0 \<le> limit" and "\<forall>t \<in> set ts. t - t0 < 60000000"
  shows "mem_calls key limit (t0 # ts) b =
     replicate (min (nat limit) (Suc (length ts))) True @ replicate (Suc (length ts) - nat limit) False"
proof -
  let ?b = "b(key \<mapsto> (0, t0))"
  have same: "increment_and_check t0 key limit 60000000 b = increment_and_check t0 key limit 60000000 ?b"
    using assms(1) by (simp add: increment_and_check_def)
  have "mem_calls key limit (t0 # ts) b = mem_calls key limit (t0 # ts) ?b"
    by (simp only: mem_calls.simps same)
  also have "\<dots> = replicate (min (nat (limit - 0)) (length (t0 # ts))) True
      @ replicate (length (t0 # ts) - nat (limit - 0)) False"
    unfolding mem_calls_eq
    by (rule minute.calls_granted) (use assms(3) in \<open>auto simp: mem_same_window_def mem_used_def\<close>)
  finally show ?thesis by simp
qed

theorem window_grants_exactly_limit_witness:
  "mem_calls ''k'' 2 [0, 1, 59999999, 5] Map.empty = [True, True, False, False]"
proof -
  have "mem_calls ''k'' 2 (0 # [1, 59999999, 5]) Map.empty =
      replicate (min (nat 2) (Suc (length [1::int, 59999999, 5]))) True
      @ replicate (Suc (length [1::int, 59999999, 5]) - nat 2) False"
    by (rule window_grants_exactly_limit) auto
  then show ?thesis by (simp add: numeral_2_eq_2)
qed

lemma run_checks_Inr:
  assumes "run_checks cs clock b = (Inr (), b')" and "distinct (map fst cs)" and "i < length cs"
  shows "mem_used 60000000 b (clock i) (fst (cs ! i)) + 1 \<le> snd (cs ! i)"
  using assms
proof (induction cs clock b arbitrary: i rule: run_checks.induct)
  case (2 k l cs clock b)
  obtain ok b1 where inc: "increment_and_check (clock 0) k l 60000000 b = (ok, b1)" by fastforce
  with "2.prems"(1) have ok: "ok" and rest: "run_checks cs (\<lambda>i. clock (Suc i)) b1 = (Inr (), b')"
    by (auto split: if_splits)
  show ?case
  proof (cases i)
    case 0
    with ok inc minute.incr_grants [of "clock 0" k l b] show ?thesis by simp
  next
    case (Suc j)
    with "2.prems"(2,3) have j: "j < length cs" and ne: "fst (cs ! j) \<noteq> k" by auto
    from "2.IH" [OF inc [symmetric] ok rest _ j] "2.prems"(2)
    have "mem_used 60000000 b1 (clock (Suc j)) (fst (cs ! j)) + 1 \<le> snd (cs ! j)" by simp
    with minute.incr_other [OF ne, of "clock 0" l b "clock (Suc j)"] inc Suc show ?thesis by simp
  qed
qed simp

text \<open>
  A tool call passes the limiter only with budget left on all five keys: if the check
  returns, then for each of the user, conversation, tool, database and environment keys of
  the call's tier the calls already counted in the open window were below that key's limit.
\<close>
theorem rate_check_all_keys:
  assumes "rate_check rls op ra u c t d e clock b = (Inr (), b')"
  shows "\<exists>checks. rate_checks rls (tier_for op ra) u c t d e = Inr checks \<and> length checks = 5 \<and>
     (\<forall>i < 5. mem_used 60000000 b (clock i) (fst (checks ! i)) < snd (checks ! i))"
proof -
  from assms obtain checks where ch: "rate_checks rls (tier_for op ra) u c t d e = Inr checks"
    and run: "run_checks checks clock b = (Inr (), b')"
    by (auto simp: rate_check_def bindM_eq_Inr_iff)
  have dist: "distinct (map fst checks)" and len: "length checks = 5"
    using ch by (auto simp: rate_checks_def)
  have "\<forall>i < 5. mem_used 60000000 b (clock i) (fst (checks ! i)) < snd (checks ! i)"
    using run_checks_Inr [OF run dist] len by (simp add: add1_zle_eq)
  with ch len show ?thesis by blast
qed

definition example_limits :: rate_limits where
  "example_limits = [(''read'', [(''per_user_per_minute'', 100), (''per_conversation_per_minute'', 60),
     (''per_tool_per_minute'', 200), (''per_database_per_minute'', 300), (''per_environment_per_minute'', 1000)])]"

theorem rate_check_all_keys_witness:
  "\<exists>checks. rate_checks example_limits (tier_for ''READ'' False) ''u'' ''c'' ''t'' ''d'' ''e'' = Inr checks \<and>
     length checks = 5 \<and> (\<forall>i < 5. mem_used 60000000 Map.empty 0 (fst (checks ! i)) < snd (checks ! i))"
proof -
  have "fst (rate_check example_limits ''READ'' False ''u'' ''c'' ''t'' ''d'' ''e'' (\<lambda>_. 0) Map.empty) = Inr ()"
    by (simp add: rate_check_def rate_checks_def tier_for_def example_limits_def key_error_def
        increment_and_check_def)
  then obtain b' where "rate_check example_limits ''READ'' False ''u'' ''c'' ''t'' ''d'' ''e'' (\<lambda>_. 0) Map.empty = (Inr (), b')"
    by (metis prod.collapse)
  from rate_check_all_keys [OF this] show ?thesis by simp
qed

text \<open>
  The write tier is unreachable for the tools of the catalog: every tool that is not a
  read is marked as requiring approval, so it is charged to the critical budget; the write
  budgets of the configuration never apply.
\<close>
theorem write_tier_unreachable:
  assumes "t \<in> set (build_tool_catalog s)"
  shows "tier_for (operation_value (td_operation_type t)) (td_requires_approval t) =
     (if td_operation_type t = READ then ''read'' else ''critical'')"
  using assms
proof (cases rule: catalog_cases)
  case read_case
  then show ?thesis by (simp add: read_tools_shape tier_for_def)
qed (simp_all add: write_tools_shape restricted_tools_shape tier_for_def)

theorem write_tier_unreachable_witness:
  "td_operation_type (build_tool_catalog default_settings ! 18) = WRITE \<and>
   tier_for (operation_value (td_operation_type (build_tool_catalog default_settings ! 18)))
     (td_requires_approval (build_tool_catalog default_settings ! 18)) = ''critical''"
proof -
  let ?t = "build_tool_catalog default_settings ! 18"
  have "length (build_tool_catalog default_settings) = 33"
    by (simp add: build_tool_catalog_def read_tools_def write_tools_def restricted_tools_def)
  then have "?t \<in> set (build_tool_catalog default_settings)" by (intro nth_mem) simp
  note tier = write_tier_unreachable [OF this]
  have "td_operation_type ?t = WRITE"
    by (simp add: build_tool_catalog_def read_tools_def write_tools_def tool_defs nth_append)
  with tier show ?thesis by simp
qed

end
