(* ===== verification/Risk_Engine.thy ===== *)
theory Risk_Engine
  imports Target_Validation
begin

text \<open>
  The risk engine (gateway/domain/risk_engine.py): a score from the tool, the environment and
  the target, clamped to 0..100, and a level that is never below the tool's declared floor.
\<close>

fun BASE_SCORE :: "RiskLevel \<Rightarrow> int" where
  "BASE_SCORE LOW = 10"
| "BASE_SCORE MEDIUM = 35"
| "BASE_SCORE HIGH = 60"
| "BASE_SCORE CRITICAL = 85"

definition TOOL_BLAST_RADIUS :: "(string \<times> BlastRadius) list" where
  "TOOL_BLAST_RADIUS =
     [(''database.cancel_query'', SINGLE_QUERY),
      (''database.kill_session'', SINGLE_SESSION),
      (''database.update_statistics'', SINGLE_OBJECT),
      (''database.create_index'', SINGLE_OBJECT),
      (''database.rebuild_index'', SINGLE_OBJECT),
      (''database.modify_configuration'', SINGLE_DATABASE),
      (''database.restart_instance'', SINGLE_DATABASE),
      (''database.failover'', CLUSTER),
      (''database.execute_sql'', SINGLE_OBJECT),
      (''database.execute_readonly_sql'', SINGLE_QUERY),
      (''database.restore_database'', SINGLE_DATABASE),
      (''database.create_database'', SINGLE_DATABASE),
      (''database.drop_database'', SINGLE_DATABASE),
      (''database.truncate_table'', SINGLE_OBJECT),
      (''database.bulk_delete'', SINGLE_OBJECT)]"

definition CRITICALITY_POINTS :: "(string \<times> int) list" where
  "CRITICALITY_POINTS = [(''critical'', 20), (''high'', 12), (''standard'', 4), (''low'', 0)]"

definition criticality_points :: "string \<Rightarrow> int" where
  "criticality_points c = (case map_of CRITICALITY_POINTS c of None \<Rightarrow> 0 | Some n \<Rightarrow> n)"

definition impactful :: "ToolDefinition \<Rightarrow> bool" where
  "impactful tool \<longleftrightarrow> td_data_modification tool \<or> td_availability_impact tool"

definition raw_score :: "ToolDefinition \<Rightarrow> Environment \<Rightarrow> string \<Rightarrow> int \<Rightarrow> bool \<Rightarrow> int" where
  \<comment> \<open>the additions to \<open>score\<close>, before it is clamped\<close>
  "raw_score tool environment criticality affected_session_count current_load_critical =
     BASE_SCORE (td_risk_level tool)
     + (if environment = PRODUCTION \<and> impactful tool then 15 else 0)
     + (if impactful tool then criticality_points criticality else 0)
     + (if td_data_modification tool then 10 else 0)
     + (if \<not> td_reversible tool then 15 else 0)
     + (if td_availability_impact tool then 10 else 0)
     + (if affected_session_count > 10 then 5 else 0)
     + (if current_load_critical then 10 else 0)"

definition score_level :: "int \<Rightarrow> RiskLevel" where
  "score_level score =
     (if score \<ge> 85 then CRITICAL else if score \<ge> 60 then HIGH else if score \<ge> 30 then MEDIUM else LOW)"

definition assess_blast_radius :: "ToolDefinition \<Rightarrow> int \<Rightarrow> BlastRadius \<times> ReasonCode list" where
  "assess_blast_radius tool affected_object_count =
     (let b = (case map_of TOOL_BLAST_RADIUS (td_tool_id tool) of None \<Rightarrow> SINGLE_OBJECT | Some r \<Rightarrow> r)
      in if affected_object_count > 1 \<and> b \<in> {SINGLE_OBJECT, SINGLE_DATABASE}
         then (MULTIPLE_OBJECTS, [RC_MANY_AFFECTED_OBJECTS]) else (b, []))"

definition assess_reasons ::
    "ToolDefinition \<Rightarrow> Environment \<Rightarrow> string \<Rightarrow> BlastRadius \<times> ReasonCode list \<Rightarrow> int \<Rightarrow> bool \<Rightarrow> ReasonCode list" where
  \<comment> \<open>the codes appended to \<open>reasons\<close>, in the order of the appends\<close>
  "assess_reasons tool environment criticality blast affected_session_count current_load_critical =
     [if environment = PRODUCTION then RC_PRODUCTION else RC_NON_PRODUCTION]
     @ (if criticality = ''critical'' then [RC_CRITICAL_DATABASE]
        else if criticality = ''high'' then [RC_HIGH_CRITICALITY_DATABASE] else [])
     @ [if td_data_modification tool then RC_WRITE_OPERATION else RC_READ_OPERATION]
     @ (if \<not> td_reversible tool then [RC_IRREVERSIBLE] else [])
     @ (if td_availability_impact tool then [RC_AVAILABILITY_IMPACT] else [])
     @ snd blast
     @ (if affected_session_count > 10 then [RC_MANY_AFFECTED_SESSIONS] else [])
     @ (if current_load_critical then [RC_HIGH_CURRENT_LOAD] else [])
     @ (if td_operation_type tool = PRIVILEGED then [RC_PRIVILEGED_OPERATION] else [])
     @ (if fst blast \<in> {CLUSTER, ENTERPRISE, MULTIPLE_DATABASES} then [RC_LARGE_BLAST_RADIUS] else [])"

definition assess ::
    "ToolDefinition \<Rightarrow> Environment \<Rightarrow> TargetContext \<Rightarrow> int \<Rightarrow> int \<Rightarrow> bool \<Rightarrow> RiskAssessment" where
  "assess tool environment ctx affected_object_count affected_session_count current_load_critical =
     (let blast = assess_blast_radius tool affected_object_count;
          score = max 0 (min 100 (raw_score tool environment (ctx_criticality ctx)
                    affected_session_count current_load_critical));
          level = score_level score
      in \<lparr>ra_risk_level =
            (if risk_index level < risk_index (td_risk_level tool) then td_risk_level tool else level),
          ra_score = score, ra_blast_radius = fst blast,
          ra_reversible = td_reversible tool, ra_availability_impact = td_availability_impact tool,
          ra_reason_codes = assess_reasons tool environment (ctx_criticality ctx) blast
            affected_session_count current_load_critical\<rparr>)"

section \<open>Lemmas\<close>

lemma assess_simps [simp]:
  "ra_score (assess t e c no ns l) = max 0 (min 100 (raw_score t e (ctx_criticality c) ns l))"
  "ra_risk_level (assess t e c no ns l) = max (td_risk_level t) (score_level (ra_score (assess t e c no ns l)))"
  "ra_reversible (assess t e c no ns l) = td_reversible t"
  by (simp_all add: assess_def Let_def max_def less_eq_RiskLevel_def)

lemma score_level_mono: "a \<le> b \<Longrightarrow> score_level a \<le> score_level b"
  by (simp add: score_level_def less_eq_RiskLevel_def)

lemma criticality_points_range: "0 \<le> criticality_points c \<and> criticality_points c \<le> 20"
  by (auto simp: criticality_points_def CRITICALITY_POINTS_def)

lemma raw_score_ge_base: "BASE_SCORE (td_risk_level t) \<le> raw_score t e c ns l"
  using criticality_points_range [of c] by (auto simp: raw_score_def)

lemma raw_score_env_mono: "raw_score t e c ns l \<le> raw_score t PRODUCTION c ns l"
  by (simp add: raw_score_def)

section \<open>Properties\<close>

text \<open>
  Every assessment has a score between 10 and 100 and a level that is exactly the larger
  of the tool's declared level and the band of the score (30, 60, 85): risk is never reported
  below the declared floor and never above what the score or the floor justify.
\<close>
theorem risk_level_exact:
  "10 \<le> ra_score (assess t e c no ns l) \<and> ra_score (assess t e c no ns l) \<le> 100 \<and>
   ra_risk_level (assess t e c no ns l) = max (td_risk_level t) (score_level (ra_score (assess t e c no ns l)))"
proof -
  have "10 \<le> BASE_SCORE (td_risk_level t)" by (cases "td_risk_level t") simp_all
  with raw_score_ge_base [of t e "ctx_criticality c" ns l] show ?thesis by simp
qed

text \<open>
  Environment and criticality raise risk only for operations that can change state or
  availability: for any other tool, two assessments that differ only in environment and
  target have the same score and level; and for every tool, moving the same call to
  production never lowers the score or the level.
\<close>
theorem risk_environment:
  "(\<not> td_data_modification t \<and> \<not> td_availability_impact t \<longrightarrow>
      ra_score (assess t e c no ns l) = ra_score (assess t e' c' no ns l) \<and>
      ra_risk_level (assess t e c no ns l) = ra_risk_level (assess t e' c' no ns l)) \<and>
   ra_score (assess t e c no ns l) \<le> ra_score (assess t PRODUCTION c no ns l) \<and>
   ra_risk_level (assess t e c no ns l) \<le> ra_risk_level (assess t PRODUCTION c no ns l)"
proof -
  have same: "raw_score t e x ns l = raw_score t e' x' ns l"
    if "\<not> td_data_modification t \<and> \<not> td_availability_impact t" for x x'
    using that by (simp add: raw_score_def impactful_def)
  have le: "max 0 (min 100 (raw_score t e x ns l)) \<le> max 0 (min 100 (raw_score t PRODUCTION x ns l))" for x
    using raw_score_env_mono [of t e x ns l] by simp
  have "max (td_risk_level t) (score_level (max 0 (min 100 (raw_score t e x ns l))))
      \<le> max (td_risk_level t) (score_level (max 0 (min 100 (raw_score t PRODUCTION x ns l))))" for x
    by (rule max.mono [OF order_refl score_level_mono [OF le]])
  with same [of "ctx_criticality c" "ctx_criticality c'"] le show ?thesis
    by (simp del: max.bounded_iff min.bounded_iff)
qed

theorem risk_environment_witness:
  "\<forall>t e c e' c'. t \<in> {\<lparr>td_tool_id = ''database.get_health'', td_version = ''1.0.0'', td_description = [],
       td_operation_type = READ, td_risk_level = LOW, td_reversible = True,
       td_availability_impact = False, td_data_modification = False, td_requires_approval = False,
       td_allowed_roles = [], td_allowed_environments = [], td_required_target_scope = [],
       td_argument_schema = NoArgs, td_result_schema = DiagnosticResult, td_max_execution_time = 30,
       td_max_result_rows = 100, td_audit_required = True, td_enabled = True,
       td_requires_change_ticket = False, td_requires_dual_approval = False\<rparr>} \<longrightarrow>
     ra_score (assess t e c 1 1 False) = ra_score (assess t e' c' 1 1 False)"
proof (intro allI impI)
  fix t e c e' c'
  assume "t \<in> {\<lparr>td_tool_id = ''database.get_health'', td_version = ''1.0.0'', td_description = [],
       td_operation_type = READ, td_risk_level = LOW, td_reversible = True,
       td_availability_impact = False, td_data_modification = False, td_requires_approval = False,
       td_allowed_roles = [], td_allowed_environments = [], td_required_target_scope = [],
       td_argument_schema = NoArgs, td_result_schema = DiagnosticResult, td_max_execution_time = 30,
       td_max_result_rows = 100, td_audit_required = True, td_enabled = True,
       td_requires_change_ticket = False, td_requires_dual_approval = False\<rparr>}"
  then have "\<not> td_data_modification t \<and> \<not> td_availability_impact t" by simp
  with risk_environment [of t e c 1 1 False e' c']
  show "ra_score (assess t e c 1 1 False) = ra_score (assess t e' c' 1 1 False)" by blast
qed

end
