(* ===== verification/Tool_Call_Handler.thy ===== *)
theory Tool_Call_Handler
  imports Approval Audit_Log Authorization Data_Policy Discovery Policy_Engine Rate_Limiter Risk_Engine
begin

text \<open>
  The Gateway pipeline (gateway/domain/tool_call_handler.py): the one path from a tool call to
  a database operation, composed of the components in the order of the code. The state has the
  control database's approval and audit tables, the rate-limit counters, the catalog store, and
  the list of requests sent to the Execution Service. The validation of arguments and targets
  by their models, the Execution Service, the fresh ids and the clock readings are parameters.
\<close>

section \<open>State and environment\<close>

record gateway_state =
  gs_approvals :: ApprovalDb
  gs_audit :: AuditDb
  gs_buckets :: buckets
  gs_store :: DbCatalogStore
  gs_sent :: "ExecutionRequest list"

record 'n handler_env =
  he_tools :: ToolRegistry
  he_registry :: ServerRegistry
  he_policy :: PolicyEngine
  he_zones :: zones
  he_rate_limits :: rate_limits
  he_data_policy :: DataPolicyConfig
  he_sqlglot :: "'n sqlglot"
  he_sha256 :: "string \<Rightarrow> string"
  he_encode :: "ServerCatalog \<Rightarrow> json"
  he_decode :: "json \<Rightarrow> ServerCatalog option"
  he_discovery :: "(discover_client \<times> nat \<times> int) option"
    \<comment> \<open>the client, the object cap and the minutes a catalog stays fresh\<close>
  he_validate_args :: "args_model \<Rightarrow> jdict \<Rightarrow> string + jdict"
    \<comment> \<open>\<open>model_validate\<close> then \<open>model_dump(mode="json")\<close>, or the text of the first errors\<close>
  he_validate_target :: "jdict \<Rightarrow> string + DatabaseTarget"
  he_execute :: "ExecutionRequest \<Rightarrow> ExecutionResult result"
  he_agent_version :: string
  he_channel :: string
  he_identity_provider_name :: string

record call_env =
  ce_approval_id :: string
  ce_execution_id :: string
  ce_now :: int
    \<comment> \<open>the moment of the policy and freshness checks\<close>
  ce_clock :: "nat \<Rightarrow> int"
    \<comment> \<open>the readings of the rate limiter\<close>
  ce_approval_now :: int
  ce_executed_now :: int
  ce_duration_ms :: int

section \<open>Steps 1 to 3: tool, arguments, target\<close>

definition dict_truthy :: "jdict \<Rightarrow> string \<Rightarrow> bool" where
  \<comment> \<open>truth of \<open>d.get(k)\<close>\<close>
  "dict_truthy d k = (case map_of d k of None \<Rightarrow> False | Some v \<Rightarrow> truthy v)"

definition json_str :: "json option \<Rightarrow> string" where
  "json_str v = (case v of Some (JStr s) \<Rightarrow> s | _ \<Rightarrow> [])"

definition enrich_target :: "DatabaseTarget \<Rightarrow> jdict \<Rightarrow> DatabaseTarget" where
  \<comment> \<open>\<open>model_copy(update=updates)\<close> writes the update's keys into the copy as they are: the keys
     \<open>schema\<close> and \<open>object\<close> are aliases and no fields of the model, so only the session and
     query ids have an effect\<close>
  "enrich_target target args =
     target\<lparr>dt_session_id := (if dict_truthy args ''session_id'' \<and> \<not> nonempty (dt_session_id target)
              then Some (json_str (map_of args ''session_id'')) else dt_session_id target),
            dt_query_id := (if dict_truthy args ''query_id'' \<and> \<not> nonempty (dt_query_id target)
              then Some (json_str (map_of args ''query_id'')) else dt_query_id target)\<rparr>"

definition parse_arguments :: "'n handler_env \<Rightarrow> ToolDefinition \<Rightarrow> ToolCallRequest \<Rightarrow> jdict result" where
  "parse_arguments env tool request =
     (case map_of ARGUMENT_MODELS (td_tool_id tool) of
        None \<Rightarrow> Inl (NumiError TOOL_NOT_FOUND (''No argument schema for '' @ quoted (td_tool_id tool) @ ''.''))
      | Some model \<Rightarrow>
          (case he_validate_args env model (rq_arguments request) of
             Inl errors \<Rightarrow> Inl (NumiError INVALID_ARGUMENTS
               (''Invalid arguments for '' @ quoted (td_tool_id tool) @ '': '' @ errors))
           | Inr args \<Rightarrow> Inr args))"

definition parse_target :: "'n handler_env \<Rightarrow> ToolCallRequest \<Rightarrow> DatabaseTarget result" where
  "parse_target env request =
     (case he_validate_target env (rq_target request) of
        Inl errors \<Rightarrow> Inl (NumiError INVALID_TARGET (''Invalid target: '' @ errors))
      | Inr t \<Rightarrow> Inr t)"

definition refresh_catalog ::
    "'n handler_env \<Rightarrow> call_env \<Rightarrow> ToolDefinition \<Rightarrow> DatabaseTarget \<Rightarrow> (DbCatalogStore, unit) op" where
  \<comment> \<open>lazy discovery: for reads only, on the server the target resolves to, and never fatal\<close>
  "refresh_catalog env call tool target store =
     (case he_discovery env of
        None \<Rightarrow> (Inr (), store)
      | Some (discover, max_objects, minutes) \<Rightarrow>
          if td_operation_type tool \<noteq> READ then (Inr (), store)
          else (case resolve (he_registry env) target of
                  Inl _ \<Rightarrow> (Inr (), store)
                | Inr server \<Rightarrow>
                    (Inr (), ensure_fresh (db_get (he_decode env)) (db_put (he_encode env) (he_decode env))
                       (he_registry env) discover max_objects minutes (ce_now call) (se_id server) store)))"

definition normalize_sql ::
    "'n handler_env \<Rightarrow> ToolDefinition \<Rightarrow> TargetContext \<Rightarrow> jdict \<Rightarrow> jdict result" where
  "normalize_sql env tool ctx args =
     (if td_tool_id tool = ''database.execute_readonly_sql''
      then bindE (key_error (map_of args ''sql'')) (\<lambda>sql.
           bindE (validate_readonly_sql (he_sqlglot env) (json_str (Some sql))
                    (if platform_value (ctx_platform ctx) = ''sqlserver'' then ''tsql'' else ''postgres'')
                    (int (td_max_result_rows tool))) (\<lambda>validated.
           Inr (dict_merge args [(''sql'', JStr (normalized_sql validated))])))
      else Inr args)"

section \<open>Steps 4 to 7: authorization, rate, policy, risk\<close>

record admission =
  ad_tool :: ToolDefinition
  ad_target :: DatabaseTarget
  ad_ctx :: TargetContext
  ad_args :: jdict
  ad_evaluation :: PolicyEvaluation
  ad_risk :: RiskAssessment

definition check_policy ::
    "'n handler_env \<Rightarrow> call_env \<Rightarrow> VerifiedIdentity \<Rightarrow> ToolCallRequest \<Rightarrow> ToolDefinition \<Rightarrow> TargetContext
       \<Rightarrow> PolicyEvaluation result" where
  "check_policy env call identity request tool ctx =
     (case highest_role identity of
        None \<Rightarrow> Inl (PyExn ''AttributeError'')
      | Some role \<Rightarrow>
          bindE (evaluate (he_policy env) (he_zones env) (ctx_environment ctx) tool role ctx
                   (rq_change_id request) False (ce_now call)) (\<lambda>evaluation.
          if pe_decision evaluation = DENY
          then Inl (NumiError POLICY_DENIED
                 (''Policy denies '' @ quoted (td_tool_id tool) @ '' for role '' @ role_value role @ ''.''))
          else if pe_requires_change_ticket evaluation \<and> \<not> nonempty (rq_change_id request)
          then Inl (NumiError CHANGE_TICKET_REQUIRED
                 (quoted (td_tool_id tool) @ '' in '' @ env_value (ctx_environment ctx) @
                  '' requires an approved change ticket.''))
          else Inr evaluation))"

abbreviation on_store :: "(DbCatalogStore, 'a) op \<Rightarrow> (gateway_state, 'a) op" where
  "on_store \<equiv> zoom gs_store (\<lambda>v s. s\<lparr>gs_store := v\<rparr>)"

abbreviation on_buckets :: "(buckets, 'a) op \<Rightarrow> (gateway_state, 'a) op" where
  "on_buckets \<equiv> zoom gs_buckets (\<lambda>v s. s\<lparr>gs_buckets := v\<rparr>)"

abbreviation on_approvals :: "(ApprovalDb, 'a) op \<Rightarrow> (gateway_state, 'a) op" where
  "on_approvals \<equiv> zoom gs_approvals (\<lambda>v s. s\<lparr>gs_approvals := v\<rparr>)"

definition admit ::
    "'n handler_env \<Rightarrow> call_env \<Rightarrow> VerifiedIdentity \<Rightarrow> ToolCallRequest \<Rightarrow> (gateway_state, admission) op" where
  \<comment> \<open>steps 1 to 7 of \<open>_handle_inner\<close>\<close>
  "admit env call identity request =
     bindM (liftE (registry_get (he_tools env) (rq_tool_id request) (rq_tool_version request))) (\<lambda>tool.
     bindM (liftE (parse_arguments env tool request)) (\<lambda>args0.
     bindM (liftE (parse_target env request)) (\<lambda>raw_target.
     let target = enrich_target raw_target args0
     in
     bindM (on_store (refresh_catalog env call tool target)) (\<lambda>_.
     bindM (on_store (validate (he_registry env) (he_decode env) target (td_required_target_scope tool))) (\<lambda>ctx.
     bindM (liftE (normalize_sql env tool ctx args0)) (\<lambda>args.
     bindM (liftE (authorize identity tool ctx)) (\<lambda>_.
     bindM (on_buckets (rate_check (he_rate_limits env) (operation_value (td_operation_type tool))
              (td_requires_approval tool) (subject_id identity) (rq_conversation_id request) (td_tool_id tool)
              (se_id (ctx_server ctx)) (env_value (ctx_environment ctx)) (ce_clock call))) (\<lambda>_.
     bindM (liftE (check_policy env call identity request tool ctx)) (\<lambda>evaluation.
     returnM \<lparr>ad_tool = tool, ad_target = target, ad_ctx = ctx, ad_args = args, ad_evaluation = evaluation,
              ad_risk = assess tool (ctx_environment ctx) ctx 1 1 False\<rparr>)))))))))"

section \<open>Step 8: approval\<close>

definition approval_context :: "VerifiedIdentity \<Rightarrow> ToolCallRequest \<Rightarrow> admission \<Rightarrow> ApprovalContext" where
  "approval_context identity request a =
     \<lparr>ac_request_id = rq_request_id request, ac_actor = identity, ac_tool = ad_tool a, ac_target = ad_target a,
      ac_normalized_arguments = ad_args a, ac_environment = env_value (ctx_environment (ad_ctx a)),
      ac_database_id = (if ctx_database (ad_ctx a) \<noteq> []
                        then se_id (ctx_server (ad_ctx a)) @ ''/'' @ ctx_database (ad_ctx a)
                        else se_id (ctx_server (ad_ctx a))),
      ac_risk = ad_risk a\<rparr>"

definition needs_approval :: "admission \<Rightarrow> bool" where
  "needs_approval a \<longleftrightarrow> pe_decision (ad_evaluation a) = REQUIRES_APPROVAL"

definition correlation :: "ToolCallRequest \<Rightarrow> (string \<times> string) list" where
  "correlation request =
     [(''conversation_id'', rq_conversation_id request), (''request_id'', rq_request_id request),
      (''investigation_id'', opt_or (rq_investigation_id request) [])]"

definition call_event ::
    "'n handler_env \<Rightarrow> VerifiedIdentity \<Rightarrow> ToolCallRequest \<Rightarrow> string \<Rightarrow> admission \<Rightarrow> AuditEventRecord" where
  "call_event env identity request event_type a =
     (audit_event (he_sha256 env) event_type (correlation request) (subject_id identity)
        (he_identity_provider_name env) (he_channel env) (he_agent_version env) (td_tool_id (ad_tool a))
        (td_version (ad_tool a)) (target_dump (ad_target a)) (ad_args a))
       \<lparr>au_policy_decision := decision_value (pe_decision (ad_evaluation a)), au_risk := Some (ad_risk a)\<rparr>"

definition request_approval ::
    "'n handler_env \<Rightarrow> call_env \<Rightarrow> VerifiedIdentity \<Rightarrow> ToolCallRequest \<Rightarrow> admission
       \<Rightarrow> (gateway_state, ToolCallResponse) op" where
  "request_approval env call identity request a =
     bindM (on_approvals (create (he_sha256 env) DEFAULT_TTL_SECONDS (ce_approval_id call)
              (approval_context identity request a) (pe_requires_dual_approval (ad_evaluation a))
              (ce_approval_now call))) (\<lambda>record s.
       (Inr \<lparr>rs_status = TC_APPROVAL_REQUIRED, rs_execution_id = None,
             rs_approval_id = Some (ap_approval_id record), rs_result = None, rs_failure_code = None,
             rs_message = ''This action requires DBA approval before it will run.'',
             rs_risk = Some (ad_risk a), rs_policy_decision = Some (decision_value (pe_decision (ad_evaluation a)))\<rparr>,
        s\<lparr>gs_audit := record_event ((call_event env identity request ''APPROVAL_REQUESTED'' a)
                        \<lparr>au_approval_id := Some (ap_approval_id record)\<rparr>) (gs_audit s)\<rparr>))"

section \<open>Steps 9 to 11: execution, minimisation, audit\<close>

definition target_arguments :: "DatabaseTarget \<Rightarrow> jdict" where
  \<comment> \<open>the target's fields that are not None, as arguments\<close>
  "target_arguments t =
     [(k, JStr v). (k, Some v) \<leftarrow>
        [(''schema_name'', dt_schema_name t), (''table'', dt_object_name t),
         (''session_id'', dt_session_id t), (''query_id'', dt_query_id t)]]"

definition execution_request :: "call_env \<Rightarrow> admission \<Rightarrow> ExecutionRequest" where
  "execution_request call a =
     \<lparr>ex_execution_id = ce_execution_id call, ex_tool_id = td_tool_id (ad_tool a),
      ex_tool_version = td_version (ad_tool a), ex_platform = ctx_platform (ad_ctx a),
      ex_server_id = se_id (ctx_server (ad_ctx a)), ex_database = ctx_database (ad_ctx a),
      ex_schema_name = dt_schema_name (ad_target a), ex_object_name = dt_object_name (ad_target a),
      ex_session_id = dt_session_id (ad_target a), ex_query_id = dt_query_id (ad_target a),
      ex_arguments = dict_merge (ad_args a) (target_arguments (ad_target a)),
      ex_max_execution_time = td_max_execution_time (ad_tool a),
      ex_max_result_rows = td_max_result_rows (ad_tool a)\<rparr>"

definition execution_failure :: "ExecutionResult \<Rightarrow> exn" where
  "execution_failure result =
     (case (if nonempty (xr_error_code result) then FailureCode_of (opt_or (xr_error_code result) [])
            else Inr EXECUTION_FAILED) of
        Inl e \<Rightarrow> e
      | Inr code \<Rightarrow> NumiError code (opt_or (xr_error_detail result) ''Execution failed.''))"

definition send :: "'n handler_env \<Rightarrow> ExecutionRequest \<Rightarrow> (gateway_state, ExecutionResult) op" where
  "send env er s = (he_execute env er, s\<lparr>gs_sent := gs_sent s @ [er]\<rparr>)"

definition complete ::
    "'n handler_env \<Rightarrow> call_env \<Rightarrow> VerifiedIdentity \<Rightarrow> ToolCallRequest \<Rightarrow> admission \<Rightarrow> ExecutionResult
       \<Rightarrow> (gateway_state, ToolCallResponse) op" where
  \<comment> \<open>steps 10 and 11\<close>
  "complete env call identity request a result s =
     (let minimized = minimize (he_sqlglot env) (he_data_policy env) (Some (td_max_result_rows (ad_tool a)))
            (sqlglot_dialect_for_platform (Some (platform_value (ctx_platform (ad_ctx a))))) (xr_rows result)
      in (Inr \<lparr>rs_status = TC_EXECUTED, rs_execution_id = Some (ce_execution_id call), rs_approval_id = None,
               rs_result = Some \<lparr>tr_columns = xr_columns result, tr_rows = mr_rows minimized,
                 tr_row_count = length (mr_rows minimized),
                 tr_truncated = (mr_truncated minimized \<or> xr_truncated result),
                 tr_masked_fields = mr_masked_fields minimized,
                 tr_literal_scrubbed_fields = mr_literal_scrubbed_fields minimized,
                 tr_affected = xr_affected result\<rparr>,
               rs_failure_code = None, rs_message = ''Completed.'', rs_risk = Some (ad_risk a),
               rs_policy_decision = Some (decision_value (pe_decision (ad_evaluation a)))\<rparr>,
          s\<lparr>gs_audit := record_event ((call_event env identity request ''TOOL_CALL_EXECUTED'' a)
              \<lparr>au_approval_id := rq_approval_id request, au_execution_result := ''SUCCESS''\<rparr>) (gs_audit s)\<rparr>))"

definition run_call ::
    "'n handler_env \<Rightarrow> call_env \<Rightarrow> VerifiedIdentity \<Rightarrow> ToolCallRequest \<Rightarrow> admission
       \<Rightarrow> (gateway_state, ToolCallResponse) op" where
  \<comment> \<open>steps 9 to 11\<close>
  "run_call env call identity request a =
     bindM (send env (execution_request call a)) (\<lambda>result.
     if \<not> xr_success result then raiseM (execution_failure result)
     else bindM (if needs_approval a
                 then on_approvals (mark_executed (opt_or (rq_approval_id request) []) (ce_executed_now call))
                 else returnM ()) (\<lambda>_.
          complete env call identity request a result))"

definition handle_inner ::
    "'n handler_env \<Rightarrow> call_env \<Rightarrow> VerifiedIdentity \<Rightarrow> ToolCallRequest \<Rightarrow> (gateway_state, ToolCallResponse) op" where
  "handle_inner env call identity request =
     bindM (admit env call identity request) (\<lambda>a.
     if needs_approval a \<and> \<not> nonempty (rq_approval_id request)
     then request_approval env call identity request a
     else bindM (if needs_approval a
                 then bindM (on_approvals (verify_for_execution (opt_or (rq_approval_id request) [])
                        (action_hash (he_sha256 env) (approval_context identity request a)) (ce_approval_now call)))
                        (\<lambda>_. returnM ())
                 else returnM ()) (\<lambda>_.
          run_call env call identity request a))"

section \<open>The handler\<close>

definition execution_outcomes :: "FailureCode list" where
  "execution_outcomes = [EXECUTION_FAILED, EXECUTION_TIMEOUT, DATABASE_UNAVAILABLE]"

definition security_codes :: "FailureCode list" where
  "security_codes =
     [UNAUTHORIZED, AUTHENTICATION_FAILED, APPROVAL_MISMATCH, APPROVAL_INVALID, SEPARATION_OF_DUTIES_VIOLATION]"

definition refused ::
    "'n handler_env \<Rightarrow> call_env \<Rightarrow> VerifiedIdentity \<Rightarrow> ToolCallRequest \<Rightarrow> FailureCode \<Rightarrow> string
       \<Rightarrow> (gateway_state, ToolCallResponse) op" where
  \<comment> \<open>the handler of a \<open>NumiError\<close>\<close>
  "refused env call identity request code detail s =
     (let failed = code \<in> set execution_outcomes;
          ev = (audit_event (he_sha256 env) (if failed then ''TOOL_CALL_FAILED'' else ''TOOL_CALL_DENIED'')
                 (correlation request) (subject_id identity) (he_identity_provider_name env) (he_channel env)
                 (he_agent_version env) (rq_tool_id request) [] (rq_target request) (rq_arguments request))
                 \<lparr>au_error_code := Some (failure_value code), au_duration_ms := Some (ce_duration_ms call)\<rparr>;
          audit = record_event ev (gs_audit s);
          audit' = (if code \<in> set security_codes
                    then record_security_event (failure_value code) (subject_id identity)
                           [(''tool_id'', JStr (rq_tool_id request)), (''detail'', JStr detail)] audit
                    else audit)
      in (Inr \<lparr>rs_status = (if failed then TC_FAILED else TC_DENIED), rs_execution_id = None, rs_approval_id = None,
               rs_result = None, rs_failure_code = Some (failure_value code), rs_message = detail,
               rs_risk = None, rs_policy_decision = None\<rparr>,
          s\<lparr>gs_audit := audit'\<rparr>))"

definition handle ::
    "'n handler_env \<Rightarrow> call_env \<Rightarrow> VerifiedIdentity \<Rightarrow> ToolCallRequest \<Rightarrow> (gateway_state, ToolCallResponse) op" where
  \<comment> \<open>an exception of any other kind leaves the handler\<close>
  "handle env call identity request s =
     (case handle_inner env call identity request s of
        (Inl (NumiError code detail), s') \<Rightarrow> refused env call identity request code detail s'
      | (r, s') \<Rightarrow> (r, s'))"

end
