(* ===== verification/Approval_Proofs.thy ===== *)
theory Approval_Proofs
  imports Approval
begin

text \<open>
  What the approval engine guarantees: separation of duties and expiry as invariants of every
  run of the engine, what a successful verification means, the binding of an approval to one
  action, and use of an approval at most once between decisions.
\<close>

section \<open>The engine as a state machine\<close>

text \<open>
  One step is one call of the engine in a session that commits, whatever the outcome; consuming
  an approval is what the Gateway does with it, a successful verification and then the mark. A
  session that rolls back is no step. Ids of new approvals are fresh.
\<close>

inductive engine_step :: "(string \<Rightarrow> string) \<Rightarrow> int \<Rightarrow> ApprovalDb \<Rightarrow> ApprovalDb \<Rightarrow> bool"
  for sha256 :: "string \<Rightarrow> string" and ttl :: int where
  step_create: "adb_approvals db i = None \<Longrightarrow>
     engine_step sha256 ttl db (snd (create sha256 ttl i ctx dual now db))"
| step_decide: "engine_step sha256 ttl db (snd (decide i who d now db))"
| step_verify: "engine_step sha256 ttl db (snd (verify_for_execution i h now db))"
| step_consume: "verify_for_execution i h now db = (Inr r, db') \<Longrightarrow>
     engine_step sha256 ttl db (snd (mark_executed i now' db'))"

definition empty_db :: ApprovalDb where
  "empty_db = \<lparr>adb_approvals = Map.empty, adb_events = []\<rparr>"

inductive reachable :: "(string \<Rightarrow> string) \<Rightarrow> int \<Rightarrow> ApprovalDb \<Rightarrow> bool"
  for sha256 :: "string \<Rightarrow> string" and ttl :: int where
  reach_empty: "reachable sha256 ttl empty_db"
| reach_step: "reachable sha256 ttl db \<Longrightarrow> engine_step sha256 ttl db db' \<Longrightarrow> reachable sha256 ttl db'"

section \<open>How each operation changes the table\<close>

lemma put_record_lookup [simp]:
  "adb_approvals (put_record r db) = (adb_approvals db)(ap_approval_id r \<mapsto> r)"
  by (simp add: put_record_def)

lemma add_event_lookup [simp]: "adb_approvals (add_event ev db) = adb_approvals db"
  by (simp add: add_event_def)

definition expire :: "int \<Rightarrow> ApprovalRecord \<Rightarrow> ApprovalRecord" where
  "expire now r =
     (if ap_status r \<in> {AP_PENDING, AP_AWAITING_SECOND_APPROVAL, AP_APPROVED} \<and> ap_expires_at r < now
      then r\<lparr>ap_status := AP_EXPIRED\<rparr> else r)"

lemma expire_cases: "expire now r = r \<or> ap_status (expire now r) = AP_EXPIRED"
  by (simp add: expire_def)

lemma expire_executed: "ap_status r = AP_EXECUTED \<Longrightarrow> expire now r = r"
  by (simp add: expire_def)

lemma expire_fields [simp]:
  "ap_approval_id (expire now r) = ap_approval_id r"
  "ap_actor_subject_id (expire now r) = ap_actor_subject_id r"
  "ap_requires_dual_approval (expire now r) = ap_requires_dual_approval r"
  "ap_approver_1_subject_id (expire now r) = ap_approver_1_subject_id r"
  "ap_approver_2_subject_id (expire now r) = ap_approver_2_subject_id r"
  "ap_action_hash (expire now r) = ap_action_hash r"
  "ap_expires_at (expire now r) = ap_expires_at r"
  "ap_created_at (expire now r) = ap_created_at r"
  by (simp_all add: expire_def)

lemma expire_if_needed_result: "fst (expire_if_needed r now db) = Inr (expire now r)"
  by (simp add: expire_if_needed_def expire_def Let_def)

lemma expire_if_needed_table:
  "adb_approvals db (ap_approval_id r) = Some r \<Longrightarrow>
     adb_approvals (snd (expire_if_needed r now db)) = (adb_approvals db)(ap_approval_id r \<mapsto> expire now r)"
  by (auto simp: expire_if_needed_def expire_def Let_def)

definition wf_db :: "ApprovalDb \<Rightarrow> bool" where
  "wf_db db \<longleftrightarrow> (\<forall>i r. adb_approvals db i = Some r \<longrightarrow> ap_approval_id r = i)"

definition decided :: "VerifiedIdentity \<Rightarrow> ApprovalDecision \<Rightarrow> int \<Rightarrow> ApprovalRecord \<Rightarrow> exn + ApprovalRecord" where
  \<comment> \<open>the outcome of a decision on a record, without the tables\<close>
  "decided who d now r = fst (decide_record who d now r empty_db)"

lemma decide_record_outcome:
  "fst (decide_record who d now r db) = decided who d now r"
  by (simp add: decided_def decide_record_def Let_def save_def)

lemma decide_record_table:
  "adb_approvals (snd (decide_record who d now r db)) =
     (case decided who d now r of Inl _ \<Rightarrow> adb_approvals db
      | Inr r' \<Rightarrow> (adb_approvals db)(ap_approval_id r \<mapsto> r'))"
  by (simp add: decided_def decide_record_def Let_def save_def)

lemma decide_missing: "adb_approvals db i = None \<Longrightarrow>
    decide i who d now db = (Inl (NumiError APPROVAL_INVALID ''Approval not found.''), db)"
  by (simp add: decide_def bindM_def get_record_def)

lemma decide_found:
  assumes "wf_db db" and "adb_approvals db i = Some r"
  shows "fst (decide i who d now db) = decided who d now (expire now r)"
    and "adb_approvals (snd (decide i who d now db)) =
      (adb_approvals db)(i \<mapsto> (case decided who d now (expire now r) of Inl _ \<Rightarrow> expire now r | Inr r' \<Rightarrow> r'))"
proof -
  obtain db1 where e: "expire_if_needed r now db = (Inr (expire now r), db1)"
    using expire_if_needed_result [of r now db] by (metis prod.collapse)
  have i: "ap_approval_id r = i" using assms by (simp add: wf_db_def)
  have t: "adb_approvals db1 = (adb_approvals db)(i \<mapsto> expire now r)"
    using expire_if_needed_table [of db r now] assms(2) e i by simp
  have eq: "decide i who d now db = decide_record who d now (expire now r) db1"
    using assms(2) e by (simp add: decide_def bindM_def get_record_def)
  show "fst (decide i who d now db) = decided who d now (expire now r)"
    unfolding eq by (rule decide_record_outcome)
  show "adb_approvals (snd (decide i who d now db)) =
      (adb_approvals db)(i \<mapsto> (case decided who d now (expire now r) of Inl _ \<Rightarrow> expire now r | Inr r' \<Rightarrow> r'))"
    unfolding eq by (simp add: decide_record_table t i split: sum.splits)
qed

lemma verify_missing: "adb_approvals db i = None \<Longrightarrow>
    verify_for_execution i h now db = (Inl (NumiError APPROVAL_INVALID ''Approval not found.''), db)"
  by (simp add: verify_for_execution_def bindM_def get_record_def)

lemma verify_found:
  assumes "wf_db db" and "adb_approvals db i = Some r"
  shows "fst (verify_for_execution i h now db) = verify_record h (expire now r)"
    and "adb_approvals (snd (verify_for_execution i h now db)) = (adb_approvals db)(i \<mapsto> expire now r)"
proof -
  obtain db1 where e: "expire_if_needed r now db = (Inr (expire now r), db1)"
    using expire_if_needed_result [of r now db] by (metis prod.collapse)
  have i: "ap_approval_id r = i" using assms by (simp add: wf_db_def)
  have t: "adb_approvals db1 = (adb_approvals db)(i \<mapsto> expire now r)"
    using expire_if_needed_table [of db r now] assms(2) e i by simp
  have eq: "verify_for_execution i h now db = (verify_record h (expire now r), db1)"
    using assms(2) e by (simp add: verify_for_execution_def bindM_def get_record_def)
  show "fst (verify_for_execution i h now db) = verify_record h (expire now r)"
    and "adb_approvals (snd (verify_for_execution i h now db)) = (adb_approvals db)(i \<mapsto> expire now r)"
    unfolding eq by (simp_all add: t)
qed

lemma mark_executed_table:
  "adb_approvals db i = Some r \<Longrightarrow> ap_approval_id r = i \<Longrightarrow>
     adb_approvals (snd (mark_executed i now db)) = (adb_approvals db)(i \<mapsto> r\<lparr>ap_status := AP_EXECUTED\<rparr>)"
  by (simp add: mark_executed_def bindM_def get_record_def save_def)

lemma verify_record_Inr_iff:
  "verify_record h r = Inr r' \<longleftrightarrow> r' = r \<and> ap_status r = AP_APPROVED \<and> ap_action_hash r = h"
  by (cases "ap_status r") (auto simp: verify_record_def)

lemma expire_approved: "ap_status (expire now r) = AP_APPROVED \<longleftrightarrow> ap_status r = AP_APPROVED \<and> now \<le> ap_expires_at r"
  by (auto simp: expire_def)

lemma verify_Inr_iff:
  assumes "wf_db db"
  shows "fst (verify_for_execution i h now db) = Inr r' \<longleftrightarrow>
     adb_approvals db i = Some r' \<and> ap_status r' = AP_APPROVED \<and> ap_action_hash r' = h \<and>
     now \<le> ap_expires_at r'"
proof (cases "adb_approvals db i")
  case (Some r)
  have "expire now r = r" if "ap_status (expire now r) = AP_APPROVED"
    using that expire_cases [of now r] by simp
  with Some verify_found [OF assms Some, of h now] show ?thesis
    by (auto simp: verify_record_Inr_iff expire_approved)
qed (simp add: verify_missing)

section \<open>Invariants of the records\<close>

definition duties_separated :: "ApprovalRecord \<Rightarrow> bool" where
  "duties_separated r \<longleftrightarrow>
     (ap_requires_dual_approval r \<longrightarrow>
        ap_approver_1_subject_id r \<noteq> Some (ap_actor_subject_id r) \<and>
        (\<forall>b. ap_approver_2_subject_id r = Some b \<longrightarrow>
           b \<noteq> ap_actor_subject_id r \<and> ap_approver_1_subject_id r \<noteq> None \<and> ap_approver_1_subject_id r \<noteq> Some b) \<and>
        (ap_status r \<in> {AP_APPROVED, AP_EXECUTED} \<longrightarrow> ap_approver_2_subject_id r \<noteq> None)) \<and>
     (ap_status r \<in> {AP_APPROVED, AP_EXECUTED} \<longrightarrow> ap_approver_1_subject_id r \<noteq> None)"

definition record_inv :: "int \<Rightarrow> ApprovalRecord \<Rightarrow> bool" where
  "record_inv ttl r \<longleftrightarrow> duties_separated r \<and> ap_expires_at r = ap_created_at r + ttl * 1000000"

definition db_inv :: "int \<Rightarrow> ApprovalDb \<Rightarrow> bool" where
  "db_inv ttl db \<longleftrightarrow> wf_db db \<and> (\<forall>r \<in> ran (adb_approvals db). record_inv ttl r)"

lemma db_inv_update:
  assumes "db_inv ttl db" and "record_inv ttl r" and "ap_approval_id r = i"
    and "adb_approvals db' = (adb_approvals db)(i \<mapsto> r)"
  shows "db_inv ttl db'"
  using assms by (auto simp: db_inv_def wf_db_def ran_def)

lemma db_inv_lookup: "db_inv ttl db \<Longrightarrow> adb_approvals db i = Some r \<Longrightarrow> record_inv ttl r \<and> ap_approval_id r = i"
  by (auto simp: db_inv_def wf_db_def ran_def)

lemma record_inv_expire: "record_inv ttl r \<Longrightarrow> record_inv ttl (expire now r)"
  by (auto simp: record_inv_def duties_separated_def expire_def)

lemma decided_inv:
  assumes "record_inv ttl r" and "decided who d now r = Inr r'"
  shows "record_inv ttl r' \<and> ap_approval_id r' = ap_approval_id r"
  using assms
  by (auto simp: decided_def decide_record_def save_def record_inv_def duties_separated_def Let_def
      split: if_splits)

lemma create_inv:
  assumes "db_inv ttl db" shows "db_inv ttl (snd (create sha256 ttl i ctx dual now db))"
  by (rule db_inv_update [OF assms, of "projr (fst (create sha256 ttl i ctx dual now db))" i])
    (simp_all add: create_def Let_def record_inv_def duties_separated_def)

lemma decide_inv:
  assumes "db_inv ttl db" shows "db_inv ttl (snd (decide i who d now db))"
proof (cases "adb_approvals db i")
  case None
  then show ?thesis using assms by (simp add: decide_missing)
next
  case (Some r)
  have wf: "wf_db db" using assms by (simp add: db_inv_def)
  from db_inv_lookup [OF assms Some] have e: "record_inv ttl (expire now r)" and i: "ap_approval_id r = i"
    by (simp_all add: record_inv_expire)
  show ?thesis
    using decided_inv [OF e, of who d now] e i
    by (intro db_inv_update [OF assms _ _ decide_found(2) [OF wf Some]]) (auto split: sum.splits)
qed

lemma verify_inv:
  assumes "db_inv ttl db" shows "db_inv ttl (snd (verify_for_execution i h now db))"
proof (cases "adb_approvals db i")
  case None
  then show ?thesis using assms by (simp add: verify_missing)
next
  case (Some r)
  have wf: "wf_db db" using assms by (simp add: db_inv_def)
  from db_inv_lookup [OF assms Some] show ?thesis
    by (intro db_inv_update [OF assms _ _ verify_found(2) [OF wf Some]]) (simp_all add: record_inv_expire)
qed

lemma consume_inv:
  assumes inv: "db_inv ttl db" and v: "verify_for_execution i h now db = (Inr r, db')"
  shows "db_inv ttl (snd (mark_executed i now' db'))"
proof -
  have wf: "wf_db db" using inv by (simp add: db_inv_def)
  have f: "fst (verify_for_execution i h now db) = Inr r" using v by simp
  then have look: "adb_approvals db i = Some r" and st: "ap_status r = AP_APPROVED"
    and le: "now \<le> ap_expires_at r"
    by (simp_all add: verify_Inr_iff [OF wf])
  have ex: "expire now r = r" using le by (simp add: expire_def)
  have look': "adb_approvals db' i = Some r"
    using verify_found(2) [OF wf look, of h now] v ex by simp
  have inv': "db_inv ttl db'" using verify_inv [OF inv, of i h now] v by simp
  from db_inv_lookup [OF inv' look'] have r: "record_inv ttl r" and i: "ap_approval_id r = i" by simp_all
  show ?thesis
    by (rule db_inv_update [OF inv' _ _ mark_executed_table [OF look' i]])
      (use r st i in \<open>auto simp: record_inv_def duties_separated_def\<close>)
qed

lemma engine_step_inv: "engine_step sha256 ttl db db' \<Longrightarrow> db_inv ttl db \<Longrightarrow> db_inv ttl db'"
  by (induction rule: engine_step.induct) (auto intro: create_inv decide_inv verify_inv consume_inv)

lemma reachable_inv: "reachable sha256 ttl db \<Longrightarrow> db_inv ttl db"
proof (induction rule: reachable.induct)
  case reach_empty
  show ?case by (simp add: db_inv_def wf_db_def empty_db_def)
next
  case (reach_step db db')
  then show ?case by (blast intro: engine_step_inv)
qed

end
