(* ===== verification/Handler_Proofs.thy ===== *)
theory Handler_Proofs
  imports Tool_Call_Handler Approval_Proofs
begin

text \<open>
  How the pipeline of Tool_Call_Handler behaves, as a case distinction over its outcomes: what
  a call that is refused, that asks for an approval, that reaches the Execution Service and
  fails there, or that completes leaves in each part of the state.
\<close>

section \<open>Admission\<close>

definition frame :: "gateway_state \<Rightarrow> gateway_state \<Rightarrow> bool" where
  \<comment> \<open>the control database and the requests sent are the same\<close>
  "frame s s' \<longleftrightarrow> gs_approvals s' = gs_approvals s \<and> gs_audit s' = gs_audit s \<and> gs_sent s' = gs_sent s"

lemma frame_refl [simp]: "frame s s"
  by (simp add: frame_def)

lemma zoom_frame:
  "preserves (frame s) (on_store m)" "preserves (frame s) (on_buckets n)"
  by (auto simp: preserves_def zoom_def frame_def split: prod.splits)

lemma admit_frame: "preserves (frame s) (admit env call identity request)"
  unfolding admit_def Let_def by (intro preserve_intros zoom_frame)

definition admitted :: "'n handler_env \<Rightarrow> call_env \<Rightarrow> VerifiedIdentity \<Rightarrow> ToolCallRequest \<Rightarrow> admission \<Rightarrow> bool" where
  \<comment> \<open>what a call that passes steps 1 to 7 is known to satisfy\<close>
  "admitted env call identity request a \<longleftrightarrow>
     registry_get (he_tools env) (rq_tool_id request) (rq_tool_version request) = Inr (ad_tool a) \<and>
     (\<exists>args0 raw. parse_arguments env (ad_tool a) request = Inr args0 \<and> parse_target env request = Inr raw \<and>
        ad_target a = enrich_target raw args0 \<and> normalize_sql env (ad_tool a) (ad_ctx a) args0 = Inr (ad_args a)) \<and>
     (\<exists>store. fst (validate (he_registry env) (he_decode env) (ad_target a) (td_required_target_scope (ad_tool a)) store)
        = Inr (ad_ctx a)) \<and>
     authorized identity (ad_tool a) (ad_ctx a) \<and>
     check_policy env call identity request (ad_tool a) (ad_ctx a) = Inr (ad_evaluation a) \<and>
     ad_risk a = assess (ad_tool a) (ctx_environment (ad_ctx a)) (ad_ctx a) 1 1 False"

lemma zoom_Inr: "zoom get put m s = (Inr x, s') \<Longrightarrow> \<exists>t. m (get s) = (Inr x, t) \<and> s' = put t s"
  by (auto simp: zoom_def split: prod.splits)

lemma admit_Inr:
  assumes "admit env call identity request s = (Inr a, s')"
  shows "admitted env call identity request a \<and> frame s s'"
proof
  show "frame s s'" using preservesD [OF admit_frame, of s s] assms by simp
  show "admitted env call identity request a"
    using assms unfolding admit_def Let_def
    by (auto simp: bindM_eq_Inr_iff admitted_def authorize_Inr_iff [symmetric] dest!: zoom_Inr)
      (metis fst_conv)
qed

lemma admit_Inl: "admit env call identity request s = (Inl e, s') \<Longrightarrow> frame s s'"
  using preservesD [OF admit_frame, of s s] by simp

lemma check_policy_decision:
  "check_policy env call identity request tool ctx = Inr e \<Longrightarrow> pe_decision e \<noteq> DENY \<and>
     (pe_requires_change_ticket e \<longrightarrow> nonempty (rq_change_id request))"
  by (auto simp: check_policy_def Let_def split: option.splits if_splits)

section \<open>The outcomes of a call\<close>

definition gate_open :: "'n handler_env \<Rightarrow> call_env \<Rightarrow> VerifiedIdentity \<Rightarrow> ToolCallRequest \<Rightarrow> admission \<Rightarrow> ApprovalDb \<Rightarrow> bool" where
  \<comment> \<open>policy allows the call outright, or it names an approval that verifies for exactly this action\<close>
  "gate_open env call identity request a db \<longleftrightarrow>
     pe_decision (ad_evaluation a) = ALLOW \<or>
     (pe_decision (ad_evaluation a) = REQUIRES_APPROVAL \<and>
      (\<exists>i r. rq_approval_id request = Some i \<and>
         fst (verify_for_execution i (action_hash (he_sha256 env) (approval_context identity request a))
                (ce_approval_now call) db) = Inr r))"

definition verified_db :: "'n handler_env \<Rightarrow> call_env \<Rightarrow> VerifiedIdentity \<Rightarrow> ToolCallRequest \<Rightarrow> admission \<Rightarrow> ApprovalDb \<Rightarrow> ApprovalDb" where
  \<comment> \<open>the approval tables after the verification step\<close>
  "verified_db env call identity request a db =
     (if needs_approval a
      then snd (verify_for_execution (opt_or (rq_approval_id request) [])
             (action_hash (he_sha256 env) (approval_context identity request a)) (ce_approval_now call) db)
      else db)"

definition consumed_db :: "call_env \<Rightarrow> ToolCallRequest \<Rightarrow> admission \<Rightarrow> ApprovalDb \<Rightarrow> ApprovalDb" where
  "consumed_db call request a db =
     (if needs_approval a then snd (mark_executed (opt_or (rq_approval_id request) []) (ce_executed_now call) db) else db)"

lemma run_call_cases:
  assumes "run_call env call identity request a s = (r, s')"
    and marks: "needs_approval a \<Longrightarrow>
      fst (mark_executed (opt_or (rq_approval_id request) []) (ce_executed_now call) (gs_approvals s)) = Inr ()"
  obtains
    (failed) e where "r = Inl e" "frame (s\<lparr>gs_sent := gs_sent s @ [execution_request call a]\<rparr>) s'"
      "(he_execute env (execution_request call a) = Inl e) \<or>
       (\<exists>x. he_execute env (execution_request call a) = Inr x \<and> \<not> xr_success x \<and> e = execution_failure x)"
  | (completed) x where "he_execute env (execution_request call a) = Inr x" "xr_success x"
      "(r, s') = complete env call identity request a x
         (s\<lparr>gs_sent := gs_sent s @ [execution_request call a], gs_approvals := consumed_db call request a (gs_approvals s)\<rparr>)"
proof -
  let ?er = "execution_request call a"
  show thesis
  proof (cases "he_execute env ?er")
    case (Inl e)
    then show ?thesis using assms(1) by (intro failed [of e]) (auto simp: run_call_def bindM_def send_def)
  next
    case (Inr x)
    show ?thesis
    proof (cases "xr_success x")
      case False
      with Inr assms(1) show ?thesis
        by (intro failed [of "execution_failure x"]) (auto simp: run_call_def bindM_def send_def)
    next
      case True
      show ?thesis
      proof (rule completed [OF Inr True])
        show "(r, s') = complete env call identity request a x
         (s\<lparr>gs_sent := gs_sent s @ [?er], gs_approvals := consumed_db call request a (gs_approvals s)\<rparr>)"
          using assms(1) Inr True marks
          by (cases "mark_executed (opt_or (rq_approval_id request) []) (ce_executed_now call) (gs_approvals s)")
            (auto simp: run_call_def bindM_def send_def zoom_def consumed_db_def split: if_splits)
      qed
    qed
  qed
qed

lemma mark_after_verify:
  assumes "wf_db db" and "fst (verify_for_execution i h now db) = Inr r"
  shows "fst (mark_executed i now' (snd (verify_for_execution i h now db))) = Inr ()"
proof -
  have look: "adb_approvals db i = Some r" using assms by (simp add: verify_Inr_iff)
  have "adb_approvals (snd (verify_for_execution i h now db)) i \<noteq> None"
    using verify_found(2) [OF assms(1) look, of h now] by simp
  then show ?thesis
    by (auto simp: mark_executed_def bindM_def get_record_def save_def split: option.splits)
qed

definition approval_response :: "call_env \<Rightarrow> admission \<Rightarrow> ToolCallResponse" where
  "approval_response call a =
     \<lparr>rs_status = TC_APPROVAL_REQUIRED, rs_execution_id = None, rs_approval_id = Some (ce_approval_id call),
      rs_result = None, rs_failure_code = None, rs_message = ''This action requires DBA approval before it will run.'',
      rs_risk = Some (ad_risk a), rs_policy_decision = Some (decision_value (pe_decision (ad_evaluation a)))\<rparr>"

definition created_approvals :: "'n handler_env \<Rightarrow> call_env \<Rightarrow> VerifiedIdentity \<Rightarrow> ToolCallRequest \<Rightarrow> admission \<Rightarrow> ApprovalDb \<Rightarrow> ApprovalDb" where
  "created_approvals env call identity request a db =
     snd (create (he_sha256 env) DEFAULT_TTL_SECONDS (ce_approval_id call) (approval_context identity request a)
        (pe_requires_dual_approval (ad_evaluation a)) (ce_approval_now call) db)"

lemma request_approval_eq:
  "request_approval env call identity request a s =
     (Inr (approval_response call a),
      s\<lparr>gs_approvals := created_approvals env call identity request a (gs_approvals s),
        gs_audit := record_event ((call_event env identity request ''APPROVAL_REQUESTED'' a)
          \<lparr>au_approval_id := Some (ce_approval_id call)\<rparr>) (gs_audit s)\<rparr>)"
  by (simp add: request_approval_def bindM_def zoom_def create_def created_approvals_def approval_response_def Let_def)

text \<open>A call that is admitted and does not ask for an approval is verified and then run, or refused.\<close>

lemma verification_stage:
  assumes wf: "wf_db (gs_approvals s)" and adm: "admit env call identity request s = (Inr a, s0)"
    and no: "\<not> (needs_approval a \<and> \<not> nonempty (rq_approval_id request))"
  obtains
    (refused) e i k where "handle_inner env call identity request s =
        (Inl e, s0\<lparr>gs_approvals := snd (verify_for_execution i k (ce_approval_now call) (gs_approvals s))\<rparr>)"
  | (opened) "gate_open env call identity request a (gs_approvals s)"
      "handle_inner env call identity request s = run_call env call identity request a
         (s0\<lparr>gs_approvals := verified_db env call identity request a (gs_approvals s)\<rparr>)"
      "needs_approval a \<Longrightarrow> fst (mark_executed (opt_or (rq_approval_id request) []) (ce_executed_now call)
         (verified_db env call identity request a (gs_approvals s))) = Inr ()"
proof -
  let ?i = "opt_or (rq_approval_id request) []"
    and ?h = "action_hash (he_sha256 env) (approval_context identity request a)"
  let ?v = "verify_for_execution ?i ?h (ce_approval_now call) (gs_approvals s)"
  from admit_Inr [OF adm] have A: "admitted env call identity request a" and F: "gs_approvals s0 = gs_approvals s"
    by (simp_all add: frame_def)
  show thesis
  proof (cases "needs_approval a")
    case False
    have "pe_decision (ad_evaluation a) \<noteq> DENY" using A by (auto simp: admitted_def dest: check_policy_decision)
    with False have "gate_open env call identity request a (gs_approvals s)"
      by (cases "pe_decision (ad_evaluation a)") (auto simp: gate_open_def needs_approval_def)
    moreover have "s0\<lparr>gs_approvals := gs_approvals s\<rparr> = s0" using F by (cases s0) simp
    ultimately show ?thesis using False adm
      by (intro opened) (simp_all add: handle_inner_def bindM_def verified_db_def)
  next
    case True
    with no obtain i where i: "rq_approval_id request = Some i" "i \<noteq> []" by (cases "rq_approval_id request") auto
    show ?thesis
    proof (cases "fst ?v")
      case (Inl e)
      with True no adm F show ?thesis
        by (intro refused [of e ?i ?h]) (cases ?v, simp add: handle_inner_def bindM_def zoom_def)
    next
      case (Inr rec)
      show ?thesis
      proof (rule opened)
        show "gate_open env call identity request a (gs_approvals s)"
          using True i Inr by (auto simp: gate_open_def needs_approval_def)
        show "handle_inner env call identity request s = run_call env call identity request a
           (s0\<lparr>gs_approvals := verified_db env call identity request a (gs_approvals s)\<rparr>)"
          using True no adm F Inr by (cases ?v) (simp add: handle_inner_def bindM_def zoom_def verified_db_def)
        show "fst (mark_executed ?i (ce_executed_now call) (verified_db env call identity request a (gs_approvals s))) = Inr ()"
          using mark_after_verify [OF wf Inr] True by (simp add: verified_db_def)
      qed
    qed
  qed
qed

lemma handle_inner_cases:
  assumes wf: "wf_db (gs_approvals s)" and h: "handle_inner env call identity request s = (r, s')"
  obtains
    (refused) e i k where "r = Inl e" "gs_sent s' = gs_sent s" "gs_audit s' = gs_audit s"
      "gs_approvals s' = gs_approvals s \<or> gs_approvals s' = snd (verify_for_execution i k (ce_approval_now call) (gs_approvals s))"
  | (requested) a where "admitted env call identity request a" "needs_approval a" "\<not> nonempty (rq_approval_id request)"
      "r = Inr (approval_response call a)" "gs_sent s' = gs_sent s"
      "gs_approvals s' = created_approvals env call identity request a (gs_approvals s)"
      "gs_audit s' = record_event ((call_event env identity request ''APPROVAL_REQUESTED'' a)
          \<lparr>au_approval_id := Some (ce_approval_id call)\<rparr>) (gs_audit s)"
  | (failed) a e where "admitted env call identity request a" "gate_open env call identity request a (gs_approvals s)"
      "r = Inl e" "gs_sent s' = gs_sent s @ [execution_request call a]" "gs_audit s' = gs_audit s"
      "gs_approvals s' = verified_db env call identity request a (gs_approvals s)"
      "(he_execute env (execution_request call a) = Inl e) \<or>
       (\<exists>x. he_execute env (execution_request call a) = Inr x \<and> \<not> xr_success x \<and> e = execution_failure x)"
  | (executed) a x s1 where "admitted env call identity request a" "gate_open env call identity request a (gs_approvals s)"
      "he_execute env (execution_request call a) = Inr x" "xr_success x"
      "(r, s') = complete env call identity request a x s1" "gs_audit s1 = gs_audit s"
      "gs_sent s1 = gs_sent s @ [execution_request call a]"
      "gs_approvals s1 = consumed_db call request a (verified_db env call identity request a (gs_approvals s))"
proof -
  obtain ra s0 where adm: "admit env call identity request s = (ra, s0)" by fastforce
  show thesis
  proof (cases ra)
    case (Inl e)
    with adm admit_Inl [of env call identity request s e s0] h show ?thesis
      by (intro refused [of e]) (auto simp: handle_inner_def bindM_def frame_def)
  next
    case (Inr a)
    note adm' = adm [unfolded Inr]
    from admit_Inr [OF adm'] have A: "admitted env call identity request a" and F: "frame s s0" by auto
    show ?thesis
    proof (cases "needs_approval a \<and> \<not> nonempty (rq_approval_id request)")
      case True
      then have "handle_inner env call identity request s = request_approval env call identity request a s0"
        using adm' by (simp add: handle_inner_def bindM_def)
      with True A F h show ?thesis
        by (intro requested [of a]) (auto simp: request_approval_eq frame_def)
    next
      case no: False
      from wf adm' no show ?thesis
      proof (cases rule: verification_stage)
        case (refused e i k)
        with F h show ?thesis by (intro that(1) [of e i k]) (auto simp: frame_def)
      next
        case opened
        let ?s1 = "s0\<lparr>gs_approvals := verified_db env call identity request a (gs_approvals s)\<rparr>"
        from h opened(2) have run: "run_call env call identity request a ?s1 = (r, s')" by simp
        show ?thesis
        proof (rule run_call_cases [OF run])
          show "fst (mark_executed (opt_or (rq_approval_id request) []) (ce_executed_now call) (gs_approvals ?s1)) = Inr ()"
            if "needs_approval a" using that opened(3) by simp
        next
          fix e assume "r = Inl e" "frame (?s1\<lparr>gs_sent := gs_sent ?s1 @ [execution_request call a]\<rparr>) s'"
            "(he_execute env (execution_request call a) = Inl e) \<or>
             (\<exists>x. he_execute env (execution_request call a) = Inr x \<and> \<not> xr_success x \<and> e = execution_failure x)"
          with A opened F show thesis by (intro failed [of a e]) (auto simp: frame_def)
        next
          fix x assume ex: "he_execute env (execution_request call a) = Inr x" and ok: "xr_success x"
            and eq: "(r, s') = complete env call identity request a x
               (?s1\<lparr>gs_sent := gs_sent ?s1 @ [execution_request call a],
                    gs_approvals := consumed_db call request a (gs_approvals ?s1)\<rparr>)"
          show thesis by (rule executed [OF A opened(1) ex ok eq]) (use F in \<open>simp_all add: frame_def\<close>)
        qed
      qed
    qed
  qed
qed

section \<open>What the handler adds\<close>

lemma refused_eq:
  "refused env call identity request code detail s = (r, s') \<Longrightarrow>
     frame (s\<lparr>gs_audit := gs_audit s'\<rparr>) s' \<and> (\<exists>resp. r = Inr resp \<and> rs_result resp = None \<and> rs_approval_id resp = None \<and>
       rs_status resp = (if code \<in> set execution_outcomes then TC_FAILED else TC_DENIED) \<and>
       rs_failure_code resp = Some (failure_value code)) \<and>
     (\<exists>ev. al_events (gs_audit s') = al_events (gs_audit s) @ [ev] \<and> au_actor_subject_id ev = subject_id identity \<and>
        au_event_type ev = (if code \<in> set execution_outcomes then ''TOOL_CALL_FAILED'' else ''TOOL_CALL_DENIED'') \<and>
        au_error_code ev = Some (failure_value code)) \<and>
     (if code \<in> set security_codes
      then (\<exists>sev. al_security_events (gs_audit s') = al_security_events (gs_audit s) @ [sev] \<and>
              sv_event_type sev = failure_value code \<and> sv_actor_subject_id sev = subject_id identity)
      else al_security_events (gs_audit s') = al_security_events (gs_audit s))"
  by (auto simp: refused_def Let_def frame_def audit_event_def)

lemma handle_sent:
  assumes "handle env call identity request s = (r, s')"
  obtains r0 s0 where "handle_inner env call identity request s = (r0, s0)" "gs_sent s' = gs_sent s0"
    "gs_approvals s' = gs_approvals s0"
proof -
  obtain r0 s0 where i: "handle_inner env call identity request s = (r0, s0)" by fastforce
  have "gs_sent s' = gs_sent s0 \<and> gs_approvals s' = gs_approvals s0"
  proof (cases "\<exists>code detail. r0 = Inl (NumiError code detail)")
    case True
    then obtain code detail where "r0 = Inl (NumiError code detail)" by blast
    with assms i have "refused env call identity request code detail s0 = (r, s')" by (simp add: handle_def)
    from refused_eq [OF this] show ?thesis by (simp add: frame_def)
  next
    case False
    with assms i have "s' = s0" by (auto simp: handle_def split: sum.splits exn.splits)
    then show ?thesis by simp
  qed
  with i that show thesis by blast
qed

lemma complete_facts:
  assumes "complete env call identity request a x s1 = (r, s')"
  obtains resp where "r = Inr resp" "rs_status resp = TC_EXECUTED" "gs_sent s' = gs_sent s1"
    "gs_approvals s' = gs_approvals s1" "rs_failure_code resp = None"
    "gs_audit s' = record_event ((call_event env identity request ''TOOL_CALL_EXECUTED'' a)
       \<lparr>au_approval_id := rq_approval_id request, au_execution_result := ''SUCCESS''\<rparr>) (gs_audit s1)"
    "\<exists>res. rs_result resp = Some res \<and> tr_affected res = xr_affected x \<and>
       tr_rows res = mr_rows (minimize (he_sqlglot env) (he_data_policy env) (Some (td_max_result_rows (ad_tool a)))
         (sqlglot_dialect_for_platform (Some (platform_value (ctx_platform (ad_ctx a))))) (xr_rows x))"
  using assms by (auto simp: complete_def Let_def)

lemma call_event_simps [simp]:
  "au_event_type (call_event env identity request t a) = t"
  "au_actor_subject_id (call_event env identity request t a) = subject_id identity"
  "au_tool_id (call_event env identity request t a) = td_tool_id (ad_tool a)"
  by (simp_all add: call_event_def audit_event_def)

end
