(* ===== verification/Service_Auth.thy ===== *)
theory Service_Auth
  imports Common_Models
begin

text \<open>
  Service-to-service tokens (common/service_auth.py). The signed, timed serializer of the
  signing library is a parameter: \<open>sign secret salt payload now\<close> and \<open>unsign\<close>, which returns the
  payload or says why it does not. To the services a token is opaque, so its type is arbitrary.
\<close>

datatype unsign_error = SignatureExpired | BadSignature

type_synonym payload = "(string \<times> string) list"

record 'k serializer =
  sz_dumps :: "string \<Rightarrow> string \<Rightarrow> payload \<Rightarrow> int \<Rightarrow> 'k"
  sz_loads :: "string \<Rightarrow> string \<Rightarrow> int \<Rightarrow> 'k \<Rightarrow> int \<Rightarrow> unsign_error + payload"
    \<comment> \<open>secret, salt, maximal age in seconds, token, now\<close>

record ServiceIdentity =
  si_service_name :: string
  si_audience :: string

definition issue :: "'k serializer \<Rightarrow> string \<Rightarrow> string \<Rightarrow> string \<Rightarrow> string \<Rightarrow> int \<Rightarrow> 'k" where
  "issue sz secret issuer service_name audience now =
     sz_dumps sz secret audience [(''iss'', issuer), (''sub'', service_name), (''aud'', audience)] now"

definition DEFAULT_MAX_AGE :: int where
  "DEFAULT_MAX_AGE = 60"

definition verify_token ::
    "'k serializer \<Rightarrow> string \<Rightarrow> string \<Rightarrow> int \<Rightarrow> 'k \<Rightarrow> string \<Rightarrow> int \<Rightarrow> ServiceIdentity result" where
  "verify_token sz secret issuer max_age token expected_audience now =
     (case sz_loads sz secret expected_audience max_age token now of
        Inl SignatureExpired \<Rightarrow> Inl (NumiError AUTHENTICATION_FAILED ''Service token has expired.'')
      | Inl BadSignature \<Rightarrow> Inl (NumiError AUTHENTICATION_FAILED ''Service token signature is invalid.'')
      | Inr payload \<Rightarrow>
          if map_of payload ''iss'' \<noteq> Some issuer \<or> map_of payload ''aud'' \<noteq> Some expected_audience
          then Inl (NumiError AUTHENTICATION_FAILED ''Service token issuer/audience mismatch.'')
          else (case map_of payload ''sub'' of
                  None \<Rightarrow> Inl (PyExn ''KeyError'')
                | Some sub \<Rightarrow> Inr \<lparr>si_service_name = sub, si_audience = expected_audience\<rparr>))"

section \<open>The contract of the serializer\<close>

text \<open>
  What the services rely on of the signing library: a token loads back, within its age, to the
  payload it was made of, and a token that loads was made with that secret, that salt and that
  payload at a moment that is not too old.
\<close>

definition signs :: "'k serializer \<Rightarrow> bool" where
  "signs sz \<longleftrightarrow>
     (\<forall>secret salt age p t now. t \<le> now \<and> now \<le> t + age * 1000000 \<longrightarrow>
        sz_loads sz secret salt age (sz_dumps sz secret salt p t) now = Inr p) \<and>
     (\<forall>secret salt age token now p. sz_loads sz secret salt age token now = Inr p \<longrightarrow>
        (\<exists>t. token = sz_dumps sz secret salt p t \<and> now \<le> t + age * 1000000))"

text \<open>
  A service token is accepted exactly for the audience, issuer and secret it was issued
  with and for its maximal age: an issued token verifies to the service that it names, and any
  token that verifies was issued with the verifier's secret for that audience by that issuer
  within the age.
\<close>

theorem service_token_roundtrip:
  assumes "signs sz"
  shows "(t \<le> now \<and> now \<le> t + age * 1000000 \<longrightarrow>
       verify_token sz secret issuer age (issue sz secret issuer service audience t) audience now =
         Inr \<lparr>si_service_name = service, si_audience = audience\<rparr>) \<and>
     (\<forall>token i. verify_token sz secret issuer age token audience now = Inr i \<longrightarrow>
        si_audience i = audience \<and>
        (\<exists>p t. token = sz_dumps sz secret audience p t \<and> now \<le> t + age * 1000000 \<and>
           map_of p ''iss'' = Some issuer \<and> map_of p ''aud'' = Some audience \<and> map_of p ''sub'' = Some (si_service_name i)))"
proof (intro conjI impI allI)
  assume "t \<le> now \<and> now \<le> t + age * 1000000"
  with assms show "verify_token sz secret issuer age (issue sz secret issuer service audience t) audience now =
      Inr \<lparr>si_service_name = service, si_audience = audience\<rparr>"
    by (simp add: verify_token_def issue_def signs_def)
next
  fix token i assume v: "verify_token sz secret issuer age token audience now = Inr i"
  then show "si_audience i = audience"
    by (auto simp: verify_token_def split: sum.splits unsign_error.splits if_splits option.splits)
  from v obtain p where p: "sz_loads sz secret audience age token now = Inr p"
    and c: "map_of p ''iss'' = Some issuer" "map_of p ''aud'' = Some audience" "map_of p ''sub'' = Some (si_service_name i)"
    by (auto simp: verify_token_def split: sum.splits unsign_error.splits if_splits option.splits)
  from assms p have "\<exists>t. token = sz_dumps sz secret audience p t \<and> now \<le> t + age * 1000000"
    unfolding signs_def by blast
  with c show "\<exists>p t. token = sz_dumps sz secret audience p t \<and> now \<le> t + age * 1000000 \<and>
      map_of p ''iss'' = Some issuer \<and> map_of p ''aud'' = Some audience \<and> map_of p ''sub'' = Some (si_service_name i)"
    by blast
qed

definition toy_serializer :: "(string \<times> string \<times> payload \<times> int) serializer" where
  \<comment> \<open>a token that is what it was made of\<close>
  "toy_serializer =
     \<lparr>sz_dumps = (\<lambda>secret salt p t. (secret, salt, p, t)),
      sz_loads = (\<lambda>secret salt age (secret', salt', p, t) now.
        if secret' \<noteq> secret \<or> salt' \<noteq> salt then Inl BadSignature
        else if now > t + age * 1000000 then Inl SignatureExpired else Inr p)\<rparr>"

theorem service_token_roundtrip_witness:
  "verify_token toy_serializer ''k'' ''numi'' 60
     (issue toy_serializer ''k'' ''numi'' ''agent'' ''numi-gateway'' 0) ''numi-gateway'' 60000000 =
   Inr \<lparr>si_service_name = ''agent'', si_audience = ''numi-gateway''\<rparr>"
proof -
  have "signs toy_serializer" by (auto simp: signs_def toy_serializer_def split: if_splits)
  from service_token_roundtrip [OF this, of 0 60000000 60] show ?thesis by simp
qed

end
