(* ===== verification/Gateway_Api.thy ===== *)
theory Gateway_Api
  imports Tool_Call_Handler Service_Auth
begin

text \<open>
  The Gateway's HTTP surface: the dependencies every route runs first (gateway/api/deps.py), the
  tool-call route, the approval routes, the tool listing and the catalog routes
  (gateway/api/routers). A route runs in one database session: unless it commits, what it wrote
  to the control database is undone, while the rate-limit counters and the catalog store keep
  what they got. The identity provider is a parameter: the account lookup.
\<close>

section \<open>Dependencies (deps.py)\<close>

definition require_agent_service_token ::
    "'k serializer \<Rightarrow> string \<Rightarrow> string \<Rightarrow> 'k option \<Rightarrow> int \<Rightarrow> unit result" where
  \<comment> \<open>without a header there is no token; every failure of the verification is a 401\<close>
  "require_agent_service_token sz secret issuer token now =
     (case token of
        None \<Rightarrow> Inl (HTTPException 401 ''Missing service token.'')
      | Some k \<Rightarrow>
          (case verify_token sz secret issuer DEFAULT_MAX_AGE k ''numi-gateway'' now of
             Inl (NumiError code detail) \<Rightarrow> Inl (HTTPException 401 detail)
           | Inl e \<Rightarrow> Inl e
           | Inr _ \<Rightarrow> Inr ()))"

type_synonym accounts = "string \<Rightarrow> string \<Rightarrow> VerifiedIdentity option"

definition resolve_identity :: "accounts \<Rightarrow> string \<Rightarrow> string \<Rightarrow> VerifiedIdentity result" where
  "resolve_identity accounts channel channel_account_id =
     (case accounts channel channel_account_id of
        None \<Rightarrow> Inl (HTTPException 401 ''Unable to verify identity for this account.'')
      | Some i \<Rightarrow> Inr i)"

section \<open>Sessions\<close>

definition rollback :: "gateway_state \<Rightarrow> gateway_state \<Rightarrow> gateway_state" where
  \<comment> \<open>undo what the session wrote since \<open>before\<close>\<close>
  "rollback before s = s\<lparr>gs_approvals := gs_approvals before, gs_audit := gs_audit before\<rparr>"

definition in_session :: "(gateway_state, 'a) op \<Rightarrow> (gateway_state, 'a) op" where
  \<comment> \<open>commit when the route returns, roll back when it raises\<close>
  "in_session m s = (case m s of (Inl e, s') \<Rightarrow> (Inl e, rollback s s') | (Inr x, s') \<Rightarrow> (Inr x, s'))"

section \<open>Tool calls (routers/tool_calls.py)\<close>

definition submit_tool_call ::
    "'n handler_env \<Rightarrow> accounts \<Rightarrow> call_env \<Rightarrow> ToolCallRequest \<Rightarrow> (gateway_state, ToolCallResponse) op" where
  "submit_tool_call env accounts call body =
     bindM (liftE (resolve_identity accounts (rq_channel body) (rq_channel_account_id body))) (\<lambda>identity.
     in_session (handle (env\<lparr>he_agent_version := ''agent/0.1.0'', he_channel := rq_channel body\<rparr>) call identity body))"

section \<open>Approvals (routers/approvals.py)\<close>

fun code_to_http :: "FailureCode \<Rightarrow> int" where
  "code_to_http APPROVAL_INVALID = 404"
| "code_to_http APPROVAL_EXPIRED = 410"
| "code_to_http APPROVAL_ALREADY_DECIDED = 409"
| "code_to_http SEPARATION_OF_DUTIES_VIOLATION = 403"
| "code_to_http UNAUTHORIZED = 403"
| "code_to_http _ = 400"

record approval_view =
  vw_approval_id :: string
  vw_status :: string
  vw_tool_id :: string
  vw_target :: jdict
  vw_risk :: RiskAssessment
  vw_expires_at :: int
  vw_requires_dual_approval :: bool

definition get_approval :: "string \<Rightarrow> (gateway_state, approval_view) op" where
  "get_approval approval_id s =
     (case get_record approval_id (gs_approvals s) of
        (Inl (NumiError code detail), _) \<Rightarrow> (Inl (HTTPException 404 detail), s)
      | (Inl e, _) \<Rightarrow> (Inl e, s)
      | (Inr r, _) \<Rightarrow>
          (Inr \<lparr>vw_approval_id = ap_approval_id r, vw_status = approval_value (ap_status r), vw_tool_id = ap_tool_id r,
                vw_target = ap_target r, vw_risk = ap_risk r, vw_expires_at = ap_expires_at r,
                vw_requires_dual_approval = ap_requires_dual_approval r\<rparr>, s))"

definition check_approver ::
    "'n handler_env \<Rightarrow> VerifiedIdentity \<Rightarrow> ApprovalRecord \<Rightarrow> (gateway_state, unit) op" where
  \<comment> \<open>the approver's own authorization: a \<open>NumiError\<close> is raised on, every other exception is
     dropped, the one of the target's validation among them\<close>
  "check_approver env identity record =
     bindM (liftE (registry_get (he_tools env) (ap_tool_id record) (Some (ap_tool_version record)))) (\<lambda>tool s.
       case he_validate_target env (ap_target record) of
         Inl _ \<Rightarrow> (Inr (), s)
       | Inr target \<Rightarrow>
           (case bindM (on_store (validate (he_registry env) (he_decode env) target []))
                   (\<lambda>ctx. liftE (authorize identity tool ctx)) s of
              (Inl (NumiError code detail), s') \<Rightarrow> (Inl (NumiError code detail), s')
            | (_, s') \<Rightarrow> (Inr (), s')))"

record approval_body =
  bd_channel :: string
  bd_channel_account_id :: string

definition decide_in_session ::
    "'n handler_env \<Rightarrow> VerifiedIdentity \<Rightarrow> string \<Rightarrow> ApprovalDecision \<Rightarrow> int \<Rightarrow> (gateway_state, string) op" where
  "decide_in_session env identity approval_id decision now =
     bindM (on_approvals (get_record approval_id)) (\<lambda>record.
     bindM (if decision = APPROVE then check_approver env identity record else returnM ()) (\<lambda>_.
     bindM (on_approvals (decide approval_id identity decision now)) (\<lambda>decided s.
       (Inr (approval_value (ap_status decided)),
        s\<lparr>gs_audit := record_event
             ((audit_event (he_sha256 env) (if decision = APPROVE then ''APPROVAL_APPROVED'' else ''APPROVAL_REJECTED'')
                 [(''request_id'', ap_request_id record), (''approval_id'', approval_id)] (subject_id identity)
                 [] [] [] (ap_tool_id record) (ap_tool_version record) (ap_target record) [])
               \<lparr>au_approval_id := Some approval_id, au_policy_decision := approval_value (ap_status decided)\<rparr>)
             (gs_audit s)\<rparr>))))"

definition decide_approval ::
    "'n handler_env \<Rightarrow> accounts \<Rightarrow> string \<Rightarrow> approval_body \<Rightarrow> ApprovalDecision \<Rightarrow> int
       \<Rightarrow> (gateway_state, string \<times> string) op" where
  "decide_approval env accounts approval_id body decision now =
     bindM (liftE (resolve_identity accounts (bd_channel body) (bd_channel_account_id body))) (\<lambda>identity.
     if \<not> is_dba identity
     then raiseM (HTTPException 403 ''Only DBA team members may decide approvals.'')
     else (\<lambda>s. case in_session (decide_in_session env identity approval_id decision now) s of
             (Inl (NumiError code detail), s') \<Rightarrow> (Inl (HTTPException (code_to_http code) detail), s')
           | (Inl e, s') \<Rightarrow> (Inl e, s')
           | (Inr status, s') \<Rightarrow> (Inr (approval_id, status), s')))"

section \<open>Tools (routers/tools.py)\<close>

definition list_tools :: "ToolRegistry \<Rightarrow> accounts \<Rightarrow> string option \<Rightarrow> string option \<Rightarrow> ToolDefinition list result" where
  "list_tools tools accounts channel channel_account_id =
     (if nonempty channel \<and> nonempty channel_account_id
      then bindE (resolve_identity accounts (opt_or channel []) (opt_or channel_account_id [])) (\<lambda>identity.
             case highest_role identity of
               None \<Rightarrow> Inr []
             | Some role \<Rightarrow> Inr (tools_for_role tools role))
      else Inr (registry_all tools))"

definition get_tool :: "ToolRegistry \<Rightarrow> string \<Rightarrow> ToolDefinition result" where
  "get_tool tools tool_id =
     (case registry_get tools tool_id None of
        Inl (NumiError code detail) \<Rightarrow> Inl (HTTPException (if code = TOOL_NOT_FOUND then 404 else 409) detail)
      | Inl e \<Rightarrow> Inl e
      | Inr t \<Rightarrow> Inr t)"

section \<open>Catalog (routers/catalog.py)\<close>

definition require_manager :: "accounts \<Rightarrow> approval_body \<Rightarrow> unit result" where
  "require_manager accounts body =
     bindE (resolve_identity accounts (bd_channel body) (bd_channel_account_id body)) (\<lambda>identity.
       if DBA_MANAGER \<notin> set (dba_roles identity)
       then Inl (HTTPException 403 ''Discovery refresh requires DBA_MANAGER.'')
       else Inr ())"

definition refresh_all_route ::
    "'n handler_env \<Rightarrow> accounts \<Rightarrow> discover_client \<Rightarrow> nat \<Rightarrow> approval_body
       \<Rightarrow> (gateway_state, (string \<times> string) list) op" where
  "refresh_all_route env accounts discover max_objects body =
     bindM (liftE (require_manager accounts body)) (\<lambda>_ s.
       case refresh_all (db_put (he_encode env) (he_decode env)) (he_registry env) discover max_objects (gs_store s) of
         (report, store) \<Rightarrow> (Inr report, s\<lparr>gs_store := store\<rparr>))"

record refresh_view =
  rv_server_id :: string
  rv_databases :: "string list"
  rv_warnings :: "string list"
  rv_error :: "string option"

definition refresh_one ::
    "'n handler_env \<Rightarrow> accounts \<Rightarrow> discover_client \<Rightarrow> nat \<Rightarrow> string \<Rightarrow> approval_body
       \<Rightarrow> (gateway_state, refresh_view) op" where
  "refresh_one env accounts discover max_objects server_id body =
     bindM (liftE (require_manager accounts body)) (\<lambda>_ s.
       if by_id (he_registry env) server_id = None
       then (Inl (HTTPException 404 (''No registered server '' @ quoted server_id @ ''.'')), s)
       else case refresh_server (db_put (he_encode env) (he_decode env)) (he_registry env) discover max_objects
                   server_id (gs_store s) of
         (Inl e, store) \<Rightarrow>
           (Inr \<lparr>rv_server_id = server_id, rv_databases = [], rv_warnings = [],
                 rv_error = Some (clean_discovery_error e)\<rparr>, s\<lparr>gs_store := store\<rparr>)
       | (Inr catalog, store) \<Rightarrow>
           (Inr \<lparr>rv_server_id = server_id, rv_databases = database_names catalog, rv_warnings = sc_warnings catalog,
                 rv_error = None\<rparr>, s\<lparr>gs_store := store\<rparr>))"

end
