(* ===== verification/Approval_Guarantees.thy ===== *)
theory Approval_Guarantees
  imports Approval_Proofs
begin

text \<open>
  The promises of the approval engine as theorems: separation of duties, exactly when an
  approval authorises an execution, the life cycle of a request, use at most once per
  approval decision, and the binding of an approval to one action.
\<close>

section \<open>Tokens that are used up\<close>

text \<open>
  The contract a single-use token gives its client, for any machine of calls: a successful use
  needs a live token and leaves it dead, and only some calls can bring a dead token to life.
\<close>

locale single_use_token =
  fixes call :: "'c \<Rightarrow> 's \<Rightarrow> bool \<times> 's"
    and ok :: "'s \<Rightarrow> bool" and live :: "'s \<Rightarrow> bool" and revives :: "'c \<Rightarrow> bool"
  assumes call_ok: "ok s \<Longrightarrow> ok (snd (call c s))"
    and use_needs_live: "ok s \<Longrightarrow> fst (call c s) \<Longrightarrow> live s \<and> \<not> live (snd (call c s))"
    and use_not_revives: "revives c \<Longrightarrow> \<not> fst (call c s)"
    and stays_dead: "ok s \<Longrightarrow> \<not> live s \<Longrightarrow> \<not> revives c \<Longrightarrow> \<not> live (snd (call c s))"
begin

primrec uses :: "'c list \<Rightarrow> 's \<Rightarrow> nat" where
  "uses [] s = 0"
| "uses (c # cs) s = (if fst (call c s) then 1 else 0) + uses cs (snd (call c s))"

lemma uses_bound:
  "ok s \<Longrightarrow> uses cs s \<le> (if live s then 1 else 0) + length (filter revives cs)"
proof (induction cs arbitrary: s)
  case (Cons c cs)
  have "uses cs (snd (call c s)) \<le> (if live (snd (call c s)) then 1 else 0) + length (filter revives cs)"
    by (rule Cons.IH) (rule call_ok [OF Cons.prems])
  with use_needs_live [OF Cons.prems, of c] use_not_revives [of c s] stays_dead [OF Cons.prems, of c]
  show ?case by (cases "fst (call c s)"; cases "revives c"; cases "live s") (auto split: if_splits)
qed simp

end

section \<open>Calls on the engine\<close>

text \<open>
  The calls the Gateway makes on the engine. The approval id is the primary key of its table,
  so a second row with an id in use is refused. A call of \<open>Execute\<close> is what the Gateway does
  to run an approved action: the verification and, when it succeeds, the mark.
\<close>

datatype engine_call =
    Create string ApprovalContext bool int
  | Decide string VerifiedIdentity ApprovalDecision int
  | Verify string string int
  | Execute string string int int

fun engine_run :: "(string \<Rightarrow> string) \<Rightarrow> int \<Rightarrow> string \<Rightarrow> engine_call \<Rightarrow> ApprovalDb \<Rightarrow> bool \<times> ApprovalDb" where
  \<comment> \<open>whether the call executed an action under the approval \<open>i\<close>, and the tables after it\<close>
  "engine_run sha256 ttl i (Create j ctx dual now) db =
     (False, if adb_approvals db j = None then snd (create sha256 ttl j ctx dual now db) else db)"
| "engine_run sha256 ttl i (Decide j who d now) db = (False, snd (decide j who d now db))"
| "engine_run sha256 ttl i (Verify j h now) db = (False, snd (verify_for_execution j h now db))"
| "engine_run sha256 ttl i (Execute j h now now') db =
     (case verify_for_execution j h now db of
        (Inl _, db') \<Rightarrow> (False, db')
      | (Inr _, db') \<Rightarrow> (i = j, snd (mark_executed j now' db')))"

primrec executions :: "(string \<Rightarrow> string) \<Rightarrow> int \<Rightarrow> string \<Rightarrow> engine_call list \<Rightarrow> ApprovalDb \<Rightarrow> nat" where
  \<comment> \<open>how often a run of calls executes an action under the approval \<open>i\<close>\<close>
  "executions sha256 ttl i [] db = 0"
| "executions sha256 ttl i (c # cs) db =
     (if fst (engine_run sha256 ttl i c db) then 1 else 0)
     + executions sha256 ttl i cs (snd (engine_run sha256 ttl i c db))"

fun approves :: "string \<Rightarrow> engine_call \<Rightarrow> bool" where
  "approves i (Decide j who d now) \<longleftrightarrow> i = j \<and> d = APPROVE"
| "approves i _ \<longleftrightarrow> False"

definition approved_in :: "string \<Rightarrow> ApprovalDb \<Rightarrow> bool" where
  "approved_in i db \<longleftrightarrow> (\<exists>r. adb_approvals db i = Some r \<and> ap_status r = AP_APPROVED)"

lemma engine_run_step: "snd (engine_run sha256 ttl i c db) = db \<or>
    engine_step sha256 ttl db (snd (engine_run sha256 ttl i c db))"
proof (cases c)
  case (Execute j h now now')
  then show ?thesis
    by (auto simp: split: prod.splits sum.splits intro: step_consume)
      (metis snd_conv step_verify)
qed (auto intro: step_create step_decide step_verify)

lemma engine_run_inv: "db_inv ttl db \<Longrightarrow> db_inv ttl (snd (engine_run sha256 ttl i c db))"
  using engine_run_step [of sha256 ttl i c db] engine_step_inv by auto

lemma decided_approved_iff:
  "decided who d now r = Inr r' \<Longrightarrow> ap_status r' = AP_APPROVED \<Longrightarrow> d = APPROVE"
  by (cases d) (auto simp: decided_def decide_record_def save_def Let_def split: if_splits)

lemma verify_consume:
  assumes "db_inv ttl db" and v: "verify_for_execution j h now db = (Inr r, db')"
  shows "adb_approvals db j = Some r \<and> ap_status r = AP_APPROVED \<and>
     adb_approvals (snd (mark_executed j now' db')) = (adb_approvals db)(j \<mapsto> r\<lparr>ap_status := AP_EXECUTED\<rparr>)"
proof -
  have wf: "wf_db db" using assms(1) by (simp add: db_inv_def)
  from v have "fst (verify_for_execution j h now db) = Inr r" by simp
  then have look: "adb_approvals db j = Some r" and st: "ap_status r = AP_APPROVED" and le: "now \<le> ap_expires_at r"
    by (simp_all add: verify_Inr_iff [OF wf])
  have "expire now r = r" using le by (simp add: expire_def)
  then have "adb_approvals db' = adb_approvals db"
    using verify_found(2) [OF wf look, of h now] v look by (simp add: fun_upd_idem)
  with look st mark_executed_table [of db' j r now'] db_inv_lookup [OF assms(1) look] show ?thesis by simp
qed

interpretation approval: single_use_token "engine_run sha256 ttl i" "db_inv ttl" "approved_in i" "approves i"
  for sha256 :: "string \<Rightarrow> string" and ttl :: int and i :: string
proof unfold_locales
  fix db c assume inv: "db_inv ttl db"
  then have wf: "wf_db db" by (simp add: db_inv_def)
  show "db_inv ttl (snd (engine_run sha256 ttl i c db))" using inv by (rule engine_run_inv)
  show "approved_in i db \<and> \<not> approved_in i (snd (engine_run sha256 ttl i c db))"
    if "fst (engine_run sha256 ttl i c db)"
    using that verify_consume [OF inv]
    by (cases c) (fastforce simp: approved_in_def split: prod.splits sum.splits)+
  show "\<not> approved_in i (snd (engine_run sha256 ttl i c db))"
    if dead: "\<not> approved_in i db" and c: "\<not> approves i c"
  proof (cases c)
    case (Create j ctx dual now)
    then show ?thesis using dead by (auto simp: approved_in_def create_def Let_def)
  next
    case (Decide j who d now)
    then show ?thesis
      using dead c decide_found(2) [OF wf, of j _ who d now] decide_missing [of db j who d now]
      by (cases "adb_approvals db j")
        (auto simp: approved_in_def expire_approved dest!: decided_approved_iff split: sum.splits if_splits)
  next
    case (Verify j h now)
    then show ?thesis
      using dead verify_found(2) [OF wf, of j _ h now] verify_missing [of db j h now]
      by (cases "adb_approvals db j") (auto simp: approved_in_def expire_approved)
  next
    case (Execute j h now now')
    have t: "\<not> approved_in i (snd (verify_for_execution j h now db))"
      using dead verify_found(2) [OF wf, of j _ h now] verify_missing [of db j h now]
      by (cases "adb_approvals db j") (auto simp: approved_in_def expire_approved)
    then show ?thesis using Execute dead verify_consume [OF inv, of j h now]
      by (auto simp: approved_in_def split: prod.splits sum.splits)
  qed
next
  fix c db show "approves i c \<Longrightarrow> \<not> fst (engine_run sha256 ttl i c db)" by (cases c) auto
qed

lemma executions_uses: "executions sha256 ttl i cs db = approval.uses sha256 ttl i cs db"
  by (induction cs arbitrary: db) simp_all

section \<open>The life cycle of a request\<close>

text \<open>
  The abstract machine of one approval request: which status may follow which. A request
  that needs one approval never awaits a second one.
\<close>

fun status_step :: "bool \<Rightarrow> ApprovalStatus \<Rightarrow> ApprovalStatus \<Rightarrow> bool" where
  "status_step dual AP_PENDING s' \<longleftrightarrow>
     s' = AP_REJECTED \<or> s' = AP_EXPIRED \<or> s' = (if dual then AP_AWAITING_SECOND_APPROVAL else AP_APPROVED)"
| "status_step dual AP_AWAITING_SECOND_APPROVAL s' \<longleftrightarrow> dual \<and> s' \<in> {AP_REJECTED, AP_EXPIRED, AP_APPROVED}"
| "status_step dual AP_APPROVED s' \<longleftrightarrow> s' = AP_EXPIRED \<or> s' = AP_EXECUTED"
| "status_step dual AP_REJECTED s' \<longleftrightarrow> False"
| "status_step dual AP_EXPIRED s' \<longleftrightarrow> False"
| "status_step dual AP_EXECUTED s' \<longleftrightarrow> s' = AP_REJECTED \<or> s' = AP_APPROVED"

definition same_request :: "ApprovalRecord \<Rightarrow> ApprovalRecord \<Rightarrow> bool" where
  "same_request r r' \<longleftrightarrow>
     r'\<lparr>ap_status := ap_status r, ap_approver_1_subject_id := ap_approver_1_subject_id r,
       ap_approver_2_subject_id := ap_approver_2_subject_id r, ap_decided_at := ap_decided_at r\<rparr> = r"

definition awaiting_ok :: "ApprovalRecord \<Rightarrow> bool" where
  \<comment> \<open>where the first approver of a dual request stands in its life cycle\<close>
  "awaiting_ok r \<longleftrightarrow>
     (ap_status r = AP_PENDING \<longrightarrow> ap_approver_1_subject_id r = None) \<and>
     (ap_status r = AP_AWAITING_SECOND_APPROVAL \<longrightarrow>
        ap_requires_dual_approval r \<and> ap_approver_1_subject_id r \<noteq> None)"

definition evolves :: "ApprovalRecord \<Rightarrow> ApprovalRecord \<Rightarrow> bool" where
  "evolves r r' \<longleftrightarrow> same_request r r' \<and>
     (ap_status r' = ap_status r \<or> status_step (ap_requires_dual_approval r) (ap_status r) (ap_status r'))"

lemma same_request_refl [simp]: "same_request r r"
  by (simp add: same_request_def)

lemma evolves_refl [simp]: "evolves r r"
  by (simp add: evolves_def)

lemma expire_evolves: "awaiting_ok r \<Longrightarrow> evolves r (expire now r)"
  by (cases "ap_status r") (auto simp: expire_def evolves_def same_request_def awaiting_ok_def)

lemma expire_awaiting_ok: "awaiting_ok r \<Longrightarrow> awaiting_ok (expire now r)"
  by (auto simp: expire_def awaiting_ok_def)

lemma decided_Inr_open: "decided who d now r = Inr r' \<Longrightarrow> ap_status r \<in> {AP_PENDING, AP_AWAITING_SECOND_APPROVAL, AP_EXECUTED}"
  by (cases "ap_status r") (auto simp: decided_def decide_record_def Let_def)

lemma decided_Inr_live:
  assumes "decided who d now (expire now r) = Inr r'" shows "expire now r = r"
  using decided_Inr_open [OF assms] expire_cases [of now r] by auto

lemma decided_Inr_cases:
  assumes "decided who d now r = Inr r'"
  obtains (reject) "r' = r\<lparr>ap_status := AP_REJECTED, ap_decided_at := Some now\<rparr>"
  | (first) "ap_requires_dual_approval r" "ap_approver_1_subject_id r = None"
      "r' = r\<lparr>ap_approver_1_subject_id := Some (subject_id who), ap_status := AP_AWAITING_SECOND_APPROVAL\<rparr>"
  | (second) "ap_requires_dual_approval r" "ap_approver_1_subject_id r \<noteq> None"
      "r' = r\<lparr>ap_approver_2_subject_id := Some (subject_id who), ap_status := AP_APPROVED, ap_decided_at := Some now\<rparr>"
  | (single) "\<not> ap_requires_dual_approval r"
      "r' = r\<lparr>ap_status := AP_APPROVED, ap_approver_1_subject_id := Some (subject_id who), ap_decided_at := Some now\<rparr>"
proof -
  show thesis
  proof (cases "d = REJECT")
    case True
    with assms show ?thesis
      by (intro reject) (auto simp: decided_def decide_record_def save_def Let_def split: if_splits)
  next
    case False
    show ?thesis
    proof (cases "ap_requires_dual_approval r")
      case True
      with assms False show ?thesis
        by (cases "ap_approver_1_subject_id r = None"; intro first second)
          (auto simp: decided_def decide_record_def save_def Let_def split: if_splits)
    next
      case single': False
      with assms False show ?thesis
        by (intro single) (auto simp: decided_def decide_record_def save_def Let_def split: if_splits)
    qed
  qed
qed

lemma decided_evolves:
  assumes "awaiting_ok r" and "duties_separated r" and dec: "decided who d now r = Inr r'"
  shows "evolves r r' \<and> awaiting_ok r'"
  using dec
proof (cases rule: decided_Inr_cases)
  case first
  with assms decided_Inr_open [OF dec] show ?thesis
    by (auto simp: evolves_def same_request_def awaiting_ok_def duties_separated_def)
next
  case second
  with assms decided_Inr_open [OF dec] show ?thesis
    by (auto simp: evolves_def same_request_def awaiting_ok_def)
qed (use assms decided_Inr_open [OF dec] in \<open>auto simp: evolves_def same_request_def awaiting_ok_def\<close>)

lemma decide_evolves:
  assumes inv: "db_inv ttl db" and look: "adb_approvals db j = Some r" and aw: "awaiting_ok r"
  shows "\<exists>r'. adb_approvals (snd (decide j who d now db)) = (adb_approvals db)(j \<mapsto> r') \<and>
     evolves r r' \<and> awaiting_ok r'"
proof (cases "decided who d now (expire now r)")
  case (Inl e)
  then show ?thesis using decide_found(2) [OF _ look] inv expire_evolves [OF aw] expire_awaiting_ok [OF aw]
    by (auto simp: db_inv_def)
next
  case (Inr r')
  from Inr decided_Inr_live have e: "expire now r = r" by blast
  have "duties_separated r" using db_inv_lookup [OF inv look] by (simp add: record_inv_def)
  with Inr e aw have "evolves r r' \<and> awaiting_ok r'" by (intro decided_evolves [of r who d now]) simp_all
  with decide_found(2) [OF _ look, of who d now] inv Inr show ?thesis by (auto simp: db_inv_def)
qed

definition db_awaiting_ok :: "ApprovalDb \<Rightarrow> bool" where
  "db_awaiting_ok db \<longleftrightarrow> (\<forall>r \<in> ran (adb_approvals db). awaiting_ok r)"

definition db_evolves :: "ApprovalDb \<Rightarrow> ApprovalDb \<Rightarrow> bool" where
  "db_evolves db db' \<longleftrightarrow>
     (\<forall>i r. adb_approvals db i = Some r \<longrightarrow> (\<exists>r'. adb_approvals db' i = Some r' \<and> evolves r r'))"

lemma db_evolvesI:
  assumes "adb_approvals db' = (adb_approvals db)(j \<mapsto> r')" and "db_awaiting_ok db" and "awaiting_ok r'"
    and "\<And>r. adb_approvals db j = Some r \<Longrightarrow> evolves r r'"
  shows "db_evolves db db' \<and> db_awaiting_ok db'"
  using assms by (auto simp: db_evolves_def db_awaiting_ok_def ran_def)

lemma db_evolves_refl: "db_awaiting_ok db \<Longrightarrow> db_evolves db db \<and> db_awaiting_ok db"
  by (simp add: db_evolves_def)

lemma db_awaiting_okD: "db_awaiting_ok db \<Longrightarrow> adb_approvals db i = Some r \<Longrightarrow> awaiting_ok r"
  by (auto simp: db_awaiting_ok_def ran_def)

lemma engine_step_evolves:
  assumes "engine_step sha256 ttl db db'" and inv: "db_inv ttl db" and aw: "db_awaiting_ok db"
  shows "db_evolves db db' \<and> db_awaiting_ok db'"
  using assms(1)
proof cases
  case (step_create i ctx dual now)
  then show ?thesis
    by (intro db_evolvesI [OF _ aw, of _ i "projr (fst (create sha256 ttl i ctx dual now db))"])
      (simp_all add: create_def Let_def awaiting_ok_def)
next
  case (step_decide i who d now)
  show ?thesis
  proof (cases "adb_approvals db i")
    case None
    then show ?thesis using step_decide aw by (simp add: decide_missing db_evolves_refl)
  next
    case (Some r)
    from decide_evolves [OF inv Some db_awaiting_okD [OF aw Some], of who d now] obtain r'
      where "adb_approvals db' = (adb_approvals db)(i \<mapsto> r')" "evolves r r'" "awaiting_ok r'"
      using step_decide by auto
    with Some show ?thesis by (intro db_evolvesI [OF _ aw]) auto
  qed
next
  case (step_verify i h now)
  show ?thesis
  proof (cases "adb_approvals db i")
    case None
    then show ?thesis using step_verify aw by (simp add: verify_missing db_evolves_refl)
  next
    case (Some r)
    with inv step_verify db_awaiting_okD [OF aw Some] show ?thesis
      by (intro db_evolvesI [OF _ aw, of _ i "expire now r"])
        (simp_all add: verify_found(2) db_inv_def expire_evolves expire_awaiting_ok)
  qed
next
  case (step_consume i h now r db0 now')
  from verify_consume [OF inv step_consume(2), of now'] step_consume(1)
  show ?thesis
    by (intro db_evolvesI [OF _ aw, of _ i "r\<lparr>ap_status := AP_EXECUTED\<rparr>"])
      (auto simp: awaiting_ok_def evolves_def same_request_def)
qed

lemma reachable_awaiting_ok: "reachable sha256 ttl db \<Longrightarrow> db_awaiting_ok db"
proof (induction rule: reachable.induct)
  case reach_empty
  show ?case by (simp add: db_awaiting_ok_def empty_db_def)
next
  case (reach_step db db')
  then show ?case by (blast dest: engine_step_evolves reachable_inv)
qed

section \<open>The action an approval is bound to\<close>

lemma canon_target_dump: "map (\<lambda>(k, v). (k, canon v)) (target_dump t) = target_dump t"
  by (simp add: target_dump_def opt_json_def split: option.splits)

lemma canon_target_dump_inj:
  assumes "canon (JObj (target_dump t)) = canon (JObj (target_dump u))" shows "t = u"
proof (rule target_dump_inj)
  have "map (\<lambda>(k, v). (k, canon v)) (target_dump t) = map (\<lambda>(k, v). (k, canon v)) (target_dump u)"
  proof (rule json_dumps_sorted_members)
    show "json_dumps_sorted (JObj (target_dump t)) = json_dumps_sorted (JObj (target_dump u))"
      using assms by (simp add: json_dumps_sorted_def)
    show "distinct (map fst (target_dump t))" by (simp add: target_dump_keys DatabaseTarget_fields_def)
  qed (simp add: target_dump_keys)
  then show "target_dump t = target_dump u" by (simp only: canon_target_dump)
qed

lemma action_json_inj:
  assumes "json_dumps_sorted (action_json a tid v t args env did risk) =
           json_dumps_sorted (action_json a' tid' v' t' args' env' did' risk')"
  shows "a = a' \<and> tid = tid' \<and> v = v' \<and> canon (JObj t) = canon (JObj t') \<and>
         canon (JObj args) = canon (JObj args') \<and> env = env' \<and> did = did' \<and> risk = risk'"
  using json_dumps_sorted_members [OF assms [unfolded action_json_def]] by simp

definition action_text :: "ApprovalContext \<Rightarrow> string" where
  \<comment> \<open>the text that is hashed\<close>
  "action_text ctx = json_dumps_sorted (action_json (subject_id (ac_actor ctx)) (td_tool_id (ac_tool ctx))
     (td_version (ac_tool ctx)) (target_dump (ac_target ctx)) (ac_normalized_arguments ctx)
     (ac_environment ctx) (ac_database_id ctx) (risk_value (ra_risk_level (ac_risk ctx))))"

lemma action_hash_text: "action_hash sha256 ctx = sha256 (action_text ctx)"
  by (simp add: action_hash_def compute_action_hash_def action_text_def)

lemma action_text_inj:
  assumes "action_text ctx' = action_text ctx"
  shows "subject_id (ac_actor ctx') = subject_id (ac_actor ctx) \<and>
     td_tool_id (ac_tool ctx') = td_tool_id (ac_tool ctx) \<and> td_version (ac_tool ctx') = td_version (ac_tool ctx) \<and>
     ac_target ctx' = ac_target ctx \<and> ac_environment ctx' = ac_environment ctx \<and>
     ac_database_id ctx' = ac_database_id ctx \<and>
     ra_risk_level (ac_risk ctx') = ra_risk_level (ac_risk ctx) \<and>
     canon (JObj (ac_normalized_arguments ctx')) = canon (JObj (ac_normalized_arguments ctx))"
  using action_json_inj [OF assms [unfolded action_text_def]] canon_target_dump_inj by (metis risk_value_inj)

lemma same_request_iff:
  "same_request r r' \<longleftrightarrow>
     ap_approval_id r' = ap_approval_id r \<and> ap_request_id r' = ap_request_id r \<and>
     ap_actor_subject_id r' = ap_actor_subject_id r \<and> ap_tool_id r' = ap_tool_id r \<and>
     ap_tool_version r' = ap_tool_version r \<and> ap_target r' = ap_target r \<and>
     ap_normalized_arguments r' = ap_normalized_arguments r \<and> ap_risk r' = ap_risk r \<and>
     ap_policy r' = ap_policy r \<and> ap_action_hash r' = ap_action_hash r \<and>
     ap_requires_dual_approval r' = ap_requires_dual_approval r \<and> ap_created_at r' = ap_created_at r \<and>
     ap_expires_at r' = ap_expires_at r"
  by (cases r; cases r') (auto simp: same_request_def)

lemma same_request_hash: "same_request r r' \<Longrightarrow> ap_action_hash r' = ap_action_hash r"
  by (simp add: same_request_iff)

lemma steps_same_request:
  assumes "(engine_step sha256 ttl)\<^sup>*\<^sup>* db db'" and "reachable sha256 ttl db" and "adb_approvals db i = Some r"
  shows "\<exists>r'. adb_approvals db' i = Some r' \<and> same_request r r' \<and> reachable sha256 ttl db'"
  using assms(1)
proof (induction rule: rtranclp_induct)
  case base
  show ?case using assms(2,3) by simp
next
  case (step db1 db2)
  then obtain r1 where r1: "adb_approvals db1 i = Some r1" "same_request r r1" "reachable sha256 ttl db1" by blast
  with engine_step_evolves [OF step.hyps(2) reachable_inv [OF r1(3)] reachable_awaiting_ok [OF r1(3)]]
  obtain r2 where "adb_approvals db2 i = Some r2" "same_request r1 r2"
    by (auto simp: db_evolves_def evolves_def)
  with r1 step.hyps(2) show ?case by (auto simp: same_request_iff intro: reach_step)
qed

section \<open>A request to approve, for the witnesses\<close>

definition person :: "string \<Rightarrow> VerifiedIdentity" where
  "person name = \<lparr>subject_id = name, email = [], display_name = [], enterprise_groups = [],
     dba_roles = [DBA_L3], mfa_satisfied = True, authenticated_at = []\<rparr>"

definition kill_tool :: ToolDefinition where
  "kill_tool = \<lparr>td_tool_id = ''kill_session'', td_version = ''1.0'', td_description = [],
     td_operation_type = WRITE, td_risk_level = CRITICAL, td_reversible = False,
     td_availability_impact = True, td_data_modification = False, td_requires_approval = True,
     td_allowed_roles = [DBA_L3], td_allowed_environments = [PRODUCTION], td_required_target_scope = [],
     td_argument_schema = KillSessionArgs, td_result_schema = WriteResult, td_max_execution_time = 30,
     td_max_result_rows = 1, td_audit_required = True, td_enabled = True,
     td_requires_change_ticket = False, td_requires_dual_approval = True\<rparr>"

definition kill_target :: "string \<Rightarrow> DatabaseTarget" where
  "kill_target session = \<lparr>dt_environment = PRODUCTION, dt_platform = Some POSTGRESQL, dt_cluster = None,
     dt_instance = Some ''db1'', dt_database = Some ''core'', dt_schema_name = None,
     dt_object_name = None, dt_session_id = Some session, dt_query_id = None\<rparr>"

definition kill_context :: "string \<Rightarrow> ApprovalContext" where
  "kill_context session = \<lparr>ac_request_id = ''r1'', ac_actor = person ''alice'', ac_tool = kill_tool,
     ac_target = kill_target session, ac_normalized_arguments = [(''session_id'', JStr session)],
     ac_environment = ''production'', ac_database_id = ''db1/core'',
     ac_risk = \<lparr>ra_risk_level = CRITICAL, ra_score = 90, ra_blast_radius = SINGLE_SESSION, ra_reversible = False,
        ra_availability_impact = True, ra_reason_codes = []\<rparr>\<rparr>"

definition plain :: "string \<Rightarrow> string" where
  \<comment> \<open>an injective function in the place of the digest\<close>
  "plain s = s"

definition created_db :: "bool \<Rightarrow> ApprovalDb" where
  "created_db dual = snd (create plain 600 ''a1'' (kill_context ''9182'') dual 0 empty_db)"

definition approved_db :: ApprovalDb where
  \<comment> \<open>a dual request of Alice's, approved by Bob and then by Carol\<close>
  "approved_db = snd (decide ''a1'' (person ''carol'') APPROVE 2
     (snd (decide ''a1'' (person ''bob'') APPROVE 1 (created_db True))))"

lemma created_db_reachable: "reachable plain 600 (created_db dual)"
  unfolding created_db_def by (intro reach_step [OF reach_empty] step_create) (simp add: empty_db_def)

lemma approved_db_reachable: "reachable plain 600 approved_db"
  unfolding approved_db_def
  by (intro reach_step [OF _ step_decide]) (rule created_db_reachable)

lemmas approval_eval =
  approved_db_def created_db_def create_def decide_def decide_record_def verify_for_execution_def
  verify_record_def mark_executed_def bindM_def get_record_def expire_if_needed_def save_def Let_def
  empty_db_def person_def kill_context_def kill_tool_def plain_def

section \<open>The guarantees\<close>

text \<open>
  C23. Separation of duties: in every state the engine can reach, a request that needs dual
  approval and is approved or has been executed was approved by two different people, neither
  of them its requester.
\<close>

theorem separation_of_duties:
  assumes "reachable sha256 ttl db" and "adb_approvals db i = Some r"
    and "ap_requires_dual_approval r" and "ap_status r \<in> {AP_APPROVED, AP_EXECUTED}"
  shows "\<exists>a b. ap_approver_1_subject_id r = Some a \<and> ap_approver_2_subject_id r = Some b \<and>
     a \<noteq> b \<and> a \<noteq> ap_actor_subject_id r \<and> b \<noteq> ap_actor_subject_id r"
  using db_inv_lookup [OF reachable_inv [OF assms(1)] assms(2)] assms(3,4)
  by (auto simp: record_inv_def duties_separated_def)

theorem separation_of_duties_witness:
  "\<exists>a b. ap_approver_1_subject_id (the (adb_approvals approved_db ''a1'')) = Some a \<and>
     ap_approver_2_subject_id (the (adb_approvals approved_db ''a1'')) = Some b \<and> a \<noteq> b \<and>
     a \<noteq> ''alice'' \<and> b \<noteq> ''alice''"
  using separation_of_duties [OF approved_db_reachable, of "''a1''" "the (adb_approvals approved_db ''a1'')"]
  by (simp add: approval_eval)

text \<open>
  An approval authorises an execution exactly when it exists, is approved, was issued for an
  action with the same hash and is not older than the engine's validity window; every other
  verification raises, and a verification never changes another approval.
\<close>

theorem verification_exact:
  assumes "reachable sha256 ttl db"
  shows "(fst (verify_for_execution i h now db) = Inr r \<longleftrightarrow>
       adb_approvals db i = Some r \<and> ap_status r = AP_APPROVED \<and> ap_action_hash r = h \<and>
       now \<le> ap_created_at r + ttl * 1000000) \<and>
     (\<forall>j. j \<noteq> i \<longrightarrow> adb_approvals (snd (verify_for_execution i h now db)) j = adb_approvals db j)"
proof -
  have inv: "db_inv ttl db" using assms by (rule reachable_inv)
  have wf: "wf_db db" using inv by (simp add: db_inv_def)
  have "adb_approvals db i = Some r \<Longrightarrow> ap_expires_at r = ap_created_at r + ttl * 1000000"
    using db_inv_lookup [OF inv] by (simp add: record_inv_def)
  moreover have "adb_approvals (snd (verify_for_execution i h now db)) j = adb_approvals db j" if "j \<noteq> i" for j
    using that verify_found(2) [OF wf, of i _ h now] verify_missing [of db i h now]
    by (cases "adb_approvals db i") auto
  ultimately show ?thesis by (auto simp: verify_Inr_iff [OF wf])
qed

theorem verification_exact_witness:
  "fst (verify_for_execution ''a1'' (action_hash plain (kill_context ''9182'')) 600000000 approved_db) =
     Inr (the (adb_approvals approved_db ''a1'')) \<and>
   fst (verify_for_execution ''a1'' (action_hash plain (kill_context ''9182'')) 600000001 approved_db) \<noteq>
     Inr (the (adb_approvals approved_db ''a1''))"
  unfolding verification_exact [OF approved_db_reachable, THEN conjunct1]
  by (simp add: approval_eval)

text \<open>
  C25. Every call of the engine refines the abstract life cycle of a request: an approval is never
  deleted, what it was issued for (requester, tool, target, arguments, hash, validity) never
  changes, and its status stays or makes one step of the abstract machine. In particular a
  rejected or an expired request stays so.
\<close>

theorem approval_life_cycle:
  assumes "reachable sha256 ttl db" and "engine_step sha256 ttl db db'"
    and "adb_approvals db i = Some r"
  shows "\<exists>r'. adb_approvals db' i = Some r' \<and> same_request r r' \<and>
     (ap_status r' = ap_status r \<or> status_step (ap_requires_dual_approval r) (ap_status r) (ap_status r'))"
  using engine_step_evolves [OF assms(2) reachable_inv [OF assms(1)] reachable_awaiting_ok [OF assms(1)]] assms(3)
  by (auto simp: db_evolves_def evolves_def)

theorem approval_life_cycle_witness:
  "\<exists>r'. adb_approvals (snd (decide ''a1'' (person ''bob'') REJECT 1 (created_db True))) ''a1'' = Some r' \<and>
     ap_status r' \<noteq> AP_PENDING \<and> same_request (the (adb_approvals (created_db True) ''a1'')) r'"
  using approval_life_cycle [OF created_db_reachable step_decide [of plain 600 "created_db True" "''a1''" "person ''bob''" REJECT 1],
      of "''a1''" "the (adb_approvals (created_db True) ''a1'')"]
  by (auto simp: approval_eval)

text \<open>
  No replay without a new decision: over any run of calls, an approval is used to execute at
  most once for the approval it carries at the start and once for each later decision to
  approve it.
\<close>

theorem executions_bounded:
  assumes "reachable sha256 ttl db"
  shows "executions sha256 ttl i calls db \<le>
     (if approved_in i db then 1 else 0) + length (filter (approves i) calls)"
  unfolding executions_uses by (rule approval.uses_bound) (rule reachable_inv [OF assms])

theorem executions_bounded_witness:
  "executions plain 600 ''a1'' [Execute ''a1'' (action_hash plain (kill_context ''9182'')) 3 4,
     Execute ''a1'' (action_hash plain (kill_context ''9182'')) 5 6] approved_db \<le> 1"
  using executions_bounded [OF approved_db_reachable, of "''a1''" "[Execute ''a1'' (action_hash plain (kill_context ''9182'')) 3 4,
     Execute ''a1'' (action_hash plain (kill_context ''9182'')) 5 6]"]
  by (simp split: if_splits)

text \<open>
  C36. A used approval can be revived: deciding an approval that one approver suffices for and that
  has been executed is not refused, so approving it once more makes it authorise a second execution
  of the same action at any time up to its expiry.
\<close>

theorem executed_approval_revived:
  assumes "wf_db db" and "adb_approvals db i = Some r" and "ap_status r = AP_EXECUTED"
    and "\<not> ap_requires_dual_approval r" and "now \<le> ap_expires_at r"
  shows "fst (decide i who APPROVE decided_at db) \<in> range Inr \<and>
    (\<exists>r'. fst (verify_for_execution i (ap_action_hash r) now (snd (decide i who APPROVE decided_at db))) = Inr r')"
proof -
  let ?r = "r\<lparr>ap_status := AP_APPROVED, ap_approver_1_subject_id := Some (subject_id who), ap_decided_at := Some decided_at\<rparr>"
  have e: "expire decided_at r = r" using assms(3) by (simp add: expire_def)
  have d: "decided who APPROVE decided_at r = Inr ?r"
    using assms(3,4) by (simp add: decided_def decide_record_def save_def Let_def)
  have look: "adb_approvals (snd (decide i who APPROVE decided_at db)) = (adb_approvals db)(i \<mapsto> ?r)"
    using decide_found(2) [OF assms(1,2), of who APPROVE decided_at] by (simp add: e d)
  have wf: "wf_db (snd (decide i who APPROVE decided_at db))"
    using assms(1,2) by (auto simp: wf_db_def look)
  have "fst (verify_for_execution i (ap_action_hash r) now (snd (decide i who APPROVE decided_at db))) = Inr ?r"
    by (simp add: verify_Inr_iff [OF wf] look assms(5))
  then show ?thesis using decide_found(1) [OF assms(1,2), of who APPROVE decided_at] by (auto simp: e d)
qed

definition executed_db :: ApprovalDb where
  "executed_db = snd (mark_executed ''a1'' 2 (snd (decide ''a1'' (person ''bob'') APPROVE 1 (created_db False))))"

theorem executed_approval_revived_witness:
  "fst (decide ''a1'' (person ''alice'') APPROVE 3 executed_db) \<in> range Inr \<and>
   (\<exists>r'. fst (verify_for_execution ''a1'' (action_hash plain (kill_context ''9182'')) 4
     (snd (decide ''a1'' (person ''alice'') APPROVE 3 executed_db))) = Inr r')"
  using executed_approval_revived [of executed_db "''a1''" "the (adb_approvals executed_db ''a1'')" 4 "person ''alice''" 3]
  by (simp add: approval_eval executed_db_def wf_db_def)

text \<open>
  C24. An approval is bound to one action: take an approval created from one context, any run of
  the engine after it, and a verification under that approval that succeeds for the action of
  another context. When SHA-256 does not collide on the two texts hashed, the two actions have
  the same requester, tool, tool version, target, environment, database and risk level, and
  arguments that are equal up to the order of their keys.
\<close>

theorem approval_binds_action:
  assumes "reachable sha256 ttl db0" and "adb_approvals db0 i = None"
    and "(engine_step sha256 ttl)\<^sup>*\<^sup>* (snd (create sha256 ttl i ctx dual now0 db0)) db"
    and verified: "fst (verify_for_execution i (action_hash sha256 ctx') now db) = Inr r'"
    and no_collision: "sha256 (action_text ctx') = sha256 (action_text ctx) \<Longrightarrow> action_text ctx' = action_text ctx"
  shows "subject_id (ac_actor ctx') = subject_id (ac_actor ctx) \<and>
     td_tool_id (ac_tool ctx') = td_tool_id (ac_tool ctx) \<and> td_version (ac_tool ctx') = td_version (ac_tool ctx) \<and>
     ac_target ctx' = ac_target ctx \<and> ac_environment ctx' = ac_environment ctx \<and>
     ac_database_id ctx' = ac_database_id ctx \<and>
     ra_risk_level (ac_risk ctx') = ra_risk_level (ac_risk ctx) \<and>
     canon (JObj (ac_normalized_arguments ctx')) = canon (JObj (ac_normalized_arguments ctx))"
proof -
  let ?db1 = "snd (create sha256 ttl i ctx dual now0 db0)"
  have r1: "reachable sha256 ttl ?db1" by (rule reach_step [OF assms(1) step_create [OF assms(2)]])
  obtain r where r: "adb_approvals ?db1 i = Some r" and h: "ap_action_hash r = action_hash sha256 ctx"
    by (simp add: create_def Let_def)
  from steps_same_request [OF assms(3) r1 r] obtain r'' where look: "adb_approvals db i = Some r''"
    and same: "same_request r r''" and "reachable sha256 ttl db" by blast
  then have wf: "wf_db db" by (auto dest: reachable_inv simp: db_inv_def)
  have "ap_action_hash r'' = action_hash sha256 ctx'"
    using verified look by (simp add: verify_Inr_iff [OF wf])
  with same_request_hash [OF same] h have "action_text ctx' = action_text ctx"
    by (intro no_collision) (simp add: action_hash_text)
  then show ?thesis by (rule action_text_inj)
qed

theorem approval_binds_action_witness:
  "(\<forall>r. fst (verify_for_execution ''a1'' (action_hash plain (kill_context ''9183'')) 3 approved_db) \<noteq> Inr r) \<and>
   fst (verify_for_execution ''a1'' (action_hash plain (kill_context ''9182'')) 3 approved_db) =
     Inr (the (adb_approvals approved_db ''a1''))"
proof
  let ?b = "snd (decide ''a1'' (person ''bob'') APPROVE 1 (created_db True))"
  have b: "engine_step plain 600 (created_db True) ?b" by (rule step_decide)
  have c: "engine_step plain 600 ?b approved_db" unfolding approved_db_def by (rule step_decide)
  have steps: "(engine_step plain 600)\<^sup>*\<^sup>* (created_db True) approved_db"
    by (rule converse_rtranclp_into_rtranclp [of "engine_step plain 600", OF b r_into_rtranclp [of "engine_step plain 600", OF c]])
  show "\<forall>r. fst (verify_for_execution ''a1'' (action_hash plain (kill_context ''9183'')) 3 approved_db) \<noteq> Inr r"
    using approval_binds_action [OF reach_empty _ steps [unfolded created_db_def], of "kill_context ''9183''" 3]
    by (auto simp: empty_db_def kill_context_def kill_target_def plain_def)
  show "fst (verify_for_execution ''a1'' (action_hash plain (kill_context ''9182'')) 3 approved_db) =
     Inr (the (adb_approvals approved_db ''a1''))"
    by (simp add: approval_eval)
qed

end
