(* ===== verification/Gateway_Proofs.thy ===== *)
theory Gateway_Proofs
  imports Handler_Proofs Gateway_Api Approval_Guarantees
begin

text \<open>
  The Gateway as a machine: every state its routes can reach from an empty control database,
  that what they do to the approvals is what the approval engine allows, and where an approval
  comes from.
\<close>

section \<open>The machine\<close>

inductive api_step :: "'n handler_env \<Rightarrow> accounts \<Rightarrow> gateway_state \<Rightarrow> gateway_state \<Rightarrow> bool"
  for env :: "'n handler_env" and accounts :: accounts where
  step_submit: "adb_approvals (gs_approvals s) (ce_approval_id call) = None \<Longrightarrow>
     api_step env accounts s (snd (submit_tool_call env accounts call body s))"
| step_decision: "api_step env accounts s (snd (decide_approval env accounts i approval d now s))"
| step_refresh_all: "api_step env accounts s (snd (refresh_all_route env accounts discover n approval s))"
| step_refresh_one: "api_step env accounts s (snd (refresh_one env accounts discover n server approval s))"

inductive api_reachable :: "'n handler_env \<Rightarrow> accounts \<Rightarrow> gateway_state \<Rightarrow> bool"
  for env :: "'n handler_env" and accounts :: accounts where
  api_start: "gs_approvals s = empty_db \<Longrightarrow> api_reachable env accounts s"
| api_next: "api_reachable env accounts s \<Longrightarrow> api_step env accounts s s' \<Longrightarrow> api_reachable env accounts s'"

abbreviation local_env :: "'n handler_env \<Rightarrow> ToolCallRequest \<Rightarrow> 'n handler_env" where
  "local_env env body \<equiv> env\<lparr>he_agent_version := ''agent/0.1.0'', he_channel := rq_channel body\<rparr>"

abbreviation steps_of :: "'n handler_env \<Rightarrow> ApprovalDb \<Rightarrow> ApprovalDb \<Rightarrow> bool" where
  "steps_of env \<equiv> engine_step (he_sha256 env) DEFAULT_TTL_SECONDS"

section \<open>What a route does to the approvals\<close>

lemma consumed_step:
  assumes "wf_db db" and "gate_open env call identity request a db" and "needs_approval a"
  shows "steps_of env db (consumed_db call request a (verified_db env call identity request a db))"
proof -
  from assms(2,3) obtain i r where i: "rq_approval_id request = Some i"
    and v: "fst (verify_for_execution i (action_hash (he_sha256 env) (approval_context identity request a))
       (ce_approval_now call) db) = Inr r"
    by (auto simp: gate_open_def needs_approval_def)
  obtain db' where v': "verify_for_execution i (action_hash (he_sha256 env) (approval_context identity request a))
       (ce_approval_now call) db = (Inr r, db')" using v by (metis prod.collapse)
  have "opt_or (Some i) [] = i" by (cases i) simp_all
  with assms(3) i v' show ?thesis
    using step_consume [OF v', of "he_sha256 env" DEFAULT_TTL_SECONDS "ce_executed_now call"]
    by (simp add: consumed_db_def verified_db_def)
qed

lemma verified_step: "verified_db env call identity request a db = db \<or> steps_of env db (verified_db env call identity request a db)"
  by (auto simp: verified_db_def intro: step_verify)

lemma created_step:
  "adb_approvals db (ce_approval_id call) = None \<Longrightarrow> steps_of env db (created_approvals env call identity request a db)"
  unfolding created_approvals_def by (rule step_create)

definition no_revival :: "ApprovalDb \<Rightarrow> ApprovalDb \<Rightarrow> bool" where
  \<comment> \<open>no approval is new, and those that have been executed are as they were\<close>
  "no_revival db db' \<longleftrightarrow> dom (adb_approvals db') = dom (adb_approvals db) \<and>
     (\<forall>i r. adb_approvals db i = Some r \<longrightarrow> ap_status r = AP_EXECUTED \<longrightarrow> adb_approvals db' i = Some r)"

definition approval_effect ::
    "'n handler_env \<Rightarrow> call_env \<Rightarrow> VerifiedIdentity \<Rightarrow> ToolCallRequest \<Rightarrow> ApprovalDb \<Rightarrow> ApprovalDb \<Rightarrow> bool" where
  \<comment> \<open>what handling a call may do to the approvals: create one from an admitted call, or make a
     step that creates none\<close>
  "approval_effect env call identity request db db' \<longleftrightarrow>
     db' = db \<or> (steps_of env db db' \<and> no_revival db db') \<or>
     (\<exists>a. admitted env call identity request a \<and> db' = created_approvals env call identity request a db)"

lemma verify_no_revival: "wf_db db \<Longrightarrow> no_revival db (snd (verify_for_execution i h now db))"
  using verify_found(2) [of db i _ h now] verify_missing [of db i h now]
  by (cases "adb_approvals db i") (auto simp: no_revival_def expire_executed)

lemma consumed_no_revival:
  assumes "db_inv ttl db" and "gate_open env call identity request a db"
  shows "no_revival db (consumed_db call request a (verified_db env call identity request a db))"
proof (cases "needs_approval a")
  case True
  with assms(2) obtain i r where i: "rq_approval_id request = Some i"
    and v: "fst (verify_for_execution i (action_hash (he_sha256 env) (approval_context identity request a))
       (ce_approval_now call) db) = Inr r"
    by (auto simp: gate_open_def needs_approval_def)
  obtain db' where v': "verify_for_execution i (action_hash (he_sha256 env) (approval_context identity request a))
       (ce_approval_now call) db = (Inr r, db')" using v by (metis prod.collapse)
  have "opt_or (Some i) [] = i" by (cases i) simp_all
  with verify_consume [OF assms(1) v', of "ce_executed_now call"] True i v' show ?thesis
    by (auto simp: consumed_db_def verified_db_def no_revival_def)
qed (simp add: consumed_db_def verified_db_def no_revival_def)

lemma handle_effect:
  assumes inv: "db_inv ttl (gs_approvals s)" and h: "handle env call identity request s = (r, s')"
  shows "approval_effect env call identity request (gs_approvals s) (gs_approvals s')"
proof -
  have wf: "wf_db (gs_approvals s)" using inv by (simp add: db_inv_def)
  from h obtain r0 s0 where i: "handle_inner env call identity request s = (r0, s0)"
    and eq: "gs_approvals s' = gs_approvals s0" by (rule handle_sent)
  from wf i have "approval_effect env call identity request (gs_approvals s) (gs_approvals s0)"
  proof (cases rule: handle_inner_cases)
    case (refused e i k)
    then show ?thesis
      using step_verify [of "he_sha256 env" DEFAULT_TTL_SECONDS "gs_approvals s" i k "ce_approval_now call"] verify_no_revival [OF wf]
      unfolding approval_effect_def by metis
  next
    case (requested a)
    then show ?thesis by (auto simp: approval_effect_def)
  next
    case (failed a e)
    have "no_revival (gs_approvals s) (verified_db env call identity request a (gs_approvals s))"
      using verify_no_revival [OF wf] by (simp add: verified_db_def no_revival_def)
    with failed verified_step [of env call identity request a "gs_approvals s"] show ?thesis
      unfolding approval_effect_def by metis
  next
    case (executed a x s1)
    then have "gs_approvals s0 = consumed_db call request a (verified_db env call identity request a (gs_approvals s))"
      by (metis complete_facts)
    moreover have "\<not> needs_approval a \<Longrightarrow> consumed_db call request a (verified_db env call identity request a db) = db" for db
      by (simp add: consumed_db_def verified_db_def)
    ultimately show ?thesis
      using executed consumed_no_revival [OF inv] consumed_step [OF wf] unfolding approval_effect_def by metis
  qed
  with eq show ?thesis by simp
qed

lemma rollback_simps [simp]:
  "gs_approvals (rollback before s) = gs_approvals before" "gs_audit (rollback before s) = gs_audit before"
  "gs_sent (rollback before s) = gs_sent s"
  by (simp_all add: rollback_def)

lemma submit_cases:
  assumes "submit_tool_call env accounts call body s = (r, s')"
  obtains (unknown) "s' = s" "r = Inl (HTTPException 401 ''Unable to verify identity for this account.'')"
  | (handled) identity s1 where "accounts (rq_channel body) (rq_channel_account_id body) = Some identity"
      "handle (local_env env body) call identity body s = (r, s1)" "gs_sent s' = gs_sent s1"
      "s' = (case r of Inl _ \<Rightarrow> rollback s s1 | Inr _ \<Rightarrow> s1)"
proof (cases "accounts (rq_channel body) (rq_channel_account_id body)")
  case None
  with assms show thesis by (intro unknown) (simp_all add: submit_tool_call_def resolve_identity_def)
next
  case (Some identity)
  obtain r1 s1 where h: "handle (local_env env body) call identity body s = (r1, s1)" by fastforce
  have "submit_tool_call env accounts call body s = in_session (handle (local_env env body) call identity body) s"
    using Some by (simp add: submit_tool_call_def resolve_identity_def)
  also have "\<dots> = (r1, case r1 of Inl _ \<Rightarrow> rollback s s1 | Inr _ \<Rightarrow> s1)"
    unfolding in_session_def h by (cases r1) simp_all
  finally have r: "(r, s') = (r1, case r1 of Inl _ \<Rightarrow> rollback s s1 | Inr _ \<Rightarrow> s1)" using assms by simp
  show thesis
  proof (rule handled [OF Some])
    show "handle (local_env env body) call identity body s = (r, s1)" using h r by simp
    show "s' = (case r of Inl _ \<Rightarrow> rollback s s1 | Inr _ \<Rightarrow> s1)" using r by simp
    then show "gs_sent s' = gs_sent s1" by (simp split: sum.splits)
  qed
qed

lemma check_approver_frame: "check_approver env identity rec s = (r, s') \<Longrightarrow> frame s s'"
proof -
  assume c: "check_approver env identity rec s = (r, s')"
  show ?thesis
  proof (cases "registry_get (he_tools env) (ap_tool_id rec) (Some (ap_tool_version rec))")
    case (Inr tool)
    show ?thesis
    proof (cases "he_validate_target env (ap_target rec)")
      case t: (Inr target)
      let ?m = "bindM (on_store (validate (he_registry env) (he_decode env) target [])) (\<lambda>ctx. liftE (authorize identity tool ctx))"
      obtain x t' where m: "?m s = (x, t')" by fastforce
      have "preserves (frame s) ?m" by (intro preserve_intros zoom_frame)
      from preservesD [OF this _ m] have "frame s t'" by simp
      moreover have "s' = t'" using c Inr t m
        by (cases x) (auto simp: check_approver_def bindM_Inr split: exn.splits)
      ultimately show ?thesis by simp
    qed (use c Inr in \<open>simp add: check_approver_def\<close>)
  qed (use c in \<open>simp add: check_approver_def\<close>)
qed

lemma decide_in_session_Inr:
  assumes "decide_in_session env identity i d now s = (Inr x, s')"
  shows "gs_approvals s' = snd (decide i identity d now (gs_approvals s)) \<and> gs_sent s' = gs_sent s"
proof -
  from assms obtain rec s1 u s2 dec s3 where g: "on_approvals (get_record i) s = (Inr rec, s1)"
    and c: "(if d = APPROVE then check_approver env identity rec else returnM ()) s1 = (Inr u, s2)"
    and e: "on_approvals (decide i identity d now) s2 = (Inr dec, s3)"
    and o: "gs_approvals s' = gs_approvals s3 \<and> gs_sent s' = gs_sent s3"
    by (auto simp: decide_in_session_def bindM_eq_Inr_iff)
  have "frame s s1" using g by (auto simp: zoom_def get_record_def frame_def split: prod.splits option.splits)
  moreover have "frame s1 s2" using c check_approver_frame [of env identity rec s1 "Inr u" s2] by (auto split: if_splits)
  ultimately show ?thesis using e o by (auto simp: zoom_def frame_def split: prod.splits)
qed

lemma decide_approval_effect:
  assumes "decide_approval env accounts i body d now s = (r, s')"
  shows "gs_sent s' = gs_sent s \<or> gs_approvals s' = gs_approvals s"
    and "gs_approvals s' = gs_approvals s \<or> (\<exists>who. gs_approvals s' = snd (decide i who d now (gs_approvals s)))"
proof -
  have "gs_approvals s' = gs_approvals s \<or>
      (\<exists>who. gs_approvals s' = snd (decide i who d now (gs_approvals s)) \<and> gs_sent s' = gs_sent s)"
  proof (cases "accounts (bd_channel body) (bd_channel_account_id body)")
    case None
    with assms show ?thesis by (simp add: decide_approval_def resolve_identity_def)
  next
    case (Some identity)
    obtain x s1 where d: "decide_in_session env identity i d now s = (x, s1)" by fastforce
    with Some assms decide_in_session_Inr [of env identity i d now s _ s1] show ?thesis
      by (cases x) (auto simp: decide_approval_def resolve_identity_def in_session_def split: if_splits exn.splits)
  qed
  then show "gs_sent s' = gs_sent s \<or> gs_approvals s' = gs_approvals s"
    and "gs_approvals s' = gs_approvals s \<or> (\<exists>who. gs_approvals s' = snd (decide i who d now (gs_approvals s)))"
    by auto
qed

lemma decide_dom: "wf_db db \<Longrightarrow> dom (adb_approvals (snd (decide i who d now db))) = dom (adb_approvals db)"
  using decide_found(2) [of db i _ who d now] decide_missing [of db i who d now] by (cases "adb_approvals db i") auto

lemma refresh_routes_frame:
  "gs_approvals (snd (refresh_all_route env accounts discover n body s)) = gs_approvals s"
  "gs_approvals (snd (refresh_one env accounts discover n server body s)) = gs_approvals s"
  by (auto simp: refresh_all_route_def refresh_one_def bindM_def split: sum.splits prod.splits)

lemma submit_effect:
  assumes inv: "db_inv DEFAULT_TTL_SECONDS (gs_approvals s)" and sub: "submit_tool_call env accounts call body s = (r, s')"
  shows "\<exists>identity. approval_effect (local_env env body) call identity body (gs_approvals s) (gs_approvals s')"
  using sub
proof (cases rule: submit_cases)
  case unknown
  then show ?thesis by (simp add: approval_effect_def)
next
  case (handled identity s1)
  note eff = handle_effect [OF inv handled(2)]
  show ?thesis
  proof (cases r)
    case (Inl e)
    with handled(4) show ?thesis by (simp add: approval_effect_def)
  next
    case (Inr b)
    with handled(4) have "gs_approvals s' = gs_approvals s1" by simp
    with eff show ?thesis by auto
  qed
qed

lemma api_step_effect:
  assumes inv: "db_inv DEFAULT_TTL_SECONDS (gs_approvals s)" and step: "api_step env accounts s s'"
  shows "gs_approvals s' = gs_approvals s \<or>
     (steps_of env (gs_approvals s) (gs_approvals s') \<and> dom (adb_approvals (gs_approvals s')) = dom (adb_approvals (gs_approvals s))) \<or>
     (\<exists>call identity body a. admitted (local_env env body) call identity body a \<and>
        adb_approvals (gs_approvals s) (ce_approval_id call) = None \<and>
        gs_approvals s' = created_approvals (local_env env body) call identity body a (gs_approvals s))"
  using step
proof cases
  case (step_submit call body)
  obtain r where "submit_tool_call env accounts call body s = (r, s')" using step_submit(1) by (metis prod.collapse)
  from submit_effect [OF inv this] obtain identity
    where "approval_effect (local_env env body) call identity body (gs_approvals s) (gs_approvals s')" ..
  then consider "gs_approvals s' = gs_approvals s"
    | "steps_of env (gs_approvals s) (gs_approvals s')" "no_revival (gs_approvals s) (gs_approvals s')"
    | a where "admitted (local_env env body) call identity body a"
        "gs_approvals s' = created_approvals (local_env env body) call identity body a (gs_approvals s)"
    unfolding approval_effect_def by fastforce
  then show ?thesis
  proof cases
    case 2
    then show ?thesis by (simp add: no_revival_def)
  next
    case 3
    with step_submit(2) show ?thesis by blast
  qed simp
next
  case (step_decision i body d now)
  obtain r t where dec: "decide_approval env accounts i body d now s = (r, t)" by fastforce
  have wf: "wf_db (gs_approvals s)" using inv by (simp add: db_inv_def)
  have "s' = t" using step_decision dec by simp
  with decide_approval_effect(2) [OF dec] decide_dom [OF wf]
    step_decide [of "he_sha256 env" DEFAULT_TTL_SECONDS "gs_approvals s" i _ d now] show ?thesis by metis
qed (simp_all add: refresh_routes_frame)

section \<open>The approvals of a reachable state\<close>

definition record_text :: "ApprovalRecord \<Rightarrow> string" where
  \<comment> \<open>the text of the action a stored request is for, from the columns of its row\<close>
  "record_text r = json_dumps_sorted (action_json (ap_actor_subject_id r) (ap_tool_id r) (ap_tool_version r)
     (ap_target r) (ap_normalized_arguments r) (opt_or (map_of (ap_policy r) ''environment'') [])
     (opt_or (map_of (ap_policy r) ''database_id'') []) (risk_value (ra_risk_level (ap_risk r))))"

definition issued :: "'n handler_env \<Rightarrow> ApprovalRecord \<Rightarrow> bool" where
  \<comment> \<open>the request was made for a call that was admitted\<close>
  "issued env r \<longleftrightarrow> ap_action_hash r = he_sha256 env (record_text r) \<and>
     (\<exists>call identity body a. admitted (local_env env body) call identity body a \<and>
        ap_actor_subject_id r = subject_id identity \<and> ap_tool_id r = td_tool_id (ad_tool a) \<and>
        ap_tool_version r = td_version (ad_tool a) \<and> ap_target r = target_dump (ad_target a) \<and>
        ap_requires_dual_approval r = pe_requires_dual_approval (ad_evaluation a))"

lemma issued_same_request: "same_request r r' \<Longrightarrow> issued env r \<Longrightarrow> issued env r'"
  by (simp add: issued_def record_text_def same_request_iff)

lemma created_issued:
  assumes "admitted (local_env env body) call identity body a"
    and "adb_approvals (created_approvals (local_env env body) call identity body a db) i = Some r"
  shows "adb_approvals db i = Some r \<or> issued env r"
proof (cases "i = ce_approval_id call")
  case True
  have o: "opt_or (Some x) [] = x" for x :: string by (cases x) simp_all
  have "issued env r"
    unfolding issued_def
  proof (intro conjI exI)
    show "admitted (local_env env body) call identity body a" by (rule assms(1))
  qed (use assms(2) True in \<open>auto simp: created_approvals_def create_def Let_def approval_context_def
      record_text_def action_hash_def compute_action_hash_def o\<close>)
  then show ?thesis ..
qed (use assms(2) in \<open>simp add: created_approvals_def create_def Let_def\<close>)

lemma api_reachable_approvals:
  "api_reachable env accounts s \<Longrightarrow> reachable (he_sha256 env) DEFAULT_TTL_SECONDS (gs_approvals s) \<and>
     (\<forall>i r. adb_approvals (gs_approvals s) i = Some r \<longrightarrow> issued env r)"
proof (induction rule: api_reachable.induct)
  case (api_start s)
  then show ?case by (simp add: reach_empty) (simp add: empty_db_def)
next
  case (api_next s s')
  then have R: "reachable (he_sha256 env) DEFAULT_TTL_SECONDS (gs_approvals s)"
    and I: "\<And>i r. adb_approvals (gs_approvals s) i = Some r \<Longrightarrow> issued env r" by auto
  note inv = reachable_inv [OF R]
  consider (same) "gs_approvals s' = gs_approvals s"
    | (step) "steps_of env (gs_approvals s) (gs_approvals s')"
        "dom (adb_approvals (gs_approvals s')) = dom (adb_approvals (gs_approvals s))"
    | (created) call identity body a where "admitted (local_env env body) call identity body a"
        "adb_approvals (gs_approvals s) (ce_approval_id call) = None"
        "gs_approvals s' = created_approvals (local_env env body) call identity body a (gs_approvals s)"
    using api_step_effect [OF inv api_next.hyps(2)] by blast
  then show ?case
  proof cases
    case same
    with R I show ?thesis by simp
  next
    case step
    have "issued env r'" if look: "adb_approvals (gs_approvals s') i = Some r'" for i r'
    proof -
      obtain r where r: "adb_approvals (gs_approvals s) i = Some r" using step(2) look by (metis domD domI)
      with engine_step_evolves [OF step(1) inv reachable_awaiting_ok [OF R]] look
      have "same_request r r'" by (fastforce simp: db_evolves_def evolves_def)
      then show ?thesis using I [OF r] by (rule issued_same_request)
    qed
    with R step(1) show ?thesis by (blast intro: reach_step)
  next
    case created
    have "steps_of env (gs_approvals s) (gs_approvals s')"
      using created_step [OF created(2), of "local_env env body" identity body a] created(3) by simp
    moreover have "\<forall>i r. adb_approvals (gs_approvals s') i = Some r \<longrightarrow> issued env r"
      using created_issued [OF created(1), of "gs_approvals s"] I unfolding created(3) by blast
    ultimately show ?thesis using R by (blast intro: reach_step)
  qed
qed

lemma api_reachable_inv: "api_reachable env accounts s \<Longrightarrow> db_inv DEFAULT_TTL_SECONDS (gs_approvals s)"
  by (rule reachable_inv) (drule api_reachable_approvals, rule conjunct1)

lemma api_reachable_wf: "api_reachable env accounts s \<Longrightarrow> wf_db (gs_approvals s)"
  by (drule api_reachable_inv) (simp add: db_inv_def)

section \<open>The authorization of an approver\<close>

text \<open>
  The target of a stored request is a dump, keyed by the names of the fields, two of which a
  target cannot be built from. Where the target model refuses unknown keys, the check of an
  approver's own authorization on it always ends in the branch that drops the exception.
\<close>

definition forbids_extra :: "(jdict \<Rightarrow> string + DatabaseTarget) \<Rightarrow> bool" where
  "forbids_extra validate_target \<longleftrightarrow>
     (\<forall>d t. validate_target d = Inr t \<longrightarrow> set (map fst d) \<subseteq> set DatabaseTarget_aliases)"

lemma dump_not_validated: "forbids_extra v \<Longrightarrow> \<exists>e. v (target_dump t) = Inl e"
  using target_dump_keys [of t]
  by (cases "v (target_dump t)") (force simp: forbids_extra_def DatabaseTarget_aliases_def DatabaseTarget_fields_def)+

lemma check_approver_skipped:
  assumes "forbids_extra (he_validate_target env)" and "ap_target record = target_dump t"
    and "registry_get (he_tools env) (ap_tool_id record) (Some (ap_tool_version record)) = Inr tool"
  shows "check_approver env identity record s = (Inr (), s)"
  using assms dump_not_validated [OF assms(1), of t] by (auto simp: check_approver_def)

lemma decide_approval_unchecked:
  assumes "forbids_extra (he_validate_target env)" and "ap_target record = target_dump t"
    and "registry_get (he_tools env) (ap_tool_id record) (Some (ap_tool_version record)) = Inr tool"
    and "accounts (bd_channel body) (bd_channel_account_id body) = Some identity" and "is_dba identity"
    and "adb_approvals (gs_approvals s) i = Some record"
    and "decide i identity APPROVE now (gs_approvals s) = (Inr r', db)"
  shows "\<exists>audit. decide_approval env accounts i body APPROVE now s =
     (Inr (i, approval_value (ap_status r')), s\<lparr>gs_approvals := db, gs_audit := audit\<rparr>)"
proof -
  have g: "on_approvals (get_record i) s = (Inr record, s)"
    using assms(6) by (simp add: zoom_def get_record_def)
  have d: "on_approvals (decide i identity APPROVE now) s = (Inr r', s\<lparr>gs_approvals := db\<rparr>)"
    using assms(7) by (simp add: zoom_def)
  obtain audit where "decide_in_session env identity i APPROVE now s =
      (Inr (approval_value (ap_status r')), s\<lparr>gs_approvals := db, gs_audit := audit\<rparr>)"
    by (simp add: decide_in_session_def bindM_def g check_approver_skipped [OF assms(1-3)] d)
  with assms(4,5) show ?thesis
    by (auto simp: decide_approval_def resolve_identity_def in_session_def)
qed

end
