(* ===== verification/Call_Outcomes.thy ===== *)
theory Call_Outcomes
  imports Gateway_Proofs
begin

text \<open>
  The outcomes of a tool call as the Gateway's clients and its audit log see them: what is sent
  to the Execution Service, what is recorded, what rows come back, and how long an approval
  that has been used stays used.
\<close>

section \<open>Requests sent\<close>

lemma sent_cases:
  assumes wf: "wf_db (gs_approvals s)" and h: "handle env call identity request s = (r, s')"
  obtains (none) "gs_sent s' = gs_sent s"
  | (sent) a where "admitted env call identity request a" "gate_open env call identity request a (gs_approvals s)"
      "gs_sent s' = gs_sent s @ [execution_request call a]"
proof -
  from h obtain r0 s0 where i: "handle_inner env call identity request s = (r0, s0)"
    and eq: "gs_sent s' = gs_sent s0" by (rule handle_sent)
  from wf i show thesis
  proof (cases rule: handle_inner_cases)
    case (executed a x s1)
    then have "gs_sent s0 = gs_sent s @ [execution_request call a]" by (metis complete_facts)
    with executed eq show ?thesis by (intro sent) simp_all
  qed (use eq none sent in auto)
qed

lemma admitted_facts:
  assumes "admitted (local_env env body) call identity body a"
  shows "registry_get (he_tools env) (rq_tool_id body) (rq_tool_version body) = Inr (ad_tool a)"
    and "authorize identity (ad_tool a) (ad_ctx a) = Inr ()"
    and "check_policy env call identity body (ad_tool a) (ad_ctx a) = Inr (ad_evaluation a)"
proof -
  have "he_policy (local_env env body) = he_policy env" "he_zones (local_env env body) = he_zones env" by simp_all
  then have "check_policy (local_env env body) call identity body tool ctx = check_policy env call identity body tool ctx" for tool ctx
    by (simp only: check_policy_def)
  with assms show "registry_get (he_tools env) (rq_tool_id body) (rq_tool_version body) = Inr (ad_tool a)"
    "authorize identity (ad_tool a) (ad_ctx a) = Inr ()"
    "check_policy env call identity body (ad_tool a) (ad_ctx a) = Inr (ad_evaluation a)"
    by (simp_all add: admitted_def authorize_Inr_iff)
qed

section \<open>Events recorded\<close>

fun outcome_event :: "ToolCallStatus \<Rightarrow> string" where
  "outcome_event TC_EXECUTED = ''TOOL_CALL_EXECUTED''"
| "outcome_event TC_APPROVAL_REQUIRED = ''APPROVAL_REQUESTED''"
| "outcome_event TC_DENIED = ''TOOL_CALL_DENIED''"
| "outcome_event TC_FAILED = ''TOOL_CALL_FAILED''"

definition audited :: "VerifiedIdentity \<Rightarrow> ToolCallResponse \<Rightarrow> AuditDb \<Rightarrow> AuditDb \<Rightarrow> bool" where
  \<comment> \<open>one event of the response's kind, and a security event exactly for the security codes\<close>
  "audited identity resp before after \<longleftrightarrow>
     (\<exists>ev. al_events after = al_events before @ [ev] \<and> au_actor_subject_id ev = subject_id identity \<and>
        au_event_type ev = outcome_event (rs_status resp) \<and> au_error_code ev = rs_failure_code resp) \<and>
     (if \<exists>c \<in> set security_codes. rs_failure_code resp = Some (failure_value c)
      then \<exists>sev. al_security_events after = al_security_events before @ [sev] \<and>
             Some (sv_event_type sev) = rs_failure_code resp \<and> sv_actor_subject_id sev = subject_id identity
      else al_security_events after = al_security_events before)"

lemma failure_value_in: "(\<exists>c \<in> set cs. failure_value code = failure_value c) \<longleftrightarrow> code \<in> set cs"
  using failure_value_inj by blast

lemma refused_audited:
  assumes "refused env call identity request code detail s = (r, s')"
  obtains resp where "r = Inr resp" "audited identity resp (gs_audit s) (gs_audit s')"
proof -
  from refused_eq [OF assms] obtain resp where r: "r = Inr resp"
    and st: "rs_status resp = (if code \<in> set execution_outcomes then TC_FAILED else TC_DENIED)"
    and fc: "rs_failure_code resp = Some (failure_value code)" by auto
  have "audited identity resp (gs_audit s) (gs_audit s')"
    using refused_eq [OF assms] unfolding audited_def st fc by (auto simp: failure_value_in)
  with r that show thesis by blast
qed

lemma handle_audited:
  assumes wf: "wf_db (gs_approvals s)" and h: "handle env call identity request s = (r, s')"
  shows "case r of Inl _ \<Rightarrow> gs_audit s' = gs_audit s | Inr resp \<Rightarrow> audited identity resp (gs_audit s) (gs_audit s')"
proof -
  obtain r0 s0 where i: "handle_inner env call identity request s = (r0, s0)" by fastforce
  have errors: ?thesis if "r0 = Inl e" and same: "gs_audit s0 = gs_audit s" for e
  proof (cases e)
    case (NumiError code detail)
    with that h i have "refused env call identity request code detail s0 = (r, s')" by (simp add: handle_def)
    then show ?thesis by (rule refused_audited) (simp add: same)
  qed (use that h i in \<open>auto simp: handle_def\<close>)
  have no_code: "audited identity resp (gs_audit s) (record_event ev (gs_audit s))"
    if "rs_failure_code resp = None" "au_event_type ev = outcome_event (rs_status resp)"
      "au_actor_subject_id ev = subject_id identity" "au_error_code ev = None" for resp ev
    using that by (auto simp: audited_def)
  have answers: "r = r0 \<and> s' = s0" if "r0 = Inr resp" for resp using that h i by (simp add: handle_def)
  from wf i show ?thesis
  proof (cases rule: handle_inner_cases)
    case (requested a)
    with answers show ?thesis
      by (auto intro!: no_code simp: approval_response_def) (simp add: call_event_def audit_event_def)
  next
    case (executed a x s1)
    from executed(5) [symmetric] obtain resp where "r0 = Inr resp" "rs_status resp = TC_EXECUTED" "rs_failure_code resp = None"
      "gs_audit s0 = record_event ((call_event env identity request ''TOOL_CALL_EXECUTED'' a)
         \<lparr>au_approval_id := rq_approval_id request, au_execution_result := ''SUCCESS''\<rparr>) (gs_audit s1)"
      by (rule complete_facts)
    with executed(6) answers show ?thesis
      by (auto intro!: no_code) (simp add: call_event_def audit_event_def)
  qed (use errors in auto)
qed

section \<open>Rows returned\<close>

lemma handle_result:
  assumes wf: "wf_db (gs_approvals s)" and h: "handle env call identity request s = (Inr resp, s')"
    and res: "rs_result resp = Some res"
  shows "\<exists>a x. admitted env call identity request a \<and> he_execute env (execution_request call a) = Inr x \<and> xr_success x \<and>
     tr_rows res = mr_rows (minimize (he_sqlglot env) (he_data_policy env) (Some (td_max_result_rows (ad_tool a)))
         (sqlglot_dialect_for_platform (Some (platform_value (ctx_platform (ad_ctx a))))) (xr_rows x)) \<and>
     tr_row_count res = length (tr_rows res)"
proof -
  obtain r0 s0 where i: "handle_inner env call identity request s = (r0, s0)" by fastforce
  have "r0 = Inr resp"
  proof (cases "\<exists>code detail. r0 = Inl (NumiError code detail)")
    case True
    then obtain code detail where "r0 = Inl (NumiError code detail)" by blast
    with h i have "refused env call identity request code detail s0 = (Inr resp, s')" by (simp add: handle_def)
    from refused_eq [OF this] res show ?thesis by auto
  qed (use h i in \<open>auto simp: handle_def split: sum.splits exn.splits\<close>)
  from wf i show ?thesis
  proof (cases rule: handle_inner_cases)
    case (executed a x s1)
    with \<open>r0 = Inr resp\<close> res show ?thesis by (auto simp: complete_def Let_def)
  qed (use \<open>r0 = Inr resp\<close> res in \<open>auto simp: approval_response_def\<close>)
qed

section \<open>Used approvals\<close>

inductive quiet_step :: "'n handler_env \<Rightarrow> accounts \<Rightarrow> string \<Rightarrow> gateway_state \<Rightarrow> gateway_state \<Rightarrow> bool"
  for env :: "'n handler_env" and accounts :: accounts and i :: string where
  \<comment> \<open>a step of the Gateway that is not a decision on the approval \<open>i\<close>\<close>
  quiet_submit: "adb_approvals (gs_approvals s) (ce_approval_id call) = None \<Longrightarrow>
     quiet_step env accounts i s (snd (submit_tool_call env accounts call body s))"
| quiet_decision: "j \<noteq> i \<Longrightarrow> quiet_step env accounts i s (snd (decide_approval env accounts j approval d now s))"
| quiet_refresh_all: "quiet_step env accounts i s (snd (refresh_all_route env accounts discover n approval s))"
| quiet_refresh_one: "quiet_step env accounts i s (snd (refresh_one env accounts discover n server approval s))"

lemma quiet_api_step: "quiet_step env accounts i s s' \<Longrightarrow> api_step env accounts s s'"
  by (induction rule: quiet_step.induct) (auto intro: api_step.intros)

definition used :: "string \<Rightarrow> gateway_state \<Rightarrow> bool" where
  "used i s \<longleftrightarrow> (\<exists>record. adb_approvals (gs_approvals s) i = Some record \<and> ap_status record = AP_EXECUTED)"

lemma decide_other:
  assumes "wf_db db" and "j \<noteq> i"
  shows "adb_approvals (snd (decide j who d now db)) i = adb_approvals db i"
  using decide_found(2) [OF assms(1), of j _ who d now] decide_missing [of db j who d now] assms(2)
  by (cases "adb_approvals db j") auto

lemma quiet_step_used:
  assumes "api_reachable env accounts s" and "quiet_step env accounts i s s'" and "used i s"
  shows "used i s'"
  using assms(2)
proof cases
  case (quiet_submit call body)
  obtain r where sub: "submit_tool_call env accounts call body s = (r, s')" using quiet_submit(1) by (metis prod.collapse)
  from submit_effect [OF api_reachable_inv [OF assms(1)] sub] obtain identity
    where "approval_effect (local_env env body) call identity body (gs_approvals s) (gs_approvals s')" ..
  with assms(3) quiet_submit(2) show ?thesis
    by (auto simp: approval_effect_def used_def no_revival_def created_approvals_def create_def Let_def)
next
  case (quiet_decision j body d now)
  obtain r where dec: "decide_approval env accounts j body d now s = (r, s')" using quiet_decision(1) by (metis prod.collapse)
  with decide_approval_effect(2) [OF dec] decide_other [OF api_reachable_wf [OF assms(1)] quiet_decision(2)] assms(3)
  show ?thesis by (auto simp: used_def)
qed (use assms(3) in \<open>simp_all add: used_def refresh_routes_frame\<close>)

lemma quiet_steps_used:
  assumes "(quiet_step env accounts i)\<^sup>*\<^sup>* s s'" and "api_reachable env accounts s" and "used i s"
  shows "api_reachable env accounts s' \<and> used i s'"
  using assms
proof (induction rule: rtranclp_induct)
  case (step s1 s2)
  then show ?case using quiet_step_used quiet_api_step by (blast intro: api_next)
qed simp

lemma executed_used:
  assumes reach: "api_reachable env accounts s" and sub: "submit_tool_call env accounts call body s = (Inr resp, s')"
    and "rs_status resp = TC_EXECUTED" and "rs_policy_decision resp = Some ''REQUIRES_APPROVAL''"
    and i: "rq_approval_id body = Some i"
  shows "used i s'"
  using sub
proof (cases rule: submit_cases)
  case (handled identity s1)
  obtain r0 s0 where inner: "handle_inner (local_env env body) call identity body s = (r0, s0)" by fastforce
  have s1: "r0 = Inr resp \<and> s1 = s0"
  proof (cases "\<exists>code detail. r0 = Inl (NumiError code detail)")
    case True
    then obtain code detail where "r0 = Inl (NumiError code detail)" by blast
    with handled(2) inner have "refused (local_env env body) call identity body code detail s0 = (Inr resp, s1)" by (simp add: handle_def)
    from refused_eq [OF this] assms(3) show ?thesis by (auto split: if_splits)
  qed (use handled(2) inner in \<open>auto simp: handle_def split: sum.splits exn.splits\<close>)
  from api_reachable_wf [OF reach] inner show ?thesis
  proof (cases rule: handle_inner_cases)
    case (executed a x s2)
    from executed(5) s1 have "rs_policy_decision resp = Some (decision_value (pe_decision (ad_evaluation a)))"
      by (auto simp: complete_def Let_def)
    with assms(4) have n: "needs_approval a" by (cases "pe_decision (ad_evaluation a)") (auto simp: needs_approval_def)
    with executed(2) i obtain rec where
      "fst (verify_for_execution i (action_hash (he_sha256 env) (approval_context identity body a)) (ce_approval_now call) (gs_approvals s)) = Inr rec"
      by (auto simp: gate_open_def needs_approval_def)
    then obtain db' where v: "verify_for_execution i (action_hash (he_sha256 env) (approval_context identity body a))
        (ce_approval_now call) (gs_approvals s) = (Inr rec, db')" by (metis prod.collapse)
    have "opt_or (Some i) [] = i" by (cases i) simp_all
    with verify_consume [OF api_reachable_inv [OF reach] v, of "ce_executed_now call"] n i v executed(8)
    have "used i s2" by (auto simp: used_def consumed_db_def verified_db_def)
    moreover have "gs_approvals s' = gs_approvals s2" using executed(5) s1 handled(4) by (auto simp: complete_def Let_def)
    ultimately show ?thesis by (simp add: used_def)
  qed (use s1 assms(3) in \<open>auto simp: approval_response_def\<close>)
qed simp

section \<open>Two calls at once\<close>

text \<open>
  Nothing holds an approval between its verification and its consumption: when two calls under
  the same approval have both been verified before either is sent, both are executed.
\<close>

lemma run_call_executes:
  assumes "needs_approval a" and "rq_approval_id request = Some i" and "adb_approvals (gs_approvals s) i = Some record"
    and "he_execute env (execution_request call a) = Inr x" and "xr_success x" and "ap_approval_id record = i"
  shows "\<exists>resp s'. run_call env call identity request a s = (Inr resp, s') \<and> rs_status resp = TC_EXECUTED \<and>
     gs_sent s' = gs_sent s @ [execution_request call a] \<and>
     adb_approvals (gs_approvals s') = (adb_approvals (gs_approvals s))(i \<mapsto> record\<lparr>ap_status := AP_EXECUTED\<rparr>)"
proof -
  have o: "opt_or (Some i) [] = i" by (cases i) simp_all
  from assms show ?thesis
    by (auto simp: run_call_def send_def bindM_def o zoom_def mark_executed_def get_record_def save_def returnM_def
        complete_def Let_def)
qed

lemma interleaved_calls_both_execute:
  assumes inv: "db_inv ttl (gs_approvals s)"
    and n1: "needs_approval a1" and i1: "rq_approval_id body1 = Some i" and g1: "gate_open env call1 who1 body1 a1 (gs_approvals s)"
    and n2: "needs_approval a2" and i2: "rq_approval_id body2 = Some i" and g2: "gate_open env call2 who2 body2 a2 (gs_approvals s)"
    and x1: "he_execute env (execution_request call1 a1) = Inr x1" "xr_success x1"
    and x2: "he_execute env (execution_request call2 a2) = Inr x2" "xr_success x2"
  defines "db1 \<equiv> verified_db env call1 who1 body1 a1 (gs_approvals s)"
  defines "db2 \<equiv> verified_db env call2 who2 body2 a2 db1"
  shows "gate_open env call2 who2 body2 a2 db1 \<and>
     (\<exists>resp1 s1 resp2 s2. run_call env call1 who1 body1 a1 (s\<lparr>gs_approvals := db2\<rparr>) = (Inr resp1, s1) \<and>
        run_call env call2 who2 body2 a2 s1 = (Inr resp2, s2) \<and> rs_status resp1 = TC_EXECUTED \<and> rs_status resp2 = TC_EXECUTED \<and>
        gs_sent s2 = gs_sent s @ [execution_request call1 a1, execution_request call2 a2])"
proof -
  have wf: "wf_db (gs_approvals s)" using inv by (simp add: db_inv_def)
  have o: "opt_or (Some i) [] = i" by (cases i) simp_all
  obtain r where look: "adb_approvals (gs_approvals s) i = Some r"
    using g1 i1 n1 by (auto simp: gate_open_def needs_approval_def verify_Inr_iff [OF wf])
  have keep: "adb_approvals (verified_db env call who body a db) = adb_approvals db \<and> wf_db (verified_db env call who body a db)"
    if "wf_db db" "needs_approval a" "rq_approval_id body = Some i" "gate_open env call who body a db" for call who body a db
  proof -
    note prems = that
    from prems(4,2,3) obtain r' where r': "adb_approvals db i = Some r'" "ap_status r' = AP_APPROVED" "ce_approval_now call \<le> ap_expires_at r'"
      by (auto simp: gate_open_def needs_approval_def verify_Inr_iff [OF prems(1)])
    then have "expire (ce_approval_now call) r' = r'" by (simp add: expire_def)
    with verify_found(2) [OF that(1) r'(1)] r'(1) have "adb_approvals (verified_db env call who body a db) = adb_approvals db"
      using that(2,3) by (simp add: verified_db_def o fun_upd_idem)
    then show ?thesis using that(1) by (simp add: wf_db_def)
  qed
  have d1: "adb_approvals db1 = adb_approvals (gs_approvals s)" "wf_db db1"
    using keep [OF wf n1 i1 g1] by (simp_all add: db1_def)
  have g2': "gate_open env call2 who2 body2 a2 db1"
    using g2 by (simp add: gate_open_def verify_Inr_iff [OF wf] verify_Inr_iff [OF d1(2)] d1(1))
  have d2: "adb_approvals db2 = adb_approvals (gs_approvals s)"
    using keep [OF d1(2) n2 i2 g2'] d1 by (simp add: db2_def)
  have ri: "ap_approval_id r = i" using wf look by (simp add: wf_db_def)
  obtain resp1 s1 where s1: "run_call env call1 who1 body1 a1 (s\<lparr>gs_approvals := db2\<rparr>) = (Inr resp1, s1)"
    "rs_status resp1 = TC_EXECUTED" "gs_sent s1 = gs_sent s @ [execution_request call1 a1]"
    "adb_approvals (gs_approvals s1) i = Some (r\<lparr>ap_status := AP_EXECUTED\<rparr>)"
    using run_call_executes [OF n1 i1 _ x1 ri, of "s\<lparr>gs_approvals := db2\<rparr>" who1] look d2 by auto
  have "ap_approval_id (r\<lparr>ap_status := AP_EXECUTED\<rparr>) = i" using ri by simp
  from run_call_executes [OF n2 i2 s1(4) x2 this, of who2] s1 g2' show ?thesis by fastforce
qed

section \<open>Dual approval\<close>

lemma check_policy_evaluate:
  assumes "check_policy env call identity request tool ctx = Inr e"
  obtains role where "evaluate (he_policy env) (he_zones env) (ctx_environment ctx) tool role ctx
     (rq_change_id request) False (ce_now call) = Inr e"
  using assms unfolding check_policy_def by (cases "highest_role identity") (auto split: if_splits)

lemma check_policy_not_allowed:
  assumes "check_policy env call identity request tool ctx = Inr e"
    and "\<And>environment role. fst (table_decision (he_policy env) environment (td_tool_id tool) role) \<noteq> ALLOW"
  shows "pe_decision e \<noteq> ALLOW"
  using assms(1)
proof (rule check_policy_evaluate)
  fix role assume "evaluate (he_policy env) (he_zones env) (ctx_environment ctx) tool role ctx
     (rq_change_id request) False (ce_now call) = Inr e"
  then show ?thesis by (rule evaluate_Inr) (use assms(2) in \<open>auto simp: Let_def split: if_splits\<close>)
qed

lemma check_policy_dual:
  assumes "check_policy env call identity request tool ctx = Inr e"
  shows "pe_requires_dual_approval e \<longleftrightarrow>
     td_requires_dual_approval tool \<or> td_tool_id tool \<in> set (dual_approval_required (he_policy env))"
  using assms
proof (rule check_policy_evaluate)
  fix role assume "evaluate (he_policy env) (he_zones env) (ctx_environment ctx) tool role ctx
     (rq_change_id request) False (ce_now call) = Inr e"
  then show ?thesis by (rule evaluate_Inr) simp
qed

lemma issued_dual:
  assumes "issued env record" and "he_tools env = ToolRegistry_init settings"
    and "map_of (he_tools env) (ap_tool_id record) = Some tool"
  shows "ap_requires_dual_approval record \<longleftrightarrow>
     td_requires_dual_approval tool \<or> td_tool_id tool \<in> set (dual_approval_required (he_policy env))"
proof -
  from assms(1) obtain call identity body a where adm: "admitted (local_env env body) call identity body a"
    and tid: "ap_tool_id record = td_tool_id (ad_tool a)"
    and dual: "ap_requires_dual_approval record = pe_requires_dual_approval (ad_evaluation a)"
    by (auto simp: issued_def)
  have m: "map_of (he_tools env) (rq_tool_id body) = Some (ad_tool a)"
    using admitted_facts(1) [OF adm] by (simp add: registry_get_Inr_iff)
  then have "td_tool_id (ad_tool a) = rq_tool_id body" using assms(2) by (simp add: registry_lookup)
  with m assms(3) tid have "ad_tool a = tool" by simp
  with dual check_policy_dual [OF admitted_facts(3) [OF adm]] show ?thesis by simp
qed

lemma same_text:
  assumes "record_text record = action_text ctx"
  shows "ap_actor_subject_id record = subject_id (ac_actor ctx)" "ap_tool_id record = td_tool_id (ac_tool ctx)"
  using action_json_inj [OF assms [unfolded record_text_def action_text_def]] by simp_all

lemma approved_by_two:
  assumes "db_inv ttl db" and "adb_approvals db i = Some record" and "ap_status record = AP_APPROVED"
    and "ap_requires_dual_approval record"
  shows "\<exists>p q. ap_approver_1_subject_id record = Some p \<and> ap_approver_2_subject_id record = Some q \<and> p \<noteq> q \<and>
     p \<noteq> ap_actor_subject_id record \<and> q \<noteq> ap_actor_subject_id record"
  using db_inv_lookup [OF assms(1,2)] assms(3,4) by (auto simp: record_inv_def duties_separated_def)

end
