(* ===== verification/Example_Deployment.thy ===== *)
theory Example_Deployment
  imports Call_Outcomes
begin

text \<open>
  A small deployment of the Gateway with the shipped tool catalog, one production server, and
  people who request and approve the restart of an instance: the concrete inputs on which the
  theorems about the whole pipeline are instantiated.
\<close>

definition demo_server :: ServerEntry where
  "demo_server = (server_named ''db1'')\<lparr>se_allowed_roles := []\<rparr>"

definition demo_policy :: PolicyEngine where
  "demo_policy = \<lparr>default_decision = DENY,
     policy_table = [(''production'',
       [(''database.restart_instance'', [(''DBA_L3'', REQUIRES_APPROVAL)]),
        (''database.get_health'', [(''DBA_L3'', ALLOW)])])],
     change_ticket_required = [], dual_approval_required = [''database.restart_instance'']\<rparr>"

definition demo_limits :: rate_limits where
  "demo_limits = (let l = [(''per_user_per_minute'', 5), (''per_conversation_per_minute'', 5), (''per_tool_per_minute'', 5),
     (''per_database_per_minute'', 5), (''per_environment_per_minute'', 5)] in [(''read'', l), (''critical'', l)])"

definition demo_validate_target :: "jdict \<Rightarrow> string + DatabaseTarget" where
  \<comment> \<open>a target model that reads the instance only, and forbids the keys it does not know\<close>
  "demo_validate_target d =
     (if \<exists>k \<in> set (map fst d). k \<notin> set DatabaseTarget_aliases then Inl ''Extra inputs are not permitted''
      else Inr \<lparr>dt_environment = PRODUCTION, dt_platform = None, dt_cluster = None,
             dt_instance = Some (json_str (map_of d ''instance'')), dt_database = None, dt_schema_name = None,
             dt_object_name = None, dt_session_id = None, dt_query_id = None\<rparr>)"

definition demo_execute :: "ExecutionRequest \<Rightarrow> ExecutionResult result" where
  "demo_execute er = Inr \<lparr>xr_execution_id = ex_execution_id er, xr_success = True, xr_columns = [''status''],
     xr_rows = [[(''status'', JStr ''ok''), (''password'', JStr ''hunter2'')]], xr_row_count = 1, xr_truncated = False,
     xr_affected = [], xr_error_code = None, xr_error_detail = None, xr_verification_status = [],
     xr_verification_detail = [], xr_duration_ms = 1\<rparr>"

definition demo_env :: "limit_clause handler_env" where
  "demo_env = \<lparr>he_tools = ToolRegistry_init default_settings, he_registry = [demo_server], he_policy = demo_policy,
     he_zones = (\<lambda>_. None), he_rate_limits = demo_limits, he_data_policy = default_data_policy,
     he_sqlglot = toy_sqlglot, he_sha256 = plain, he_encode = small_encode, he_decode = small_decode,
     he_discovery = None, he_validate_args = (\<lambda>m d. Inr d), he_validate_target = demo_validate_target,
     he_execute = demo_execute, he_agent_version = ''agent/0.1.0'', he_channel = ''slack'',
     he_identity_provider_name = ''oidc''\<rparr>"

definition demo_accounts :: accounts where
  \<comment> \<open>every account is a level 3 DBA\<close>
  "demo_accounts channel account = Some (person account)"

definition demo_call :: "string \<Rightarrow> int \<Rightarrow> call_env" where
  "demo_call n t = \<lparr>ce_approval_id = n, ce_execution_id = ''exec'', ce_now = t, ce_clock = (\<lambda>_. t),
     ce_approval_now = t, ce_executed_now = t + 1, ce_duration_ms = 1\<rparr>"

definition demo_request :: "string \<Rightarrow> string option \<Rightarrow> ToolCallRequest" where
  "demo_request tool approval = \<lparr>rq_tool_id = tool, rq_tool_version = None, rq_arguments = [],
     rq_target = [(''environment'', JStr ''production''), (''instance'', JStr ''db1'')], rq_reason = [],
     rq_conversation_id = ''conv'', rq_investigation_id = None, rq_request_id = ''req'', rq_channel = ''slack'',
     rq_channel_account_id = ''alice'', rq_approval_id = approval, rq_change_id = None\<rparr>"

definition demo_start :: gateway_state where
  "demo_start = \<lparr>gs_approvals = empty_db, gs_audit = \<lparr>al_events = [], al_security_events = []\<rparr>,
     gs_buckets = Map.empty, gs_store = empty_store [], gs_sent = []\<rparr>"

abbreviation demo_submit :: "string \<Rightarrow> int \<Rightarrow> string \<Rightarrow> string option \<Rightarrow> (gateway_state, ToolCallResponse) op" where
  "demo_submit n t tool approval \<equiv> submit_tool_call demo_env demo_accounts (demo_call n t) (demo_request tool approval)"

definition requested :: gateway_state where
  "requested = snd (demo_submit ''a1'' 0 ''database.restart_instance'' None demo_start)"

definition approved_by :: "string \<Rightarrow> int \<Rightarrow> gateway_state \<Rightarrow> gateway_state" where
  "approved_by who t s = snd (decide_approval demo_env demo_accounts ''a1''
     \<lparr>bd_channel = ''slack'', bd_channel_account_id = who\<rparr> APPROVE t s)"

definition granted :: gateway_state where
  "granted = approved_by ''carol'' 2 (approved_by ''bob'' 1 requested)"

definition executed :: gateway_state where
  "executed = snd (demo_submit ''a2'' 3 ''database.restart_instance'' (Some ''a1'') granted)"

section \<open>Running it\<close>

lemma admitI:
  assumes "registry_get (he_tools env) (rq_tool_id request) (rq_tool_version request) = Inr tool"
    and "parse_arguments env tool request = Inr args0" and "parse_target env request = Inr raw"
    and "he_discovery env = None"
    and "validate (he_registry env) (he_decode env) (enrich_target raw args0) (td_required_target_scope tool) (gs_store s)
       = (Inr ctx, store)"
    and "normalize_sql env tool ctx args0 = Inr args" and "authorize identity tool ctx = Inr ()"
    and "rate_check (he_rate_limits env) (operation_value (td_operation_type tool))
              (td_requires_approval tool) (subject_id identity) (rq_conversation_id request) (td_tool_id tool)
              (se_id (ctx_server ctx)) (env_value (ctx_environment ctx)) (ce_clock call) (gs_buckets s) = (Inr (), b)"
    and "check_policy env call identity request tool ctx = Inr e"
  shows "admit env call identity request s =
     (Inr \<lparr>ad_tool = tool, ad_target = enrich_target raw args0, ad_ctx = ctx, ad_args = args, ad_evaluation = e,
        ad_risk = assess tool (ctx_environment ctx) ctx 1 1 False\<rparr>, s\<lparr>gs_store := store, gs_buckets := b\<rparr>)"
  using assms by (simp add: admit_def bindM_def zoom_def refresh_catalog_def Let_def)

definition restart_tool :: ToolDefinition where
  "restart_tool = write_tools ! 6"

definition health_tool :: ToolDefinition where
  "health_tool = read_tools ! 0"

lemma demo_registry:
  "registry_get (ToolRegistry_init default_settings) ''database.restart_instance'' None = Inr restart_tool"
  "registry_get (ToolRegistry_init default_settings) ''database.restart_instance'' (Some ''1.0.0'') = Inr restart_tool"
  "registry_get (ToolRegistry_init default_settings) ''database.get_health'' None = Inr health_tool"
  by (auto simp: registry_get_Inr_iff registry_lookup build_tool_catalog_def restart_tool_def health_tool_def
      write_tools_def read_tools_def tool_defs)

lemma demo_resolve: "resolve [demo_server] (instance_target ''db1'') = Inr demo_server"
  by (simp add: demo_server_def registry_eval)

definition demo_ctx :: TargetContext where
  "demo_ctx = make_context (instance_target ''db1'') demo_server [] None"

abbreviation loaded :: DbCatalogStore where
  \<comment> \<open>the empty store, after its first read\<close>
  "loaded \<equiv> \<lparr>cs_cache = [], cs_loaded = True, cs_rows = []\<rparr>"

lemma demo_validate:
  assumes "store \<in> {empty_store [], loaded}" and "scope = [''environment'', ''instance'']"
  shows "validate [demo_server] small_decode (instance_target ''db1'') scope store = (Inr demo_ctx, loaded)"
proof -
  have v: "validate_on (instance_target ''db1'') scope demo_server None = Inr demo_ctx"
    using assms(2) by (simp add: validate_on_def check_database_def check_required_fields_def missing_fields_def
        effective_fields_def field_alias_def FIELD_ALIASES_def check_object_def demo_ctx_def instance_target_def strip_def Let_def)
  have g: "db_get small_decode store k = (None, loaded)" for k
    using assms(1) by (auto simp: db_get_def ensure_loaded_def empty_store_def)
  have r: "resolve_server [demo_server] (instance_target ''db1'') = Inr demo_server"
    unfolding resolve_server_Inr by (rule demo_resolve)
  show ?thesis by (simp add: validate_def bindM_def r g v)
qed

lemma demo_target: "demo_validate_target (rq_target (demo_request tool approval)) = Inr (instance_target ''db1'')"
  by (simp add: demo_validate_target_def demo_request_def DatabaseTarget_aliases_def json_str_def instance_target_def)

lemma demo_authorize:
  "authorize (person who) restart_tool demo_ctx = Inr ()" "authorize (person who) health_tool demo_ctx = Inr ()"
  by (simp_all add: authorize_def person_def is_dba_def restart_tool_def health_tool_def write_tools_def read_tools_def
      tool_defs ADVANCED_ROLES_def ALL_ROLES_def ALL_ENVS_def demo_ctx_def make_context_def Let_def effective_for_def
      default_override_def demo_server_def server_named_def ctx_environment_def intersects_def)

definition demo_evaluation :: "bool \<Rightarrow> PolicyEvaluation" where
  "demo_evaluation w = \<lparr>pe_decision = (if w then REQUIRES_APPROVAL else ALLOW), pe_requires_dual_approval = w,
     pe_requires_change_ticket = False, pe_in_maintenance_window = True,
     pe_reasons = (if w then [''inside_maintenance_window''] else [])\<rparr>"

lemma demo_role: "highest_role (person who) = Some DBA_L3"
  by (simp add: highest_role_def person_def)

lemma demo_check_policy:
  "check_policy (local_env demo_env body) call (person who) request restart_tool demo_ctx = Inr (demo_evaluation True)"
  "check_policy (local_env demo_env body) call (person who) request health_tool demo_ctx = Inr (demo_evaluation False)"
  by (simp_all add: check_policy_def demo_role demo_env_def evaluate_def is_within_maintenance_window_def
      ctx_maintenance_window_def ctx_environment_def demo_ctx_def demo_server_def server_named_def table_decision_def
      demo_policy_def dict_get_def restart_tool_def health_tool_def write_tools_def read_tools_def tool_defs
      demo_evaluation_def Let_def)

definition demo_buckets :: "string \<Rightarrow> string \<Rightarrow> (int \<times> int) option \<Rightarrow> buckets" where
  \<comment> \<open>the counters of one tier after calls of one person and one tool\<close>
  "demo_buckets tier tool v =
     (\<lambda>k. if k \<in> set (map (\<lambda>x. ''rl:'' @ tier @ x) ['':user:alice'', '':conv:conv'', '':tool:'' @ tool, '':db:db1'', '':env:production''])
          then v else None)"

lemma demo_rate:
  assumes "tier_for op req = tier" and "tier \<in> {''read'', ''critical''}" and "0 \<le> t" and "t < 60000000"
  shows "rate_check demo_limits op req ''alice'' ''conv'' tool ''db1'' ''production'' (\<lambda>_. t) (demo_buckets tier tool None)
      = (Inr (), demo_buckets tier tool (Some (1, t)))"
    and "rate_check demo_limits op req ''alice'' ''conv'' tool ''db1'' ''production'' (\<lambda>_. t) (demo_buckets tier tool (Some (1, 0)))
      = (Inr (), demo_buckets tier tool (Some (2, 0)))"
  using assms
  by (auto simp: rate_check_def rate_checks_def demo_limits_def key_error_def increment_and_check_def Let_def
      demo_buckets_def fun_eq_iff)

definition demo_admission :: "ToolDefinition \<Rightarrow> bool \<Rightarrow> admission" where
  "demo_admission tool w = \<lparr>ad_tool = tool, ad_target = instance_target ''db1'', ad_ctx = demo_ctx, ad_args = [],
     ad_evaluation = demo_evaluation w, ad_risk = assess tool PRODUCTION demo_ctx 1 1 False\<rparr>"

lemmas demo_records = demo_env_def demo_request_def demo_call_def person_def

lemma demo_ctx_simps [simp]: "ctx_environment demo_ctx = PRODUCTION" "ctx_server demo_ctx = demo_server" "se_id demo_server = ''db1''"
  by (simp_all add: ctx_environment_def demo_ctx_def demo_server_def server_named_def)

lemma demo_tools [simp]:
  "td_tool_id restart_tool = ''database.restart_instance''" "td_required_target_scope restart_tool = [''environment'', ''instance'']"
  "td_operation_type restart_tool = WRITE" "td_requires_approval restart_tool" "td_version restart_tool = ''1.0.0''"
  "td_tool_id health_tool = ''database.get_health''" "td_required_target_scope health_tool = [''environment'', ''instance'']"
  "td_operation_type health_tool = READ" "\<not> td_requires_approval health_tool"
  by (simp_all add: restart_tool_def health_tool_def write_tools_def read_tools_def tool_defs INSTANCE_WIDE_SCOPE_def)

lemma demo_admit:
  assumes tool: "(tool, tier, w) = (restart_tool, ''critical'', True) \<or> (tool, tier, w) = (health_tool, ''read'', False)"
    and body: "body = demo_request (td_tool_id tool) approval" and "call = demo_call n t"
    and store: "gs_store s \<in> {empty_store [], loaded}" and t: "0 \<le> t" "t < 60000000"
    and b: "(gs_buckets s, b) = (demo_buckets tier (td_tool_id tool) None, demo_buckets tier (td_tool_id tool) (Some (1, t))) \<or>
      (gs_buckets s, b) = (demo_buckets tier (td_tool_id tool) (Some (1, 0)), demo_buckets tier (td_tool_id tool) (Some (2, 0)))"
  shows "admit (local_env demo_env body) call (person ''alice'') body s =
    (Inr (demo_admission tool w), s\<lparr>gs_store := loaded, gs_buckets := b\<rparr>)"
proof -
  have e: "enrich_target (instance_target ''db1'') [] = instance_target ''db1''"
    by (simp add: enrich_target_def dict_truthy_def)
  have n: "normalize_sql (local_env demo_env body) tool demo_ctx [] = Inr []"
    using tool by (auto simp: normalize_sql_def)
  have a: "parse_arguments (local_env demo_env body) tool body = Inr []"
    using tool body by (auto simp: parse_arguments_def ARGUMENT_MODELS_def demo_env_def demo_request_def)
  have p: "parse_target (local_env demo_env body) body = Inr (instance_target ''db1'')"
    using body demo_target by (simp add: parse_target_def demo_env_def)
  have tier: "tier_for (operation_value (td_operation_type tool)) (td_requires_approval tool) = tier" "tier \<in> {''read'', ''critical''}"
    using tool by (auto simp: tier_for_def)
  have r: "registry_get (he_tools (local_env demo_env body)) (rq_tool_id body) (rq_tool_version body) = Inr tool"
    using tool by (elim disjE) (simp_all add: body demo_env_def demo_request_def demo_registry)
  have v: "validate (he_registry (local_env demo_env body)) (he_decode (local_env demo_env body))
      (enrich_target (instance_target ''db1'') []) (td_required_target_scope tool) (gs_store s) = (Inr demo_ctx, loaded)"
    unfolding e using tool by (auto simp: demo_env_def intro!: demo_validate [OF store])
  have rate: "rate_check (he_rate_limits (local_env demo_env body)) (operation_value (td_operation_type tool))
      (td_requires_approval tool) (subject_id (person ''alice'')) (rq_conversation_id body) (td_tool_id tool)
      (se_id (ctx_server demo_ctx)) (env_value (ctx_environment demo_ctx)) (ce_clock call) (gs_buckets s) = (Inr (), b)"
    using b demo_rate [OF tier t] body assms(3) by (auto simp: demo_records)
  have pol: "check_policy (local_env demo_env body) call (person ''alice'') body tool demo_ctx = Inr (demo_evaluation w)"
    using tool demo_check_policy by auto
  have auth: "authorize (person ''alice'') tool demo_ctx = Inr ()" using tool demo_authorize by auto
  have d: "he_discovery (local_env demo_env body) = None" by (simp add: demo_env_def)
  show ?thesis unfolding admitI [OF r a p d v n auth rate pol] by (simp add: demo_admission_def e)
qed

lemma demo_submit_eq:
  assumes "handle_inner (local_env demo_env (demo_request tool approval)) (demo_call n t) (person ''alice'')
      (demo_request tool approval) s = (Inr r, s')"
  shows "demo_submit n t tool approval s = (Inr r, s')"
  using assms by (simp add: submit_tool_call_def resolve_identity_def demo_accounts_def in_session_def handle_def demo_request_def)

abbreviation restart_request :: "string option \<Rightarrow> ToolCallRequest" where
  "restart_request \<equiv> demo_request ''database.restart_instance''"

abbreviation restart_admission :: admission where
  "restart_admission \<equiv> demo_admission restart_tool True"

abbreviation restart_env :: "string option \<Rightarrow> limit_clause handler_env" where
  "restart_env approval \<equiv> local_env demo_env (restart_request approval)"

abbreviation restart_buckets :: "int \<Rightarrow> buckets" where
  "restart_buckets c \<equiv> demo_buckets ''critical'' ''database.restart_instance'' (if c = 0 then None else Some (c, 0))"

lemma requested_facts:
  "gs_approvals requested = created_approvals (restart_env None) (demo_call ''a1'' 0) (person ''alice'') (restart_request None)
     restart_admission empty_db"
  "gs_store requested = loaded" "gs_buckets requested = restart_buckets 1" "gs_sent requested = []"
proof -
  let ?call = "demo_call ''a1'' 0" and ?body = "restart_request None"
  have "admit (restart_env None) ?call (person ''alice'') ?body demo_start =
      (Inr restart_admission, demo_start\<lparr>gs_store := loaded, gs_buckets := restart_buckets 1\<rparr>)"
    by (rule demo_admit) (auto simp: demo_start_def demo_buckets_def fun_eq_iff)
  then have "handle_inner (restart_env None) ?call (person ''alice'') ?body demo_start =
      request_approval (restart_env None) ?call (person ''alice'') ?body restart_admission
        (demo_start\<lparr>gs_store := loaded, gs_buckets := restart_buckets 1\<rparr>)"
    by (simp add: handle_inner_def bindM_def needs_approval_def demo_admission_def demo_evaluation_def)
      (simp add: demo_request_def)
  from demo_submit_eq [OF this [unfolded request_approval_eq]]
  show "gs_approvals requested = created_approvals (restart_env None) ?call (person ''alice'') ?body restart_admission empty_db"
    "gs_store requested = loaded" "gs_buckets requested = restart_buckets 1" "gs_sent requested = []"
    by (simp_all add: requested_def demo_start_def)
qed

lemma demo_forbids_extra: "forbids_extra (he_validate_target demo_env)"
  by (auto simp: forbids_extra_def demo_env_def demo_validate_target_def split: if_splits)

lemma approved_by_facts:
  assumes look: "adb_approvals (gs_approvals s) ''a1'' = Some record"
    and rec: "ap_target record = target_dump t" "ap_tool_id record = ''database.restart_instance''" "ap_tool_version record = ''1.0.0''"
    and d: "decide ''a1'' (person who) APPROVE now (gs_approvals s) = (Inr r', db)"
  shows "gs_approvals (approved_by who now s) = db" "gs_store (approved_by who now s) = gs_store s"
    "gs_buckets (approved_by who now s) = gs_buckets s" "gs_sent (approved_by who now s) = gs_sent s"
proof -
  let ?body = "\<lparr>bd_channel = ''slack'', bd_channel_account_id = who\<rparr>"
  have reg: "registry_get (he_tools demo_env) (ap_tool_id record) (Some (ap_tool_version record)) = Inr restart_tool"
    by (simp add: rec demo_env_def demo_registry)
  obtain audit where "decide_approval demo_env demo_accounts ''a1'' ?body APPROVE now s =
      (Inr (''a1'', approval_value (ap_status r')), s\<lparr>gs_approvals := db, gs_audit := audit\<rparr>)"
    using decide_approval_unchecked [OF demo_forbids_extra rec(1) reg _ _ look d, of demo_accounts ?body]
    by (auto simp: demo_accounts_def person_def is_dba_def)
  then show "gs_approvals (approved_by who now s) = db" "gs_store (approved_by who now s) = gs_store s"
    "gs_buckets (approved_by who now s) = gs_buckets s" "gs_sent (approved_by who now s) = gs_sent s"
    by (simp_all add: approved_by_def)
qed

definition restart_record :: ApprovalRecord where
  "restart_record = the (adb_approvals (gs_approvals requested) ''a1'')"

lemma restart_record_fields:
  "adb_approvals (gs_approvals requested) = [''a1'' \<mapsto> restart_record]"
  "ap_target restart_record = target_dump (instance_target ''db1'')" "ap_tool_id restart_record = ''database.restart_instance''"
  "ap_tool_version restart_record = ''1.0.0''" "ap_requires_dual_approval restart_record" "ap_actor_subject_id restart_record = ''alice''"
  "ap_approver_1_subject_id restart_record = None" "ap_status restart_record = AP_PENDING" "ap_expires_at restart_record = 600000000"
  "ap_approval_id restart_record = ''a1''"
  "ap_action_hash restart_record = action_hash plain (approval_context (person ''alice'') (restart_request None) restart_admission)"
  by (simp_all add: restart_record_def requested_facts created_approvals_def create_def Let_def empty_db_def approval_context_def
      demo_admission_def demo_evaluation_def demo_records DEFAULT_TTL_SECONDS_def)

definition once_approved :: ApprovalRecord where
  "once_approved = restart_record\<lparr>ap_approver_1_subject_id := Some ''bob'', ap_status := AP_AWAITING_SECOND_APPROVAL\<rparr>"

definition twice_approved :: ApprovalRecord where
  "twice_approved = once_approved\<lparr>ap_approver_2_subject_id := Some ''carol'', ap_status := AP_APPROVED, ap_decided_at := Some 2\<rparr>"

lemma decide_a1:
  assumes "adb_approvals db = [''a1'' \<mapsto> r]" and "ap_approval_id r = ''a1''" and "decided who d now (expire now r) = Inr r'"
  shows "\<exists>db'. decide ''a1'' who d now db = (Inr r', db') \<and> adb_approvals db' = [''a1'' \<mapsto> r']"
proof -
  have wf: "wf_db db" using assms by (auto simp: wf_db_def split: if_splits)
  have look: "adb_approvals db ''a1'' = Some r" using assms by simp
  obtain x db' where x: "decide ''a1'' who d now db = (x, db')" by fastforce
  show ?thesis using decide_found [OF wf look, of who d now] assms x by auto
qed

lemma granted_facts:
  "adb_approvals (gs_approvals granted) = [''a1'' \<mapsto> twice_approved]" "gs_store granted = loaded"
  "gs_buckets granted = restart_buckets 1" "gs_sent granted = []"
proof -
  note fields = restart_record_fields
  have "decided (person ''bob'') APPROVE 1 (expire 1 restart_record) = Inr once_approved"
    by (simp add: decided_def decide_record_def save_def Let_def expire_def fields once_approved_def person_def)
  with decide_a1 [OF fields(1) fields(10)] obtain db1
    where d1: "decide ''a1'' (person ''bob'') APPROVE 1 (gs_approvals requested) = (Inr once_approved, db1)"
      and l1: "adb_approvals db1 = [''a1'' \<mapsto> once_approved]" by blast
  have "adb_approvals (gs_approvals requested) ''a1'' = Some restart_record" by (simp add: fields)
  note s1 = approved_by_facts [OF this fields(2,3,4) d1]
  have c: "decided (person ''carol'') APPROVE 2 (expire 2 once_approved) = Inr twice_approved"
    by (simp add: decided_def decide_record_def save_def Let_def expire_def fields once_approved_def twice_approved_def person_def)
  have "ap_approval_id once_approved = ''a1''" by (simp add: once_approved_def fields)
  from decide_a1 [OF l1 this c] obtain db2
    where d2: "decide ''a1'' (person ''carol'') APPROVE 2 (gs_approvals (approved_by ''bob'' 1 requested)) = (Inr twice_approved, db2)"
      and l2: "adb_approvals db2 = [''a1'' \<mapsto> twice_approved]" unfolding s1 by blast
  have "adb_approvals (gs_approvals (approved_by ''bob'' 1 requested)) ''a1'' = Some once_approved" by (simp add: s1 l1)
  note s2 = approved_by_facts [OF this _ _ _ d2, of "instance_target ''db1''"]
  show "adb_approvals (gs_approvals granted) = [''a1'' \<mapsto> twice_approved]" "gs_store granted = loaded"
    "gs_buckets granted = restart_buckets 1" "gs_sent granted = []"
    unfolding granted_def using s1 s2 l2 requested_facts by (simp_all add: once_approved_def fields)
qed

lemma requested_reachable: "api_reachable demo_env demo_accounts requested"
proof -
  have "api_step demo_env demo_accounts demo_start requested"
    unfolding requested_def by (rule step_submit) (simp add: demo_start_def demo_call_def empty_db_def)
  from api_next [OF api_start this] show ?thesis by (simp add: demo_start_def)
qed

lemma granted_reachable: "api_reachable demo_env demo_accounts granted"
proof -
  have a: "api_step demo_env demo_accounts s (approved_by who t s)" for who t s
    unfolding approved_by_def by (rule step_decision)
  show ?thesis unfolding granted_def by (rule api_next [OF api_next [OF requested_reachable a] a])
qed

lemma restart_never_allowed: "fst (table_decision (he_policy demo_env) environment ''database.restart_instance'' role) \<noteq> ALLOW"
  by (cases environment; cases role) (simp_all add: table_decision_def demo_env_def demo_policy_def dict_get_def)

lemma restart_not_allowed:
  assumes "registry_get (he_tools demo_env) ''database.restart_instance'' None = Inr tool"
    and "check_policy demo_env call identity request tool ctx = Inr e"
  shows "pe_decision e \<noteq> ALLOW"
proof (rule check_policy_not_allowed [OF assms(2)])
  have "td_tool_id tool = ''database.restart_instance''"
    using assms(1) by (auto simp: demo_env_def registry_get_Inr_iff registry_lookup)
  then show "fst (table_decision (he_policy demo_env) environment (td_tool_id tool) role) \<noteq> ALLOW" for environment role
    using restart_never_allowed by simp
qed

lemma verified_a1:
  "\<exists>db. verify_for_execution ''a1'' (action_hash plain (approval_context (person ''alice'') (restart_request (Some ''a1'')) restart_admission))
     3 (gs_approvals granted) = (Inr twice_approved, db)"
proof -
  have id: "ap_approval_id twice_approved = ''a1''" by (simp add: twice_approved_def once_approved_def restart_record_fields)
  have "wf_db (gs_approvals granted)" by (simp add: wf_db_def granted_facts id split: if_splits)
  moreover have "ap_action_hash twice_approved =
      action_hash plain (approval_context (person ''alice'') (restart_request (Some ''a1'')) restart_admission)"
    by (simp add: twice_approved_def once_approved_def restart_record_fields action_hash_def approval_context_def demo_request_def)
  ultimately have "fst (verify_for_execution ''a1''
      (action_hash plain (approval_context (person ''alice'') (restart_request (Some ''a1'')) restart_admission))
      3 (gs_approvals granted)) = Inr twice_approved"
    by (simp add: verify_Inr_iff granted_facts) (simp add: twice_approved_def once_approved_def restart_record_fields)
  then show ?thesis by (metis prod.collapse)
qed

lemma executed_facts:
  "\<exists>resp. demo_submit ''a2'' 3 ''database.restart_instance'' (Some ''a1'') granted = (Inr resp, executed) \<and>
     rs_status resp = TC_EXECUTED \<and> rs_policy_decision resp = Some ''REQUIRES_APPROVAL''"
  "gs_sent executed = [execution_request (demo_call ''a2'' 3) restart_admission]"
proof -
  let ?call = "demo_call ''a2'' 3" and ?body = "restart_request (Some ''a1'')"
  let ?s = "granted\<lparr>gs_store := loaded, gs_buckets := restart_buckets 2\<rparr>"
  have adm: "admit (restart_env (Some ''a1'')) ?call (person ''alice'') ?body granted = (Inr restart_admission, ?s)"
    by (rule demo_admit) (auto simp: granted_facts)
  obtain db where v: "verify_for_execution ''a1''
      (action_hash plain (approval_context (person ''alice'') ?body restart_admission)) 3 (gs_approvals granted) = (Inr twice_approved, db)"
    using verified_a1 by blast
  have "handle_inner (restart_env (Some ''a1'')) ?call (person ''alice'') ?body granted =
      run_call (restart_env (Some ''a1'')) ?call (person ''alice'') ?body restart_admission (?s\<lparr>gs_approvals := db\<rparr>)"
    using adm v by (simp add: handle_inner_def bindM_def zoom_def needs_approval_def demo_admission_def demo_evaluation_def
        demo_request_def demo_call_def demo_env_def)
  moreover obtain r s' where run: "run_call (restart_env (Some ''a1'')) ?call (person ''alice'') ?body restart_admission
      (?s\<lparr>gs_approvals := db\<rparr>) = (r, s')" by fastforce
  ultimately have h: "handle_inner (restart_env (Some ''a1'')) ?call (person ''alice'') ?body granted = (r, s')" by simp
  from run have "\<exists>resp. r = Inr resp \<and> rs_status resp = TC_EXECUTED \<and>
      rs_policy_decision resp = Some ''REQUIRES_APPROVAL'' \<and> gs_sent s' = [execution_request ?call restart_admission]"
  proof (rule run_call_cases)
    have "wf_db (gs_approvals granted)" using granted_reachable by (rule api_reachable_wf)
    from mark_after_verify [OF this, of "''a1''" _ 3 twice_approved "ce_executed_now ?call"] v
    show "fst (mark_executed (opt_or (rq_approval_id ?body) []) (ce_executed_now ?call) (gs_approvals (?s\<lparr>gs_approvals := db\<rparr>))) = Inr ()"
      by (simp add: demo_request_def) (metis fst_conv snd_conv)
  next
    fix x assume "(r, s') = complete (restart_env (Some ''a1'')) ?call (person ''alice'') ?body restart_admission x
        (?s\<lparr>gs_approvals := db, gs_sent := gs_sent (?s\<lparr>gs_approvals := db\<rparr>) @ [execution_request ?call restart_admission],
           gs_approvals := consumed_db ?call ?body restart_admission (gs_approvals (?s\<lparr>gs_approvals := db\<rparr>))\<rparr>)"
    then show ?thesis by (simp add: complete_def Let_def granted_facts demo_admission_def demo_evaluation_def)
  qed (auto simp: demo_env_def demo_execute_def)
  with h demo_submit_eq [of "''database.restart_instance''" "Some ''a1''" "''a2''" 3 granted] show
    "\<exists>resp. demo_submit ''a2'' 3 ''database.restart_instance'' (Some ''a1'') granted = (Inr resp, executed) \<and>
       rs_status resp = TC_EXECUTED \<and> rs_policy_decision resp = Some ''REQUIRES_APPROVAL''"
    "gs_sent executed = [execution_request (demo_call ''a2'' 3) restart_admission]"
    by (auto simp: executed_def)
qed

end
