(* ===== verification/Redis_Backend.thy ===== *)
theory Redis_Backend
  imports Rate_Limiter
begin

text \<open>
  The production backend of the rate limiter (\<open>RedisRateLimitBackend\<close> of
  common/rate_limit_backend.py). Redis is a parameter: the two commands of the pipeline, run one
  after the other at one moment. What is relied on is their documented behaviour, stated over a view
  of the store: of each key its count and, if one is set, the moment it expires at.
\<close>

record 'r redis =
  rd_incr :: "int \<Rightarrow> string \<Rightarrow> 'r \<Rightarrow> int \<times> 'r"
  rd_expire :: "int \<Rightarrow> string \<Rightarrow> int \<Rightarrow> 'r \<Rightarrow> 'r"

definition redis_increment_and_check :: "'r redis \<Rightarrow> int \<Rightarrow> string \<Rightarrow> int \<Rightarrow> int \<Rightarrow> 'r \<Rightarrow> bool \<times> 'r" where
  "redis_increment_and_check rd now key limit window r =
     (case rd_incr rd now key r of (count, r') \<Rightarrow> (count \<le> limit, rd_expire rd now key window r'))"

fun redis_calls :: "'r redis \<Rightarrow> string \<Rightarrow> int \<Rightarrow> int list \<Rightarrow> 'r \<Rightarrow> bool list" where
  \<comment> \<open>what a caller sees of successive calls for one key\<close>
  "redis_calls rd key limit [] r = []"
| "redis_calls rd key limit (t # ts) r =
     (case redis_increment_and_check rd t key limit 60000000 r of (ok, r') \<Rightarrow> ok # redis_calls rd key limit ts r')"

section \<open>What Redis documents\<close>

type_synonym redis_view = "string \<rightharpoonup> int \<times> int option"

definition live :: "redis_view \<Rightarrow> int \<Rightarrow> string \<Rightarrow> (int \<times> int option) option" where
  \<comment> \<open>a key that has expired is gone\<close>
  "live v now k =
     (case v k of None \<Rightarrow> None
      | Some (n, e) \<Rightarrow> (case e of Some t \<Rightarrow> if t \<le> now then None else Some (n, e) | None \<Rightarrow> Some (n, e)))"

definition redis_behaves :: "'r redis \<Rightarrow> ('r \<Rightarrow> redis_view) \<Rightarrow> bool" where
  \<comment> \<open>INCR counts from 0 for a key that is not there and keeps its expiry; EXPIRE sets the expiry of a key\<close>
  "redis_behaves rd view \<longleftrightarrow>
     (\<forall>now k r n e. (case live (view r) now k of None \<Rightarrow> (0, None) | Some x \<Rightarrow> x) = (n, e) \<longrightarrow>
        fst (rd_incr rd now k r) = n + 1 \<and> view (snd (rd_incr rd now k r)) = (view r)(k \<mapsto> (n + 1, e))) \<and>
     (\<forall>now k ttl r n e. live (view r) now k = Some (n, e) \<longrightarrow>
        view (rd_expire rd now k ttl r) = (view r)(k \<mapsto> (n, Some (now + ttl))))"

lemma redis_step:
  assumes "redis_behaves rd view" and "live (view r) now k = x" and "n = (case x of None \<Rightarrow> 0 | Some (n, _) \<Rightarrow> n)"
    and "\<And>m e. x = Some (m, e) \<Longrightarrow> e \<noteq> None"
  obtains r' where "redis_increment_and_check rd now k limit window r = (n + 1 \<le> limit, r')"
    and "view r' = (view r)(k \<mapsto> (n + 1, Some (now + window)))"
proof -
  obtain count r1 where r1: "rd_incr rd now k r = (count, r1)" by fastforce
  obtain e where e: "(case x of None \<Rightarrow> (0, None) | Some y \<Rightarrow> y) = (n, e)" using assms(3) by (cases x) auto
  from assms(1,2) r1 e have c: "count = n + 1" and v: "view r1 = (view r)(k \<mapsto> (n + 1, e))"
    unfolding redis_behaves_def by (metis fst_conv, metis snd_conv)
  have "live (view r1) now k = Some (n + 1, e)"
    using assms(2) e v by (cases x) (auto simp: live_def split: option.splits if_splits prod.splits)
  with assms(1) v have "view (rd_expire rd now k window r1) = (view r)(k \<mapsto> (n + 1, Some (now + window)))"
    unfolding redis_behaves_def by (metis fun_upd_upd)
  with c r1 that show thesis by (simp add: redis_increment_and_check_def)
qed

section \<open>A busy key never gets its budget back\<close>

fun close_together :: "int \<Rightarrow> int list \<Rightarrow> bool" where
  \<comment> \<open>each call less than a minute after the one before\<close>
  "close_together t [] \<longleftrightarrow> True"
| "close_together t (u # us) \<longleftrightarrow> u < t + 60000000 \<and> close_together u us"

lemma redis_calls_counted:
  assumes "redis_behaves rd view"
  shows "view r key = Some (n, Some (t + 60000000)) \<Longrightarrow> close_together t ts \<Longrightarrow> 0 \<le> n \<Longrightarrow>
    redis_calls rd key limit ts r =
      replicate (min (nat (limit - n)) (length ts)) True @ replicate (length ts - nat (limit - n)) False"
proof (induction ts arbitrary: r n t)
  case (Cons u us)
  then have live: "live (view r) u key = Some (n, Some (t + 60000000))" by (simp add: live_def)
  obtain r' where step: "redis_increment_and_check rd u key limit 60000000 r = (n + 1 \<le> limit, r')"
    and v: "view r' = (view r)(key \<mapsto> (n + 1, Some (u + 60000000)))"
    by (rule redis_step [OF assms live]) auto
  from Cons.IH [of r' "n + 1" u] v Cons.prems
  have IH: "redis_calls rd key limit us r' =
      replicate (min (nat (limit - (n + 1))) (length us)) True @ replicate (length us - nat (limit - (n + 1))) False" by simp
  show ?case
  proof (cases "n + 1 \<le> limit")
    case True
    then have "nat (limit - n) = Suc (nat (limit - (n + 1)))" by arith
    with True step IH show ?thesis by simp
  next
    case False
    then have "nat (limit - n) = 0" "nat (limit - (n + 1)) = 0" by auto
    with False step IH show ?thesis by simp
  qed
qed simp

lemma mem_window_reopens:
  assumes "b key = Some (n, t)" and "\<forall>x \<in> set pre. x - t < 60000000" and "60000000 \<le> u - t" and "1 \<le> limit"
  shows "mem_calls key limit (pre @ u # post) b ! length pre"
  using assms(1,2)
proof (induction pre arbitrary: b n)
  case Nil
  with assms(3,4) show ?case by (simp add: increment_and_check_def)
next
  case (Cons x pre)
  then have "increment_and_check x key limit 60000000 b = (n + 1 \<le> limit, b(key \<mapsto> (n + 1, t)))"
    by (simp add: increment_and_check_def Let_def)
  with Cons.IH [of "b(key \<mapsto> (n + 1, t))" "n + 1"] Cons.prems(2) show ?case by (simp add: fun_upd_def)
qed

text \<open>
  C39. With Redis every call moves the expiry of its key, a refused one too: as long as less than a
  minute lies between one call and the next, only the first \<open>limit\<close> calls of a key are ever granted,
  however long it goes on. The window is not fixed, as the class says it is. The in-memory backend
  differs on the same calls: for a key not seen before and a limit of at least one, it grants the
  first call that comes a minute or more after the call that opened the window.
\<close>

theorem redis_budget_never_returns:
  assumes "redis_behaves rd view" and "live (view r) t key = None" and "close_together t ts" and "0 \<le> limit"
  shows "redis_calls rd key limit (t # ts) r =
      replicate (min (nat limit) (Suc (length ts))) True @ replicate (Suc (length ts) - nat limit) False \<and>
    (\<forall>pre u post b. ts = pre @ u # post \<and> (\<forall>x \<in> set pre. x - t < 60000000) \<and> 60000000 \<le> u - t \<and> 1 \<le> limit \<and> b key = None \<longrightarrow>
       mem_calls key limit (t # ts) b ! Suc (length pre))"
proof (intro conjI allI impI)
  fix pre u post and b :: buckets
  assume a: "ts = pre @ u # post \<and> (\<forall>x \<in> set pre. x - t < 60000000) \<and> 60000000 \<le> u - t \<and> 1 \<le> limit \<and> b key = None"
  then have "increment_and_check t key limit 60000000 b = (True, b(key \<mapsto> (1, t)))" by (simp add: increment_and_check_def)
  with a mem_window_reopens [of "b(key \<mapsto> (1, t))" key 1 t pre u limit post]
  show "mem_calls key limit (t # ts) b ! Suc (length pre)" by simp
next
  obtain r' where step: "redis_increment_and_check rd t key limit 60000000 r = (0 + 1 \<le> limit, r')"
    and v: "view r' = (view r)(key \<mapsto> (0 + 1, Some (t + 60000000)))"
    by (rule redis_step [OF assms(1,2)]) auto
  from redis_calls_counted [OF assms(1), of r' key 1 t ts limit] v assms(3)
  have rest: "redis_calls rd key limit ts r' =
      replicate (min (nat (limit - 1)) (length ts)) True @ replicate (length ts - nat (limit - 1)) False" by simp
  show "redis_calls rd key limit (t # ts) r =
      replicate (min (nat limit) (Suc (length ts))) True @ replicate (Suc (length ts) - nat limit) False"
  proof (cases "1 \<le> limit")
    case True
    then have "nat limit = Suc (nat (limit - 1))" by arith
    with True step rest show ?thesis by simp
  next
    case False
    with assms(4) have "limit = 0" by simp
    with step rest show ?thesis by simp
  qed
qed

definition map_redis :: "redis_view redis" where
  \<comment> \<open>a store that is its own view\<close>
  "map_redis =
     \<lparr>rd_incr = (\<lambda>now k v. let (n, e) = (case live v now k of None \<Rightarrow> (0, None) | Some x \<Rightarrow> x) in (n + 1, v(k \<mapsto> (n + 1, e)))),
      rd_expire = (\<lambda>now k ttl v. case live v now k of None \<Rightarrow> v | Some (n, _) \<Rightarrow> v(k \<mapsto> (n, Some (now + ttl))))\<rparr>"

lemma map_redis_behaves: "redis_behaves map_redis (\<lambda>v. v)"
  by (auto simp: redis_behaves_def map_redis_def Let_def split: prod.splits)

theorem redis_budget_never_returns_witness:
  \<comment> \<open>calls every forty seconds with a budget of one per minute: the backends differ\<close>
  "redis_calls map_redis ''k'' 1 [0, 40000000, 80000000] Map.empty = [True, False, False] \<and>
   mem_calls ''k'' 1 [0, 40000000, 80000000] Map.empty ! 2"
proof -
  have l: "live (Map.empty :: redis_view) 0 ''k'' = None" "close_together 0 [40000000, 80000000]" by (simp_all add: live_def)
  note both = redis_budget_never_returns [where view = "\<lambda>v. v" and key = "''k''" and limit = 1, OF map_redis_behaves l]
  from both have "redis_calls map_redis ''k'' 1 [0, 40000000, 80000000] Map.empty = [True, False, False]"
    by (simp add: numeral_2_eq_2)
  moreover from both [THEN conjunct2, rule_format, of "[40000000]" 80000000 "[]" Map.empty]
  have "mem_calls ''k'' 1 [0, 40000000, 80000000] Map.empty ! 2" by (simp add: numeral_2_eq_2)
  ultimately show ?thesis ..
qed

end
