(* ===== verification/Execution_Service.thy ===== *)
theory Execution_Service
  imports Tool_Catalog
begin

text \<open>
  The Execution Service (execution/service.py and the base adapter of execution/adapters/base.py):
  obtaining a connection, dispatching a request to the one adapter method of its tool under a hard
  timeout, the row cap, and the mapping of failures. Credentials, connections, what an engine's
  adapter method returns and how long it takes are parameters; the state is the list of
  connections that are open, where one whose closing raises stays.
\<close>

section \<open>What the service calls\<close>

datatype exec_exn = TimeoutError | NotImplementedError string | OtherError string

datatype adapter_class = SQLServerAdapter | PostgreSQLAdapter | MySQLAdapter

datatype outcome = Rows "jrow list" | Affected jdict

record 'c exec_env =
  xe_credentials :: "string \<Rightarrow> exec_exn + 'c"
  xe_with_database :: "'c \<Rightarrow> string \<Rightarrow> 'c"
  xe_connect :: "Platform \<Rightarrow> 'c \<Rightarrow> exec_exn + unit"
  xe_call :: "adapter_class \<Rightarrow> string \<Rightarrow> string \<Rightarrow> json list \<Rightarrow> exec_exn + outcome"
  xe_micros :: "adapter_class \<Rightarrow> string \<Rightarrow> string \<Rightarrow> json list \<Rightarrow> int option"
    \<comment> \<open>how many microseconds the call takes, \<open>None\<close> for one that never ends\<close>
  xe_close :: "exec_exn + unit"
  xe_duration_ms :: int

section \<open>Dispatch tables\<close>

definition READ_METHODS :: "(string \<times> string \<times> string list) list" where
  "READ_METHODS =
     [(''database.get_health'', ''health'', []),
      (''database.get_version'', ''version'', []),
      (''database.get_sessions'', ''sessions'', []),
      (''database.get_blocking_sessions'', ''blocking'', []),
      (''database.get_deadlocks'', ''deadlocks'', []),
      (''database.get_running_queries'', ''running_queries'', []),
      (''database.get_wait_statistics'', ''waits'', []),
      (''database.get_query_plan'', ''query_plan'', [''query_id'']),
      (''database.get_top_queries'', ''top_queries'', [''order_by'', ''limit'']),
      (''database.get_indexes'', ''indexes'', [''schema_name'', ''table'']),
      (''database.get_statistics'', ''statistics'', [''schema_name'', ''table'']),
      (''database.get_tables'', ''tables'', []),
      (''database.get_storage'', ''storage'', []),
      (''database.get_transaction_log'', ''transaction_log'', []),
      (''database.get_replication_status'', ''replication'', []),
      (''database.get_backup_status'', ''backups'', []),
      (''database.get_configuration'', ''configuration'', []),
      (''database.get_error_logs'', ''error_logs'', [''since_minutes'', ''limit''])]"

definition WRITE_METHODS :: "(string \<times> string \<times> string list) list" where
  "WRITE_METHODS =
     [(''database.cancel_query'', ''cancel_query'', [''session_id'', ''reason'']),
      (''database.kill_session'', ''kill_session'', [''session_id'', ''reason'']),
      (''database.update_statistics'', ''update_statistics'', [''schema_name'', ''table'']),
      (''database.create_index'', ''create_index'', [''schema_name'', ''table'', ''columns'', ''name'', ''unique'']),
      (''database.rebuild_index'', ''rebuild_index'', [''schema_name'', ''table'', ''index_name'']),
      (''database.modify_configuration'', ''modify_configuration'', [''parameter'', ''value'']),
      (''database.restart_instance'', ''restart_instance'', []),
      (''database.failover'', ''failover'', [''target_instance''])]"

definition restricted_dispatch :: "(string \<times> string \<times> string list) list" where
  "restricted_dispatch =
     [(''database.execute_readonly_sql'', ''execute_readonly_sql'', [''sql'']),
      (''database.execute_sql'', ''execute_sql'', [''sql'']),
      (''database.restore_database'', ''restore_database'', [''backup_id'']),
      (''database.create_database'', ''create_database'', [''database_name'']),
      (''database.drop_database'', ''drop_database'', [''database_name'']),
      (''database.truncate_table'', ''truncate_table'', [''schema_name'', ''table'']),
      (''database.bulk_delete'', ''bulk_delete'', [''schema_name'', ''table'', ''predicate_description''])]"

definition base_adapter_call :: "string \<Rightarrow> exec_exn + outcome" where
  \<comment> \<open>the restricted methods of the base class, which an adapter inherits unless it overrides them\<close>
  "base_adapter_call m =
     Inl (NotImplementedError
       (if m = ''execute_readonly_sql''
        then ''execute_readonly_sql is not implemented for this adapter/is disabled.''
        else m @ '' is disabled by default and not implemented.''))"

definition overrides_readonly_sql :: "adapter_class \<Rightarrow> bool" where
  "overrides_readonly_sql cls \<longleftrightarrow> cls = SQLServerAdapter \<or> cls = PostgreSQLAdapter"

definition adapter_call ::
    "'c exec_env \<Rightarrow> adapter_class \<Rightarrow> string \<Rightarrow> string \<Rightarrow> json list \<Rightarrow> exec_exn + outcome" where
  \<comment> \<open>\<open>getattr(adapter, m)(*args)\<close>: no adapter overrides a restricted method but, two of them,
     the read-only SQL one\<close>
  "adapter_call env cls database m args =
     (if m \<in> fst ` snd ` set restricted_dispatch \<and> \<not> (m = ''execute_readonly_sql'' \<and> overrides_readonly_sql cls)
      then base_adapter_call m
      else xe_call env cls database m args)"

definition adapter_micros ::
    "'c exec_env \<Rightarrow> adapter_class \<Rightarrow> string \<Rightarrow> string \<Rightarrow> json list \<Rightarrow> int option" where
  \<comment> \<open>the methods of the base class raise at once\<close>
  "adapter_micros env cls database m args =
     (if m \<in> fst ` snd ` set restricted_dispatch \<and> \<not> (m = ''execute_readonly_sql'' \<and> overrides_readonly_sql cls)
      then Some 0
      else xe_micros env cls database m args)"

definition late :: "nat \<Rightarrow> int option \<Rightarrow> bool" where
  "late timeout micros \<longleftrightarrow> (case micros of None \<Rightarrow> True | Some s \<Rightarrow> int timeout * 1000000 < s)"

definition wait_for :: "nat \<Rightarrow> int option \<Rightarrow> exec_exn + 'a \<Rightarrow> exec_exn + 'a" where
  \<comment> \<open>\<open>asyncio.wait_for\<close>: what is not over in time is cancelled\<close>
  "wait_for timeout micros r = (if late timeout micros then Inl TimeoutError else r)"

section \<open>The service (class ExecutionService)\<close>

definition adapter_class_for :: "Platform \<Rightarrow> exec_exn + adapter_class" where
  "adapter_class_for platform =
     (if platform = SQLSERVER then Inr SQLServerAdapter
      else if platform = POSTGRESQL then Inr PostgreSQLAdapter
      else if platform = MYSQL \<or> platform = MARIADB then Inr MySQLAdapter
      else Inl (NotImplementedError
        (''No adapter registered for platform '' @ quoted (platform_value platform) @
         ''. Adding a new engine (e.g. Oracle) means implementing DatabaseAdapter and registering it here '' @
         em_dash @ '' the Agent/Gateway contract does not change.'')))"

type_synonym connections = "string list"
  \<comment> \<open>the servers connections are open to\<close>

definition build_adapter ::
    "'c exec_env \<Rightarrow> ExecutionRequest \<Rightarrow> (connections, exec_exn, adapter_class) comp" where
  "build_adapter env request =
     bindM (liftE (xe_credentials env (ex_server_id request))) (\<lambda>creds0.
     let creds = (if ex_database request \<noteq> [] then xe_with_database env creds0 (ex_database request) else creds0)
     in bindM (liftE (adapter_class_for (ex_platform request))) (\<lambda>cls.
        bindM (liftE (xe_connect env (ex_platform request) creds)) (\<lambda>_ conns.
          (Inr cls, ex_server_id request # conns))))"

definition lookup_args :: "jdict \<Rightarrow> string list \<Rightarrow> exec_exn + json list" where
  \<comment> \<open>\<open>[args[name] for name in arg_names]\<close>\<close>
  "lookup_args args names =
     (if list_all (\<lambda>n. map_of args n \<noteq> None) names
      then Inr (map (\<lambda>n. the (map_of args n)) names)
      else Inl (OtherError ''KeyError''))"

definition empty_result :: "ExecutionRequest \<Rightarrow> bool \<Rightarrow> ExecutionResult" where
  \<comment> \<open>\<open>ExecutionResult(execution_id, success)\<close> with the defaults of every other field\<close>
  "empty_result request success =
     \<lparr>xr_execution_id = ex_execution_id request, xr_success = success, xr_columns = [], xr_rows = [],
      xr_row_count = 0, xr_truncated = False, xr_affected = [], xr_error_code = None, xr_error_detail = None,
      xr_verification_status = ''NOT_APPLICABLE'', xr_verification_detail = [], xr_duration_ms = 0\<rparr>"

definition row_columns :: "jrow list \<Rightarrow> string list" where
  "row_columns rows = sort (remdups (concat (map (map fst) rows)))"

definition read_result :: "ExecutionRequest \<Rightarrow> jrow list \<Rightarrow> ExecutionResult" where
  "read_result request rows =
     (let kept = take (ex_max_result_rows request) rows
      in (empty_result request True)
           \<lparr>xr_columns := row_columns kept, xr_rows := kept, xr_row_count := length kept,
            xr_truncated := (length rows > ex_max_result_rows request)\<rparr>)"

definition dispatch ::
    "(string \<Rightarrow> json list \<Rightarrow> exec_exn + outcome) \<Rightarrow> ExecutionRequest \<Rightarrow> exec_exn + ExecutionResult" where
  \<comment> \<open>\<open>call\<close> is the adapter: method name and arguments to its outcome\<close>
  "dispatch call request =
     (let tool_id = ex_tool_id request; args = ex_arguments request
      in case map_of READ_METHODS tool_id of
           Some (m, names) \<Rightarrow>
             bindE (lookup_args args names) (\<lambda>vals.
             bindE (call m vals) (\<lambda>out.
               case out of Rows rows \<Rightarrow> Inr (read_result request rows)
               | Affected d \<Rightarrow> Inl (OtherError ''not a list of rows'')))
         | None \<Rightarrow>
         (case map_of WRITE_METHODS tool_id of
            Some (m, names) \<Rightarrow>
              bindE (lookup_args args names) (\<lambda>vals.
              bindE (call m vals) (\<lambda>out.
                case out of Affected d \<Rightarrow> Inr ((empty_result request True)\<lparr>xr_affected := d\<rparr>)
                | Rows rows \<Rightarrow> Inl (OtherError ''not a dict'')))
          | None \<Rightarrow>
          (case map_of restricted_dispatch tool_id of
             Some (m, names) \<Rightarrow>
               bindE (lookup_args args names) (\<lambda>vals.
               bindE (call m vals) (\<lambda>out.
                 case out of
                   Rows rows \<Rightarrow> Inr ((empty_result request True)\<lparr>xr_rows := rows, xr_row_count := length rows\<rparr>)
                 | Affected d \<Rightarrow> Inr ((empty_result request True)\<lparr>xr_affected := d\<rparr>)))
           | None \<Rightarrow>
               Inr ((empty_result request False)
                 \<lparr>xr_error_code := Some (failure_value TOOL_NOT_FOUND),
                  xr_error_detail := Some (''Execution Service has no dispatch entry for '' @ quoted tool_id @ ''.'')\<rparr>))))"

definition failed_result :: "ExecutionRequest \<Rightarrow> int \<Rightarrow> exec_exn \<Rightarrow> ExecutionResult" where
  "failed_result request duration e =
     (let (code, detail) =
        (case e of
           TimeoutError \<Rightarrow> (EXECUTION_TIMEOUT,
             ''Execution exceeded '' @ nat_str (ex_max_execution_time request) @ ''s timeout.'')
         | NotImplementedError msg \<Rightarrow> (TOOL_NOT_AVAILABLE, msg)
         | OtherError _ \<Rightarrow> (EXECUTION_FAILED, ''The database operation failed. See server-side logs for detail.''))
      in (empty_result request False)
           \<lparr>xr_error_code := Some (failure_value code), xr_error_detail := Some detail, xr_duration_ms := duration\<rparr>)"

definition timed_call ::
    "'c exec_env \<Rightarrow> ExecutionRequest \<Rightarrow> adapter_class \<Rightarrow> string \<Rightarrow> json list \<Rightarrow> exec_exn + outcome" where
  \<comment> \<open>\<open>asyncio.wait_for(self._dispatch(...), timeout=request.max_execution_time)\<close>: the adapter's
     method is the one thing a dispatch awaits\<close>
  "timed_call env request cls m args =
     wait_for (ex_max_execution_time request) (adapter_micros env cls (ex_database request) m args)
       (adapter_call env cls (ex_database request) m args)"

definition execute :: "'c exec_env \<Rightarrow> ExecutionRequest \<Rightarrow> (connections, exec_exn, ExecutionResult) comp" where
  \<comment> \<open>the \<open>finally\<close> clause closes the connection once one was opened; when closing raises, the answer
     is lost and the connection is not known to be closed\<close>
  "execute env request conns =
     (case build_adapter env request conns of
        (Inl e, conns') \<Rightarrow> (Inr (failed_result request (xe_duration_ms env) e), conns')
      | (Inr cls, conns') \<Rightarrow>
          let result = (case dispatch (timed_call env request cls) request of
                          Inr r \<Rightarrow> r\<lparr>xr_duration_ms := xe_duration_ms env\<rparr>
                        | Inl e \<Rightarrow> failed_result request (xe_duration_ms env) e)
          in (case xe_close env of
                Inl e \<Rightarrow> (Inl e, conns')
              | Inr _ \<Rightarrow> (Inr result, remove1 (ex_server_id request) conns')))"

section \<open>Facts about dispatch\<close>

lemma dispatch_ids:
  "map fst READ_METHODS @ map fst WRITE_METHODS @ map fst restricted_dispatch = map fst ARGUMENT_MODELS"
  by (simp add: READ_METHODS_def WRITE_METHODS_def restricted_dispatch_def ARGUMENT_MODELS_def)

lemma read_tool_ids: "map td_tool_id read_tools = map fst READ_METHODS"
  by (simp add: read_tools_def READ_METHODS_def read_tool_def)

lemma write_tool_ids: "map td_tool_id write_tools = map fst WRITE_METHODS"
  by (simp add: write_tools_def WRITE_METHODS_def write_tool_def)

lemma restricted_tool_ids: "map td_tool_id (restricted_tools flags) = map fst restricted_dispatch"
  by (simp add: restricted_tools_def restricted_dispatch_def restricted_tool_def)

lemma dispatch_tables_disjoint:
  "set (map fst READ_METHODS) \<inter> set (map fst WRITE_METHODS) = {}"
  "(set (map fst READ_METHODS) \<union> set (map fst WRITE_METHODS)) \<inter> set (map fst restricted_dispatch) = {}"
  using ARGUMENT_MODELS_distinct unfolding dispatch_ids [symmetric] by auto

lemma map_of_dispatch:
  "map_of tbl k \<noteq> None \<longleftrightarrow> k \<in> set (map fst tbl)"
  by (auto simp: map_of_eq_None_iff)

lemma lookup_args_Inr: "list_all (\<lambda>n. map_of args n \<noteq> None) names \<Longrightarrow> \<exists>vals. lookup_args args names = Inr vals"
  by (simp add: lookup_args_def)

lemma read_result_rows [simp]:
  "xr_rows (read_result request rows) = take (ex_max_result_rows request) rows"
  "xr_truncated (read_result request rows) \<longleftrightarrow> length rows > ex_max_result_rows request"
  "xr_row_count (read_result request rows) = min (length rows) (ex_max_result_rows request)"
  "xr_success (read_result request rows)"
  by (simp_all add: read_result_def Let_def empty_result_def)

lemma case_outcome_Inr:
  "(case out of Rows rows \<Rightarrow> f rows | Affected d \<Rightarrow> g d) = Inr r \<longleftrightarrow>
     (\<exists>rows. out = Rows rows \<and> f rows = Inr r) \<or> (\<exists>d. out = Affected d \<and> g d = Inr r)"
  by (cases out) auto

lemma dispatch_read:
  assumes "map_of READ_METHODS (ex_tool_id request) = Some (m, names)" and "dispatch call request = Inr r"
  shows "\<exists>vals rows. lookup_args (ex_arguments request) names = Inr vals \<and> call m vals = Inr (Rows rows) \<and>
     r = read_result request rows"
  using assms by (auto simp: dispatch_def Let_def case_outcome_Inr)

section \<open>Guarantees\<close>

text \<open>
  Dispatch agrees with the catalog: every tool of the catalog has an entry in exactly the
  table of its kind, so a READ tool can only reach a diagnostic method, a WRITE tool only a
  controlled write and a PRIVILEGED tool only a restricted method, and no tool is without one.
\<close>

theorem dispatch_follows_catalog:
  assumes "t \<in> set (build_tool_catalog s)"
  shows "(td_operation_type t = READ \<longleftrightarrow> map_of READ_METHODS (td_tool_id t) \<noteq> None) \<and>
     (td_operation_type t = WRITE \<longleftrightarrow> map_of WRITE_METHODS (td_tool_id t) \<noteq> None) \<and>
     (td_operation_type t = PRIVILEGED \<longleftrightarrow> map_of restricted_dispatch (td_tool_id t) \<noteq> None)"
proof -
  have mem: "x \<in> set xs \<Longrightarrow> map f xs = ys \<Longrightarrow> f x \<in> set ys" for x :: ToolDefinition and xs and f :: "_ \<Rightarrow> string" and ys
    by auto
  from assms show ?thesis
  proof (cases rule: catalog_cases)
    case read_case
    with mem [OF read_case read_tool_ids] dispatch_tables_disjoint show ?thesis
      unfolding map_of_dispatch by (auto simp: read_tools_shape)
  next
    case write_case
    with mem [OF write_case write_tool_ids] dispatch_tables_disjoint show ?thesis
      unfolding map_of_dispatch by (auto simp: write_tools_shape)
  next
    case restricted_case
    with mem [OF restricted_case restricted_tool_ids] dispatch_tables_disjoint show ?thesis
      unfolding map_of_dispatch by (auto simp: restricted_tools_shape)
  qed
qed

theorem dispatch_follows_catalog_witness:
  "map_of WRITE_METHODS ''database.kill_session'' \<noteq> None \<and> map_of READ_METHODS ''database.kill_session'' = None"
proof -
  let ?t = "write_tools ! 1"
  have t: "?t \<in> set (build_tool_catalog default_settings)"
    unfolding build_tool_catalog_def by (simp add: write_tools_def)
  have "td_tool_id ?t = ''database.kill_session''" "td_operation_type ?t = WRITE"
    by (simp_all add: write_tools_def write_tool_def)
  with dispatch_follows_catalog [OF t] show ?thesis by auto
qed

definition method_of :: "string \<Rightarrow> (string \<times> string list) option" where
  "method_of tool_id = map_of (READ_METHODS @ WRITE_METHODS @ restricted_dispatch) tool_id"

definition answers :: "'c exec_env \<Rightarrow> ExecutionRequest \<Rightarrow> ExecutionResult \<Rightarrow> bool" where
  "answers env request r \<longleftrightarrow>
     xr_execution_id r = ex_execution_id request \<and>
     (if xr_success r
      then xr_error_code r = None \<and>
           (\<forall>m names. map_of READ_METHODS (ex_tool_id request) = Some (m, names) \<longrightarrow>
              (\<exists>cls vals rows. lookup_args (ex_arguments request) names = Inr vals \<and>
                 adapter_class_for (ex_platform request) = Inr cls \<and>
                 adapter_call env cls (ex_database request) m vals = Inr (Rows rows) \<and>
                 \<not> late (ex_max_execution_time request) (adapter_micros env cls (ex_database request) m vals) \<and>
                 xr_rows r = take (ex_max_result_rows request) rows \<and>
                 (xr_truncated r \<longleftrightarrow> ex_max_result_rows request < length rows)))
      else xr_rows r = [] \<and>
           (\<exists>code \<in> {EXECUTION_TIMEOUT, TOOL_NOT_AVAILABLE, EXECUTION_FAILED, TOOL_NOT_FOUND}.
              xr_error_code r = Some (failure_value code) \<and>
              (code = EXECUTION_FAILED \<longrightarrow>
                 xr_error_detail r = Some ''The database operation failed. See server-side logs for detail.'')))"

definition hangs :: "'c exec_env \<Rightarrow> ExecutionRequest \<Rightarrow> bool" where
  \<comment> \<open>the method of the tool is called and is not over in time\<close>
  "hangs env request \<longleftrightarrow>
     (\<exists>m names vals cls. method_of (ex_tool_id request) = Some (m, names) \<and> lookup_args (ex_arguments request) names = Inr vals \<and>
        adapter_class_for (ex_platform request) = Inr cls \<and>
        late (ex_max_execution_time request) (adapter_micros env cls (ex_database request) m vals))"

lemma failed_result_answers: "answers env request (failed_result request d e)"
  by (cases e) (simp_all add: answers_def failed_result_def empty_result_def)

lemma timed_call_Inr:
  "timed_call env request cls m vals = Inr out \<longleftrightarrow>
     \<not> late (ex_max_execution_time request) (adapter_micros env cls (ex_database request) m vals) \<and>
     adapter_call env cls (ex_database request) m vals = Inr out"
  by (simp add: timed_call_def wait_for_def)

lemma dispatch_answers:
  assumes "dispatch (timed_call env request cls) request = Inr r" and "adapter_class_for (ex_platform request) = Inr cls"
  shows "answers env request (r\<lparr>xr_duration_ms := d\<rparr>)"
proof (cases "map_of READ_METHODS (ex_tool_id request)")
  case (Some mn)
  then obtain m names where mn: "map_of READ_METHODS (ex_tool_id request) = Some (m, names)" by (cases mn) auto
  from dispatch_read [OF this assms(1)] obtain vals rows where "lookup_args (ex_arguments request) names = Inr vals"
    "timed_call env request cls m vals = Inr (Rows rows)" "r = read_result request rows" by blast
  with mn assms(2) show ?thesis
    by (auto simp: answers_def timed_call_Inr) (simp_all add: read_result_def Let_def empty_result_def)
next
  case None
  from assms(1) have "xr_success r \<and> xr_execution_id r = ex_execution_id request \<and> xr_error_code r = None \<or>
      r = (empty_result request False)\<lparr>xr_error_code := Some (failure_value TOOL_NOT_FOUND),
        xr_error_detail := Some (''Execution Service has no dispatch entry for '' @ quoted (ex_tool_id request) @ ''.'')\<rparr>"
    by (auto simp: dispatch_def None Let_def case_outcome_Inr empty_result_def split: option.splits)
  then show ?thesis using None by (auto simp: answers_def empty_result_def)
qed

lemma dispatch_hangs:
  assumes "hangs env request" and "adapter_class_for (ex_platform request) = Inr cls"
  shows "dispatch (timed_call env request cls) request = Inl TimeoutError"
proof -
  from assms obtain m names vals where m: "method_of (ex_tool_id request) = Some (m, names)"
    and v: "lookup_args (ex_arguments request) names = Inr vals"
    and l: "late (ex_max_execution_time request) (adapter_micros env cls (ex_database request) m vals)"
    by (auto simp: hangs_def)
  have "timed_call env request cls m vals = Inl TimeoutError" using l by (simp add: timed_call_def wait_for_def)
  with m v show ?thesis by (auto simp: method_of_def dispatch_def Let_def map_add_Some_iff split: option.splits)
qed

lemma build_adapter_cases:
  assumes "build_adapter env request conns = (b, c)"
  obtains (failed) e where "b = Inl e" "c = conns"
  | (built) cls where "b = Inr cls" "c = ex_server_id request # conns" "adapter_class_for (ex_platform request) = Inr cls"
  using assms by (auto simp: build_adapter_def bindM_def Let_def split: sum.splits dest: sym)


definition toy_env :: "unit exec_env" where
  "toy_env = \<lparr>xe_credentials = (\<lambda>_. Inr ()), xe_with_database = (\<lambda>c _. c), xe_connect = (\<lambda>_ _. Inr ()),
     xe_call = (\<lambda>_ _ m _. if m = ''health'' then Inr (Rows [[(''ok'', JInt 1)]]) else Inl (OtherError ''boom'')),
     xe_micros = (\<lambda>_ _ m _. if m = ''sessions'' then None else Some 1), xe_close = Inr (), xe_duration_ms = 3\<rparr>"

definition toy_request :: "string \<Rightarrow> ExecutionRequest" where
  "toy_request tool = \<lparr>ex_execution_id = ''e1'', ex_tool_id = tool, ex_tool_version = ''1.0.0'',
     ex_platform = POSTGRESQL, ex_server_id = ''db1'', ex_database = ''core'', ex_schema_name = None,
     ex_object_name = None, ex_session_id = None, ex_query_id = None, ex_arguments = [],
     ex_max_execution_time = 30, ex_max_result_rows = 0\<rparr>"

lemma toy_built: "build_adapter toy_env (toy_request tool) [] = (Inr PostgreSQLAdapter, [''db1''])"
  by (simp add: build_adapter_def bindM_def toy_env_def toy_request_def adapter_class_for_def)

lemma toy_health: "execute toy_env (toy_request ''database.get_health'') [] =
    (Inr ((read_result (toy_request ''database.get_health'') [[(''ok'', JInt 1)]])\<lparr>xr_duration_ms := 3\<rparr>), [])"
proof -
  have "timed_call toy_env (toy_request ''database.get_health'') PostgreSQLAdapter ''health'' [] = Inr (Rows [[(''ok'', JInt 1)]])"
    by (simp add: timed_call_def wait_for_def late_def adapter_micros_def adapter_call_def restricted_dispatch_def toy_env_def toy_request_def)
  moreover have "ex_tool_id (toy_request ''database.get_health'') = ''database.get_health''" by (simp add: toy_request_def)
  ultimately have d: "dispatch (timed_call toy_env (toy_request ''database.get_health'') PostgreSQLAdapter) (toy_request ''database.get_health'') =
      Inr (read_result (toy_request ''database.get_health'') [[(''ok'', JInt 1)]])"
    by (simp add: dispatch_def READ_METHODS_def lookup_args_def)
  show ?thesis unfolding execute_def toy_built by (simp add: d) (simp add: toy_env_def toy_request_def)
qed

lemma toy_hangs: "hangs toy_env (toy_request ''database.get_sessions'')"
  unfolding hangs_def
  by (rule exI [of _ "''sessions''"], rule exI [of _ "[]"], rule exI [of _ "[]"], rule exI [of _ PostgreSQLAdapter])
     (simp add: method_of_def READ_METHODS_def lookup_args_def toy_request_def toy_env_def adapter_micros_def restricted_dispatch_def
       late_def adapter_class_for_def)


end
