(* ===== verification/Tool_Arguments.thy ===== *)
theory Tool_Arguments
  imports Common_Models
begin

text \<open>
  The typed argument models of the tools (common/models/tool_arguments.py): for every model its
  fields with the key they are read under, their constraint and their default. Validation itself
  is the work of the Pydantic library; what the services rely on is that a validated model dumps
  to exactly its fields, each within its constraint (\<open>fits\<close>).
\<close>

section \<open>Field tables\<close>

datatype field_kind =
    StrField nat nat                \<comment> \<open>\<open>min_length\<close>, \<open>max_length\<close>\<close>
  | ChoiceField "string list"       \<comment> \<open>\<open>pattern="^(a|b|...)$"\<close>\<close>
  | IntField int int                \<comment> \<open>\<open>ge\<close>, \<open>le\<close>\<close>
  | BoolField
  | StrListField nat nat

record arg_field =
  af_name :: string
  af_alias :: string
  af_kind :: field_kind
  af_default :: "json option"

definition str_field :: "string \<Rightarrow> nat \<Rightarrow> nat \<Rightarrow> arg_field" where
  "str_field name lo hi = \<lparr>af_name = name, af_alias = name, af_kind = StrField lo hi, af_default = None\<rparr>"

definition reason_field :: arg_field where
  "reason_field = str_field ''reason'' 5 500"

definition schema_field :: arg_field where
  "schema_field = (str_field ''schema_name'' 1 128)\<lparr>af_alias := ''schema''\<rparr>"

definition table_field :: arg_field where
  "table_field = str_field ''table'' 1 128"

definition NoArgs_fields :: "arg_field list" where
  "NoArgs_fields = []"

definition TopQueriesArgs_fields :: "arg_field list" where
  "TopQueriesArgs_fields =
     [\<lparr>af_name = ''order_by'', af_alias = ''order_by'',
       af_kind = ChoiceField [''cpu'', ''duration'', ''reads'', ''writes'', ''executions''],
       af_default = Some (JStr ''cpu'')\<rparr>,
      \<lparr>af_name = ''limit'', af_alias = ''limit'', af_kind = IntField 1 100, af_default = Some (JInt 10)\<rparr>]"

definition QueryPlanArgs_fields :: "arg_field list" where
  "QueryPlanArgs_fields = [str_field ''query_id'' 1 128]"

definition ErrorLogArgs_fields :: "arg_field list" where
  "ErrorLogArgs_fields =
     [\<lparr>af_name = ''since_minutes'', af_alias = ''since_minutes'', af_kind = IntField 1 1440, af_default = Some (JInt 60)\<rparr>,
      \<lparr>af_name = ''limit'', af_alias = ''limit'', af_kind = IntField 1 1000, af_default = Some (JInt 100)\<rparr>]"

definition ReadOnlySqlArgs_fields :: "arg_field list" where
  "ReadOnlySqlArgs_fields = [str_field ''sql'' 1 4000]"

definition CancelQueryArgs_fields :: "arg_field list" where
  "CancelQueryArgs_fields = [str_field ''session_id'' 1 64, reason_field]"

definition KillSessionArgs_fields :: "arg_field list" where
  "KillSessionArgs_fields = [str_field ''session_id'' 1 64, reason_field]"

definition UpdateStatisticsArgs_fields :: "arg_field list" where
  "UpdateStatisticsArgs_fields = [schema_field, table_field, reason_field]"

definition CreateIndexArgs_fields :: "arg_field list" where
  "CreateIndexArgs_fields =
     [schema_field, table_field,
      \<lparr>af_name = ''columns'', af_alias = ''columns'', af_kind = StrListField 1 16, af_default = None\<rparr>,
      str_field ''name'' 1 128,
      \<lparr>af_name = ''unique'', af_alias = ''unique'', af_kind = BoolField, af_default = Some (JBool False)\<rparr>,
      reason_field]"

definition RebuildIndexArgs_fields :: "arg_field list" where
  "RebuildIndexArgs_fields = [schema_field, table_field, str_field ''index_name'' 1 128, reason_field]"

definition ModifyConfigurationArgs_fields :: "arg_field list" where
  "ModifyConfigurationArgs_fields = [str_field ''parameter'' 1 128, str_field ''value'' 1 256, reason_field]"

definition RestartInstanceArgs_fields :: "arg_field list" where
  "RestartInstanceArgs_fields = [reason_field]"

definition FailoverArgs_fields :: "arg_field list" where
  "FailoverArgs_fields = [str_field ''target_instance'' 1 128, reason_field]"

definition ExecuteSqlArgs_fields :: "arg_field list" where
  "ExecuteSqlArgs_fields = [str_field ''sql'' 1 4000, reason_field]"

definition RestoreDatabaseArgs_fields :: "arg_field list" where
  "RestoreDatabaseArgs_fields = [str_field ''backup_id'' 1 128, reason_field]"

definition CreateDatabaseArgs_fields :: "arg_field list" where
  "CreateDatabaseArgs_fields = [str_field ''database_name'' 1 128, reason_field]"

definition DropDatabaseArgs_fields :: "arg_field list" where
  "DropDatabaseArgs_fields = [str_field ''database_name'' 1 128, reason_field]"

definition TruncateTableArgs_fields :: "arg_field list" where
  "TruncateTableArgs_fields = [schema_field, table_field, reason_field]"

definition BulkDeleteArgs_fields :: "arg_field list" where
  "BulkDeleteArgs_fields = [schema_field, table_field, str_field ''predicate_description'' 1 500, reason_field]"

fun argument_fields :: "args_model \<Rightarrow> arg_field list" where
  "argument_fields NoArgs = NoArgs_fields"
| "argument_fields TopQueriesArgs = TopQueriesArgs_fields"
| "argument_fields QueryPlanArgs = QueryPlanArgs_fields"
| "argument_fields ErrorLogArgs = ErrorLogArgs_fields"
| "argument_fields ReadOnlySqlArgs = ReadOnlySqlArgs_fields"
| "argument_fields CancelQueryArgs = CancelQueryArgs_fields"
| "argument_fields KillSessionArgs = KillSessionArgs_fields"
| "argument_fields UpdateStatisticsArgs = UpdateStatisticsArgs_fields"
| "argument_fields CreateIndexArgs = CreateIndexArgs_fields"
| "argument_fields RebuildIndexArgs = RebuildIndexArgs_fields"
| "argument_fields ModifyConfigurationArgs = ModifyConfigurationArgs_fields"
| "argument_fields RestartInstanceArgs = RestartInstanceArgs_fields"
| "argument_fields FailoverArgs = FailoverArgs_fields"
| "argument_fields ExecuteSqlArgs = ExecuteSqlArgs_fields"
| "argument_fields RestoreDatabaseArgs = RestoreDatabaseArgs_fields"
| "argument_fields CreateDatabaseArgs = CreateDatabaseArgs_fields"
| "argument_fields DropDatabaseArgs = DropDatabaseArgs_fields"
| "argument_fields TruncateTableArgs = TruncateTableArgs_fields"
| "argument_fields BulkDeleteArgs = BulkDeleteArgs_fields"

lemmas field_tables =
  NoArgs_fields_def TopQueriesArgs_fields_def QueryPlanArgs_fields_def ErrorLogArgs_fields_def
  ReadOnlySqlArgs_fields_def CancelQueryArgs_fields_def KillSessionArgs_fields_def
  UpdateStatisticsArgs_fields_def CreateIndexArgs_fields_def RebuildIndexArgs_fields_def
  ModifyConfigurationArgs_fields_def RestartInstanceArgs_fields_def FailoverArgs_fields_def
  ExecuteSqlArgs_fields_def RestoreDatabaseArgs_fields_def CreateDatabaseArgs_fields_def
  DropDatabaseArgs_fields_def TruncateTableArgs_fields_def BulkDeleteArgs_fields_def
  str_field_def reason_field_def schema_field_def table_field_def

section \<open>The JSON schema a client sees\<close>

definition schema_properties :: "args_model \<Rightarrow> string list" where
  \<comment> \<open>the keys of \<open>"properties"\<close>: a schema is generated by alias\<close>
  "schema_properties m = map af_alias (argument_fields m)"

definition schema_required :: "args_model \<Rightarrow> string list" where
  \<comment> \<open>\<open>"required"\<close>: the fields without a default\<close>
  "schema_required m = map af_alias (filter (\<lambda>f. af_default f = None) (argument_fields m))"

section \<open>Validated arguments\<close>

fun kind_ok :: "field_kind \<Rightarrow> json \<Rightarrow> bool" where
  "kind_ok (StrField lo hi) (JStr s) \<longleftrightarrow> lo \<le> length s \<and> length s \<le> hi"
| "kind_ok (ChoiceField cs) (JStr s) \<longleftrightarrow> s \<in> set cs"
| "kind_ok (IntField lo hi) (JInt i) \<longleftrightarrow> lo \<le> i \<and> i \<le> hi"
| "kind_ok BoolField (JBool b) \<longleftrightarrow> True"
| "kind_ok (StrListField lo hi) (JArr xs) \<longleftrightarrow>
     lo \<le> length xs \<and> length xs \<le> hi \<and> list_all (\<lambda>x. case x of JStr _ \<Rightarrow> True | _ \<Rightarrow> False) xs"
| "kind_ok _ _ \<longleftrightarrow> False"

definition fits :: "args_model \<Rightarrow> jdict \<Rightarrow> bool" where
  \<comment> \<open>the dump of a validated model: its fields under their names, in order\<close>
  "fits m d \<longleftrightarrow> map fst d = map af_name (argument_fields m) \<and>
     list_all (\<lambda>(f, v). kind_ok (af_kind f) v) (zip (argument_fields m) (map snd d))"

definition dump_field :: "jdict \<Rightarrow> arg_field \<Rightarrow> string + string \<times> json" where
  \<comment> \<open>one field without coercions: under its alias or its name, else its default\<close>
  "dump_field d f =
     (case (case map_of d (af_alias f) of Some v \<Rightarrow> Some v | None \<Rightarrow>
              (case map_of d (af_name f) of Some v \<Rightarrow> Some v | None \<Rightarrow> af_default f)) of
        None \<Rightarrow> Inl (af_alias f @ '': Field required'')
      | Some v \<Rightarrow> if kind_ok (af_kind f) v then Inr (af_name f, v)
                  else Inl (af_alias f @ '': Input is not valid''))"

fun dump_fields :: "jdict \<Rightarrow> arg_field list \<Rightarrow> string + jdict" where
  "dump_fields d [] = Inr []"
| "dump_fields d (f # fs) = bindE (dump_field d f) (\<lambda>kv. bindE (dump_fields d fs) (\<lambda>kvs. Inr (kv # kvs)))"

definition strict_validate :: "args_model \<Rightarrow> jdict \<Rightarrow> string + jdict" where
  \<comment> \<open>a validator that coerces nothing and forbids every other key\<close>
  "strict_validate m d =
     (if list_all (\<lambda>(k, v). k \<in> set (schema_properties m) \<or> k \<in> set (map af_name (argument_fields m))) d
      then dump_fields d (argument_fields m) else Inl ''Extra inputs are not permitted'')"

lemma dump_fields_fit:
  "dump_fields d fs = Inr r \<Longrightarrow>
     map fst r = map af_name fs \<and> list_all (\<lambda>(f, v). kind_ok (af_kind f) v) (zip fs (map snd r))"
  by (induction d fs arbitrary: r rule: dump_fields.induct)
     (auto simp: dump_field_def split: option.splits if_splits)

lemma strict_validate_fits: "strict_validate m d = Inr r \<Longrightarrow> fits m r"
  using dump_fields_fit by (auto simp: strict_validate_def fits_def split: if_splits)

lemma fits_keys:
  assumes "fits m d"
  shows "map_of d k \<noteq> None \<longleftrightarrow> k \<in> set (map af_name (argument_fields m))"
proof -
  from assms have "set (map fst d) = set (map af_name (argument_fields m))" by (simp add: fits_def)
  then show ?thesis by (simp add: map_of_eq_None_iff)
qed

lemma required_subset: "set (schema_required m) \<subseteq> set (schema_properties m)"
  by (auto simp: schema_required_def schema_properties_def)

end
