(* ===== verification/Playbooks.thy ===== *)
theory Playbooks
  imports Tool_Arguments Tool_Catalog
begin

text \<open>
  The library of fixed diagnostic sequences (agent/playbooks/library.py): every playbook with its
  triggers, steps and guidance, the keyword matcher that picks one for a problem text, and the
  fact the rest of the Agent rests on: a playbook proposes read-only diagnostics only, with
  arguments their tools accept.
\<close>

section \<open>Steps and playbooks\<close>

record PlaybookStep =
  ps_tool_id :: string
  ps_purpose :: string
  ps_arguments :: jdict

record Playbook =
  pb_playbook_id :: string
  pb_name :: string
  pb_description :: string
  pb_triggers :: "string list"
  pb_steps :: "PlaybookStep list"
  pb_conclusion_guidance :: string

definition pb_step :: "string \<Rightarrow> string \<Rightarrow> jdict \<Rightarrow> PlaybookStep" where
  "pb_step tool_id purpose arguments = \<lparr>ps_tool_id = tool_id, ps_purpose = purpose, ps_arguments = arguments\<rparr>"

section \<open>The library\<close>

definition deadlocks_guidance :: string where
  "deadlocks_guidance =
     ''Reconstruct the lock-acquisition cycle from the deadlock graph(s): which '' @
     ''sessions/queries were involved, what each held and what each was waiting on, and in '' @
     ''what order. State which session was chosen as the deadlock victim and whether the same '' @
     ''access pattern is still occurring now. Then identify the root-cause category the '' @
     ''evidence actually supports, rather than a generic 'a deadlock happened': inconsistent '' @
     ''table/object access order across the competing transactions, a missing index forcing a '' @
     ''broader scan-and-lock footprint than necessary, a long-running transaction (check '' @
     ''session durations) holding locks longer than needed, a large batch operation or lock '' @
     ''escalation turning many row locks into a table lock, an isolation level stricter than '' @
     ''the workload needs, a trigger or foreign-key check acquiring an additional unexpected '' @
     ''lock, or a maintenance operation contending with normal traffic. If more than one '' @
     ''deadlock graph was returned, note how often this pattern is recurring and whether it '' @
     ''clusters around a particular time. Recommend a fix that matches the actual root cause '' @
     em_dash @
     '' consistent access order, an index, smaller transactions/batches, application-level '' @
     ''retry handling, an isolation-level review, or separating conflicting workloads '' @
     em_dash @
     '' rather than generic advice.''"

definition pb_deadlocks :: Playbook where
  "pb_deadlocks =
     \<lparr>pb_playbook_id = ''deadlocks'', pb_name = ''Deadlock Investigation'',
      pb_description = ''A reported deadlock or repeated deadlocking.'',
      pb_triggers =
       [''deadlock'', ''deadlocks'', ''deadlocked'', ''deadlocking'', ''dead lock''],
      pb_steps =
       [pb_step ''database.get_deadlocks'' (''Pulling recent deadlock graphs.'') [],
        pb_step ''database.get_blocking_sessions'' (''Checking for blocking still in progress.'') [],
        pb_step ''database.get_running_queries'' (''Checking what's running now around the same objects.'') [],
        pb_step ''database.get_sessions'' (''Checking session durations for long-running transactions that could be contributing to '' @
           ''the lock-acquisition cycle.'') []],
      pb_conclusion_guidance = deadlocks_guidance\<rparr>"

definition blocking_guidance :: string where
  "blocking_guidance =
     ''Identify the head blocker (session, query, how long it's held the lock) and who's '' @
     ''waiting on it. Classify what the head blocker actually is, not just that it's blocking: '' @
     ''an active/long-running query, an idle-in-transaction session (its statement finished '' @
     ''but the transaction was never committed/rolled back), a large batch operation, a '' @
     ''reporting query, a DDL statement, a maintenance operation, a replication/log-shipping '' @
     ''process, or unknown if the evidence doesn't clearly say. Quantify the impact: how many '' @
     ''sessions are blocked, the longest single wait, and whether the chain is static or '' @
     ''spreading (more waiters appearing behind the same head blocker). Then test '' @
     em_dash @
     '' not just narrate '' @
     em_dash @
     '' the plausible hypotheses against the evidence actually gathered: a long-running '' @
     ''transaction holding locks past when they were needed, a missing index forcing broader '' @
     ''locking, lock escalation to a table-level lock, DDL contention (a schema change '' @
     ''blocking readers/writers), an isolation level stricter than necessary, an application '' @
     ''connection/transaction leak (a session left open after its work finished), a large '' @
     ''batch operation, or a broader infrastructure slowdown making every query '' @
     em_dash @
     '' including the blocker itself '' @
     em_dash @
     '' run long. State which hypothesis the evidence supports and which it rules out. '' @
     ''Recommend cancelling the blocking query or killing the session only if it's clearly '' @
     ''safe to do so '' @
     em_dash @
     '' never propose it as the only option without saying what it would affect.''"

definition pb_blocking :: Playbook where
  "pb_blocking =
     \<lparr>pb_playbook_id = ''blocking'', pb_name = ''Blocking / Locking Investigation'',
      pb_description = ''Sessions blocked, stuck, or waiting on locks.'',
      pb_triggers =
       [''blocking'', ''blocked'', ''block chain'', ''locking'', ''lock wait'',
        ''stuck'', ''hanging'', ''won't complete'', ''not completing''],
      pb_steps =
       [pb_step ''database.get_blocking_sessions'' (''Mapping the current blocking chain.'') [],
        pb_step ''database.get_running_queries'' (''Checking what the head blocker and waiters are running.'') [],
        pb_step ''database.get_wait_statistics'' (''Checking whether lock waits dominate overall wait time.'') [],
        pb_step ''database.get_sessions'' (''Checking how long the blocking session has been open.'') []],
      pb_conclusion_guidance = blocking_guidance\<rparr>"

definition slow_queries_guidance :: string where
  "slow_queries_guidance =
     ''Name the specific query/queries responsible if the evidence points to one, and whether '' @
     ''the cause looks like a missing index, stale statistics, blocking, or resource pressure '' @
     ''(CPU/waits) rather than the query itself. Avoid introspection/system-catalog queries '' @
     ''when picking 'the' slow query '' @
     em_dash @
     '' THIS IS VERY IMPORTANT: a top-ranked row against the engine's own catalog/metadata '' @
     ''views (Postgres: pg_catalog, information_schema; SQL Server: sys.*, INFORMATION_SCHEMA; '' @
     ''MySQL/MariaDB: information_schema, performance_schema, mysql) is noise from '' @
     ''monitoring/introspection, almost never the reported slowness, and must not be named as '' @
     ''the root cause.''"

definition pb_slow_queries :: Playbook where
  "pb_slow_queries =
     \<lparr>pb_playbook_id = ''slow_queries'', pb_name = ''Slow Query Investigation'',
      pb_description = ''Queries or the database generally running slower than expected.'',
      pb_triggers =
       [''slow'', ''slowness'', ''slow query'', ''slow queries'', ''performance issue'',
        ''taking too long'', ''timing out'', ''timeout'', ''high latency'', ''latency'',
        ''queries are slow'', ''query is slow'', ''running slow''],
      pb_steps =
       [pb_step ''database.get_health'' (''Establishing a baseline health snapshot.'') [],
        pb_step ''database.get_running_queries'' (''Checking what's executing right now.'') [],
        pb_step ''database.get_top_queries'' (''Ranking queries by duration.'') [(''order_by'', JStr ''duration'')],
        pb_step ''database.get_wait_statistics'' (''Checking what the engine is spending time waiting on.'') [],
        pb_step ''database.get_blocking_sessions'' (''Ruling out blocking as the cause.'') []],
      pb_conclusion_guidance = slow_queries_guidance\<rparr>"

definition high_cpu_guidance :: string where
  "high_cpu_guidance =
     ''Name the query/queries driving CPU if the evidence points to one or a small number, and '' @
     ''whether this looks like a single runaway query, a plan regression, or broad concurrent '' @
     ''load. Avoid introspection/system-catalog queries when picking 'the' hot query '' @
     em_dash @
     '' THIS IS VERY IMPORTANT: a top-ranked row against the engine's own catalog/metadata '' @
     ''views (Postgres: pg_catalog, information_schema; SQL Server: sys.*, INFORMATION_SCHEMA; '' @
     ''MySQL/MariaDB: information_schema, performance_schema, mysql) is noise from '' @
     ''monitoring/introspection, almost never the reported CPU driver, and must not be named '' @
     ''as the root cause.''"

definition pb_high_cpu :: Playbook where
  "pb_high_cpu =
     \<lparr>pb_playbook_id = ''high_cpu'', pb_name = ''High CPU Investigation'',
      pb_description = ''Elevated or spiking CPU usage on the instance.'',
      pb_triggers =
       [''cpu'', ''high cpu'', ''cpu spike'', ''cpu usage'', ''cpu utilization'',
        ''processor usage''],
      pb_steps =
       [pb_step ''database.get_health'' (''Establishing a CPU/resource baseline.'') [],
        pb_step ''database.get_top_queries'' (''Ranking queries by CPU consumption.'') [(''order_by'', JStr ''cpu'')],
        pb_step ''database.get_running_queries'' (''Checking what's currently executing.'') [],
        pb_step ''database.get_wait_statistics'' (''Checking for CPU-related (signal) waits.'') []],
      pb_conclusion_guidance = high_cpu_guidance\<rparr>"

definition high_memory_guidance :: string where
  "high_memory_guidance =
     ''State whether the configured memory limit looks undersized for the observed load, or '' @
     ''whether a small number of queries are driving the pressure. Before recommending '' @
     ''anything, work out where the pressure is actually coming from: the database engine's '' @
     ''own allocations (buffer pool/shared buffers/plan cache), a specific query or small set '' @
     ''of queries, or pressure outside the engine entirely (the host, a container/VM memory '' @
     ''limit, or another service sharing the box) '' @
     em_dash @
     '' note plainly that host/container-level memory isn't something this system can directly '' @
     ''measure, so treat that as a hypothesis to raise when the in-engine evidence doesn't '' @
     ''explain the pressure, not a measured finding. Validate '' @
     em_dash @
     '' don't just assume '' @
     em_dash @
     '' each plausible hypothesis against the evidence gathered: an oversized memory '' @
     ''grant/setting relative to the actual workload, a poor query plan requesting more memory '' @
     ''than it needs (e.g. a bad cardinality estimate driving a large sort/hash), excessive '' @
     ''concurrent sessions each holding their own allocation, a genuine leak (usage that only '' @
     ''climbs, with no corresponding drop), a configuration value left at an unreasonable '' @
     ''default, host-level overcommitment, or the instance being undersized for its actual '' @
     ''load. Treat a restart as a last resort that requires explicit DBA approval '' @
     em_dash @
     '' never the first recommendation, and never proposed unprompted before the above has '' @
     ''actually been checked; when it is worth mentioning, say plainly that it only clears '' @
     ''symptoms like a leak or plan-cache bloat and does not fix a genuine undersizing or '' @
     ''misconfiguration, which will recur.''"

definition pb_high_memory :: Playbook where
  "pb_high_memory =
     \<lparr>pb_playbook_id = ''high_memory'', pb_name = ''High Memory Investigation'',
      pb_description = ''Memory pressure, high memory usage, or out-of-memory conditions.'',
      pb_triggers =
       [''memory'', ''high memory'', ''memory pressure'', ''out of memory'', ''oom'',
        ''memory usage'', ''memory leak'', ''running out of memory''],
      pb_steps =
       [pb_step ''database.get_health'' (''Establishing a memory baseline.'') [],
        pb_step ''database.get_configuration'' (''Checking configured memory limits.'') [],
        pb_step ''database.get_top_queries'' (''Ranking queries by reads (buffer/memory pressure proxy).'') [(''order_by'', JStr ''reads'')],
        pb_step ''database.get_running_queries'' (''Checking what's currently executing.'') []],
      pb_conclusion_guidance = high_memory_guidance\<rparr>"

definition connections_guidance :: string where
  "connections_guidance =
     ''State the current session count against the configured limit, and whether one '' @
     ''application/account is holding a disproportionate number of connections. Lead with that '' @
     ''comparison: if current usage is well under the configured max (comfortable headroom), '' @
     ''say so plainly and stop there '' @
     em_dash @
     '' do not manufacture a false alarm or invent tuning advice from otherwise-healthy '' @
     ''numbers just because an investigation was run. Reserve genuine concern for when usage '' @
     ''is meaningfully close to the limit, or one application/account holds a disproportionate '' @
     ''share regardless of the overall total.''"

definition pb_connections :: Playbook where
  "pb_connections =
     \<lparr>pb_playbook_id = ''connections'', pb_name = ''Connection Saturation Investigation'',
      pb_description = ''Connection limits, refused/failed connections, or too many open sessions.'',
      pb_triggers =
       [''connection'', ''connections'', ''too many connections'', ''connection pool'',
        ''max connections'', ''can't connect'', ''cannot connect'',
        ''connection refused'', ''connection limit'', ''out of connections''],
      pb_steps =
       [pb_step ''database.get_sessions'' (''Listing current sessions.'') [],
        pb_step ''database.get_health'' (''Establishing a baseline.'') [],
        pb_step ''database.get_configuration'' (''Checking the configured max-connections limit.'') []],
      pb_conclusion_guidance = connections_guidance\<rparr>"

definition replication_guidance :: string where
  "replication_guidance =
     ''State the current lag (or sync state) per replica and whether it's within the expected '' @
     ''range for this environment '' @
     em_dash @
     '' but go beyond the raw number: assess stale-read risk for anything reading from that '' @
     ''replica, RPO/RTO exposure if the primary failed over right now, whether the lag is '' @
     ''itself creating primary-side risk (a lagging or disconnected replica can hold WAL/log '' @
     ''open, which shows up as unexpected storage growth on the primary '' @
     em_dash @
     '' worth a separate storage check if that's suspected), whether the lag/queue is growing '' @
     ''or holding steady, and which applications or read paths are actually affected. Validate '' @
     ''the likely cause against the evidence rather than only reporting the lag figure: '' @
     ''network latency between primary and replica, storage or CPU pressure on the replica '' @
     ''itself, an unusually large write volume on the primary outpacing apply capacity, a '' @
     ''long-running transaction on the replica blocking apply, a disconnected or dropped '' @
     ''replica, replication-slot retention holding WAL/log no longer being consumed, an '' @
     ''apply/redo worker that has stalled or errored, or the replica being undersized for the '' @
     ''write rate it needs to keep up with.''"

definition pb_replication :: Playbook where
  "pb_replication =
     \<lparr>pb_playbook_id = ''replication'', pb_name = ''Replication Investigation'',
      pb_description = ''Replication lag, Always On, or streaming replication issues.'',
      pb_triggers =
       [''replication'', ''replica'', ''replicas'', ''replication lag'', ''lagging'',
        ''always on'', ''availability group'', ''streaming replication'', ''standby''],
      pb_steps =
       [pb_step ''database.get_replication_status'' (''Checking replication/Always On status and lag.'') [],
        pb_step ''database.get_health'' (''Establishing a primary-side health baseline.'') [],
        pb_step ''database.get_wait_statistics'' (''Checking for waits consistent with replication pressure.'') []],
      pb_conclusion_guidance = replication_guidance\<rparr>"

definition backups_guidance :: string where
  "backups_guidance =
     ''State the time and status of the most recent full/log backup and whether it's within '' @
     ''the expected recovery-point objective for this environment '' @
     em_dash @
     '' and do the actual arithmetic: explicitly calculate and state the recovery-point gap '' @
     ''(time elapsed since the last successful full backup, and separately since the last '' @
     ''successful log/differential backup) against the environment's expected RPO, rather than '' @
     ''only reporting whether the most recent job 'succeeded' or 'failed'. If the backup '' @
     ''history data returned includes any signal about restore-test history (e.g. a last '' @
     ''restore-test timestamp or status), report it; if no such signal is present, say plainly '' @
     ''that restore-test history isn't available from this data rather than guessing or '' @
     ''omitting it silently. Classify the overall finding with an explicit severity instead of '' @
     ''a flat pass/fail: informational (healthy, comfortably within RPO), warning (approaching '' @
     ''the RPO boundary, or a single non-critical job failed), high (the RPO is already '' @
     ''exceeded, or the full-backup chain is broken), or critical (no successful backup within '' @
     ''a large multiple of the RPO, or backups have been failing repeatedly with no current '' @
     ''recovery point achievable). State which severity applies and why.''"

definition pb_backups :: Playbook where
  "pb_backups =
     \<lparr>pb_playbook_id = ''backups'', pb_name = ''Backup Health Investigation'',
      pb_description = ''Missed, failed, or overdue backups.'',
      pb_triggers =
       [''backup'', ''backups'', ''backup failed'', ''backup job'', ''last backup'',
        ''backup status''],
      pb_steps =
       [pb_step ''database.get_backup_status'' (''Checking recent backup history and status.'') [],
        pb_step ''database.get_storage'' (''Checking available storage for the next backup.'') []],
      pb_conclusion_guidance = backups_guidance\<rparr>"

definition storage_guidance :: string where
  "storage_guidance =
     ''State current usage vs. capacity, and '' @
     em_dash @
     '' if the evidence points to one '' @
     em_dash @
     '' what's actually driving growth: unexpected data growth, transaction log retention, a '' @
     ''failed/paused backup chain, table/index bloat, an archive/purge job that stopped '' @
     ''running, auto-growth events, replication backlog holding old WAL/log segments, or '' @
     ''storage throttling. If the transaction log specifically looks like the driver, say so '' @
     ''explicitly and note that the transaction_log playbook (triggered by phrasing like '' @
     [CHR 0x27] @
     ''transaction log full' or 'log won't truncate') investigates log reuse blockers in '' @
     ''depth.''"

definition pb_storage :: Playbook where
  "pb_storage =
     \<lparr>pb_playbook_id = ''storage'', pb_name = ''Storage Capacity Investigation'',
      pb_description = ''Disk space or overall storage capacity risk (not specifically the transaction log).'',
      pb_triggers =
       [''disk space'', ''disk full'', ''running out of space'', ''out of disk'',
        ''out of space'', ''storage''],
      pb_steps =
       [pb_step ''database.get_storage'' (''Checking overall storage/space utilization.'') [],
        pb_step ''database.get_health'' (''Establishing a baseline.'') []],
      pb_conclusion_guidance = storage_guidance\<rparr>"

definition transaction_log_guidance :: string where
  "transaction_log_guidance =
     ''Identify which concrete reuse blocker is actually responsible, not just current log '' @
     ''usage: an active or long-running transaction, replication lag (a lagging replica '' @
     ''holding the log open), a failed or stalled log backup (the single most common reuse '' @
     ''blocker on SQL Server, and often tied to WAL retention/archiving on Postgres), log '' @
     ''shipping/mirroring/snapshots holding old log records, or a maintenance operation '' @
     ''blocking log reuse. Name the specific blocker the evidence supports rather than '' @
     ''describing usage alone.''"

definition pb_transaction_log :: Playbook where
  "pb_transaction_log =
     \<lparr>pb_playbook_id = ''transaction_log'', pb_name = ''Transaction Log Investigation'',
      pb_description = ''The transaction log (or WAL) growing, filling up, or failing to reuse space.'',
      pb_triggers =
       [''transaction log full'', ''transaction log growth'', ''log growing'',
        ''log full'', ''log is full'', ''wal growing'', ''log can't reuse'',
        ''log cannot reuse'', ''log won't truncate'', ''log will not truncate'',
        ''log reuse'', ''transaction log''],
      pb_steps =
       [pb_step ''database.get_transaction_log'' (''Checking transaction log / WAL usage.'') [],
        pb_step ''database.get_replication_status'' (''Checking for a lagging replica holding the log/WAL open.'') [],
        pb_step ''database.get_backup_status'' (''Checking for a stalled or failed log backup blocking log reuse.'') [],
        pb_step ''database.get_health'' (''Establishing a baseline.'') []],
      pb_conclusion_guidance = transaction_log_guidance\<rparr>"

definition errors_guidance :: string where
  "errors_guidance =
     ''Summarize the distinct error(s) found (not just a raw dump), how recent/frequent each '' @
     ''is, and which looks most likely to be the reported problem. Classify each distinct '' @
     ''finding into a category rather than a raw list of log lines '' @
     em_dash @
     '' pick whichever of these actually fits: availability, authentication, authorization, '' @
     ''storage, memory, CPU, network, corruption, backup, replication, locking, configuration, '' @
     ''security, or application integration. Correlate against the other signals gathered in '' @
     ''this same investigation when relevant, rather than treating log entries in isolation: a '' @
     ''lock-timeout or deadlock-related error should be cross-checked against the '' @
     ''blocking-chain and deadlock-graph evidence gathered above to say whether it's still '' @
     ''happening or was transient, and note when a logged error's underlying condition no '' @
     ''longer appears in the other evidence gathered (it looks resolved) versus still being '' @
     ''present now (still ongoing).''"

definition pb_errors :: Playbook where
  "pb_errors =
     \<lparr>pb_playbook_id = ''errors'', pb_name = ''Error Log Investigation'',
      pb_description = ''Errors, exceptions, or failures reported in the error log.'',
      pb_triggers =
       [''error log'', ''error logs'', ''errors in the log'', ''exceptions'',
        ''failing queries'', ''crashing'', ''keeps crashing'', ''seeing errors''],
      pb_steps =
       [pb_step ''database.get_error_logs'' (''Pulling recent error log entries.'') [],
        pb_step ''database.get_health'' (''Establishing a baseline.'') [],
        pb_step ''database.get_blocking_sessions'' (''Checking for current blocking to correlate against any lock-timeout or blocking-related '' @
           ''error entries.'') [],
        pb_step ''database.get_deadlocks'' (''Checking for recent deadlock graphs to correlate against any deadlock-related error '' @
           ''entries.'') [],
        pb_step ''database.get_running_queries'' (''Checking what's currently executing.'') []],
      pb_conclusion_guidance = errors_guidance\<rparr>"

definition comprehensive_summary_guidance :: string where
  "comprehensive_summary_guidance =
     ''This is the broadest playbook in the library '' @
     em_dash @
     '' the concluding report must synthesize, not restate. Organize findings into the '' @
     ''categories a DBA actually triages by, mirroring the General Health Check structure used '' @
     ''elsewhere in this project: availability (is it up, overall health snapshot), resource '' @
     ''pressure (from get_health's own numbers), workload/blocking (active blocking chains), '' @
     ''protection/backups (backup status, storage headroom), and logs (recent error log '' @
     ''entries). Only speak to a category you actually have evidence for '' @
     em_dash @
     '' this playbook's fixed steps do not include a replication/HA or configuration check, so '' @
     ''never state or imply replication is 'fine' or that configuration looks reasonable; '' @
     ''simply omit those categories rather than guessing (point the DBA at the dedicated '' @
     ''`replication` or `configuration_review` playbook if either looks worth a closer look). '' @
     ''THIS IS THE IMPORTANT PART: for each category you do have evidence for, report ONLY '' @
     ''what deviates from normal or needs attention '' @
     em_dash @
     '' do not restate a clean result at all, for any category. Close with an explicit '' @
     ''sentence to the effect of 'all other checks came back clean' (naming which categories, '' @
     ''if it reads better) covering everything unremarkable, instead of walking through every '' @
     ''check one by one. A DBA asking for a comprehensive summary wants a short, scannable '' @
     ''list of what matters, not a wall of 'X is fine, Y is fine, Z is fine' for a half-dozen '' @
     ''checks. Also state plainly, once, that this reflects only the current moment on this '' @
     ''one server '' @
     em_dash @
     '' no trend/delta comparison against a prior day is available (no historical data store '' @
     ''exists in this system), and this is not a multi-server sweep.''"

definition pb_comprehensive_summary :: Playbook where
  "pb_comprehensive_summary =
     \<lparr>pb_playbook_id = ''comprehensive_summary'', pb_name = ''Comprehensive Health Summary'',
      pb_description = ''A DBA-requested comprehensive sweep across this project's read-only diagnostics for ONE '' @
      ''server in one shot '' @
      em_dash @
      '' not tied to a specific symptom, and deliberately broader/heavier than general_health's '' @
      ''quick 4-step pulse check. Scoped honestly, two ways: (1) this reports the server's '' @
      ''CURRENT state only '' @
      em_dash @
      '' there is no historical data store anywhere in this system, so it cannot do trend/delta '' @
      ''comparison against yesterday or any prior run '' @
      em_dash @
      '' and it covers exactly one server per invocation, never a fleet. Sweeping multiple '' @
      ''servers on a schedule is separate orchestration that calls this playbook once per '' @
      ''server; it now exists (`agent.scheduled_report`, via '' @
      ''`orchestrator.run_comprehensive_summary`), but it is still not something this playbook '' @
      ''does itself, and nothing about this playbook changes when it is invoked that way except '' @
      ''that the investigation is marked read-only. (2) Every investigation in this project '' @
      em_dash @
      '' playbook or freeform '' @
      em_dash @
      '' shares one turn budget, `orchestrator._MAX_INVESTIGATION_TURNS` (6 as of this '' @
      ''writing), and every playbook in this library is required to leave at least one turn '' @
      ''free for the model's own unrestricted concluding call (see '' @
      ''`test_deepened_playbooks_stay_within_the_shared_turn_budget`), so a single invocation '' @
      ''can run at most 5 deterministic diagnostic calls before that final call. Rather than '' @
      ''declare 12 steps '' @
      em_dash @
      '' one per instance-wide read tool '' @
      em_dash @
      '' and have most of them silently never run (verified live '' @
      em_dash @
      '' the turn budget simply stops submitting further steps once spent, with no warning), '' @
      ''this playbook's 5 steps were chosen to span the widest practical breadth '' @
      em_dash @
      '' availability, resource pressure, workload/blocking, protection/backups, storage '' @
      ''capacity, and logs '' @
      em_dash @
      '' within that shared budget. Configuration is deliberately left out of this particular '' @
      ''sweep: it already has its own dedicated `configuration_review` playbook, and cutting it '' @
      ''here (rather than blocking, backups, storage, or logs) keeps the daily-pulse categories '' @
      ''that change moment to moment. Raising the shared cap (or giving this one playbook a '' @
      ''larger budget of its own) is an orchestrator.py change and explicitly out of scope '' @
      ''here.'',
      pb_triggers =
       [''daily summary'', ''comprehensive health check'', ''full health report'',
        ''complete status'', ''everything about this server'', ''full report'',
        ''daily report'', ''comprehensive check'', ''complete health check'',
        ''full diagnostic''],
      pb_steps =
       [pb_step ''database.get_health'' (''Establishing the overall instance/database health baseline.'') [],
        pb_step ''database.get_blocking_sessions'' (''Checking for any active blocking chains.'') [],
        pb_step ''database.get_backup_status'' (''Checking recent backup history and status.'') [],
        pb_step ''database.get_storage'' (''Checking storage/space utilization.'') [],
        pb_step ''database.get_error_logs'' (''Pulling recent error log entries.'') []],
      pb_conclusion_guidance = comprehensive_summary_guidance\<rparr>"

definition general_health_guidance :: string where
  "general_health_guidance =
     ''Give a concise overall status and call out anything that stood out, even if nothing '' @
     ''looks urgent. Classify the overall finding with one explicit status word '' @
     em_dash @
     '' healthy, informational, warning, high, critical, or unknown (use unknown only when the '' @
     ''diagnostics themselves failed or returned unusable data, never as a hedge when they '' @
     ''succeeded) '' @
     em_dash @
     '' rather than a loose narrative. Crucially: an all-clear answer must look just as '' @
     ''complete and confident as a problem answer, never vaguer or shorter just because '' @
     ''nothing was wrong '' @
     em_dash @
     '' a DBA reading the reply should not be able to tell, from how thin it is, whether '' @
     ''things were actually checked and found fine versus not checked carefully. State plainly '' @
     ''what was checked (current activity, dominant wait types, storage headroom) and that '' @
     ''nothing concerning was found there, rather than a one-line 'looks fine'.''"

definition pb_general_health :: Playbook where
  "pb_general_health =
     \<lparr>pb_playbook_id = ''general_health'', pb_name = ''General Health Check'',
      pb_description = ''A general request to check overall health/status, not a specific symptom.'',
      pb_triggers =
       [''health check'', ''how is'', ''how's'', ''overall status'', ''general status'',
        ''status check'', ''how is it doing'', ''how's it doing'', ''everything okay'',
        ''everything ok''],
      pb_steps =
       [pb_step ''database.get_health'' (''Checking overall instance/database health.'') [],
        pb_step ''database.get_running_queries'' (''Checking current activity.'') [],
        pb_step ''database.get_wait_statistics'' (''Checking dominant wait types.'') [],
        pb_step ''database.get_storage'' (''Checking storage headroom.'') []],
      pb_conclusion_guidance = general_health_guidance\<rparr>"

definition configuration_review_guidance :: string where
  "configuration_review_guidance =
     ''This is a rule-of-thumb review, not a capacity-sized recommendation '' @
     em_dash @
     '' be explicit that no instance-class/hardware (CPU/RAM) data was available to size '' @
     ''against, so never claim a setting is 'correctly sized for this hardware'; only flag '' @
     ''values that look clearly unreasonable or left at an obvious default. Weigh the '' @
     ''parameters relevant to whichever engine actually responded: Postgres '' @
     em_dash @
     '' shared_buffers, effective_cache_size, work_mem, maintenance_work_mem, wal_buffers, '' @
     ''checkpoint_completion_target, max_connections, default_statistics_target, '' @
     ''random_page_cost, effective_io_concurrency, min_wal_size/max_wal_size, '' @
     ''max_worker_processes, max_parallel_workers(_per_gather). SQL Server '' @
     em_dash @
     '' 'max server memory (MB)'/'min server memory (MB)', 'max degree of parallelism', 'cost '' @
     ''threshold for parallelism', and the max-connections-equivalent ('user connections'). '' @
     ''MySQL/MariaDB '' @
     em_dash @
     '' innodb_buffer_pool_size, innodb_log_file_size, max_connections, '' @
     ''tmp_table_size/max_heap_table_size, innodb_flush_log_at_trx_commit, thread_cache_size. '' @
     ''Cross-check against get_health's own numbers (e.g. active_connections vs. '' @
     ''max_connections) where relevant, and say plainly when nothing looks obviously '' @
     ''misconfigured rather than manufacturing tuning advice from reasonable-looking defaults.''"

definition pb_configuration_review :: Playbook where
  "pb_configuration_review =
     \<lparr>pb_playbook_id = ''configuration_review'', pb_name = ''Configuration Tuning Review'',
      pb_description = ''A proactive review of server/database configuration for common, rule-of-thumb '' @
      ''misconfigurations '' @
      em_dash @
      '' not a request tied to a specific symptom. Scoped honestly: this flags settings that '' @
      ''look clearly unreasonable by common rule-of-thumb ranges and obvious misconfigurations, '' @
      ''not true capacity-based sizing (Numi's server registry has no '' @
      ''instance-class/hardware-sizing data to size against).'',
      pb_triggers =
       [''tune'', ''tuning'', ''configuration review'', ''review settings'',
        ''optimize configuration'', ''recommend settings'', ''config recommendations'',
        ''are our settings okay''],
      pb_steps =
       [pb_step ''database.get_configuration'' (''Pulling current server/database configuration parameters.'') [],
        pb_step ''database.get_health'' (''Establishing a baseline (connection count, size, uptime) to contextualize the settings.'') []],
      pb_conclusion_guidance = configuration_review_guidance\<rparr>"

definition PLAYBOOKS :: "Playbook list" where
  "PLAYBOOKS =
     [pb_deadlocks, pb_blocking, pb_slow_queries, pb_high_cpu, pb_high_memory,
      pb_connections, pb_replication, pb_backups, pb_storage, pb_transaction_log,
      pb_errors, pb_comprehensive_summary, pb_general_health, pb_configuration_review]"

lemmas playbook_defs =
  pb_deadlocks_def pb_blocking_def pb_slow_queries_def pb_high_cpu_def pb_high_memory_def
  pb_connections_def pb_replication_def pb_backups_def pb_storage_def pb_transaction_log_def
  pb_errors_def pb_comprehensive_summary_def pb_general_health_def pb_configuration_review_def

definition get_playbook :: "string option \<Rightarrow> Playbook option" where
  \<comment> \<open>the dict by id holds the last playbook of an id; ids are distinct\<close>
  "get_playbook playbook_id =
     (case playbook_id of None \<Rightarrow> None | Some i \<Rightarrow> find (\<lambda>p. pb_playbook_id p = i) PLAYBOOKS)"

section \<open>Matching\<close>

definition word_char :: "char \<Rightarrow> bool" where
  \<comment> \<open>\<open>\w\<close> of a regular expression\<close>
  "word_char c \<longleftrightarrow> is_digit c \<or> is_lower c \<or> is_upper c \<or> c = CHR ''_''"

definition starts_word :: "string \<Rightarrow> bool" where
  "starts_word s \<longleftrightarrow> s \<noteq> [] \<and> word_char (hd s)"

fun search_word :: "bool \<Rightarrow> string \<Rightarrow> string \<Rightarrow> bool" where
  \<comment> \<open>\<open>re.search(r"\b" + re.escape(trigger) + r"\b", text)\<close>: \<open>after_word\<close> says whether the
     character before the text is a word character; \<open>\b\<close> holds where exactly one side is\<close>
  "search_word after_word trigger [] =
     (trigger = [] \<and> after_word)"
| "search_word after_word trigger (c # cs) =
     ((prefix trigger (c # cs) \<and> after_word \<noteq> word_char c \<and>
       (if trigger = [] then after_word else word_char (last trigger)) \<noteq>
         starts_word (drop (length trigger) (c # cs))) \<or>
      search_word (word_char c) trigger cs)"

definition pb_matches :: "string \<Rightarrow> string \<Rightarrow> bool" where
  "pb_matches text trigger = search_word False trigger text"

definition match_playbook :: "string \<Rightarrow> Playbook option" where
  "match_playbook problem_text =
     (let text = lower problem_text
      in if strip text = [] then None
         else find (\<lambda>p. list_ex (pb_matches text) (pb_triggers p)) PLAYBOOKS)"

section \<open>What the steps are\<close>

lemma playbook_ids_distinct: "distinct (map pb_playbook_id PLAYBOOKS)"
  by (simp add: PLAYBOOKS_def playbook_defs)

lemma get_playbook_Some: "get_playbook i = Some p \<Longrightarrow> p \<in> set PLAYBOOKS \<and> i = Some (pb_playbook_id p)"
  by (auto simp: get_playbook_def split: option.splits dest: find_Some_iff_mem)

lemma match_playbook_Some:
  "match_playbook text = Some p \<Longrightarrow> p \<in> set PLAYBOOKS \<and> get_playbook (Some (pb_playbook_id p)) = Some p"
proof -
  assume "match_playbook text = Some p"
  then have p: "p \<in> set PLAYBOOKS"
    by (auto simp: match_playbook_def Let_def split: if_splits dest: find_Some_iff_mem)
  have "distinct (map f xs) \<Longrightarrow> x \<in> set xs \<Longrightarrow> find (\<lambda>y. f y = f x) xs = Some x" for f :: "Playbook \<Rightarrow> string" and x xs
    by (induction xs) force+
  from this [OF playbook_ids_distinct p] p show ?thesis by (simp add: get_playbook_def)
qed

definition diagnostics :: "(string \<times> args_model) list" where
  \<comment> \<open>the read-only tools of the catalog with their argument models\<close>
  "diagnostics = map (\<lambda>t. (td_tool_id t, td_argument_schema t)) read_tools"

definition step_ok :: "PlaybookStep \<Rightarrow> bool" where
  "step_ok s \<longleftrightarrow> (case map_of diagnostics (ps_tool_id s) of
      None \<Rightarrow> False | Some m \<Rightarrow> (case strict_validate m (ps_arguments s) of Inl _ \<Rightarrow> False | Inr _ \<Rightarrow> True))"

lemma steps_ok: "list_all (\<lambda>p. list_all step_ok (pb_steps p)) PLAYBOOKS"
  by code_simp

lemma diagnosticsD: "map_of diagnostics i = Some m \<Longrightarrow> \<exists>t \<in> set read_tools. td_tool_id t = i \<and> td_argument_schema t = m"
  by (drule map_of_SomeD) (auto simp: diagnostics_def)

text \<open>
  A playbook never proposes an action: every step of every playbook names a READ tool of the
  catalog that is enabled and needs no approval, whatever the deployment's settings, and its fixed
  arguments are valid for that tool without any coercion.
\<close>

theorem playbooks_read_only:
  assumes "p \<in> set PLAYBOOKS" and "st \<in> set (pb_steps p)"
  shows "\<exists>t \<in> set (build_tool_catalog s). td_tool_id t = ps_tool_id st \<and> td_operation_type t = READ \<and>
     td_enabled t \<and> \<not> td_requires_approval t \<and>
     (\<exists>d. strict_validate (td_argument_schema t) (ps_arguments st) = Inr d)"
proof -
  from steps_ok assms have "step_ok st" by (auto simp: list_all_iff)
  then obtain m d where m: "map_of diagnostics (ps_tool_id st) = Some m"
    and d: "strict_validate m (ps_arguments st) = Inr d"
    by (auto simp: step_ok_def split: option.splits sum.splits)
  from diagnosticsD [OF m] obtain t where t: "t \<in> set read_tools" "td_tool_id t = ps_tool_id st"
      "td_argument_schema t = m" by blast
  then have "td_operation_type t = READ \<and> td_enabled t \<and> \<not> td_requires_approval t"
    using read_tools_shape by blast
  moreover from t(1) have "t \<in> set (build_tool_catalog s)" by (simp add: build_tool_catalog_def)
  ultimately show ?thesis using t d by blast
qed

theorem playbooks_read_only_witness:
  "\<exists>t \<in> set (build_tool_catalog default_settings). td_tool_id t = ''database.get_deadlocks'' \<and> td_operation_type t = READ"
  using playbooks_read_only [of pb_deadlocks "pb_step ''database.get_deadlocks'' ''Pulling recent deadlock graphs.'' []"
      default_settings]
  by (auto simp: PLAYBOOKS_def pb_deadlocks_def pb_step_def)

end
