(* ===== verification/Agent_Text.thy ===== *)
theory Agent_Text
  imports Json_Canonical Playbooks
begin

text \<open>
  Texts the Agent builds: Python's \<open>repr\<close> and \<open>str\<close> of JSON values, the default rendering of
  \<open>json.dumps\<close>, and the CamelCase identifiers a conclusion claims, which the grounding check of
  the investigation loop looks for in the evidence.
\<close>

section \<open>repr and str\<close>

definition repr_quote :: "string \<Rightarrow> char" where
  \<comment> \<open>double quotes only around a text with a single quote and no double quote\<close>
  "repr_quote s = (if CHR 0x27 \<in> set s \<and> CHR 0x22 \<notin> set s then CHR 0x22 else CHR 0x27)"

definition repr_char :: "char \<Rightarrow> char \<Rightarrow> string" where
  "repr_char q c =
     (if c = CHR 0x5C \<or> c = q then [CHR 0x5C, c]
      else if c = CHR 0x0A then [CHR 0x5C, CHR ''n'']
      else if c = CHR 0x0D then [CHR 0x5C, CHR ''r'']
      else if c = CHR 0x09 then [CHR 0x5C, CHR ''t'']
      else if char_code c < 32 \<or> char_code c = 127
      then [CHR 0x5C, CHR ''x'', hex_digit (char_code c div 16), hex_digit (char_code c mod 16)]
      else [c])"

definition repr_string :: "string \<Rightarrow> string" where
  "repr_string s = (let q = repr_quote s in [q] @ concat (map (repr_char q) s) @ [q])"

fun py_repr :: "json \<Rightarrow> string" and py_repr_list :: "json list \<Rightarrow> string" and py_repr_members :: "jdict \<Rightarrow> string"
where
  "py_repr JNull = ''None''"
| "py_repr (JBool b) = (if b then ''True'' else ''False'')"
| "py_repr (JInt i) = int_str i"
| "py_repr (JStr s) = repr_string s"
| "py_repr (JArr xs) = ''['' @ py_repr_list xs @ '']''"
| "py_repr (JObj kvs) = ''{'' @ py_repr_members kvs @ ''}''"
| "py_repr_list [] = []"
| "py_repr_list (x # xs) = py_repr x @ (if xs = [] then [] else '', '' @ py_repr_list xs)"
| "py_repr_members [] = []"
| "py_repr_members ((k, v) # kvs) =
     repr_string k @ '': '' @ py_repr v @ (if kvs = [] then [] else '', '' @ py_repr_members kvs)"

definition py_str :: "json \<Rightarrow> string" where
  "py_str v = (case v of JStr s \<Rightarrow> s | _ \<Rightarrow> py_repr v)"

section \<open>json.dumps with its default separators\<close>

fun dumps_default :: "json \<Rightarrow> string" and dumps_default_list :: "json list \<Rightarrow> string"
  and dumps_default_members :: "jdict \<Rightarrow> string"
where
  "dumps_default JNull = ''null''"
| "dumps_default (JBool b) = (if b then ''true'' else ''false'')"
| "dumps_default (JInt i) = int_str i"
| "dumps_default (JStr s) = dumps_string s"
| "dumps_default (JArr xs) = ''['' @ dumps_default_list xs @ '']''"
| "dumps_default (JObj kvs) = ''{'' @ dumps_default_members kvs @ ''}''"
| "dumps_default_list [] = []"
| "dumps_default_list (x # xs) = dumps_default x @ (if xs = [] then [] else '', '' @ dumps_default_list xs)"
| "dumps_default_members [] = []"
| "dumps_default_members ((k, v) # kvs) =
     dumps_string k @ '': '' @ dumps_default v @ (if kvs = [] then [] else '', '' @ dumps_default_members kvs)"

section \<open>CamelCase identifiers\<close>

fun camel_rest :: "nat \<Rightarrow> bool \<Rightarrow> string \<Rightarrow> bool" where
  \<comment> \<open>\<open>humps\<close> upper-case letters read; \<open>tailed\<close>: the last one is followed by \<open>[a-z0-9]+\<close>\<close>
  "camel_rest humps tailed [] \<longleftrightarrow> tailed \<and> 2 \<le> humps"
| "camel_rest humps tailed (c # cs) \<longleftrightarrow>
     (if is_upper c then tailed \<and> camel_rest (Suc humps) False cs
      else (is_lower c \<or> is_digit c) \<and> camel_rest humps True cs)"

definition camel_case :: "string \<Rightarrow> bool" where
  \<comment> \<open>\<open>[A-Z][a-z0-9]+(?:[A-Z][a-z0-9]+)+\<close> on a whole word\<close>
  "camel_case w \<longleftrightarrow> w \<noteq> [] \<and> is_upper (hd w) \<and> camel_rest 1 False (tl w)"

fun word_runs :: "string \<Rightarrow> string \<Rightarrow> string list" where
  \<comment> \<open>the maximal runs of word characters, \<open>acc\<close> being the reversed run so far\<close>
  "word_runs acc [] = (if acc = [] then [] else [rev acc])"
| "word_runs acc (c # cs) =
     (if word_char c then word_runs (c # acc) cs
      else (if acc = [] then [] else [rev acc]) @ word_runs [] cs)"

definition camel_names :: "string \<Rightarrow> string list" where
  \<comment> \<open>\<open>re.finditer(r"\b[A-Z][a-z0-9]+(?:[A-Z][a-z0-9]+)+\b", text)\<close>: between two \<open>\b\<close> every
     match is a whole run of word characters\<close>
  "camel_names text = filter camel_case (word_runs [] text)"

end
