(* ===== verification/Python_Text.thy ===== *)
theory Python_Text
  imports Agent_Text Policy_Engine
begin

text \<open>
  More of the Python standard library, as the outer services use it: \<open>int\<close> of a text, a comprehension
  whose elements may raise, \<open>get\<close> of a decoded JSON value, stripping and replacing of one character,
  and \<open>str.format\<close> with one keyword.
\<close>

section \<open>int(s)\<close>

definition int_of_text :: "string \<Rightarrow> int result" where
  "int_of_text s = (case py_int s of None \<Rightarrow> Inl (PyExn ''ValueError'') | Some i \<Rightarrow> Inr i)"

section \<open>Comprehensions that may raise\<close>

fun mapE :: "('a \<Rightarrow> 'e + 'b) \<Rightarrow> 'a list \<Rightarrow> 'e + 'b list" where
  "mapE f [] = Inr []"
| "mapE f (x # xs) = bindE (f x) (\<lambda>y. bindE (mapE f xs) (\<lambda>ys. Inr (y # ys)))"

lemma bindE_cong [fundef_cong]:
  "r = r' \<Longrightarrow> (\<And>a. r' = Inr a \<Longrightarrow> f a = g a) \<Longrightarrow> bindE r f = bindE r' g"
  by (cases r') simp_all

lemma mapE_cong [fundef_cong]:
  "xs = ys \<Longrightarrow> (\<And>x. x \<in> set ys \<Longrightarrow> f x = g x) \<Longrightarrow> mapE f xs = mapE g ys"
  by (induction ys arbitrary: xs) auto

lemma mapE_Inr: "mapE f xs = Inr ys \<longleftrightarrow> list_all2 (\<lambda>x y. f x = Inr y) xs ys"
  by (induction xs arbitrary: ys) (auto simp: list_all2_Cons1)

section \<open>Decoded JSON values\<close>

definition py_get :: "json \<Rightarrow> string \<Rightarrow> json \<Rightarrow> json result" where
  \<comment> \<open>\<open>v.get(k, d)\<close>: only a dict has it\<close>
  "py_get v k d =
     (case v of JObj kvs \<Rightarrow> Inr (case map_of kvs k of None \<Rightarrow> d | Some x \<Rightarrow> x) | _ \<Rightarrow> Inl (PyExn ''AttributeError''))"

definition py_item :: "json \<Rightarrow> string \<Rightarrow> json result" where
  \<comment> \<open>\<open>d[k]\<close> of a dict\<close>
  "py_item v k =
     (case v of JObj kvs \<Rightarrow> (case map_of kvs k of None \<Rightarrow> Inl (PyExn ''KeyError'') | Some x \<Rightarrow> Inr x)
      | _ \<Rightarrow> Inl (PyExn ''TypeError''))"

definition json_or :: "json \<Rightarrow> json \<Rightarrow> json" where
  \<comment> \<open>\<open>v or d\<close>\<close>
  "json_or v d = (if truthy v then v else d)"

lemma py_get_obj [simp]: "py_get (JObj kvs) k d = Inr (case map_of kvs k of None \<Rightarrow> d | Some x \<Rightarrow> x)"
  by (simp add: py_get_def)

lemma py_get_Inl: "py_get v k d = Inl e \<Longrightarrow> e = PyExn ''AttributeError''"
  by (simp add: py_get_def split: json.splits)

section \<open>Stripping one character\<close>

definition rstrip_char :: "char \<Rightarrow> string \<Rightarrow> string" where
  "rstrip_char c s = rev (dropWhile (\<lambda>x. x = c) (rev s))"

definition strip_char :: "char \<Rightarrow> string \<Rightarrow> string" where
  "strip_char c s = dropWhile (\<lambda>x. x = c) (rstrip_char c s)"

definition removeprefix :: "string \<Rightarrow> string \<Rightarrow> string" where
  "removeprefix p s = (if prefix p s then drop (length p) s else s)"

section \<open>Replacing one character\<close>

fun replace_char :: "char \<Rightarrow> string \<Rightarrow> string \<Rightarrow> string" where
  \<comment> \<open>\<open>s.replace(c, t)\<close> for a single character\<close>
  "replace_char c t [] = []"
| "replace_char c t (x # s) = (if x = c then t else [x]) @ replace_char c t s"

section \<open>template.format(key=v)\<close>

text \<open>
  Doubled braces stand for single ones and a plain field \<open>{name}\<close> for the value of its keyword; a
  name that is no keyword raises. A field with an attribute, an index, a conversion or a format
  specification is read by \<open>other\<close>, which gets the text after its opening brace and returns what
  the field stands for and how many characters it takes.
\<close>

definition field_stop :: "char \<Rightarrow> bool" where
  "field_stop c \<longleftrightarrow> c \<in> set ''{}:![.''"

function str_format :: "(string \<Rightarrow> (string \<times> nat) result) \<Rightarrow> string \<Rightarrow> string \<Rightarrow> string \<Rightarrow> string result" where
  "str_format other key v [] = Inr []"
| "str_format other key v (c # s) =
     (if c = CHR ''{''
      then if s = [] then Inl (PyExn ''ValueError'')
           else if hd s = CHR ''{'' then bindE (str_format other key v (tl s)) (\<lambda>t. Inr (c # t))
           else let name = takeWhile (\<lambda>x. \<not> field_stop x) s; rest = drop (length name) s
                in if rest \<noteq> [] \<and> hd rest = CHR ''}''
                   then if name = key then bindE (str_format other key v (tl rest)) (\<lambda>t. Inr (v @ t))
                        else Inl (PyExn (if list_all is_digit name then ''IndexError'' else ''KeyError''))
                   else bindE (other s) (\<lambda>(x, n). bindE (str_format other key v (drop n s)) (\<lambda>t. Inr (x @ t)))
      else if c = CHR ''}''
      then if s \<noteq> [] \<and> hd s = CHR ''}'' then bindE (str_format other key v (tl s)) (\<lambda>t. Inr (c # t))
           else Inl (PyExn ''ValueError'')
      else bindE (str_format other key v s) (\<lambda>t. Inr (c # t)))"
  by pat_completeness auto
termination
  by (relation "measure (\<lambda>(other, key, v, s). length s)") auto

definition brace_free :: "string \<Rightarrow> bool" where
  "brace_free s \<longleftrightarrow> CHR ''{'' \<notin> set s \<and> CHR ''}'' \<notin> set s"

lemma brace_free_simps [simp]:
  "brace_free []" "brace_free (c # s) \<longleftrightarrow> c \<noteq> CHR ''{'' \<and> c \<noteq> CHR ''}'' \<and> brace_free s"
  "brace_free (s @ t) \<longleftrightarrow> brace_free s \<and> brace_free t"
  by (auto simp: brace_free_def)

lemma str_format_literal:
  "brace_free s \<Longrightarrow> str_format other key v (s @ t) = bindE (str_format other key v t) (\<lambda>u. Inr (s @ u))"
proof (induction s)
  case Nil
  show ?case by (cases "str_format other key v t") simp_all
next
  case (Cons c s)
  then show ?case by (cases "str_format other key v t") simp_all
qed

lemma takeWhile_name: "list_all (\<lambda>x. \<not> field_stop x) name \<Longrightarrow> takeWhile (\<lambda>x. \<not> field_stop x) (name @ CHR ''}'' # t) = name"
  by (induction name) (auto simp: field_stop_def)

lemma str_format_field:
  assumes "list_all (\<lambda>x. \<not> field_stop x) name"
  shows "str_format other key v (CHR ''{'' # name @ CHR ''}'' # t) =
     (if name = key then bindE (str_format other key v t) (\<lambda>u. Inr (v @ u))
      else Inl (PyExn (if list_all is_digit name then ''IndexError'' else ''KeyError'')))"
proof -
  have "hd (name @ CHR ''}'' # t) \<noteq> CHR ''{''" using assms by (cases name) (auto simp: field_stop_def)
  then show ?thesis by (simp add: takeWhile_name [OF assms] Let_def)
qed

declare str_format.simps [simp del]

end
