(* ===== verification/Python_Time.thy ===== *)
theory Python_Time
  imports Numi_Prelude
begin

text \<open>
  Calendar dates of the Python standard library: the proleptic Gregorian ordinal of a date and its
  inverse, as \<open>datetime\<close> computes them, and the rendering of a moment in UTC by
  \<open>strftime("%Y-%m-%d %H:%M:%S")\<close>. The inverse is proved to be one.
\<close>

section \<open>Ordinals of dates\<close>

definition is_leap :: "int \<Rightarrow> bool" where
  "is_leap year \<longleftrightarrow> year mod 4 = 0 \<and> (year mod 100 \<noteq> 0 \<or> year mod 400 = 0)"

definition days_before_year :: "int \<Rightarrow> int" where
  "days_before_year year = (let y = year - 1 in y * 365 + y div 4 - y div 100 + y div 400)"

definition DAYS_BEFORE_MONTH :: "int list" where
  "DAYS_BEFORE_MONTH = [0, 0, 31, 59, 90, 120, 151, 181, 212, 243, 273, 304, 334]"

definition days_before_month :: "bool \<Rightarrow> int \<Rightarrow> int" where
  "days_before_month leap month =
     DAYS_BEFORE_MONTH ! nat month + (if month > 2 \<and> leap then 1 else 0)"

definition ymd2ord :: "int \<times> int \<times> int \<Rightarrow> int" where
  "ymd2ord = (\<lambda>(year, month, day). days_before_year year + days_before_month (is_leap year) month + day)"

definition month_day :: "bool \<Rightarrow> int \<Rightarrow> int \<times> int" where
  \<comment> \<open>the month and the day of the \<open>n\<close>th day of a year, from 0: an estimate that is at most one too
     large\<close>
  "month_day leap n =
     (let month = (n + 50) div 32;
          month' = (if days_before_month leap month > n then month - 1 else month)
      in (month', n - days_before_month leap month' + 1))"

definition ord2ymd :: "int \<Rightarrow> int \<times> int \<times> int" where
  "ord2ymd ordinal =
     (let n = ordinal - 1;
          n400 = n div 146097; n = n mod 146097;
          n100 = n div 36524; n = n mod 36524;
          n4 = n div 1461; n = n mod 1461;
          n1 = n div 365; n = n mod 365;
          year = n400 * 400 + 1 + n100 * 100 + n4 * 4 + n1
      in if n1 = 4 \<or> n100 = 4 then (year - 1, 12, 31)
         else (year, month_day (n1 = 3 \<and> (n4 \<noteq> 24 \<or> n100 = 3)) n))"

lemma month_day_back:
  assumes "0 \<le> n" and "n < (if leap then 366 else 365)"
  shows "(case month_day leap n of (month, day) \<Rightarrow> days_before_month leap month + day) = n + 1"
  by (simp add: month_day_def Let_def)

lemma days_before_year_of:
  assumes "0 \<le> a" "a \<le> 3" "0 \<le> b" "b \<le> 24" "0 \<le> c" "c \<le> (3::int)"
  shows "days_before_year (q * 400 + 1 + a * 100 + b * 4 + c) = 146097 * q + 36524 * a + 1461 * b + 365 * c"
    and "is_leap (q * 400 + 1 + a * 100 + b * 4 + c) \<longleftrightarrow> c = 3 \<and> (b \<noteq> 24 \<or> a = 3)"
proof -
  let ?y = "q * 400 + a * 100 + b * 4 + c"
  have quotient: "(k * m + r) div m = k" if "0 \<le> r" "r < m" for k m r :: int
    using that by (simp add: div_pos_pos_trivial)
  have "?y div 4 = q * 100 + a * 25 + b" "?y div 100 = q * 4 + a" "?y div 400 = q"
    using quotient [of c 4 "q * 100 + a * 25 + b"] quotient [of "b * 4 + c" 100 "q * 4 + a"]
      quotient [of "a * 100 + b * 4 + c" 400 q] assms by (simp_all add: algebra_simps)
  then show "days_before_year (q * 400 + 1 + a * 100 + b * 4 + c) = 146097 * q + 36524 * a + 1461 * b + 365 * c"
    by (simp add: days_before_year_def Let_def algebra_simps)
  have multiple: "(k * m + r) mod m = 0 \<longleftrightarrow> r = m" if "0 < r" "r \<le> m" for k m r :: int
    using that by (cases "r = m") (simp_all add: mod_pos_pos_trivial)
  have "(?y + 1) mod 4 = 0 \<longleftrightarrow> c = 3"
    using multiple [of "c + 1" 4 "q * 100 + a * 25 + b"] assms by (simp add: algebra_simps)
  moreover have "(?y + 1) mod 100 = 0 \<longleftrightarrow> b = 24 \<and> c = 3"
    using multiple [of "b * 4 + c + 1" 100 "q * 4 + a"] assms by (simp add: algebra_simps) linarith
  moreover have "(?y + 1) mod 400 = 0 \<longleftrightarrow> a = 3 \<and> b = 24 \<and> c = 3"
    using multiple [of "a * 100 + b * 4 + c + 1" 400 q] assms by (simp add: algebra_simps) linarith
  ultimately show "is_leap (q * 400 + 1 + a * 100 + b * 4 + c) \<longleftrightarrow> c = 3 \<and> (b \<noteq> 24 \<or> a = 3)"
    by (auto simp: is_leap_def algebra_simps)
qed

theorem ymd2ord_ord2ymd: "ymd2ord (ord2ymd n) = n"
proof -
  define r0 where "r0 = (n - 1) mod 146097"
  define q a b c where "q = (n - 1) div 146097" and "a = r0 div 36524" and "b = r0 mod 36524 div 1461"
    and "c = r0 mod 36524 mod 1461 div 365"
  define d where "d = r0 mod 36524 mod 1461 mod 365"
  have n: "n = 146097 * q + r0 + 1" by (simp add: q_def r0_def)
  have r0: "r0 = 36524 * a + 1461 * b + 365 * c + d" "0 \<le> r0" "r0 < 146097"
    by (simp_all add: a_def b_def c_def d_def r0_def)
  have d: "0 \<le> d" "d < 365" by (simp_all add: d_def)
  have "365 * c + d = r0 mod 36524 mod 1461" by (simp add: c_def d_def)
  then have cd: "0 \<le> 365 * c + d" "365 * c + d < 1461" by simp_all
  have "1461 * b + (365 * c + d) = r0 mod 36524" by (simp add: b_def c_def d_def)
  then have bcd: "0 \<le> 1461 * b + (365 * c + d)" "1461 * b + (365 * c + d) < 36524" by simp_all
  have bounds: "0 \<le> a" "a \<le> 4" "0 \<le> b" "b \<le> 24" "0 \<le> c" "c \<le> 4" "0 \<le> d" "d < 365"
    using d cd bcd r0 by linarith+
  have last: "a = 4 \<Longrightarrow> b = 0 \<and> c = 0 \<and> d = 0" using r0 bounds by linarith
  have leapday: "c = 4 \<Longrightarrow> d = 0 \<and> b \<noteq> 24" using cd bcd d by linarith
  have unfold: "ord2ymd n = (if c = 4 \<or> a = 4 then (q * 400 + 1 + a * 100 + b * 4 + c - 1, 12, 31)
      else (q * 400 + 1 + a * 100 + b * 4 + c, month_day (c = 3 \<and> (b \<noteq> 24 \<or> a = 3)) d))"
    by (simp add: ord2ymd_def Let_def q_def a_def b_def c_def d_def r0_def)
  consider "a = 4" | "a \<noteq> 4" "c = 4" | "a \<le> 3" "c \<le> 3" using bounds by linarith
  then show ?thesis
  proof cases
    case 1
    then show ?thesis unfolding unfold using last n r0 days_before_year_of [of 3 24 3 q]
      by (simp add: ymd2ord_def days_before_month_def DAYS_BEFORE_MONTH_def algebra_simps)
  next
    case 2
    then show ?thesis unfolding unfold using leapday n r0 bounds days_before_year_of [of a b 3 q]
      by (simp add: ymd2ord_def days_before_month_def DAYS_BEFORE_MONTH_def algebra_simps)
  next
    case 3
    have "(case month_day (c = 3 \<and> (b \<noteq> 24 \<or> a = 3)) d of (month, day) \<Rightarrow>
        days_before_month (c = 3 \<and> (b \<noteq> 24 \<or> a = 3)) month + day) = d + 1"
      by (rule month_day_back) (use bounds in auto)
    with 3 bounds n r0 show ?thesis unfolding unfold
      by (simp add: ymd2ord_def days_before_year_of split: prod.splits)
  qed
qed

section \<open>Rendering a moment in UTC\<close>

definition EPOCH_ORDINAL :: int where
  \<comment> \<open>\<open>date(1970, 1, 1).toordinal()\<close>\<close>
  "EPOCH_ORDINAL = 719163"

definition two_digits :: "int \<Rightarrow> string" where
  "two_digits i = (if i < 10 then ''0'' else []) @ int_str i"

definition utc_seconds_text :: "int \<Rightarrow> string option" where
  \<comment> \<open>the moment is in microseconds since the epoch; None when the year is not one of \<open>datetime\<close>'s\<close>
  "utc_seconds_text moment =
     (let s = moment div 1000000;
          (year, month, day) = ord2ymd (s div 86400 + EPOCH_ORDINAL);
          t = s mod 86400
      in if 1 \<le> year \<and> year \<le> 9999
         then Some (int_str year @ ''-'' @ two_digits month @ ''-'' @ two_digits day @ '' '' @
                    two_digits (t div 3600) @ '':'' @ two_digits (t mod 3600 div 60) @ '':'' @ two_digits (t mod 60))
         else None)"

end
