(* ===== verification/Engine_Adapters.thy ===== *)
theory Engine_Adapters
  imports Engine_Sql Execution_Service Python_Text Python_Time
begin

text \<open>
  The engine adapters (execution/adapters/postgresql.py, mysql.py and sqlserver.py): what each
  method sends to the \<open>QueryExecutor\<close> it was given and how it shapes the answer. The executor is
  a parameter, a record of the two methods of the protocol, over whatever state its connection
  has; an empty list of parameters stands for \<open>None\<close> and for \<open>{}\<close>, which every executor treats
  alike. The SQL texts are those of \<open>Engine_Sql\<close>.

  The arguments are the JSON values of the request, so that a method also says what it does to a
  value of another type than its annotation.
\<close>

section \<open>The executor of a connection (execution/adapters/base.py)\<close>

type_synonym ('w, 'a) db_op = "('w, exec_exn, 'a) comp"

record 'w query_executor =
  qe_fetch_all :: "string \<Rightarrow> jdict \<Rightarrow> ('w, jrow list) db_op"
  qe_execute :: "string \<Rightarrow> jdict \<Rightarrow> ('w, jdict) db_op"

definition exn_text :: "exec_exn \<Rightarrow> string" where
  \<comment> \<open>\<open>str(exc)\<close>\<close>
  "exn_text e = (case e of TimeoutError \<Rightarrow> [] | NotImplementedError m \<Rightarrow> m | OtherError m \<Rightarrow> m)"

definition not_implemented :: "string \<Rightarrow> ('w, 'a) db_op" where
  "not_implemented m = raiseM (NotImplementedError m)"

section \<open>Python values\<close>

definition text_of :: "json \<Rightarrow> exec_exn + string" where
  \<comment> \<open>the receiver of a \<open>str\<close> method\<close>
  "text_of v = (case v of JStr s \<Rightarrow> Inr s | _ \<Rightarrow> Inl (OtherError ''AttributeError''))"

definition int_of :: "json \<Rightarrow> exec_exn + int" where
  \<comment> \<open>\<open>int(v)\<close>\<close>
  "int_of v =
     (case v of
        JStr s \<Rightarrow> (case py_int s of None \<Rightarrow> Inl (OtherError ''ValueError'') | Some i \<Rightarrow> Inr i)
      | JInt i \<Rightarrow> Inr i
      | JBool b \<Rightarrow> Inr (if b then 1 else 0)
      | _ \<Rightarrow> Inl (OtherError ''TypeError''))"

definition elements_of :: "json \<Rightarrow> exec_exn + json list" where
  \<comment> \<open>\<open>for c in v\<close>\<close>
  "elements_of v =
     (case v of
        JArr xs \<Rightarrow> Inr xs
      | JStr s \<Rightarrow> Inr (map (\<lambda>c. JStr [c]) s)
      | JObj kvs \<Rightarrow> Inr (map (JStr \<circ> fst) kvs)
      | _ \<Rightarrow> Inl (OtherError ''TypeError''))"

definition choice_of :: "(string \<times> string) list \<Rightarrow> json \<Rightarrow> string \<Rightarrow> exec_exn + string" where
  \<comment> \<open>\<open>table.get(v, d)\<close>: a list or a dict cannot be a key\<close>
  "choice_of tbl v d =
     (case v of
        JStr s \<Rightarrow> Inr (case map_of tbl s of None \<Rightarrow> d | Some c \<Rightarrow> c)
      | JArr _ \<Rightarrow> Inl (OtherError ''TypeError'')
      | JObj _ \<Rightarrow> Inl (OtherError ''TypeError'')
      | _ \<Rightarrow> Inr d)"

definition quoted_with :: "(string \<Rightarrow> string) \<Rightarrow> json \<Rightarrow> exec_exn + string" where
  \<comment> \<open>\<open>_quote_ident(v)\<close>\<close>
  "quoted_with q v = bindE (text_of v) (\<lambda>s. Inr (q s))"

definition quoted_list :: "(string \<Rightarrow> string) \<Rightarrow> json \<Rightarrow> exec_exn + string" where
  \<comment> \<open>\<open>", ".join(_quote_ident(c) for c in columns)\<close>\<close>
  "quoted_list q v = bindE (elements_of v) (\<lambda>vs. bindE (mapE (quoted_with q) vs) (\<lambda>ts. Inr (join '', '' ts)))"

definition quoted_pair :: "(string \<Rightarrow> string) \<Rightarrow> json \<Rightarrow> json \<Rightarrow> exec_exn + string" where
  \<comment> \<open>\<open>f"{_quote_ident(a)}.{_quote_ident(b)}"\<close>\<close>
  "quoted_pair q a b = bindE (quoted_with q a) (\<lambda>s. bindE (quoted_with q b) (\<lambda>t. Inr (s @ ''.'' @ t)))"

section \<open>PostgreSQL\<close>

definition pg_quote_ident :: "string \<Rightarrow> string" where
  "pg_quote_ident identifier = [CHR 0x22] @ replace_char (CHR 0x22) [] identifier @ [CHR 0x22]"

definition pg_health :: "'w query_executor \<Rightarrow> ('w, jrow list) db_op" where
  "pg_health x = qe_fetch_all x pg_health_sql []"

definition pg_version :: "'w query_executor \<Rightarrow> ('w, jrow list) db_op" where
  "pg_version x = qe_fetch_all x pg_version_sql []"

definition pg_sessions :: "'w query_executor \<Rightarrow> ('w, jrow list) db_op" where
  "pg_sessions x = qe_fetch_all x pg_sessions_sql []"

definition pg_blocking :: "'w query_executor \<Rightarrow> ('w, jrow list) db_op" where
  "pg_blocking x = qe_fetch_all x pg_blocking_sql []"

definition pg_deadlocks :: "'w query_executor \<Rightarrow> ('w, jrow list) db_op" where
  "pg_deadlocks x = qe_fetch_all x pg_deadlocks_sql []"

definition pg_running_queries :: "'w query_executor \<Rightarrow> ('w, jrow list) db_op" where
  "pg_running_queries x = qe_fetch_all x pg_running_queries_sql []"

definition pg_waits :: "'w query_executor \<Rightarrow> ('w, jrow list) db_op" where
  "pg_waits x = qe_fetch_all x pg_waits_sql []"

definition pg_tables :: "'w query_executor \<Rightarrow> ('w, jrow list) db_op" where
  "pg_tables x = qe_fetch_all x pg_tables_sql []"

definition pg_storage :: "'w query_executor \<Rightarrow> ('w, jrow list) db_op" where
  "pg_storage x = qe_fetch_all x pg_storage_sql []"

definition pg_transaction_log :: "'w query_executor \<Rightarrow> ('w, jrow list) db_op" where
  "pg_transaction_log x = qe_fetch_all x pg_transaction_log_sql []"

definition pg_replication :: "'w query_executor \<Rightarrow> ('w, jrow list) db_op" where
  "pg_replication x = qe_fetch_all x pg_replication_sql []"

definition pg_backups :: "'w query_executor \<Rightarrow> ('w, jrow list) db_op" where
  "pg_backups x = qe_fetch_all x pg_backups_sql []"

definition pg_configuration :: "'w query_executor \<Rightarrow> ('w, jrow list) db_op" where
  "pg_configuration x = qe_fetch_all x pg_configuration_sql []"

definition pg_extension_missing_note :: string where
  "pg_extension_missing_note =
     ''The pg_stat_statements extension is not installed/enabled on '' @
     ''this server, so per-query statistics aren't available. Run '' @
     ''`CREATE EXTENSION pg_stat_statements;` (after adding it to '' @
     ''shared_preload_libraries and restarting) to enable this.''"

definition pg_stat_statements_query :: "'w query_executor \<Rightarrow> string \<Rightarrow> jdict \<Rightarrow> ('w, jrow list) db_op" where
  "pg_stat_statements_query x sql params w =
     (case qe_fetch_all x sql params w of
        (Inr rows, w') \<Rightarrow> (Inr rows, w')
      | (Inl e, w') \<Rightarrow>
          if \<not> contains ''pg_stat_statements'' (exn_text e) then (Inl e, w')
          else (Inr [[(''note'', JStr pg_extension_missing_note)]], w'))"

definition pg_query_plan :: "'w query_executor \<Rightarrow> json \<Rightarrow> ('w, jrow list) db_op" where
  "pg_query_plan x query_id = pg_stat_statements_query x pg_query_plan_sql [(''query_id'', query_id)]"

definition pg_order_columns :: "(string \<times> string) list" where
  "pg_order_columns =
     [(''cpu'', ''total_exec_time''), (''duration'', ''mean_exec_time''), (''reads'', ''shared_blks_read''),
      (''writes'', ''shared_blks_written''), (''executions'', ''calls'')]"

definition pg_top_queries :: "'w query_executor \<Rightarrow> json \<Rightarrow> json \<Rightarrow> ('w, jrow list) db_op" where
  "pg_top_queries x order_by limit =
     bindM (liftE (choice_of pg_order_columns order_by ''total_exec_time'')) (\<lambda>order_column.
     pg_stat_statements_query x (pg_top_queries_sql order_column) [(''limit'', limit)])"

definition pg_indexes :: "'w query_executor \<Rightarrow> json \<Rightarrow> json \<Rightarrow> ('w, jrow list) db_op" where
  "pg_indexes x schema table = qe_fetch_all x pg_indexes_sql [(''schema'', schema), (''table'', table)]"

definition pg_statistics :: "'w query_executor \<Rightarrow> json \<Rightarrow> json \<Rightarrow> ('w, jrow list) db_op" where
  "pg_statistics x schema table = qe_fetch_all x pg_statistics_sql [(''schema'', schema), (''table'', table)]"

definition pg_error_logs :: "'w query_executor \<Rightarrow> json \<Rightarrow> json \<Rightarrow> ('w, jrow list) db_op" where
  "pg_error_logs x since_minutes limit = qe_fetch_all x pg_error_logs_sql []"

definition pg_cancel_query :: "'w query_executor \<Rightarrow> json \<Rightarrow> json \<Rightarrow> ('w, jdict) db_op" where
  "pg_cancel_query x session_id reason =
     bindM (liftE (int_of session_id)) (\<lambda>pid.
     bindM (qe_execute x pg_cancel_query_sql [(''pid'', JInt pid)]) (\<lambda>result.
     returnM [(''cancelled'', case map_of result ''cancelled'' of None \<Rightarrow> JBool False | Some v \<Rightarrow> v),
              (''session_id'', session_id)]))"

definition pg_kill_session :: "'w query_executor \<Rightarrow> json \<Rightarrow> json \<Rightarrow> ('w, jdict) db_op" where
  "pg_kill_session x session_id reason =
     bindM (liftE (int_of session_id)) (\<lambda>pid.
     bindM (qe_execute x pg_kill_session_sql [(''pid'', JInt pid)]) (\<lambda>result.
     returnM [(''terminated'', case map_of result ''terminated'' of None \<Rightarrow> JBool False | Some v \<Rightarrow> v),
              (''session_id'', session_id)]))"

definition pg_update_statistics :: "'w query_executor \<Rightarrow> json \<Rightarrow> json \<Rightarrow> ('w, jdict) db_op" where
  "pg_update_statistics x schema table =
     bindM (liftE (quoted_pair pg_quote_ident schema table)) (\<lambda>object.
     bindM (qe_execute x (''analyze '' @ object) []) (\<lambda>result.
     returnM (dict_merge [(''analyzed'', JBool True), (''schema'', schema), (''table'', table)] result)))"

definition pg_create_index ::
    "'w query_executor \<Rightarrow> json \<Rightarrow> json \<Rightarrow> json \<Rightarrow> json \<Rightarrow> json \<Rightarrow> ('w, jdict) db_op" where
  "pg_create_index x schema table columns name unique =
     (let unique_kw = (if truthy unique then ''unique '' else [])
      in bindM (liftE (quoted_list pg_quote_ident columns)) (\<lambda>cols.
         bindM (liftE (quoted_with pg_quote_ident name)) (\<lambda>index.
         bindM (liftE (quoted_pair pg_quote_ident schema table)) (\<lambda>object.
         bindM (qe_execute x (''create '' @ unique_kw @ ''index concurrently '' @ index @ '' on '' @ object @
                                '' ('' @ cols @ '')'') []) (\<lambda>result.
         returnM (dict_merge [(''created'', JBool True), (''index_name'', name)] result))))))"

definition pg_rebuild_index :: "'w query_executor \<Rightarrow> json \<Rightarrow> json \<Rightarrow> json \<Rightarrow> ('w, jdict) db_op" where
  "pg_rebuild_index x schema table index_name =
     bindM (liftE (quoted_pair pg_quote_ident schema index_name)) (\<lambda>index.
     bindM (qe_execute x (''reindex index concurrently '' @ index) []) (\<lambda>result.
     returnM (dict_merge [(''rebuilt'', JBool True), (''index_name'', index_name)] result)))"

definition pg_modify_configuration :: "'w query_executor \<Rightarrow> json \<Rightarrow> json \<Rightarrow> ('w, jdict) db_op" where
  "pg_modify_configuration x parameter value =
     bindM (liftE (quoted_with pg_quote_ident parameter)) (\<lambda>param.
     bindM (qe_execute x (''alter system set '' @ param @ '' = %(value)s'') [(''value'', value)]) (\<lambda>result.
     bindM (qe_execute x pg_modify_configuration_sql []) (\<lambda>_.
     returnM (dict_merge [(''parameter'', parameter), (''value'', value), (''reload_triggered'', JBool True)] result))))"

definition pg_execute_readonly_sql :: "'w query_executor \<Rightarrow> json \<Rightarrow> ('w, jrow list) db_op" where
  "pg_execute_readonly_sql x validated_sql =
     (case validated_sql of JStr sql \<Rightarrow> qe_fetch_all x sql [] | _ \<Rightarrow> raiseM (OtherError ''TypeError''))"

definition pg_restart_instance :: "('w, jdict) db_op" where
  "pg_restart_instance =
     not_implemented
       (''restart_instance requires an out-of-band infrastructure action '' @
        ''(e.g. orchestrator/systemd/managed-service API call), not a SQL statement; '' @
        ''wire this to your platform's instance-management API.'')"

definition pg_failover :: "json \<Rightarrow> ('w, jdict) db_op" where
  "pg_failover target_instance =
     not_implemented
       (''failover requires the replication manager's control-plane API '' @
        ''(e.g. Patroni/repmgr/cloud-managed failover), not a SQL statement.'')"

section \<open>MySQL and MariaDB\<close>

definition my_quote_ident :: "string \<Rightarrow> string" where
  "my_quote_ident identifier = ''`'' @ replace_char (CHR ''`'') ''``'' identifier @ ''`''"

subsection \<open>The latest deadlock\<close>

text \<open>
  The search for the deadlock section: the first heading that is followed by a line of dashes,
  and from there everything up to the next line of at least ten dashes or the end.
\<close>

definition rule_line :: "nat \<Rightarrow> string \<Rightarrow> string option" where
  \<comment> \<open>\<open>-{least,}\<close> and a line break at the head of the text; what follows it\<close>
  "rule_line least s =
     (let rest = dropWhile (\<lambda>c. c = CHR ''-'') s
      in if least \<le> length s - length rest \<and> rest \<noteq> [] \<and> hd rest = CHR 0x0A then Some (tl rest) else None)"

definition deadlock_heading :: string where
  "deadlock_heading = ''LATEST DETECTED DEADLOCK'' @ [CHR 0x0A]"

definition deadlock_heading_at :: "string \<Rightarrow> string option" where
  "deadlock_heading_at s =
     (if prefix deadlock_heading s then rule_line 1 (drop (length deadlock_heading) s) else None)"

fun deadlock_section :: "string \<Rightarrow> string" where
  "deadlock_section [] = []"
| "deadlock_section (c # s) = (if c = CHR 0x0A \<and> rule_line 10 s \<noteq> None then [] else c # deadlock_section s)"

fun deadlock_search :: "string \<Rightarrow> string option" where
  "deadlock_search s =
     (case deadlock_heading_at s of
        Some rest \<Rightarrow> Some (deadlock_section rest)
      | None \<Rightarrow> (case s of [] \<Rightarrow> None | _ # t \<Rightarrow> deadlock_search t))"

declare deadlock_search.simps [simp del]

definition innodb_status :: "jrow list \<Rightarrow> string" where
  "innodb_status rows =
     (case rows of
        [] \<Rightarrow> []
      | row # _ \<Rightarrow>
          (case map_of row ''Status'' of
             Some v \<Rightarrow> if truthy v then py_str v else (case row of [] \<Rightarrow> [] | (_, u) # _ \<Rightarrow> py_str u)
           | None \<Rightarrow> (case row of [] \<Rightarrow> [] | (_, u) # _ \<Rightarrow> py_str u)))"

definition my_deadlocks :: "'w query_executor \<Rightarrow> ('w, jrow list) db_op" where
  "my_deadlocks x =
     bindM (qe_fetch_all x my_deadlocks_sql []) (\<lambda>rows.
     returnM [[(''latest_detected_deadlock'',
       case deadlock_search (innodb_status rows) of None \<Rightarrow> JNull | Some body \<Rightarrow> JStr (strip body))]])"

subsection \<open>The other methods\<close>

definition my_health :: "'w query_executor \<Rightarrow> ('w, jrow list) db_op" where
  "my_health x = qe_fetch_all x my_health_sql []"

definition my_version :: "'w query_executor \<Rightarrow> ('w, jrow list) db_op" where
  "my_version x = qe_fetch_all x my_version_sql []"

definition my_sessions :: "'w query_executor \<Rightarrow> ('w, jrow list) db_op" where
  "my_sessions x = qe_fetch_all x my_sessions_sql []"

definition my_blocking :: "'w query_executor \<Rightarrow> ('w, jrow list) db_op" where
  "my_blocking x = qe_fetch_all x my_blocking_sql []"

definition my_running_queries :: "'w query_executor \<Rightarrow> ('w, jrow list) db_op" where
  "my_running_queries x = qe_fetch_all x my_running_queries_sql []"

definition my_waits :: "'w query_executor \<Rightarrow> ('w, jrow list) db_op" where
  "my_waits x = qe_fetch_all x my_waits_sql []"

definition my_tables :: "'w query_executor \<Rightarrow> ('w, jrow list) db_op" where
  "my_tables x = qe_fetch_all x my_tables_sql []"

definition my_storage :: "'w query_executor \<Rightarrow> ('w, jrow list) db_op" where
  "my_storage x = qe_fetch_all x my_storage_sql []"

definition my_transaction_log :: "'w query_executor \<Rightarrow> ('w, jrow list) db_op" where
  "my_transaction_log x = qe_fetch_all x my_transaction_log_sql []"

definition my_replication :: "'w query_executor \<Rightarrow> ('w, jrow list) db_op" where
  "my_replication x = qe_fetch_all x my_replication_sql []"

definition my_configuration :: "'w query_executor \<Rightarrow> ('w, jrow list) db_op" where
  "my_configuration x = qe_fetch_all x my_configuration_sql []"

definition my_query_plan :: "'w query_executor \<Rightarrow> json \<Rightarrow> ('w, jrow list) db_op" where
  "my_query_plan x query_id = qe_fetch_all x my_query_plan_sql [(''query_id'', query_id)]"

definition my_order_columns :: "(string \<times> string) list" where
  "my_order_columns =
     [(''cpu'', ''SUM_TIMER_WAIT''), (''duration'', ''AVG_TIMER_WAIT''), (''reads'', ''SUM_ROWS_EXAMINED''),
      (''writes'', ''SUM_ROWS_AFFECTED''), (''executions'', ''COUNT_STAR'')]"

definition my_top_queries :: "'w query_executor \<Rightarrow> json \<Rightarrow> json \<Rightarrow> ('w, jrow list) db_op" where
  "my_top_queries x order_by limit =
     bindM (liftE (choice_of my_order_columns order_by ''SUM_TIMER_WAIT'')) (\<lambda>order_column.
     qe_fetch_all x (my_top_queries_sql order_column) [(''limit'', limit)])"

definition my_indexes :: "'w query_executor \<Rightarrow> json \<Rightarrow> json \<Rightarrow> ('w, jrow list) db_op" where
  "my_indexes x schema table = qe_fetch_all x my_indexes_sql [(''schema'', schema), (''table'', table)]"

definition my_statistics :: "'w query_executor \<Rightarrow> json \<Rightarrow> json \<Rightarrow> ('w, jrow list) db_op" where
  "my_statistics x schema table = qe_fetch_all x my_statistics_sql [(''schema'', schema), (''table'', table)]"

definition my_backups :: "('w, jrow list) db_op" where
  "my_backups =
     not_implemented
       (''MySQL/MariaDB have no built-in backup catalog '' @ em_dash @ '' backup history '' @
        ''lives in your backup tool (mysqldump / Percona XtraBackup / '' @
        ''mariabackup / a managed-service snapshot API). Wire get_backup_status '' @
        ''to that tool's catalog.'')"

definition my_error_logs :: "'w query_executor \<Rightarrow> json \<Rightarrow> json \<Rightarrow> ('w, jrow list) db_op" where
  "my_error_logs x since_minutes limit = qe_fetch_all x my_error_logs_sql [(''since'', since_minutes)]"

definition my_cancel_query :: "'w query_executor \<Rightarrow> json \<Rightarrow> json \<Rightarrow> ('w, jdict) db_op" where
  "my_cancel_query x session_id reason =
     bindM (liftE (int_of session_id)) (\<lambda>pid.
     bindM (qe_execute x (''KILL QUERY '' @ int_str pid) []) (\<lambda>result.
     returnM (dict_merge [(''cancelled'', JBool True), (''session_id'', session_id)] result)))"

definition my_kill_session :: "'w query_executor \<Rightarrow> json \<Rightarrow> json \<Rightarrow> ('w, jdict) db_op" where
  "my_kill_session x session_id reason =
     bindM (liftE (int_of session_id)) (\<lambda>pid.
     bindM (qe_execute x (''KILL '' @ int_str pid) []) (\<lambda>result.
     returnM (dict_merge [(''terminated'', JBool True), (''session_id'', session_id)] result)))"

definition my_update_statistics :: "'w query_executor \<Rightarrow> json \<Rightarrow> json \<Rightarrow> ('w, jdict) db_op" where
  "my_update_statistics x schema table =
     bindM (liftE (quoted_pair my_quote_ident schema table)) (\<lambda>object.
     bindM (qe_execute x (''ANALYZE TABLE '' @ object) []) (\<lambda>result.
     returnM (dict_merge [(''analyzed'', JBool True), (''schema'', schema), (''table'', table)] result)))"

definition my_create_index ::
    "'w query_executor \<Rightarrow> json \<Rightarrow> json \<Rightarrow> json \<Rightarrow> json \<Rightarrow> json \<Rightarrow> ('w, jdict) db_op" where
  "my_create_index x schema table columns name unique =
     (let unique_kw = (if truthy unique then ''UNIQUE '' else [])
      in bindM (liftE (quoted_list my_quote_ident columns)) (\<lambda>cols.
         bindM (liftE (quoted_with my_quote_ident name)) (\<lambda>index.
         bindM (liftE (quoted_pair my_quote_ident schema table)) (\<lambda>object.
         bindM (qe_execute x (''CREATE '' @ unique_kw @ ''INDEX '' @ index @ '' ON '' @ object @
                                '' ('' @ cols @ '') ALGORITHM=INPLACE, LOCK=NONE'') []) (\<lambda>result.
         returnM (dict_merge [(''created'', JBool True), (''index_name'', name)] result))))))"

definition my_rebuild_index :: "'w query_executor \<Rightarrow> json \<Rightarrow> json \<Rightarrow> json \<Rightarrow> ('w, jdict) db_op" where
  "my_rebuild_index x schema table index_name =
     bindM (liftE (quoted_pair my_quote_ident schema table)) (\<lambda>object.
     bindM (qe_execute x (''ALTER TABLE '' @ object @ '' ENGINE=InnoDB'') []) (\<lambda>result.
     returnM (dict_merge
       [(''rebuilt'', JBool True), (''index_name'', index_name),
        (''note'', JStr ''MySQL/MariaDB rebuild all indexes on the table, not just this one.'')] result)))"

definition my_modify_configuration :: "'w query_executor \<Rightarrow> json \<Rightarrow> json \<Rightarrow> ('w, jdict) db_op" where
  "my_modify_configuration x parameter value =
     bindM (liftE (quoted_with my_quote_ident parameter)) (\<lambda>param.
     bindM (qe_execute x (''SET GLOBAL '' @ param @ '' = %(value)s'') [(''value'', value)]) (\<lambda>result.
     returnM (dict_merge
       [(''parameter'', parameter), (''value'', value), (''persisted_across_restart'', JBool False)] result)))"

definition my_restart_instance :: "('w, jdict) db_op" where
  "my_restart_instance =
     not_implemented
       (''restart_instance requires an out-of-band infrastructure action '' @
        ''(systemd / mysqladmin shutdown + supervisor / managed-service API), '' @
        ''not a SQL statement; wire this to your platform's instance-management API.'')"

definition my_failover :: "json \<Rightarrow> ('w, jdict) db_op" where
  "my_failover target_instance =
     not_implemented
       (''failover requires the replication topology manager's control-plane '' @
        ''API (Orchestrator / MHA / Group Replication / managed-service failover), '' @
        ''not a SQL statement.'')"

section \<open>SQL Server\<close>

definition ss_quote_ident :: "string \<Rightarrow> string" where
  "ss_quote_ident identifier = ''['' @ replace_char (CHR '']'') '']]'' identifier @ '']''"

definition quote_ident_literal :: "string \<Rightarrow> string" where
  "quote_ident_literal name = [CHR 0x27] @ replace_char (CHR 0x27) [CHR 0x27, CHR 0x27] name @ [CHR 0x27]"

definition ss_health :: "'w query_executor \<Rightarrow> ('w, jrow list) db_op" where
  "ss_health x = qe_fetch_all x ss_health_sql []"

definition ss_version :: "'w query_executor \<Rightarrow> ('w, jrow list) db_op" where
  "ss_version x = qe_fetch_all x ss_version_sql []"

definition ss_sessions :: "'w query_executor \<Rightarrow> ('w, jrow list) db_op" where
  "ss_sessions x = qe_fetch_all x ss_sessions_sql []"

definition ss_blocking :: "'w query_executor \<Rightarrow> ('w, jrow list) db_op" where
  "ss_blocking x = qe_fetch_all x ss_blocking_sql []"

definition ss_deadlocks :: "'w query_executor \<Rightarrow> ('w, jrow list) db_op" where
  "ss_deadlocks x = qe_fetch_all x ss_deadlocks_sql []"

definition ss_running_queries :: "'w query_executor \<Rightarrow> ('w, jrow list) db_op" where
  "ss_running_queries x = qe_fetch_all x ss_running_queries_sql []"

definition ss_waits :: "'w query_executor \<Rightarrow> ('w, jrow list) db_op" where
  "ss_waits x = qe_fetch_all x ss_waits_sql []"

definition ss_tables :: "'w query_executor \<Rightarrow> ('w, jrow list) db_op" where
  "ss_tables x = qe_fetch_all x ss_tables_sql []"

definition ss_storage :: "'w query_executor \<Rightarrow> ('w, jrow list) db_op" where
  "ss_storage x = qe_fetch_all x ss_storage_sql []"

definition ss_transaction_log :: "'w query_executor \<Rightarrow> ('w, jrow list) db_op" where
  "ss_transaction_log x = qe_fetch_all x ss_transaction_log_sql []"

definition ss_replication :: "'w query_executor \<Rightarrow> ('w, jrow list) db_op" where
  "ss_replication x = qe_fetch_all x ss_replication_sql []"

definition ss_backups :: "'w query_executor \<Rightarrow> ('w, jrow list) db_op" where
  "ss_backups x = qe_fetch_all x ss_backups_sql []"

definition ss_configuration :: "'w query_executor \<Rightarrow> ('w, jrow list) db_op" where
  "ss_configuration x = qe_fetch_all x ss_configuration_sql []"

definition ss_query_plan :: "'w query_executor \<Rightarrow> json \<Rightarrow> ('w, jrow list) db_op" where
  "ss_query_plan x query_id = qe_fetch_all x ss_query_plan_sql [(''query_id'', query_id)]"

definition ss_order_columns :: "(string \<times> string) list" where
  "ss_order_columns =
     [(''cpu'', ''avg_cpu_time''), (''duration'', ''avg_duration''), (''reads'', ''avg_logical_io_reads''),
      (''writes'', ''avg_logical_io_writes''), (''executions'', ''count_executions'')]"

definition ss_top_queries :: "'w query_executor \<Rightarrow> json \<Rightarrow> json \<Rightarrow> ('w, jrow list) db_op" where
  "ss_top_queries x order_by limit =
     bindM (liftE (choice_of ss_order_columns order_by ''avg_cpu_time'')) (\<lambda>order_column.
     qe_fetch_all x (ss_top_queries_sql order_column) [(''limit'', limit)])"

definition ss_indexes :: "'w query_executor \<Rightarrow> json \<Rightarrow> json \<Rightarrow> ('w, jrow list) db_op" where
  "ss_indexes x schema table = qe_fetch_all x ss_indexes_sql [(''schema'', schema), (''table'', table)]"

definition ss_statistics :: "'w query_executor \<Rightarrow> json \<Rightarrow> json \<Rightarrow> ('w, jrow list) db_op" where
  "ss_statistics x schema table = qe_fetch_all x ss_statistics_sql [(''schema'', schema), (''table'', table)]"

definition minutes_of :: "json \<Rightarrow> exec_exn + int" where
  \<comment> \<open>the argument of \<open>timedelta(minutes=v)\<close>\<close>
  "minutes_of v =
     (case v of JInt i \<Rightarrow> Inr i | JBool b \<Rightarrow> Inr (if b then 1 else 0) | _ \<Rightarrow> Inl (OtherError ''TypeError''))"

definition ss_error_logs :: "int \<Rightarrow> 'w query_executor \<Rightarrow> json \<Rightarrow> json \<Rightarrow> ('w, jrow list) db_op" where
  \<comment> \<open>\<open>now\<close> is \<open>datetime.now(UTC)\<close>\<close>
  "ss_error_logs now x since_minutes limit =
     bindM (liftE (minutes_of since_minutes)) (\<lambda>minutes.
     case utc_seconds_text (now - minutes * 60000000) of
       None \<Rightarrow> raiseM (OtherError ''OverflowError'')
     | Some since \<Rightarrow> qe_fetch_all x ss_error_logs_sql [(''since'', JStr since)])"

definition ss_cancel_query :: "'w query_executor \<Rightarrow> json \<Rightarrow> json \<Rightarrow> ('w, jdict) db_op" where
  "ss_cancel_query x session_id reason =
     bindM (liftE (int_of session_id)) (\<lambda>pid.
     bindM (qe_execute x (''KILL '' @ int_str pid) []) (\<lambda>result.
     returnM (dict_merge [(''cancelled'', JBool True), (''session_id'', session_id)] result)))"

definition ss_kill_session :: "'w query_executor \<Rightarrow> json \<Rightarrow> json \<Rightarrow> ('w, jdict) db_op" where
  "ss_kill_session x session_id reason =
     bindM (liftE (int_of session_id)) (\<lambda>pid.
     bindM (qe_execute x (''KILL '' @ int_str pid) []) (\<lambda>result.
     returnM (dict_merge [(''terminated'', JBool True), (''session_id'', session_id)] result)))"

definition ss_update_statistics :: "'w query_executor \<Rightarrow> json \<Rightarrow> json \<Rightarrow> ('w, jdict) db_op" where
  "ss_update_statistics x schema table =
     bindM (liftE (quoted_pair ss_quote_ident schema table)) (\<lambda>object.
     bindM (qe_execute x (''UPDATE STATISTICS '' @ object) []) (\<lambda>result.
     returnM (dict_merge [(''updated'', JBool True), (''schema'', schema), (''table'', table)] result)))"

definition ss_create_index ::
    "'w query_executor \<Rightarrow> json \<Rightarrow> json \<Rightarrow> json \<Rightarrow> json \<Rightarrow> json \<Rightarrow> ('w, jdict) db_op" where
  "ss_create_index x schema table columns name unique =
     (let unique_kw = (if truthy unique then ''UNIQUE '' else [])
      in bindM (liftE (quoted_list ss_quote_ident columns)) (\<lambda>cols.
         bindM (liftE (quoted_with ss_quote_ident name)) (\<lambda>index.
         bindM (liftE (quoted_pair ss_quote_ident schema table)) (\<lambda>object.
         bindM (qe_execute x (''CREATE '' @ unique_kw @ ''NONCLUSTERED INDEX '' @ index @ '' ON '' @ object @
                                '' ('' @ cols @ '') WITH (ONLINE = ON)'') []) (\<lambda>result.
         returnM (dict_merge [(''created'', JBool True), (''index_name'', name)] result))))))"

definition ss_rebuild_index :: "'w query_executor \<Rightarrow> json \<Rightarrow> json \<Rightarrow> json \<Rightarrow> ('w, jdict) db_op" where
  "ss_rebuild_index x schema table index_name =
     bindM (liftE (quoted_with ss_quote_ident index_name)) (\<lambda>index.
     bindM (liftE (quoted_pair ss_quote_ident schema table)) (\<lambda>object.
     bindM (qe_execute x (''ALTER INDEX '' @ index @ '' ON '' @ object @ '' REBUILD WITH (ONLINE = ON)'') []) (\<lambda>result.
     returnM (dict_merge [(''rebuilt'', JBool True), (''index_name'', index_name)] result))))"

definition ss_modify_configuration :: "'w query_executor \<Rightarrow> json \<Rightarrow> json \<Rightarrow> ('w, jdict) db_op" where
  "ss_modify_configuration x parameter value =
     bindM (liftE (quoted_with quote_ident_literal parameter)) (\<lambda>param.
     bindM (qe_execute x (''EXEC sp_configure '' @ param @ '', %(value)s; RECONFIGURE'') [(''value'', value)]) (\<lambda>result.
     returnM (dict_merge [(''parameter'', parameter), (''value'', value)] result)))"

definition ss_execute_readonly_sql :: "'w query_executor \<Rightarrow> json \<Rightarrow> ('w, jrow list) db_op" where
  "ss_execute_readonly_sql x validated_sql =
     (case validated_sql of JStr sql \<Rightarrow> qe_fetch_all x sql [] | _ \<Rightarrow> raiseM (OtherError ''TypeError''))"

definition ss_restart_instance :: "('w, jdict) db_op" where
  "ss_restart_instance =
     not_implemented
       (''restart_instance requires an out-of-band infrastructure action '' @
        ''(e.g. SQL Server Agent job, Windows service control, or cloud-managed '' @
        ''instance API), not a T-SQL statement; wire this to your platform's '' @
        ''instance-management API.'')"

definition ss_failover :: "json \<Rightarrow> ('w, jdict) db_op" where
  "ss_failover target_instance =
     not_implemented
       (''failover must target a specific, inventory-resolved Availability Group and '' @
        ''is intentionally not auto-executed from generic adapter code; wire this to '' @
        ''your platform's Always On failover runbook/API.'')"

section \<open>Calling a method by name\<close>

text \<open>
  \<open>getattr(adapter, method)(*args)\<close>: the methods of each class by name. A call with another number
  of arguments than the method has raises, as does a name the class does not have.
\<close>

definition bad_call :: "('w, outcome) db_op" where
  "bad_call = raiseM (OtherError ''TypeError'')"

definition reads0 :: "('w, jrow list) db_op \<Rightarrow> json list \<Rightarrow> ('w, outcome) db_op" where
  "reads0 f args = (case args of [] \<Rightarrow> bindM f (returnM \<circ> Rows) | _ \<Rightarrow> bad_call)"

definition reads1 :: "(json \<Rightarrow> ('w, jrow list) db_op) \<Rightarrow> json list \<Rightarrow> ('w, outcome) db_op" where
  "reads1 f args = (case args of [a] \<Rightarrow> bindM (f a) (returnM \<circ> Rows) | _ \<Rightarrow> bad_call)"

definition reads2 :: "(json \<Rightarrow> json \<Rightarrow> ('w, jrow list) db_op) \<Rightarrow> json list \<Rightarrow> ('w, outcome) db_op" where
  "reads2 f args = (case args of [a, b] \<Rightarrow> bindM (f a b) (returnM \<circ> Rows) | _ \<Rightarrow> bad_call)"

definition writes0 :: "('w, jdict) db_op \<Rightarrow> json list \<Rightarrow> ('w, outcome) db_op" where
  "writes0 f args = (case args of [] \<Rightarrow> bindM f (returnM \<circ> Affected) | _ \<Rightarrow> bad_call)"

definition writes1 :: "(json \<Rightarrow> ('w, jdict) db_op) \<Rightarrow> json list \<Rightarrow> ('w, outcome) db_op" where
  "writes1 f args = (case args of [a] \<Rightarrow> bindM (f a) (returnM \<circ> Affected) | _ \<Rightarrow> bad_call)"

definition writes2 :: "(json \<Rightarrow> json \<Rightarrow> ('w, jdict) db_op) \<Rightarrow> json list \<Rightarrow> ('w, outcome) db_op" where
  "writes2 f args = (case args of [a, b] \<Rightarrow> bindM (f a b) (returnM \<circ> Affected) | _ \<Rightarrow> bad_call)"

definition writes3 :: "(json \<Rightarrow> json \<Rightarrow> json \<Rightarrow> ('w, jdict) db_op) \<Rightarrow> json list \<Rightarrow> ('w, outcome) db_op" where
  "writes3 f args = (case args of [a, b, c] \<Rightarrow> bindM (f a b c) (returnM \<circ> Affected) | _ \<Rightarrow> bad_call)"

definition writes5 ::
    "(json \<Rightarrow> json \<Rightarrow> json \<Rightarrow> json \<Rightarrow> json \<Rightarrow> ('w, jdict) db_op) \<Rightarrow> json list \<Rightarrow> ('w, outcome) db_op" where
  "writes5 f args = (case args of [a, b, c, d, e] \<Rightarrow> bindM (f a b c d e) (returnM \<circ> Affected) | _ \<Rightarrow> bad_call)"

type_synonym 'w methods = "(string \<times> (json list \<Rightarrow> ('w, outcome) db_op)) list"

definition pg_reads :: "'w query_executor \<Rightarrow> 'w methods" where
  "pg_reads x =
     [(''health'', reads0 (pg_health x)), (''version'', reads0 (pg_version x)),
      (''sessions'', reads0 (pg_sessions x)), (''blocking'', reads0 (pg_blocking x)),
      (''deadlocks'', reads0 (pg_deadlocks x)), (''running_queries'', reads0 (pg_running_queries x)),
      (''waits'', reads0 (pg_waits x)), (''query_plan'', reads1 (pg_query_plan x)),
      (''top_queries'', reads2 (pg_top_queries x)), (''indexes'', reads2 (pg_indexes x)),
      (''statistics'', reads2 (pg_statistics x)), (''tables'', reads0 (pg_tables x)),
      (''storage'', reads0 (pg_storage x)), (''transaction_log'', reads0 (pg_transaction_log x)),
      (''replication'', reads0 (pg_replication x)), (''backups'', reads0 (pg_backups x)),
      (''configuration'', reads0 (pg_configuration x)), (''error_logs'', reads2 (pg_error_logs x))]"

definition pg_writes :: "'w query_executor \<Rightarrow> 'w methods" where
  "pg_writes x =
     [(''cancel_query'', writes2 (pg_cancel_query x)), (''kill_session'', writes2 (pg_kill_session x)),
      (''update_statistics'', writes2 (pg_update_statistics x)),
      (''create_index'', writes5 (pg_create_index x)), (''rebuild_index'', writes3 (pg_rebuild_index x)),
      (''modify_configuration'', writes2 (pg_modify_configuration x)),
      (''restart_instance'', writes0 pg_restart_instance), (''failover'', writes1 pg_failover)]"

definition my_reads :: "'w query_executor \<Rightarrow> 'w methods" where
  "my_reads x =
     [(''health'', reads0 (my_health x)), (''version'', reads0 (my_version x)),
      (''sessions'', reads0 (my_sessions x)), (''blocking'', reads0 (my_blocking x)),
      (''deadlocks'', reads0 (my_deadlocks x)), (''running_queries'', reads0 (my_running_queries x)),
      (''waits'', reads0 (my_waits x)), (''query_plan'', reads1 (my_query_plan x)),
      (''top_queries'', reads2 (my_top_queries x)), (''indexes'', reads2 (my_indexes x)),
      (''statistics'', reads2 (my_statistics x)), (''tables'', reads0 (my_tables x)),
      (''storage'', reads0 (my_storage x)), (''transaction_log'', reads0 (my_transaction_log x)),
      (''replication'', reads0 (my_replication x)), (''backups'', reads0 my_backups),
      (''configuration'', reads0 (my_configuration x)), (''error_logs'', reads2 (my_error_logs x))]"

definition my_writes :: "'w query_executor \<Rightarrow> 'w methods" where
  "my_writes x =
     [(''cancel_query'', writes2 (my_cancel_query x)), (''kill_session'', writes2 (my_kill_session x)),
      (''update_statistics'', writes2 (my_update_statistics x)),
      (''create_index'', writes5 (my_create_index x)), (''rebuild_index'', writes3 (my_rebuild_index x)),
      (''modify_configuration'', writes2 (my_modify_configuration x)),
      (''restart_instance'', writes0 my_restart_instance), (''failover'', writes1 my_failover)]"

definition ss_reads :: "int \<Rightarrow> 'w query_executor \<Rightarrow> 'w methods" where
  "ss_reads now x =
     [(''health'', reads0 (ss_health x)), (''version'', reads0 (ss_version x)),
      (''sessions'', reads0 (ss_sessions x)), (''blocking'', reads0 (ss_blocking x)),
      (''deadlocks'', reads0 (ss_deadlocks x)), (''running_queries'', reads0 (ss_running_queries x)),
      (''waits'', reads0 (ss_waits x)), (''query_plan'', reads1 (ss_query_plan x)),
      (''top_queries'', reads2 (ss_top_queries x)), (''indexes'', reads2 (ss_indexes x)),
      (''statistics'', reads2 (ss_statistics x)), (''tables'', reads0 (ss_tables x)),
      (''storage'', reads0 (ss_storage x)), (''transaction_log'', reads0 (ss_transaction_log x)),
      (''replication'', reads0 (ss_replication x)), (''backups'', reads0 (ss_backups x)),
      (''configuration'', reads0 (ss_configuration x)), (''error_logs'', reads2 (ss_error_logs now x))]"

definition ss_writes :: "'w query_executor \<Rightarrow> 'w methods" where
  "ss_writes x =
     [(''cancel_query'', writes2 (ss_cancel_query x)), (''kill_session'', writes2 (ss_kill_session x)),
      (''update_statistics'', writes2 (ss_update_statistics x)),
      (''create_index'', writes5 (ss_create_index x)), (''rebuild_index'', writes3 (ss_rebuild_index x)),
      (''modify_configuration'', writes2 (ss_modify_configuration x)),
      (''restart_instance'', writes0 ss_restart_instance), (''failover'', writes1 ss_failover)]"

definition engine_reads :: "adapter_class \<Rightarrow> int \<Rightarrow> 'w query_executor \<Rightarrow> 'w methods" where
  "engine_reads cls now x =
     (case cls of PostgreSQLAdapter \<Rightarrow> pg_reads x | MySQLAdapter \<Rightarrow> my_reads x | SQLServerAdapter \<Rightarrow> ss_reads now x)"

definition engine_writes :: "adapter_class \<Rightarrow> 'w query_executor \<Rightarrow> 'w methods" where
  "engine_writes cls x =
     (case cls of PostgreSQLAdapter \<Rightarrow> pg_writes x | MySQLAdapter \<Rightarrow> my_writes x | SQLServerAdapter \<Rightarrow> ss_writes x)"

definition engine_restricted :: "adapter_class \<Rightarrow> 'w query_executor \<Rightarrow> 'w methods" where
  "engine_restricted cls x =
     (case cls of
        PostgreSQLAdapter \<Rightarrow> [(''execute_readonly_sql'', reads1 (pg_execute_readonly_sql x))]
      | MySQLAdapter \<Rightarrow> []
      | SQLServerAdapter \<Rightarrow> [(''execute_readonly_sql'', reads1 (ss_execute_readonly_sql x))])"

definition engine_methods :: "adapter_class \<Rightarrow> int \<Rightarrow> 'w query_executor \<Rightarrow> 'w methods" where
  \<comment> \<open>what each class defines itself\<close>
  "engine_methods cls now x = engine_reads cls now x @ engine_writes cls x @ engine_restricted cls x"

definition engine_call :: "adapter_class \<Rightarrow> int \<Rightarrow> 'w query_executor \<Rightarrow> string \<Rightarrow> json list \<Rightarrow> ('w, outcome) db_op" where
  "engine_call cls now x m args =
     (case map_of (engine_methods cls now x) m of
        Some f \<Rightarrow> f args
      | None \<Rightarrow> raiseM (OtherError ''AttributeError''))"

end
