(* ===== verification/Credentials.thy ===== *)
theory Credentials
  imports Config Python_Text
begin

text \<open>
  Database credentials for the Execution Service (execution/credentials/provider.py): the provider
  of development credentials, the four secrets-manager backends, and how a secret becomes a
  credential. The SDKs, the JSON reader, the check for UTF-8 and the model validation of the
  development entries are parameters; the \<open>internal_detail\<close> of an error, which is only logged, is
  left out.
\<close>

section \<open>Credentials (class DatabaseCredentials)\<close>

record DatabaseCredentials =
  dc_host :: string
  dc_port :: int
  dc_username :: string
  dc_password :: string
  dc_database :: string
  dc_options :: jdict

definition credentials_repr :: "DatabaseCredentials \<Rightarrow> string" where
  "credentials_repr c =
     ''DatabaseCredentials(host='' @ repr_string (dc_host c) @ '', username='' @ repr_string (dc_username c) @ '', password=***)''"

section \<open>Errors\<close>

definition unavailable :: "string \<Rightarrow> exn" where
  "unavailable msg = NumiError DEPENDENCY_UNAVAILABLE msg"

definition sdk_missing_text :: "string \<Rightarrow> string \<Rightarrow> string \<Rightarrow> string" where
  "sdk_missing_text provider_name package extra =
     ''The '' @ quoted provider_name @ '' secrets manager integration requires the '' @ quoted package @
     '' package, which is not installed in this deployment. Install it with '' @ [CHR 0x60] @ ''pip install -e '' @
     [CHR 0x22] @ ''.['' @ extra @ '']'' @ [CHR 0x22] @ [CHR 0x60] @ '' and restart the Execution Service.''"

definition backend_text :: "string \<Rightarrow> string \<Rightarrow> string" where
  "backend_text provider_name database_id =
     ''Could not retrieve the database credential for '' @ quoted database_id @ '' from the '' @ quoted provider_name @
     '' secrets manager. Refusing to execute rather than falling back to a less secure credential source.''"

definition malformed_text :: "string \<Rightarrow> string \<Rightarrow> string \<Rightarrow> string" where
  "malformed_text provider_name database_id reason =
     ''The '' @ quoted provider_name @ '' secret for '' @ quoted database_id @ '' is not a usable database credential ('' @
     reason @ ''). Refusing to execute with an incomplete credential.''"

definition unconfigured_text :: "string \<Rightarrow> string" where
  "unconfigured_text name =
     ''The '' @ quoted name @ '' secrets manager integration is not configured in this deployment. Refusing to execute '' @
     ''rather than falling back to a less secure credential source.''"

section \<open>From a secret to a credential\<close>

definition REQUIRED_SECRET_FIELDS :: "string list" where
  "REQUIRED_SECRET_FIELDS = [''host'', ''port'', ''username'', ''password'', ''database'']"

datatype py_float = Finite char string int | Infinite bool | NotANumber
  \<comment> \<open>a finite one by its text, which is never empty, and its integral part; infinity by its sign.
     \<open>json.loads\<close> reads \<open>Infinity\<close>, \<open>-Infinity\<close>, \<open>NaN\<close> and literals beyond the range as such\<close>

fun float_text :: "py_float \<Rightarrow> string" where
  "float_text (Finite c s i) = c # s"
| "float_text (Infinite negative) = (if negative then ''-inf'' else ''inf'')"
| "float_text NotANumber = ''nan''"

fun float_int :: "py_float \<Rightarrow> int result" where
  "float_int (Finite c s i) = Inr i"
| "float_int (Infinite negative) = Inl (PyExn ''OverflowError'')"
| "float_int NotANumber = Inl (PyExn ''ValueError'')"

datatype secret_value = Exact json | Float py_float

datatype secret_doc = Json json | Fields "(string \<times> secret_value) list"
  \<comment> \<open>a decoded secret: a value without floats, or an object whose fields may be floats\<close>

fun fields_of :: "secret_doc \<Rightarrow> (string \<times> secret_value) list option" where
  "fields_of (Json (JObj d)) = Some (map (\<lambda>(k, v). (k, Exact v)) d)"
| "fields_of (Json v) = None"
| "fields_of (Fields d) = Some d"

fun secret_text :: "secret_value \<Rightarrow> string" where
  "secret_text (Exact v) = py_str v"
| "secret_text (Float x) = float_text x"

fun value_truthy :: "secret_value \<Rightarrow> bool" where
  "value_truthy (Exact v) = truthy v"
| "value_truthy (Float x) = (float_text x \<noteq> ''0.0'' \<and> float_text x \<noteq> ''-0.0'')"

definition blank_field :: "(string \<times> secret_value) list \<Rightarrow> string \<Rightarrow> bool" where
  \<comment> \<open>\<open>payload.get(f) in (None, "")\<close>\<close>
  "blank_field d f = (case map_of d f of None \<Rightarrow> True | Some v \<Rightarrow> v = Exact JNull \<or> v = Exact (JStr []))"

fun json_int :: "json \<Rightarrow> int result" where
  \<comment> \<open>\<open>int(v)\<close>\<close>
  "json_int (JInt i) = Inr i"
| "json_int (JBool b) = Inr (if b then 1 else 0)"
| "json_int (JStr s) = int_of_text s"
| "json_int _ = Inl (PyExn ''TypeError'')"

fun value_int :: "secret_value \<Rightarrow> int result" where
  "value_int (Exact v) = json_int v"
| "value_int (Float x) = float_int x"

definition field_text :: "(string \<times> secret_value) list \<Rightarrow> string \<Rightarrow> string" where
  \<comment> \<open>\<open>str(payload[f])\<close>\<close>
  "field_text d f = (case map_of d f of None \<Rightarrow> [] | Some v \<Rightarrow> secret_text v)"

definition secret_options :: "(string \<times> secret_value) list \<Rightarrow> secret_value" where
  \<comment> \<open>\<open>payload.get("options") or {}\<close>\<close>
  "secret_options d =
     (case map_of d ''options'' of None \<Rightarrow> Exact (JObj []) | Some v \<Rightarrow> if value_truthy v then v else Exact (JObj []))"

definition credentials_from_payload :: "string \<Rightarrow> string \<Rightarrow> secret_doc \<Rightarrow> DatabaseCredentials result" where
  \<comment> \<open>the handler catches TypeError and ValueError, and nothing else\<close>
  "credentials_from_payload provider_name database_id payload =
     (let malformed = (\<lambda>reason. Inl (unavailable (malformed_text provider_name database_id reason)))
      in case fields_of payload of
           Some d \<Rightarrow>
             (let missing = filter (blank_field d) REQUIRED_SECRET_FIELDS
              in if missing \<noteq> [] then malformed (''missing required field(s): '' @ join '', '' missing)
                 else (case secret_options d of
                         Exact (JObj options) \<Rightarrow>
                           (case value_int (case map_of d ''port'' of None \<Rightarrow> Exact JNull | Some v \<Rightarrow> v) of
                              Inl exc \<Rightarrow>
                                if exc = PyExn ''TypeError'' \<or> exc = PyExn ''ValueError''
                                then malformed (quoted ''port'' @ '' is not an integer'') else Inl exc
                            | Inr port \<Rightarrow>
                                Inr \<lparr>dc_host = field_text d ''host'', dc_port = port, dc_username = field_text d ''username'',
                                     dc_password = field_text d ''password'', dc_database = field_text d ''database'',
                                     dc_options = options\<rparr>)
                       | _ \<Rightarrow> malformed (quoted ''options'' @ '' is present but is not an object'')))
         | None \<Rightarrow> malformed ''secret is not a JSON object'')"

datatype raw_secret = RawBytes string | RawText string | RawValue secret_doc

datatype vault_response = VaultJson json | VaultSecret "(string \<times> secret_value) list"
  \<comment> \<open>any answer without floats in the secret, or the documented nesting around a secret with floats\<close>

record 'w secrets_sdk =
  sd_import :: "string \<Rightarrow> bool"                                   \<comment> \<open>a module can be imported\<close>
  sd_client :: "string \<Rightarrow> ('w, exn, unit) comp"                   \<comment> \<open>construction of the client\<close>
  sd_vault :: "string \<Rightarrow> string \<Rightarrow> ('w, exn, vault_response) comp" \<comment> \<open>path, mount point\<close>
  sd_aws :: "string \<Rightarrow> ('w, exn, (string \<times> raw_secret) list option) comp"
    \<comment> \<open>the response's fields that are not None, or None when it is no mapping\<close>
  sd_azure :: "string \<Rightarrow> ('w, exn, raw_secret option) comp"       \<comment> \<open>\<open>secret.value\<close>\<close>
  sd_gcp :: "string \<Rightarrow> ('w, exn, raw_secret option) comp"         \<comment> \<open>\<open>response.payload.data\<close>\<close>
  sd_utf8 :: "string \<Rightarrow> bool"
  sd_json :: "string \<Rightarrow> secret_doc result"                         \<comment> \<open>\<open>json.loads\<close>\<close>

definition decode_secret_json :: "'w secrets_sdk \<Rightarrow> string \<Rightarrow> string \<Rightarrow> raw_secret \<Rightarrow> secret_doc result" where
  "decode_secret_json sdk provider_name database_id raw =
     (let malformed = (\<lambda>reason. Inl (unavailable (malformed_text provider_name database_id reason)));
          parse = (\<lambda>t. case sd_json sdk t of
            Inl exc \<Rightarrow> if exc = PyExn ''JSONDecodeError'' then malformed ''secret is not a JSON object'' else Inl exc
          | Inr v \<Rightarrow> Inr v)
      in case raw of
           RawBytes t \<Rightarrow> if sd_utf8 sdk t then parse t else malformed ''secret is not UTF-8 text''
         | RawText t \<Rightarrow> parse t
         | RawValue v \<Rightarrow> Inr v)"

definition credentials_from_raw :: "'w secrets_sdk \<Rightarrow> string \<Rightarrow> string \<Rightarrow> raw_secret \<Rightarrow> DatabaseCredentials result" where
  "credentials_from_raw sdk provider_name database_id raw =
     bindE (decode_secret_json sdk provider_name database_id raw) (credentials_from_payload provider_name database_id)"

section \<open>The backends\<close>

record VaultCredentialProvider =
  va_addr :: string
  va_token :: string
  va_mount_point :: string
  va_path_prefix :: string

record AWSSecretsManagerCredentialProvider =
  aw_region :: string
  aw_name_prefix :: string

record AzureKeyVaultCredentialProvider =
  az_vault_url :: string
  az_name_prefix :: string

record GCPSecretManagerCredentialProvider =
  gc_project_id :: string
  gc_name_prefix :: string
  gc_version :: string

definition name_safe :: "char \<Rightarrow> bool" where
  "name_safe c \<longleftrightarrow> is_digit c \<or> is_lower c \<or> is_upper c \<or> c = CHR ''-''"

definition name_safe_text :: "string \<Rightarrow> string" where
  \<comment> \<open>\<open>_NON_NAME_SAFE.sub("-", s)\<close>\<close>
  "name_safe_text s = map (\<lambda>c. if name_safe c then c else CHR ''-'') s"

definition vault_secret_path :: "VaultCredentialProvider \<Rightarrow> string \<Rightarrow> string" where
  "vault_secret_path p database_id = va_path_prefix p @ ''/'' @ database_id"

definition aws_secret_name :: "AWSSecretsManagerCredentialProvider \<Rightarrow> string \<Rightarrow> string" where
  "aws_secret_name p database_id = aw_name_prefix p @ ''/'' @ database_id"

definition azure_secret_name :: "AzureKeyVaultCredentialProvider \<Rightarrow> string \<Rightarrow> string" where
  "azure_secret_name p database_id = name_safe_text (az_name_prefix p @ ''-'' @ database_id)"

definition gcp_secret_version_name :: "GCPSecretManagerCredentialProvider \<Rightarrow> string \<Rightarrow> string" where
  "gcp_secret_version_name p database_id =
     ''projects/'' @ gc_project_id p @ ''/secrets/'' @ name_safe_text (gc_name_prefix p @ ''-'' @ database_id) @
     ''/versions/'' @ gc_version p"

record 'w cred_state =
  cr_client :: bool  \<comment> \<open>the backend's client has been built, or was given\<close>
  cr_world :: 'w

type_synonym ('w, 'a) cred_op = "('w cred_state, exn, 'a) comp"

definition cred_world :: "('w, exn, 'a) comp \<Rightarrow> ('w, 'a) cred_op" where
  "cred_world m = zoom cr_world (\<lambda>w s. s\<lparr>cr_world := w\<rparr>) m"

fun load_sdks :: "'w secrets_sdk \<Rightarrow> string \<Rightarrow> (string \<times> string) list \<Rightarrow> string \<Rightarrow> unit result" where
  \<comment> \<open>\<open>_load_sdk\<close> of each (module, package)\<close>
  "load_sdks sdk provider_name [] extra = Inr ()"
| "load_sdks sdk provider_name ((module, package) # ms) extra =
     (if sd_import sdk module then load_sdks sdk provider_name ms extra
      else Inl (unavailable (sdk_missing_text provider_name package extra)))"

definition get_client :: "'w secrets_sdk \<Rightarrow> string \<Rightarrow> (string \<times> string) list \<Rightarrow> string \<Rightarrow> ('w, unit) cred_op" where
  "get_client sdk provider_name modules extra s =
     (if cr_client s then (Inr (), s)
      else bindM (liftE (load_sdks sdk provider_name modules extra)) (\<lambda>_.
           bindM (cred_world (sd_client sdk provider_name)) (\<lambda>_ s. (Inr (), s\<lparr>cr_client := True\<rparr>))) s)"

definition read_backend :: "string \<Rightarrow> string \<Rightarrow> ('w, exn, 'a) comp \<Rightarrow> ('w, 'a) cred_op" where
  \<comment> \<open>any exception of the SDK call is one and the same error\<close>
  "read_backend provider_name database_id m s =
     (case cred_world m s of
        (Inl exc, s') \<Rightarrow> (Inl (unavailable (backend_text provider_name database_id)), s')
      | (Inr a, s') \<Rightarrow> (Inr a, s'))"

definition vault_payload :: "vault_response \<Rightarrow> secret_doc result" where
  \<comment> \<open>\<open>(response or {}).get("data", {}).get("data") if isinstance(response, dict) else None\<close>\<close>
  "vault_payload response =
     (case response of
        VaultSecret d \<Rightarrow> Inr (Fields d)
      | VaultJson (JObj d) \<Rightarrow>
          bindE (py_get (JObj d) ''data'' (JObj [])) (\<lambda>data. bindE (py_get data ''data'' JNull) (\<lambda>v. Inr (Json v)))
      | VaultJson _ \<Rightarrow> Inr (Json JNull))"

definition vault_get_credentials ::
    "'w secrets_sdk \<Rightarrow> VaultCredentialProvider \<Rightarrow> string \<Rightarrow> ('w, DatabaseCredentials) cred_op" where
  "vault_get_credentials sdk p database_id =
     (if va_addr p = [] \<or> va_token p = [] then raiseM (unavailable (unconfigured_text ''vault''))
      else bindM (get_client sdk ''vault'' [(''hvac'', ''hvac'')] ''secrets-vault'') (\<lambda>_.
           bindM (read_backend ''vault'' database_id (sd_vault sdk (vault_secret_path p database_id) (va_mount_point p))) (\<lambda>response.
           bindM (liftE (vault_payload response)) (\<lambda>payload.
           if payload = Json JNull
           then raiseM (unavailable (malformed_text ''vault'' database_id ''response had no data.data object''))
           else liftE (credentials_from_payload ''vault'' database_id payload)))))"

definition aws_raw :: "(string \<times> raw_secret) list \<Rightarrow> raw_secret option" where
  "aws_raw response =
     (case map_of response ''SecretString'' of Some raw \<Rightarrow> Some raw | None \<Rightarrow> map_of response ''SecretBinary'')"

definition aws_get_credentials ::
    "'w secrets_sdk \<Rightarrow> AWSSecretsManagerCredentialProvider \<Rightarrow> string \<Rightarrow> ('w, DatabaseCredentials) cred_op" where
  "aws_get_credentials sdk p database_id =
     (let name = ''aws_secrets_manager'';
          malformed = (\<lambda>reason. raiseM (unavailable (malformed_text name database_id reason)))
      in if aw_region p = [] then raiseM (unavailable (unconfigured_text name))
         else bindM (get_client sdk name [(''boto3'', ''boto3'')] ''secrets-aws'') (\<lambda>_.
              bindM (read_backend name database_id (sd_aws sdk (aws_secret_name p database_id))) (\<lambda>response.
              case response of
                None \<Rightarrow> malformed ''response was not a mapping''
              | Some d \<Rightarrow>
                  (case aws_raw d of
                     None \<Rightarrow> malformed ''response had neither SecretString nor SecretBinary''
                   | Some raw \<Rightarrow> liftE (credentials_from_raw sdk name database_id raw)))))"

definition azure_get_credentials ::
    "'w secrets_sdk \<Rightarrow> AzureKeyVaultCredentialProvider \<Rightarrow> string \<Rightarrow> ('w, DatabaseCredentials) cred_op" where
  "azure_get_credentials sdk p database_id =
     (let name = ''azure_key_vault''
      in if az_vault_url p = [] then raiseM (unavailable (unconfigured_text name))
         else bindM (get_client sdk name [(''azure.keyvault.secrets'', ''azure-keyvault-secrets''),
                (''azure.identity'', ''azure-identity'')] ''secrets-azure'') (\<lambda>_.
              bindM (read_backend name database_id (sd_azure sdk (azure_secret_name p database_id))) (\<lambda>value.
              case value of
                None \<Rightarrow> raiseM (unavailable (malformed_text name database_id ''secret had no value''))
              | Some raw \<Rightarrow> liftE (credentials_from_raw sdk name database_id raw))))"

definition gcp_get_credentials ::
    "'w secrets_sdk \<Rightarrow> GCPSecretManagerCredentialProvider \<Rightarrow> string \<Rightarrow> ('w, DatabaseCredentials) cred_op" where
  "gcp_get_credentials sdk p database_id =
     (let name = ''gcp_secret_manager''
      in if gc_project_id p = [] then raiseM (unavailable (unconfigured_text name))
         else bindM (get_client sdk name [(''google.cloud.secretmanager'', ''google-cloud-secret-manager'')] ''secrets-gcp'') (\<lambda>_.
              bindM (read_backend name database_id (sd_gcp sdk (gcp_secret_version_name p database_id))) (\<lambda>data.
              case data of
                None \<Rightarrow> raiseM (unavailable (malformed_text name database_id ''response had no payload.data''))
              | Some raw \<Rightarrow> liftE (credentials_from_raw sdk name database_id raw))))"

definition local_get_credentials ::
    "(json \<Rightarrow> DatabaseCredentials result) \<Rightarrow> (string \<times> json) list \<Rightarrow> string \<Rightarrow> DatabaseCredentials result" where
  \<comment> \<open>\<open>DatabaseCredentials(**entry)\<close> is the model validation\<close>
  "local_get_credentials validated entries database_id =
     (case map_of entries database_id of
        None \<Rightarrow> Inl (unavailable (''No development credentials configured for '' @ quoted database_id @ ''.''))
      | Some entry \<Rightarrow>
          if entry = JNull then Inl (unavailable (''No development credentials configured for '' @ quoted database_id @ ''.''))
          else validated entry)"

section \<open>Choosing a provider (build_credential_provider)\<close>

datatype CredentialProvider =
    LocalDev "(string \<times> json) list"
  | Vault VaultCredentialProvider
  | AwsSecretsManager AWSSecretsManagerCredentialProvider
  | AzureKeyVault AzureKeyVaultCredentialProvider
  | GcpSecretManager GCPSecretManagerCredentialProvider

record secrets_settings =
  vault_addr :: string
  vault_token :: string
  aws_region :: string
  azure_key_vault_url :: string
  gcp_project_id :: string

definition build_credential_provider :: "Settings \<Rightarrow> secrets_settings \<Rightarrow> (string \<times> json) list \<Rightarrow> CredentialProvider result" where
  \<comment> \<open>\<open>dev_credentials\<close> is the content of config/dev_credentials.yaml\<close>
  "build_credential_provider st ss dev_credentials =
     (let provider = secrets_provider st
      in if provider = ''local_dev'' then Inr (LocalDev dev_credentials)
         else if provider = ''vault''
         then Inr (Vault \<lparr>va_addr = vault_addr ss, va_token = vault_token ss, va_mount_point = ''secret'',
                     va_path_prefix = strip_char (CHR ''/'') ''numi/db''\<rparr>)
         else if provider = ''aws_secrets_manager''
         then Inr (AwsSecretsManager \<lparr>aw_region = aws_region ss, aw_name_prefix = rstrip_char (CHR ''/'') ''numi/db''\<rparr>)
         else if provider = ''azure_key_vault''
         then Inr (AzureKeyVault \<lparr>az_vault_url = azure_key_vault_url ss, az_name_prefix = ''numi-db''\<rparr>)
         else if provider = ''gcp_secret_manager''
         then Inr (GcpSecretManager \<lparr>gc_project_id = gcp_project_id ss, gc_name_prefix = ''numi-db'', gc_version = ''latest''\<rparr>)
         else Inl (unavailable (''Unknown secrets provider '' @ quoted provider @ ''.'')))"

definition get_credentials ::
    "'w secrets_sdk \<Rightarrow> (json \<Rightarrow> DatabaseCredentials result) \<Rightarrow> CredentialProvider \<Rightarrow> string \<Rightarrow> ('w, DatabaseCredentials) cred_op" where
  "get_credentials sdk validated provider database_id =
     (case provider of
        LocalDev entries \<Rightarrow> liftE (local_get_credentials validated entries database_id)
      | Vault p \<Rightarrow> vault_get_credentials sdk p database_id
      | AwsSecretsManager p \<Rightarrow> aws_get_credentials sdk p database_id
      | AzureKeyVault p \<Rightarrow> azure_get_credentials sdk p database_id
      | GcpSecretManager p \<Rightarrow> gcp_get_credentials sdk p database_id)"

section \<open>A credential is complete, an error names no secret\<close>

definition complete_credentials :: "DatabaseCredentials \<Rightarrow> bool" where
  "complete_credentials c \<longleftrightarrow> dc_host c \<noteq> [] \<and> dc_username c \<noteq> [] \<and> dc_password c \<noteq> [] \<and> dc_database c \<noteq> []"

definition secret_reason :: "string \<Rightarrow> bool" where
  \<comment> \<open>the reasons an error may give: fixed texts, or names of required fields\<close>
  "secret_reason r \<longleftrightarrow>
     r \<in> {''secret is not a JSON object'', ''secret is not UTF-8 text'', ''response was not a mapping'',
           ''response had no data.data object'', ''response had neither SecretString nor SecretBinary'', ''secret had no value'',
           ''response had no payload.data'', quoted ''port'' @ '' is not an integer'',
           quoted ''options'' @ '' is present but is not an object''} \<or>
     (\<exists>fs. set fs \<subseteq> set REQUIRED_SECRET_FIELDS \<and> r = ''missing required field(s): '' @ join '', '' fs)"

definition safe_error :: "string \<Rightarrow> string \<Rightarrow> exn \<Rightarrow> bool" where
  "safe_error provider_name database_id e \<longleftrightarrow>
     e = unavailable (unconfigured_text provider_name) \<or> e = unavailable (backend_text provider_name database_id) \<or>
     (\<exists>package extra. e = unavailable (sdk_missing_text provider_name package extra)) \<or>
     (\<exists>r. secret_reason r \<and> e = unavailable (malformed_text provider_name database_id r))"

lemma py_str_not_Nil: "v \<noteq> JStr [] \<Longrightarrow> py_str v \<noteq> []"
  by (cases v) (auto simp: py_str_def int_str_def)

lemma value_text_not_Nil: "v \<noteq> Exact (JStr []) \<Longrightarrow> secret_text v \<noteq> []"
proof (cases v)
  case (Float x)
  then show ?thesis by (cases x) auto
qed (auto simp: py_str_not_Nil)

lemma value_int_Inl: "value_int v = Inl e \<Longrightarrow> e = PyExn ''TypeError'' \<or> e = PyExn ''ValueError'' \<or> e = PyExn ''OverflowError''"
proof (cases v)
  case (Exact w)
  moreover assume "value_int v = Inl e"
  ultimately show ?thesis by (cases w) (auto simp: int_of_text_def split: option.splits)
next
  case (Float x)
  moreover assume "value_int v = Inl e"
  ultimately show ?thesis by (cases x) auto
qed

lemma field_text_not_Nil: "\<not> blank_field d f \<Longrightarrow> field_text d f \<noteq> []"
  by (auto simp: blank_field_def field_text_def dest: value_text_not_Nil split: option.splits)

lemma payload_Inr: "credentials_from_payload n i payload = Inr c \<Longrightarrow> complete_credentials c"
  by (auto simp: credentials_from_payload_def Let_def complete_credentials_def REQUIRED_SECRET_FIELDS_def field_text_not_Nil
      split: option.splits secret_value.splits json.splits if_splits sum.splits)

lemma payload_Inl:
  assumes "credentials_from_payload n i payload = Inl e"
  shows "(\<exists>r. secret_reason r \<and> e = unavailable (malformed_text n i r)) \<or> e = PyExn ''OverflowError''"
proof -
  have missing: "secret_reason (''missing required field(s): '' @ join '', '' (filter (blank_field d) REQUIRED_SECRET_FIELDS))" for d
    unfolding secret_reason_def by (intro disjI2 exI conjI refl) auto
  have fixed: "secret_reason ''secret is not a JSON object''" "secret_reason (quoted ''port'' @ '' is not an integer'')"
    "secret_reason (quoted ''options'' @ '' is present but is not an object'')"
    by (simp_all add: secret_reason_def)
  show ?thesis using assms missing fixed
    by (auto simp: credentials_from_payload_def Let_def dest!: value_int_Inl
        split: option.splits secret_value.splits json.splits if_splits sum.splits)
qed

definition json_failure :: "'w secrets_sdk \<Rightarrow> exn \<Rightarrow> bool" where
  \<comment> \<open>an exception of the JSON reader that is not the one the handler names\<close>
  "json_failure sdk e \<longleftrightarrow> e \<noteq> PyExn ''JSONDecodeError'' \<and> (\<exists>t. sd_json sdk t = Inl e)"

definition secret_failure :: "'w secrets_sdk \<Rightarrow> exn \<Rightarrow> bool" where
  "secret_failure sdk e \<longleftrightarrow> e = PyExn ''OverflowError'' \<or> json_failure sdk e"

lemma raw_Inl:
  assumes "credentials_from_raw sdk n i raw = Inl e"
  shows "(\<exists>r. secret_reason r \<and> e = unavailable (malformed_text n i r)) \<or> secret_failure sdk e"
proof -
  have "(\<exists>r. secret_reason r \<and> e = unavailable (malformed_text n i r)) \<or> json_failure sdk e"
    if "decode_secret_json sdk n i raw = Inl e"
    using that by (auto simp: decode_secret_json_def secret_reason_def json_failure_def Let_def
        split: raw_secret.splits if_splits sum.splits)
  then show ?thesis using assms payload_Inl by (auto simp: credentials_from_raw_def bindE_Inl_iff secret_failure_def)
qed

lemma raw_Inr: "credentials_from_raw sdk n i raw = Inr c \<Longrightarrow> complete_credentials c"
  by (auto simp: credentials_from_raw_def dest: payload_Inr)

lemma safe_reason: "secret_reason r \<Longrightarrow> safe_error n i (unavailable (malformed_text n i r))"
  by (auto simp: safe_error_def)

lemma safe_texts [simp]: "safe_error n i (unavailable (unconfigured_text n))" "safe_error n i (unavailable (backend_text n i))"
  by (auto simp: safe_error_def)

lemma load_sdks_Inl: "load_sdks sdk n ms extra = Inl e \<Longrightarrow> safe_error n i e"
  by (induction sdk n ms extra rule: load_sdks.induct) (auto simp: safe_error_def split: if_splits)

lemma get_client_Inl:
  "get_client sdk n ms extra s = (Inl e, s') \<Longrightarrow>
     safe_error n i e \<or> \<not> cr_client s \<and> fst (sd_client sdk n (cr_world s)) = Inl e"
  by (auto simp: get_client_def bindM_def cred_world_def zoom_def dest: load_sdks_Inl split: if_splits sum.splits prod.splits)

lemma read_backend_Inl: "read_backend n i m s = (Inl e, s') \<Longrightarrow> safe_error n i e"
  by (auto simp: read_backend_def split: prod.splits sum.splits)

text \<open>
  What a secrets-manager backend promises for the server of an id: a complete credential, or an
  error of the texts above, or one of the errors it does not catch.
\<close>

locale secrets_backend =
  fixes name :: string and get :: "string \<Rightarrow> ('w, DatabaseCredentials) cred_op"
    and uncaught :: "'w cred_state \<Rightarrow> exn \<Rightarrow> bool"
  assumes get_Inr: "get i s = (Inr c, s') \<Longrightarrow> complete_credentials c"
    and get_Inl: "get i s = (Inl e, s') \<Longrightarrow> safe_error name i e \<or> uncaught s e"
begin

lemma outcome: "get i s = (r, s') \<Longrightarrow>
    (case r of Inr c \<Rightarrow> complete_credentials c | Inl e \<Rightarrow> safe_error name i e \<or> uncaught s e)"
  by (cases r) (auto dest: get_Inr get_Inl)

end

definition client_failure :: "'w secrets_sdk \<Rightarrow> string \<Rightarrow> 'w cred_state \<Rightarrow> exn \<Rightarrow> bool" where
  \<comment> \<open>the construction of the client is outside the handler\<close>
  "client_failure sdk n s e \<longleftrightarrow> \<not> cr_client s \<and> fst (sd_client sdk n (cr_world s)) = Inl e"

lemmas backend_steps = bindM_eq_Inl_iff bindM_eq_Inr_iff

interpretation vault: secrets_backend "''vault''" "vault_get_credentials sdk p"
    "\<lambda>s e. client_failure sdk ''vault'' s e \<or> e = PyExn ''AttributeError'' \<or> e = PyExn ''OverflowError''"
  for sdk p
proof
  fix i s c s'
  assume "vault_get_credentials sdk p i s = (Inr c, s')"
  then show "complete_credentials c"
    by (auto simp: vault_get_credentials_def backend_steps dest: payload_Inr split: if_splits)
next
  fix i s e s'
  assume get: "vault_get_credentials sdk p i s = (Inl e, s')"
  have no_data: "safe_error ''vault'' i (unavailable (malformed_text ''vault'' i ''response had no data.data object''))"
    by (rule safe_reason) (simp add: secret_reason_def)
  have shape: "e' = PyExn ''AttributeError''" if "vault_payload response = Inl e'" for response e'
    using that by (auto simp: vault_payload_def bindE_Inl_iff dest: py_get_Inl split: json.splits vault_response.splits)
  from get show "safe_error ''vault'' i e \<or> client_failure sdk ''vault'' s e \<or> e = PyExn ''AttributeError'' \<or>
      e = PyExn ''OverflowError''"
    using no_data
    by (auto simp: vault_get_credentials_def backend_steps client_failure_def dest!: payload_Inl shape
        dest: safe_reason read_backend_Inl get_client_Inl [of sdk _ _ _ _ _ _ i] split: if_splits)
qed

interpretation aws: secrets_backend "''aws_secrets_manager''" "aws_get_credentials sdk p"
    "\<lambda>s e. client_failure sdk ''aws_secrets_manager'' s e \<or> secret_failure sdk e"
  for sdk p
proof
  fix i s c s'
  assume "aws_get_credentials sdk p i s = (Inr c, s')"
  then show "complete_credentials c"
    by (auto simp: aws_get_credentials_def Let_def backend_steps dest: raw_Inr split: if_splits option.splits)
next
  fix i s e s'
  let ?n = "''aws_secrets_manager''"
  have reasons: "secret_reason ''response was not a mapping''" "secret_reason ''response had neither SecretString nor SecretBinary''"
    by (simp_all add: secret_reason_def)
  have answer: "safe_error ?n i e' \<or> secret_failure sdk e'"
    if "(case response of None \<Rightarrow> raiseM (unavailable (malformed_text ?n i ''response was not a mapping''))
       | Some d \<Rightarrow> (case aws_raw d of
            None \<Rightarrow> raiseM (unavailable (malformed_text ?n i ''response had neither SecretString nor SecretBinary''))
          | Some raw \<Rightarrow> liftE (credentials_from_raw sdk ?n i raw))) t = (Inl e', t')" for response e' and t t' :: "'a cred_state"
    using that reasons by (auto dest!: raw_Inl dest: safe_reason split: option.splits)
  assume "aws_get_credentials sdk p i s = (Inl e, s')"
  then show "safe_error ?n i e \<or> client_failure sdk ?n s e \<or> secret_failure sdk e"
    unfolding aws_get_credentials_def Let_def
    by (auto simp: backend_steps client_failure_def dest!: answer dest: read_backend_Inl get_client_Inl [of sdk _ _ _ _ _ _ i] split: if_splits)
qed

interpretation azure: secrets_backend "''azure_key_vault''" "azure_get_credentials sdk p"
    "\<lambda>s e. client_failure sdk ''azure_key_vault'' s e \<or> secret_failure sdk e"
  for sdk p
proof
  fix i s c s'
  assume "azure_get_credentials sdk p i s = (Inr c, s')"
  then show "complete_credentials c"
    by (auto simp: azure_get_credentials_def Let_def backend_steps dest: raw_Inr split: if_splits option.splits)
next
  fix i s e s'
  assume "azure_get_credentials sdk p i s = (Inl e, s')"
  moreover have "secret_reason ''secret had no value''" by (simp add: secret_reason_def)
  ultimately show "safe_error ''azure_key_vault'' i e \<or> client_failure sdk ''azure_key_vault'' s e \<or> secret_failure sdk e"
    by (auto simp: azure_get_credentials_def Let_def backend_steps client_failure_def dest!: raw_Inl
        dest: safe_reason read_backend_Inl get_client_Inl [of sdk _ _ _ _ _ _ i] split: if_splits option.splits)
qed

interpretation gcp: secrets_backend "''gcp_secret_manager''" "gcp_get_credentials sdk p"
    "\<lambda>s e. client_failure sdk ''gcp_secret_manager'' s e \<or> secret_failure sdk e"
  for sdk p
proof
  fix i s c s'
  assume "gcp_get_credentials sdk p i s = (Inr c, s')"
  then show "complete_credentials c"
    by (auto simp: gcp_get_credentials_def Let_def backend_steps dest: raw_Inr split: if_splits option.splits)
next
  fix i s e s'
  assume "gcp_get_credentials sdk p i s = (Inl e, s')"
  moreover have "secret_reason ''response had no payload.data''" by (simp add: secret_reason_def)
  ultimately show "safe_error ''gcp_secret_manager'' i e \<or> client_failure sdk ''gcp_secret_manager'' s e \<or> secret_failure sdk e"
    by (auto simp: gcp_get_credentials_def Let_def backend_steps client_failure_def dest!: raw_Inl
        dest: safe_reason read_backend_Inl get_client_Inl [of sdk _ _ _ _ _ _ i] split: if_splits option.splits)
qed

fun backend_name :: "CredentialProvider \<Rightarrow> string" where
  "backend_name (LocalDev _) = ''local_dev''"
| "backend_name (Vault _) = ''vault''"
| "backend_name (AwsSecretsManager _) = ''aws_secrets_manager''"
| "backend_name (AzureKeyVault _) = ''azure_key_vault''"
| "backend_name (GcpSecretManager _) = ''gcp_secret_manager''"

text \<open>
  C14. The four secrets-manager providers fail closed (the local_dev provider of development entries
  is not among them): whatever the secrets manager answers, a lookup gives a credential with host,
  user name, password and database, or it raises. What it raises is DEPENDENCY_UNAVAILABLE with a
  text made of the backend's name, the server id and names of fields only, so no part of a secret
  can be in it, except for four exceptions that escape: one of the construction of the client, the
  OverflowError of an infinite port, with Vault the AttributeError of an answer of another shape,
  and with the others an exception of the JSON reader other than JSONDecodeError.
\<close>

theorem credentials_fail_closed:
  assumes "build_credential_provider st ss dev = Inr provider" and "secrets_provider st \<noteq> ''local_dev''"
    and "get_credentials sdk validated provider i s = (r, s')"
  shows "case r of
     Inr c \<Rightarrow> complete_credentials c
   | Inl e \<Rightarrow> safe_error (backend_name provider) i e \<or> client_failure sdk (backend_name provider) s e \<or>
       e = PyExn ''OverflowError'' \<or> backend_name provider = ''vault'' \<and> e = PyExn ''AttributeError'' \<or>
       backend_name provider \<noteq> ''vault'' \<and> json_failure sdk e"
proof (cases provider)
  case (LocalDev entries)
  with assms(1,2) show ?thesis by (auto simp: build_credential_provider_def Let_def split: if_splits)
next
  case (Vault p)
  with assms(3) vault.outcome [of sdk p i s r s'] show ?thesis by (auto simp: get_credentials_def secret_failure_def split: sum.split)
next
  case (AwsSecretsManager p)
  with assms(3) aws.outcome [of sdk p i s r s'] show ?thesis by (auto simp: get_credentials_def secret_failure_def split: sum.split)
next
  case (AzureKeyVault p)
  with assms(3) azure.outcome [of sdk p i s r s'] show ?thesis by (auto simp: get_credentials_def secret_failure_def split: sum.split)
next
  case (GcpSecretManager p)
  with assms(3) gcp.outcome [of sdk p i s r s'] show ?thesis by (auto simp: get_credentials_def secret_failure_def split: sum.split)
qed

definition demo_sdk :: "vault_response \<Rightarrow> unit secrets_sdk" where
  \<comment> \<open>a Vault that answers with the given object, and no other package installed\<close>
  "demo_sdk answer =
     \<lparr>sd_import = (\<lambda>m. m = ''hvac''), sd_client = (\<lambda>n. returnM ()), sd_vault = (\<lambda>p m. returnM answer),
      sd_aws = (\<lambda>n. raiseM (PyExn ''ClientError'')), sd_azure = (\<lambda>n. raiseM (PyExn ''ClientError'')),
      sd_gcp = (\<lambda>n. raiseM (PyExn ''ClientError'')), sd_utf8 = (\<lambda>t. True), sd_json = (\<lambda>t. Inl (PyExn ''JSONDecodeError''))\<rparr>"

definition demo_vault :: CredentialProvider where
  "demo_vault = Vault \<lparr>va_addr = ''https://vault'', va_token = ''t'', va_mount_point = ''secret'', va_path_prefix = ''numi/db''\<rparr>"

definition demo_secrets :: secrets_settings where
  "demo_secrets = \<lparr>vault_addr = ''https://vault'', vault_token = ''t'', aws_region = [], azure_key_vault_url = [], gcp_project_id = []\<rparr>"

definition fresh_client :: "unit cred_state" where
  "fresh_client = \<lparr>cr_client = False, cr_world = ()\<rparr>"

theorem credentials_fail_closed_witness:
  "\<exists>e s'. get_credentials (demo_sdk (VaultJson (JObj [(''data'', JObj [(''data'', JObj [(''host'', JStr ''db1'')])])]))) (\<lambda>_. Inl (PyExn ''X''))
      demo_vault ''db1'' fresh_client = (Inl e, s') \<and> safe_error ''vault'' ''db1'' e"
proof -
  let ?sdk = "demo_sdk (VaultJson (JObj [(''data'', JObj [(''data'', JObj [(''host'', JStr ''db1'')])])]))"
  let ?st = "default_settings\<lparr>secrets_provider := ''vault''\<rparr>"
  have b: "build_credential_provider ?st demo_secrets [] = Inr demo_vault" by code_simp
  obtain r s' where g: "get_credentials ?sdk (\<lambda>_. Inl (PyExn ''X'')) demo_vault ''db1'' fresh_client = (r, s')" by fastforce
  have "fst (get_credentials ?sdk (\<lambda>_. Inl (PyExn ''X'')) demo_vault ''db1'' fresh_client) =
      Inl (unavailable (malformed_text ''vault'' ''db1'' ''missing required field(s): port, username, password, database''))"
    by code_simp
  then obtain e where r: "r = Inl e" "e = unavailable (malformed_text ''vault'' ''db1'' ''missing required field(s): port, username, password, database'')"
    using g by simp
  have "\<not> client_failure ?sdk ''vault'' fresh_client e" by (simp add: client_failure_def demo_sdk_def)
  with credentials_fail_closed [OF b _ g] r g show ?thesis by (auto simp: demo_vault_def unavailable_def)
qed

theorem vault_shape_escapes:
  \<comment> \<open>an answer whose data is null is not reported as malformed\<close>
  "fst (get_credentials (demo_sdk (VaultJson (JObj [(''data'', JNull)]))) (\<lambda>_. Inl (PyExn ''X'')) demo_vault ''db1'' fresh_client) =
     Inl (PyExn ''AttributeError'')"
  by code_simp

theorem infinite_port_escapes:
  \<comment> \<open>\<open>int(payload["port"])\<close> of an infinite float raises what the handler does not catch\<close>
  "fst (get_credentials (demo_sdk (VaultSecret [(''host'', Exact (JStr ''db1'')), (''port'', Float (Infinite False)),
     (''username'', Exact (JStr ''u'')), (''password'', Exact (JStr ''p'')), (''database'', Exact (JStr ''d''))]))
     (\<lambda>_. Inl (PyExn ''X'')) demo_vault ''db1'' fresh_client) = Inl (PyExn ''OverflowError'')"
  by code_simp

section \<open>A secret holds exactly a credential\<close>

definition secret_of :: "DatabaseCredentials \<Rightarrow> json" where
  \<comment> \<open>the documented object\<close>
  "secret_of c = JObj [(''host'', JStr (dc_host c)), (''port'', JInt (dc_port c)), (''username'', JStr (dc_username c)),
     (''password'', JStr (dc_password c)), (''database'', JStr (dc_database c)), (''options'', JObj (dc_options c))]"

theorem secret_roundtrip:
  "complete_credentials c \<Longrightarrow> credentials_from_payload n i (Json (secret_of c)) = Inr c"
  by (cases c) (auto simp: credentials_from_payload_def secret_of_def complete_credentials_def REQUIRED_SECRET_FIELDS_def
      blank_field_def field_text_def secret_options_def py_str_def Let_def)

end
