(* ===== verification/Db_Connections.thy ===== *)
theory Db_Connections
  imports Engine_Adapters Credentials
begin

text \<open>
  The query executors over a driver connection (execution/adapters/connections.py): opening and
  closing, timeouts, the shape of the answers, and for SQL Server the translation of named to
  positional placeholders. The drivers (psycopg, asyncmy, pyodbc) are a parameter, a record of the
  calls the executors make, over whatever state \<open>'w\<close> the world outside has; \<open>'k\<close> is what a driver
  connection is.
\<close>

section \<open>Drivers and connections\<close>

datatype sql_params = NoParams | Named jdict | Positional "json list"

record db_cursor =
  cu_description :: "string list option"
  cu_rowcount :: int
  cu_fetchall :: "exec_exn + json list list"
  cu_fetchall_dicts :: "exec_exn + jrow list"
  cu_fetchone :: "exec_exn + json list option"

record ('w, 'k) db_driver =
  dr_connect :: "jdict \<Rightarrow> ('w, 'k) db_op"
  dr_connect_string :: "string \<Rightarrow> jdict \<Rightarrow> ('w, 'k) db_op"
  dr_set_timeout :: "'k \<Rightarrow> int \<Rightarrow> ('w, unit) db_op"
  dr_execute :: "'k \<Rightarrow> string \<Rightarrow> sql_params \<Rightarrow> ('w, db_cursor) db_op"
  dr_close :: "'k \<Rightarrow> ('w, unit) db_op"

record ('w, 'k) db_state =
  ds_conn :: "'k option"
  ds_pool_open :: bool
  ds_world :: 'w

type_synonym ('w, 'k, 'a) conn_op = "(('w, 'k) db_state, 'a) db_op"

definition db_world :: "('w, 'a) db_op \<Rightarrow> ('w, 'k, 'a) conn_op" where
  "db_world = zoom ds_world (\<lambda>w s. s\<lparr>ds_world := w\<rparr>)"

definition the_conn :: "('w, 'k, 'k) conn_op" where
  \<comment> \<open>using \<open>self._conn\<close> while it is \<open>None\<close> raises\<close>
  "the_conn s = (case ds_conn s of None \<Rightarrow> (Inl (OtherError ''AttributeError''), s) | Some k \<Rightarrow> (Inr k, s))"

definition run_sql :: "('w, 'k) db_driver \<Rightarrow> string \<Rightarrow> sql_params \<Rightarrow> ('w, 'k, db_cursor) conn_op" where
  \<comment> \<open>\<open>cursor.execute\<close> on a cursor of the connection\<close>
  "run_sql drv sql params = bindM the_conn (\<lambda>k. db_world (dr_execute drv k sql params))"

definition set_conn :: "'k option \<Rightarrow> ('w, 'k, unit) conn_op" where
  "set_conn c s = (Inr (), s\<lparr>ds_conn := c\<rparr>)"

section \<open>The shape of an answer\<close>

definition row_dict :: "string list \<Rightarrow> json list \<Rightarrow> jrow" where
  \<comment> \<open>\<open>dict(zip(columns, row, strict=False))\<close>\<close>
  "row_dict columns row = dict_merge [] (zip columns row)"

definition rows_of :: "db_cursor \<Rightarrow> exec_exn + jrow list" where
  "rows_of cur =
     (let columns = (case cu_description cur of None \<Rightarrow> [] | Some cs \<Rightarrow> cs)
      in bindE (cu_fetchall cur) (\<lambda>rows. Inr (map (row_dict columns) rows)))"

definition effect_of :: "db_cursor \<Rightarrow> exec_exn + jdict" where
  \<comment> \<open>the row count and, of a statement that returns a row, that row's columns\<close>
  "effect_of cur =
     (let result = [(''rowcount'', JInt (cu_rowcount cur))]
      in case cu_description cur of
           None \<Rightarrow> Inr result
         | Some columns \<Rightarrow>
             bindE (cu_fetchone cur) (\<lambda>row.
               Inr (case row of None \<Rightarrow> result | Some r \<Rightarrow> dict_merge result (row_dict columns r))))"

section \<open>PostgreSQL\<close>

definition pg_connect_args :: "DatabaseCredentials \<Rightarrow> jdict" where
  "pg_connect_args c =
     [(''host'', JStr (dc_host c)), (''port'', JInt (dc_port c)), (''user'', JStr (dc_username c)),
      (''password'', JStr (dc_password c)), (''dbname'', JStr (dc_database c)), (''autocommit'', JBool True),
      (''connect_timeout'', JInt 10)] @
     (case map_of (dc_options c) ''sslmode'' of
        Some v \<Rightarrow> if truthy v then [(''sslmode'', v)] else []
      | None \<Rightarrow> [])"

definition pg_connect :: "('w, 'k) db_driver \<Rightarrow> DatabaseCredentials \<Rightarrow> ('w, 'k, unit) conn_op" where
  "pg_connect drv c = bindM (db_world (dr_connect drv (pg_connect_args c))) (\<lambda>k. set_conn (Some k))"

definition pg_close :: "('w, 'k) db_driver \<Rightarrow> ('w, 'k, unit) conn_op" where
  "pg_close drv s = (case ds_conn s of None \<Rightarrow> (Inr (), s) | Some k \<Rightarrow> db_world (dr_close drv k) s)"

definition pg_set_timeouts :: "('w, 'k) db_driver \<Rightarrow> int \<Rightarrow> ('w, 'k, unit) conn_op" where
  "pg_set_timeouts drv timeout =
     bindM (run_sql drv (''SET statement_timeout = '' @ int_str (timeout * 1000)) NoParams) (\<lambda>_.
     bindM (run_sql drv (''SET lock_timeout = '' @ int_str (min timeout 5 * 1000)) NoParams) (\<lambda>_.
     returnM ()))"

definition pg_fetch_all :: "('w, 'k) db_driver \<Rightarrow> int \<Rightarrow> string \<Rightarrow> jdict \<Rightarrow> ('w, 'k, jrow list) conn_op" where
  "pg_fetch_all drv timeout sql params =
     bindM (pg_set_timeouts drv timeout) (\<lambda>_.
     bindM (run_sql drv sql (Named params)) (\<lambda>cur. liftE (rows_of cur)))"

definition pg_execute :: "('w, 'k) db_driver \<Rightarrow> int \<Rightarrow> string \<Rightarrow> jdict \<Rightarrow> ('w, 'k, jdict) conn_op" where
  "pg_execute drv timeout sql params =
     bindM (pg_set_timeouts drv timeout) (\<lambda>_.
     bindM (run_sql drv sql (Named params)) (\<lambda>cur. liftE (effect_of cur)))"

section \<open>MySQL and MariaDB\<close>

definition my_connect_args :: "DatabaseCredentials \<Rightarrow> jdict" where
  "my_connect_args c =
     [(''host'', JStr (dc_host c)), (''port'', JInt (dc_port c)), (''user'', JStr (dc_username c)),
      (''password'', JStr (dc_password c)), (''database'', JStr (dc_database c)), (''autocommit'', JBool True),
      (''connect_timeout'', JInt 10)] @
     (case map_of (dc_options c) ''ssl'' of
        Some v \<Rightarrow> if truthy v then [(''ssl'', v)] else []
      | None \<Rightarrow> [])"

definition my_connect :: "('w, 'k) db_driver \<Rightarrow> DatabaseCredentials \<Rightarrow> ('w, 'k, unit) conn_op" where
  "my_connect drv c = bindM (db_world (dr_connect drv (my_connect_args c))) (\<lambda>k. set_conn (Some k))"

definition my_close :: "('w, 'k) db_driver \<Rightarrow> ('w, 'k, unit) conn_op" where
  "my_close drv s =
     (case ds_conn s of
        None \<Rightarrow> (Inr (), s)
      | Some k \<Rightarrow> bindM (set_conn None) (\<lambda>_. db_world (dr_close drv k)) s)"

definition ignoring_errors :: "('w, 'k, 'a) conn_op \<Rightarrow> ('w, 'k, unit) conn_op" where
  \<comment> \<open>\<open>try: ... except Exception: continue\<close>\<close>
  "ignoring_errors f s = (case f s of (_, t) \<Rightarrow> (Inr (), t))"

definition my_set_timeout :: "('w, 'k) db_driver \<Rightarrow> int \<Rightarrow> ('w, 'k, unit) conn_op" where
  "my_set_timeout drv timeout =
     bindM (ignoring_errors (run_sql drv (''SET SESSION max_execution_time = '' @ int_str (timeout * 1000)) NoParams)) (\<lambda>_.
     ignoring_errors (run_sql drv (''SET SESSION max_statement_time = '' @ int_str timeout) NoParams))"

definition params_or_none :: "jdict \<Rightarrow> sql_params" where
  "params_or_none params = (if params = [] then NoParams else Named params)"

definition my_fetch_all :: "('w, 'k) db_driver \<Rightarrow> int \<Rightarrow> string \<Rightarrow> jdict \<Rightarrow> ('w, 'k, jrow list) conn_op" where
  \<comment> \<open>the dictionary cursor of the driver builds the rows\<close>
  "my_fetch_all drv timeout sql params =
     bindM (my_set_timeout drv timeout) (\<lambda>_.
     bindM (run_sql drv sql (params_or_none params)) (\<lambda>cur. liftE (cu_fetchall_dicts cur)))"

definition my_execute :: "('w, 'k) db_driver \<Rightarrow> int \<Rightarrow> string \<Rightarrow> jdict \<Rightarrow> ('w, 'k, jdict) conn_op" where
  "my_execute drv timeout sql params =
     bindM (my_set_timeout drv timeout) (\<lambda>_.
     bindM (run_sql drv sql (params_or_none params)) (\<lambda>cur. liftE (effect_of cur)))"

section \<open>SQL Server\<close>

definition option_flag :: "jdict \<Rightarrow> string \<Rightarrow> bool \<Rightarrow> bool" where
  \<comment> \<open>the truth of \<open>opts.get(k, d)\<close>\<close>
  "option_flag opts k d = (case map_of opts k of None \<Rightarrow> d | Some v \<Rightarrow> truthy v)"

definition connection_string :: "DatabaseCredentials \<Rightarrow> string" where
  "connection_string c =
     (let opts = dc_options c;
          driver = (case map_of opts ''driver'' of None \<Rightarrow> ''ODBC Driver 18 for SQL Server'' | Some v \<Rightarrow> py_str v);
          encrypt = (if option_flag opts ''encrypt'' True then ''yes'' else ''no'');
          trust = (if option_flag opts ''trust_server_certificate'' False then ''yes'' else ''no'')
      in ''DRIVER={'' @ driver @ ''};'' @
         ''SERVER='' @ dc_host c @ '','' @ int_str (dc_port c) @ '';'' @
         ''DATABASE='' @ dc_database c @ '';'' @
         ''UID='' @ dc_username c @ '';'' @
         ''PWD='' @ dc_password c @ '';'' @
         ''Encrypt='' @ encrypt @ '';TrustServerCertificate='' @ trust @ '';'')"

definition run_on_worker :: "('w, 'k, 'a) conn_op \<Rightarrow> ('w, 'k, 'a) conn_op" where
  \<comment> \<open>the one worker thread refuses work once its pool is shut down\<close>
  "run_on_worker f s = (if ds_pool_open s then f s else (Inl (OtherError ''RuntimeError''), s))"

definition ss_connect :: "('w, 'k) db_driver \<Rightarrow> DatabaseCredentials \<Rightarrow> ('w, 'k, unit) conn_op" where
  "ss_connect drv c =
     bindM (run_on_worker
       (bindM (db_world (dr_connect_string drv (connection_string c) [(''timeout'', JInt 10), (''autocommit'', JBool True)])) (\<lambda>k.
        bindM (db_world (dr_set_timeout drv k 30)) (\<lambda>_. returnM k)))) (\<lambda>k.
     set_conn (Some k))"

definition ss_close :: "('w, 'k) db_driver \<Rightarrow> ('w, 'k, unit) conn_op" where
  "ss_close drv s =
     (case ds_conn s of
        None \<Rightarrow> (Inr (), s)
      | Some k \<Rightarrow>
          (case run_on_worker (db_world (dr_close drv k)) (s\<lparr>ds_conn := None\<rparr>) of
             (r, t) \<Rightarrow> (r, t\<lparr>ds_pool_open := False\<rparr>)))"

subsection \<open>Named placeholders\<close>

definition is_word :: "char \<Rightarrow> bool" where
  \<comment> \<open>\<open>\w\<close>\<close>
  "is_word c \<longleftrightarrow> is_lower c \<or> is_upper c \<or> is_digit c \<or> c = CHR ''_''"

definition named_param_at :: "string \<Rightarrow> (string \<times> string) option" where
  \<comment> \<open>the placeholder at the head of the text: its name and the text after it\<close>
  "named_param_at s =
     (if prefix ''%('' s
      then let name = takeWhile is_word (drop 2 s); rest = dropWhile is_word (drop 2 s)
           in if name \<noteq> [] \<and> prefix '')s'' rest then Some (name, drop 2 rest) else None
      else None)"

lemma named_param_at_shorter:
  assumes "named_param_at s = Some (name, rest)"
  shows "length rest < length s"
proof -
  from assms have "rest = drop 2 (dropWhile is_word (drop 2 s))" "prefix ''%('' s"
    by (simp_all add: named_param_at_def Let_def split: if_splits)
  then have "length rest \<le> length s - 2" "2 \<le> length s"
    using length_dropWhile_le [of is_word "drop 2 s"] by (auto simp: prefix_def)
  then show ?thesis by linarith
qed

function to_positional :: "string \<Rightarrow> jdict \<Rightarrow> exec_exn + string \<times> json list" where
  "to_positional [] params = Inr ([], [])"
| "to_positional (c # s) params =
     (case named_param_at (c # s) of
        Some (name, rest) \<Rightarrow>
          (case map_of params name of
             None \<Rightarrow> Inl (OtherError ''KeyError'')
           | Some v \<Rightarrow> bindE (to_positional rest params) (\<lambda>(t, vs). Inr (CHR ''?'' # t, v # vs)))
      | None \<Rightarrow> bindE (to_positional s params) (\<lambda>(t, vs). Inr (c # t, vs)))"
  by pat_completeness auto
termination
  by (relation "measure (length \<circ> fst)") (auto dest: named_param_at_shorter)

declare to_positional.simps [simp del]

definition ss_cursor :: "('w, 'k) db_driver \<Rightarrow> int \<Rightarrow> string \<Rightarrow> json list \<Rightarrow> ('w, 'k, db_cursor) conn_op" where
  \<comment> \<open>the timeout of the connection, a cursor, and the statement with the values there are\<close>
  "ss_cursor drv timeout converted ordered =
     bindM the_conn (\<lambda>k.
     bindM (db_world (dr_set_timeout drv k timeout)) (\<lambda>_.
     run_sql drv converted (if ordered \<noteq> [] then Positional ordered else NoParams)))"

definition ss_fetch_all :: "('w, 'k) db_driver \<Rightarrow> int \<Rightarrow> string \<Rightarrow> jdict \<Rightarrow> ('w, 'k, jrow list) conn_op" where
  "ss_fetch_all drv timeout sql params =
     bindM (liftE (to_positional sql params)) (\<lambda>(converted, ordered).
     run_on_worker (bindM (ss_cursor drv timeout converted ordered) (\<lambda>cur. liftE (rows_of cur))))"

definition ss_execute :: "('w, 'k) db_driver \<Rightarrow> int \<Rightarrow> string \<Rightarrow> jdict \<Rightarrow> ('w, 'k, jdict) conn_op" where
  "ss_execute drv timeout sql params =
     bindM (liftE (to_positional sql params)) (\<lambda>(converted, ordered).
     run_on_worker (bindM (ss_cursor drv timeout converted ordered) (\<lambda>cur. liftE (effect_of cur))))"

section \<open>The executor of a class\<close>

definition DEFAULT_TIMEOUT :: int where
  \<comment> \<open>the default of \<open>timeout\<close>, which no adapter method overrides\<close>
  "DEFAULT_TIMEOUT = 30"

definition query_executor_of :: "adapter_class \<Rightarrow> ('w, 'k) db_driver \<Rightarrow> ('w, 'k) db_state query_executor" where
  "query_executor_of cls drv =
     (case cls of
        PostgreSQLAdapter \<Rightarrow> \<lparr>qe_fetch_all = pg_fetch_all drv DEFAULT_TIMEOUT, qe_execute = pg_execute drv DEFAULT_TIMEOUT\<rparr>
      | MySQLAdapter \<Rightarrow> \<lparr>qe_fetch_all = my_fetch_all drv DEFAULT_TIMEOUT, qe_execute = my_execute drv DEFAULT_TIMEOUT\<rparr>
      | SQLServerAdapter \<Rightarrow> \<lparr>qe_fetch_all = ss_fetch_all drv DEFAULT_TIMEOUT, qe_execute = ss_execute drv DEFAULT_TIMEOUT\<rparr>)"

definition connect_executor :: "adapter_class \<Rightarrow> ('w, 'k) db_driver \<Rightarrow> DatabaseCredentials \<Rightarrow> ('w, 'k, unit) conn_op" where
  "connect_executor cls drv c =
     (case cls of PostgreSQLAdapter \<Rightarrow> pg_connect drv c | MySQLAdapter \<Rightarrow> my_connect drv c | SQLServerAdapter \<Rightarrow> ss_connect drv c)"

definition close_executor :: "adapter_class \<Rightarrow> ('w, 'k) db_driver \<Rightarrow> ('w, 'k, unit) conn_op" where
  "close_executor cls drv =
     (case cls of PostgreSQLAdapter \<Rightarrow> pg_close drv | MySQLAdapter \<Rightarrow> my_close drv | SQLServerAdapter \<Rightarrow> ss_close drv)"

end
