(* ===== verification/Adapter_Guarantees.thy ===== *)
theory Adapter_Guarantees
  imports Db_Connections
begin

text \<open>
  What the engine adapters promise: which statements a method can send, that the identifiers in the
  statements the controlled writes hand to the driver are read back as the identifiers that were
  given, and how the executors translate placeholders.
\<close>

declare One_nat_def [simp del]

section \<open>The statements a method sends\<close>

datatype statement = Fetch string jdict | Execute string jdict

definition logged :: "'w query_executor \<Rightarrow> ('w \<times> statement list) query_executor" where
  \<comment> \<open>an executor that also notes what it was sent\<close>
  "logged x =
     \<lparr>qe_fetch_all = (\<lambda>sql params (w, log). case qe_fetch_all x sql params w of (r, w') \<Rightarrow> (r, w', log @ [Fetch sql params])),
      qe_execute = (\<lambda>sql params (w, log). case qe_execute x sql params w of (r, w') \<Rightarrow> (r, w', log @ [Execute sql params]))\<rparr>"

definition sends :: "nat \<Rightarrow> (statement \<Rightarrow> bool) \<Rightarrow> ('w \<times> statement list, 'a) db_op \<Rightarrow> bool" where
  \<comment> \<open>at most \<open>n\<close> statements, each with the property\<close>
  "sends n P f \<longleftrightarrow>
     (\<forall>w log. \<exists>new. snd (snd (f (w, log))) = log @ new \<and> length new \<le> n \<and> list_all P new)"

lemma sendsD:
  assumes "sends n P f" and "f (w, log) = (r, w', log')"
  shows "\<exists>new. log' = log @ new \<and> length new \<le> n \<and> list_all P new"
  using assms unfolding sends_def by (metis snd_conv)

lemma sends_fetch: "P (Fetch sql ps) \<Longrightarrow> sends 1 P (qe_fetch_all (logged x) sql ps)"
  by (auto simp: sends_def logged_def split: prod.splits)

lemma sends_execute: "P (Execute sql ps) \<Longrightarrow> sends 1 P (qe_execute (logged x) sql ps)"
  by (auto simp: sends_def logged_def split: prod.splits)

lemma sends_nothing: "sends 0 P (returnM a)" "sends 0 P (raiseM e)" "sends 0 P (liftE r)" "sends 0 P bad_call"
  by (simp_all add: sends_def bad_call_def)

lemma sends_weaken: "sends m P f \<Longrightarrow> m \<le> n \<Longrightarrow> sends n P f"
  unfolding sends_def by (meson le_trans)

lemma sends_bind:
  assumes "sends m P f" and "\<And>a. sends n P (g a)"
  shows "sends (m + n) P (bindM f g)"
proof (unfold sends_def, intro allI)
  fix w log
  obtain r w1 log1 where f: "f (w, log) = (r, w1, log1)" by (cases "f (w, log)") auto
  from sendsD [OF assms(1) f] obtain new where new: "log1 = log @ new" "length new \<le> m" "list_all P new" by blast
  show "\<exists>new. snd (snd (bindM f g (w, log))) = log @ new \<and> length new \<le> m + n \<and> list_all P new"
  proof (cases r)
    case (Inl e)
    with f new show ?thesis by (auto simp: bindM_def)
  next
    case (Inr a)
    obtain r2 w2 log2 where g: "g a (w1, log1) = (r2, w2, log2)" by (cases "g a (w1, log1)") auto
    from sendsD [OF assms(2) g] obtain new2 where "log2 = log1 @ new2" "length new2 \<le> n" "list_all P new2" by blast
    with f Inr g new show ?thesis by (auto simp: bindM_def intro!: exI [of _ "new @ new2"])
  qed
qed

section \<open>Diagnostics\<close>

definition top_texts :: "(string \<Rightarrow> string) \<Rightarrow> (string \<times> string) list \<Rightarrow> string list" where
  "top_texts sql columns = map (sql \<circ> snd) columns"

definition diagnostic_texts :: "adapter_class \<Rightarrow> string list" where
  \<comment> \<open>the texts of the diagnostics of an engine, which no argument has a part in\<close>
  "diagnostic_texts cls =
     (case cls of
        PostgreSQLAdapter \<Rightarrow>
          [pg_health_sql, pg_version_sql, pg_sessions_sql, pg_blocking_sql, pg_deadlocks_sql, pg_running_queries_sql,
           pg_waits_sql, pg_query_plan_sql, pg_indexes_sql, pg_statistics_sql, pg_tables_sql, pg_storage_sql,
           pg_transaction_log_sql, pg_replication_sql, pg_backups_sql, pg_configuration_sql, pg_error_logs_sql] @
          top_texts pg_top_queries_sql pg_order_columns
      | MySQLAdapter \<Rightarrow>
          [my_health_sql, my_version_sql, my_sessions_sql, my_blocking_sql, my_deadlocks_sql, my_running_queries_sql,
           my_waits_sql, my_query_plan_sql, my_indexes_sql, my_statistics_sql, my_tables_sql, my_storage_sql,
           my_transaction_log_sql, my_replication_sql, my_configuration_sql, my_error_logs_sql] @
          top_texts my_top_queries_sql my_order_columns
      | SQLServerAdapter \<Rightarrow>
          [ss_health_sql, ss_version_sql, ss_sessions_sql, ss_blocking_sql, ss_deadlocks_sql, ss_running_queries_sql,
           ss_waits_sql, ss_query_plan_sql, ss_indexes_sql, ss_statistics_sql, ss_tables_sql, ss_storage_sql,
           ss_transaction_log_sql, ss_replication_sql, ss_backups_sql, ss_configuration_sql, ss_error_logs_sql] @
          top_texts ss_top_queries_sql ss_order_columns)"

definition diagnostic :: "adapter_class \<Rightarrow> statement \<Rightarrow> bool" where
  "diagnostic cls st \<longleftrightarrow> (case st of Fetch sql ps \<Rightarrow> sql \<in> set (diagnostic_texts cls) | Execute sql ps \<Rightarrow> False)"

lemma diagnostic_Fetch: "sql \<in> set (diagnostic_texts cls) \<Longrightarrow> diagnostic cls (Fetch sql ps)"
  by (simp add: diagnostic_def)

lemma sends_rows: "sends 1 P f \<Longrightarrow> sends 1 P (bindM f (returnM \<circ> Rows))"
  using sends_bind [of 1 P f 0 "returnM \<circ> Rows"] by (simp add: sends_nothing)

lemma sends_reads:
  "sends 1 P f0 \<Longrightarrow> sends 1 P (reads0 f0 args)"
  "(\<And>a. sends 1 P (f1 a)) \<Longrightarrow> sends 1 P (reads1 f1 args)"
  "(\<And>a b. sends 1 P (f2 a b)) \<Longrightarrow> sends 1 P (reads2 f2 args)"
  using sends_weaken [OF sends_nothing(4), of 1]
  by (auto simp: reads0_def reads1_def reads2_def intro: sends_rows split: list.splits)

lemma sends_chosen:
  assumes "\<And>c. choice_of tbl v d = Inr c \<Longrightarrow> sends 1 P (f c)"
  shows "sends 1 P (bindM (liftE (choice_of tbl v d)) f)"
  using assms sends_weaken [OF sends_nothing(2)] by (cases "choice_of tbl v d") auto

lemma choice_of_column:
  assumes "choice_of tbl v d = Inr c" and "d \<in> snd ` set tbl"
  shows "sql c \<in> set (top_texts sql tbl)"
  using assms by (auto simp: choice_of_def top_texts_def split: json.splits option.splits) (force dest: map_of_SomeD)+

lemma sends_stat_statements:
  assumes "P (Fetch sql ps)"
  shows "sends 1 P (pg_stat_statements_query (logged x) sql ps)"
proof (unfold sends_def, intro allI)
  fix w log
  obtain r w' log' where f: "qe_fetch_all (logged x) sql ps (w, log) = (r, w', log')"
    by (cases "qe_fetch_all (logged x) sql ps (w, log)") auto
  from sendsD [OF sends_fetch [of P, OF assms] f]
  show "\<exists>new. snd (snd (pg_stat_statements_query (logged x) sql ps (w, log))) = log @ new \<and> length new \<le> 1 \<and> list_all P new"
    by (cases r) (auto simp: pg_stat_statements_query_def f)
qed

lemmas read_method_defs =
  pg_health_def pg_version_def pg_sessions_def pg_blocking_def pg_deadlocks_def pg_running_queries_def pg_waits_def
  pg_query_plan_def pg_indexes_def pg_statistics_def pg_tables_def pg_storage_def pg_transaction_log_def
  pg_replication_def pg_backups_def pg_configuration_def pg_error_logs_def
  my_health_def my_version_def my_sessions_def my_blocking_def my_running_queries_def my_waits_def my_query_plan_def
  my_indexes_def my_statistics_def my_tables_def my_storage_def my_transaction_log_def my_replication_def
  my_configuration_def my_error_logs_def
  ss_health_def ss_version_def ss_sessions_def ss_blocking_def ss_deadlocks_def ss_running_queries_def ss_waits_def
  ss_query_plan_def ss_indexes_def ss_statistics_def ss_tables_def ss_storage_def ss_transaction_log_def
  ss_replication_def ss_backups_def ss_configuration_def

lemma top_queries_diagnostic:
  "sends 1 (diagnostic PostgreSQLAdapter) (pg_top_queries (logged x) order_by limit)"
  "sends 1 (diagnostic MySQLAdapter) (my_top_queries (logged x) order_by limit)"
  "sends 1 (diagnostic SQLServerAdapter) (ss_top_queries (logged x) order_by limit)"
  unfolding pg_top_queries_def my_top_queries_def ss_top_queries_def
  by (rule sends_chosen, rule sends_stat_statements sends_fetch, rule diagnostic_Fetch,
      drule choice_of_column [where sql = pg_top_queries_sql] choice_of_column [where sql = my_top_queries_sql]
        choice_of_column [where sql = ss_top_queries_sql],
      simp_all add: diagnostic_texts_def pg_order_columns_def my_order_columns_def ss_order_columns_def)+

lemma other_reads_diagnostic:
  "sends 1 (diagnostic MySQLAdapter) (my_deadlocks (logged x))"
  "sends 1 (diagnostic MySQLAdapter) (my_backups :: ('w \<times> statement list, jrow list) db_op)"
  "sends 1 (diagnostic SQLServerAdapter) (ss_error_logs now (logged x) since limit)"
proof -
  have fetch: "sends 1 (diagnostic MySQLAdapter) (qe_fetch_all (logged x) my_deadlocks_sql [])"
    by (rule sends_fetch, rule diagnostic_Fetch) (simp add: diagnostic_texts_def)
  have "sends (1 + 0) (diagnostic MySQLAdapter) (my_deadlocks (logged x))"
    unfolding my_deadlocks_def by (rule sends_bind [OF fetch]) (rule sends_nothing)
  then show "sends 1 (diagnostic MySQLAdapter) (my_deadlocks (logged x))" by simp
  show "sends 1 (diagnostic MySQLAdapter) (my_backups :: ('w \<times> statement list, jrow list) db_op)"
    unfolding my_backups_def not_implemented_def by (rule sends_weaken [OF sends_nothing(2)]) simp
  have "sends 1 (diagnostic SQLServerAdapter) (qe_fetch_all (logged x) ss_error_logs_sql ps)" for ps
    by (rule sends_fetch, rule diagnostic_Fetch) (simp add: diagnostic_texts_def)
  then show "sends 1 (diagnostic SQLServerAdapter) (ss_error_logs now (logged x) since limit)"
    using sends_weaken [OF sends_nothing(2)]
    by (cases "minutes_of since") (auto simp: ss_error_logs_def split: option.splits)
qed

lemma engine_reads_diagnostic:
  "\<forall>(m, f) \<in> set (pg_reads (logged x)). sends 1 (diagnostic PostgreSQLAdapter) (f args)"
  "\<forall>(m, f) \<in> set (my_reads (logged x)). sends 1 (diagnostic MySQLAdapter) (f args)"
  "\<forall>(m, f) \<in> set (ss_reads now (logged x)). sends 1 (diagnostic SQLServerAdapter) (f args)"
  unfolding pg_reads_def my_reads_def ss_reads_def list.set ball_simps prod.case
  by (intro conjI TrueI; rule sends_reads;
      (rule top_queries_diagnostic other_reads_diagnostic |
       (unfold read_method_defs, rule sends_fetch sends_stat_statements, rule diagnostic_Fetch,
        simp add: diagnostic_texts_def)))+

lemma engine_methods_read:
  fixes x :: "'w query_executor"
  assumes "map_of READ_METHODS tool = Some (m, names)" and "map_of (engine_methods cls now (logged x)) m = Some f"
  shows "sends 1 (diagnostic cls) (f args)"
proof -
  have "map fst (engine_reads cls now (logged x)) = map (fst \<circ> snd) READ_METHODS"
    by (cases cls) (simp_all add: engine_reads_def pg_reads_def my_reads_def ss_reads_def READ_METHODS_def)
  moreover have "m \<in> set (map (fst \<circ> snd) READ_METHODS)" using map_of_SomeD [OF assms(1)] by force
  ultimately have "map_of (engine_reads cls now (logged x)) m \<noteq> None" by (simp add: map_of_eq_None_iff flip: set_map)
  with assms(2) have "(m, f) \<in> set (engine_reads cls now (logged x))"
    by (auto simp: engine_methods_def map_add_def dest: map_of_SomeD)
  with engine_reads_diagnostic show ?thesis by (cases cls) (fastforce simp: engine_reads_def)+
qed

declare One_nat_def [simp]

section \<open>Reading identifiers back\<close>

text \<open>
  How an engine reads a statement: outside of quotes character by character, and from an opening
  quote to its closing one as a single name, in which a doubled closing quote stands for one.
\<close>

datatype sql_token = Sym char | Name string

fun read_name :: "char \<Rightarrow> string \<Rightarrow> (string \<times> string) option" where
  "read_name q [] = None"
| "read_name q (c # s) =
     (if c \<noteq> q then map_option (\<lambda>(n, rest). (c # n, rest)) (read_name q s)
      else (case s of
              [] \<Rightarrow> Some ([], [])
            | d # t \<Rightarrow> if d = q then map_option (\<lambda>(n, rest). (q # n, rest)) (read_name q t) else Some ([], s)))"

lemma read_name_shorter: "read_name q s = Some (n, rest) \<Longrightarrow> length rest < length s"
  by (induction q s arbitrary: n rest rule: read_name.induct)
    (auto split: if_splits list.splits, fastforce+)

function read_statement :: "char \<Rightarrow> char \<Rightarrow> string \<Rightarrow> sql_token list option" where
  "read_statement p q [] = Some []"
| "read_statement p q (c # s) =
     (if c = p
      then (case read_name q s of
              None \<Rightarrow> None
            | Some (n, rest) \<Rightarrow> map_option (Cons (Name n)) (read_statement p q rest))
      else map_option (Cons (Sym c)) (read_statement p q s))"
  by pat_completeness auto
termination
  by (relation "measure (length \<circ> snd \<circ> snd)") (auto dest: read_name_shorter)

fun name_list :: "string list \<Rightarrow> sql_token list" where
  "name_list [] = []"
| "name_list [c] = [Name c]"
| "name_list (c # d # cs) = Name c # map Sym '', '' @ name_list (d # cs)"

locale identifier_quoting =
  fixes opener closer :: char and quote shown :: "string \<Rightarrow> string"
  assumes opens: "quote s = opener # tl (quote s)"
    and reads: "rest = [] \<or> hd rest \<noteq> closer \<Longrightarrow> read_name closer (tl (quote s) @ rest) = Some (shown s, rest)"
begin

lemma read_quote:
  assumes "rest = [] \<or> hd rest \<noteq> closer"
  shows "read_statement opener closer (quote s @ rest) =
     map_option (Cons (Name (shown s))) (read_statement opener closer rest)"
  by (subst opens) (simp add: reads [OF assms])

lemma read_quote_end: "read_statement opener closer (quote s) = Some [Name (shown s)]"
  using read_quote [of "[]" s] by simp

lemma read_quoted_list:
  assumes "rest = [] \<or> hd rest \<noteq> closer" and "CHR '','' \<noteq> closer"
    and "CHR '','' \<noteq> opener" and "CHR '' '' \<noteq> opener"
  shows "read_statement opener closer (join '', '' (map quote cs) @ rest) =
     map_option (append (name_list (map shown cs))) (read_statement opener closer rest)"
proof (induction cs rule: name_list.induct)
  case 1
  show ?case by (simp add: option.map_ident)
next
  case (2 c)
  show ?case using read_quote [OF assms(1)] by (simp add: comp_def append_Cons)
next
  case (3 c d cs)
  then show ?case using assms(2-4) by (simp add: read_quote option.map_comp comp_def)
qed

end

lemma read_doubled:
  "rest = [] \<or> hd rest \<noteq> q \<Longrightarrow> read_name q (replace_char q [q, q] s @ q # rest) = Some (s, rest)"
  by (induction s) (auto split: list.splits)

lemma read_stripped:
  "rest = [] \<or> hd rest \<noteq> q \<Longrightarrow>
   read_name q (replace_char q [] s @ q # rest) = Some (filter (\<lambda>c. c \<noteq> q) s, rest)"
  by (induction s) (auto split: list.splits)

interpretation pg_quoting: identifier_quoting "CHR 0x22" "CHR 0x22" pg_quote_ident "filter (\<lambda>c. c \<noteq> CHR 0x22)"
  by unfold_locales (simp_all add: pg_quote_ident_def read_stripped)

interpretation my_quoting: identifier_quoting "CHR ''`''" "CHR ''`''" my_quote_ident "\<lambda>s. s"
  by unfold_locales (simp_all add: my_quote_ident_def read_doubled)

interpretation ss_quoting: identifier_quoting "CHR ''[''" "CHR '']''" ss_quote_ident "\<lambda>s. s"
  by unfold_locales (simp_all add: ss_quote_ident_def read_doubled)

interpretation literal_quoting: identifier_quoting "CHR 0x27" "CHR 0x27" quote_ident_literal "\<lambda>s. s"
  by unfold_locales (simp_all add: quote_ident_literal_def read_doubled)

section \<open>Controlled writes\<close>

text \<open>
  The writes whose statements are built from identifiers, as commands, and what each means on an
  engine: the tokens the engine is to read and the values bound beside them.
\<close>

datatype command =
    UpdateStatistics string string
  | CreateIndex string string "string list" string bool
  | RebuildIndex string string string
  | ModifyConfiguration string json

fun command_call :: "command \<Rightarrow> string \<times> json list" where
  \<comment> \<open>the adapter method and its arguments\<close>
  "command_call (UpdateStatistics schema table) = (''update_statistics'', [JStr schema, JStr table])"
| "command_call (CreateIndex schema table columns name unique) =
     (''create_index'', [JStr schema, JStr table, JArr (map JStr columns), JStr name, JBool unique])"
| "command_call (RebuildIndex schema table index_name) = (''rebuild_index'', [JStr schema, JStr table, JStr index_name])"
| "command_call (ModifyConfiguration parameter value) = (''modify_configuration'', [JStr parameter, value])"

fun command_params :: "command \<Rightarrow> jdict" where
  "command_params (ModifyConfiguration parameter value) = [(''value'', value)]"
| "command_params _ = []"

fun command_names :: "command \<Rightarrow> string list" where
  "command_names (UpdateStatistics schema table) = [schema, table]"
| "command_names (CreateIndex schema table columns name unique) = schema # table # name # columns"
| "command_names (RebuildIndex schema table index_name) = [schema, table, index_name]"
| "command_names (ModifyConfiguration parameter value) = [parameter]"

definition verbatim :: "adapter_class \<Rightarrow> string \<Rightarrow> bool" where
  \<comment> \<open>a name that is sent as it is: PostgreSQL's quoting drops double quotes, and a per cent sign may
     be taken for a placeholder by what substitutes the values\<close>
  "verbatim cls n \<longleftrightarrow> CHR ''%'' \<notin> set n \<and> (cls = PostgreSQLAdapter \<longrightarrow> CHR 0x22 \<notin> set n)"

definition quotes :: "adapter_class \<Rightarrow> command \<Rightarrow> char \<times> char" where
  \<comment> \<open>the quotes around the names of a command; \<open>sp_configure\<close> takes a string literal\<close>
  "quotes cls cmd =
     (case cls of
        PostgreSQLAdapter \<Rightarrow> (CHR 0x22, CHR 0x22)
      | MySQLAdapter \<Rightarrow> (CHR ''`'', CHR ''`'')
      | SQLServerAdapter \<Rightarrow>
          (case cmd of ModifyConfiguration _ _ \<Rightarrow> (CHR 0x27, CHR 0x27) | _ \<Rightarrow> (CHR ''['', CHR '']'')))"

abbreviation words :: "string \<Rightarrow> sql_token list" where
  "words \<equiv> map Sym"

abbreviation object_name :: "string \<Rightarrow> string \<Rightarrow> sql_token list" where
  "object_name a b \<equiv> [Name a, Sym (CHR ''.''), Name b]"

text \<open>
  What the statement of a command is to say, in the form the driver is given it: the value of a
  configuration parameter is the driver's own placeholder.
\<close>

fun command_tokens :: "adapter_class \<Rightarrow> command \<Rightarrow> sql_token list" where
  "command_tokens PostgreSQLAdapter (UpdateStatistics schema table) =
     words ''analyze '' @ object_name schema table"
| "command_tokens MySQLAdapter (UpdateStatistics schema table) =
     words ''ANALYZE TABLE '' @ object_name schema table"
| "command_tokens SQLServerAdapter (UpdateStatistics schema table) =
     words ''UPDATE STATISTICS '' @ object_name schema table"
| "command_tokens PostgreSQLAdapter (CreateIndex schema table columns name unique) =
     words (''create '' @ (if unique then ''unique '' else []) @ ''index concurrently '') @
     [Name name] @ words '' on '' @ object_name schema table @
     words '' ('' @ name_list columns @ words '')''"
| "command_tokens MySQLAdapter (CreateIndex schema table columns name unique) =
     words (''CREATE '' @ (if unique then ''UNIQUE '' else []) @ ''INDEX '') @
     [Name name] @ words '' ON '' @ object_name schema table @
     words '' ('' @ name_list columns @ words '') ALGORITHM=INPLACE, LOCK=NONE''"
| "command_tokens SQLServerAdapter (CreateIndex schema table columns name unique) =
     words (''CREATE '' @ (if unique then ''UNIQUE '' else []) @ ''NONCLUSTERED INDEX '') @
     [Name name] @ words '' ON '' @ object_name schema table @
     words '' ('' @ name_list columns @ words '') WITH (ONLINE = ON)''"
| "command_tokens PostgreSQLAdapter (RebuildIndex schema table index_name) =
     words ''reindex index concurrently '' @ object_name schema index_name"
| "command_tokens MySQLAdapter (RebuildIndex schema table index_name) =
     words ''ALTER TABLE '' @ object_name schema table @ words '' ENGINE=InnoDB''"
| "command_tokens SQLServerAdapter (RebuildIndex schema table index_name) =
     words ''ALTER INDEX '' @ [Name index_name] @ words '' ON '' @ object_name schema table @
     words '' REBUILD WITH (ONLINE = ON)''"
| "command_tokens PostgreSQLAdapter (ModifyConfiguration parameter value) =
     words ''alter system set '' @ [Name parameter] @ words '' = %(value)s''"
| "command_tokens MySQLAdapter (ModifyConfiguration parameter value) =
     words ''SET GLOBAL '' @ [Name parameter] @ words '' = %(value)s''"
| "command_tokens SQLServerAdapter (ModifyConfiguration parameter value) =
     words ''EXEC sp_configure '' @ [Name parameter] @ words '', ?; RECONFIGURE''"

lemma quoted_with_JStr [simp]: "quoted_with q (JStr s) = Inr (q s)"
  by (simp add: quoted_with_def text_of_def)

lemma quoted_pair_JStr [simp]: "quoted_pair q (JStr a) (JStr b) = Inr (q a @ ''.'' @ q b)"
  by (simp add: quoted_pair_def)

lemma quoted_list_JStr [simp]: "quoted_list q (JArr (map JStr cs)) = Inr (join '', '' (map q cs))"
proof -
  have "mapE (quoted_with q) (map JStr cs) = Inr (map q cs)" by (induction cs) simp_all
  then show ?thesis by (simp add: quoted_list_def elements_of_def)
qed

lemma logged_execute:
  "qe_execute (logged x) sql ps (w, log) = (case qe_execute x sql ps w of (r, w') \<Rightarrow> (r, w', log @ [Execute sql ps]))"
  by (simp add: logged_def)

lemma engine_call_command:
  "engine_call PostgreSQLAdapter now x ''update_statistics'' = writes2 (pg_update_statistics x)"
  "engine_call PostgreSQLAdapter now x ''create_index'' = writes5 (pg_create_index x)"
  "engine_call PostgreSQLAdapter now x ''rebuild_index'' = writes3 (pg_rebuild_index x)"
  "engine_call PostgreSQLAdapter now x ''modify_configuration'' = writes2 (pg_modify_configuration x)"
  "engine_call MySQLAdapter now x ''update_statistics'' = writes2 (my_update_statistics x)"
  "engine_call MySQLAdapter now x ''create_index'' = writes5 (my_create_index x)"
  "engine_call MySQLAdapter now x ''rebuild_index'' = writes3 (my_rebuild_index x)"
  "engine_call MySQLAdapter now x ''modify_configuration'' = writes2 (my_modify_configuration x)"
  "engine_call SQLServerAdapter now x ''update_statistics'' = writes2 (ss_update_statistics x)"
  "engine_call SQLServerAdapter now x ''create_index'' = writes5 (ss_create_index x)"
  "engine_call SQLServerAdapter now x ''rebuild_index'' = writes3 (ss_rebuild_index x)"
  "engine_call SQLServerAdapter now x ''modify_configuration'' = writes2 (ss_modify_configuration x)"
  by (rule ext, simp add: engine_call_def engine_methods_def engine_reads_def engine_writes_def pg_reads_def pg_writes_def my_reads_def my_writes_def
      ss_reads_def ss_writes_def)+

lemmas write_method_defs =
  pg_update_statistics_def pg_create_index_def pg_rebuild_index_def pg_modify_configuration_def
  my_update_statistics_def my_create_index_def my_rebuild_index_def my_modify_configuration_def
  ss_update_statistics_def ss_create_index_def ss_rebuild_index_def ss_modify_configuration_def
  writes2_def writes3_def writes5_def

definition command_sql :: "adapter_class \<Rightarrow> command \<Rightarrow> string" where
  \<comment> \<open>the text an adapter sends for a command\<close>
  "command_sql cls cmd =
     (case snd (snd (engine_call cls 0 (logged \<lparr>qe_fetch_all = (\<lambda>_ _. raiseM TimeoutError), qe_execute = (\<lambda>_ _. raiseM TimeoutError)\<rparr>)
                        (fst (command_call cmd)) (snd (command_call cmd)) ((), []))) of
        Execute sql _ # _ \<Rightarrow> sql
      | _ \<Rightarrow> [])"

lemma command_sent:
  assumes "engine_call cls now (logged x) (fst (command_call cmd)) (snd (command_call cmd)) (w, []) = (r, w', log)"
  shows "\<exists>more. log = Execute (command_sql cls cmd) (command_params cmd) # more \<and>
     (more = [] \<or> (\<exists>p v. cls = PostgreSQLAdapter \<and> cmd = ModifyConfiguration p v \<and> more = [Execute pg_modify_configuration_sql []]))"
  using assms by (cases cls; cases cmd)
    (auto simp: command_sql_def engine_call_command write_method_defs logged_def bindM_def Let_def split: prod.splits sum.splits)

section \<open>Placeholders\<close>

definition plain :: "string \<Rightarrow> bool" where
  "plain s \<longleftrightarrow> CHR ''%'' \<notin> set s"

definition word :: "string \<Rightarrow> bool" where
  "word n \<longleftrightarrow> n \<noteq> [] \<and> list_all is_word n"

fun woven :: "(string \<times> string) list \<Rightarrow> string \<Rightarrow> string" where
  \<comment> \<open>a statement by its pieces of text and the placeholders between them\<close>
  "woven [] t = t"
| "woven ((s, n) # ps) t = s @ ''%('' @ n @ '')s'' @ woven ps t"

fun marked :: "(string \<times> string) list \<Rightarrow> string \<Rightarrow> string" where
  "marked [] t = t"
| "marked ((s, n) # ps) t = s @ ''?'' @ marked ps t"

lemma named_param_at_plain: "c \<noteq> CHR ''%'' \<Longrightarrow> named_param_at (c # s) = None"
  by (simp add: named_param_at_def)

lemma to_positional_plain:
  "plain s \<Longrightarrow> to_positional (s @ t) params = bindE (to_positional t params) (\<lambda>(u, vs). Inr (s @ u, vs))"
proof (induction s)
  case Nil
  show ?case by (cases "to_positional t params") auto
next
  case (Cons c s)
  then show ?case
    by (cases "to_positional t params") (auto simp: plain_def to_positional.simps named_param_at_plain)
qed

lemma named_param_at_word:
  assumes "word n"
  shows "named_param_at (''%('' @ n @ '')s'' @ t) = Some (n, t)"
proof -
  have stop: "\<not> is_word (CHR '')'')" by (simp add: is_word_def is_lower_def is_upper_def is_digit_def char_code_def)
  have "\<forall>c \<in> set n. is_word c" "n \<noteq> []" using assms by (auto simp: word_def list_all_iff)
  with stop show ?thesis
    by (simp add: named_param_at_def Let_def takeWhile_append_stop dropWhile_append_stop)
qed

lemma to_positional_word:
  "word n \<Longrightarrow> to_positional (''%('' @ n @ '')s'' @ t) params =
     (case map_of params n of
        None \<Rightarrow> Inl (OtherError ''KeyError'')
      | Some v \<Rightarrow> bindE (to_positional t params) (\<lambda>(u, vs). Inr (CHR ''?'' # u, v # vs)))"
  using named_param_at_word [of n t] by (simp add: to_positional.simps)

lemma to_positional_woven:
  assumes "list_all (\<lambda>(s, n). plain s \<and> word n) ps" and "plain t" and "list_all (\<lambda>(s, n). map_of params n \<noteq> None) ps"
  shows "to_positional (woven ps t) params = Inr (marked ps t, map (\<lambda>(s, n). the (map_of params n)) ps)"
  using assms
proof (induction ps)
  case Nil
  then show ?case using to_positional_plain [of t "[]" params] by (simp add: to_positional.simps)
next
  case (Cons p ps)
  obtain s n where "p = (s, n)" by fastforce
  with Cons show ?case
    using to_positional_word [of n "woven ps t" params] by (auto simp: to_positional_plain)
qed

lemma to_positional_unbound:
  assumes "list_all (\<lambda>(s, n). plain s \<and> word n) ps" and "plain t" and "\<not> list_all (\<lambda>(s, n). map_of params n \<noteq> None) ps"
  shows "to_positional (woven ps t) params = Inl (OtherError ''KeyError'')"
  using assms
proof (induction ps)
  case (Cons p ps)
  obtain s n where "p = (s, n)" by fastforce
  with Cons show ?case
    using to_positional_word [of n "woven ps t" params] by (auto simp: to_positional_plain split: option.splits)
qed simp

section \<open>What the driver is given\<close>

definition with_session ::
    "adapter_class \<Rightarrow> ('w, 'k) db_driver \<Rightarrow> ('w, 'k, db_cursor) conn_op \<Rightarrow> ('w, 'k, jdict) conn_op" where
  \<comment> \<open>what the executor of a class does around the one statement of a write: its timeouts before, the
     shape of the answer after\<close>
  "with_session cls drv statement =
     (let answered = bindM statement (\<lambda>cur. liftE (effect_of cur))
      in case cls of
           PostgreSQLAdapter \<Rightarrow> bindM (pg_set_timeouts drv DEFAULT_TIMEOUT) (\<lambda>_. answered)
         | MySQLAdapter \<Rightarrow> bindM (my_set_timeout drv DEFAULT_TIMEOUT) (\<lambda>_. answered)
         | SQLServerAdapter \<Rightarrow>
             run_on_worker (bindM the_conn (\<lambda>k. bindM (db_world (dr_set_timeout drv k DEFAULT_TIMEOUT)) (\<lambda>_. answered))))"

definition driver_values :: "adapter_class \<Rightarrow> jdict \<Rightarrow> sql_params" where
  "driver_values cls params =
     (case cls of
        PostgreSQLAdapter \<Rightarrow> Named params
      | MySQLAdapter \<Rightarrow> params_or_none params
      | SQLServerAdapter \<Rightarrow> if params = [] then NoParams else Positional (map snd params))"

definition driver_text :: "adapter_class \<Rightarrow> string \<Rightarrow> jdict \<Rightarrow> exec_exn + string" where
  "driver_text cls sql params =
     (if cls = SQLServerAdapter then bindE (to_positional sql params) (\<lambda>(text, vs). Inr text) else Inr sql)"

lemma bindM_bindM: "bindM (bindM f g) h = bindM f (\<lambda>x. bindM (g x) h)"
  by (rule ext) (simp add: bindM_def split: prod.split sum.split)

lemma execute_session:
  assumes "driver_text cls sql params = Inr text"
    and "cls = SQLServerAdapter \<Longrightarrow> to_positional sql params = Inr (text, map snd params)"
  shows "qe_execute (query_executor_of cls drv) sql params = with_session cls drv (run_sql drv text (driver_values cls params))"
  using assms by (cases cls)
    (simp_all add: query_executor_of_def with_session_def driver_text_def driver_values_def pg_execute_def my_execute_def ss_execute_def
      ss_cursor_def bindM_bindM Let_def)

lemma replace_char_fresh: "c \<notin> set s \<Longrightarrow> c \<notin> set r \<Longrightarrow> c \<notin> set (replace_char d r s)"
  by (induction s) auto

lemma plain_quotes [simp]:
  "plain s \<Longrightarrow> plain (pg_quote_ident s)" "plain s \<Longrightarrow> plain (my_quote_ident s)" "plain s \<Longrightarrow> plain (ss_quote_ident s)"
  "plain s \<Longrightarrow> plain (quote_ident_literal s)"
  by (simp_all add: plain_def pg_quote_ident_def my_quote_ident_def ss_quote_ident_def quote_ident_literal_def replace_char_fresh)

lemma plain_join [simp]: "(\<forall>c \<in> set cs. plain (q c)) \<Longrightarrow> plain (join '', '' (map q (cs :: string list)))"
  by (induction cs rule: name_list.induct) (simp_all add: plain_def)

lemma to_positional_char:
  "c \<noteq> CHR ''%'' \<Longrightarrow> to_positional (c # s) params = bindE (to_positional s params) (\<lambda>(u, vs). Inr (c # u, vs))"
  using to_positional_plain [of "[c]" s params] by (simp add: plain_def)

lemma to_positional_end: "plain s \<Longrightarrow> to_positional s params = Inr (s, [])"
  using to_positional_plain [of s "[]" params] by (simp add: to_positional.simps)

lemma to_positional_value:
  "to_positional (CHR ''%'' # CHR ''('' # CHR ''v'' # CHR ''a'' # CHR ''l'' # CHR ''u'' # CHR ''e'' # CHR '')'' # CHR ''s'' # t) [(''value'', v)] =
     bindE (to_positional t [(''value'', v)]) (\<lambda>(u, vs). Inr (CHR ''?'' # u, v # vs))"
  using to_positional_word [of "''value''" t "[(''value'', v)]"]
  by (simp add: word_def is_word_def is_lower_def is_upper_def is_digit_def char_code_def)

lemma count_plain: "plain s \<Longrightarrow> count_list s (CHR ''%'') = 0"
  by (simp add: plain_def count_notin)

lemmas command_sql_simps = command_sql_def engine_call_command write_method_defs logged_def bindM_def quotes_def Let_def

lemmas reading_simps =
  pg_quoting.read_quote my_quoting.read_quote ss_quoting.read_quote literal_quoting.read_quote
  pg_quoting.read_quote_end my_quoting.read_quote_end ss_quoting.read_quote_end
  pg_quoting.read_quoted_list my_quoting.read_quoted_list ss_quoting.read_quoted_list

lemma sqlserver_text:
  assumes "\<forall>n \<in> set (command_names cmd). plain n"
  shows "\<exists>text. to_positional (command_sql SQLServerAdapter cmd) (command_params cmd) = Inr (text, map snd (command_params cmd)) \<and>
     read_statement (fst (quotes SQLServerAdapter cmd)) (snd (quotes SQLServerAdapter cmd)) text = Some (command_tokens SQLServerAdapter cmd) \<and>
     count_list text (CHR ''%'') = 0"
  using assms by (cases cmd)
    (simp_all add: command_sql_simps reading_simps to_positional_char to_positional_plain to_positional_end to_positional_value
      to_positional.simps(1) count_plain)

lemma mysql_text:
  assumes "\<forall>n \<in> set (command_names cmd). plain n"
  shows "read_statement (fst (quotes MySQLAdapter cmd)) (snd (quotes MySQLAdapter cmd)) (command_sql MySQLAdapter cmd) =
       Some (command_tokens MySQLAdapter cmd) \<and>
     count_list (command_sql MySQLAdapter cmd) (CHR ''%'') = length (command_params cmd)"
  using assms by (cases cmd) (simp_all add: command_sql_simps reading_simps count_plain)

lemma no_quotes: "CHR 0x22 \<notin> set n \<Longrightarrow> filter (\<lambda>c. c \<noteq> CHR 0x22) n = n"
  by (auto simp: filter_id_conv)

lemma postgresql_text:
  assumes "\<forall>n \<in> set (command_names cmd). plain n \<and> CHR 0x22 \<notin> set n"
  shows "read_statement (fst (quotes PostgreSQLAdapter cmd)) (snd (quotes PostgreSQLAdapter cmd)) (command_sql PostgreSQLAdapter cmd) =
       Some (command_tokens PostgreSQLAdapter cmd) \<and>
     count_list (command_sql PostgreSQLAdapter cmd) (CHR ''%'') = length (command_params cmd)"
  using assms by (cases cmd) (simp_all add: command_sql_simps reading_simps count_plain no_quotes map_idI)

lemma command_text:
  assumes "\<forall>n \<in> set (command_names cmd). verbatim cls n"
  shows "\<exists>text. (\<forall>drv. qe_execute (query_executor_of cls drv) (command_sql cls cmd) (command_params cmd) =
       with_session cls drv (run_sql drv text (driver_values cls (command_params cmd)))) \<and>
     read_statement (fst (quotes cls cmd)) (snd (quotes cls cmd)) text = Some (command_tokens cls cmd) \<and>
     count_list text (CHR ''%'') = (if cls = SQLServerAdapter then 0 else length (command_params cmd))"
proof (cases cls)
  case SQLServerAdapter
  with assms have "\<forall>n \<in> set (command_names cmd). plain n" by (simp add: verbatim_def plain_def)
  from sqlserver_text [OF this] obtain sent where
    sent: "to_positional (command_sql cls cmd) (command_params cmd) = Inr (sent, map snd (command_params cmd))"
      "read_statement (fst (quotes cls cmd)) (snd (quotes cls cmd)) sent = Some (command_tokens cls cmd)" "count_list sent (CHR ''%'') = 0"
    unfolding SQLServerAdapter by blast
  moreover have "driver_text cls (command_sql cls cmd) (command_params cmd) = Inr sent"
    using sent(1) SQLServerAdapter by (simp add: driver_text_def)
  ultimately show ?thesis using SQLServerAdapter by (intro exI [of _ sent]) (simp add: execute_session)
next
  case PostgreSQLAdapter
  with postgresql_text [of cmd] assms show ?thesis
    by (auto simp: verbatim_def plain_def driver_text_def intro!: exI [of _ "command_sql cls cmd"] execute_session)
next
  case MySQLAdapter
  with mysql_text [of cmd] assms show ?thesis
    by (auto simp: verbatim_def plain_def driver_text_def intro!: exI [of _ "command_sql cls cmd"] execute_session)
qed

section \<open>Guarantees\<close>

definition silent :: "unit query_executor" where
  \<comment> \<open>an executor that answers every statement with nothing\<close>
  "silent = \<lparr>qe_fetch_all = (\<lambda>_ _. returnM []), qe_execute = (\<lambda>_ _. returnM [])\<rparr>"

text \<open>
  C29. A diagnostic cannot write: on every engine, whatever the arguments and whatever the database
  answers, the method a READ tool dispatches to sends at most one statement, it only fetches, and
  its text is one of a fixed list no argument has a part in; arguments travel as bound values.
\<close>

theorem diagnostics_only_fetch:
  assumes "map_of READ_METHODS tool_id = Some (m, names)"
    and "engine_call cls now (logged x) m args (w, []) = (r, w', log)"
  shows "length log \<le> 1 \<and> list_all (diagnostic cls) log"
proof (cases "map_of (engine_methods cls now (logged x)) m")
  case None
  with assms(2) show ?thesis by (simp add: engine_call_def)
next
  case (Some f)
  with assms(2) have "f args (w, []) = (r, w', log)" by (simp add: engine_call_def)
  from sendsD [OF engine_methods_read [OF assms(1) Some] this] show ?thesis by auto
qed

theorem diagnostics_only_fetch_witness:
  "engine_call MySQLAdapter 0 (logged silent) ''query_plan'' [JStr ''1; DROP TABLE t''] ((), []) =
     (Inr (Rows []), (), [Fetch my_query_plan_sql [(''query_id'', JStr ''1; DROP TABLE t'')]]) \<and>
   diagnostic MySQLAdapter (Fetch my_query_plan_sql [(''query_id'', JStr ''1; DROP TABLE t'')])"
proof -
  have run: "engine_call MySQLAdapter 0 (logged silent) ''query_plan'' [JStr ''1; DROP TABLE t''] ((), []) =
     (Inr (Rows []), (), [Fetch my_query_plan_sql [(''query_id'', JStr ''1; DROP TABLE t'')]])"
    by (simp add: engine_call_def engine_methods_def engine_reads_def engine_writes_def my_reads_def reads1_def my_query_plan_def logged_def silent_def bindM_def)
  have "map_of READ_METHODS ''database.get_query_plan'' = Some (''query_plan'', [''query_id''])"
    by (simp add: READ_METHODS_def)
  from diagnostics_only_fetch [OF this run] run show ?thesis by simp
qed

text \<open>
  C30. A controlled write says what it was asked to and nothing else, for names without a per cent
  sign and, on PostgreSQL, without a double quote: the first statement an adapter sends for a command
  binds the command's value, and what the executor of the class hands to the driver for it is one
  text with that value beside it, in which a reader with the engine's quoting rule finds exactly the
  words of the command and the given names, whatever other characters they hold. The text has no
  per cent sign but that of the value's placeholder (on SQL Server, where it is a question mark,
  none), so nothing in a name is substituted. The one statement that can follow is PostgreSQL's
  reload of its configuration.
\<close>

theorem controlled_writes_read_back:
  assumes "engine_call cls now (logged x) (fst (command_call cmd)) (snd (command_call cmd)) (w, []) = (r, w', log)"
    and "\<forall>n \<in> set (command_names cmd). verbatim cls n"
  shows "\<exists>sql more text. log = Execute sql (command_params cmd) # more \<and>
     (\<forall>drv. qe_execute (query_executor_of cls drv) sql (command_params cmd) =
        with_session cls drv (run_sql drv text (driver_values cls (command_params cmd)))) \<and>
     read_statement (fst (quotes cls cmd)) (snd (quotes cls cmd)) text = Some (command_tokens cls cmd) \<and>
     count_list text (CHR ''%'') = (if cls = SQLServerAdapter then 0 else length (command_params cmd)) \<and>
     (more = [] \<or> (\<exists>p v. cls = PostgreSQLAdapter \<and> cmd = ModifyConfiguration p v \<and> more = [Execute pg_modify_configuration_sql []]))"
proof -
  obtain more where "log = Execute (command_sql cls cmd) (command_params cmd) # more"
    "more = [] \<or> (\<exists>p v. cls = PostgreSQLAdapter \<and> cmd = ModifyConfiguration p v \<and> more = [Execute pg_modify_configuration_sql []])"
    using command_sent [OF assms(1)] by auto
  with command_text [OF assms(2)] show ?thesis by blast
qed

theorem controlled_writes_read_back_witness:
  "\<exists>sql text. snd (snd (engine_call SQLServerAdapter 0 (logged silent) ''update_statistics'' [JStr ''dbo'', JStr ''a]; DROP TABLE b--''] ((), []))) =
       [Execute sql []] \<and>
     read_statement (CHR ''['') (CHR '']'') text =
       Some (words ''UPDATE STATISTICS '' @ [Name ''dbo'', Sym (CHR ''.''), Name ''a]; DROP TABLE b--'']) \<and>
     count_list text (CHR ''%'') = 0"
proof -
  let ?cmd = "UpdateStatistics ''dbo'' ''a]; DROP TABLE b--''"
  obtain r w' log where run: "engine_call SQLServerAdapter 0 (logged silent) (fst (command_call ?cmd)) (snd (command_call ?cmd)) ((), []) =
      (r, w', log)" by (metis surj_pair)
  have "\<forall>n \<in> set (command_names ?cmd). verbatim SQLServerAdapter n" by (simp add: verbatim_def)
  from controlled_writes_read_back [OF run this] run show ?thesis by (auto simp: quotes_def)
qed

text \<open>
  A name that spells the placeholder of the value is substituted like it by a driver that takes
  named ones: on MySQL the text of such a configuration change holds the placeholder twice, once
  inside of the name's quotes.
\<close>

theorem placeholder_parameter_doubled:
  "qe_execute (query_executor_of MySQLAdapter drv) (command_sql MySQLAdapter (ModifyConfiguration ''%(value)s'' v)) [(''value'', v)] =
     with_session MySQLAdapter drv (run_sql drv ''SET GLOBAL `%(value)s` = %(value)s'' (Named [(''value'', v)]))"
  by (simp add: command_sql_simps my_quote_ident_def query_executor_of_def my_execute_def with_session_def params_or_none_def)

text \<open>
  On SQL Server cancelling a query is killing its session: both methods send the same statement
  and leave the same state, for every session id. The catalog offers the one as the low-risk,
  reversible alternative without availability impact that does not drop the session, and asks less
  for it than for the other. PostgreSQL and MySQL send different statements for the two.
\<close>

theorem sqlserver_cancel_kills:
  "snd (engine_call SQLServerAdapter now x ''cancel_query'' [session_id, reason] w) =
     snd (engine_call SQLServerAdapter now x ''kill_session'' [session_id, reason'] w) \<and>
   (\<exists>cancel kill. cancel \<in> set write_tools \<and> kill \<in> set write_tools \<and>
      map_of WRITE_METHODS (td_tool_id cancel) = Some (''cancel_query'', [''session_id'', ''reason'']) \<and>
      map_of WRITE_METHODS (td_tool_id kill) = Some (''kill_session'', [''session_id'', ''reason'']) \<and>
      td_description cancel = ''Cancel (soft-abort) a single running query without dropping the session.'' \<and>
      td_risk_level cancel = LOW \<and> td_reversible cancel \<and> \<not> td_availability_impact cancel \<and>
      td_risk_level kill = MEDIUM \<and> \<not> td_reversible kill \<and> td_availability_impact kill) \<and>
   pg_cancel_query_sql \<noteq> pg_kill_session_sql \<and> ''KILL QUERY '' @ int_str pid \<noteq> ''KILL '' @ int_str pid"
proof (intro conjI)
  show "snd (engine_call SQLServerAdapter now x ''cancel_query'' [session_id, reason] w) =
     snd (engine_call SQLServerAdapter now x ''kill_session'' [session_id, reason'] w)"
    by (cases "int_of session_id")
      (auto simp: engine_call_def engine_methods_def engine_reads_def engine_writes_def ss_reads_def ss_writes_def writes2_def ss_cancel_query_def ss_kill_session_def
        bindM_def split: prod.splits sum.splits)
  show "\<exists>cancel kill. cancel \<in> set write_tools \<and> kill \<in> set write_tools \<and>
      map_of WRITE_METHODS (td_tool_id cancel) = Some (''cancel_query'', [''session_id'', ''reason'']) \<and>
      map_of WRITE_METHODS (td_tool_id kill) = Some (''kill_session'', [''session_id'', ''reason'']) \<and>
      td_description cancel = ''Cancel (soft-abort) a single running query without dropping the session.'' \<and>
      td_risk_level cancel = LOW \<and> td_reversible cancel \<and> \<not> td_availability_impact cancel \<and>
      td_risk_level kill = MEDIUM \<and> \<not> td_reversible kill \<and> td_availability_impact kill"
    by (rule exI [of _ "write_tools ! 0"], rule exI [of _ "write_tools ! 1"])
      (simp add: write_tools_def write_tool_def WRITE_METHODS_def)
  show "pg_cancel_query_sql \<noteq> pg_kill_session_sql" by (simp add: pg_cancel_query_sql_def pg_kill_session_sql_def)
  show "''KILL QUERY '' @ int_str pid \<noteq> ''KILL '' @ int_str pid" by (auto dest: arg_cong [of _ _ length])
qed

text \<open>
  Named placeholders become positional ones: of a statement given by its pieces of plain text and
  the placeholders between them, each placeholder becomes a question mark and its value takes the
  same place among the values; a placeholder without a value raises.
\<close>

theorem to_positional_exact:
  assumes "list_all (\<lambda>(s, n). plain s \<and> word n) ps" and "plain t"
  shows "to_positional (woven ps t) params =
     (if list_all (\<lambda>(s, n). map_of params n \<noteq> None) ps
      then Inr (marked ps t, map (\<lambda>(s, n). the (map_of params n)) ps)
      else Inl (OtherError ''KeyError''))"
  using to_positional_woven [OF assms] to_positional_unbound [OF assms] by auto

text \<open>
  An identifier that spells a placeholder is taken for one on SQL Server: the statement is not sent,
  and the write fails.
\<close>

theorem placeholder_identifier_fails:
  "to_positional (command_sql SQLServerAdapter (UpdateStatistics ''dbo'' ''%(a)s'')) [] = Inl (OtherError ''KeyError'')"
proof -
  have "command_sql SQLServerAdapter (UpdateStatistics ''dbo'' ''%(a)s'') =
      woven [(''UPDATE STATISTICS [dbo].['', ''a'')] '']''"
    by (simp add: command_sql_def engine_call_command write_method_defs logged_def bindM_def ss_quote_ident_def)
  then show ?thesis
    using to_positional_unbound [of "[(''UPDATE STATISTICS [dbo].['', ''a'')]" "'']''" "[]"]
    by (simp add: plain_def word_def is_word_def is_lower_def char_code_def)
qed

text \<open>
  PostgreSQL stops every statement of an adapter after 30 seconds, the default no adapter method
  overrides, while the catalog gives the controlled writes 60.
\<close>

theorem postgresql_statement_timeout:
  "qe_execute (query_executor_of PostgreSQLAdapter drv) sql params =
     bindM (bindM (run_sql drv ''SET statement_timeout = 30000'' NoParams) (\<lambda>_.
            bindM (run_sql drv ''SET lock_timeout = 5000'' NoParams) (\<lambda>_. returnM ()))) (\<lambda>_.
     bindM (run_sql drv sql (Named params)) (\<lambda>cur. liftE (effect_of cur))) \<and>
   list_all (\<lambda>t. td_max_execution_time t = 60) write_tools"
proof -
  have "int_str 30000 = ''30000''" "int_str 5000 = ''5000''"
    by (simp_all add: int_str_def nat_str.simps char_of_def bit_0)
  then show ?thesis
    by (simp add: query_executor_of_def pg_execute_def pg_set_timeouts_def DEFAULT_TIMEOUT_def write_tools_def write_tool_def)
qed

text \<open>
  The connection string of SQL Server does not tell its fields apart: the same string stands for
  credentials with different users and databases.
\<close>

theorem connection_string_ambiguous:
  "connection_string (c\<lparr>dc_database := d @ '';UID='' @ u, dc_username := v\<rparr>) =
     connection_string (c\<lparr>dc_database := d, dc_username := u @ '';UID='' @ v\<rparr>)"
  by (simp add: connection_string_def Let_def)

end
