(* ===== verification/Adapter_Service.thy ===== *)
theory Adapter_Service
  imports Adapter_Guarantees
begin

text \<open>
  The Execution Service over the engine adapters: the service's calls of an adapter method by name,
  with the method tables of the three classes in place of its parameter.
\<close>

section \<open>Methods and their arguments\<close>

definition answering :: "'w query_executor \<Rightarrow> bool" where
  \<comment> \<open>an executor that answers every statement\<close>
  "answering x \<longleftrightarrow>
     (\<forall>sql params w. \<exists>rows w'. qe_fetch_all x sql params w = (Inr rows, w')) \<and>
     (\<forall>sql params w. \<exists>result w'. qe_execute x sql params w = (Inr result, w'))"

definition suits :: "int \<Rightarrow> string \<Rightarrow> json \<Rightarrow> bool" where
  \<comment> \<open>a value of the type the tool's argument of that name has; a session is a number, in digits or
     not, and the time so many minutes ago is a date\<close>
  "suits now name v =
     (if name \<in> {''schema_name'', ''table'', ''name'', ''index_name'', ''parameter'', ''order_by''} then \<exists>s. v = JStr s
      else if name = ''columns'' then \<exists>cs. v = JArr (map JStr cs)
      else if name = ''session_id'' then \<exists>i. int_of v = Inr i
      else if name = ''since_minutes'' then \<exists>n since. v = JInt n \<and> utc_seconds_text (now - n * 60000000) = Some since
      else True)"

definition runs :: "('w, 'a) db_op \<Rightarrow> bool" where
  "runs op \<longleftrightarrow> (\<forall>w. \<exists>v w'. op w = (Inr v, w'))"

named_theorems runs_intros

lemma runs_returnM [runs_intros]: "runs (returnM v)"
  by (simp add: runs_def)

lemma runs_executor [runs_intros]:
  "answering x \<Longrightarrow> runs (qe_fetch_all x sql params)" "answering x \<Longrightarrow> runs (qe_execute x sql params)"
  by (auto simp: runs_def answering_def)

lemma runs_bindM: "runs f \<Longrightarrow> (\<And>v. runs (g v)) \<Longrightarrow> runs (bindM f g)"
  unfolding runs_def by (metis bindM_Inr)

lemmas runs_then [runs_intros] = runs_bindM [OF runs_executor(1)] runs_bindM [OF runs_executor(2)]

lemma runs_stat_statements [runs_intros]:
  assumes "answering x"
  shows "runs (pg_stat_statements_query x sql params)"
  unfolding runs_def
proof
  fix w
  obtain rows w' where "qe_fetch_all x sql params w = (Inr rows, w')" using assms unfolding answering_def by blast
  then show "\<exists>v w'. pg_stat_statements_query x sql params w = (Inr v, w')" by (simp add: pg_stat_statements_query_def)
qed

definition declines :: "('w, 'a) db_op \<Rightarrow> bool" where
  "declines op \<longleftrightarrow> (\<exists>m. op = not_implemented m)"

lemma declines_not_implemented [simp]: "declines (not_implemented m)"
  by (auto simp: declines_def)

lemma declines_bindM: "declines op \<Longrightarrow> declines (bindM op f)"
  by (auto simp: declines_def not_implemented_def)

definition yields :: "('v \<Rightarrow> outcome) \<Rightarrow> ('w, outcome) db_op \<Rightarrow> bool" where
  "yields kind op \<longleftrightarrow> (\<forall>w. \<exists>v w'. op w = (Inr (kind v), w'))"

lemma yields_bindM: "runs op \<Longrightarrow> yields kind (bindM op (returnM \<circ> kind))"
  unfolding yields_def
proof
  fix w
  assume "runs op"
  then obtain v w' where "op w = (Inr v, w')" unfolding runs_def by blast
  then show "\<exists>v w'. bindM op (returnM \<circ> kind) w = (Inr (kind v), w')" by (auto simp: bindM_def)
qed

text \<open>
  A method with a tool's argument names: another number of arguments raises, and with values of the
  arguments' types it answers with its kind of outcome or, one that only says so, is not implemented.
\<close>

definition conforms :: "int \<Rightarrow> ('v \<Rightarrow> outcome) \<Rightarrow> bool \<Rightarrow> (json list \<Rightarrow> ('w, outcome) db_op) \<Rightarrow> string list \<Rightarrow> bool" where
  "conforms now kind declined f names \<longleftrightarrow>
     (\<forall>vals. length vals \<noteq> length names \<longrightarrow> f vals = bad_call) \<and>
     (\<forall>vals. list_all2 (suits now) names vals \<longrightarrow>
        (if declined then declines (f vals) else yields kind (f vals)))"

lemma list_all2_names:
  "list_all2 P (a # names) vals \<longleftrightarrow> (\<exists>v vs. vals = v # vs \<and> P a v \<and> list_all2 P names vs)"
  by (cases vals) auto

lemma conforms_methods:
  "runs f0 \<Longrightarrow> conforms now Rows False (reads0 f0) []"
  "(\<And>u. suits now a u \<Longrightarrow> runs (f1 u)) \<Longrightarrow> conforms now Rows False (reads1 f1) [a]"
  "(\<And>u v. suits now a u \<Longrightarrow> suits now b v \<Longrightarrow> runs (f2 u v)) \<Longrightarrow> conforms now Rows False (reads2 f2) [a, b]"
  "(\<And>u v. suits now a u \<Longrightarrow> suits now b v \<Longrightarrow> runs (g2 u v)) \<Longrightarrow> conforms now Affected False (writes2 g2) [a, b]"
  "(\<And>u v t. suits now a u \<Longrightarrow> suits now b v \<Longrightarrow> suits now c t \<Longrightarrow> runs (g3 u v t)) \<Longrightarrow>
     conforms now Affected False (writes3 g3) [a, b, c]"
  "(\<And>u v t p q. suits now a u \<Longrightarrow> suits now b v \<Longrightarrow> suits now c t \<Longrightarrow> suits now d p \<Longrightarrow> suits now e q \<Longrightarrow> runs (g5 u v t p q)) \<Longrightarrow>
     conforms now Affected False (writes5 g5) [a, b, c, d, e]"
  by (auto simp: conforms_def reads0_def reads1_def reads2_def writes2_def writes3_def writes5_def list_all2_names yields_bindM
      split: list.splits)

lemma conforms_declined:
  "declines f0 \<Longrightarrow> conforms now Rows True (reads0 f0) []"
  "declines g0 \<Longrightarrow> conforms now Affected True (writes0 g0) []"
  "(\<And>u. declines (g1 u)) \<Longrightarrow> conforms now Affected True (writes1 g1) [a]"
  by (auto simp: conforms_def declines_bindM reads0_def writes0_def writes1_def list_all2_names split: list.splits)

lemma suits_simps:
  "suits now ''schema_name'' v \<longleftrightarrow> (\<exists>s. v = JStr s)" "suits now ''table'' v \<longleftrightarrow> (\<exists>s. v = JStr s)"
  "suits now ''name'' v \<longleftrightarrow> (\<exists>s. v = JStr s)" "suits now ''index_name'' v \<longleftrightarrow> (\<exists>s. v = JStr s)"
  "suits now ''parameter'' v \<longleftrightarrow> (\<exists>s. v = JStr s)" "suits now ''order_by'' v \<longleftrightarrow> (\<exists>s. v = JStr s)"
  "suits now ''columns'' v \<longleftrightarrow> (\<exists>cs. v = JArr (map JStr cs))" "suits now ''session_id'' v \<longleftrightarrow> (\<exists>i. int_of v = Inr i)"
  "suits now ''since_minutes'' v \<longleftrightarrow> (\<exists>n since. v = JInt n \<and> utc_seconds_text (now - n * 60000000) = Some since)"
  by (simp_all add: suits_def)

definition unsupported :: "adapter_class \<Rightarrow> string \<Rightarrow> bool" where
  "unsupported cls m \<longleftrightarrow> m \<in> {''restart_instance'', ''failover''} \<or> cls = MySQLAdapter \<and> m = ''backups''"

definition implements ::
    "(string \<Rightarrow> (json list \<Rightarrow> ('w, outcome) db_op) \<Rightarrow> string list \<Rightarrow> bool) \<Rightarrow> 'w methods \<Rightarrow> (string \<times> string \<times> string list) list \<Rightarrow> bool" where
  \<comment> \<open>a table of methods and a dispatch table, entry by entry\<close>
  "implements good ms tbl \<longleftrightarrow> list_all2 (\<lambda>(m, f) (t, m', names). m = m' \<and> good m f names) ms tbl"

lemma implements_Nil [simp]: "implements good [] tbl \<longleftrightarrow> tbl = []"
  by (simp add: implements_def)

lemma implements_Cons [simp]:
  "implements good ((m, f) # ms) ((t, m', names) # tbl) \<longleftrightarrow> m = m' \<and> good m f names \<and> implements good ms tbl"
  by (simp add: implements_def)

lemma implements_names: "implements good ms tbl \<Longrightarrow> map fst ms = map (fst \<circ> snd) tbl"
  unfolding implements_def by (induction rule: list_all2_induct) auto

lemma implements_entry:
  assumes "implements good ms tbl" and "distinct (map (fst \<circ> snd) tbl)" and "map_of tbl t = Some (m, names)"
  shows "\<exists>f. map_of ms m = Some f \<and> good m f names"
  using assms unfolding implements_def
proof (induction rule: list_all2_induct)
  case (Cons a ms b tbl)
  obtain m0 f0 t0 names0 where [simp]: "a = (m0, f0)" "b = (t0, m0, names0)" using Cons.hyps(1) by (cases a; cases b) auto
  show ?case
  proof (cases "t0 = t")
    case True
    with Cons show ?thesis by auto
  next
    case False
    with Cons.prems have tail: "map_of tbl t = Some (m, names)" by simp
    then have "m \<in> set (map (fst \<circ> snd) tbl)" using map_of_SomeD by force
    with Cons tail show ?thesis by auto
  qed
qed simp

section \<open>The methods of each class\<close>

abbreviation reads_well :: "int \<Rightarrow> adapter_class \<Rightarrow> string \<Rightarrow> (json list \<Rightarrow> ('w, outcome) db_op) \<Rightarrow> string list \<Rightarrow> bool" where
  "reads_well now cls m \<equiv> conforms now Rows (unsupported cls m)"

abbreviation writes_well :: "int \<Rightarrow> adapter_class \<Rightarrow> string \<Rightarrow> (json list \<Rightarrow> ('w, outcome) db_op) \<Rightarrow> string list \<Rightarrow> bool" where
  "writes_well now cls m \<equiv> conforms now Affected (unsupported cls m)"

lemma quoted_simps [simp]: "elements_of (JArr xs) = Inr xs" "text_of (JStr s) = Inr s"
  by (simp_all add: elements_of_def text_of_def)

lemma runs_choice: "(\<And>c. runs (g c)) \<Longrightarrow> runs (bindM (liftE (choice_of tbl (JStr s) d)) g)"
  by (simp add: choice_of_def)

lemmas read_methods =
  pg_health_def pg_version_def pg_sessions_def pg_blocking_def pg_deadlocks_def pg_running_queries_def pg_waits_def pg_query_plan_def
  pg_top_queries_def pg_indexes_def pg_statistics_def pg_tables_def pg_storage_def pg_transaction_log_def pg_replication_def pg_backups_def
  pg_configuration_def pg_error_logs_def
  my_health_def my_version_def my_sessions_def my_blocking_def my_deadlocks_def my_running_queries_def my_waits_def my_query_plan_def
  my_top_queries_def my_indexes_def my_statistics_def my_tables_def my_storage_def my_transaction_log_def my_replication_def my_backups_def
  my_configuration_def my_error_logs_def
  ss_health_def ss_version_def ss_sessions_def ss_blocking_def ss_deadlocks_def ss_running_queries_def ss_waits_def ss_query_plan_def
  ss_top_queries_def ss_indexes_def ss_statistics_def ss_tables_def ss_storage_def ss_transaction_log_def ss_replication_def ss_backups_def
  ss_configuration_def ss_error_logs_def

lemmas write_methods =
  pg_cancel_query_def pg_kill_session_def pg_update_statistics_def pg_create_index_def pg_rebuild_index_def pg_modify_configuration_def
  my_cancel_query_def my_kill_session_def my_update_statistics_def my_create_index_def my_rebuild_index_def my_modify_configuration_def
  ss_cancel_query_def ss_kill_session_def ss_update_statistics_def ss_create_index_def ss_rebuild_index_def ss_modify_configuration_def
  pg_restart_instance_def my_restart_instance_def ss_restart_instance_def pg_failover_def my_failover_def ss_failover_def

lemma reads_implement:
  assumes "answering x"
  shows "implements (reads_well now cls) (engine_reads cls now x) READ_METHODS"
  by (cases cls; simp add: engine_reads_def pg_reads_def my_reads_def ss_reads_def READ_METHODS_def unsupported_def;
      intro conjI conforms_methods conforms_declined;
      (auto simp: read_methods suits_simps minutes_of_def intro!: runs_intros assms runs_choice)?)

lemma writes_implement:
  assumes "answering x"
  shows "implements (writes_well now cls) (engine_writes cls x) WRITE_METHODS"
  by (cases cls; simp add: engine_writes_def pg_writes_def my_writes_def ss_writes_def WRITE_METHODS_def unsupported_def;
      intro conjI conforms_methods conforms_declined;
      (auto simp: write_methods suits_simps Let_def intro!: runs_intros assms)?)

lemma engine_names:
  "map fst (engine_reads cls now x) = map (fst \<circ> snd) READ_METHODS" "map fst (engine_writes cls x) = map (fst \<circ> snd) WRITE_METHODS"
  by (cases cls; simp add: engine_reads_def engine_writes_def pg_reads_def pg_writes_def my_reads_def my_writes_def ss_reads_def
      ss_writes_def READ_METHODS_def WRITE_METHODS_def)+

lemma method_names_distinct:
  "distinct (map (fst \<circ> snd) READ_METHODS @ map (fst \<circ> snd) WRITE_METHODS @ map (fst \<circ> snd) restricted_dispatch)"
  by (simp add: READ_METHODS_def WRITE_METHODS_def restricted_dispatch_def)

lemma not_a_read: "m \<notin> set (map (fst \<circ> snd) READ_METHODS) \<Longrightarrow> map_of (engine_reads cls now x) m = None"
  using engine_names(1) [of cls now x] by (simp add: map_of_eq_None_iff flip: set_map)

lemma not_a_write: "m \<notin> set (map (fst \<circ> snd) WRITE_METHODS) \<Longrightarrow> map_of (engine_writes cls x) m = None"
  using engine_names(2) [of cls x] by (simp add: map_of_eq_None_iff flip: set_map)

lemma read_entry:
  assumes "answering x" and "map_of READ_METHODS t = Some (m, names)"
  shows "\<exists>f. map_of (engine_methods cls now x) m = Some f \<and> reads_well now cls m f names"
proof -
  have "distinct (map (fst \<circ> snd) READ_METHODS)" using method_names_distinct by simp
  from implements_entry [OF reads_implement [OF assms(1), of now cls] this assms(2)] show ?thesis
    by (auto simp: engine_methods_def map_add_def)
qed

lemma write_entry:
  assumes "answering x" and "map_of WRITE_METHODS t = Some (m, names)"
  shows "\<exists>f. map_of (engine_methods cls now x) m = Some f \<and> writes_well now cls m f names"
proof -
  have d: "distinct (map (fst \<circ> snd) WRITE_METHODS)" using method_names_distinct by simp
  have "m \<in> set (map (fst \<circ> snd) WRITE_METHODS)" using map_of_SomeD [OF assms(2)] by force
  then have "m \<notin> set (map (fst \<circ> snd) READ_METHODS)" using method_names_distinct by auto
  with implements_entry [OF writes_implement [OF assms(1), of now cls] d assms(2)] show ?thesis
    by (auto simp: engine_methods_def map_add_def not_a_read)
qed

lemma engine_method_restricted:
  assumes "m \<in> set (map (fst \<circ> snd) restricted_dispatch)"
  shows "map_of (engine_methods cls now x) m = None \<longleftrightarrow> \<not> (m = ''execute_readonly_sql'' \<and> overrides_readonly_sql cls)"
proof -
  have "m \<notin> set (map (fst \<circ> snd) READ_METHODS)" "m \<notin> set (map (fst \<circ> snd) WRITE_METHODS)"
    using assms method_names_distinct by auto
  then show ?thesis
    by (cases cls) (auto simp: engine_methods_def map_add_def not_a_read not_a_write engine_restricted_def overrides_readonly_sql_def)
qed

lemma conforms_outcome:
  assumes "conforms now kind declined f names"
  shows "length vals \<noteq> length names \<longrightarrow> fst (f vals w) = Inl (OtherError ''TypeError'')"
    and "list_all2 (suits now) names vals \<longrightarrow>
      (if declined then \<exists>e. fst (f vals w) = Inl (NotImplementedError e) else \<exists>v. fst (f vals w) = Inr (kind v))"
proof -
  show "length vals \<noteq> length names \<longrightarrow> fst (f vals w) = Inl (OtherError ''TypeError'')"
    using assms by (simp add: conforms_def bad_call_def)
  show "list_all2 (suits now) names vals \<longrightarrow>
      (if declined then \<exists>e. fst (f vals w) = Inl (NotImplementedError e) else \<exists>v. fst (f vals w) = Inr (kind v))"
  proof
    assume "list_all2 (suits now) names vals"
    with assms have "if declined then declines (f vals) else yields kind (f vals)" by (simp add: conforms_def)
    then show "if declined then \<exists>e. fst (f vals w) = Inl (NotImplementedError e) else \<exists>v. fst (f vals w) = Inr (kind v)"
      by (auto simp: declines_def not_implemented_def yields_def split: if_splits) (metis fst_conv)
  qed
qed

section \<open>Guarantees\<close>



section \<open>The service's environment\<close>

definition engine_env ::
    "int \<Rightarrow> 'w query_executor \<Rightarrow> 'w \<Rightarrow> 'c exec_env \<Rightarrow> 'c exec_env" where
  \<comment> \<open>an environment whose adapters are those of the engines, on an executor in some state\<close>
  "engine_env now x w env = env\<lparr>xe_call := (\<lambda>cls database m args. fst (engine_call cls now x m args w))\<rparr>"

text \<open>
  An execution of a diagnostic on an engine's adapter succeeds only with rows that the engine's
  method returned.
\<close>

theorem diagnostic_execution:
  assumes "map_of READ_METHODS (ex_tool_id request) = Some (m, names)"
    and "dispatch (adapter_call (engine_env now x w env) cls (ex_database request)) request = Inr r"
  shows "\<exists>vals rows. fst (engine_call cls now x m vals w) = Inr (Rows rows) \<and> r = read_result request rows"
proof -
  from dispatch_read [OF assms] obtain vals rows where
    call: "adapter_call (engine_env now x w env) cls (ex_database request) m vals = Inr (Rows rows)" and r: "r = read_result request rows"
    by blast
  have "m \<in> set (map (fst \<circ> snd) READ_METHODS)" using map_of_SomeD [OF assms(1)] by force
  then have "m \<notin> fst ` snd ` set restricted_dispatch" using method_names_distinct by (auto simp: image_image)
  with call r show ?thesis by (auto simp: adapter_call_def engine_env_def)
qed

end
