(* ===== verification/Discovery_Sql.thy ===== *)
theory Discovery_Sql
  imports Numi_Prelude
begin

text \<open>
  The SQL texts of discovery (execution/discovery/postgresql.py, mysql.py and sqlserver.py),
  character by character. The four texts that enumerate the objects of a SQL Server database take
  its quoted name.
\<close>

definition pg_LEAST_PRIVILEGE_SQL :: string where
  "pg_LEAST_PRIVILEGE_SQL =
     ''
    select n.nspname as schema_name, c.relname as object_name
    from pg_catalog.pg_class c
    join pg_catalog.pg_namespace n on n.oid = c.relnamespace
    where c.relkind in ('r', 'p', 'v', 'm', 'f')
      and n.nspname not in ('pg_catalog', 'information_schema')
      and n.nspname not like 'pg_toast%%'
      and n.nspname not like 'pg_temp%%'
      and pg_catalog.has_table_privilege(current_user, c.oid, 'SELECT')
    order by n.nspname, c.relname
    limit %(limit)s
''"

definition pg_discover_version_sql :: string where
  "pg_discover_version_sql =
     ''SHOW server_version''"

definition pg_discover_settings_sql :: string where
  "pg_discover_settings_sql =
     ''SELECT name, setting, unit FROM pg_settings ORDER BY name''"

definition pg_discover_databases_sql :: string where
  "pg_discover_databases_sql =
     ''SELECT datname, pg_get_userbyid(datdba) AS owner, pg_encoding_to_char(encoding) AS '' @
     ''encoding, datcollate FROM pg_database WHERE datistemplate = false AND datallowconn '' @
     ''ORDER BY datname''"

definition pg_discover_size_sql :: string where
  "pg_discover_size_sql =
     ''SELECT pg_database_size(current_database()) AS s''"

definition pg_discover_tables_sql :: string where
  "pg_discover_tables_sql =
     ''SELECT n.nspname AS schema_name, c.relname AS name,   CASE c.relkind WHEN 'r' THEN 'table' '' @
     ''WHEN 'p' THEN 'table'                  WHEN 'v' THEN 'view' WHEN 'm' THEN 'view' END'' @
     '' AS kind,   s.n_live_tup AS row_estimate,   pg_total_relation_size(c.oid) AS '' @
     ''size_bytes FROM pg_class c JOIN pg_namespace n ON n.oid = c.relnamespace LEFT JOIN '' @
     ''pg_stat_user_tables s ON s.relid = c.oid WHERE c.relkind IN ('r','p','v','m')   AND '' @
     ''n.nspname NOT IN ('pg_catalog','information_schema') ORDER BY '' @
     ''pg_total_relation_size(c.oid) DESC NULLS LAST LIMIT %(limit)s''"

definition pg_discover_indexes_sql :: string where
  "pg_discover_indexes_sql =
     ''SELECT s.schemaname AS schema_name, s.indexrelname AS name, 'index' AS kind,   '' @
     ''s.relname AS table_name, s.idx_scan, s.idx_tup_read, s.idx_tup_fetch,   '' @
     ''pg_relation_size(s.indexrelid) AS size_bytes FROM pg_stat_user_indexes s ORDER BY '' @
     ''s.idx_scan DESC LIMIT %(limit)s''"

definition pg_discover_routines_sql :: string where
  "pg_discover_routines_sql =
     ''SELECT n.nspname AS schema_name, p.proname AS name,   CASE p.prokind WHEN 'p' THEN 'procedure' '' @
     ''ELSE 'function' END AS kind FROM pg_proc p JOIN pg_namespace n ON n.oid = '' @
     ''p.pronamespace WHERE n.nspname NOT IN ('pg_catalog','information_schema') ORDER BY '' @
     ''p.proname LIMIT %(limit)s''"

definition pg_discover_extensions_sql :: string where
  "pg_discover_extensions_sql =
     ''SELECT ae.name, ae.default_version, ae.installed_version, ae.comment FROM '' @
     ''pg_available_extensions ae ORDER BY ae.name''"

definition my_LEAST_PRIVILEGE_SQL :: string where
  "my_LEAST_PRIVILEGE_SQL =
     ''
    SELECT schema_name, object_name FROM (
        SELECT '*' AS schema_name, '*' AS object_name
          FROM information_schema.USER_PRIVILEGES
         WHERE PRIVILEGE_TYPE = 'SELECT'
           AND GRANTEE = CONCAT('' @
     [CHR 0x22] @
     [CHR 0x27] @
     [CHR 0x22] @
     '', REPLACE(CURRENT_USER(), '@', '' @
     [CHR 0x22] @
     [CHR 0x27] @
     ''@'' @
     [CHR 0x27] @
     [CHR 0x22] @
     ''), '' @
     [CHR 0x22] @
     [CHR 0x27] @
     [CHR 0x22] @
     '')
        UNION ALL
        SELECT TABLE_SCHEMA AS schema_name, '*' AS object_name
          FROM information_schema.SCHEMA_PRIVILEGES
         WHERE PRIVILEGE_TYPE = 'SELECT'
           AND GRANTEE = CONCAT('' @
     [CHR 0x22] @
     [CHR 0x27] @
     [CHR 0x22] @
     '', REPLACE(CURRENT_USER(), '@', '' @
     [CHR 0x22] @
     [CHR 0x27] @
     ''@'' @
     [CHR 0x27] @
     [CHR 0x22] @
     ''), '' @
     [CHR 0x22] @
     [CHR 0x27] @
     [CHR 0x22] @
     '')
           AND TABLE_SCHEMA NOT IN
               ('information_schema', 'performance_schema', 'mysql', 'sys')
        UNION ALL
        SELECT TABLE_SCHEMA AS schema_name, TABLE_NAME AS object_name
          FROM information_schema.TABLE_PRIVILEGES
         WHERE PRIVILEGE_TYPE = 'SELECT'
           AND GRANTEE = CONCAT('' @
     [CHR 0x22] @
     [CHR 0x27] @
     [CHR 0x22] @
     '', REPLACE(CURRENT_USER(), '@', '' @
     [CHR 0x22] @
     [CHR 0x27] @
     ''@'' @
     [CHR 0x27] @
     [CHR 0x22] @
     ''), '' @
     [CHR 0x22] @
     [CHR 0x27] @
     [CHR 0x22] @
     '')
           AND TABLE_SCHEMA NOT IN
               ('information_schema', 'performance_schema', 'mysql', 'sys')
    ) g
    ORDER BY schema_name, object_name
    LIMIT %(limit)s
''"

definition my_discover_version_sql :: string where
  "my_discover_version_sql =
     ''SELECT VERSION() AS version, @@version_comment AS edition''"

definition my_discover_plugins_sql :: string where
  "my_discover_plugins_sql =
     ''SELECT PLUGIN_NAME AS name, PLUGIN_VERSION AS version, PLUGIN_STATUS AS status, '' @
     ''PLUGIN_TYPE AS type FROM information_schema.PLUGINS ORDER BY PLUGIN_NAME''"

definition my_discover_variables_sql :: string where
  "my_discover_variables_sql =
     ''SELECT VARIABLE_NAME AS name, VARIABLE_VALUE AS value FROM '' @
     ''performance_schema.global_variables WHERE VARIABLE_NAME IN '' @
     ''('innodb_buffer_pool_size','innodb_version','max_connections','version_compile_os','datadir','character_set_server')''"

definition my_discover_schemata_sql :: string where
  "my_discover_schemata_sql =
     ''SELECT SCHEMA_NAME AS name, DEFAULT_CHARACTER_SET_NAME AS charset, '' @
     ''DEFAULT_COLLATION_NAME AS collation FROM information_schema.SCHEMATA ORDER BY '' @
     ''SCHEMA_NAME''"

definition my_discover_size_sql :: string where
  "my_discover_size_sql =
     ''SELECT SUM(DATA_LENGTH + INDEX_LENGTH) AS size_bytes FROM information_schema.TABLES '' @
     ''WHERE TABLE_SCHEMA = %(s)s''"

definition my_discover_tables_sql :: string where
  "my_discover_tables_sql =
     ''SELECT TABLE_NAME AS name, TABLE_TYPE AS table_type, TABLE_ROWS AS row_estimate, '' @
     ''(DATA_LENGTH + INDEX_LENGTH) AS size_bytes, ENGINE AS engine FROM '' @
     ''information_schema.TABLES WHERE TABLE_SCHEMA = %(s)s ORDER BY (DATA_LENGTH + '' @
     ''INDEX_LENGTH) DESC LIMIT %(limit)s''"

definition my_discover_indexes_sql :: string where
  "my_discover_indexes_sql =
     ''SELECT DISTINCT INDEX_NAME AS name, TABLE_NAME AS table_name, NON_UNIQUE AS '' @
     ''non_unique, INDEX_TYPE AS index_type FROM information_schema.STATISTICS WHERE '' @
     ''TABLE_SCHEMA = %(s)s ORDER BY TABLE_NAME, INDEX_NAME LIMIT %(limit)s''"

definition my_discover_routines_sql :: string where
  "my_discover_routines_sql =
     ''SELECT ROUTINE_NAME AS name, ROUTINE_TYPE AS routine_type FROM '' @
     ''information_schema.ROUTINES WHERE ROUTINE_SCHEMA = %(s)s ORDER BY ROUTINE_NAME LIMIT'' @
     '' %(limit)s''"

definition ss_LEAST_PRIVILEGE_SQL :: string where
  "ss_LEAST_PRIVILEGE_SQL =
     ''
    SELECT TOP (%(limit)s) s.name AS schema_name, o.name AS object_name
    FROM sys.objects o
    JOIN sys.schemas s ON s.schema_id = o.schema_id
    WHERE o.type IN ('U', 'V')
      AND o.is_ms_shipped = 0
      AND s.name NOT IN ('sys', 'INFORMATION_SCHEMA')
      AND HAS_PERMS_BY_NAME(
            QUOTENAME(s.name) + '.' + QUOTENAME(o.name), 'OBJECT', 'SELECT') = 1
    ORDER BY s.name, o.name
''"

definition ss_discover_properties_sql :: string where
  "ss_discover_properties_sql =
     ''SELECT CAST(SERVERPROPERTY('ProductVersion') AS NVARCHAR(128)) AS version, '' @
     ''CAST(SERVERPROPERTY('Edition') AS NVARCHAR(128)) AS edition, '' @
     ''CAST(SERVERPROPERTY('ProductLevel') AS NVARCHAR(128)) AS level, '' @
     ''CAST(SERVERPROPERTY('IsHadrEnabled') AS INT) AS hadr_enabled, (SELECT cpu_count FROM'' @
     '' sys.dm_os_sys_info) AS cpu_count''"

definition ss_discover_configuration_sql :: string where
  "ss_discover_configuration_sql =
     ''SELECT name, CAST(value_in_use AS NVARCHAR(4000)) AS value FROM sys.configurations '' @
     ''ORDER BY name''"

definition ss_discover_databases_sql :: string where
  "ss_discover_databases_sql =
     ''SELECT d.name, d.state_desc, d.recovery_model_desc, d.compatibility_level, '' @
     ''d.is_read_only, d.is_encrypted, d.collation_name, (SELECT SUM(CAST(mf.size AS '' @
     ''BIGINT)) * 8 * 1024 FROM sys.master_files mf  WHERE mf.database_id = d.database_id) '' @
     ''AS size_bytes FROM sys.databases d WHERE d.name <> 'tempdb' ORDER BY d.name''"

definition ss_discover_tables_sql :: "string \<Rightarrow> string" where
  "ss_discover_tables_sql q =
     ''SELECT TOP (%(limit)s) s.name AS schema_name, t.name AS name, 'table' AS kind,      '' @
     ''  p.rows AS row_estimate,        SUM(CAST(a.total_pages AS BIGINT)) * 8 * 1024 AS '' @
     ''size_bytes FROM '' @ q @ ''.sys.tables t JOIN '' @ q @ ''.sys.schemas s ON s.schema_id = t.schema_id JOIN '' @ q @ ''.sys.partitions p ON p.object_id = t.object_id AND p.index_id IN (0,1) JOIN '' @ q @ ''.sys.allocation_units a ON a.container_id = p.partition_id GROUP BY s.name, t.name, '' @
     ''p.rows ORDER BY p.rows DESC''"

definition ss_discover_views_sql :: "string \<Rightarrow> string" where
  "ss_discover_views_sql q =
     ''SELECT TOP (%(limit)s) s.name AS schema_name, v.name AS name, 'view' AS kind FROM '' @ q @ ''.sys.views v JOIN '' @ q @ ''.sys.schemas s ON s.schema_id = v.schema_id ORDER BY v.name''"

definition ss_discover_indexes_sql :: "string \<Rightarrow> string" where
  "ss_discover_indexes_sql q =
     ''SELECT TOP (%(limit)s) s.name AS schema_name,        i.name AS name, 'index' AS '' @
     ''kind,        i.type_desc AS index_type, t.name AS table_name,        us.user_seeks, '' @
     ''us.user_scans, us.user_lookups, us.user_updates FROM '' @ q @ ''.sys.indexes i JOIN '' @ q @ ''.sys.tables t ON t.object_id = i.object_id JOIN '' @ q @ ''.sys.schemas s ON s.schema_id = t.schema_id LEFT JOIN '' @ q @ ''.sys.dm_db_index_usage_stats us        ON us.object_id = i.object_id AND us.index_id'' @
     '' = i.index_id WHERE i.name IS NOT NULL ORDER BY i.name''"

definition ss_discover_routines_sql :: "string \<Rightarrow> string" where
  "ss_discover_routines_sql q =
     ''SELECT TOP (%(limit)s) s.name AS schema_name, o.name AS name,   CASE o.type WHEN 'P' '' @
     ''THEN 'procedure' ELSE 'function' END AS kind FROM '' @ q @ ''.sys.objects o JOIN '' @ q @ ''.sys.schemas s ON s.schema_id = o.schema_id WHERE o.type IN '' @
     ''('P','FN','IF','TF','AF') ORDER BY o.name''"

end
