(* ===== verification/Discovery_Engines.thy ===== *)
theory Discovery_Engines
  imports Discovery_Sql Db_Connections
begin

text \<open>
  The discovery engines (execution/discovery): reading a server's metadata into its catalog on each
  engine, the privilege check of the diagnostic login, and the dispatcher that turns every failure
  into an empty catalog with a warning. A connection is opened, asked and closed through a record
  of these three calls; \<open>driver_access\<close> is the one over the query executors of a driver.

  What the model classes do to a value that is not of the declared type: a text field raises, an
  integer field reads a text by the parameter \<open>da_int_text\<close>.
\<close>

section \<open>Access to a server\<close>

record ('w, 'h) db_access =
  da_connect :: "DatabaseCredentials \<Rightarrow> ('w, 'h) db_op"
  da_fetch :: "'h \<Rightarrow> string \<Rightarrow> jdict \<Rightarrow> ('w, jrow list) db_op"
  da_close :: "'h \<Rightarrow> ('w, unit) db_op"
  da_int_text :: "string \<Rightarrow> int option"
  da_now :: int

definition fresh_executor :: "'w \<Rightarrow> ('w, 'k) db_state" where
  "fresh_executor w = \<lparr>ds_conn = None, ds_pool_open = True, ds_world = w\<rparr>"

definition driver_access :: "adapter_class \<Rightarrow> ('w, 'k) db_driver \<Rightarrow> (string \<Rightarrow> int option) \<Rightarrow> int \<Rightarrow> ('w, ('w, 'k) db_state) db_access" where
  \<comment> \<open>a handle is what an executor object holds\<close>
  "driver_access cls drv int_text now =
     \<lparr>da_connect = (\<lambda>c w. case connect_executor cls drv c (fresh_executor w) of
                       (Inl e, s) \<Rightarrow> (Inl e, ds_world s) | (Inr _, s) \<Rightarrow> (Inr s, ds_world s)),
      da_fetch = (\<lambda>h sql params w. case qe_fetch_all (query_executor_of cls drv) sql params (h\<lparr>ds_world := w\<rparr>) of
                       (r, s) \<Rightarrow> (r, ds_world s)),
      da_close = (\<lambda>h w. case close_executor cls drv (h\<lparr>ds_world := w\<rparr>) of (r, s) \<Rightarrow> (r, ds_world s)),
      da_int_text = int_text, da_now = now\<rparr>"

definition finallyM :: "('s, 'e, 'a) comp \<Rightarrow> ('s, 'e, unit) comp \<Rightarrow> ('s, 'e, 'a) comp" where
  \<comment> \<open>\<open>try: f finally: g\<close>\<close>
  "finallyM f g s =
     (case f s of (r, s') \<Rightarrow> (case g s' of (Inl e, t) \<Rightarrow> (Inl e, t) | (Inr _, t) \<Rightarrow> (r, t)))"

definition on_errorM :: "('s, 'e, 'a) comp \<Rightarrow> ('s, 'e, unit) comp \<Rightarrow> ('s, 'e, 'a) comp" where
  \<comment> \<open>\<open>try: f except Exception: g; raise\<close>\<close>
  "on_errorM f g s =
     (case f s of
        (Inr a, s') \<Rightarrow> (Inr a, s')
      | (Inl e, s') \<Rightarrow> (case g s' of (Inl e', t) \<Rightarrow> (Inl e', t) | (Inr _, t) \<Rightarrow> (Inl e, t)))"

section \<open>Reading rows\<close>

definition row_item :: "jrow \<Rightarrow> string \<Rightarrow> exec_exn + json" where
  \<comment> \<open>\<open>row[k]\<close>\<close>
  "row_item r k = (case map_of r k of None \<Rightarrow> Inl (OtherError ''KeyError'') | Some v \<Rightarrow> Inr v)"

definition row_get :: "jrow \<Rightarrow> string \<Rightarrow> json" where
  \<comment> \<open>\<open>row.get(k)\<close>\<close>
  "row_get r k = (case map_of r k of None \<Rightarrow> JNull | Some v \<Rightarrow> v)"

definition row_get_or :: "jrow \<Rightarrow> string \<Rightarrow> string \<Rightarrow> json" where
  \<comment> \<open>\<open>row.get(k, d)\<close>\<close>
  "row_get_or r k d = (case map_of r k of None \<Rightarrow> JStr d | Some v \<Rightarrow> v)"

definition first_row :: "jrow list \<Rightarrow> exec_exn + jrow" where
  \<comment> \<open>\<open>rows[0]\<close>\<close>
  "first_row rows = (case rows of [] \<Rightarrow> Inl (OtherError ''IndexError'') | r # _ \<Rightarrow> Inr r)"

definition text_field :: "json \<Rightarrow> exec_exn + string" where
  "text_field v = (case v of JStr s \<Rightarrow> Inr s | _ \<Rightarrow> Inl (OtherError ''ValidationError''))"

definition opt_text_field :: "json \<Rightarrow> exec_exn + string option" where
  "opt_text_field v = (case v of JNull \<Rightarrow> Inr None | JStr s \<Rightarrow> Inr (Some s) | _ \<Rightarrow> Inl (OtherError ''ValidationError''))"

definition opt_int_field :: "(string \<Rightarrow> int option) \<Rightarrow> json \<Rightarrow> exec_exn + int option" where
  "opt_int_field int_text v =
     (case v of
        JNull \<Rightarrow> Inr None
      | JInt i \<Rightarrow> Inr (Some i)
      | JBool b \<Rightarrow> Inr (Some (if b then 1 else 0))
      | JStr s \<Rightarrow> (case int_text s of None \<Rightarrow> Inl (OtherError ''ValidationError'') | Some i \<Rightarrow> Inr (Some i))
      | _ \<Rightarrow> Inl (OtherError ''ValidationError''))"

definition assigned_size :: "json \<Rightarrow> int option" where
  \<comment> \<open>an assignment to \<open>size_bytes\<close> is not validated; a value that is no integer is not represented\<close>
  "assigned_size v = (case v of JInt i \<Rightarrow> Some i | _ \<Rightarrow> None)"

definition named_values :: "(jrow \<Rightarrow> exec_exn + json) \<Rightarrow> jrow list \<Rightarrow> exec_exn + json" where
  \<comment> \<open>\<open>{r["name"]: f(r) for r in rows}\<close>; a key that is no text is rendered\<close>
  "named_values f rows =
     bindE (mapE (\<lambda>r. bindE (row_item r ''name'') (\<lambda>k. bindE (f r) (\<lambda>v. Inr (py_str k, v)))) rows) (\<lambda>kvs.
     Inr (JObj (dict_merge [] kvs)))"

definition upper_is :: "json \<Rightarrow> string \<Rightarrow> exec_exn + bool" where
  \<comment> \<open>\<open>(v or "").upper() == t\<close> for an upper-case \<open>t\<close>\<close>
  "upper_is v t =
     (if \<not> truthy v then Inr (t = [])
      else bindE (text_of v) (\<lambda>s. Inr (lower s = lower t)))"

definition mk_object :: "string \<Rightarrow> string \<Rightarrow> string \<Rightarrow> int option \<Rightarrow> int option \<Rightarrow> jdict \<Rightarrow> DiscoveredObject" where
  "mk_object schema name kind rows bytes props =
     \<lparr>do_schema_name = schema, do_name = name, do_kind = kind, do_row_estimate = rows, do_size_bytes = bytes, do_properties = props\<rparr>"

definition object_of ::
    "exec_exn + json \<Rightarrow> jrow \<Rightarrow> exec_exn + json \<Rightarrow> exec_exn + int option \<Rightarrow> exec_exn + int option \<Rightarrow> jdict \<Rightarrow> exec_exn + DiscoveredObject" where
  \<comment> \<open>\<open>DiscoveredObject(schema_name=..., name=r["name"], kind=..., ...)\<close>: the arguments, then the model\<close>
  "object_of schema r kind rows bytes props =
     bindE schema (\<lambda>s. bindE (row_item r ''name'') (\<lambda>n. bindE kind (\<lambda>k.
     bindE (text_field s) (\<lambda>s'. bindE (text_field n) (\<lambda>n'. bindE (text_field k) (\<lambda>k'.
     bindE rows (\<lambda>e. bindE bytes (\<lambda>b. Inr (mk_object s' n' k' e b props)))))))))"

section \<open>The privilege check (base.py)\<close>

definition LEAST_PRIVILEGE_SCAN_LIMIT :: nat where
  "LEAST_PRIVILEGE_SCAN_LIMIT = 200"

definition SAMPLE_OBJECT_COUNT :: nat where
  "SAMPLE_OBJECT_COUNT = 5"

definition sample_name :: "jrow \<Rightarrow> string" where
  "sample_name row =
     (let schema = row_get row ''schema_name''; obj = row_get row ''object_name'';
          obj_text = (if truthy obj then py_str obj else [])
      in if truthy schema then py_str schema @ ''.'' @ obj_text else obj_text)"

definition build_least_privilege_finding :: "jrow list \<Rightarrow> string \<Rightarrow> string \<Rightarrow> LeastPrivilegeFinding" where
  "build_least_privilege_finding rows login scope_note =
     \<lparr>lp_checked = True, lp_login = login, lp_has_user_table_select = (rows \<noteq> []),
      lp_granted_object_count = int (length rows),
      lp_count_is_lower_bound = (LEAST_PRIVILEGE_SCAN_LIMIT \<le> length rows),
      lp_sample_objects = map sample_name (take SAMPLE_OBJECT_COUNT rows), lp_scope_note = scope_note\<rparr>"

definition unchecked_finding :: LeastPrivilegeFinding where
  "unchecked_finding =
     \<lparr>lp_checked = False, lp_login = [], lp_has_user_table_select = False, lp_granted_object_count = 0,
      lp_count_is_lower_bound = False, lp_sample_objects = [], lp_scope_note = ''privilege check could not run''\<rparr>"

definition run_least_privilege_check :: "('w, LeastPrivilegeFinding) db_op \<Rightarrow> ('w, LeastPrivilegeFinding) db_op" where
  "run_least_privilege_check check w =
     (case check w of (Inl e, w') \<Rightarrow> (Inr unchecked_finding, w') | (Inr f, w') \<Rightarrow> (Inr f, w'))"

definition scan_privileges ::
    "('w, 'h) db_access \<Rightarrow> 'h \<Rightarrow> string \<Rightarrow> string \<Rightarrow> string \<Rightarrow> ('w, LeastPrivilegeFinding) db_op" where
  \<comment> \<open>\<open>_check_least_privilege\<close> of every engine, with its text and its note\<close>
  "scan_privileges a h sql login scope_note =
     bindM (da_fetch a h sql [(''limit'', JInt (int LEAST_PRIVILEGE_SCAN_LIMIT))]) (\<lambda>rows.
     returnM (build_least_privilege_finding rows login scope_note))"

definition per_database_note :: "string \<Rightarrow> string \<Rightarrow> string" where
  "per_database_note database why = ''checked against the '' @ quoted database @ '' database '' @ why"

definition pg_check_least_privilege :: "('w, 'h) db_access \<Rightarrow> DatabaseCredentials \<Rightarrow> 'h \<Rightarrow> ('w, LeastPrivilegeFinding) db_op" where
  "pg_check_least_privilege a c h =
     scan_privileges a h pg_LEAST_PRIVILEGE_SQL (dc_username c)
       (per_database_note (dc_database c) ''(PostgreSQL scopes relation visibility per connection)'')"

definition my_check_least_privilege :: "('w, 'h) db_access \<Rightarrow> DatabaseCredentials \<Rightarrow> 'h \<Rightarrow> ('w, LeastPrivilegeFinding) db_op" where
  "my_check_least_privilege a c h =
     scan_privileges a h my_LEAST_PRIVILEGE_SQL (dc_username c)
       ''checked instance-wide (MySQL privilege views span every schema)''"

definition ss_check_least_privilege :: "('w, 'h) db_access \<Rightarrow> DatabaseCredentials \<Rightarrow> 'h \<Rightarrow> ('w, LeastPrivilegeFinding) db_op" where
  "ss_check_least_privilege a c h =
     scan_privileges a h ss_LEAST_PRIVILEGE_SQL (dc_username c)
       (per_database_note (dc_database c) ''(SQL Server scopes object permissions per database)'')"

definition new_database :: "string \<Rightarrow> string \<Rightarrow> int option \<Rightarrow> jdict \<Rightarrow> DiscoveredDatabase" where
  "new_database name state bytes options =
     \<lparr>dd_name = name, dd_state = state, dd_size_bytes = bytes, dd_options = options, dd_objects = [], dd_extensions = []\<rparr>"

section \<open>Filling in one database\<close>

text \<open>
  The database under construction is part of the state: what a failing reading has already put into
  it stays.
\<close>

type_synonym ('w, 'a) fill_op = "('w \<times> DiscoveredDatabase, 'a) db_op"

definition asking :: "('w, 'a) db_op \<Rightarrow> ('w, 'a) fill_op" where
  "asking = zoom fst (\<lambda>w s. (w, snd s))"

definition update_db :: "(DiscoveredDatabase \<Rightarrow> DiscoveredDatabase) \<Rightarrow> ('w, unit) fill_op" where
  "update_db f s = (Inr (), (fst s, f (snd s)))"

fun add_objects :: "(jrow \<Rightarrow> exec_exn + DiscoveredObject) \<Rightarrow> jrow list \<Rightarrow> ('w, unit) fill_op" where
  "add_objects f [] = returnM ()"
| "add_objects f (r # rs) =
     bindM (liftE (f r)) (\<lambda>ob.
     bindM (update_db (\<lambda>db. db\<lparr>dd_objects := dd_objects db @ [ob]\<rparr>)) (\<lambda>_. add_objects f rs))"

definition filled :: "('w, unit) fill_op \<Rightarrow> DiscoveredDatabase \<Rightarrow> ('w, DiscoveredDatabase \<times> exec_exn option) db_op" where
  \<comment> \<open>\<open>try: fill except Exception as exc: ...\<close>\<close>
  "filled fill db w =
     (case fill (w, db) of (r, w', db') \<Rightarrow> (Inr (db', case r of Inl e \<Rightarrow> Some e | Inr _ \<Rightarrow> None), w'))"

definition warned :: "string \<Rightarrow> string \<Rightarrow> exec_exn option \<Rightarrow> string list" where
  "warned what name err = (case err of None \<Rightarrow> [] | Some e \<Rightarrow> [what @ name @ '': '' @ exn_text e])"

section \<open>PostgreSQL\<close>

definition pg_table_object :: "(string \<Rightarrow> int option) \<Rightarrow> jrow \<Rightarrow> exec_exn + DiscoveredObject" where
  "pg_table_object it r =
     object_of (row_item r ''schema_name'') r
       (bindE (row_item r ''kind'') (\<lambda>k. Inr (if truthy k then k else JStr ''table'')))
       (opt_int_field it (row_get r ''row_estimate'')) (opt_int_field it (row_get r ''size_bytes'')) []"

definition pg_index_object :: "(string \<Rightarrow> int option) \<Rightarrow> jrow \<Rightarrow> exec_exn + DiscoveredObject" where
  "pg_index_object it r =
     object_of (row_item r ''schema_name'') r (Inr (JStr ''index'')) (Inr None) (opt_int_field it (row_get r ''size_bytes''))
       [(''table'', row_get r ''table_name''), (''idx_scan'', row_get r ''idx_scan''),
        (''idx_tup_read'', row_get r ''idx_tup_read''), (''idx_tup_fetch'', row_get r ''idx_tup_fetch'')]"

definition routine_object :: "jrow \<Rightarrow> exec_exn + DiscoveredObject" where
  "routine_object r = object_of (row_item r ''schema_name'') r (row_item r ''kind'') (Inr None) (Inr None) []"

definition pg_extension :: "jrow \<Rightarrow> exec_exn + DiscoveredExtension" where
  "pg_extension r =
     bindE (row_item r ''name'') (\<lambda>n. bindE (text_field n) (\<lambda>name.
     bindE (opt_text_field (row_get r ''default_version'')) (\<lambda>dv. bindE (opt_text_field (row_get r ''installed_version'')) (\<lambda>iv.
     Inr \<lparr>de_name = name, de_installed_version = iv, de_default_version = dv, de_available = True\<rparr>))))"

definition limit_param :: "int \<Rightarrow> jdict" where
  "limit_param max_objects = [(''limit'', JInt max_objects)]"

definition pg_read_database :: "('w, 'h) db_access \<Rightarrow> int \<Rightarrow> 'h \<Rightarrow> ('w, unit) fill_op" where
  "pg_read_database a max_objects h =
     bindM (asking (da_fetch a h pg_discover_size_sql [])) (\<lambda>rows.
     bindM (liftE (first_row rows)) (\<lambda>r.
     bindM (update_db (\<lambda>db. db\<lparr>dd_size_bytes := assigned_size (row_get r ''s'')\<rparr>)) (\<lambda>_.
     bindM (asking (da_fetch a h pg_discover_tables_sql (limit_param max_objects))) (\<lambda>tables.
     bindM (asking (da_fetch a h pg_discover_indexes_sql (limit_param max_objects))) (\<lambda>indexes.
     bindM (asking (da_fetch a h pg_discover_routines_sql (limit_param max_objects))) (\<lambda>routines.
     bindM (asking (da_fetch a h pg_discover_extensions_sql [])) (\<lambda>ext_rows.
     bindM (add_objects (pg_table_object (da_int_text a)) tables) (\<lambda>_.
     bindM (add_objects (pg_index_object (da_int_text a)) indexes) (\<lambda>_.
     bindM (add_objects routine_object routines) (\<lambda>_.
     bindM (liftE (mapE pg_extension ext_rows)) (\<lambda>exts.
     update_db (\<lambda>db. db\<lparr>dd_extensions := exts\<rparr>))))))))))))"

definition pg_fill_database :: "('w, 'h) db_access \<Rightarrow> DatabaseCredentials \<Rightarrow> int \<Rightarrow> string \<Rightarrow> ('w, unit) fill_op" where
  "pg_fill_database a c max_objects db_name =
     bindM (asking (da_connect a (c\<lparr>dc_database := db_name\<rparr>))) (\<lambda>h.
     finallyM (pg_read_database a max_objects h) (asking (da_close a h)))"

definition pg_setting_value :: "jrow \<Rightarrow> exec_exn + json" where
  "pg_setting_value r =
     bindE (row_item r ''setting'') (\<lambda>v.
     Inr (if truthy (row_get r ''unit'') then JStr (py_str v @ py_str (row_get r ''unit'')) else v))"

definition pg_bootstrap ::
    "('w, 'h) db_access \<Rightarrow> DatabaseCredentials \<Rightarrow> 'h \<Rightarrow> ('w, json \<times> jdict \<times> jrow list \<times> LeastPrivilegeFinding) db_op" where
  "pg_bootstrap a c h =
     bindM (da_fetch a h pg_discover_version_sql []) (\<lambda>rows.
     bindM (liftE (first_row rows)) (\<lambda>r.
     bindM (da_fetch a h pg_discover_settings_sql []) (\<lambda>settings_rows.
     bindM (liftE (named_values pg_setting_value settings_rows)) (\<lambda>settings.
     bindM (da_fetch a h pg_discover_databases_sql []) (\<lambda>db_rows.
     bindM (run_least_privilege_check (pg_check_least_privilege a c h)) (\<lambda>least_privilege.
     returnM (row_get_or r ''server_version'' [], [(''settings'', settings)], db_rows, least_privilege)))))))"

fun pg_databases ::
    "('w, 'h) db_access \<Rightarrow> DatabaseCredentials \<Rightarrow> int \<Rightarrow> jrow list \<Rightarrow> ('w, DiscoveredDatabase list \<times> string list) db_op" where
  "pg_databases a c max_objects [] = returnM ([], [])"
| "pg_databases a c max_objects (row # rows) =
     bindM (liftE (row_item row ''datname'')) (\<lambda>v.
     bindM (liftE (text_field v)) (\<lambda>db_name.
     bindM (filled (pg_fill_database a c max_objects db_name)
              (new_database db_name ''online'' None
                 [(''owner'', row_get row ''owner''), (''encoding'', row_get row ''encoding''),
                  (''collation'', row_get row ''datcollate'')])) (\<lambda>(db, err).
     bindM (pg_databases a c max_objects rows) (\<lambda>(dbs, warnings).
     returnM (db # dbs, warned ''could not read database '' db_name err @ warnings)))))"

definition mk_catalog ::
    "('w, 'h) db_access \<Rightarrow> string \<Rightarrow> json \<Rightarrow> json \<Rightarrow> jdict \<Rightarrow> DiscoveredDatabase list \<Rightarrow> string list
       \<Rightarrow> LeastPrivilegeFinding \<Rightarrow> exec_exn + ServerCatalog" where
  "mk_catalog a server_id version edition props databases warnings least_privilege =
     bindE (text_field version) (\<lambda>v. bindE (text_field edition) (\<lambda>e.
     Inr \<lparr>sc_server_id = server_id, sc_discovered_at = Some (da_now a), sc_engine_version = v, sc_engine_edition = e,
          sc_instance_properties = props, sc_databases = databases, sc_warnings = warnings,
          sc_least_privilege = Some least_privilege\<rparr>))"

definition pg_discover :: "('w, 'h) db_access \<Rightarrow> DatabaseCredentials \<Rightarrow> int \<Rightarrow> string \<Rightarrow> ('w, ServerCatalog) db_op" where
  "pg_discover a c max_objects server_id =
     bindM (da_connect a c) (\<lambda>boot.
     bindM (finallyM (pg_bootstrap a c boot) (da_close a boot)) (\<lambda>(version, props, db_rows, least_privilege).
     bindM (pg_databases a c max_objects db_rows) (\<lambda>(databases, warnings).
     liftE (mk_catalog a server_id version (JStr ''PostgreSQL'') props databases warnings least_privilege))))"

section \<open>MySQL and MariaDB\<close>

definition SYSTEM_SCHEMAS :: "string list" where
  "SYSTEM_SCHEMAS = [''information_schema'', ''performance_schema'', ''mysql'', ''sys'']"

definition my_table_object :: "(string \<Rightarrow> int option) \<Rightarrow> string \<Rightarrow> jrow \<Rightarrow> exec_exn + DiscoveredObject" where
  "my_table_object it schema r =
     bindE (upper_is (row_get r ''table_type'') ''VIEW'') (\<lambda>is_view.
     object_of (Inr (JStr schema)) r (Inr (JStr (if is_view then ''view'' else ''table'')))
       (opt_int_field it (row_get r ''row_estimate'')) (opt_int_field it (row_get r ''size_bytes''))
       (if truthy (row_get r ''engine'') then [(''engine'', row_get r ''engine'')] else []))"

definition my_index_object :: "string \<Rightarrow> jrow \<Rightarrow> exec_exn + DiscoveredObject" where
  "my_index_object schema r =
     object_of (Inr (JStr schema)) r (Inr (JStr ''index'')) (Inr None) (Inr None)
       [(''table'', row_get r ''table_name''), (''unique'', JBool (\<not> truthy (row_get r ''non_unique''))),
        (''type'', row_get r ''index_type'')]"

definition my_routine_object :: "string \<Rightarrow> jrow \<Rightarrow> exec_exn + DiscoveredObject" where
  \<comment> \<open>the name is looked up before the kind is computed\<close>
  "my_routine_object schema r =
     object_of (Inr (JStr schema)) r
       (bindE (upper_is (row_get r ''routine_type'') ''PROCEDURE'') (\<lambda>is_procedure.
        Inr (JStr (if is_procedure then ''procedure'' else ''function''))))
       (Inr None) (Inr None) []"

definition my_fill_database :: "('w, 'h) db_access \<Rightarrow> int \<Rightarrow> 'h \<Rightarrow> string \<Rightarrow> ('w, unit) fill_op" where
  "my_fill_database a max_objects h schema =
     (let s = [(''s'', JStr schema)]; s_limit = [(''s'', JStr schema), (''limit'', JInt max_objects)]
      in bindM (asking (da_fetch a h my_discover_size_sql s)) (\<lambda>size_row.
         bindM (update_db (\<lambda>db. db\<lparr>dd_size_bytes :=
             (case size_row of [] \<Rightarrow> None | r # _ \<Rightarrow> assigned_size (row_get r ''size_bytes''))\<rparr>)) (\<lambda>_.
         bindM (asking (da_fetch a h my_discover_tables_sql s_limit)) (\<lambda>tables.
         bindM (asking (da_fetch a h my_discover_indexes_sql s_limit)) (\<lambda>indexes.
         bindM (asking (da_fetch a h my_discover_routines_sql s_limit)) (\<lambda>routines.
         bindM (add_objects (my_table_object (da_int_text a) schema) tables) (\<lambda>_.
         bindM (add_objects (my_index_object schema) indexes) (\<lambda>_.
         add_objects (my_routine_object schema) routines))))))))"

definition my_bootstrap :: "('w, 'h) db_access \<Rightarrow> 'h \<Rightarrow> ('w, jrow \<times> jdict \<times> jrow list) db_op" where
  "my_bootstrap a h =
     bindM (da_fetch a h my_discover_version_sql []) (\<lambda>rows.
     bindM (liftE (first_row rows)) (\<lambda>ver.
     bindM (da_fetch a h my_discover_plugins_sql []) (\<lambda>plugins.
     bindM (da_fetch a h my_discover_variables_sql []) (\<lambda>variables.
     bindM (liftE (named_values (\<lambda>p. Inr (row_get p ''status'')) plugins)) (\<lambda>plugin_status.
     bindM (liftE (named_values (\<lambda>v. row_item v ''value'') variables)) (\<lambda>variable_values.
     bindM (da_fetch a h my_discover_schemata_sql []) (\<lambda>schema_rows.
     returnM (ver, [(''plugins'', plugin_status), (''variables'', variable_values)], schema_rows))))))))"

fun my_databases ::
    "('w, 'h) db_access \<Rightarrow> int \<Rightarrow> 'h \<Rightarrow> jrow list \<Rightarrow> ('w, DiscoveredDatabase list \<times> string list) db_op" where
  "my_databases a max_objects h [] = returnM ([], [])"
| "my_databases a max_objects h (row # rows) =
     bindM (liftE (row_item row ''name'')) (\<lambda>v.
     if v \<in> set (map JStr SYSTEM_SCHEMAS) then my_databases a max_objects h rows
     else
       bindM (liftE (text_field v)) (\<lambda>name.
       bindM (filled (my_fill_database a max_objects h name)
                (new_database name ''online'' None
                   [(''charset'', row_get row ''charset''), (''collation'', row_get row ''collation'')])) (\<lambda>(db, err).
       bindM (my_databases a max_objects h rows) (\<lambda>(dbs, warnings).
       returnM (db # dbs, warned ''could not read objects in '' name err @ warnings)))))"

definition my_discover :: "('w, 'h) db_access \<Rightarrow> DatabaseCredentials \<Rightarrow> int \<Rightarrow> string \<Rightarrow> ('w, ServerCatalog) db_op" where
  "my_discover a c max_objects server_id =
     bindM (da_connect a c) (\<lambda>h.
     bindM (on_errorM (my_bootstrap a h) (da_close a h)) (\<lambda>(ver, props, schema_rows).
     bindM (finallyM
        (bindM (run_least_privilege_check (my_check_least_privilege a c h)) (\<lambda>least_privilege.
         bindM (my_databases a max_objects h schema_rows) (\<lambda>(databases, warnings).
         returnM (least_privilege, databases, warnings))))
        (da_close a h)) (\<lambda>(least_privilege, databases, warnings).
     liftE (mk_catalog a server_id (row_get_or ver ''version'' []) (row_get_or ver ''edition'' ''MySQL'') props databases
              warnings least_privilege))))"

section \<open>SQL Server\<close>

definition discovery_quote :: "string \<Rightarrow> string" where
  "discovery_quote identifier = ''['' @ replace_char (CHR '']'') '']]'' identifier @ '']''"

definition ss_table_object :: "(string \<Rightarrow> int option) \<Rightarrow> jrow \<Rightarrow> exec_exn + DiscoveredObject" where
  "ss_table_object it r =
     object_of (row_item r ''schema_name'') r (Inr (JStr ''table''))
       (opt_int_field it (row_get r ''row_estimate'')) (opt_int_field it (row_get r ''size_bytes'')) []"

definition ss_view_object :: "jrow \<Rightarrow> exec_exn + DiscoveredObject" where
  "ss_view_object r = object_of (row_item r ''schema_name'') r (Inr (JStr ''view'')) (Inr None) (Inr None) []"

definition ss_index_object :: "jrow \<Rightarrow> exec_exn + DiscoveredObject" where
  "ss_index_object r =
     object_of (row_item r ''schema_name'') r (Inr (JStr ''index'')) (Inr None) (Inr None)
       [(''type'', row_get r ''index_type''), (''table'', row_get r ''table_name''), (''user_seeks'', row_get r ''user_seeks''),
        (''user_scans'', row_get r ''user_scans''), (''user_lookups'', row_get r ''user_lookups''),
        (''user_updates'', row_get r ''user_updates'')]"

definition ss_objects :: "('w, 'h) db_access \<Rightarrow> int \<Rightarrow> 'h \<Rightarrow> string \<Rightarrow> ('w, DiscoveredObject list) db_op" where
  "ss_objects a max_objects h db_name =
     (let q = discovery_quote db_name
      in bindM (da_fetch a h (ss_discover_tables_sql q) (limit_param max_objects)) (\<lambda>tables.
         bindM (da_fetch a h (ss_discover_views_sql q) (limit_param max_objects)) (\<lambda>views.
         bindM (da_fetch a h (ss_discover_indexes_sql q) (limit_param max_objects)) (\<lambda>indexes.
         bindM (da_fetch a h (ss_discover_routines_sql q) (limit_param max_objects)) (\<lambda>routines.
         bindM (liftE (mapE (ss_table_object (da_int_text a)) tables)) (\<lambda>ts.
         bindM (liftE (mapE ss_view_object views)) (\<lambda>vs.
         bindM (liftE (mapE ss_index_object indexes)) (\<lambda>ixs.
         bindM (liftE (mapE routine_object routines)) (\<lambda>rs.
         returnM (ts @ vs @ ixs @ rs))))))))))"

definition ss_database :: "(string \<Rightarrow> int option) \<Rightarrow> jrow \<Rightarrow> exec_exn + DiscoveredDatabase" where
  "ss_database it row =
     bindE (row_item row ''name'') (\<lambda>n.
     bindE (if truthy (row_get row ''state_desc'') then text_of (row_get row ''state_desc'') else Inr ''unknown'') (\<lambda>state.
     bindE (text_field n) (\<lambda>name.
     bindE (opt_int_field it (row_get row ''size_bytes'')) (\<lambda>bytes.
     Inr (new_database name (lower state) bytes
       [(''recovery_model'', row_get row ''recovery_model_desc''),
        (''compatibility_level'', row_get row ''compatibility_level''),
        (''read_only'', JBool (truthy (row_get row ''is_read_only''))),
        (''encrypted'', JBool (truthy (row_get row ''is_encrypted''))),
        (''collation'', row_get row ''collation_name'')])))))"

definition ss_fill_database :: "('w, 'h) db_access \<Rightarrow> int \<Rightarrow> 'h \<Rightarrow> DiscoveredDatabase \<Rightarrow> ('w, unit) fill_op" where
  "ss_fill_database a max_objects h db =
     (if dd_state db = ''online''
      then bindM (asking (ss_objects a max_objects h (dd_name db))) (\<lambda>obs. update_db (\<lambda>d. d\<lparr>dd_objects := obs\<rparr>))
      else returnM ())"

fun ss_databases ::
    "('w, 'h) db_access \<Rightarrow> int \<Rightarrow> 'h \<Rightarrow> jrow list \<Rightarrow> ('w, DiscoveredDatabase list \<times> string list) db_op" where
  "ss_databases a max_objects h [] = returnM ([], [])"
| "ss_databases a max_objects h (row # rows) =
     bindM (liftE (ss_database (da_int_text a) row)) (\<lambda>db0.
     bindM (filled (ss_fill_database a max_objects h db0) db0) (\<lambda>(db, err).
     bindM (ss_databases a max_objects h rows) (\<lambda>(dbs, warnings).
     returnM (db # dbs, warned ''could not read objects in '' (dd_name db0) err @ warnings))))"

definition ss_crawl ::
    "('w, 'h) db_access \<Rightarrow> DatabaseCredentials \<Rightarrow> int \<Rightarrow> string \<Rightarrow> 'h \<Rightarrow> ('w, ServerCatalog) db_op" where
  "ss_crawl a c max_objects server_id h =
     bindM (da_fetch a h ss_discover_properties_sql []) (\<lambda>rows.
     bindM (liftE (first_row rows)) (\<lambda>props.
     bindM (da_fetch a h ss_discover_configuration_sql []) (\<lambda>configs.
     bindM (liftE (named_values (\<lambda>r. row_item r ''value'') configs)) (\<lambda>configuration.
     bindM (da_fetch a h ss_discover_databases_sql []) (\<lambda>db_rows.
     bindM (ss_databases a max_objects h db_rows) (\<lambda>(databases, warnings).
     bindM (run_least_privilege_check (ss_check_least_privilege a c h)) (\<lambda>least_privilege.
     liftE (mk_catalog a server_id (row_get_or props ''version'' []) (row_get_or props ''edition'' [])
       [(''cpu_count'', row_get props ''cpu_count''), (''hadr_enabled'', JBool (truthy (row_get props ''hadr_enabled''))),
        (''product_level'', row_get props ''level''), (''configuration'', configuration)]
       databases warnings least_privilege))))))))"

definition ss_discover :: "('w, 'h) db_access \<Rightarrow> DatabaseCredentials \<Rightarrow> int \<Rightarrow> string \<Rightarrow> ('w, ServerCatalog) db_op" where
  "ss_discover a c max_objects server_id =
     bindM (da_connect a c) (\<lambda>h. finallyM (ss_crawl a c max_objects server_id h) (da_close a h))"

section \<open>The dispatcher (engine.py)\<close>

definition discoverer_for :: "Platform \<Rightarrow> exec_exn + adapter_class" where
  "discoverer_for platform =
     (case platform of
        SQLSERVER \<Rightarrow> Inr SQLServerAdapter
      | POSTGRESQL \<Rightarrow> Inr PostgreSQLAdapter
      | MYSQL \<Rightarrow> Inr MySQLAdapter
      | MARIADB \<Rightarrow> Inr MySQLAdapter
      | ORACLE \<Rightarrow> Inl (NotImplementedError
          (''No discoverer for platform '' @ quoted (platform_value platform) @ ''. Adding an engine means '' @
           ''implementing ServerDiscoverer and registering it here.'')))"

definition discover :: "adapter_class \<Rightarrow> ('w, 'h) db_access \<Rightarrow> DatabaseCredentials \<Rightarrow> int \<Rightarrow> string \<Rightarrow> ('w, ServerCatalog) db_op" where
  "discover cls =
     (case cls of SQLServerAdapter \<Rightarrow> ss_discover | PostgreSQLAdapter \<Rightarrow> pg_discover | MySQLAdapter \<Rightarrow> my_discover)"

definition empty_catalog :: "string \<Rightarrow> string list \<Rightarrow> ServerCatalog" where
  \<comment> \<open>\<open>ServerCatalog(server_id, warnings)\<close> with the defaults of every other field\<close>
  "empty_catalog server_id warnings =
     \<lparr>sc_server_id = server_id, sc_discovered_at = None, sc_engine_version = [], sc_engine_edition = [],
      sc_instance_properties = [], sc_databases = [], sc_warnings = warnings, sc_least_privilege = None\<rparr>"

definition run_discovery ::
    "(adapter_class \<Rightarrow> ('w, 'h) db_access) \<Rightarrow> Platform \<Rightarrow> DatabaseCredentials \<Rightarrow> int \<Rightarrow> string \<Rightarrow> ('w, ServerCatalog) db_op" where
  "run_discovery access platform c max_objects server_id w =
     (case discoverer_for platform of
        Inl e \<Rightarrow> (Inl e, w)
      | Inr cls \<Rightarrow>
          (case discover cls (access cls) c max_objects server_id w of
             (Inr catalog, w') \<Rightarrow> (Inr catalog, w')
           | (Inl e, w') \<Rightarrow>
               (Inr (empty_catalog server_id [''Could not connect to the server. See server-side logs for detail.'']), w')))"

end
