(* ===== verification/Discovery_Guarantees.thy ===== *)
theory Discovery_Guarantees
  imports Discovery_Engines
begin

text \<open>
  What discovery promises: it asks only for metadata, on connections it closes before it opens the
  next one; the finding on the login's privileges is what the scan of this run answered, and never
  a clean one when the scan failed; and the catalog lists the databases the server listed.
\<close>

section \<open>Traces\<close>

datatype 'h access_event =
    Opened 'h
  | Asked 'h string jdict "exec_exn + jrow list"
  | Closed 'h

definition tracked :: "('w, 'h) db_access \<Rightarrow> ('w \<times> 'h access_event list, 'h) db_access" where
  \<comment> \<open>an access that also notes what was done with it\<close>
  "tracked a =
     \<lparr>da_connect = (\<lambda>c (w, log). case da_connect a c w of
                       (Inr h, w') \<Rightarrow> (Inr h, w', log @ [Opened h]) | (Inl e, w') \<Rightarrow> (Inl e, w', log)),
      da_fetch = (\<lambda>h sql params (w, log). case da_fetch a h sql params w of (r, w') \<Rightarrow> (r, w', log @ [Asked h sql params r])),
      da_close = (\<lambda>h (w, log). case da_close a h w of (r, w') \<Rightarrow> (r, w', log @ [Closed h])),
      da_int_text = da_int_text a, da_now = da_now a\<rparr>"

definition does :: "('s \<Rightarrow> 'e list) \<Rightarrow> (bool \<Rightarrow> 'e list \<Rightarrow> bool) \<Rightarrow> ('s, 'a) db_op \<Rightarrow> bool" where
  \<comment> \<open>what a computation appends to the trace in the state, when it fails and when it does not\<close>
  "does get R f \<longleftrightarrow> (\<forall>s. \<exists>new. get (snd (f s)) = get s @ new \<and> R (isl (fst (f s))) new)"

lemma doesI: "(\<And>s. \<exists>new. get (snd (f s)) = get s @ new \<and> R (isl (fst (f s))) new) \<Longrightarrow> does get R f"
  by (simp add: does_def)

lemma doesD:
  assumes "does get R f" and "f s = (r, t)"
  obtains new where "get t = get s @ new" and "R (isl r) new"
  using assms unfolding does_def by (metis fst_conv snd_conv)

lemma does_bind:
  assumes "does get R1 f" and "\<And>a. does get R2 (g a)"
    and "\<And>new. R1 True new \<Longrightarrow> R True new" and "\<And>b x y. R1 False x \<Longrightarrow> R2 b y \<Longrightarrow> R b (x @ y)"
  shows "does get R (bindM f g)"
proof (rule doesI)
  fix s
  obtain r t where f: "f s = (r, t)" by fastforce
  from doesD [OF assms(1) f] obtain x where x: "get t = get s @ x" "R1 (isl r) x" .
  show "\<exists>new. get (snd (bindM f g s)) = get s @ new \<and> R (isl (fst (bindM f g s))) new"
  proof (cases r)
    case (Inl e)
    with f x assms(3) show ?thesis by (auto simp: bindM_def)
  next
    case (Inr a)
    obtain r' u where g: "g a t = (r', u)" by fastforce
    from doesD [OF assms(2) g] obtain y where "get u = get t @ y" "R2 (isl r') y" .
    with f x Inr g assms(4) [of x "isl r'" y] show ?thesis by (auto simp: bindM_def)
  qed
qed

lemma does_finally:
  assumes "does get R1 f" and "does get R2 g" and "\<And>b c d x y. R1 b x \<Longrightarrow> R2 c y \<Longrightarrow> R d (x @ y)"
  shows "does get R (finallyM f g)"
proof (rule doesI)
  fix s
  obtain r t where f: "f s = (r, t)" by fastforce
  obtain r' u where g: "g t = (r', u)" by fastforce
  from doesD [OF assms(1) f] doesD [OF assms(2) g] obtain x y
    where "get t = get s @ x" "R1 (isl r) x" "get u = get t @ y" "R2 (isl r') y" by metis
  with assms(3) f g show "\<exists>new. get (snd (finallyM f g s)) = get s @ new \<and> R (isl (fst (finallyM f g s))) new"
    by (cases r') (auto simp: finallyM_def intro!: exI [of _ "x @ y"])
qed

lemma does_on_error:
  assumes "does get R1 f" and "does get R2 g" and "\<And>new. R1 False new \<Longrightarrow> R False new"
    and "\<And>c x y. R1 True x \<Longrightarrow> R2 c y \<Longrightarrow> R True (x @ y)"
  shows "does get R (on_errorM f g)"
proof (rule doesI)
  fix s
  obtain r t where f: "f s = (r, t)" by fastforce
  obtain r' u where g: "g t = (r', u)" by fastforce
  from doesD [OF assms(1) f] doesD [OF assms(2) g] obtain x y
    where "get t = get s @ x" "R1 (isl r) x" "get u = get t @ y" "R2 (isl r') y" by metis
  with assms(3,4) f g show "\<exists>new. get (snd (on_errorM f g s)) = get s @ new \<and> R (isl (fst (on_errorM f g s))) new"
    by (cases r; cases r') (auto simp: on_errorM_def intro!: exI [of _ "x @ y"])
qed

subsection \<open>Computations that only append events of one kind\<close>

named_theorems logs_intros \<open>what a computation appends to the trace, by its shape\<close>

definition logs :: "('s \<Rightarrow> 'e list) \<Rightarrow> ('e \<Rightarrow> bool) \<Rightarrow> ('s, 'a) db_op \<Rightarrow> bool" where
  "logs get P = does get (\<lambda>_. list_all P)"

lemma logsI: "(\<And>s. \<exists>new. get (snd (f s)) = get s @ new \<and> list_all P new) \<Longrightarrow> logs get P f"
  by (simp add: logs_def does_def)

lemma logsD:
  assumes "logs get P f" and "f s = (r, t)"
  obtains new where "get t = get s @ new" and "list_all P new"
  using assms unfolding logs_def by (auto elim: doesD)

lemma logs_nothing [logs_intros]: "logs get P (returnM a)" "logs get P (raiseM e)" "logs get P (liftE r)"
  by (rule logsI, simp)+

lemma logs_bind [logs_intros]: "logs get P f \<Longrightarrow> (\<And>a. logs get P (g a)) \<Longrightarrow> logs get P (bindM f g)"
  unfolding logs_def by (rule does_bind [of get "\<lambda>_. list_all P" f "\<lambda>_. list_all P" g]) auto

lemma logs_if [logs_intros]: "logs get P f \<Longrightarrow> logs get P g \<Longrightarrow> logs get P (if b then f else g)"
  by simp

lemma logs_prod [logs_intros]: "(\<And>x y. logs get P (f x y)) \<Longrightarrow> logs get P (case p of (x, y) \<Rightarrow> f x y)"
  by (simp split: prod.splits)

lemma logs_Let [logs_intros]: "logs get P (f x) \<Longrightarrow> logs get P (let y = x in f y)"
  by simp

definition fill_log :: "('w \<times> 'e list) \<times> DiscoveredDatabase \<Rightarrow> 'e list" where
  "fill_log s = snd (fst s)"

lemma does_asking:
  assumes "does snd R f"
  shows "does fill_log R (asking f)"
proof (rule doesI)
  fix s :: "('a \<times> 'b list) \<times> DiscoveredDatabase"
  obtain r t where "f (fst s) = (r, t)" by (metis surj_pair)
  moreover from doesD [OF assms this] obtain new where "snd t = snd (fst s) @ new" "R (isl r) new" .
  ultimately show "\<exists>new. fill_log (snd (asking f s)) = fill_log s @ new \<and> R (isl (fst (asking f s))) new"
    by (simp add: asking_def zoom_def fill_log_def)
qed

lemma logs_asking [logs_intros]: "logs snd P f \<Longrightarrow> logs fill_log P (asking f)"
  unfolding logs_def by (rule does_asking)

lemma logs_update_db [logs_intros]: "logs fill_log P (update_db f)"
  by (rule logsI) (simp add: update_db_def fill_log_def)

lemma logs_add_objects [logs_intros]: "logs fill_log P (add_objects f rs)"
proof (induction rs)
  case (Cons r rs)
  then show ?case by (auto simp del: returnM_apply intro!: logs_intros)
qed (simp only: add_objects.simps logs_nothing)

lemma logs_filled [logs_intros]:
  assumes "logs fill_log P fill"
  shows "logs snd P (filled fill db)"
proof (rule logsI)
  fix s
  obtain r t db' where "fill (s, db) = (r, t, db')" by (metis surj_pair)
  moreover from logsD [OF assms this] obtain new where "snd t = snd s @ new" "list_all P new" by (auto simp: fill_log_def)
  ultimately show "\<exists>new. snd (snd (filled fill db s)) = snd s @ new \<and> list_all P new" by (simp add: filled_def)
qed

lemma logs_privilege_check [logs_intros]:
  assumes "logs get P check"
  shows "logs get P (run_least_privilege_check check)"
proof (rule logsI)
  fix s
  obtain r t where "check s = (r, t)" by fastforce
  moreover from logsD [OF assms this] obtain new where "get t = get s @ new" "list_all P new" .
  ultimately show "\<exists>new. get (snd (run_least_privilege_check check s)) = get s @ new \<and> list_all P new"
    by (cases r) (auto simp: run_least_privilege_check_def)
qed

section \<open>Sessions\<close>

definition asks :: "(string \<Rightarrow> bool) \<Rightarrow> 'h \<Rightarrow> 'h access_event \<Rightarrow> bool" where
  "asks ok h e \<longleftrightarrow> (case e of Asked h' sql ps r \<Rightarrow> h' = h \<and> ok sql | _ \<Rightarrow> False)"

inductive sessions :: "(string \<Rightarrow> bool) \<Rightarrow> 'h access_event list \<Rightarrow> bool" for ok where
  no_session: "sessions ok []"
| session: "list_all (asks ok h) qs \<Longrightarrow> sessions ok rest \<Longrightarrow> sessions ok (Opened h # qs @ Closed h # rest)"

definition closes :: "(string \<Rightarrow> bool) \<Rightarrow> 'h \<Rightarrow> 'h access_event list \<Rightarrow> bool" where
  \<comment> \<open>the rest of a session, and sessions after it\<close>
  "closes ok h new \<longleftrightarrow> (\<exists>qs rest. new = qs @ Closed h # rest \<and> list_all (asks ok h) qs \<and> sessions ok rest)"

lemma sessions_append: "sessions ok xs \<Longrightarrow> sessions ok ys \<Longrightarrow> sessions ok (xs @ ys)"
  by (induction rule: sessions.induct) (auto intro: sessions.intros)

lemma closes_append: "closes ok h xs \<Longrightarrow> sessions ok ys \<Longrightarrow> closes ok h (xs @ ys)"
  unfolding closes_def by (force intro: sessions_append)

lemma asks_closes: "list_all (asks ok h) qs \<Longrightarrow> closes ok h ys \<Longrightarrow> closes ok h (qs @ ys)"
  unfolding closes_def by (metis append.assoc list_all_append)

lemma Opened_closes: "closes ok h new \<Longrightarrow> sessions ok (Opened h # new)"
  unfolding closes_def by (auto intro: session)

definition opens :: "('s \<Rightarrow> 'h access_event list) \<Rightarrow> ('s, 'h) db_op \<Rightarrow> bool" where
  "opens get f \<longleftrightarrow>
     (\<forall>s. get (snd (f s)) = get s @ (case fst (f s) of Inl e \<Rightarrow> [] | Inr h \<Rightarrow> [Opened h]))"

lemma opens_connect: "opens snd (da_connect (tracked a) c)"
  by (auto simp: opens_def tracked_def split: prod.splits sum.splits)

lemma opens_asking: "opens snd f \<Longrightarrow> opens fill_log (asking f)"
  by (auto simp: opens_def asking_def zoom_def fill_log_def split: prod.splits) (metis fst_conv snd_conv)

lemma does_open:
  assumes "opens get f" and "\<And>h. does get (\<lambda>_. closes ok h) (g h)"
  shows "does get (\<lambda>_. sessions ok) (bindM f g)"
proof (rule doesI)
  fix s
  obtain r t where f: "f s = (r, t)" by fastforce
  show "\<exists>new. get (snd (bindM f g s)) = get s @ new \<and> sessions ok new"
  proof (cases r)
    case (Inl e)
    with assms(1) f have "get t = get s" by (auto simp: opens_def dest: spec [of _ s])
    with f Inl show ?thesis by (auto simp: bindM_def intro: no_session)
  next
    case (Inr h)
    with assms(1) f have t: "get t = get s @ [Opened h]" by (auto simp: opens_def dest: spec [of _ s])
    obtain r' u where g: "g h t = (r', u)" by fastforce
    from doesD [OF assms(2) g] obtain new where "get u = get t @ new" "closes ok h new" .
    with f Inr g t show ?thesis by (auto simp: bindM_def intro!: exI [of _ "Opened h # new"] Opened_closes)
  qed
qed

lemma does_close: "does snd (\<lambda>_ new. new = [Closed h]) (da_close (tracked a) h)"
  by (rule doesI) (auto simp: tracked_def split: prod.splits)

lemma closes_single: "closes ok h [Closed h]"
  unfolding closes_def by (rule exI [of _ "[]"]) (auto intro: no_session)

lemma does_session:
  assumes "logs get (asks ok h) f" and "does get (\<lambda>_ new. new = [Closed h]) g"
  shows "does get (\<lambda>_. closes ok h) (finallyM f g)"
  by (rule does_finally [OF assms(1) [unfolded logs_def] assms(2)]) (simp add: asks_closes closes_single)

lemma does_sessions_nothing [simp]:
  "does get (\<lambda>_. sessions ok) (returnM x)" "does get (\<lambda>_. sessions ok) (liftE r)"
  by (simp_all add: does_def no_session)

lemma does_sessions_bind:
  assumes "does get (\<lambda>_. sessions ok) f" and "\<And>a. does get (\<lambda>_. sessions ok) (g a)"
  shows "does get (\<lambda>_. sessions ok) (bindM f g)"
  by (rule does_bind [OF assms]) (auto intro: sessions_append)

lemma does_closes_bind:
  assumes "does get (\<lambda>_. closes ok h) f" and "\<And>a. does get (\<lambda>_. sessions ok) (g a)"
  shows "does get (\<lambda>_. closes ok h) (bindM f g)"
  by (rule does_bind [OF assms]) (auto intro: closes_append)

lemma does_guarded_bind:
  assumes "does get (\<lambda>b. if b then closes ok h else list_all (asks ok h)) f" and "\<And>a. does get (\<lambda>_. closes ok h) (g a)"
  shows "does get (\<lambda>_. closes ok h) (bindM f g)"
  by (rule does_bind [OF assms]) (auto intro: asks_closes)

lemma does_prod: "(\<And>x y. does get R (f x y)) \<Longrightarrow> does get R (case p of (x, y) \<Rightarrow> f x y)"
  by (simp split: prod.splits)

lemma does_filled:
  assumes "does fill_log (\<lambda>_. Q) fill"
  shows "does snd (\<lambda>_. Q) (filled fill db)"
proof (rule doesI)
  fix s
  obtain r t db' where "fill (s, db) = (r, t, db')" by (metis surj_pair)
  moreover from doesD [OF assms this] obtain new where "snd t = snd s @ new" "Q new" by (auto simp: fill_log_def)
  ultimately show "\<exists>new. snd (snd (filled fill db s)) = snd s @ new \<and> Q new" by (simp add: filled_def)
qed

section \<open>What discovery asks\<close>

definition discovery_texts :: "adapter_class \<Rightarrow> string list" where
  "discovery_texts cls =
     (case cls of
        PostgreSQLAdapter \<Rightarrow>
          [pg_LEAST_PRIVILEGE_SQL, pg_discover_version_sql, pg_discover_settings_sql, pg_discover_databases_sql,
           pg_discover_size_sql, pg_discover_tables_sql, pg_discover_indexes_sql, pg_discover_routines_sql,
           pg_discover_extensions_sql]
      | MySQLAdapter \<Rightarrow>
          [my_LEAST_PRIVILEGE_SQL, my_discover_version_sql, my_discover_plugins_sql, my_discover_variables_sql,
           my_discover_schemata_sql, my_discover_size_sql, my_discover_tables_sql, my_discover_indexes_sql,
           my_discover_routines_sql]
      | SQLServerAdapter \<Rightarrow>
          [ss_LEAST_PRIVILEGE_SQL, ss_discover_properties_sql, ss_discover_configuration_sql, ss_discover_databases_sql])"

definition object_texts :: "string \<Rightarrow> string list" where
  "object_texts q =
     [ss_discover_tables_sql q, ss_discover_views_sql q, ss_discover_indexes_sql q, ss_discover_routines_sql q]"

definition metadata_text :: "adapter_class \<Rightarrow> string \<Rightarrow> bool" where
  \<comment> \<open>a fixed text of the engine or, on SQL Server, one about the catalog views of a database\<close>
  "metadata_text cls sql \<longleftrightarrow>
     sql \<in> set (discovery_texts cls) \<or>
     cls = SQLServerAdapter \<and> (\<exists>db. sql \<in> set (object_texts (discovery_quote db)))"

lemma metadata_fixed: "sql \<in> set (discovery_texts cls) \<Longrightarrow> metadata_text cls sql"
  by (simp add: metadata_text_def)

lemma metadata_object: "sql \<in> set (object_texts (discovery_quote db)) \<Longrightarrow> metadata_text SQLServerAdapter sql"
  by (auto simp: metadata_text_def)

lemma logs_fetch:
  "metadata_text cls sql \<Longrightarrow> logs snd (asks (metadata_text cls) h) (da_fetch (tracked a) h sql ps)"
  by (rule logsI) (auto simp: tracked_def asks_def split: prod.splits)

lemma pg_asks:
  "logs snd (asks (metadata_text PostgreSQLAdapter) h) (pg_bootstrap (tracked a) c h)"
  "logs fill_log (asks (metadata_text PostgreSQLAdapter) h) (pg_read_database (tracked a) m h)"
  unfolding pg_bootstrap_def pg_check_least_privilege_def scan_privileges_def pg_read_database_def
  by (intro logs_intros logs_fetch metadata_fixed; simp add: discovery_texts_def)+

lemma my_asks:
  "logs snd (asks (metadata_text MySQLAdapter) h) (my_bootstrap (tracked a) h)"
  "logs snd (asks (metadata_text MySQLAdapter) h) (my_check_least_privilege (tracked a) c h)"
  "logs fill_log (asks (metadata_text MySQLAdapter) h) (my_fill_database (tracked a) m h schema)"
  unfolding my_bootstrap_def my_check_least_privilege_def scan_privileges_def my_fill_database_def
  by (intro logs_intros logs_fetch metadata_fixed; simp add: discovery_texts_def)+

lemma my_databases_ask: "logs snd (asks (metadata_text MySQLAdapter) h) (my_databases (tracked a) m h rows)"
  by (induction rows) (simp_all only: my_databases.simps, (intro logs_intros my_asks | assumption)+)

lemma ss_objects_ask: "logs snd (asks (metadata_text SQLServerAdapter) h) (ss_objects (tracked a) m h db)"
  unfolding ss_objects_def
  by (intro logs_intros logs_fetch metadata_object [of _ db]; simp add: object_texts_def)

lemma ss_databases_ask: "logs snd (asks (metadata_text SQLServerAdapter) h) (ss_databases (tracked a) m h rows)"
  by (induction rows) (simp_all only: ss_databases.simps ss_fill_database_def, (intro logs_intros ss_objects_ask | assumption)+)

lemma ss_asks: "logs snd (asks (metadata_text SQLServerAdapter) h) (ss_crawl (tracked a) c m sid h)"
  unfolding ss_crawl_def ss_check_least_privilege_def scan_privileges_def
  by (intro logs_intros ss_databases_ask logs_fetch metadata_fixed; simp add: discovery_texts_def)

lemma pg_fill_sessions: "does fill_log (\<lambda>_. sessions (metadata_text PostgreSQLAdapter)) (pg_fill_database (tracked a) c m db)"
  unfolding pg_fill_database_def
  by (intro does_open opens_asking opens_connect does_session pg_asks does_asking does_close)

lemma pg_databases_sessions:
  "does snd (\<lambda>_. sessions (metadata_text PostgreSQLAdapter)) (pg_databases (tracked a) c m rows)"
proof (induction rows)
  case Nil
  show ?case unfolding pg_databases.simps by (rule does_sessions_nothing)
next
  case (Cons row rows)
  show ?case unfolding pg_databases.simps
    by (intro does_sessions_bind does_sessions_nothing does_filled pg_fill_sessions does_prod Cons)
qed

lemma discover_sessions:
  "does snd (\<lambda>_. sessions (metadata_text cls)) (discover cls (tracked a) c m sid)"
proof (cases cls)
  case SQLServerAdapter
  then show ?thesis unfolding discover_def ss_discover_def adapter_class.case
    by (auto intro!: does_open opens_connect does_session ss_asks does_close)
next
  case PostgreSQLAdapter
  have "does snd (\<lambda>_. sessions (metadata_text PostgreSQLAdapter)) (pg_discover (tracked a) c m sid)"
    unfolding pg_discover_def
    by (intro does_open opens_connect does_closes_bind does_session pg_asks does_close)
      (intro does_prod does_sessions_bind pg_databases_sessions does_sessions_nothing)
  with PostgreSQLAdapter show ?thesis by (simp add: discover_def)
next
  case MySQLAdapter
  let ?ok = "metadata_text MySQLAdapter"
  have boot: "does snd (\<lambda>b. if b then closes ?ok h else list_all (asks ?ok h)) (on_errorM (my_bootstrap (tracked a) h) (da_close (tracked a) h))" for h
    by (rule does_on_error [OF my_asks(1) [unfolded logs_def] does_close]) (auto intro: asks_closes closes_single)
  have rest: "does snd (\<lambda>_. closes ?ok h)
      (finallyM (bindM (run_least_privilege_check (my_check_least_privilege (tracked a) c h)) (\<lambda>lp.
        bindM (my_databases (tracked a) m h rows) (\<lambda>(dbs, ws). returnM (lp, dbs, ws)))) (da_close (tracked a) h))" for h rows
    by (intro does_session does_close logs_intros my_asks my_databases_ask)
  have "does snd (\<lambda>_. sessions ?ok) (my_discover (tracked a) c m sid)"
    unfolding my_discover_def
    by (rule does_open [OF opens_connect], rule does_guarded_bind [OF boot],
        intro does_prod does_closes_bind rest does_sessions_nothing)
  with MySQLAdapter show ?thesis by (simp add: discover_def)
qed

section \<open>The finding on privileges\<close>

definition privilege_text :: "adapter_class \<Rightarrow> string" where
  "privilege_text cls =
     (case cls of PostgreSQLAdapter \<Rightarrow> pg_LEAST_PRIVILEGE_SQL | MySQLAdapter \<Rightarrow> my_LEAST_PRIVILEGE_SQL
      | SQLServerAdapter \<Rightarrow> ss_LEAST_PRIVILEGE_SQL)"

definition tells :: "exec_exn + jrow list \<Rightarrow> LeastPrivilegeFinding \<Rightarrow> bool" where
  \<comment> \<open>what a finding says of the answer to the scan\<close>
  "tells answer f =
     (case answer of
        Inl e \<Rightarrow> \<not> lp_checked f \<and> warning_text f = None
      | Inr rows \<Rightarrow>
          lp_checked f \<and> lp_has_user_table_select f = (rows \<noteq> []) \<and> lp_granted_object_count f = int (length rows) \<and>
          lp_count_is_lower_bound f = (200 \<le> length rows) \<and> length (lp_sample_objects f) \<le> 5)"

definition scanned :: "adapter_class \<Rightarrow> LeastPrivilegeFinding \<Rightarrow> 'h access_event list \<Rightarrow> bool" where
  "scanned cls f log \<longleftrightarrow>
     (\<exists>h answer. Asked h (privilege_text cls) [(''limit'', JInt 200)] answer \<in> set log \<and> tells answer f)"

lemma scanned_more: "scanned cls f log \<Longrightarrow> set log \<subseteq> set log' \<Longrightarrow> scanned cls f log'"
  by (auto simp: scanned_def)

lemma scan_tells:
  assumes "run_least_privilege_check (scan_privileges (tracked a) h (privilege_text cls) login scope) (w, log) = (Inr f, w', log')"
  shows "scanned cls f log'"
proof -
  obtain answer w1 where fetch: "da_fetch a h (privilege_text cls) [(''limit'', JInt 200)] w = (answer, w1)" by fastforce
  then have log: "log' = log @ [Asked h (privilege_text cls) [(''limit'', JInt 200)] answer]"
    and f: "f = (case answer of Inl e \<Rightarrow> unchecked_finding | Inr rows \<Rightarrow> build_least_privilege_finding rows login scope)"
    using assms by (auto simp: run_least_privilege_check_def scan_privileges_def bindM_def tracked_def
        LEAST_PRIVILEGE_SCAN_LIMIT_def split: prod.splits sum.splits)
  have "tells answer f"
    by (cases answer) (simp_all add: f tells_def build_least_privilege_finding_def unchecked_finding_def
        LEAST_PRIVILEGE_SCAN_LIMIT_def SAMPLE_OBJECT_COUNT_def warning_text_def)
  with log show ?thesis by (auto simp: scanned_def)
qed

lemma log_grows:
  assumes "does snd R f" and "f (w, log) = (r, w', log')"
  shows "set log \<subseteq> set log'"
  using doesD [OF assms] by force

lemma pg_check_tells:
  assumes "run_least_privilege_check (pg_check_least_privilege (tracked a) c h) (w, log) = (Inr f, w', log')"
  shows "scanned PostgreSQLAdapter f log'"
  using assms scan_tells [of a h PostgreSQLAdapter] by (simp add: pg_check_least_privilege_def privilege_text_def)

lemma my_check_tells:
  assumes "run_least_privilege_check (my_check_least_privilege (tracked a) c h) (w, log) = (Inr f, w', log')"
  shows "scanned MySQLAdapter f log'"
  using assms scan_tells [of a h MySQLAdapter] by (simp add: my_check_least_privilege_def privilege_text_def)

lemma ss_check_tells:
  assumes "run_least_privilege_check (ss_check_least_privilege (tracked a) c h) (w, log) = (Inr f, w', log')"
  shows "scanned SQLServerAdapter f log'"
  using assms scan_tells [of a h SQLServerAdapter] by (simp add: ss_check_least_privilege_def privilege_text_def)

lemma finallyM_Inr: "finallyM f g s = (Inr a, t) \<longleftrightarrow> (\<exists>u b. f s = (Inr a, u) \<and> g u = (Inr b, t))"
  by (auto simp: finallyM_def split: prod.splits sum.splits)

lemma mk_catalog_privileges: "mk_catalog a sid v e props dbs ws lp = Inr cat \<Longrightarrow> sc_least_privilege cat = Some lp \<and> sc_server_id cat = sid"
  by (auto simp: mk_catalog_def)

lemma pg_discover_privileges:
  assumes "pg_discover (tracked a) c m sid (w, log) = (Inr cat, w', log')"
  shows "sc_server_id cat = sid \<and> (\<exists>f. sc_least_privilege cat = Some f \<and> scanned PostgreSQLAdapter f log')"
proof -
  from assms obtain boot s1 v p rows lp s2 dbs ws s3 where
      boot: "finallyM (pg_bootstrap (tracked a) c boot) (da_close (tracked a) boot) s1 = (Inr (v, p, rows, lp), s2)"
    and dbs: "pg_databases (tracked a) c m rows s2 = (Inr (dbs, ws), s3)"
    and cat: "mk_catalog (tracked a) sid v (JStr ''PostgreSQL'') p dbs ws lp = Inr cat" "s3 = (w', log')"
    by (auto simp: pg_discover_def bindM_eq_Inr_iff)
  from boot obtain u where u: "pg_bootstrap (tracked a) c boot s1 = (Inr (v, p, rows, lp), u)"
    and close: "\<exists>b. da_close (tracked a) boot u = (Inr b, s2)" by (auto simp: finallyM_Inr)
  from u obtain s0 where "run_least_privilege_check (pg_check_least_privilege (tracked a) c boot) s0 = (Inr lp, u)"
    by (auto simp: pg_bootstrap_def bindM_eq_Inr_iff)
  then have "scanned PostgreSQLAdapter lp (snd u)" by (cases s0; cases u) (auto intro: pg_check_tells)
  moreover have "set (snd u) \<subseteq> set (snd s2)" using close log_grows [OF does_close] by (metis surjective_pairing)
  moreover have "set (snd s2) \<subseteq> set log'" using dbs cat(2) log_grows [OF pg_databases_sessions] by (metis surjective_pairing)
  ultimately show ?thesis using mk_catalog_privileges [OF cat(1)] by (auto intro: scanned_more)
qed

lemma my_discover_privileges:
  assumes "my_discover (tracked a) c m sid (w, log) = (Inr cat, w', log')"
  shows "sc_server_id cat = sid \<and> (\<exists>f. sc_least_privilege cat = Some f \<and> scanned MySQLAdapter f log')"
proof -
  from assms obtain h s1 ver p rows s2 lp dbs ws s3 where
      crawl: "finallyM
        (bindM (run_least_privilege_check (my_check_least_privilege (tracked a) c h)) (\<lambda>least_privilege.
         bindM (my_databases (tracked a) m h rows) (\<lambda>(databases, warnings).
         returnM (least_privilege, databases, warnings)))) (da_close (tracked a) h) s1 = (Inr (lp, dbs, ws), s2)"
    and cat: "mk_catalog (tracked a) sid (row_get_or ver ''version'' []) (row_get_or ver ''edition'' ''MySQL'') p dbs ws lp = Inr cat"
      "s2 = (w', log')"
    unfolding my_discover_def by (auto simp: bindM_eq_Inr_iff)
  from crawl obtain u where u: "bindM (run_least_privilege_check (my_check_least_privilege (tracked a) c h)) (\<lambda>least_privilege.
         bindM (my_databases (tracked a) m h rows) (\<lambda>(databases, warnings).
         returnM (least_privilege, databases, warnings))) s1 = (Inr (lp, dbs, ws), u)"
    and close: "\<exists>b. da_close (tracked a) h u = (Inr b, s2)" unfolding finallyM_Inr by blast
  from u obtain t where t: "run_least_privilege_check (my_check_least_privilege (tracked a) c h) s1 = (Inr lp, t)"
    and dbs: "\<exists>x. my_databases (tracked a) m h rows t = (Inr x, u)"
    by (auto simp: bindM_eq_Inr_iff)
  from t have "scanned MySQLAdapter lp (snd t)" by (cases s1; cases t) (auto intro: my_check_tells)
  moreover have "set (snd t) \<subseteq> set (snd u)"
    using dbs log_grows [OF my_databases_ask [unfolded logs_def]] by (metis surjective_pairing)
  moreover have "set (snd u) \<subseteq> set log'" using close cat(2) log_grows [OF does_close] by (metis surjective_pairing)
  ultimately show ?thesis using mk_catalog_privileges [OF cat(1)] by (auto intro: scanned_more)
qed

lemma ss_discover_privileges:
  assumes "ss_discover (tracked a) c m sid (w, log) = (Inr cat, w', log')"
  shows "sc_server_id cat = sid \<and> (\<exists>f. sc_least_privilege cat = Some f \<and> scanned SQLServerAdapter f log')"
proof -
  from assms obtain h s1 u where u: "ss_crawl (tracked a) c m sid h s1 = (Inr cat, u)"
    and close: "\<exists>b. da_close (tracked a) h u = (Inr b, (w', log'))"
    by (auto simp: ss_discover_def bindM_eq_Inr_iff finallyM_Inr)
  from u obtain t lp x1 x2 x3 x4 x5 where "run_least_privilege_check (ss_check_least_privilege (tracked a) c h) t = (Inr lp, u)"
    and cat: "mk_catalog (tracked a) sid x1 x2 x3 x4 x5 lp = Inr cat"
    unfolding ss_crawl_def by (auto simp: bindM_eq_Inr_iff)
  then have "scanned SQLServerAdapter lp (snd u)" by (cases t; cases u) (auto intro: ss_check_tells)
  moreover have "set (snd u) \<subseteq> set log'" using close log_grows [OF does_close] by (metis surjective_pairing)
  ultimately show ?thesis using mk_catalog_privileges [OF cat] by (auto intro: scanned_more)
qed

lemma discover_privileges:
  assumes "discover cls (tracked a) c m sid (w, log) = (Inr cat, w', log')"
  shows "sc_server_id cat = sid \<and> (\<exists>f. sc_least_privilege cat = Some f \<and> scanned cls f log')"
proof (cases cls)
  case SQLServerAdapter
  with assms show ?thesis using ss_discover_privileges [of a c m sid w log cat w' log'] by (simp add: discover_def)
next
  case PostgreSQLAdapter
  with assms show ?thesis using pg_discover_privileges [of a c m sid w log cat w' log'] by (simp add: discover_def)
next
  case MySQLAdapter
  with assms show ?thesis using my_discover_privileges [of a c m sid w log cat w' log'] by (simp add: discover_def)
qed

section \<open>The databases of the catalog\<close>

lemma preserves_asking [preserve_intros]: "preserves (\<lambda>s. dd_name (snd s) = n) (asking f)"
  by (auto simp: preserves_def asking_def zoom_def split: prod.splits)

lemma preserves_update_db:
  "(\<And>db. dd_name (f db) = dd_name db) \<Longrightarrow> preserves (\<lambda>s. dd_name (snd s) = n) (update_db f)"
  by (simp add: preserves_def update_db_def)

lemma preserves_finally [preserve_intros]: "preserves P f \<Longrightarrow> preserves P g \<Longrightarrow> preserves P (finallyM f g)"
  unfolding preserves_def finallyM_def by (fastforce split: prod.splits sum.splits)

lemma preserves_add_objects [preserve_intros]: "preserves (\<lambda>s. dd_name (snd s) = n) (add_objects f rs)"
proof (induction rs)
  case Nil
  show ?case unfolding add_objects.simps by (rule preserves_returnM)
next
  case (Cons r rs)
  then show ?case unfolding add_objects.simps by (intro preserve_intros preserves_update_db) simp_all
qed

lemma fill_keeps_name:
  "preserves (\<lambda>s. dd_name (snd s) = n) (pg_fill_database a c m db)"
  "preserves (\<lambda>s. dd_name (snd s) = n) (my_fill_database a m h schema)"
  "preserves (\<lambda>s. dd_name (snd s) = n) (ss_fill_database a m h d)"
  unfolding pg_fill_database_def pg_read_database_def my_fill_database_def ss_fill_database_def Let_def
  by (intro preserve_intros preserves_update_db; simp)+

lemma filled_name:
  assumes "\<And>n. preserves (\<lambda>s. dd_name (snd s) = n) fill" and "filled fill db w = (Inr (db', err), w')"
  shows "dd_name db' = dd_name db"
  using assms(2) preservesD [OF assms(1) [of "dd_name db"], of "(w, db)"] by (auto simp: filled_def split: prod.splits)

definition names_in :: "string \<Rightarrow> jrow list \<Rightarrow> DiscoveredDatabase list \<Rightarrow> bool" where
  "names_in col rows dbs \<longleftrightarrow> map (\<lambda>db. Some (JStr (dd_name db))) dbs = map (\<lambda>r. map_of r col) rows"

lemma text_field_Inr: "text_field v = Inr s \<longleftrightarrow> v = JStr s"
  by (simp add: text_field_def split: json.splits)

lemma row_item_Inr: "row_item r k = Inr v \<longleftrightarrow> map_of r k = Some v"
  by (simp add: row_item_def split: option.splits)

lemma pg_databases_named:
  "pg_databases a c m rows w = (Inr (dbs, ws), w') \<Longrightarrow> names_in ''datname'' rows dbs"
proof (induction rows arbitrary: dbs ws w)
  case (Cons row rows)
  then obtain name db err ds ws' w1 w2 where "map_of row ''datname'' = Some (JStr name)"
    and fill: "filled (pg_fill_database a c m name) (new_database name ''online'' None
        [(''owner'', row_get row ''owner''), (''encoding'', row_get row ''encoding''), (''collation'', row_get row ''datcollate'')]) w1
        = (Inr (db, err), w2)"
    and "pg_databases a c m rows w2 = (Inr (ds, ws'), w')" and "dbs = db # ds"
    by (auto simp: bindM_eq_Inr_iff text_field_Inr row_item_Inr)
  with Cons.IH filled_name [OF fill_keeps_name(1) fill] show ?case by (auto simp: names_in_def new_database_def)
qed (simp add: names_in_def)

lemma my_databases_named:
  "my_databases a m h rows w = (Inr (dbs, ws), w') \<Longrightarrow>
   names_in ''name'' (filter (\<lambda>r. map_of r ''name'' \<notin> Some ` JStr ` set SYSTEM_SCHEMAS) rows) dbs"
proof (induction rows arbitrary: dbs ws w)
  case (Cons row rows)
  then obtain v where v: "map_of row ''name'' = Some v" by (auto simp: bindM_eq_Inr_iff row_item_Inr)
  show ?case
  proof (cases "v \<in> set (map JStr SYSTEM_SCHEMAS)")
    case True
    with v Cons show ?thesis by (auto simp: bindM_eq_Inr_iff row_item_Inr)
  next
    case False
    with v Cons.prems obtain name db err ds ws' w1 w2 where "v = JStr name"
      and fill: "filled (my_fill_database a m h name) (new_database name ''online'' None
          [(''charset'', row_get row ''charset''), (''collation'', row_get row ''collation'')]) w1 = (Inr (db, err), w2)"
      and "my_databases a m h rows w2 = (Inr (ds, ws'), w')" and "dbs = db # ds"
      by (auto simp: bindM_eq_Inr_iff text_field_Inr row_item_Inr)
    with v False Cons.IH filled_name [OF fill_keeps_name(2) fill] show ?thesis by (auto simp: names_in_def new_database_def)
  qed
qed (simp add: names_in_def)

lemma ss_databases_named:
  "ss_databases a m h rows w = (Inr (dbs, ws), w') \<Longrightarrow> names_in ''name'' rows dbs"
proof (induction rows arbitrary: dbs ws w)
  case (Cons row rows)
  then obtain db0 db err ds ws' w1 w2 where "ss_database (da_int_text a) row = Inr db0"
    and fill: "filled (ss_fill_database a m h db0) db0 w1 = (Inr (db, err), w2)"
    and "ss_databases a m h rows w2 = (Inr (ds, ws'), w')" and "dbs = db # ds"
    by (auto simp: bindM_eq_Inr_iff)
  moreover from this(1) have "map_of row ''name'' = Some (JStr (dd_name db0))"
    by (auto simp: ss_database_def text_field_Inr row_item_Inr new_database_def)
  ultimately show ?case using Cons.IH filled_name [OF fill_keeps_name(3) fill] by (auto simp: names_in_def)
qed (simp add: names_in_def)

section \<open>Guarantees\<close>

text \<open>
  C32. Discovery only reads metadata and leaves nothing open: whatever the server answers, what it
  does is a sequence of sessions, each opening one connection, asking only for texts of a fixed
  list (on SQL Server also four texts about the catalog views of a quoted database name) and
  closing it before the next is opened; and it always answers with a catalog of the server it was
  asked about, a failure with one that is empty but for a warning.
\<close>

theorem discovery_sessions:
  assumes "run_discovery (\<lambda>cls. tracked (access cls)) platform c m sid (w, []) = (r, w', log)"
  shows "case discoverer_for platform of
     Inl e \<Rightarrow> r = Inl e \<and> log = []
   | Inr cls \<Rightarrow> sessions (metadata_text cls) log \<and>
       (\<exists>cat. r = Inr cat \<and> sc_server_id cat = sid \<and>
          (sc_least_privilege cat = None \<longrightarrow>
             cat = empty_catalog sid [''Could not connect to the server. See server-side logs for detail.'']))"
proof (cases "discoverer_for platform")
  case (Inr cls)
  obtain q s where run: "discover cls (tracked (access cls)) c m sid (w, []) = (q, s)" by (metis surj_pair)
  with assms Inr have s: "s = (w', log)" by (auto simp: run_discovery_def split: sum.splits)
  from doesD [OF discover_sessions run] s have "sessions (metadata_text cls) log" by auto
  with assms Inr run s show ?thesis
    using discover_privileges [of cls "access cls" c m sid w "[]"]
    by (cases q) (auto simp: run_discovery_def empty_catalog_def)
qed (use assms in \<open>simp add: run_discovery_def\<close>)

definition unreachable :: "(unit, unit) db_access" where
  \<comment> \<open>a server that takes connections and refuses every statement\<close>
  "unreachable =
     \<lparr>da_connect = (\<lambda>_. returnM ()), da_fetch = (\<lambda>_ _ _. raiseM TimeoutError), da_close = (\<lambda>_. returnM ()),
      da_int_text = (\<lambda>_. None), da_now = 0\<rparr>"

definition some_credentials :: DatabaseCredentials where
  "some_credentials =
     \<lparr>dc_host = ''db1'', dc_port = 5432, dc_username = ''numi'', dc_password = ''p'', dc_database = ''postgres'', dc_options = []\<rparr>"

theorem discovery_sessions_witness:
  "\<exists>log. run_discovery (\<lambda>_. tracked unreachable) MARIADB some_credentials 10 ''db1'' ((), []) =
       (Inr (empty_catalog ''db1'' [''Could not connect to the server. See server-side logs for detail.'']), (), log) \<and>
     sessions (metadata_text MySQLAdapter) log"
proof -
  let ?log = "[Opened (), Asked () my_discover_version_sql [] (Inl TimeoutError), Closed ()]"
  have run: "run_discovery (\<lambda>_. tracked unreachable) MARIADB some_credentials 10 ''db1'' ((), []) =
      (Inr (empty_catalog ''db1'' [''Could not connect to the server. See server-side logs for detail.'']), (), ?log)"
    by (simp add: run_discovery_def discoverer_for_def discover_def my_discover_def my_bootstrap_def on_errorM_def bindM_def
        tracked_def unreachable_def)
  from discovery_sessions [OF run] have "sessions (metadata_text MySQLAdapter) ?log" by (simp add: discoverer_for_def)
  with run show ?thesis by blast
qed

text \<open>
  C33. The finding on the login's privileges is what this run's scan answered: when the scan was
  answered it says so and counts the rows, with the count marked as a lower bound exactly when the
  scan's limit was reached; when the scan failed it says that nothing was checked, so that a clean
  finding is never reported for a check that did not happen.
\<close>

theorem privileges_as_scanned:
  assumes "run_discovery (\<lambda>cls. tracked (access cls)) platform c m sid (w, []) = (Inr cat, w', log)"
    and "sc_least_privilege cat = Some f"
  shows "\<exists>cls h answer. discoverer_for platform = Inr cls \<and>
     Asked h (privilege_text cls) [(''limit'', JInt 200)] answer \<in> set log \<and> tells answer f"
proof (cases "discoverer_for platform")
  case (Inr cls)
  with assms have "discover cls (tracked (access cls)) c m sid (w, []) = (Inr cat, w', log)"
    by (auto simp: run_discovery_def empty_catalog_def split: prod.splits sum.splits)
  from discover_privileges [OF this] assms(2) Inr show ?thesis by (auto simp: scanned_def)
qed (use assms in \<open>simp add: run_discovery_def\<close>)

definition small_server :: "(unit, unit) db_access" where
  \<comment> \<open>a MySQL server without databases whose login can read one table\<close>
  "small_server =
     \<lparr>da_connect = (\<lambda>_. returnM ()),
      da_fetch = (\<lambda>_ sql ps. returnM
        (if ps \<noteq> [] then [[(''schema_name'', JStr ''app''), (''object_name'', JStr ''users'')]]
         else if sql = my_discover_version_sql then [[(''version'', JStr ''8.0'')]] else [])),
      da_close = (\<lambda>_. returnM ()), da_int_text = (\<lambda>_. None), da_now = 0\<rparr>"

lemma mysql_texts_distinct:
  "my_discover_plugins_sql \<noteq> my_discover_version_sql" "my_discover_variables_sql \<noteq> my_discover_version_sql"
  "my_discover_schemata_sql \<noteq> my_discover_version_sql"
  by (simp_all add: my_discover_plugins_sql_def my_discover_variables_sql_def my_discover_schemata_sql_def my_discover_version_sql_def)

theorem privileges_as_scanned_witness:
  "\<exists>cat w' log f. run_discovery (\<lambda>_. tracked small_server) MYSQL some_credentials 10 ''db1'' ((), []) = (Inr cat, w', log) \<and>
     sc_least_privilege cat = Some f \<and> lp_checked f \<and> lp_granted_object_count f = 1 \<and>
     (\<exists>cls h answer. discoverer_for MYSQL = Inr cls \<and>
        Asked h (privilege_text cls) [(''limit'', JInt 200)] answer \<in> set log \<and> tells answer f)"
proof -
  let ?f = "build_least_privilege_finding [[(''schema_name'', JStr ''app''), (''object_name'', JStr ''users'')]] ''numi''
    ''checked instance-wide (MySQL privilege views span every schema)''"
  obtain cat w' log where run: "run_discovery (\<lambda>_. tracked small_server) MYSQL some_credentials 10 ''db1'' ((), []) = (Inr cat, w', log)"
      "sc_least_privilege cat = Some ?f"
    by (simp add: run_discovery_def discoverer_for_def discover_def my_discover_def my_bootstrap_def on_errorM_def finallyM_def bindM_def
        tracked_def small_server_def first_row_def named_values_def run_least_privilege_check_def my_check_least_privilege_def
        scan_privileges_def mk_catalog_def row_get_or_def text_field_def some_credentials_def mysql_texts_distinct)
  have "lp_checked ?f \<and> lp_granted_object_count ?f = 1" by (simp add: build_least_privilege_finding_def)
  with privileges_as_scanned [OF run] run show ?thesis by blast
qed

text \<open>
  The catalog lists the databases the server listed, in their order and under their names, also
  those that could not be read; on MySQL without the four system schemas.
\<close>

theorem databases_listed:
  "(pg_databases a c m rows w = (Inr (dbs, ws), w') \<longrightarrow> names_in ''datname'' rows dbs) \<and>
   (ss_databases a m h rows w = (Inr (dbs, ws), w') \<longrightarrow> names_in ''name'' rows dbs) \<and>
   (my_databases a m h rows w = (Inr (dbs, ws), w') \<longrightarrow>
      names_in ''name'' (filter (\<lambda>r. map_of r ''name'' \<notin> Some ` JStr ` set SYSTEM_SCHEMAS) rows) dbs)"
  by (intro conjI impI) (rule pg_databases_named ss_databases_named my_databases_named, assumption)+

end
