(* ===== verification/Execution_Api.thy ===== *)
theory Execution_Api
  imports Discovery_Guarantees Service_Auth Discovery
begin

text \<open>
  The boundary between Gateway and Execution Service: the routes of the Execution Service with
  their token (execution/api/app.py) and the Gateway's clients of it
  (gateway/infrastructure/execution_client.py). The network is a parameter that loses a request,
  loses a response or delivers both; the models that cross it arrive as they were sent.
\<close>

section \<open>The routes (api/app.py)\<close>

datatype 'a http_answer = Answered 'a | Failed nat
  \<comment> \<open>the body of a 200, or another status\<close>

record ('w, 'c, 'h, 'k) execution_app =
  xa_serializer :: "'k serializer"
  xa_secret :: string
  xa_issuer :: string
  xa_audience :: string
  xa_env :: "'c exec_env"
  xa_adapter_factory :: bool  \<comment> \<open>an adapter factory was given: test mode\<close>
  xa_credentials :: "string \<Rightarrow> ('w, exn, DatabaseCredentials) comp"
  xa_access :: "adapter_class \<Rightarrow> ('w, 'h) db_access"

record 'w execution_state =
  es_connections :: connections
  es_world :: 'w

definition require_gateway_service_token :: "('w, 'c, 'h, 'k) execution_app \<Rightarrow> 'k option \<Rightarrow> int \<Rightarrow> unit result" where
  "require_gateway_service_token app x_service_token now =
     (case x_service_token of
        None \<Rightarrow> Inl (HTTPException 401 ''Missing service token.'')
      | Some k \<Rightarrow>
          (case verify_token (xa_serializer app) (xa_secret app) (xa_issuer app) DEFAULT_MAX_AGE k (xa_audience app) now of
             Inl e \<Rightarrow> Inl (HTTPException 401 ''Invalid service token.'')
           | Inr _ \<Rightarrow> Inr ()))"

definition guarded ::
    "('w, 'c, 'h, 'k) execution_app \<Rightarrow> 'k option \<Rightarrow> int \<Rightarrow> ('w execution_state \<Rightarrow> 'a http_answer \<times> 'w execution_state)
       \<Rightarrow> 'w execution_state \<Rightarrow> 'a http_answer \<times> 'w execution_state" where
  \<comment> \<open>\<open>dependencies=[Depends(require_gateway_service_token)]\<close>\<close>
  "guarded app token now route s =
     (case require_gateway_service_token app token now of
        Inl (HTTPException status _) \<Rightarrow> (Failed (nat status), s)
      | Inl _ \<Rightarrow> (Failed 500, s)
      | Inr _ \<Rightarrow> route s)"

definition execute_route ::
    "('w, 'c, 'h, 'k) execution_app \<Rightarrow> 'k option \<Rightarrow> int \<Rightarrow> ExecutionRequest \<Rightarrow> 'w execution_state
       \<Rightarrow> ExecutionResult http_answer \<times> 'w execution_state" where
  "execute_route app token now request =
     guarded app token now (\<lambda>s.
       case execute (xa_env app) request (es_connections s) of
         (Inl e, c) \<Rightarrow> (Failed 500, s\<lparr>es_connections := c\<rparr>)
       | (Inr r, c) \<Rightarrow> (Answered r, s\<lparr>es_connections := c\<rparr>))"

definition crawl ::
    "('w, 'c, 'h, 'k) execution_app \<Rightarrow> DiscoveryRequest \<Rightarrow> 'w execution_state \<Rightarrow> ServerCatalog http_answer \<times> 'w execution_state" where
  \<comment> \<open>credentials, then the crawl\<close>
  "crawl app request s =
     (case xa_credentials app (dq_server_id request) (es_world s) of
        (Inl e, w) \<Rightarrow> (Failed 500, s\<lparr>es_world := w\<rparr>)
      | (Inr creds, w) \<Rightarrow>
          (case run_discovery (xa_access app) (dq_platform request) creds (int (dq_max_objects_per_database request))
                  (dq_server_id request) w of
             (Inl e, w') \<Rightarrow> (Failed 500, s\<lparr>es_world := w'\<rparr>)
           | (Inr catalog, w') \<Rightarrow> (Answered catalog, s\<lparr>es_world := w'\<rparr>)))"

definition discover_route ::
    "('w, 'c, 'h, 'k) execution_app \<Rightarrow> 'k option \<Rightarrow> int \<Rightarrow> DiscoveryRequest \<Rightarrow> 'w execution_state
       \<Rightarrow> ServerCatalog http_answer \<times> 'w execution_state" where
  "discover_route app token now request =
     guarded app token now (\<lambda>s.
       if xa_adapter_factory app then (Answered (empty_catalog (dq_server_id request) []), s) else crawl app request s)"

section \<open>The clients (execution_client.py)\<close>

datatype network = RequestLost discovery_exn | ResponseLost discovery_exn | Delivered

record 'k execution_client =
  xc_serializer :: "'k serializer"
  xc_secret :: string
  xc_issuer :: string
  xc_audience :: string

definition client_token :: "'k execution_client \<Rightarrow> int \<Rightarrow> 'k" where
  "client_token xc now = issue (xc_serializer xc) (xc_secret xc) (xc_issuer xc) ''gateway'' (xc_audience xc) now"

definition post ::
    "network \<Rightarrow> ('s \<Rightarrow> 'a http_answer \<times> 's) \<Rightarrow> 's \<Rightarrow> (discovery_exn + 'a) \<times> 's" where
  \<comment> \<open>\<open>client.post\<close> and \<open>raise_for_status\<close>\<close>
  "post net route s =
     (case net of
        RequestLost e \<Rightarrow> (Inl e, s)
      | ResponseLost e \<Rightarrow> (Inl e, snd (route s))
      | Delivered \<Rightarrow> (case route s of (Answered a, s') \<Rightarrow> (Inr a, s') | (Failed n, s') \<Rightarrow> (Inl (HTTPStatusError n), s')))"

definition http_execute ::
    "'k execution_client \<Rightarrow> ('w, 'c, 'h, 'k) execution_app \<Rightarrow> network \<Rightarrow> int \<Rightarrow> int \<Rightarrow> ExecutionRequest \<Rightarrow> 'w execution_state
       \<Rightarrow> (discovery_exn + ExecutionResult) \<times> 'w execution_state" where
  "http_execute xc app net now later request = post net (execute_route app (Some (client_token xc now)) later request)"

definition http_discover ::
    "'k execution_client \<Rightarrow> ('w, 'c, 'h, 'k) execution_app \<Rightarrow> network \<Rightarrow> int \<Rightarrow> int \<Rightarrow> DiscoveryRequest \<Rightarrow> 'w execution_state
       \<Rightarrow> (discovery_exn + ServerCatalog) \<times> 'w execution_state" where
  "http_discover xc app net now later request = post net (discover_route app (Some (client_token xc now)) later request)"

definition in_process_discover ::
    "('w, 'c, 'h, 'k) execution_app \<Rightarrow> DiscoveryRequest \<Rightarrow> 'w execution_state \<Rightarrow> ServerCatalog http_answer \<times> 'w execution_state" where
  \<comment> \<open>the same two calls without the route\<close>
  "in_process_discover app request = crawl app request"

section \<open>What the boundary guarantees\<close>

lemma guarded_open:
  assumes "guarded app token now route s \<noteq> (Failed 401, s)"
  shows "\<exists>k i. token = Some k \<and>
    verify_token (xa_serializer app) (xa_secret app) (xa_issuer app) DEFAULT_MAX_AGE k (xa_audience app) now = Inr i"
  using assms by (auto simp: guarded_def require_gateway_service_token_def split: option.splits sum.splits)

lemma mk_catalog_id: "mk_catalog a sid v e p ds ws lp = Inr cat \<Longrightarrow> sc_server_id cat = sid"
  by (auto simp: mk_catalog_def)

lemma finallyM_result: "finallyM f g s = (Inr a, t) \<Longrightarrow> \<exists>u. f s = (Inr a, u)"
  by (auto simp: finallyM_def split: prod.splits sum.splits)

lemma discover_id: "discover cls a c m sid w = (Inr cat, w') \<Longrightarrow> sc_server_id cat = sid"
  by (cases cls)
     (auto simp: discover_def pg_discover_def my_discover_def ss_discover_def ss_crawl_def bindM_eq_Inr_iff
       dest!: finallyM_result mk_catalog_id)

lemma run_discovery_id: "run_discovery access platform c m sid w = (Inr cat, w') \<Longrightarrow> sc_server_id cat = sid"
  by (auto simp: run_discovery_def empty_catalog_def dest: discover_id split: sum.splits prod.splits)

lemma discover_route_id: "discover_route app token now q s = (Answered c, s') \<Longrightarrow> sc_server_id c = dq_server_id q"
  by (auto simp: discover_route_def guarded_def crawl_def empty_catalog_def dest: run_discovery_id
      split: sum.splits if_splits prod.splits exn.splits)

text \<open>
  C34. The Execution Service acts only for the Gateway: a request to run an operation or to crawl a
  server that carries no token, or one that was not issued for this service with the shared secret
  within the last minute, is answered with status 401 and changes nothing.
\<close>

theorem execution_needs_token:
  assumes "signs (xa_serializer app)"
    and "execute_route app token now request s \<noteq> (Failed 401, s) \<or> discover_route app token now q s \<noteq> (Failed 401, s)"
  shows "\<exists>p t. token = Some (sz_dumps (xa_serializer app) (xa_secret app) (xa_audience app) p t) \<and> now \<le> t + 60 * 1000000 \<and>
    map_of p ''iss'' = Some (xa_issuer app) \<and> map_of p ''aud'' = Some (xa_audience app)"
proof -
  have "\<exists>k i. token = Some k \<and>
      verify_token (xa_serializer app) (xa_secret app) (xa_issuer app) DEFAULT_MAX_AGE k (xa_audience app) now = Inr i"
    using assms(2)
  proof (elim disjE)
    assume "execute_route app token now request s \<noteq> (Failed 401, s)"
    then show ?thesis unfolding execute_route_def by (rule guarded_open)
  next
    assume "discover_route app token now q s \<noteq> (Failed 401, s)"
    then show ?thesis unfolding discover_route_def by (rule guarded_open)
  qed
  then obtain k i where k: "token = Some k"
    and v: "verify_token (xa_serializer app) (xa_secret app) (xa_issuer app) DEFAULT_MAX_AGE k (xa_audience app) now = Inr i" by blast
  from service_token_roundtrip [OF assms(1), THEN conjunct2, rule_format, OF v] k show ?thesis
    unfolding DEFAULT_MAX_AGE_def by blast
qed

definition test_app :: "(unit, unit, unit, string \<times> string \<times> payload \<times> int) execution_app" where
  \<comment> \<open>the application of the test suite: an adapter factory is given\<close>
  "test_app =
     \<lparr>xa_serializer = toy_serializer, xa_secret = ''k'', xa_issuer = ''numi'', xa_audience = ''numi-execution'',
      xa_env = \<lparr>xe_credentials = (\<lambda>_. Inr ()), xe_with_database = (\<lambda>c _. c), xe_connect = (\<lambda>_ _. Inr ()),
                xe_call = (\<lambda>_ _ _ _. Inr (Rows [])), xe_micros = (\<lambda>_ _ _ _. Some 0), xe_close = Inr (), xe_duration_ms = 0\<rparr>,
      xa_adapter_factory = True, xa_credentials = (\<lambda>_. raiseM (PyExn ''RuntimeError'')), xa_access = (\<lambda>_. unreachable)\<rparr>"

definition health_request :: ExecutionRequest where
  "health_request =
     \<lparr>ex_execution_id = ''e1'', ex_tool_id = ''database.get_health'', ex_tool_version = ''1.0'', ex_platform = MYSQL, ex_server_id = ''db1'',
      ex_database = ''app'', ex_schema_name = None, ex_object_name = None, ex_session_id = None, ex_query_id = None, ex_arguments = [],
      ex_max_execution_time = 30, ex_max_result_rows = 100\<rparr>"

lemma toy_signs: "signs toy_serializer"
  by (auto simp: signs_def toy_serializer_def split: if_splits)

theorem execution_needs_token_witness:
  "\<exists>p t. Some (issue toy_serializer ''k'' ''numi'' ''gateway'' ''numi-execution'' 0) =
      Some (sz_dumps (xa_serializer test_app) (xa_secret test_app) (xa_audience test_app) p t) \<and> 5 \<le> t + 60 * 1000000 \<and>
    map_of p ''iss'' = Some (xa_issuer test_app) \<and> map_of p ''aud'' = Some (xa_audience test_app)"
proof (rule execution_needs_token [where request = health_request and s = "\<lparr>es_connections = [], es_world = ()\<rparr>"
      and q = "\<lparr>dq_server_id = ''db1'', dq_platform = MYSQL, dq_max_objects_per_database = 10\<rparr>"])
  show "signs (xa_serializer test_app)" by (simp add: test_app_def toy_signs)
  show "execute_route test_app (Some (issue toy_serializer ''k'' ''numi'' ''gateway'' ''numi-execution'' 0)) 5 health_request
      \<lparr>es_connections = [], es_world = ()\<rparr> \<noteq> (Failed 401, \<lparr>es_connections = [], es_world = ()\<rparr>) \<or>
    discover_route test_app (Some (issue toy_serializer ''k'' ''numi'' ''gateway'' ''numi-execution'' 0)) 5
      \<lparr>dq_server_id = ''db1'', dq_platform = MYSQL, dq_max_objects_per_database = 10\<rparr> \<lparr>es_connections = [], es_world = ()\<rparr>
      \<noteq> (Failed 401, \<lparr>es_connections = [], es_world = ()\<rparr>)"
    by (simp add: discover_route_def guarded_def require_gateway_service_token_def test_app_def verify_token_def issue_def
        toy_serializer_def DEFAULT_MAX_AGE_def)
qed

text \<open>
  Across the network: what the Gateway's client returns is the catalog of the server it asked about,
  which is what the refresh of catalogs relies on; and between services that share secret, issuer and
  audience a request that arrives within a minute is never refused.
\<close>

theorem discovery_client_answers:
  "answers_asked (\<lambda>q. fst (http_discover xc app net now later q s))"
  unfolding answers_asked_def
  by (auto simp: http_discover_def post_def dest: discover_route_id split: network.splits http_answer.splits prod.splits)

theorem client_accepted:
  assumes "signs (xa_serializer app)"
    and "xc_serializer xc = xa_serializer app" "xc_secret xc = xa_secret app" "xc_issuer xc = xa_issuer app" "xc_audience xc = xa_audience app"
    and "now \<le> later" "later \<le> now + 60 * 1000000"
  shows "require_gateway_service_token app (Some (client_token xc now)) later = Inr ()"
proof -
  have "sz_loads (xa_serializer app) (xa_secret app) (xa_audience app) 60
      (sz_dumps (xa_serializer app) (xa_secret app) (xa_audience app)
        [(''iss'', xa_issuer app), (''sub'', ''gateway''), (''aud'', xa_audience app)] now) later =
    Inr [(''iss'', xa_issuer app), (''sub'', ''gateway''), (''aud'', xa_audience app)]"
    using assms unfolding signs_def by blast
  with assms show ?thesis
    by (simp add: require_gateway_service_token_def client_token_def issue_def verify_token_def DEFAULT_MAX_AGE_def)
qed

end
