(* ===== verification/Agent_Model.thy ===== *)
theory Agent_Model
  imports Agent_Text
begin

text \<open>
  What the Agent keeps and exchanges: the planner's structured actions (agent/planner/actions.py),
  the reply to a channel (agent/reply.py), the state of a conversation and of its investigation
  (agent/context_manager.py) and the records the Gateway persists for it
  (common/models/investigation.py, common/models/decision_event.py).
\<close>

section \<open>Planner actions (planner/actions.py)\<close>

record proposal =
  pr_tool_id :: string
  pr_arguments :: jdict
  pr_target :: jdict
  pr_reason :: string

datatype confidence = Confirmed | Likely | UnableToConfirm

record conclusion =
  cn_summary :: string
  cn_likely_root_cause :: "string option"
  cn_confidence :: confidence
  cn_recommendation :: "string option"
  cn_recommended_tool_call :: "proposal option"

datatype AgentAction =
    AskClarification string
  | ProposeToolCall proposal
  | RecordObservation string
  | Conclude conclusion

record CritiqueVerdict =
  cv_sound :: bool
  cv_issue :: "string option"

datatype meta_command =
    McHelp | McStatus | McServers | McPlaybooks | McCatalog | McDiscover | McApprove | McReject
  | McModels | McApprovers

record IntentExtraction =
  ie_is_dba_task :: bool
  ie_is_greeting_or_chitchat :: bool
  ie_database_hint :: "string option"
  ie_environment_hint :: "string option"
  ie_instance_hint :: "string option"
  ie_meta_command :: "meta_command option"
  ie_problem_summary :: string

section \<open>Replies (reply.py)\<close>

record ApprovalCard =
  ac_approval_id :: string
  ac_tool_id :: string
  ac_target_summary :: string
  ac_reason :: string
  ac_risk_level :: string
  ac_blast_radius :: string
  ac_expires_in_seconds :: int

record AgentReply =
  rp_text :: string
  rp_status :: string
  rp_approval_card :: "ApprovalCard option"
  rp_investigation_id :: "string option"
  rp_approval_still_pending :: bool

definition reply :: "string \<Rightarrow> string \<Rightarrow> string option \<Rightarrow> AgentReply" where
  "reply text status investigation_id =
     \<lparr>rp_text = text, rp_status = status, rp_approval_card = None, rp_investigation_id = investigation_id,
      rp_approval_still_pending = False\<rparr>"

section \<open>Investigation records (models/investigation.py, models/decision_event.py)\<close>

record InvestigationMemoryEntry =
  me_investigation_id :: string
  me_server_id :: "string option"
  me_problem :: string
  me_status :: string
  me_findings :: "string list"
  me_recommendations :: "string list"
  me_updated_at :: int

type_synonym executed_action = "string \<times> tool_result option"

record InvestigationCreateRequest =
  cr_investigation_id :: string
  cr_conversation_id :: string
  cr_user_subject_id :: string
  cr_server_id :: "string option"
  cr_playbook_id :: "string option"
  cr_environment :: "string option"
  cr_target :: jdict
  cr_problem :: string
  cr_status :: string

record InvestigationUpdateRequest =
  up_server_id :: "string option"
  up_playbook_id :: "string option"
  up_environment :: "string option"
  up_target :: "jdict option"
  up_status :: "string option"
  up_evidence :: "string list option"
  up_hypotheses :: "string list option"
  up_findings :: "string list option"
  up_recommendations :: "string list option"
  up_actions :: "executed_action list option"

record DecisionEventCreateRequest =
  dv_event_type :: string
  dv_conversation_id :: "string option"
  dv_investigation_id :: "string option"
  dv_provider :: string
  dv_model :: string
  dv_payload :: jdict

section \<open>Conversation state (context_manager.py)\<close>

datatype InvestigationStage =
    INVESTIGATING | AWAITING_CLARIFICATION | AWAITING_VERIFICATION
  | CONCLUDED_VERIFIED | CONCLUDED_UNRESOLVED | CONCLUDED_UNVERIFIED | CONCLUDED_NO_ACTION

fun stage_value :: "InvestigationStage \<Rightarrow> string" where
  "stage_value INVESTIGATING = ''INVESTIGATING''"
| "stage_value AWAITING_CLARIFICATION = ''AWAITING_CLARIFICATION''"
| "stage_value AWAITING_VERIFICATION = ''AWAITING_VERIFICATION''"
| "stage_value CONCLUDED_VERIFIED = ''CONCLUDED_VERIFIED''"
| "stage_value CONCLUDED_UNRESOLVED = ''CONCLUDED_UNRESOLVED''"
| "stage_value CONCLUDED_UNVERIFIED = ''CONCLUDED_UNVERIFIED''"
| "stage_value CONCLUDED_NO_ACTION = ''CONCLUDED_NO_ACTION''"

definition CONCLUDED_STAGES :: "InvestigationStage list" where
  "CONCLUDED_STAGES = [CONCLUDED_VERIFIED, CONCLUDED_UNRESOLVED, CONCLUDED_UNVERIFIED, CONCLUDED_NO_ACTION]"

record PendingApproval =
  pa_approval_id :: "string option"
  pa_tool_id :: string
  pa_summary :: string
  pa_request :: ToolCallRequest

record pending_check =
  pv_tool_id :: string
  pv_verification_tools :: "string list"
  pv_session_id :: "json option"
  pv_reason :: string

datatype verification_outcome = RESOLVED | UNRESOLVED

record InvestigationState =
  iv_investigation_id :: string
  iv_problem :: string
  iv_status :: InvestigationStage
  iv_evidence :: "string list"
  iv_hypotheses :: "string list"
  iv_findings :: "string list"
  iv_recommendations :: "string list"
  iv_actions :: "executed_action list"
  iv_transcript :: "jdict list"
  iv_turn_count :: nat
  iv_playbook_id :: "string option"
  iv_playbook_step :: nat
  iv_read_only :: bool
  iv_consecutive_record_observations :: nat
  iv_clarification_count :: nat
  iv_last_message :: string
  iv_pending_verification :: "pending_check option"
  iv_last_verification :: "verification_outcome option"
  iv_remote_bootstrap_done :: bool
  iv_memory_context :: "InvestigationMemoryEntry list"

definition new_investigation :: "string \<Rightarrow> string \<Rightarrow> InvestigationState" where
  "new_investigation investigation_id problem =
     \<lparr>iv_investigation_id = investigation_id, iv_problem = problem, iv_status = INVESTIGATING, iv_evidence = [],
      iv_hypotheses = [], iv_findings = [], iv_recommendations = [], iv_actions = [], iv_transcript = [],
      iv_turn_count = 0, iv_playbook_id = None, iv_playbook_step = 0, iv_read_only = False,
      iv_consecutive_record_observations = 0, iv_clarification_count = 0, iv_last_message = [],
      iv_pending_verification = None, iv_last_verification = None, iv_remote_bootstrap_done = False,
      iv_memory_context = []\<rparr>"

definition is_concluded :: "InvestigationState \<Rightarrow> bool" where
  "is_concluded iv \<longleftrightarrow> iv_status iv \<in> set CONCLUDED_STAGES"

definition effective_status :: "InvestigationState \<Rightarrow> InvestigationStage" where
  "effective_status iv =
     (if iv_status iv = INVESTIGATING \<and> iv_pending_verification iv \<noteq> None then AWAITING_VERIFICATION
      else iv_status iv)"

record FallbackEvent =
  fe_failed_providers :: "string list"
  fe_used_provider :: string

record ConversationState =
  cs_conversation_id :: string
  cs_channel :: string
  cs_channel_thread_id :: string
  cs_channel_account_id :: string
  cs_database_context :: jdict
  cs_investigation :: "InvestigationState option"
  cs_pending_approval :: "PendingApproval option"
  cs_llm_provider :: "string option"
  cs_llm_model :: "string option"
  cs_llm_fallback_notices :: "FallbackEvent list"
  cs_updated_at :: int

definition new_conversation :: "string \<Rightarrow> string \<Rightarrow> string \<Rightarrow> string \<Rightarrow> int \<Rightarrow> ConversationState" where
  "new_conversation conversation_id channel channel_thread_id channel_account_id now =
     \<lparr>cs_conversation_id = conversation_id, cs_channel = channel, cs_channel_thread_id = channel_thread_id,
      cs_channel_account_id = channel_account_id, cs_database_context = [], cs_investigation = None,
      cs_pending_approval = None, cs_llm_provider = None, cs_llm_model = None, cs_llm_fallback_notices = [],
      cs_updated_at = now\<rparr>"

type_synonym ContextManager = "(string \<times> ConversationState) list"

definition get_or_create ::
    "ContextManager \<Rightarrow> string \<Rightarrow> string \<Rightarrow> string \<Rightarrow> string \<Rightarrow> int \<Rightarrow> ConversationState \<times> ContextManager" where
  "get_or_create conversations conversation_id channel channel_thread_id channel_account_id now =
     (case map_of conversations conversation_id of
        Some state \<Rightarrow> (state, conversations)
      | None \<Rightarrow>
          let state = new_conversation conversation_id channel channel_thread_id channel_account_id now
          in (state, dict_set conversations conversation_id state))"

definition start_investigation :: "string \<Rightarrow> string \<Rightarrow> ConversationState \<Rightarrow> ConversationState" where
  "start_investigation investigation_id problem state =
     state\<lparr>cs_investigation := Some (new_investigation investigation_id problem)\<rparr>"

definition touch :: "int \<Rightarrow> ConversationState \<Rightarrow> ConversationState" where
  "touch now state = state\<lparr>cs_updated_at := now\<rparr>"

section \<open>Facts\<close>

lemma get_or_create_creates:
  "get_or_create cs k c t a now = (st, cs') \<Longrightarrow> map_of cs' k = Some st \<and> (\<forall>j. j \<noteq> k \<longrightarrow> map_of cs' j = map_of cs j)"
  by (auto simp: get_or_create_def Let_def split: option.splits)

lemma effective_status_concluded: "is_concluded iv \<Longrightarrow> effective_status iv = iv_status iv"
  by (auto simp: is_concluded_def effective_status_def CONCLUDED_STAGES_def)

end
