(* ===== verification/Investigation_Store.thy ===== *)
theory Investigation_Store
  imports Agent_Model Config
begin

text \<open>
  What the Gateway keeps of investigations: the database-backed store
  (gateway/domain/investigation_store.py), the recall of concluded investigations
  (gateway/domain/investigation_memory.py), the decision-quality events
  (gateway/domain/decision_events.py) and their routes (routers/investigations.py,
  routers/decision_events.py). The recall only sees the abstract store, an interface stated as the
  locale \<open>investigation_source\<close> and interpreted on the database-backed one. Tables are lists in
  order of insertion; rows of one creation time, whose order the query leaves open, keep that order.
\<close>

section \<open>Rows\<close>

record InvestigationRecord =
  ir_investigation_id :: string
  ir_conversation_id :: string
  ir_user_subject_id :: string
  ir_server_id :: "string option"
  ir_playbook_id :: "string option"
  ir_environment :: "string option"
  ir_target :: jdict
  ir_problem :: string
  ir_status :: string
  ir_evidence :: "string list"
  ir_hypotheses :: "string list"
  ir_findings :: "string list"
  ir_recommendations :: "string list"
  ir_actions :: "executed_action list"
  ir_created_at :: int
  ir_updated_at :: int

record InvestigationEventRecord =
  ev_investigation_id :: string
  ev_event_type :: string
  ev_payload :: jdict
  ev_created_at :: int

record investigation_db =
  idb_investigations :: "InvestigationRecord list"
  idb_events :: "InvestigationEventRecord list"

section \<open>The store (investigation_store.py)\<close>

definition find_row :: "string \<Rightarrow> investigation_db \<Rightarrow> InvestigationRecord option" where
  "find_row i db = find (\<lambda>r. ir_investigation_id r = i) (idb_investigations db)"

definition new_row :: "InvestigationCreateRequest \<Rightarrow> int \<Rightarrow> InvestigationRecord" where
  "new_row rq now =
     \<lparr>ir_investigation_id = cr_investigation_id rq, ir_conversation_id = cr_conversation_id rq,
      ir_user_subject_id = cr_user_subject_id rq, ir_server_id = cr_server_id rq, ir_playbook_id = cr_playbook_id rq,
      ir_environment = cr_environment rq, ir_target = cr_target rq, ir_problem = cr_problem rq, ir_status = cr_status rq,
      ir_evidence = [], ir_hypotheses = [], ir_findings = [], ir_recommendations = [], ir_actions = [],
      ir_created_at = now, ir_updated_at = now\<rparr>"

definition store_create :: "InvestigationCreateRequest \<Rightarrow> int \<Rightarrow> investigation_db \<Rightarrow> InvestigationRecord \<times> investigation_db" where
  "store_create rq now db =
     (case find_row (cr_investigation_id rq) db of
        Some existing \<Rightarrow> (existing, db)
      | None \<Rightarrow> (new_row rq now, db\<lparr>idb_investigations := idb_investigations db @ [new_row rq now]\<rparr>))"

definition patched :: "InvestigationUpdateRequest \<Rightarrow> InvestigationRecord \<Rightarrow> InvestigationRecord" where
  \<comment> \<open>a field that is None is left as it is\<close>
  "patched u r =
     r\<lparr>ir_server_id := (case up_server_id u of None \<Rightarrow> ir_server_id r | v \<Rightarrow> v),
       ir_playbook_id := (case up_playbook_id u of None \<Rightarrow> ir_playbook_id r | v \<Rightarrow> v),
       ir_environment := (case up_environment u of None \<Rightarrow> ir_environment r | v \<Rightarrow> v),
       ir_target := (case up_target u of None \<Rightarrow> ir_target r | Some v \<Rightarrow> v),
       ir_status := (case up_status u of None \<Rightarrow> ir_status r | Some v \<Rightarrow> v),
       ir_evidence := (case up_evidence u of None \<Rightarrow> ir_evidence r | Some v \<Rightarrow> v),
       ir_hypotheses := (case up_hypotheses u of None \<Rightarrow> ir_hypotheses r | Some v \<Rightarrow> v),
       ir_findings := (case up_findings u of None \<Rightarrow> ir_findings r | Some v \<Rightarrow> v),
       ir_recommendations := (case up_recommendations u of None \<Rightarrow> ir_recommendations r | Some v \<Rightarrow> v),
       ir_actions := (case up_actions u of None \<Rightarrow> ir_actions r | Some v \<Rightarrow> v)\<rparr>"

definition updated :: "InvestigationUpdateRequest \<Rightarrow> int \<Rightarrow> InvestigationRecord \<Rightarrow> InvestigationRecord" where
  \<comment> \<open>\<open>updated_at\<close> moves when the row changed\<close>
  "updated u now r = (if patched u r = r then r else (patched u r)\<lparr>ir_updated_at := now\<rparr>)"

definition store_update ::
    "string \<Rightarrow> InvestigationUpdateRequest \<Rightarrow> int \<Rightarrow> investigation_db \<Rightarrow> InvestigationRecord option \<times> investigation_db" where
  "store_update i u now db =
     (case find_row i db of
        None \<Rightarrow> (None, db)
      | Some r \<Rightarrow> (Some (updated u now r),
          db\<lparr>idb_investigations := map (\<lambda>x. if ir_investigation_id x = i then updated u now x else x) (idb_investigations db)\<rparr>))"

definition newest_first :: "InvestigationRecord list \<Rightarrow> InvestigationRecord list" where
  \<comment> \<open>\<open>order_by(created_at.desc())\<close>\<close>
  "newest_first = sort_key (\<lambda>r. - ir_created_at r)"

definition recent_for_server :: "string \<Rightarrow> int \<Rightarrow> string option \<Rightarrow> investigation_db \<Rightarrow> InvestigationRecord list" where
  "recent_for_server server_id limit exclude db =
     (let fetch_limit = (if nonempty exclude then limit + 1 else limit);
          rows = take (nat fetch_limit) (newest_first (filter (\<lambda>r. ir_server_id r = Some server_id) (idb_investigations db)))
      in if nonempty exclude
         then take (nat limit) (filter (\<lambda>r. Some (ir_investigation_id r) \<noteq> exclude) rows) else rows)"

definition append_event :: "string \<Rightarrow> string \<Rightarrow> jdict \<Rightarrow> int \<Rightarrow> investigation_db \<Rightarrow> investigation_db" where
  "append_event i event_type payload now db =
     db\<lparr>idb_events := idb_events db @ [\<lparr>ev_investigation_id = i, ev_event_type = event_type, ev_payload = payload,
          ev_created_at = now\<rparr>]\<rparr>"

definition find_similar ::
    "string \<Rightarrow> string option \<Rightarrow> string option \<Rightarrow> int option \<Rightarrow> int \<Rightarrow> investigation_db \<Rightarrow> InvestigationRecord list" where
  \<comment> \<open>a comparison with a NULL column is not true: a row without a server is never other than one\<close>
  "find_similar playbook_id environment exclude_server_id since limit db =
     take (nat limit) (newest_first (filter (\<lambda>r.
       ir_playbook_id r = Some playbook_id \<and>
       (environment = None \<or> ir_environment r = environment) \<and>
       (exclude_server_id = None \<or> (ir_server_id r \<noteq> None \<and> ir_server_id r \<noteq> exclude_server_id)) \<and>
       (case since of None \<Rightarrow> True | Some t \<Rightarrow> ir_created_at r \<ge> t)) (idb_investigations db)))"

section \<open>Recall (investigation_memory.py)\<close>

definition memory_entry :: "InvestigationRecord \<Rightarrow> InvestigationMemoryEntry" where
  "memory_entry r =
     \<lparr>me_investigation_id = ir_investigation_id r, me_server_id = ir_server_id r, me_problem = ir_problem r,
      me_status = ir_status r, me_findings = ir_findings r, me_recommendations = ir_recommendations r,
      me_updated_at = ir_updated_at r\<rparr>"

definition concluded_row :: "InvestigationRecord \<Rightarrow> bool" where
  "concluded_row r \<longleftrightarrow> prefix ''CONCLUDED'' (ir_status r)"

definition recalled :: "int \<Rightarrow> InvestigationRecord list result \<Rightarrow> InvestigationMemoryEntry list" where
  \<comment> \<open>a failed lookup recalls nothing\<close>
  "recalled limit fetched =
     (case fetched of Inl _ \<Rightarrow> [] | Inr records \<Rightarrow> take (nat limit) (map memory_entry (filter concluded_row records)))"

definition recall ::
    "(string \<Rightarrow> int \<Rightarrow> string option \<Rightarrow> InvestigationRecord list result) \<Rightarrow> string \<Rightarrow> string option \<Rightarrow> int
       \<Rightarrow> InvestigationMemoryEntry list" where
  "recall recent server_id exclude limit =
     (if limit \<le> 0 then [] else recalled limit (recent server_id (limit * 4) exclude))"

definition correlate ::
    "(string \<Rightarrow> string option \<Rightarrow> string option \<Rightarrow> int option \<Rightarrow> int \<Rightarrow> InvestigationRecord list result) \<Rightarrow>
       string option \<Rightarrow> string option \<Rightarrow> string option \<Rightarrow> int option \<Rightarrow> int \<Rightarrow> InvestigationMemoryEntry list" where
  "correlate similar playbook_id environment exclude_server_id since limit =
     (if \<not> nonempty playbook_id then []
      else recalled limit (similar (opt_or playbook_id []) environment exclude_server_id since (limit * 4)))"

section \<open>Decision events (decision_events.py)\<close>

record LlmDecisionEventRecord =
  le_event_type :: string
  le_conversation_id :: "string option"
  le_investigation_id :: "string option"
  le_provider :: string
  le_model :: string
  le_payload :: jdict
  le_created_at :: int

definition append_decision_event :: "DecisionEventCreateRequest \<Rightarrow> int \<Rightarrow> LlmDecisionEventRecord list \<Rightarrow> LlmDecisionEventRecord list" where
  "append_decision_event rq now events =
     events @ [\<lparr>le_event_type = dv_event_type rq, le_conversation_id = dv_conversation_id rq,
       le_investigation_id = dv_investigation_id rq, le_provider = dv_provider rq, le_model = dv_model rq,
       le_payload = dv_payload rq, le_created_at = now\<rparr>]"

definition counts_by_type :: "int \<Rightarrow> LlmDecisionEventRecord list \<Rightarrow> (string \<times> nat) list" where
  \<comment> \<open>one \<open>GROUP BY\<close>\<close>
  "counts_by_type since events =
     (let types = map le_event_type (filter (\<lambda>e. le_created_at e \<ge> since) events)
      in map (\<lambda>t. (t, count_list types t)) (remdups types))"

section \<open>Routes\<close>

definition in_range :: "int \<Rightarrow> int \<Rightarrow> int \<Rightarrow> unit result" where
  \<comment> \<open>\<open>Query(ge=lo, le=hi)\<close>\<close>
  "in_range lo hi n = (if lo \<le> n \<and> n \<le> hi then Inr () else Inl (HTTPException 422 ''Unprocessable Entity''))"

definition queried :: "exn option \<Rightarrow> 'a list \<Rightarrow> 'a list result" where
  \<comment> \<open>a query of the store: its rows, or what the database raises\<close>
  "queried outage rows = (case outage of None \<Rightarrow> Inr rows | Some e \<Rightarrow> Inl e)"

definition memory_route ::
    "exn option \<Rightarrow> string \<Rightarrow> string option \<Rightarrow> int \<Rightarrow> investigation_db \<Rightarrow> InvestigationMemoryEntry list result" where
  "memory_route outage server_id exclude limit db =
     bindE (in_range 0 20 limit) (\<lambda>_.
       Inr (recall (\<lambda>s n x. queried outage (recent_for_server s n x db)) server_id exclude limit))"

definition day_us :: int where
  "day_us = 24 * 60 * 60 * 1000000"

definition correlate_route ::
    "exn option \<Rightarrow> Settings \<Rightarrow> int \<Rightarrow> string \<Rightarrow> string option \<Rightarrow> string option \<Rightarrow> int \<Rightarrow> investigation_db
       \<Rightarrow> InvestigationMemoryEntry list result" where
  "correlate_route outage st now playbook_id environment exclude_server_id limit db =
     bindE (in_range 0 20 limit) (\<lambda>_.
       Inr (if \<not> cross_server_correlation_enabled st then []
            else correlate (\<lambda>p e x t n. queried outage (find_similar p e x t n db)) (Some playbook_id) environment exclude_server_id
                   (Some (now - cross_server_correlation_lookback_days st * day_us)) limit))"

definition get_investigation_route :: "string \<Rightarrow> investigation_db \<Rightarrow> InvestigationRecord result" where
  "get_investigation_route i db =
     (case find_row i db of None \<Rightarrow> Inl (HTTPException 404 ''Investigation not found.'') | Some r \<Rightarrow> Inr r)"

definition update_investigation_route ::
    "string \<Rightarrow> InvestigationUpdateRequest \<Rightarrow> int \<Rightarrow> (investigation_db, InvestigationRecord) op" where
  "update_investigation_route i u now db =
     (case store_update i u now db of
        (None, db') \<Rightarrow> (Inl (HTTPException 404 ''Investigation not found.''), db')
      | (Some r, db') \<Rightarrow> (Inr r, db'))"

definition decision_summary_route :: "int \<Rightarrow> int \<Rightarrow> LlmDecisionEventRecord list \<Rightarrow> (int \<times> (string \<times> nat) list) result" where
  "decision_summary_route since_hours now events =
     bindE (in_range 1 (24 * 90) since_hours) (\<lambda>_.
       Inr (since_hours, counts_by_type (now - since_hours * 3600 * 1000000) events))"

section \<open>The store keeps ids unique\<close>

inductive store_reachable :: "investigation_db \<Rightarrow> bool" where
  store_empty: "store_reachable \<lparr>idb_investigations = [], idb_events = []\<rparr>"
| store_created: "store_reachable db \<Longrightarrow> store_reachable (snd (store_create rq now db))"
| store_updated: "store_reachable db \<Longrightarrow> store_reachable (snd (store_update i u now db))"
| store_event: "store_reachable db \<Longrightarrow> store_reachable (append_event i t p now db)"

lemma updated_id [simp]: "ir_investigation_id (updated u now r) = ir_investigation_id r"
  by (simp add: updated_def patched_def)

lemma find_row_None: "find_row i db = None \<longleftrightarrow> i \<notin> ir_investigation_id ` set (idb_investigations db)"
  by (auto simp: find_row_def find_None_iff)

lemma store_ids_distinct: "store_reachable db \<Longrightarrow> distinct (map ir_investigation_id (idb_investigations db))"
proof (induction rule: store_reachable.induct)
  case (store_created db rq now)
  then show ?case by (auto simp: store_create_def find_row_None new_row_def split: option.split)
next
  case (store_updated db i u now)
  have "(\<lambda>x. ir_investigation_id (if ir_investigation_id x = i then updated u now x else x)) = ir_investigation_id"
    by (rule ext) simp
  with store_updated show ?case by (auto simp: store_update_def o_def split: option.split)
qed (simp_all add: append_event_def)

section \<open>What recall may show\<close>

text \<open>The recall sees of the store only that its queries answer with rows of the server or playbook asked for.\<close>

locale investigation_source =
  fixes rows :: "'db \<Rightarrow> InvestigationRecord list"
    and recent :: "string \<Rightarrow> int \<Rightarrow> string option \<Rightarrow> 'db \<Rightarrow> InvestigationRecord list"
    and similar :: "string \<Rightarrow> string option \<Rightarrow> string option \<Rightarrow> int option \<Rightarrow> int \<Rightarrow> 'db \<Rightarrow> InvestigationRecord list"
  assumes recent_rows: "r \<in> set (recent s n x db) \<Longrightarrow>
      r \<in> set (rows db) \<and> ir_server_id r = Some s \<and> (nonempty x \<longrightarrow> Some (ir_investigation_id r) \<noteq> x)"
    and similar_rows: "r \<in> set (similar p e x t n db) \<Longrightarrow>
      r \<in> set (rows db) \<and> ir_playbook_id r = Some p \<and> (e = None \<or> ir_environment r = e) \<and>
      (x = None \<or> ir_server_id r \<noteq> x) \<and> (case t of None \<Rightarrow> True | Some t \<Rightarrow> t \<le> ir_created_at r)"
begin

lemma recalled_rows:
  "en \<in> set (recalled limit (Inr rs)) \<Longrightarrow> \<exists>r \<in> set rs. concluded_row r \<and> en = memory_entry r"
  by (auto simp: recalled_def dest!: in_set_takeD)

lemma recalled_length: "length (recalled limit (Inr rs)) \<le> nat limit"
  by (simp add: recalled_def)

lemma recall_sound:
  "length (recall (\<lambda>s n x. Inr (recent s n x db)) server exclude limit) \<le> nat limit \<and>
   (\<forall>en \<in> set (recall (\<lambda>s n x. Inr (recent s n x db)) server exclude limit). \<exists>r \<in> set (rows db).
      concluded_row r \<and> ir_server_id r = Some server \<and> en = memory_entry r)"
  using recalled_length by (auto simp: recall_def dest!: recalled_rows recent_rows)

lemma correlate_sound:
  "length (correlate (\<lambda>p e x t n. Inr (similar p e x t n db)) playbook environment exclude since limit) \<le> nat limit \<and>
   (\<forall>en \<in> set (correlate (\<lambda>p e x t n. Inr (similar p e x t n db)) playbook environment exclude since limit).
      \<exists>r \<in> set (rows db). concluded_row r \<and> ir_playbook_id r = playbook \<and> (environment = None \<or> ir_environment r = environment) \<and>
        (exclude = None \<or> ir_server_id r \<noteq> exclude) \<and> en = memory_entry r)"
proof (cases playbook)
  case (Some p)
  then show ?thesis
    using recalled_length by (auto simp: correlate_def nonempty_def opt_or_def dest!: recalled_rows similar_rows)
qed (simp add: correlate_def nonempty_def)

end

lemma newest_first_set [simp]: "set (newest_first rs) = set rs"
  by (simp add: newest_first_def)

interpretation db_source: investigation_source idb_investigations recent_for_server find_similar
proof
  show "r \<in> set (idb_investigations db) \<and> ir_server_id r = Some s \<and> (nonempty x \<longrightarrow> Some (ir_investigation_id r) \<noteq> x)"
    if "r \<in> set (recent_for_server s n x db)" for r s n x db
    using that by (auto simp: recent_for_server_def Let_def split: if_splits dest!: in_set_takeD)
  show "r \<in> set (idb_investigations db) \<and> ir_playbook_id r = Some p \<and> (e = None \<or> ir_environment r = e) \<and>
      (x = None \<or> ir_server_id r \<noteq> x) \<and> (case t of None \<Rightarrow> True | Some t \<Rightarrow> t \<le> ir_created_at r)"
    if "r \<in> set (find_similar p e x t n db)" for r p e x t n db
    using that by (auto simp: find_similar_def dest!: in_set_takeD split: option.splits)
qed

text \<open>As many rows more than wanted are enough as the filter drops.\<close>

lemma take_filter_more:
  assumes "length (filter (\<lambda>x. \<not> P x) xs) \<le> k"
  shows "take n (filter P (take (n + k) xs)) = take n (filter P xs)"
  using assms
proof (induction xs arbitrary: n k)
  case (Cons x xs)
  show ?case
  proof (cases "P x")
    case True
    with Cons show ?thesis by (cases n) simp_all
  next
    case False
    with Cons.prems obtain k' where "k = Suc k'" "length (filter (\<lambda>x. \<not> P x) xs) \<le> k'" by (cases k) auto
    with False Cons.IH [of k' n] show ?thesis by simp
  qed
qed simp

lemma one_row_excluded:
  assumes "distinct (map ir_investigation_id rs)"
  shows "length (filter (\<lambda>r. \<not> Some (ir_investigation_id r) \<noteq> x) rs) \<le> 1"
  using assms by (induction rs) (auto simp: filter_empty_conv rev_image_eqI)

lemma newest_distinct:
  "distinct (map ir_investigation_id rs) \<Longrightarrow> distinct (map ir_investigation_id (newest_first (filter P rs)))"
  by (auto simp: distinct_map newest_first_def distinct_sort intro: inj_on_subset)

definition others :: "string option \<Rightarrow> InvestigationRecord \<Rightarrow> bool" where
  "others exclude r \<longleftrightarrow> (nonempty exclude \<longrightarrow> Some (ir_investigation_id r) \<noteq> exclude)"

lemma recent_exact:
  assumes "store_reachable db" and "0 \<le> limit"
  shows "recent_for_server server_id limit exclude db =
     take (nat limit) (filter (others exclude) (newest_first (filter (\<lambda>r. ir_server_id r = Some server_id) (idb_investigations db))))"
proof (cases "nonempty exclude")
  case True
  have "nat (limit + 1) = Suc (nat limit)" using assms(2) by simp
  moreover have "others exclude = (\<lambda>r. Some (ir_investigation_id r) \<noteq> exclude)" using True by (simp add: others_def fun_eq_iff)
  ultimately show ?thesis using True take_filter_more [OF one_row_excluded [OF newest_distinct [OF store_ids_distinct [OF assms(1)]]]]
    by (simp add: recent_for_server_def)
next
  case False
  then show ?thesis by (simp add: recent_for_server_def others_def)
qed

definition candidates :: "string \<Rightarrow> string option \<Rightarrow> investigation_db \<Rightarrow> InvestigationRecord list" where
  \<comment> \<open>the investigations of the server other than the asking one, newest first\<close>
  "candidates server_id exclude db =
     filter (others exclude) (newest_first (filter (\<lambda>r. ir_server_id r = Some server_id) (idb_investigations db)))"

text \<open>
  C40. What the memory route answers, over any history of the store: with a query that fails,
  nothing. Otherwise, of the investigations of the server other than the asking one, newest first,
  it looks at the first four times the asked number and answers with the concluded ones among
  these, in order, up to the asked number; excluding the asking one costs no entry. So when at most
  three times the asked number are unfinished, these are exactly the newest concluded ones; when
  the whole window is unfinished, concluded ones behind it are not found.
\<close>

theorem memory_exact:
  assumes "store_reachable db" and "0 \<le> limit" and "limit \<le> 20"
  shows "memory_route outage server_id exclude limit db = Inr (case outage of
       Some e \<Rightarrow> []
     | None \<Rightarrow> take (nat limit) (map memory_entry (filter concluded_row
         (take (nat (limit * 4)) (candidates server_id exclude db))))) \<and>
   (outage = None \<and> int (length (filter (\<lambda>r. \<not> concluded_row r) (candidates server_id exclude db))) \<le> 3 * limit \<longrightarrow>
      memory_route outage server_id exclude limit db =
        Inr (take (nat limit) (map memory_entry (filter concluded_row (candidates server_id exclude db)))))"
proof -
  let ?c = "candidates server_id exclude db"
  have route: "memory_route outage server_id exclude limit db = Inr (case outage of
       Some e \<Rightarrow> [] | None \<Rightarrow> take (nat limit) (map memory_entry (filter concluded_row (take (nat (limit * 4)) ?c))))"
    using assms by (simp add: memory_route_def in_range_def recall_def recalled_def recent_exact queried_def candidates_def bindE_def
        split: option.split)
  have "take (nat limit) (filter concluded_row (take (nat (limit * 4)) ?c)) = take (nat limit) (filter concluded_row ?c)"
    if "int (length (filter (\<lambda>r. \<not> concluded_row r) ?c)) \<le> 3 * limit"
  proof -
    have "nat (limit * 4) = nat limit + nat (3 * limit)" using assms(2) by simp
    moreover have "length (filter (\<lambda>r. \<not> concluded_row r) ?c) \<le> nat (3 * limit)" using that by simp
    ultimately show ?thesis by (simp only: take_filter_more)
  qed
  with route show ?thesis by (auto simp: take_map)
qed

definition two_incidents :: investigation_db where
  "two_incidents =
     (let create = (\<lambda>i. \<lparr>cr_investigation_id = i, cr_conversation_id = ''c'', cr_user_subject_id = ''alice'',
            cr_server_id = Some ''db1'', cr_playbook_id = None, cr_environment = None, cr_target = [], cr_problem = ''lag'',
            cr_status = ''CONCLUDED_VERIFIED''\<rparr>)
      in snd (store_create (create ''i2'') 2 (snd (store_create (create ''i1'') 1 \<lparr>idb_investigations = [], idb_events = []\<rparr>))))"

theorem memory_exact_witness:
  "\<exists>es. memory_route None ''db1'' (Some ''i2'') 1 two_incidents = Inr es \<and> map me_investigation_id es = [''i1''] \<and>
     memory_route (Some (PyExn ''OperationalError'')) ''db1'' (Some ''i2'') 1 two_incidents = Inr []"
proof -
  have r: "store_reachable two_incidents"
    unfolding two_incidents_def Let_def by (intro store_created store_empty)
  from memory_exact [OF r, of 1 None "''db1''" "Some ''i2''"]
    memory_exact [OF r, of 1 "Some (PyExn ''OperationalError'')" "''db1''" "Some ''i2''"] show ?thesis
    by (simp add: two_incidents_def store_create_def find_row_def new_row_def newest_first_def others_def nonempty_def
        concluded_row_def memory_entry_def candidates_def)
qed

end
