(* ===== verification/Agent_Loop.thy ===== *)
theory Agent_Loop
  imports Agent_Model Server_Registry
begin

text \<open>
  The investigation loop of the Agent (agent/orchestrator.py): the planner's proposals are relayed
  to the Gateway, its answers are recorded, and a conclusion is only accepted when it is grounded
  and every write was checked. The calls that leave the process are parameters over a world
  \<open>'w\<close>: the HTTP calls of the tool client (agent/tool_client.py, whose own handling of failures
  is modelled here), the model calls and the generation of ids. The wire types are the typed ones
  of the services; log lines are left out.
\<close>

section \<open>The outside world\<close>

record llm_choice =
  lc_provider :: "string option"
  lc_model :: "string option"

record decide_input =
  di_problem_statement :: string
  di_available_tool_ids :: "string list"
  di_transcript :: "jdict list"
  di_turn_count :: nat
  di_tool_requirements :: "(string \<times> string list) list option"

record critique_input =
  ci_problem_statement :: string
  ci_transcript :: "jdict list"
  ci_conclusion :: conclusion

record server_view =
  sv_id :: string
  sv_platform :: string
  sv_environment :: string
  sv_criticality :: string
  sv_aliases :: "string list"
  sv_status :: string
  sv_host :: "string option"
  sv_catalog :: "(string list \<times> string option) option"  \<comment> \<open>\<open>databases\<close>, \<open>discovered_at\<close>\<close>

record 'w agent_env =
  ae_decide :: "llm_choice \<Rightarrow> decide_input \<Rightarrow> ('w, exn, AgentAction \<times> FallbackEvent list) comp"
  ae_critique :: "llm_choice \<Rightarrow> critique_input \<Rightarrow> ('w, exn, CritiqueVerdict) comp"
  ae_extract_intent :: "llm_choice \<Rightarrow> string \<Rightarrow> string list \<Rightarrow> string list \<Rightarrow>
     ('w, exn, IntentExtraction \<times> FallbackEvent list) comp"
  ae_llm_name :: "llm_choice \<Rightarrow> string \<times> string"  \<comment> \<open>\<open>provider_name\<close>, \<open>model\<close>\<close>
  ae_exn_text :: "exn \<Rightarrow> string"                  \<comment> \<open>\<open>str(exc)\<close>\<close>
  ae_new_id :: "string \<Rightarrow> ('w, exn, string) comp"
  http_submit :: "ToolCallRequest \<Rightarrow> ('w, exn, ToolCallResponse) comp"
  http_tools :: "string \<Rightarrow> string \<Rightarrow> ('w, exn, ToolDefinition list) comp"
  http_servers :: "('w, exn, server_view list) comp"
  http_decide_approval :: "bool \<Rightarrow> string \<Rightarrow> string \<Rightarrow> string \<Rightarrow> ('w, exn, int \<times> jdict) comp"
  http_create_investigation :: "InvestigationCreateRequest \<Rightarrow> ('w, exn, unit) comp"
  http_update_investigation :: "string \<Rightarrow> InvestigationUpdateRequest \<Rightarrow> ('w, exn, unit) comp"
  http_memory :: "string \<Rightarrow> string option \<Rightarrow> int \<Rightarrow> ('w, exn, InvestigationMemoryEntry list) comp"
  http_patterns :: "string \<Rightarrow> string option \<Rightarrow> string option \<Rightarrow> int \<Rightarrow>
     ('w, exn, InvestigationMemoryEntry list) comp"
  http_decision_event :: "DecisionEventCreateRequest \<Rightarrow> ('w, exn, unit) comp"
  ae_now :: "'w \<Rightarrow> int"
  self_critique_enabled :: bool
  investigation_memory_lookback :: int
  llm_fast_model :: string
  llm_strong_model :: string

record 'w agent_run =
  rn_state :: ConversationState
  rn_inv :: InvestigationState
  rn_world :: 'w

type_synonym ('w, 'a) agent_op = "('w agent_run, exn, 'a) comp"

definition world :: "('w, exn, 'a) comp \<Rightarrow> ('w, 'a) agent_op" where
  "world = zoom rn_world (\<lambda>w r. r\<lparr>rn_world := w\<rparr>)"

definition upd_inv :: "(InvestigationState \<Rightarrow> InvestigationState) \<Rightarrow> ('w, unit) agent_op" where
  "upd_inv f r = (Inr (), r\<lparr>rn_inv := f (rn_inv r)\<rparr>)"

definition upd_state :: "(ConversationState \<Rightarrow> ConversationState) \<Rightarrow> ('w, unit) agent_op" where
  "upd_state f r = (Inr (), r\<lparr>rn_state := f (rn_state r)\<rparr>)"

definition reads :: "('w agent_run \<Rightarrow> 'a) \<Rightarrow> ('w, 'a) agent_op" where
  "reads f r = (Inr (f r), r)"

definition attempt :: "('s, 'e, 'a) comp \<Rightarrow> ('s, 'f, 'e + 'a) comp" where
  \<comment> \<open>\<open>try: ... except Exception\<close>: the outcome as a value\<close>
  "attempt m s = (case m s of (r, s') \<Rightarrow> (Inr r, s'))"

section \<open>The tool client's best-effort calls (tool_client.py)\<close>

definition best_effort :: "('w, exn, unit) comp \<Rightarrow> ('w, unit) agent_op" where
  \<comment> \<open>a failure is logged and forgotten\<close>
  "best_effort m = bindM (attempt (world m)) (\<lambda>_. returnM ())"

definition create_investigation :: "'w agent_env \<Rightarrow> InvestigationCreateRequest \<Rightarrow> ('w, unit) agent_op" where
  "create_investigation env request = best_effort (http_create_investigation env request)"

definition update_investigation ::
    "'w agent_env \<Rightarrow> string \<Rightarrow> InvestigationUpdateRequest \<Rightarrow> ('w, unit) agent_op" where
  "update_investigation env investigation_id request = best_effort (http_update_investigation env investigation_id request)"

definition log_decision_event :: "'w agent_env \<Rightarrow> DecisionEventCreateRequest \<Rightarrow> ('w, unit) agent_op" where
  "log_decision_event env request = best_effort (http_decision_event env request)"

definition or_empty :: "('w, exn, 'a list) comp \<Rightarrow> ('w, 'a list) agent_op" where
  "or_empty m = bindM (attempt (world m)) (\<lambda>r. returnM (case r of Inl _ \<Rightarrow> [] | Inr xs \<Rightarrow> xs))"

definition get_investigation_memory ::
    "'w agent_env \<Rightarrow> string \<Rightarrow> string option \<Rightarrow> int \<Rightarrow> ('w, InvestigationMemoryEntry list) agent_op" where
  "get_investigation_memory env server_id exclude limit = or_empty (http_memory env server_id exclude limit)"

definition get_cross_server_patterns ::
    "'w agent_env \<Rightarrow> string \<Rightarrow> string option \<Rightarrow> string option \<Rightarrow> ('w, InvestigationMemoryEntry list) agent_op" where
  "get_cross_server_patterns env playbook_id environment exclude_server_id =
     or_empty (http_patterns env playbook_id environment exclude_server_id 5)"

definition client_decide :: "'w agent_env \<Rightarrow> bool \<Rightarrow> string \<Rightarrow> string \<Rightarrow> string \<Rightarrow> ('w, exn, jdict) comp" where
  \<comment> \<open>\<open>approve\<close> and \<open>reject\<close>: an HTTP error becomes a status\<close>
  "client_decide env approve approval_id channel channel_account_id =
     bindM (http_decide_approval env approve approval_id channel channel_account_id) (\<lambda>(code, body).
       returnM (if code \<ge> 400
                then [(''status'', JStr ''ERROR''),
                      (''detail'', (case map_of body ''detail'' of None \<Rightarrow> JStr ''error'' | Some v \<Rightarrow> v))]
                else body))"

section \<open>Constants\<close>

definition MAX_INVESTIGATION_TURNS :: nat where
  "MAX_INVESTIGATION_TURNS = 6"

definition MAX_CONSECUTIVE_RECORD_OBSERVATIONS :: nat where
  "MAX_CONSECUTIVE_RECORD_OBSERVATIONS = 2"

definition MAX_CLARIFICATION_TURNS :: nat where
  "MAX_CLARIFICATION_TURNS = 4"

definition SELF_CORRECTABLE_DENIAL_CODES :: "string list" where
  "SELF_CORRECTABLE_DENIAL_CODES = [''INVALID_ARGUMENTS'', ''INVALID_TARGET'', ''TOOL_NOT_FOUND'']"

definition VERIFICATION_TOOLS_BY_WRITE_TOOL :: "(string \<times> string list) list" where
  "VERIFICATION_TOOLS_BY_WRITE_TOOL =
     [(''database.kill_session'', [''database.get_blocking_sessions'', ''database.get_sessions'']),
      (''database.cancel_query'',
       [''database.get_blocking_sessions'', ''database.get_running_queries'', ''database.get_sessions''])]"

definition READ_ONLY_GUARD_TOOL_ID :: string where
  "READ_ONLY_GUARD_TOOL_ID = ''internal.readonly_guard''"

section \<open>Pure helpers\<close>

definition entry :: "string \<Rightarrow> string \<Rightarrow> jdict \<Rightarrow> jdict" where
  \<comment> \<open>a row of the transcript\<close>
  "entry tool_id reason result = [(''tool_id'', JStr tool_id), (''reason'', JStr reason), (''result'', JObj result)]"

definition result_dict :: "tool_result option \<Rightarrow> jdict" where
  \<comment> \<open>\<open>response.result or {}\<close>\<close>
  "result_dict result =
     (case result of
        None \<Rightarrow> []
      | Some t \<Rightarrow>
         [(''columns'', JArr (map JStr (tr_columns t))),
          (''rows'', JArr (map JObj (tr_rows t))),
          (''row_count'', JInt (int (tr_row_count t))),
          (''truncated'', JBool (tr_truncated t)),
          (''masked_fields'', JArr (map JStr (tr_masked_fields t))),
          (''literal_scrubbed_fields'', JArr (map JStr (tr_literal_scrubbed_fields t))),
          (''affected'', JObj (tr_affected t))])"

fun blast_value :: "BlastRadius \<Rightarrow> string" where
  "blast_value SINGLE_QUERY = ''SINGLE_QUERY''"
| "blast_value SINGLE_SESSION = ''SINGLE_SESSION''"
| "blast_value SINGLE_OBJECT = ''SINGLE_OBJECT''"
| "blast_value SINGLE_DATABASE = ''SINGLE_DATABASE''"
| "blast_value MULTIPLE_OBJECTS = ''MULTIPLE_OBJECTS''"
| "blast_value MULTIPLE_DATABASES = ''MULTIPLE_DATABASES''"
| "blast_value CLUSTER = ''CLUSTER''"
| "blast_value ENTERPRISE = ''ENTERPRISE''"

definition dict_of :: "(string \<times> 'v) list \<Rightarrow> (string \<times> 'v) list" where
  \<comment> \<open>a dict comprehension: a later entry of a key replaces an earlier one\<close>
  "dict_of kvs = dict_merge [] kvs"

definition is_confirmed_read_tool :: "string \<Rightarrow> (string \<times> OperationType) list option \<Rightarrow> bool" where
  "is_confirmed_read_tool tool_id tool_operation_types \<longleftrightarrow>
     (case tool_operation_types of None \<Rightarrow> None | Some m \<Rightarrow> map_of m tool_id) = Some READ"

definition verification_still_shows_condition :: "string \<Rightarrow> json option \<Rightarrow> tool_result option \<Rightarrow> bool" where
  "verification_still_shows_condition tool_id session_id result =
     (case session_id of
        None \<Rightarrow> False
      | Some sid \<Rightarrow>
          if \<not> truthy sid then False
          else let rows = (case result of None \<Rightarrow> [] | Some t \<Rightarrow> tr_rows t);
                   keys = (if tool_id = ''database.get_blocking_sessions''
                           then [''blocked_session_id'', ''blocking_session_id''] else [''session_id''])
               in list_ex (\<lambda>row. list_ex (\<lambda>key.
                    py_str (case map_of row key of None \<Rightarrow> JNull | Some v \<Rightarrow> v) = py_str sid) keys) rows)"

definition affected_summary :: "tool_result option \<Rightarrow> string" where
  "affected_summary result =
     (case result of
        None \<Rightarrow> []
      | Some t \<Rightarrow> if tr_affected t = [] then []
                  else '' ('' @ join '', '' (map (\<lambda>(k, v). k @ ''='' @ py_str v) (tr_affected t)) @ '')'')"

fun unseen :: "string list \<Rightarrow> string list \<Rightarrow> string list" where
  \<comment> \<open>the names in order of their first occurrence\<close>
  "unseen seen [] = []"
| "unseen seen (n # ns) = (if n \<in> set seen then unseen seen ns else n # unseen (n # seen) ns)"

definition grounding_haystack :: "InvestigationState \<Rightarrow> string" where
  "grounding_haystack iv =
     (let real_transcript = filter (\<lambda>t. map_of t ''tool_id'' \<noteq> Some (JStr ''internal.grounding_check'')) (iv_transcript iv);
          real_evidence = filter (\<lambda>e. \<not> prefix ''(a draft conclusion naming'' e) (iv_evidence iv)
      in lower (join '' '' [dumps_default (JArr (map JObj real_transcript)), iv_problem iv, join '' '' real_evidence]))"

definition claimed_text :: "conclusion \<Rightarrow> string" where
  "claimed_text c =
     join '' '' (filter (\<lambda>s. s \<noteq> []) [cn_summary c, opt_or (cn_likely_root_cause c) [], opt_or (cn_recommendation c) []])"

definition ungrounded_identifiers :: "conclusion \<Rightarrow> InvestigationState \<Rightarrow> string list" where
  "ungrounded_identifiers c iv =
     filter (\<lambda>name. \<not> contains (lower name) (grounding_haystack iv)) (unseen [] (camel_names (claimed_text c)))"

definition append_evidence_once :: "string \<Rightarrow> InvestigationState \<Rightarrow> InvestigationState" where
  "append_evidence_once text iv =
     (if iv_evidence iv = [] \<or> last (iv_evidence iv) \<noteq> text then iv\<lparr>iv_evidence := iv_evidence iv @ [text]\<rparr> else iv)"

definition add_transcript :: "jdict \<Rightarrow> InvestigationState \<Rightarrow> InvestigationState" where
  "add_transcript e iv = iv\<lparr>iv_transcript := iv_transcript iv @ [e]\<rparr>"

definition add_evidence :: "string \<Rightarrow> InvestigationState \<Rightarrow> InvestigationState" where
  "add_evidence text iv = iv\<lparr>iv_evidence := iv_evidence iv @ [text]\<rparr>"

definition strip_unschematized_arguments :: "proposal \<Rightarrow> (string \<times> string list) list option \<Rightarrow> jdict" where
  "strip_unschematized_arguments action tool_allowed_arguments =
     (case (case tool_allowed_arguments of None \<Rightarrow> None | Some m \<Rightarrow> map_of m (pr_tool_id action)) of
        None \<Rightarrow> pr_arguments action
      | Some allowed \<Rightarrow> filter (\<lambda>(k, v). k \<in> set allowed) (pr_arguments action))"

definition conclusion_stage :: "InvestigationState \<Rightarrow> InvestigationStage" where
  "conclusion_stage iv =
     (if iv_last_verification iv = Some RESOLVED then CONCLUDED_VERIFIED
      else if iv_last_verification iv = Some UNRESOLVED then CONCLUDED_UNRESOLVED
      else if iv_pending_verification iv \<noteq> None then CONCLUDED_UNVERIFIED
      else CONCLUDED_NO_ACTION)"

definition verification_note :: "InvestigationState \<Rightarrow> string option" where
  "verification_note iv =
     (case conclusion_stage iv of
        CONCLUDED_VERIFIED \<Rightarrow> Some ''Verification: independently re-checked afterward and confirmed resolved.''
      | CONCLUDED_UNRESOLVED \<Rightarrow> Some (''Verification: independently re-checked afterward '' @ em_dash @
          '' this did NOT actually resolve the condition; further action is likely still needed.'')
      | CONCLUDED_UNVERIFIED \<Rightarrow>
          Some (''Verification: '' @ (case iv_pending_verification iv of None \<Rightarrow> [] | Some p \<Rightarrow> pv_tool_id p) @
            '' executed, but I ran out of turns before independently re-checking whether it actually took effect '' @
            em_dash @ '' treat this as executed but NOT independently verified.'')
      | _ \<Rightarrow> None)"

fun confidence_prefix :: "confidence \<Rightarrow> string" where
  "confidence_prefix Confirmed = ''Confirmed''"
| "confidence_prefix Likely = ''Likely''"
| "confidence_prefix UnableToConfirm = ''Unable to confirm''"

definition newline :: string where
  "newline = [CHR 0x0A]"

definition format_report :: "InvestigationState \<Rightarrow> conclusion \<Rightarrow> string" where
  "format_report iv c = join newline
     ((case get_playbook (iv_playbook_id iv) of None \<Rightarrow> [] | Some p \<Rightarrow> [''Followed the '' @ [CHR 0x27] @ pb_name p @ [CHR 0x27] @ '' playbook.'']) @
      [''Summary: '' @ cn_summary c] @
      (if iv_evidence iv \<noteq> [] then [''Evidence: '' @ join ''; '' (iv_evidence iv)] else []) @
      (if nonempty (cn_likely_root_cause c)
       then [''Root Cause ('' @ confidence_prefix (cn_confidence c) @ ''): '' @ opt_or (cn_likely_root_cause c) []] else []) @
      (if nonempty (cn_recommendation c) then [''Recommended Action: '' @ opt_or (cn_recommendation c) []] else []) @
      (case verification_note iv of None \<Rightarrow> [] | Some note \<Rightarrow> if note = [] then [] else [note]))"

definition no_root_cause_reply :: "InvestigationState \<Rightarrow> AgentReply" where
  "no_root_cause_reply iv =
     reply (''I've run several diagnostic steps without reaching a confirmed root cause. Here's what I found:'' @ newline @
            join newline (map (\<lambda>e. ''- '' @ e) (iv_evidence iv))) ''ok'' (Some (iv_investigation_id iv))"

section \<open>Playbook steps and the problem statement\<close>

fun next_step :: "string list \<Rightarrow> PlaybookStep list \<Rightarrow> nat \<Rightarrow> PlaybookStep option \<times> nat" where
  \<comment> \<open>the first of the remaining steps whose tool is available, and the step counter after it\<close>
  "next_step available_ids [] n = (None, n)"
| "next_step available_ids (s # ss) n =
     (if ps_tool_id s \<notin> set available_ids then next_step available_ids ss (Suc n) else (Some s, Suc n))"

definition next_playbook_action :: "string list \<Rightarrow> ('w, proposal option) agent_op" where
  "next_playbook_action available_ids r =
     (case get_playbook (iv_playbook_id (rn_inv r)) of
        None \<Rightarrow> (Inr None, r)
      | Some p \<Rightarrow>
          (case next_step available_ids (drop (iv_playbook_step (rn_inv r)) (pb_steps p)) (iv_playbook_step (rn_inv r)) of
             (found, n) \<Rightarrow>
               (Inr (map_option (\<lambda>s. \<lparr>pr_tool_id = ps_tool_id s, pr_arguments = ps_arguments s, pr_target = [],
                                      pr_reason = ''['' @ pb_name p @ '' playbook] '' @ ps_purpose s\<rparr>) found),
                r\<lparr>rn_inv := (rn_inv r)\<lparr>iv_playbook_step := n\<rparr>\<rparr>)))"

definition memory_line :: "InvestigationMemoryEntry \<Rightarrow> string" where
  "memory_line m =
     ''- [server: '' @ opt_or (me_server_id m) ''unknown'' @ ''] ('' @ me_status m @ '') '' @ repr_string (me_problem m) @
     '' '' @ em_dash @ '' findings: '' @ py_repr (JArr (map JStr (me_findings m))) @
     ''; recommendations: '' @ py_repr (JArr (map JStr (me_recommendations m)))"

definition problem_statement_for_llm :: "InvestigationState \<Rightarrow> string" where
  "problem_statement_for_llm iv =
     (let para = newline @ newline;
          with_memory = iv_problem iv @
            (if iv_memory_context iv = [] then []
             else para @ ''For background only, not verified findings for THIS investigation '' @ em_dash @
               '' related prior investigations:'' @ newline @ join newline (map memory_line (iv_memory_context iv)));
          with_message = with_memory @
            (if iv_last_message iv = [] then [] else para @ ''The DBA just replied: '' @ repr_string (iv_last_message iv));
          with_playbook = with_message @
            (case get_playbook (iv_playbook_id iv) of
               None \<Rightarrow> []
             | Some p \<Rightarrow>
                 if iv_playbook_step iv \<ge> length (pb_steps p)
                 then para @ ''You just followed the '' @ [CHR 0x27] @ pb_name p @ [CHR 0x27] @ '' playbook '' @ em_dash @
                   '' see the transcript for what was checked and found. '' @ pb_conclusion_guidance p @
                   '' If the evidence gathered is enough to conclude, conclude now rather than proposing further tool calls. '' @
                   ''If it is NOT enough, propose one or more additional read-only diagnostic tool calls that would '' @
                   ''specifically fill the gap, before concluding '' @ em_dash @
                   '' you are not limited to this playbook's fixed steps; any tool in the available list is yours to use.''
                 else [])
      in with_playbook @
         (if iv_consecutive_record_observations iv = 0 then []
          else para @ ''You have already recorded an observation without concluding. Do not record another restatement '' @
            ''of the same finding '' @ em_dash @ '' if you have enough information to answer the DBA's question ('' @
            [CHR 0x22] @ ''nothing wrong was found'' @ [CHR 0x22] @ '' or '' @ [CHR 0x22] @ ''X isn't configured'' @ [CHR 0x22] @
            '' both count as complete answers), you MUST use action=conclude now instead.''))"

section \<open>Submitting a proposal\<close>

record loop_ctx =
  lx_channel :: string
  lx_account :: string
  lx_llm :: llm_choice
  lx_available_ids :: "string list"
  lx_tool_requirements :: "(string \<times> string list) list option"
  lx_tool_allowed_arguments :: "(string \<times> string list) list option"
  lx_tool_operation_types :: "(string \<times> OperationType) list option"

definition inv_reply :: "InvestigationState \<Rightarrow> string \<Rightarrow> string \<Rightarrow> AgentReply" where
  "inv_reply iv text status = reply text status (Some (iv_investigation_id iv))"

definition readonly_drop :: "proposal \<Rightarrow> InvestigationState \<Rightarrow> InvestigationState" where
  "readonly_drop action iv =
     add_evidence (''(a proposed '' @ pr_tool_id action @ '' was not submitted '' @ em_dash @
         '' this scheduled run is read-only and never executes an action)'')
       (add_transcript (entry READ_ONLY_GUARD_TOOL_ID ''Enforcing read-only mode on an unattended, scheduled run.''
          [(''dropped_tool_id'', JStr (pr_tool_id action)), (''dropped_reason'', JStr (pr_reason action)),
           (''message'', JStr (pr_tool_id action @ '' was NOT submitted. This is an unattended scheduled health sweep: it '' @
              ''reports findings and recommendations as text only and never takes an action. Describe what you would '' @
              ''recommend and why, and conclude '' @ em_dash @ '' a DBA will decide whether to act on it.''))]) iv)"

definition readonly_decline :: "proposal \<Rightarrow> InvestigationState \<Rightarrow> InvestigationState" where
  "readonly_decline action iv =
     add_evidence (''('' @ pr_tool_id action @ '' requires DBA approval '' @ em_dash @
         '' not requested, because this scheduled run never asks for one)'')
       (add_transcript (entry READ_ONLY_GUARD_TOOL_ID ''Declining an approval card on an unattended, scheduled run.''
          [(''dropped_tool_id'', JStr (pr_tool_id action)),
           (''message'', JStr (pr_tool_id action @ '' requires DBA approval, which an unattended scheduled run must never '' @
              ''request. Report this as something a DBA needs to look at, and conclude.''))]) iv)"

definition note_write ::
    "proposal \<Rightarrow> jdict \<Rightarrow> (string \<times> OperationType) list option \<Rightarrow> InvestigationState \<Rightarrow> InvestigationState" where
  \<comment> \<open>a write with a known re-check now awaits it\<close>
  "note_write action arguments tool_operation_types iv =
     (case map_of VERIFICATION_TOOLS_BY_WRITE_TOOL (pr_tool_id action) of
        None \<Rightarrow> iv
      | Some tools \<Rightarrow>
          if (case tool_operation_types of None \<Rightarrow> True | Some m \<Rightarrow> map_of m (pr_tool_id action) = Some WRITE)
          then iv\<lparr>iv_pending_verification := Some \<lparr>pv_tool_id = pr_tool_id action, pv_verification_tools = tools,
                      pv_session_id = map_of arguments ''session_id'', pv_reason = pr_reason action\<rparr>,
                  iv_last_verification := None\<rparr>
          else iv)"

definition update_pending_verification ::
    "proposal \<Rightarrow> jdict \<Rightarrow> ToolCallResponse \<Rightarrow> (string \<times> OperationType) list option \<Rightarrow> InvestigationState \<Rightarrow> InvestigationState" where
  "update_pending_verification action arguments response tool_operation_types iv =
     (case iv_pending_verification iv of
        Some p \<Rightarrow>
          if pr_tool_id action \<in> set (pv_verification_tools p)
          then iv\<lparr>iv_last_verification :=
                    Some (if verification_still_shows_condition (pr_tool_id action) (pv_session_id p) (rs_result response)
                          then UNRESOLVED else RESOLVED),
                  iv_pending_verification := None\<rparr>
          else note_write action arguments tool_operation_types iv
      | None \<Rightarrow> note_write action arguments tool_operation_types iv)"

definition tool_call_request ::
    "loop_ctx \<Rightarrow> ConversationState \<Rightarrow> InvestigationState \<Rightarrow> proposal \<Rightarrow> jdict \<Rightarrow> string \<Rightarrow> ToolCallRequest" where
  "tool_call_request lx state iv action arguments request_id =
     \<lparr>rq_tool_id = pr_tool_id action, rq_tool_version = None, rq_arguments = arguments,
      rq_target = dict_merge (cs_database_context state) (pr_target action), rq_reason = pr_reason action,
      rq_conversation_id = cs_conversation_id state, rq_investigation_id = Some (iv_investigation_id iv),
      rq_request_id = request_id, rq_channel = lx_channel lx, rq_channel_account_id = lx_account lx,
      rq_approval_id = None, rq_change_id = None\<rparr>"

definition submit_failed :: "'w agent_env \<Rightarrow> proposal \<Rightarrow> exn \<Rightarrow> ('w, AgentReply option) agent_op" where
  "submit_failed env action exc =
     bindM (upd_inv (add_evidence (pr_tool_id action @ '' did not respond in time: '' @ ae_exn_text env exc) \<circ>
              add_transcript (entry (pr_tool_id action) (pr_reason action) [(''error'', JStr (ae_exn_text env exc))]))) (\<lambda>_.
     reads (\<lambda>r. Some (inv_reply (rn_inv r)
       (''I couldn't get a response for '' @ pr_tool_id action @ '' in time '' @ em_dash @
        '' the database or Gateway may be under heavy load right now, which could itself be relevant to what '' @
        ''you're investigating. Try again in a moment.'') ''error'')))"

definition remember_database :: "ToolCallRequest \<Rightarrow> ToolCallResponse \<Rightarrow> ConversationState \<Rightarrow> ConversationState" where
  "remember_database request response state =
     (case map_of (rq_target request) ''database'' of
        None \<Rightarrow> state
      | Some database \<Rightarrow>
          if truthy database \<and> \<not> (rs_status response = TC_DENIED \<and> rs_failure_code response = Some ''INVALID_TARGET'')
          then state\<lparr>cs_database_context := dict_set (cs_database_context state) ''database'' database\<rparr>
          else state)"

definition relay_approval ::
    "proposal \<Rightarrow> ToolCallRequest \<Rightarrow> ToolCallResponse \<Rightarrow> ('w, AgentReply option) agent_op" where
  \<comment> \<open>the card is a validated model: without an approval id it cannot be built\<close>
  "relay_approval action request response =
     bindM (upd_state (\<lambda>st. st\<lparr>cs_pending_approval := Some \<lparr>pa_approval_id = rs_approval_id response,
              pa_tool_id = pr_tool_id action, pa_summary = pr_reason action, pa_request = request\<rparr>\<rparr>)) (\<lambda>_.
     case rs_approval_id response of
       None \<Rightarrow> raiseM (PyExn ''ValidationError'')
     | Some approval_id \<Rightarrow>
         let risk_level = (case rs_risk response of None \<Rightarrow> ''UNKNOWN'' | Some k \<Rightarrow> risk_value (ra_risk_level k));
             blast = (case rs_risk response of None \<Rightarrow> ''UNKNOWN'' | Some k \<Rightarrow> blast_value (ra_blast_radius k));
             card = \<lparr>ac_approval_id = approval_id, ac_tool_id = pr_tool_id action,
                     ac_target_summary = py_repr (JObj (rq_target request)), ac_reason = pr_reason action,
                     ac_risk_level = risk_level, ac_blast_radius = blast, ac_expires_in_seconds = 600\<rparr>
         in reads (\<lambda>r. Some ((inv_reply (rn_inv r)
              (''Recommended action: '' @ pr_tool_id action @ '' '' @ em_dash @ '' '' @ pr_reason action @ newline @
               ''Risk: '' @ risk_level @ newline @ newline @ ''This requires DBA approval before I run it.'')
              ''approval_required'')\<lparr>rp_approval_card := Some card\<rparr>)))"

definition relay_denied :: "proposal \<Rightarrow> ToolCallResponse \<Rightarrow> ('w, AgentReply option) agent_op" where
  "relay_denied action response r =
     (let code = rs_failure_code response;
          code_text = opt_or code ''None'';
          self_correctable = (case code of None \<Rightarrow> False | Some c \<Rightarrow> c \<in> set SELF_CORRECTABLE_DENIAL_CODES)
      in if self_correctable \<and> iv_turn_count (rn_inv r) < MAX_INVESTIGATION_TURNS
         then (Inr None, r\<lparr>rn_inv := add_evidence (pr_tool_id action @ '' was rejected ('' @ code_text @ ''): '' @ rs_message response)
                 (add_transcript (entry (pr_tool_id action) (pr_reason action)
                    [(''error'', JStr (rs_message response)), (''failure_code'', opt_json code)]) (rn_inv r))\<rparr>)
         else if self_correctable
         then (Inr (Some (inv_reply (rn_inv r)
                 (''I ran out of attempts trying to get the request format right for '' @ pr_tool_id action @ '' '' @ em_dash @
                  '' the last attempt failed validation ('' @ code_text @
                  ''). Try rephrasing your request, or ask again more specifically.'') ''denied'')), r)
         else (Inr (Some (inv_reply (rn_inv r) (''I can't do that: '' @ rs_message response) ''denied'')), r))"

definition relay_failed :: "proposal \<Rightarrow> ToolCallResponse \<Rightarrow> InvestigationState \<Rightarrow> InvestigationState" where
  "relay_failed action response =
     add_evidence (pr_tool_id action @ '' failed: '' @ rs_message response) \<circ>
     add_transcript (entry (pr_tool_id action) (pr_reason action) [(''error'', JStr (rs_message response))])"

definition relay_executed ::
    "loop_ctx \<Rightarrow> proposal \<Rightarrow> jdict \<Rightarrow> ToolCallResponse \<Rightarrow> InvestigationState \<Rightarrow> InvestigationState" where
  "relay_executed lx action arguments response iv =
     (let iv1 = add_transcript (entry (pr_tool_id action) (pr_reason action) (result_dict (rs_result response))) iv;
          iv2 = add_evidence (pr_tool_id action @ '': '' @ rs_message response @ affected_summary (rs_result response)) iv1;
          iv3 = iv2\<lparr>iv_actions := iv_actions iv2 @ [(pr_tool_id action, rs_result response)]\<rparr>
      in update_pending_verification action arguments response (lx_tool_operation_types lx) iv3)"

definition relay :: "loop_ctx \<Rightarrow> proposal \<Rightarrow> jdict \<Rightarrow> ToolCallRequest \<Rightarrow> ToolCallResponse \<Rightarrow> ('w, AgentReply option) agent_op" where
  \<comment> \<open>the part after the response\<close>
  "relay lx action arguments request response =
     bindM (upd_state (remember_database request response)) (\<lambda>_.
     bindM (reads (\<lambda>r. iv_read_only (rn_inv r))) (\<lambda>read_only.
     case rs_status response of
       TC_APPROVAL_REQUIRED \<Rightarrow>
         if read_only then bindM (upd_inv (readonly_decline action)) (\<lambda>_. returnM None)
         else relay_approval action request response
     | TC_DENIED \<Rightarrow> relay_denied action response
     | TC_FAILED \<Rightarrow> bindM (upd_inv (relay_failed action response)) (\<lambda>_. returnM None)
     | TC_EXECUTED \<Rightarrow> bindM (upd_inv (relay_executed lx action arguments response)) (\<lambda>_. returnM None)))"

definition send_proposal :: "'w agent_env \<Rightarrow> loop_ctx \<Rightarrow> proposal \<Rightarrow> ('w, AgentReply option) agent_op" where
  "send_proposal env lx action =
     (let arguments = strip_unschematized_arguments action (lx_tool_allowed_arguments lx)
      in bindM (world (ae_new_id env ''req'')) (\<lambda>request_id.
         bindM (reads (\<lambda>r. tool_call_request lx (rn_state r) (rn_inv r) action arguments request_id)) (\<lambda>request.
         bindM (attempt (world (http_submit env request))) (\<lambda>outcome.
         case outcome of
           Inl exc \<Rightarrow> submit_failed env action exc
         | Inr response \<Rightarrow> relay lx action arguments request response))))"

definition submit_and_relay :: "'w agent_env \<Rightarrow> loop_ctx \<Rightarrow> proposal \<Rightarrow> ('w, AgentReply option) agent_op" where
  "submit_and_relay env lx action =
     bindM (reads (\<lambda>r. iv_read_only (rn_inv r))) (\<lambda>read_only.
     if read_only \<and> \<not> is_confirmed_read_tool (pr_tool_id action) (lx_tool_operation_types lx)
     then bindM (upd_inv (readonly_drop action)) (\<lambda>_. returnM None)
     else send_proposal env lx action)"

end
