(* ===== verification/Llm_Providers.thy ===== *)
theory Llm_Providers
  imports Agent_Loop Complex_Main
begin

text \<open>
  The language model side of the Agent: what every API-backed provider does around its vendor's
  call (agent/llm/base.py), the registry of providers (agent/llm/registry.py) and the walk over
  other vendors when one is down (agent/llm/fallback.py). The vendor's calls, the validation of
  what they return, the clock, the sleep and \<open>asyncio.wait_for\<close> are parameters. A prompt is the
  values that are put into its text; seconds are rational numbers.
\<close>

section \<open>Errors and prompts\<close>

datatype llm_exn =
    LLMProviderUnavailableError string string llm_exn  \<comment> \<open>provider, operation, cause\<close>
  | LlmTimeoutError
  | LlmExn exn

record LLMProvider =
  lp_provider_name :: string
  lp_model :: string

datatype llm_prompt =
    IntentPrompt string "string list" "string list"
  | ActionPrompt decide_input
  | CritiquePrompt critique_input

type_synonym ('s, 'a) llm_op = "('s, llm_exn, 'a) comp"
type_synonym ('s, 'a) timed = "('s, 'a) llm_op \<Rightarrow> rat \<Rightarrow> ('s, 'a) llm_op"

record 'w vendor =
  vd_call_tool :: "LLMProvider \<Rightarrow> llm_prompt \<Rightarrow> ('w, jdict) llm_op"
  vd_list_models :: "LLMProvider \<Rightarrow> ('w, string list) llm_op"
  vd_parse_action :: "jdict \<Rightarrow> llm_exn + AgentAction"
  vd_parse_intent :: "jdict \<Rightarrow> llm_exn + IntentExtraction"
  vd_parse_verdict :: "jdict \<Rightarrow> llm_exn + CritiqueVerdict"
  vd_clock :: "'w \<Rightarrow> rat"
  vd_sleep :: "rat \<Rightarrow> 'w \<Rightarrow> 'w"
  vd_wait_action :: "('w \<times> jdict option, AgentAction) timed"
  vd_wait_intent :: "('w \<times> jdict option, IntentExtraction) timed"
  vd_wait_verdict :: "('w, CritiqueVerdict) timed"

section \<open>One provider (base.py)\<close>

definition OVERALL_DEADLINE_SECONDS :: rat where
  "OVERALL_DEADLINE_SECONDS = 20"

definition CALL_RETRIES :: nat where
  "CALL_RETRIES = 1"

definition CALL_RETRY_DELAY_SECONDS :: rat where
  "CALL_RETRY_DELAY_SECONDS = 1"

definition recover_misplaced_reason :: "jdict \<Rightarrow> llm_exn + jdict" where
  "recover_misplaced_reason data =
     (let get = (\<lambda>k d. case map_of d k of None \<Rightarrow> JNull | Some v \<Rightarrow> v)
      in if get ''action'' data \<noteq> JStr ''propose_tool_call'' then Inr data
         else if truthy (get ''reason'' data) then Inr data
         else (case get ''arguments'' data of
                 JObj d \<Rightarrow> Inr (if truthy (get ''reason'' d) then dict_set data ''reason'' (get ''reason'' d) else data)
               | v \<Rightarrow> if truthy v then Inl (LlmExn (PyExn ''AttributeError'')) else Inr data))"

fun call_with_retry_unbounded :: "(rat \<Rightarrow> 's \<Rightarrow> 's) \<Rightarrow> nat \<Rightarrow> ('s, 'a) llm_op \<Rightarrow> ('s, 'a) llm_op" where
  "call_with_retry_unbounded sleep 0 fn s = fn s"
| "call_with_retry_unbounded sleep (Suc retries) fn s =
     (case fn s of
        (Inr a, s') \<Rightarrow> (Inr a, s')
      | (Inl _, s') \<Rightarrow> call_with_retry_unbounded sleep retries fn (sleep CALL_RETRY_DELAY_SECONDS s'))"

definition call_with_retry :: "(rat \<Rightarrow> 's \<Rightarrow> 's) \<Rightarrow> ('s, 'a) timed \<Rightarrow> ('s, 'a) llm_op \<Rightarrow> ('s, 'a) llm_op" where
  \<comment> \<open>a timeout is raised again as a timeout\<close>
  "call_with_retry sleep wait_for fn = wait_for (call_with_retry_unbounded sleep CALL_RETRIES fn) OVERALL_DEADLINE_SECONDS"

definition structured_attempt ::
    "'w vendor \<Rightarrow> LLMProvider \<Rightarrow> llm_prompt \<Rightarrow> (jdict \<Rightarrow> llm_exn + 'a) \<Rightarrow> ('w \<times> jdict option, 'a) llm_op" where
  \<comment> \<open>the second part of the state is \<open>last_raw\<close>\<close>
  "structured_attempt v p prompt parse s =
     (case vd_call_tool v p prompt (fst s) of
        (Inl e, w) \<Rightarrow> (Inl e, (w, None))
      | (Inr data, w) \<Rightarrow> (parse data, (w, Some data)))"

definition sleep_pair :: "'w vendor \<Rightarrow> rat \<Rightarrow> 'w \<times> 'r \<Rightarrow> 'w \<times> 'r" where
  "sleep_pair v t s = (vd_sleep v t (fst s), snd s)"

definition raw_intent :: "string \<Rightarrow> IntentExtraction" where
  "raw_intent message =
     \<lparr>ie_is_dba_task = True, ie_is_greeting_or_chitchat = False, ie_database_hint = None, ie_environment_hint = None,
      ie_instance_hint = None, ie_meta_command = None, ie_problem_summary = strip message\<rparr>"

definition extract_intent_or_raise ::
    "'w vendor \<Rightarrow> LLMProvider \<Rightarrow> string \<Rightarrow> string list \<Rightarrow> string list \<Rightarrow> ('w, IntentExtraction) llm_op" where
  "extract_intent_or_raise v p message names hints w =
     (case call_with_retry (sleep_pair v) (vd_wait_intent v)
             (structured_attempt v p (IntentPrompt message names hints) (vd_parse_intent v)) (w, None) of
        (Inr intent, (w', _)) \<Rightarrow> (Inr intent, w')
      | (Inl exc, (w', Some _)) \<Rightarrow> (Inr (raw_intent message), w')
      | (Inl exc, (w', None)) \<Rightarrow> (Inl (LLMProviderUnavailableError (lp_provider_name p) ''extract_intent'' exc), w'))"

definition parse_decision :: "'w vendor \<Rightarrow> jdict \<Rightarrow> llm_exn + AgentAction" where
  "parse_decision v data = bindE (recover_misplaced_reason data) (vd_parse_action v)"

definition only_offered :: "string list \<Rightarrow> AgentAction \<Rightarrow> AgentAction" where
  \<comment> \<open>a tool that was not offered is refused\<close>
  "only_offered available_tool_ids action =
     (case action of
        ProposeToolCall pr \<Rightarrow>
          if pr_tool_id pr \<in> set available_tool_ids then action
          else AskClarification (''I don't have a tool available for that action '' @ em_dash @
                 '' could you clarify what you'd like me to check?'')
      | _ \<Rightarrow> action)"

definition decide_next_action_or_raise :: "'w vendor \<Rightarrow> LLMProvider \<Rightarrow> decide_input \<Rightarrow> ('w, AgentAction) llm_op" where
  "decide_next_action_or_raise v p input w =
     (case call_with_retry (sleep_pair v) (vd_wait_action v)
             (structured_attempt v p (ActionPrompt input) (parse_decision v)) (w, None) of
        (Inr action, (w', _)) \<Rightarrow> (Inr (only_offered (di_available_tool_ids input) action), w')
      | (Inl exc, (w', Some _)) \<Rightarrow>
          (Inr (AskClarification (''I couldn't work out a safe next step '' @ em_dash @
             '' could you tell me more about what you'd like me to check?'')), w')
      | (Inl exc, (w', None)) \<Rightarrow> (Inl (LLMProviderUnavailableError (lp_provider_name p) ''decide_next_action'' exc), w'))"

definition unavailable_question :: "LLMProvider \<Rightarrow> string" where
  "unavailable_question p =
     ''The '' @ lp_provider_name p @ '' service is temporarily unavailable (high demand or a transient error) '' @ em_dash @
     '' please try again in a moment.''"

definition or_degraded :: "'a \<Rightarrow> ('s, 'a) llm_op \<Rightarrow> ('s, 'a) llm_op" where
  \<comment> \<open>\<open>except LLMProviderUnavailableError: return ...\<close>\<close>
  "or_degraded d m s = (case m s of (Inl (LLMProviderUnavailableError _ _ _), s') \<Rightarrow> (Inr d, s') | r \<Rightarrow> r)"

definition extract_intent ::
    "'w vendor \<Rightarrow> LLMProvider \<Rightarrow> string \<Rightarrow> string list \<Rightarrow> string list \<Rightarrow> ('w, IntentExtraction) llm_op" where
  "extract_intent v p message names hints = or_degraded (raw_intent message) (extract_intent_or_raise v p message names hints)"

definition decide_next_action :: "'w vendor \<Rightarrow> LLMProvider \<Rightarrow> decide_input \<Rightarrow> ('w, AgentAction) llm_op" where
  "decide_next_action v p input =
     or_degraded (AskClarification (unavailable_question p)) (decide_next_action_or_raise v p input)"

definition critique_conclusion :: "'w vendor \<Rightarrow> LLMProvider \<Rightarrow> critique_input \<Rightarrow> ('w, CritiqueVerdict) llm_op" where
  "critique_conclusion v p input =
     call_with_retry (vd_sleep v) (vd_wait_verdict v)
       (bindM (vd_call_tool v p (CritiquePrompt input)) (\<lambda>data. liftE (vd_parse_verdict v data)))"

section \<open>The walk over vendors (fallback.py)\<close>

definition MIN_PER_ATTEMPT_BUDGET_SECONDS :: rat where
  "MIN_PER_ATTEMPT_BUDGET_SECONDS = 5"

definition per_attempt_budget_seconds :: "rat \<Rightarrow> nat \<Rightarrow> rat" where
  "per_attempt_budget_seconds total_seconds attempts =
     (if attempts \<le> 1 then total_seconds
      else min total_seconds (max MIN_PER_ATTEMPT_BUDGET_SECONDS (total_seconds / of_nat attempts)))"

definition skips :: "llm_exn \<Rightarrow> bool" where
  \<comment> \<open>\<open>except (LLMProviderUnavailableError, TimeoutError)\<close>\<close>
  "skips e = (case e of LlmExn _ \<Rightarrow> False | _ \<Rightarrow> True)"

definition no_provider :: llm_exn where
  "no_provider = LlmExn (PyExn ''RuntimeError'')"

fun walk_chain ::
    "('s \<Rightarrow> rat) \<Rightarrow> ('s, 'a) timed \<Rightarrow> ('p \<Rightarrow> ('s, 'a) llm_op) \<Rightarrow> (llm_exn \<Rightarrow> llm_exn) \<Rightarrow> rat \<Rightarrow> rat \<Rightarrow> rat \<Rightarrow>
       (string \<times> ('s, 'p) llm_op) list \<Rightarrow> string list \<Rightarrow> llm_exn option \<Rightarrow> ('s, 'a \<times> FallbackEvent list) llm_op" where
  \<comment> \<open>\<open>failed\<close> are the providers lost so far, \<open>lost\<close> wraps the last error\<close>
  "walk_chain clock runner call lost deadline budget started [] failed last_error s =
     (Inl (lost (case last_error of None \<Rightarrow> no_provider | Some e \<Rightarrow> e)), s)"
| "walk_chain clock runner call lost deadline budget started ((name, factory) # chain) failed last_error s =
     (let remaining = deadline - (clock s - started)
      in if remaining \<le> 0 then (Inl (lost (case last_error of None \<Rightarrow> no_provider | Some e \<Rightarrow> e)), s)
         else (case factory s of
                 (Inl exc, s1) \<Rightarrow>
                   walk_chain clock runner call lost deadline budget started chain (failed @ [name]) (Some exc) s1
               | (Inr provider, s1) \<Rightarrow>
                   (case runner (call provider) (min budget remaining) s1 of
                      (Inl exc, s2) \<Rightarrow>
                        if skips exc
                        then walk_chain clock runner call lost deadline budget started chain (failed @ [name]) (Some exc) s2
                        else (Inl exc, s2)
                    | (Inr result, s2) \<Rightarrow>
                        (Inr (result, if failed = [] then []
                                      else [\<lparr>fe_failed_providers = failed, fe_used_provider = name\<rparr>]), s2))))"

definition walk ::
    "('s \<Rightarrow> rat) \<Rightarrow> ('s, 'a) timed \<Rightarrow> ('p \<Rightarrow> ('s, 'a) llm_op) \<Rightarrow> string \<Rightarrow> string \<Rightarrow> rat \<Rightarrow>
       (string \<times> ('s, 'p) llm_op) list \<Rightarrow> ('s, 'a \<times> FallbackEvent list) llm_op" where
  "walk clock runner call primary what deadline chain s =
     walk_chain clock runner call (LLMProviderUnavailableError primary what) deadline
       (per_attempt_budget_seconds deadline (length chain)) (clock s) chain [] None s"

definition add_new :: "string \<Rightarrow> string list \<Rightarrow> string list" where
  "add_new x xs = (if x \<in> set xs then xs else xs @ [x])"

definition join_and :: "string list \<Rightarrow> string" where
  "join_and names = (if length names = 1 then hd names else join '', '' (butlast names) @ '' and '' @ last names)"

definition fallback_notice_text :: "FallbackEvent list \<Rightarrow> string" where
  "fallback_notice_text events =
     (let failed = fold add_new (concat (map fe_failed_providers events)) [];
          used = fold add_new (map fe_used_provider events) []
      in if failed = [] \<or> used = [] then []
         else ''(The '' @ join_and failed @ '' '' @ (if length failed = 1 then ''service was'' else ''services were'') @
              '' unavailable, so I used '' @ join_and used @ '' instead.)'')"

section \<open>The registry (registry.py)\<close>

definition PROVIDER_CLASSES :: "string list" where
  "PROVIDER_CLASSES = [''anthropic'', ''openai'', ''gemini'', ''deepseek'']"

type_synonym sdk = "string \<Rightarrow> string \<Rightarrow> string \<Rightarrow> llm_exn + string"
  \<comment> \<open>constructing a provider class from its name, key and model: its effective model\<close>

record llm_registry =
  rg_settings :: Settings
  rg_allow_user_model_selection :: bool
  rg_cache :: "((string \<times> string) \<times> LLMProvider) list"
  rg_fixed :: "LLMProvider option"

definition api_key :: "Settings \<Rightarrow> string \<Rightarrow> string" where
  \<comment> \<open>\<open>self._keys.get(provider, "")\<close>\<close>
  "api_key st provider = (case map_of (llm_api_keys st) provider of None \<Rightarrow> [] | Some k \<Rightarrow> k)"

definition selection_enabled :: "llm_registry \<Rightarrow> bool" where
  "selection_enabled rg \<longleftrightarrow>
     rg_fixed rg = None \<and> rg_allow_user_model_selection rg \<and> \<not> llm_selection_locked (rg_settings rg)"

definition construct :: "sdk \<Rightarrow> Settings \<Rightarrow> string \<Rightarrow> string \<Rightarrow> llm_exn + LLMProvider" where
  "construct sdk st provider model =
     (if provider = ''mock'' then Inr \<lparr>lp_provider_name = ''mock'', lp_model = ''mock-planner''\<rparr>
      else if strip (api_key st provider) = [] then Inl (LlmExn (PyExn ''ValueError''))
      else if provider \<notin> set PROVIDER_CLASSES then Inl (LlmExn (PyExn ''ValueError''))
      else bindE (sdk provider (api_key st provider) model) (\<lambda>m. Inr \<lparr>lp_provider_name = provider, lp_model = m\<rparr>))"

definition build :: "sdk \<Rightarrow> string \<Rightarrow> string option \<Rightarrow> (llm_registry, LLMProvider) llm_op" where
  "build sdk provider model rg =
     (case rg_fixed rg of
        Some p \<Rightarrow> (Inr p, rg)
      | None \<Rightarrow>
          (case map_of (rg_cache rg) (provider, opt_or model []) of
             Some p \<Rightarrow> (Inr p, rg)
           | None \<Rightarrow>
               (case construct sdk (rg_settings rg) provider (opt_or model []) of
                  Inl e \<Rightarrow> (Inl e, rg)
                | Inr p \<Rightarrow> (Inr p, rg\<lparr>rg_cache := ((provider, opt_or model []), p) # rg_cache rg\<rparr>))))"

definition for_conversation :: "sdk \<Rightarrow> string option \<Rightarrow> string option \<Rightarrow> (llm_registry, LLMProvider) llm_op" where
  "for_conversation sdk provider model rg =
     (case rg_fixed rg of
        Some p \<Rightarrow> (Inr p, rg)
      | None \<Rightarrow>
          let (default_provider, default_model) = effective_default_llm (rg_settings rg);
              chosen_provider = opt_or provider default_provider;
              chosen_model = (if nonempty model then model else if \<not> nonempty provider then Some default_model else None)
          in (case build sdk chosen_provider chosen_model rg of
                (Inl (LlmExn (PyExn e)), rg') \<Rightarrow>
                  if e = ''ValueError'' then build sdk default_provider (Some default_model) rg'
                  else (Inl (LlmExn (PyExn e)), rg')
              | r \<Rightarrow> r))"

datatype llm_handle = Bare LLMProvider | Resilient LLMProvider "string list"

definition resilient_for_conversation :: "sdk \<Rightarrow> string option \<Rightarrow> string option \<Rightarrow> (llm_registry, llm_handle) llm_op" where
  "resilient_for_conversation sdk provider model rg =
     (case rg_fixed rg of
        Some p \<Rightarrow> (Inr (Bare p), rg)
      | None \<Rightarrow>
          bindM (for_conversation sdk provider model) (\<lambda>primary.
            let rest = filter (\<lambda>n. n \<noteq> lp_provider_name primary) (configured_llm_providers (rg_settings rg))
            in returnM (if lp_provider_name primary = ''mock'' \<or> rest = [] then Bare primary else Resilient primary rest)) rg)"

definition validate_selection :: "llm_registry \<Rightarrow> string \<Rightarrow> string option" where
  "validate_selection rg provider =
     (if \<not> selection_enabled rg then Some ''Model selection is disabled by this deployment's configuration.''
      else if provider = ''mock'' then None
      else if provider \<notin> set PROVIDER_CLASSES
      then Some (''Unknown provider '' @ [CHR 0x27] @ provider @ [CHR 0x27] @ ''. Choose one of: '' @ join '', '' PROVIDER_CLASSES)
      else if strip (api_key (rg_settings rg) provider) = []
      then Some (''Provider '' @ [CHR 0x27] @ provider @ [CHR 0x27] @ '' is not configured (no API key).'')
      else None)"

definition registry_list_models :: "'w vendor \<Rightarrow> sdk \<Rightarrow> llm_registry \<Rightarrow> string \<Rightarrow> ('w, string list) llm_op" where
  "registry_list_models v sdk rg provider =
     (if strip (api_key (rg_settings rg) provider) = [] then returnM []
      else bindM (liftE (construct sdk (rg_settings rg) provider [])) (vd_list_models v))"

definition ellipsis :: string where
  \<comment> \<open>the UTF-8 encoding of U+2026\<close>
  "ellipsis = [CHR 0xE2, CHR 0x80, CHR 0xA6]"

definition models_line :: "string \<Rightarrow> string list \<Rightarrow> string" where
  "models_line provider models =
     (let preview = join '', '' (take 8 models) @ (if length models > 8 then ''  '' @ ellipsis else [])
      in ''- '' @ provider @ '': '' @ (if preview = [] then ''(no models returned)'' else preview))"

fun model_lines :: "'w vendor \<Rightarrow> sdk \<Rightarrow> llm_registry \<Rightarrow> string list \<Rightarrow> ('w, string list) llm_op" where
  "model_lines v sdk rg [] = returnM []"
| "model_lines v sdk rg (p # ps) =
     bindM (registry_list_models v sdk rg p) (\<lambda>models.
     bindM (model_lines v sdk rg ps) (\<lambda>rest. returnM (models_line p models # rest)))"

definition describe_available :: "'w vendor \<Rightarrow> sdk \<Rightarrow> llm_registry \<Rightarrow> ('w, string) llm_op" where
  "describe_available v sdk rg =
     (let configured = configured_llm_providers (rg_settings rg); (p, m) = effective_default_llm (rg_settings rg)
      in if configured = []
         then returnM (''No LLM providers are configured. Set ANTHROPIC_API_KEY / OPENAI_API_KEY / GEMINI_API_KEY / '' @
                ''DEEPSEEK_API_KEY to enable one. Currently using the deterministic offline planner.'')
         else bindM (model_lines v sdk rg configured) (\<lambda>lines.
              returnM (''Available LLMs:'' @ newline @ join newline lines @
                newline @ ''Current default: '' @ p @ (if m = [] then '' (provider default)'' else '' / '' @ m) @
                (if selection_enabled rg then []
                 else newline @ ''(Per-conversation switching is disabled by configuration.)''))))"

section \<open>A conversation's planner\<close>

record 'w llm_world =
  lw_registry :: llm_registry
  lw_rest :: 'w

definition on_registry :: "(llm_registry, 'a) llm_op \<Rightarrow> ('w llm_world, 'a) llm_op" where
  "on_registry = zoom lw_registry (\<lambda>x s. s\<lparr>lw_registry := x\<rparr>)"

definition on_vendor :: "('w, 'a) llm_op \<Rightarrow> ('w llm_world, 'a) llm_op" where
  "on_vendor = zoom lw_rest (\<lambda>x s. s\<lparr>lw_rest := x\<rparr>)"

definition chain_of :: "sdk \<Rightarrow> LLMProvider \<Rightarrow> string list \<Rightarrow> (string \<times> ('w llm_world, LLMProvider) llm_op) list" where
  "chain_of sdk primary rest =
     (lp_provider_name primary, returnM primary) # map (\<lambda>n. (n, on_registry (build sdk n None))) rest"

definition fallback_decide ::
    "'w vendor \<Rightarrow> sdk \<Rightarrow> ('w llm_world, AgentAction) timed \<Rightarrow> LLMProvider \<Rightarrow> string list \<Rightarrow> decide_input \<Rightarrow>
       ('w llm_world, AgentAction \<times> FallbackEvent list) llm_op" where
  "fallback_decide v sdk runner primary rest input =
     or_degraded (AskClarification (unavailable_question primary), [])
       (walk (vd_clock v \<circ> lw_rest) runner (\<lambda>p. on_vendor (decide_next_action_or_raise v p input))
          (lp_provider_name primary) ''decide_next_action'' OVERALL_DEADLINE_SECONDS (chain_of sdk primary rest))"

definition fallback_extract_intent ::
    "'w vendor \<Rightarrow> sdk \<Rightarrow> ('w llm_world, IntentExtraction) timed \<Rightarrow> LLMProvider \<Rightarrow> string list \<Rightarrow>
       string \<Rightarrow> string list \<Rightarrow> string list \<Rightarrow> ('w llm_world, IntentExtraction \<times> FallbackEvent list) llm_op" where
  "fallback_extract_intent v sdk runner primary rest message names hints =
     or_degraded (raw_intent message, [])
       (walk (vd_clock v \<circ> lw_rest) runner (\<lambda>p. on_vendor (extract_intent_or_raise v p message names hints))
          (lp_provider_name primary) ''extract_intent'' OVERALL_DEADLINE_SECONDS (chain_of sdk primary rest))"

end
