(* ===== verification/Llm_Guarantees.thy ===== *)
theory Llm_Guarantees
  imports Llm_Providers
begin

text \<open>
  What the language model side promises the rest of the Agent: a decision never raises and never
  names a tool that was not offered; the walk over vendors ends within its one deadline, reaches
  every configured vendor within it, and discloses each substitution; the registry's cache is
  not observable.
\<close>

section \<open>Decisions\<close>

definition offered_only :: "string list \<Rightarrow> AgentAction \<Rightarrow> bool" where
  "offered_only ids a \<longleftrightarrow> (\<forall>pr. a = ProposeToolCall pr \<longrightarrow> pr_tool_id pr \<in> set ids)"

lemma offered_only_clarification [simp]: "offered_only ids (AskClarification q)"
  by (simp add: offered_only_def)

lemma only_offered: "offered_only ids (only_offered ids a)"
  by (cases a) (auto simp: only_offered_def offered_only_def)

lemma decide_or_raise_cases:
  assumes "decide_next_action_or_raise v p input w = (r, w')"
  shows "(\<exists>a. r = Inr a \<and> offered_only (di_available_tool_ids input) a) \<or>
     (\<exists>c. r = Inl (LLMProviderUnavailableError (lp_provider_name p) ''decide_next_action'' c))"
  using assms only_offered by (auto simp: decide_next_action_or_raise_def split: prod.splits sum.splits option.splits)

lemma bare_decision:
  assumes "decide_next_action v p input w = (r, w')"
  shows "\<exists>a. r = Inr a \<and> offered_only (di_available_tool_ids input) a"
proof -
  obtain r0 w0 where d: "decide_next_action_or_raise v p input w = (r0, w0)" by fastforce
  from decide_or_raise_cases [OF d] assms d show ?thesis
    by (auto simp: decide_next_action_def or_degraded_def)
qed

section \<open>The walk\<close>


lemma walk_cases:
  fixes clock :: "'s \<Rightarrow> rat"
  assumes "walk_chain clock runner call lost deadline budget started ((name, f) # chain) failed err s = (r, s')"
  obtains (late) "deadline - (clock s - started) \<le> 0" "r = Inl (lost (case err of None \<Rightarrow> no_provider | Some e \<Rightarrow> e))" "s' = s"
  | (unbuilt) e s1 where "0 < deadline - (clock s - started)" "f s = (Inl e, s1)"
      "walk_chain clock runner call lost deadline budget started chain (failed @ [name]) (Some e) s1 = (r, s')"
  | (skipped) p s1 e s2 where "0 < deadline - (clock s - started)" "f s = (Inr p, s1)"
      "runner (call p) (min budget (deadline - (clock s - started))) s1 = (Inl e, s2)" "skips e"
      "walk_chain clock runner call lost deadline budget started chain (failed @ [name]) (Some e) s2 = (r, s')"
  | (raised) p s1 e where "0 < deadline - (clock s - started)" "f s = (Inr p, s1)"
      "runner (call p) (min budget (deadline - (clock s - started))) s1 = (Inl e, s')" "\<not> skips e" "r = Inl e"
  | (answered) p s1 a where "0 < deadline - (clock s - started)" "f s = (Inr p, s1)"
      "runner (call p) (min budget (deadline - (clock s - started))) s1 = (Inr a, s')"
      "r = Inr (a, if failed = [] then [] else [\<lparr>fe_failed_providers = failed, fe_used_provider = name\<rparr>])"
proof (cases "deadline - (clock s - started) \<le> 0")
  case False
  note rem = this
  obtain b s1 where b: "f s = (b, s1)" by fastforce
  show ?thesis
  proof (cases b)
    case (Inl e)
    with assms rem b show ?thesis by (intro unbuilt) (simp_all add: Let_def)
  next
    case (Inr p)
    obtain q s2 where q: "runner (call p) (min budget (deadline - (clock s - started))) s1 = (q, s2)" by fastforce
    show ?thesis
    proof (cases q)
      case e: (Inl e)
      show ?thesis
      proof (cases "skips e")
        case True
        with assms rem b Inr q e show ?thesis by (intro skipped) (simp_all add: Let_def)
      next
        case False
        with assms rem b Inr q e show ?thesis by (intro raised) (auto simp: Let_def)
      qed
    next
      case (Inr a)
      with assms rem b \<open>b = Inr p\<close> q show ?thesis by (intro answered) (auto simp: Let_def)
    qed
  qed
next
  case True
  with assms show ?thesis by (intro late) (auto simp: Let_def)
qed

definition answers :: "('s, 'a) timed \<Rightarrow> ('p \<Rightarrow> ('s, 'a) llm_op) \<Rightarrow> 'a \<Rightarrow> bool" where
  "answers runner call a \<longleftrightarrow> (\<exists>p t s. fst (runner (call p) t s) = Inr a)"

definition disclosed :: "string list \<Rightarrow> string \<Rightarrow> FallbackEvent list" where
  "disclosed failed name =
     (if failed = [] then [] else [\<lparr>fe_failed_providers = failed, fe_used_provider = name\<rparr>])"

definition asked :: "('s, 'a) timed \<Rightarrow> ('p \<Rightarrow> ('s, 'a) llm_op) \<Rightarrow> rat \<Rightarrow> ('s, 'p) llm_op \<Rightarrow> llm_exn + 'a \<Rightarrow> 's \<Rightarrow> bool" where
  \<comment> \<open>the vendor this factory builds was called, for at most its budget, with this outcome\<close>
  "asked runner call budget f x s' \<longleftrightarrow>
     (\<exists>u p s1 t. f u = (Inr p, s1) \<and> t \<le> budget \<and> runner (call p) t s1 = (x, s'))"

definition vendor_lost :: "('s, 'a) timed \<Rightarrow> ('p \<Rightarrow> ('s, 'a) llm_op) \<Rightarrow> rat \<Rightarrow> ('s, 'p) llm_op \<Rightarrow> bool" where
  \<comment> \<open>it could not be built, or its call failed as unavailable or by its timeout\<close>
  "vendor_lost runner call budget f \<longleftrightarrow>
     (\<exists>u e u'. f u = (Inl e, u')) \<or> (\<exists>e s'. asked runner call budget f (Inl e) s' \<and> skips e)"

lemma asked_answers: "asked runner call budget f (Inr a) s' \<Longrightarrow> answers runner call a"
  unfolding asked_def answers_def by (metis fst_conv)

lemma walk_result:
  assumes "walk_chain clock runner call lost deadline budget started chain failed err s = (Inr (a, evs), s')"
  shows "\<exists>pre name f post. chain = pre @ (name, f) # post \<and> evs = disclosed (failed @ map fst pre) name \<and>
     asked runner call budget f (Inr a) s' \<and> list_all (\<lambda>(n, g). vendor_lost runner call budget g) pre"
  using assms
proof (induction chain arbitrary: failed err s)
  case (Cons x chain)
  obtain name f where x: "x = (name, f)" by force
  have skip: ?case
    if "walk_chain clock runner call lost deadline budget started chain (failed @ [name]) e t = (Inr (a, evs), s')"
      and "vendor_lost runner call budget f" for e t
  proof -
    from Cons.IH [OF that(1)] obtain pre n g post where "asked runner call budget g (Inr a) s'" "chain = pre @ (n, g) # post"
      "evs = disclosed ((failed @ [name]) @ map fst pre) n" "list_all (\<lambda>(n, g). vendor_lost runner call budget g) pre" by blast
    moreover from this have "x # chain = (x # pre) @ (n, g) # post" "evs = disclosed (failed @ map fst (x # pre)) n"
      "list_all (\<lambda>(n, g). vendor_lost runner call budget g) (x # pre)" using that(2) by (simp_all add: x)
    ultimately show ?thesis by blast
  qed
  from Cons.prems [unfolded x] show ?case
  proof (cases rule: walk_cases)
    case (unbuilt e s1)
    then have "vendor_lost runner call budget f" unfolding vendor_lost_def by blast
    with unbuilt(3) show ?thesis by (rule skip)
  next
    case (skipped p s1 e s2)
    then have "asked runner call budget f (Inl e) s2" unfolding asked_def by (meson min.cobounded1)
    with skipped(4) have "vendor_lost runner call budget f" unfolding vendor_lost_def by blast
    with skipped(5) show ?thesis by (rule skip)
  next
    case (answered p s1 a')
    then have "asked runner call budget f (Inr a) s'" unfolding asked_def by (metis Inr_inject Pair_inject min.cobounded1)
    moreover have "x # chain = [] @ (name, f) # chain" "evs = disclosed (failed @ map fst []) name"
      "list_all (\<lambda>(n, g). vendor_lost runner call budget g) []"
      using answered x by (simp_all add: disclosed_def)
    ultimately show ?thesis by blast
  qed auto
qed simp

lemma walk_error:
  assumes "walk_chain clock runner call lost deadline budget started chain failed err s = (Inl e, s')"
  shows "(\<exists>c. e = lost c) \<or> (\<not> skips e \<and> (\<exists>p t u. fst (runner (call p) t u) = Inl e))"
  using assms
proof (induction chain arbitrary: failed err s)
  case (Cons x chain)
  obtain name f where x: "x = (name, f)" by force
  from Cons.prems [unfolded x] show ?case
  proof (cases rule: walk_cases)
    case (raised p s1 e')
    then have "fst (runner (call p) (min budget (deadline - (clock s - started))) s1) = Inl e" "\<not> skips e" by simp_all
    then show ?thesis by blast
  qed (use Cons.IH in auto)
qed auto

definition punctual :: "('s \<Rightarrow> rat) \<Rightarrow> ('s, 'a) timed \<Rightarrow> bool" where
  \<comment> \<open>time does not run backwards, and a timed call is over after its timeout\<close>
  "punctual clock runner \<longleftrightarrow> (\<forall>m t s. 0 \<le> t \<longrightarrow> clock s \<le> clock (snd (runner m t s)) \<and> clock (snd (runner m t s)) \<le> clock s + t)"

definition instant :: "('s \<Rightarrow> rat) \<Rightarrow> (string \<times> ('s, 'p) llm_op) list \<Rightarrow> bool" where
  \<comment> \<open>building a provider object takes no time\<close>
  "instant clock chain \<longleftrightarrow> (\<forall>(name, f) \<in> set chain. \<forall>s. clock (snd (f s)) = clock s)"

lemma punctualD: "punctual clock runner \<Longrightarrow> runner m t s = (r, s') \<Longrightarrow> 0 \<le> t \<Longrightarrow> clock s' \<le> clock s + t"
  unfolding punctual_def by (metis snd_conv)

lemma instantD: "instant clock ((name, f) # chain) \<Longrightarrow> f s = (r, s') \<Longrightarrow> clock s' = clock s"
  by (auto simp: instant_def) (metis snd_conv)

lemma instant_Cons: "instant clock (x # chain) \<Longrightarrow> instant clock chain"
  by (simp add: instant_def)

lemma walk_time:
  assumes "punctual clock runner" and "0 \<le> budget"
    and "instant clock chain" and "clock s \<le> started + deadline"
    and "walk_chain clock runner call lost deadline budget started chain failed err s = (r, s')"
  shows "clock s' \<le> started + deadline"
  using assms(3-5)
proof (induction chain arbitrary: failed err s)
  case (Cons x chain)
  obtain name f where x: "x = (name, f)" by force
  let ?rem = "deadline - (clock s - started)"
  have called: "clock s2 \<le> started + deadline"
    if "0 < ?rem" "f s = (Inr p, s1)" "runner m (min budget ?rem) s1 = (q, s2)" for p s1 m q s2
  proof -
    have "clock s2 \<le> clock s1 + min budget ?rem" using punctualD [OF assms(1) that(3)] that(1) assms(2) by simp
    also have "\<dots> \<le> started + deadline" using instantD [OF Cons.prems(1) [unfolded x] that(2)] by simp
    finally show ?thesis .
  qed
  from Cons.prems(3) [unfolded x] show ?case
  proof (cases rule: walk_cases)
    case (unbuilt e s1)
    then show ?thesis using Cons.IH [OF instant_Cons [OF Cons.prems(1)]] Cons.prems(2) instantD [OF Cons.prems(1) [unfolded x]] by metis
  next
    case (skipped p s1 e s2)
    then show ?thesis using Cons.IH [OF instant_Cons [OF Cons.prems(1)]] called by metis
  qed (use called Cons.prems(2) in auto)
qed simp

section \<open>Every vendor gets its turn\<close>

definition reachable_vendor :: "('s, 'a) timed \<Rightarrow> ('p \<Rightarrow> ('s, 'a) llm_op) \<Rightarrow> ('s, 'p) llm_op \<Rightarrow> bool" where
  \<comment> \<open>it can be built, and answers whatever time it is given\<close>
  "reachable_vendor runner call f \<longleftrightarrow>
     (\<forall>s. \<exists>p s1. f s = (Inr p, s1) \<and> (\<forall>t s2. 0 < t \<longrightarrow> (\<exists>a s3. runner (call p) t s2 = (Inr a, s3))))"

definition gentle :: "('s, 'a) timed \<Rightarrow> ('p \<Rightarrow> ('s, 'a) llm_op) \<Rightarrow> bool" where
  \<comment> \<open>a call that fails does so as unavailable or by its timeout\<close>
  "gentle runner call \<longleftrightarrow> (\<forall>p t s e s'. runner (call p) t s = (Inl e, s') \<longrightarrow> skips e)"

lemma walk_live:
  assumes "punctual clock runner" and "gentle runner call" and "0 < budget"
    and "(name, f) \<in> set chain" and "reachable_vendor runner call f"
    and "instant clock chain" and "clock s + of_nat (length chain) * budget \<le> started + deadline"
  shows "\<exists>a evs s'. walk_chain clock runner call lost deadline budget started chain failed err s = (Inr (a, evs), s')"
  using assms(4,6,7)
proof (induction chain arbitrary: failed err s)
  case (Cons x chain)
  obtain n g where x: "x = (n, g)" by force
  let ?rem = "deadline - (clock s - started)"
  have share: "clock s + budget + of_nat (length chain) * budget \<le> started + deadline"
    using Cons.prems(3) by (simp add: algebra_simps)
  have "0 \<le> of_nat (length chain) * budget" using assms(3) by simp
  with share have "clock s + budget \<le> started + deadline" by linarith
  with assms(3) have rem: "0 < ?rem" "min budget ?rem = budget" by (linarith, simp add: min_def)
  have in_time: "clock s2 \<le> clock s + budget" if "g s = (Inr p, s1)" "runner m (min budget ?rem) s1 = (q, s2)" for p s1 m q s2
    using punctualD [OF assms(1) that(2)] instantD [OF Cons.prems(2) [unfolded x] that(1)] rem assms(3) by simp
  have rest: "\<exists>a evs s'. walk_chain clock runner call lost deadline budget started chain (failed @ [n]) e u = (Inr (a, evs), s')"
    if "(name, f) \<in> set chain" "clock u \<le> clock s + budget" for e u
    using Cons.IH [OF that(1) instant_Cons [OF Cons.prems(2)]] that(2) share by auto
  obtain r s' where w: "walk_chain clock runner call lost deadline budget started ((n, g) # chain) failed err s = (r, s')" by fastforce
  from w have "\<exists>a evs. r = Inr (a, evs)"
  proof (cases rule: walk_cases)
    case late
    then show ?thesis using rem(1) by simp
  next
    case (unbuilt e s1)
    then have "x \<noteq> (name, f)" using assms(5) unfolding x reachable_vendor_def by (metis Inl_Inr_False Pair_inject)
    then have "(name, f) \<in> set chain" using Cons.prems(1) by simp
    moreover have "clock s1 \<le> clock s + budget" using instantD [OF Cons.prems(2) [unfolded x] unbuilt(2)] assms(3) by simp
    ultimately show ?thesis using rest [of s1 "Some e"] unbuilt(3) by auto
  next
    case (skipped p s1 e s2)
    then have "x \<noteq> (name, f)" using assms(5) rem assms(3) unfolding x reachable_vendor_def
      by (metis Inl_Inr_False Pair_inject Inr_inject)
    then have "(name, f) \<in> set chain" using Cons.prems(1) by simp
    then show ?thesis using rest [of s2 "Some e"] in_time [OF skipped(2,3)] skipped(5) by auto
  next
    case (raised p s1 e)
    then show ?thesis using assms(2) unfolding gentle_def by blast
  qed blast
  with w x show ?case by blast
qed simp

lemma fair_share:
  assumes "1 \<le> n" and "n \<le> 4"
  shows "of_nat n * per_attempt_budget_seconds OVERALL_DEADLINE_SECONDS n = 20" "0 < per_attempt_budget_seconds OVERALL_DEADLINE_SECONDS n"
proof -
  have "n \<in> {1, 2, 3, 4}" using assms by auto
  then show "of_nat n * per_attempt_budget_seconds OVERALL_DEADLINE_SECONDS n = 20"
    "0 < per_attempt_budget_seconds OVERALL_DEADLINE_SECONDS n"
    by (auto simp: per_attempt_budget_seconds_def OVERALL_DEADLINE_SECONDS_def MIN_PER_ATTEMPT_BUDGET_SECONDS_def min_def max_def)
qed

section \<open>The registry's cache\<close>

definition cache_ok :: "sdk \<Rightarrow> llm_registry \<Rightarrow> bool" where
  "cache_ok sdk rg \<longleftrightarrow> (\<forall>provider model p. map_of (rg_cache rg) (provider, model) = Some p \<longrightarrow>
     construct sdk (rg_settings rg) provider model = Inr p)"

lemma build_transparent:
  assumes "cache_ok sdk rg" and "rg_fixed rg = None"
  shows "fst (build sdk provider model rg) = construct sdk (rg_settings rg) provider (opt_or model []) \<and>
     cache_ok sdk (snd (build sdk provider model rg))"
  using assms by (auto simp: build_def cache_ok_def split: option.splits sum.splits)

section \<open>Guarantees\<close>

text \<open>
  C18. The walk over vendors stays within the one deadline of a decision, however many vendors are
  configured, as long as a timed call is over after its timeout (\<open>punctual\<close>) and building a
  provider object takes no time (\<open>instant\<close>). An answer is the outcome of the timed call of one
  vendor of the chain, and each vendor before it was lost: it could not be built, or its call
  failed as unavailable or by its timeout. A substitution is disclosed exactly when the answer is
  not the first vendor's, naming the lost vendors, in order, and the very vendor that answered; a
  failure names the vendor the conversation chose, unless it is an error that is not skipped.
\<close>

theorem walk_bounded:
  assumes "punctual clock runner" and "instant clock chain" and "0 \<le> deadline"
    and "walk clock runner call primary what deadline chain s = (r, s')"
  shows "clock s' \<le> clock s + deadline \<and>
     (case r of
        Inr (a, evs) \<Rightarrow>
          (\<exists>pre name f post budget. chain = pre @ (name, f) # post \<and> asked runner call budget f (Inr a) s' \<and>
             list_all (\<lambda>(n, g). vendor_lost runner call budget g) pre \<and>
             budget = per_attempt_budget_seconds deadline (length chain) \<and>
             evs = (if pre = [] then [] else [\<lparr>fe_failed_providers = map fst pre, fe_used_provider = name\<rparr>]))
      | Inl e \<Rightarrow> (\<exists>cause. e = LLMProviderUnavailableError primary what cause) \<or> \<not> skips e)"
proof -
  have budget: "0 \<le> per_attempt_budget_seconds deadline (length chain)"
    using assms(3) by (auto simp: per_attempt_budget_seconds_def MIN_PER_ATTEMPT_BUDGET_SECONDS_def)
  note w = assms(4) [unfolded walk_def]
  have "clock s' \<le> clock s + deadline" using walk_time [OF assms(1) budget assms(2) _ w] assms(3) by simp
  show ?thesis
  proof (cases r)
    case (Inl e)
    with walk_error w \<open>clock s' \<le> clock s + deadline\<close> show ?thesis by fastforce
  next
    case (Inr x)
    obtain a evs where x: "x = (a, evs)" by force
    from walk_result [OF w [unfolded Inr x]] \<open>clock s' \<le> clock s + deadline\<close> show ?thesis
      unfolding Inr x disclosed_def sum.case prod.case append_Nil map_is_Nil_conv by blast
  qed
qed

text \<open>
  C17. The walk answers whenever it can: with at most four vendors, all there are, if one of them
  can be built and answers in whatever time it is given, the walk returns an answer, whatever the
  vendors before it do and however long they hang, as long as a failing call fails as unavailable
  or by its timeout.
\<close>

theorem walk_answers:
  assumes "punctual clock runner" and "instant clock chain" and "gentle runner call"
    and "length chain \<le> 4" and "(name, f) \<in> set chain" and "reachable_vendor runner call f"
  shows "\<exists>a evs s'. walk clock runner call primary what OVERALL_DEADLINE_SECONDS chain s = (Inr (a, evs), s')"
proof -
  have "1 \<le> length chain" using assms(5) by (cases chain) auto
  from fair_share [OF this assms(4)] show ?thesis unfolding walk_def
    by (intro walk_live [OF assms(1,3) _ assms(5,6,2)]) (simp_all add: OVERALL_DEADLINE_SECONDS_def)
qed

text \<open>
  C19. A planner backed by real vendors never raises into the investigation and never proposes a
  tool it was not offered, with a single vendor and with the walk over several, whatever the
  vendors return and however the timeouts fall.
\<close>

theorem decisions_offered:
  assumes "\<And>m t s. runner m t s = m s \<or> fst (runner m t s) = Inl LlmTimeoutError"
  shows "(\<exists>a. fst (decide_next_action v p input w) = Inr a \<and> offered_only (di_available_tool_ids input) a) \<and>
     (\<exists>a evs. fst (fallback_decide v sdk runner p rest input s) = Inr (a, evs) \<and> offered_only (di_available_tool_ids input) a)"
proof -
  let ?call = "\<lambda>q. on_vendor (decide_next_action_or_raise v q input)"
  have outcome: "(\<exists>a. fst (?call q u) = Inr a \<and> offered_only (di_available_tool_ids input) a) \<or>
      (\<exists>n c. fst (?call q u) = Inl (LLMProviderUnavailableError n ''decide_next_action'' c))" for q u
    using decide_or_raise_cases [of v q input "lw_rest u"]
    by (cases "decide_next_action_or_raise v q input (lw_rest u)") (auto simp: on_vendor_def zoom_def)
  have fails: "skips e" if "fst (runner (?call q) t u) = Inl e" for q t u e
    using that assms [of "?call q" t u] outcome [of q u] by (auto simp: skips_def)
  have good: "offered_only (di_available_tool_ids input) a" if "answers runner ?call a" for a
    using that assms outcome unfolding answers_def by (metis Inl_Inr_False Inr_inject)
  have "\<exists>a evs. fst (fallback_decide v sdk runner p rest input s) = Inr (a, evs) \<and> offered_only (di_available_tool_ids input) a"
  proof -
    obtain r u where w: "walk (vd_clock v \<circ> lw_rest) runner ?call (lp_provider_name p) ''decide_next_action''
        OVERALL_DEADLINE_SECONDS (chain_of sdk p rest) s = (r, u)" by fastforce
    show ?thesis
    proof (cases r)
      case (Inl e)
      from walk_error [OF w [unfolded walk_def Inl]] fails
      have "\<exists>c. e = LLMProviderUnavailableError (lp_provider_name p) ''decide_next_action'' c" by blast
      with Inl w show ?thesis by (auto simp: fallback_decide_def or_degraded_def)
    next
      case (Inr x)
      obtain a evs where x: "x = (a, evs)" by force
      have "answers runner ?call a" using walk_result [OF w [unfolded walk_def Inr x]] by (blast dest: asked_answers)
      with good Inr x w show ?thesis by (auto simp: fallback_decide_def or_degraded_def)
    qed
  qed
  moreover have "\<exists>a. fst (decide_next_action v p input w) = Inr a \<and> offered_only (di_available_tool_ids input) a"
    using bare_decision [of v p input w] by (cases "decide_next_action v p input w") auto
  ultimately show ?thesis by blast
qed

section \<open>An example\<close>

definition demo_runner :: "(rat, 'a) timed" where
  "demo_runner m t s = (case m s of (r, s') \<Rightarrow> if s \<le> s' \<and> s' \<le> s + t then (r, s') else (Inl LlmTimeoutError, s + t))"

definition demo_vendor_call :: "bool \<Rightarrow> (rat, string) llm_op" where
  \<comment> \<open>a vendor that answers, and one that hangs\<close>
  "demo_vendor_call up s = (if up then (Inr ''answer'', s + 0) else (Inl (LLMProviderUnavailableError ''gemini'' ''decide'' no_provider), s + 30))"

definition demo_vendor_chain :: "(string \<times> (rat, bool) llm_op) list" where
  "demo_vendor_chain = [(''gemini'', returnM False), (''anthropic'', returnM True)]"

definition quiet_vendor :: "'w vendor" where
  \<comment> \<open>a vendor whose calls all fail\<close>
  "quiet_vendor =
     \<lparr>vd_call_tool = (\<lambda>p q w. (Inl (LlmExn (PyExn ''APIError'')), w)), vd_list_models = (\<lambda>p. returnM []),
      vd_parse_action = (\<lambda>d. Inl (LlmExn (PyExn ''ValidationError''))),
      vd_parse_intent = (\<lambda>d. Inl (LlmExn (PyExn ''ValidationError''))),
      vd_parse_verdict = (\<lambda>d. Inl (LlmExn (PyExn ''ValidationError''))), vd_clock = (\<lambda>w. 0), vd_sleep = (\<lambda>t w. w),
      vd_wait_action = (\<lambda>m t s. m s), vd_wait_intent = (\<lambda>m t s. m s), vd_wait_verdict = (\<lambda>m t s. m s)\<rparr>"

definition demo_input :: decide_input where
  "demo_input = \<lparr>di_problem_statement = ''lag'', di_available_tool_ids = [''database.get_health''], di_transcript = [],
     di_turn_count = 0, di_tool_requirements = None\<rparr>"

lemma demo_laws:
  "punctual (\<lambda>s. s) demo_runner" "instant (\<lambda>s. s) demo_vendor_chain" "gentle demo_runner demo_vendor_call"
  "reachable_vendor demo_runner demo_vendor_call (returnM True)"
  by (auto simp: punctual_def demo_runner_def instant_def demo_vendor_chain_def gentle_def demo_vendor_call_def no_provider_def skips_def
      reachable_vendor_def split: prod.splits if_splits)

lemma demo_walk: "walk (\<lambda>s. s) demo_runner demo_vendor_call ''gemini'' ''decide'' 20 demo_vendor_chain 0 =
    (Inr (''answer'', [\<lparr>fe_failed_providers = [''gemini''], fe_used_provider = ''anthropic''\<rparr>]), 10)"
  by (simp add: walk_def demo_vendor_chain_def demo_runner_def demo_vendor_call_def per_attempt_budget_seconds_def
      MIN_PER_ATTEMPT_BUDGET_SECONDS_def Let_def skips_def min_def max_def)

theorem walk_bounded_witness:
  "(10::rat) \<le> 20 \<and> (\<exists>f budget. (''anthropic'', f) \<in> set demo_vendor_chain \<and>
     asked demo_runner demo_vendor_call budget f (Inr ''answer'') 10)"
proof -
  have f: "(0::rat) \<le> 20" by simp
  from walk_bounded [OF demo_laws(1,2) f demo_walk] obtain pre name f post budget where
    "demo_vendor_chain = pre @ (name, f) # post" "asked demo_runner demo_vendor_call budget f (Inr ''answer'') 10"
    "[\<lparr>fe_failed_providers = [''gemini''], fe_used_provider = ''anthropic''\<rparr>] =
       (if pre = [] then [] else [\<lparr>fe_failed_providers = map fst pre, fe_used_provider = name\<rparr>])" by auto
  moreover from this have "(''anthropic'', f) \<in> set demo_vendor_chain"
    by (metis FallbackEvent.ext_inject in_set_conv_decomp list.distinct(1) list.inject)
  ultimately show ?thesis by auto
qed

theorem decisions_offered_witness:
  "\<exists>a. fst (decide_next_action (quiet_vendor :: nat vendor) \<lparr>lp_provider_name = ''gemini'', lp_model = []\<rparr> demo_input 0) = Inr a \<and>
     offered_only [''database.get_health''] a"
  using decisions_offered [of "\<lambda>m t s. m s" "quiet_vendor :: nat vendor" "\<lparr>lp_provider_name = ''gemini'', lp_model = []\<rparr>"
      demo_input 0] by (simp add: demo_input_def)

theorem walk_answers_witness:
  "\<exists>a evs s'. walk (\<lambda>s. s) demo_runner demo_vendor_call ''gemini'' ''decide'' OVERALL_DEADLINE_SECONDS demo_vendor_chain 0 = (Inr (a, evs), s')"
  by (rule walk_answers [OF demo_laws(1,2,3) _ _ demo_laws(4), of "''anthropic''"]) (simp_all add: demo_vendor_chain_def)

end
