(* ===== verification/Vendor_Clients.thy ===== *)
theory Vendor_Clients
  imports Llm_Prompts Python_Text
begin

text \<open>
  The clients of the language model vendors (agent/llm/openai_provider.py, anthropic_provider.py and
  gemini_provider.py): the requests they send, the reading of what comes back, the reduction of a
  schema to the part Gemini accepts, and Gemini's switch to another model when one is unavailable.
  The SDKs, the texts of their exceptions, \<open>asyncio.wait_for\<close>, the clock and \<open>json.loads\<close> are
  parameters. Seconds are rational numbers.
\<close>

section \<open>Texts\<close>

fun first_suffix :: "(string \<Rightarrow> 'a option) \<Rightarrow> string \<Rightarrow> 'a option" where
  \<comment> \<open>\<open>pattern.search(s)\<close>, for a pattern given as the match at a position\<close>
  "first_suffix f s =
     (case f s of Some a \<Rightarrow> Some a | None \<Rightarrow> (case s of [] \<Rightarrow> None | _ # xs \<Rightarrow> first_suffix f xs))"

definition py_error :: "string \<Rightarrow> llm_exn" where
  "py_error name = LlmExn (PyExn name)"

section \<open>OpenAI and DeepSeek\<close>

definition OPENAI_KNOWN :: "string list" where
  "OPENAI_KNOWN = [''gpt-4o'', ''gpt-4o-mini'', ''gpt-4.1'', ''o3'', ''o4-mini'']"

definition DEEPSEEK_KNOWN :: "string list" where
  "DEEPSEEK_KNOWN = [''deepseek-chat'', ''deepseek-reasoner'']"

record openai_message =
  om_tool_calls :: "string list option"  \<comment> \<open>the arguments of each call\<close>
  om_content :: "string option"

record 'w openai_sdk =
  oa_create :: "jdict \<Rightarrow> ('w, openai_message list) llm_op"  \<comment> \<open>the messages of the choices\<close>
  oa_models :: "('w, string list) llm_op"
  oa_loads :: "string \<Rightarrow> llm_exn + json"

definition role_message :: "string \<Rightarrow> string \<Rightarrow> json" where
  "role_message role content = JObj [(''role'', JStr role), (''content'', JStr content)]"

definition openai_tool_body :: "string \<Rightarrow> tool_request \<Rightarrow> jdict" where
  "openai_tool_body model q =
     [(''model'', JStr model), (''max_tokens'', JInt 1024),
      (''messages'', JArr [role_message ''system'' (tq_system q), role_message ''user'' (tq_user q)]),
      (''tools'', JArr [JObj [(''type'', JStr ''function''),
         (''function'', JObj [(''name'', JStr (tq_tool_name q)), (''description'', JStr ''Submit your answer.''),
                              (''parameters'', JObj (tq_schema q))])]]),
      (''tool_choice'', JObj [(''type'', JStr ''function''), (''function'', JObj [(''name'', JStr (tq_tool_name q))])])]"

definition first_item :: "'a list \<Rightarrow> llm_exn + 'a" where
  "first_item xs = (case xs of [] \<Rightarrow> Inl (py_error ''IndexError'') | x # _ \<Rightarrow> Inr x)"

definition openai_call_tool :: "'w openai_sdk \<Rightarrow> string \<Rightarrow> tool_request \<Rightarrow> ('w, json) llm_op" where
  "openai_call_tool sdk model q =
     bindM (oa_create sdk (openai_tool_body model q)) (\<lambda>choices.
     liftE (bindE (first_item choices) (\<lambda>message.
       bindE (case om_tool_calls message of None \<Rightarrow> Inl (py_error ''TypeError'') | Some calls \<Rightarrow> first_item calls) (oa_loads sdk))))"

definition openai_call_text :: "'w openai_sdk \<Rightarrow> string \<Rightarrow> string \<Rightarrow> string \<Rightarrow> ('w, string) llm_op" where
  "openai_call_text sdk model system user =
     bindM (oa_create sdk
       [(''model'', JStr model), (''max_tokens'', JInt 512),
        (''messages'', JArr [role_message ''system'' system, role_message ''user'' user])]) (\<lambda>choices.
     liftE (bindE (first_item choices) (\<lambda>message. Inr (opt_or (om_content message) []))))"

definition or_known :: "string list \<Rightarrow> ('w, string list) llm_op \<Rightarrow> ('w, string list) llm_op" where
  \<comment> \<open>\<open>except Exception: return list(known)\<close>\<close>
  "or_known known m w = (case m w of (Inl _, w') \<Rightarrow> (Inr known, w') | r \<Rightarrow> r)"

definition CHAT_FAMILIES :: "string list" where
  "CHAT_FAMILIES = [''gpt-'', ''o1'', ''o3'', ''o4'', ''chatgpt'', ''deepseek'']"

definition openai_list_models :: "'w openai_sdk \<Rightarrow> string list \<Rightarrow> ('w, string list) llm_op" where
  "openai_list_models sdk known =
     or_known known (bindM (oa_models sdk) (\<lambda>ids.
       let chat = filter (\<lambda>i. list_ex (\<lambda>f. prefix f i) CHAT_FAMILIES) ids
       in returnM (sort (if chat = [] then ids else chat))))"

section \<open>Anthropic\<close>

definition ANTHROPIC_KNOWN :: "string list" where
  "ANTHROPIC_KNOWN = [''claude-opus-5'', ''claude-sonnet-5'', ''claude-fable-5-1'', ''claude-haiku-4-5-20251001'']"

datatype an_block = ToolUse jdict | TextBlock string | OtherBlock

record 'w anthropic_sdk =
  an_create :: "jdict \<Rightarrow> ('w, an_block list) llm_op"
  an_models :: "jdict \<Rightarrow> ('w, string list) llm_op"

fun first_tool_use :: "an_block list \<Rightarrow> llm_exn + jdict" where
  \<comment> \<open>\<open>next(...)\<close> with nothing left: a StopIteration leaves a coroutine as a RuntimeError\<close>
  "first_tool_use [] = Inl (py_error ''RuntimeError'')"
| "first_tool_use (ToolUse d # bs) = Inr d"
| "first_tool_use (_ # bs) = first_tool_use bs"

definition anthropic_call_tool :: "'w anthropic_sdk \<Rightarrow> string \<Rightarrow> tool_request \<Rightarrow> ('w, jdict) llm_op" where
  "anthropic_call_tool sdk model q =
     bindM (an_create sdk
       [(''model'', JStr model), (''max_tokens'', JInt 1024), (''system'', JStr (tq_system q)),
        (''tools'', JArr [JObj [(''name'', JStr (tq_tool_name q)), (''description'', JStr ''Submit your answer.''),
                                (''input_schema'', JObj (tq_schema q))]]),
        (''tool_choice'', JObj [(''type'', JStr ''tool''), (''name'', JStr (tq_tool_name q))]),
        (''messages'', JArr [role_message ''user'' (tq_user q)])]) (\<lambda>content.
     liftE (first_tool_use content))"

definition block_text :: "an_block \<Rightarrow> string" where
  "block_text b = (case b of TextBlock t \<Rightarrow> t | _ \<Rightarrow> [])"

definition anthropic_call_text :: "'w anthropic_sdk \<Rightarrow> string \<Rightarrow> string \<Rightarrow> string \<Rightarrow> ('w, string) llm_op" where
  "anthropic_call_text sdk model system user =
     bindM (an_create sdk
       [(''model'', JStr model), (''max_tokens'', JInt 512), (''system'', JStr system),
        (''messages'', JArr [role_message ''user'' user])]) (\<lambda>content.
     returnM (concat (map block_text content)))"

definition anthropic_list_models :: "'w anthropic_sdk \<Rightarrow> ('w, string list) llm_op" where
  "anthropic_list_models sdk = or_known ANTHROPIC_KNOWN (an_models sdk [(''limit'', JInt 100)])"

section \<open>Gemini: models and errors\<close>

definition MIN_MAJOR_VERSION :: nat where
  "MIN_MAJOR_VERSION = 3"

definition GEMINI_DEFAULT :: string where
  "GEMINI_DEFAULT = ''gemini-3.6-flash''"

definition GEMINI_KNOWN :: "string list" where
  "GEMINI_KNOWN = [''gemini-3.6-flash'', ''gemini-3.7-flash'', ''gemini-3.8-flash'', ''gemini-3.5-flash'']"

definition MODEL_FALLBACK_CHAIN :: "string list" where
  "MODEL_FALLBACK_CHAIN =
     [''gemini-3.6-flash'', ''gemini-3.7-flash'', ''gemini-3.8-flash'', ''gemini-3.5-flash'', ''gemini-3.1-flash-lite'',
      ''gemini-3.1-pro-preview'', ''gemini-3-flash-preview'']"

definition version_at :: "string \<Rightarrow> nat option" where
  \<comment> \<open>\<open>gemini-(\d+)\<close> at this position\<close>
  "version_at s =
     (if prefix ''gemini-'' s \<and> takeWhile is_digit (drop 7 s) \<noteq> [] then Some (digits_val (takeWhile is_digit (drop 7 s)))
      else None)"

definition meets_min_version :: "string \<Rightarrow> bool" where
  "meets_min_version model_name =
     (case first_suffix version_at model_name of None \<Rightarrow> False | Some n \<Rightarrow> MIN_MAJOR_VERSION \<le> n)"

definition is_model_unavailable_error :: "(llm_exn \<Rightarrow> string) \<Rightarrow> llm_exn \<Rightarrow> bool" where
  "is_model_unavailable_error str_of exc \<longleftrightarrow>
     exc = LlmTimeoutError \<or>
     (let text = str_of exc
      in sublist ''RESOURCE_EXHAUSTED'' text \<or> sublist ''429'' text \<or> sublist ''quota'' (lower text) \<or>
         sublist ''UNAVAILABLE'' text \<or> sublist ''503'' text \<or> sublist ''high demand'' (lower text))"

definition is_quote :: "char \<Rightarrow> bool" where
  "is_quote c \<longleftrightarrow> c = CHR 0x27 \<or> c = CHR 0x22"

definition decimal :: "string \<Rightarrow> string \<Rightarrow> rat" where
  "decimal ds fs = of_nat (digits_val ds) + of_nat (digits_val fs) / 10 ^ length fs"

definition seconds_at :: "string \<Rightarrow> rat option" where
  \<comment> \<open>\<open>(\d+(?:\.\d+)?)s\<close>\<close>
  "seconds_at s =
     (let ds = takeWhile is_digit s; r = dropWhile is_digit s; fs = takeWhile is_digit (tl r)
      in if ds = [] then None
         else if prefix ''s'' r then Some (decimal ds [])
         else if prefix ''.'' r \<and> fs \<noteq> [] \<and> prefix ''s'' (dropWhile is_digit (tl r)) then Some (decimal ds fs)
         else None)"

definition retry_delay_at :: "string \<Rightarrow> rat option" where
  \<comment> \<open>\<open>retryDelay['"]?\s*:\s*['"](\d+(?:\.\d+)?)s\<close>\<close>
  "retry_delay_at s =
     (let s1 = drop (length ''retryDelay'') s;
          s2 = dropWhile is_space (if s1 \<noteq> [] \<and> is_quote (hd s1) then tl s1 else s1);
          s3 = dropWhile is_space (tl s2)
      in if prefix ''retryDelay'' s \<and> prefix '':'' s2 \<and> s3 \<noteq> [] \<and> is_quote (hd s3) then seconds_at (tl s3) else None)"

definition DEFAULT_COOLDOWN_SECONDS :: rat where
  "DEFAULT_COOLDOWN_SECONDS = 60"

definition MAX_COOLDOWN_SECONDS :: rat where
  "MAX_COOLDOWN_SECONDS = 120"

definition cooldown_seconds :: "(llm_exn \<Rightarrow> string) \<Rightarrow> llm_exn \<Rightarrow> rat" where
  \<comment> \<open>\<open>float\<close> of matched digits never raises\<close>
  "cooldown_seconds str_of exc =
     (case first_suffix retry_delay_at (str_of exc) of
        Some d \<Rightarrow> min d MAX_COOLDOWN_SECONDS | None \<Rightarrow> DEFAULT_COOLDOWN_SECONDS)"

section \<open>Gemini: schemas\<close>

definition ALLOWED_KEYS :: "string list" where
  "ALLOWED_KEYS = [''type'', ''properties'', ''required'', ''enum'', ''items'', ''nullable'']"

definition variants_of :: "json \<Rightarrow> jdict list result" where
  \<comment> \<open>iterating over \<open>schema["anyOf"]\<close> and asking each variant for its type\<close>
  "variants_of v =
     (case v of
        JArr xs \<Rightarrow> mapE (\<lambda>x. case x of JObj d \<Rightarrow> Inr d | _ \<Rightarrow> Inl (PyExn ''AttributeError'')) xs
      | JObj kvs \<Rightarrow> if kvs = [] then Inr [] else Inl (PyExn ''AttributeError'')
      | JStr s \<Rightarrow> if s = [] then Inr [] else Inl (PyExn ''AttributeError'')
      | _ \<Rightarrow> Inl (PyExn ''TypeError''))"

definition is_null_type :: "jdict \<Rightarrow> bool" where
  "is_null_type d \<longleftrightarrow> map_of d ''type'' = Some (JStr ''null'')"

definition merge_variant :: "jdict \<Rightarrow> jdict \<Rightarrow> bool \<Rightarrow> jdict" where
  "merge_variant schema d is_nullable =
     (let merged = filter (\<lambda>(k, _). k \<noteq> ''anyOf'') (dict_merge schema d)
      in if is_nullable then dict_set merged ''nullable'' (JBool True) else merged)"

definition flatten_any_of :: "jdict \<Rightarrow> jdict result" where
  "flatten_any_of schema =
     (case map_of schema ''anyOf'' of
        None \<Rightarrow> Inr schema
      | Some v \<Rightarrow>
          bindE (variants_of v) (\<lambda>variants.
          let non_null = filter (\<lambda>d. \<not> is_null_type d) variants
          in Inr (if length non_null = 1 then merge_variant schema (hd non_null) (list_ex is_null_type variants) else schema)))"

lemma member_size: "(k, v) \<in> set d \<Longrightarrow> size v < size (JObj d)"
  by (induction d) auto

lemma element_size: "v \<in> set xs \<Longrightarrow> size v < size (JArr xs)"
  by (induction xs) auto

lemma set_dict_set: "set (dict_set d k v) \<subseteq> insert (k, v) (set d)"
  by (induction d k v rule: dict_set.induct) auto

lemma set_dict_merge: "set (dict_merge d e) \<subseteq> set d \<union> set e"
proof (induction d e rule: dict_merge.induct)
  case (2 d k v e)
  then show ?case using set_dict_set [of d k v] by auto
qed simp

lemma set_merge_variant: "set (merge_variant schema d b) \<subseteq> insert (''nullable'', JBool True) (set schema \<union> set d)"
  using set_dict_merge [of schema d] set_dict_set [of "filter (\<lambda>(k, _). k \<noteq> ''anyOf'') (dict_merge schema d)" "''nullable''" "JBool True"]
  by (auto simp: merge_variant_def Let_def)

lemma objects_only:
  "mapE (\<lambda>x. case x of JObj d \<Rightarrow> Inr d | _ \<Rightarrow> Inl (PyExn ''AttributeError'')) xs = Inr ds \<Longrightarrow> xs = map JObj ds"
  by (induction xs arbitrary: ds) (auto split: json.splits)

lemma variants_of_member: "variants_of v = Inr ds \<Longrightarrow> d \<in> set ds \<Longrightarrow> size (JObj d) < size v"
  using element_size [of "JObj d" "map JObj ds"]
  by (auto simp: variants_of_def simp del: json.size dest!: objects_only split: json.splits if_splits)

lemma flatten_member:
  assumes flat: "flatten_any_of schema = Inr s" and kd: "(k, JObj d) \<in> set s"
  shows "size (JObj d) < size (JObj schema)"
proof (cases "(k, JObj d) \<in> set schema")
  case False
  with assms obtain v ds where v: "map_of schema ''anyOf'' = Some v" "variants_of v = Inr ds"
    and s: "s = merge_variant schema (hd (filter (\<lambda>d. \<not> is_null_type d) ds)) (list_ex is_null_type ds)"
    and one: "length (filter (\<lambda>d. \<not> is_null_type d) ds) = 1"
    by (auto simp: flatten_any_of_def Let_def split: option.splits if_splits)
  define e where "e = hd (filter (\<lambda>d. \<not> is_null_type d) ds)"
  from one have "filter (\<lambda>d. \<not> is_null_type d) ds \<noteq> []" by (intro notI) simp
  from hd_in_set [OF this] have "e \<in> set ds" by (simp add: e_def)
  from s kd False have "(k, JObj d) \<in> set e" using set_merge_variant [of schema e] by (auto simp: e_def)
  have "size (JObj d) < size (JObj e)" using \<open>(k, JObj d) \<in> set e\<close> by (rule member_size)
  also have "\<dots> < size v" using v(2) \<open>e \<in> set ds\<close> by (rule variants_of_member)
  also have "\<dots> < size (JObj schema)" using map_of_SomeD [OF v(1)] by (rule member_size)
  finally show ?thesis .
qed (rule member_size)

function clean_schema :: "jdict \<Rightarrow> jdict result" where
  "clean_schema schema =
     bindE (flatten_any_of schema) (\<lambda>s.
     mapE (\<lambda>(k, v).
         if k = ''properties'' then
           (case v of
              JObj ps \<Rightarrow>
                bindE (mapE (\<lambda>(pk, pv). case pv of JObj d \<Rightarrow> bindE (clean_schema d) (\<lambda>c. Inr (pk, JObj c)) | _ \<Rightarrow> Inr (pk, pv)) ps)
                  (\<lambda>qs. Inr (k, JObj qs))
            | _ \<Rightarrow> Inr (k, v))
         else if k = ''items'' then
           (case v of JObj d \<Rightarrow> bindE (clean_schema d) (\<lambda>c. Inr (k, JObj c)) | _ \<Rightarrow> Inr (k, v))
         else Inr (k, v))
       (filter (\<lambda>(k, _). k \<in> set ALLOWED_KEYS) s))"
  by pat_completeness auto
termination
proof (relation "measure (\<lambda>d. size (JObj d))", goal_cases)
  case (2 schema s x k v ps y pk pv d)
  then have "size (JObj ps) < size (JObj schema)" using flatten_member by auto
  moreover from 2 have "size (JObj d) < size (JObj ps)" using member_size [of pk "JObj d" ps] by simp
  ultimately show ?case by simp
next
  case (3 schema s x k v d)
  then show ?case using flatten_member by auto
qed simp

declare clean_schema.simps [simp del]

text \<open>
  What is left after the reduction has only keys Gemini accepts, at every level, and is left alone by
  a second reduction; an optional field keeps the constraints of its type and is marked as nullable.
\<close>

lemma flatten_no_any_of: "''anyOf'' \<notin> fst ` set s \<Longrightarrow> flatten_any_of s = Inr s"
  by (force simp: flatten_any_of_def map_of_eq_None_iff split: option.splits dest: map_of_SomeD)

lemma mapE_fixed: "(\<And>x. x \<in> set xs \<Longrightarrow> f x = Inr x) \<Longrightarrow> mapE f xs = Inr xs"
  by (induction xs) auto

lemma mapE_member: "mapE f xs = Inr ys \<Longrightarrow> y \<in> set ys \<Longrightarrow> \<exists>x\<in>set xs. f x = Inr y"
  by (force simp: mapE_Inr list_all2_conv_all_nth in_set_conv_nth)

definition clean_property :: "string \<times> json \<Rightarrow> (string \<times> json) result" where
  "clean_property = (\<lambda>(pk, pv). case pv of JObj d \<Rightarrow> bindE (clean_schema d) (\<lambda>c. Inr (pk, JObj c)) | _ \<Rightarrow> Inr (pk, pv))"

definition clean_entry :: "string \<times> json \<Rightarrow> (string \<times> json) result" where
  "clean_entry = (\<lambda>(k, v).
     if k = ''properties'' then (case v of JObj ps \<Rightarrow> bindE (mapE clean_property ps) (\<lambda>qs. Inr (k, JObj qs)) | _ \<Rightarrow> Inr (k, v))
     else if k = ''items'' then clean_property (k, v)
     else Inr (k, v))"

lemma clean_schema_entries:
  "clean_schema schema =
     bindE (flatten_any_of schema) (\<lambda>s. mapE clean_entry (filter (\<lambda>(k, _). k \<in> set ALLOWED_KEYS) s))"
proof -
  have "clean_entry = (\<lambda>(k, v).
         if k = ''properties'' then
           (case v of
              JObj ps \<Rightarrow>
                bindE (mapE (\<lambda>(pk, pv). case pv of JObj d \<Rightarrow> bindE (clean_schema d) (\<lambda>c. Inr (pk, JObj c)) | _ \<Rightarrow> Inr (pk, pv)) ps)
                  (\<lambda>qs. Inr (k, JObj qs))
            | _ \<Rightarrow> Inr (k, v))
         else if k = ''items'' then
           (case v of JObj d \<Rightarrow> bindE (clean_schema d) (\<lambda>c. Inr (k, JObj c)) | _ \<Rightarrow> Inr (k, v))
         else Inr (k, v))"
    by (simp add: clean_entry_def clean_property_def fun_eq_iff split: json.splits)
  then show ?thesis by (subst clean_schema.simps) simp
qed

lemma clean_property_fixed:
  assumes "clean_property (k, v) = Inr y" and "\<And>d c. v = JObj d \<Longrightarrow> clean_schema d = Inr c \<Longrightarrow> clean_schema c = Inr c"
  shows "clean_property y = Inr y \<and> fst y = k"
  using assms by (auto simp: clean_property_def split: json.splits)

lemma clean_entry_fixed:
  assumes "clean_entry (k, v) = Inr y"
    and props: "\<And>ps pk d c. v = JObj ps \<Longrightarrow> k = ''properties'' \<Longrightarrow> (pk, JObj d) \<in> set ps \<Longrightarrow>
      clean_schema d = Inr c \<Longrightarrow> clean_schema c = Inr c"
    and items: "\<And>d c. v = JObj d \<Longrightarrow> k = ''items'' \<Longrightarrow> clean_schema d = Inr c \<Longrightarrow> clean_schema c = Inr c"
  shows "clean_entry y = Inr y \<and> fst y = k"
proof (cases "k = ''properties'' \<and> (\<exists>ps. v = JObj ps)")
  case True
  then obtain ps where v: "k = ''properties''" "v = JObj ps" by auto
  with assms(1) obtain qs where qs: "mapE clean_property ps = Inr qs" and y: "y = (k, JObj qs)" by (auto simp: clean_entry_def)
  have "clean_property q = Inr q" if "q \<in> set qs" for q
    using mapE_member [OF qs that] clean_property_fixed props v by (metis prod.exhaust)
  with y v show ?thesis by (simp add: clean_entry_def mapE_fixed)
next
  case False
  with assms(1) clean_property_fixed [of k v y] items show ?thesis
    by (cases y) (auto simp: clean_entry_def split: if_splits json.splits)
qed

theorem clean_schema_idempotent:
  "clean_schema schema = Inr t \<Longrightarrow> fst ` set t \<subseteq> set ALLOWED_KEYS \<and> clean_schema t = Inr t"
proof (induction schema arbitrary: t rule: clean_schema.induct)
  case (1 schema)
  from "1.prems" obtain s where s: "flatten_any_of schema = Inr s"
    and t: "mapE clean_entry (filter (\<lambda>(k, _). k \<in> set ALLOWED_KEYS) s) = Inr t"
    by (auto simp: clean_schema_entries)
  have fixed: "fst y \<in> set ALLOWED_KEYS \<and> clean_entry y = Inr y" if "y \<in> set t" for y
  proof -
    from mapE_member [OF t that] obtain k v where kv: "(k, v) \<in> set s" "k \<in> set ALLOWED_KEYS" "clean_entry (k, v) = Inr y"
      by auto
    have "clean_entry y = Inr y \<and> fst y = k"
    proof (rule clean_entry_fixed [OF kv(3)])
      fix ps pk d c
      assume "v = JObj ps" "k = ''properties''" "(pk, JObj d) \<in> set ps" "clean_schema d = Inr c"
      with "1.IH"(1) [OF s, of "(k, v)" k v ps "(pk, JObj d)" pk "JObj d" d c] kv show "clean_schema c = Inr c" by simp
    next
      fix d c
      assume "v = JObj d" "k = ''items''" "clean_schema d = Inr c"
      with "1.IH"(2) [OF s, of "(k, v)" k v d c] kv show "clean_schema c = Inr c" by simp
    qed
    with kv show ?thesis by simp
  qed
  then have allowed: "fst ` set t \<subseteq> set ALLOWED_KEYS" by auto
  then have "''anyOf'' \<notin> fst ` set t" by (auto simp: ALLOWED_KEYS_def)
  moreover have "filter (\<lambda>(k, _). k \<in> set ALLOWED_KEYS) t = t" using allowed by (auto simp: filter_id_conv)
  ultimately have "clean_schema t = Inr t"
    using mapE_fixed [of t clean_entry] fixed by (simp add: clean_schema_entries flatten_no_any_of)
  with allowed show ?case by blast
qed

theorem optional_field_kept:
  "clean_schema [(''anyOf'', JArr [JObj [(''enum'', e), (''type'', JStr ''string'')], JObj [(''type'', JStr ''null'')]]), (''default'', JNull)] =
   Inr [(''enum'', e), (''type'', JStr ''string''), (''nullable'', JBool True)]"
  by (simp add: clean_schema_entries flatten_any_of_def variants_of_def merge_variant_def is_null_type_def clean_entry_def
      ALLOWED_KEYS_def Let_def)

section \<open>Gemini: the client\<close>

definition REQUEST_TIMEOUT_SECONDS :: rat where
  "REQUEST_TIMEOUT_SECONDS = 8"

definition MAX_FALLBACK_SWITCHES :: nat where
  "MAX_FALLBACK_SWITCHES = 2"

record gemini =
  gm_model :: string
  gm_unavailable_until :: "(string \<times> rat) list"

definition new_gemini :: "string \<Rightarrow> gemini" where
  "new_gemini model = \<lparr>gm_model = (if model = [] then GEMINI_DEFAULT else model), gm_unavailable_until = []\<rparr>"

definition next_fallback_model :: "rat \<Rightarrow> gemini \<Rightarrow> string option" where
  "next_fallback_model now gm =
     find (\<lambda>c. c \<noteq> gm_model gm \<and> (case map_of (gm_unavailable_until gm) c of None \<Rightarrow> 0 | Some t \<Rightarrow> t) \<le> now) MODEL_FALLBACK_CHAIN"

definition model_failed :: "(llm_exn \<Rightarrow> string) \<Rightarrow> rat \<Rightarrow> nat \<Rightarrow> llm_exn \<Rightarrow> gemini \<Rightarrow> (llm_exn + nat) \<times> gemini" where
  \<comment> \<open>the handler of the loop, which runs without a pause: raise, or go on with one switch more\<close>
  "model_failed str_of now switches exc gm =
     (if \<not> is_model_unavailable_error str_of exc then (Inl exc, gm)
      else
        let gm' = gm\<lparr>gm_unavailable_until := dict_set (gm_unavailable_until gm) (gm_model gm) (now + cooldown_seconds str_of exc)\<rparr>
        in if switches \<ge> MAX_FALLBACK_SWITCHES then (Inl exc, gm')
           else (case next_fallback_model now gm' of
                   None \<Rightarrow> (Inl exc, gm')
                 | Some m \<Rightarrow> (Inr (Suc switches), gm'\<lparr>gm_model := m\<rparr>)))"

lemma model_failed_Inr:
  assumes "model_failed str_of now k exc gm = (Inr n, gm')"
  shows "n = Suc k" and "k < MAX_FALLBACK_SWITCHES" and "gm_model gm' \<in> set MODEL_FALLBACK_CHAIN" and "gm_model gm' \<noteq> gm_model gm"
  using assms by (auto simp: model_failed_def Let_def next_fallback_model_def find_Some_iff split: if_splits option.splits)

function with_model_fallback ::
    "(llm_exn \<Rightarrow> string) \<Rightarrow> ('w \<Rightarrow> rat) \<Rightarrow> ('w, 'a) timed \<Rightarrow> (string \<Rightarrow> ('w, 'a) llm_op) \<Rightarrow> nat \<Rightarrow> ('w \<times> gemini, 'a) llm_op" where
  \<comment> \<open>the loop from its state with this number of switches; the call reads the model when it starts\<close>
  "with_model_fallback str_of clock wait_for call switches (w, gm) =
     (case wait_for (call (gm_model gm)) REQUEST_TIMEOUT_SECONDS w of
        (Inr a, w') \<Rightarrow> (Inr a, (w', gm))
      | (Inl exc, w') \<Rightarrow>
          (case model_failed str_of (clock w') switches exc gm of
             (Inl e, gm') \<Rightarrow> (Inl e, (w', gm'))
           | (Inr n, gm') \<Rightarrow> with_model_fallback str_of clock wait_for call n (w', gm')))"
  by pat_completeness auto
termination
proof (relation "measure (\<lambda>(_, _, _, _, switches, _). MAX_FALLBACK_SWITCHES - switches)", goal_cases)
  case 2
  then show ?case using model_failed_Inr(1,2) [OF sym] by fastforce
qed simp

declare with_model_fallback.simps [simp del]

datatype gemini_content = NoContent | NoParts | Parts "jdict option option list"
  \<comment> \<open>of each part the function call, if it has one, with its arguments, if it has any\<close>

record gemini_response =
  gr_candidates :: "gemini_content list option"
  gr_text :: "string option"

record gemini_config =
  gc_system_instruction :: string
  gc_declaration :: "(string \<times> string \<times> jdict) option"  \<comment> \<open>name, description, parameters\<close>
  gc_allowed_function_names :: "string list"              \<comment> \<open>with mode ANY, when there are any\<close>

record gemini_model_info =
  gi_name :: "string option"
  gi_supported_actions :: "string list option"

record 'w gemini_sdk =
  gk_schema :: "jdict \<Rightarrow> llm_exn + jdict"  \<comment> \<open>\<open>types.Schema(**d)\<close>\<close>
  gk_generate :: "string \<Rightarrow> string \<Rightarrow> gemini_config \<Rightarrow> ('w, gemini_response) llm_op"
  gk_models :: "('w, gemini_model_info list) llm_op"

fun first_function_call :: "jdict option option list \<Rightarrow> llm_exn + jdict" where
  "first_function_call [] = Inl (py_error ''ValueError'')"
| "first_function_call (None # ps) = first_function_call ps"
| "first_function_call (Some None # ps) = Inl (py_error ''TypeError'')"
| "first_function_call (Some (Some args) # ps) = Inr args"

definition function_call_of :: "gemini_response \<Rightarrow> llm_exn + jdict" where
  "function_call_of r =
     bindE (case gr_candidates r of None \<Rightarrow> Inl (py_error ''TypeError'') | Some cs \<Rightarrow> first_item cs) (\<lambda>content.
       case content of
         NoContent \<Rightarrow> Inl (py_error ''AttributeError'')
       | NoParts \<Rightarrow> Inl (py_error ''TypeError'')
       | Parts ps \<Rightarrow> first_function_call ps)"

definition raised :: "'a result \<Rightarrow> llm_exn + 'a" where
  "raised r = (case r of Inl e \<Rightarrow> Inl (LlmExn e) | Inr a \<Rightarrow> Inr a)"

definition gemini_call_tool ::
    "(llm_exn \<Rightarrow> string) \<Rightarrow> ('w \<Rightarrow> rat) \<Rightarrow> ('w, jdict) timed \<Rightarrow> 'w gemini_sdk \<Rightarrow> tool_request \<Rightarrow> ('w \<times> gemini, jdict) llm_op" where
  "gemini_call_tool str_of clock wait_for sdk q =
     bindM (liftE (bindE (raised (clean_schema (tq_schema q))) (gk_schema sdk))) (\<lambda>parameters.
     let config = \<lparr>gc_system_instruction = tq_system q,
                   gc_declaration = Some (tq_tool_name q, ''Submit your answer.'', parameters),
                   gc_allowed_function_names = [tq_tool_name q]\<rparr>
     in with_model_fallback str_of clock wait_for
          (\<lambda>model. bindM (gk_generate sdk model (tq_user q) config) (\<lambda>r. liftE (function_call_of r))) 0)"

definition gemini_call_text ::
    "(llm_exn \<Rightarrow> string) \<Rightarrow> ('w \<Rightarrow> rat) \<Rightarrow> ('w, string) timed \<Rightarrow> 'w gemini_sdk \<Rightarrow> string \<Rightarrow> string \<Rightarrow> ('w \<times> gemini, string) llm_op" where
  "gemini_call_text str_of clock wait_for sdk system user =
     with_model_fallback str_of clock wait_for
       (\<lambda>model. bindM (gk_generate sdk model user
            \<lparr>gc_system_instruction = system, gc_declaration = None, gc_allowed_function_names = []\<rparr>)
          (\<lambda>r. returnM (opt_or (gr_text r) []))) 0"

definition gemini_list_models :: "'w gemini_sdk \<Rightarrow> ('w, string list) llm_op" where
  "gemini_list_models sdk =
     or_known GEMINI_KNOWN (bindM (gk_models sdk) (\<lambda>infos.
       let usable = filter (\<lambda>m. case gi_supported_actions m of None \<Rightarrow> True | Some as \<Rightarrow> as = [] \<or> ''generateContent'' \<in> set as) infos;
           names = map (\<lambda>m. removeprefix ''models/'' (opt_or (gi_name m) [])) usable;
           models = sort (remdups (filter (\<lambda>n. prefix ''gemini'' n \<and> meets_min_version n) names))
       in returnM (if models = [] then GEMINI_KNOWN else models)))"

definition vendor_model :: "string \<Rightarrow> string \<Rightarrow> string" where
  \<comment> \<open>\<open>model or _default_model\<close> in the constructor of each class\<close>
  "vendor_model provider model =
     (if model \<noteq> [] then model
      else if provider = ''anthropic'' then ''claude-sonnet-5''
      else if provider = ''openai'' then ''gpt-4o''
      else if provider = ''deepseek'' then ''deepseek-chat''
      else GEMINI_DEFAULT)"

section \<open>What the switch of models guarantees\<close>

lemma retry_delay_nonneg: "first_suffix retry_delay_at s = Some d \<Longrightarrow> 0 \<le> d"
proof (induction retry_delay_at s rule: first_suffix.induct)
  case (1 s)
  have "retry_delay_at s = Some d \<Longrightarrow> 0 \<le> d"
    by (auto simp: retry_delay_at_def seconds_at_def decimal_def Let_def split: if_splits)
  with 1 show ?case by (subst (asm) (2) first_suffix.simps) (auto split: option.splits list.splits)
qed

lemma cooldown_bounds: "0 \<le> cooldown_seconds str_of exc" "cooldown_seconds str_of exc \<le> 120"
  using retry_delay_nonneg
  by (auto simp: cooldown_seconds_def MAX_COOLDOWN_SECONDS_def DEFAULT_COOLDOWN_SECONDS_def split: option.splits)

theorem gemini_time:
  assumes "\<And>f w. clock (snd (wait_for f REQUEST_TIMEOUT_SECONDS w)) \<le> clock w + REQUEST_TIMEOUT_SECONDS"
    and "k \<le> MAX_FALLBACK_SWITCHES"
  shows "clock (fst (snd (with_model_fallback str_of clock wait_for call k (w, gm)))) \<le>
    clock w + of_nat (Suc MAX_FALLBACK_SWITCHES - k) * REQUEST_TIMEOUT_SECONDS"
  using assms
proof (induction str_of clock wait_for call k "(w, gm)" arbitrary: w gm rule: with_model_fallback.induct)
  case (1 str_of clock wait_for call k w gm)
  obtain r w' where run: "wait_for (call (gm_model gm)) REQUEST_TIMEOUT_SECONDS w = (r, w')" by fastforce
  with "1.prems"(1) [of "call (gm_model gm)" w] have time: "clock w' \<le> clock w + 8" by (simp add: REQUEST_TIMEOUT_SECONDS_def)
  have rest: "8 \<le> of_nat (Suc MAX_FALLBACK_SWITCHES - k) * (8 :: rat)" using "1.prems"(2) by simp
  show ?case
  proof (cases "\<exists>exc n gm'. r = Inl exc \<and> model_failed str_of (clock w') k exc gm = (Inr n, gm')")
    case False
    then have "fst (snd (with_model_fallback str_of clock wait_for call k (w, gm))) = w'"
      using run by (subst with_model_fallback.simps) (auto split: sum.splits prod.splits)
    with time rest show ?thesis by (simp add: REQUEST_TIMEOUT_SECONDS_def)
  next
    case True
    then obtain exc n gm' where r: "r = Inl exc" and next_model: "model_failed str_of (clock w') k exc gm = (Inr n, gm')" by blast
    note n = model_failed_Inr(1,2) [OF next_model]
    have "clock (fst (snd (with_model_fallback str_of clock wait_for call n (w', gm')))) \<le>
        clock w' + of_nat (Suc MAX_FALLBACK_SWITCHES - n) * REQUEST_TIMEOUT_SECONDS"
      using "1.hyps" [OF run [symmetric] r next_model [symmetric] refl "1.prems"(1)] n by simp
    moreover have "with_model_fallback str_of clock wait_for call k (w, gm) = with_model_fallback str_of clock wait_for call n (w', gm')"
      using run r next_model by (subst with_model_fallback.simps) simp
    ultimately show ?thesis using time n by (simp add: REQUEST_TIMEOUT_SECONDS_def MAX_FALLBACK_SWITCHES_def of_nat_diff)
  qed
qed

end
