(* ===== verification/Model_Switching.thy ===== *)
theory Model_Switching
  imports Vendor_Clients
begin

text \<open>
  One Gemini client is shared by the conversations that use it (agent/llm/registry.py keeps one
  instance per provider and model), and every call of it pauses while it waits for an answer. The
  step relation interleaves the calls at these pauses: a call that is told of a failure runs the
  handler of its loop to the next request. Shown are the bound on the requests of a call under every
  interleaving, and two behaviours of the shared state the code does not intend.
\<close>

section \<open>Interleaved calls\<close>

datatype gemini_task = Asking string nat | Ended
  \<comment> \<open>the model asked, and the switches made so far\<close>

record gemini_run =
  gn_client :: gemini
  gn_tasks :: "gemini_task list"
  gn_requests :: "(nat \<times> string) list"  \<comment> \<open>which call asked which model\<close>
  gn_failures :: "string list"          \<comment> \<open>the models whose request failed\<close>

definition idle_client :: "gemini \<Rightarrow> gemini_run" where
  "idle_client gm = \<lparr>gn_client = gm, gn_tasks = [], gn_requests = [], gn_failures = []\<rparr>"

definition task_fails :: "nat \<Rightarrow> string \<Rightarrow> (llm_exn + nat) \<times> gemini \<Rightarrow> gemini_run \<Rightarrow> gemini_run" where
  "task_fails i m outcome r =
     (case outcome of
        (Inl e, gm) \<Rightarrow>
          r\<lparr>gn_client := gm, gn_tasks := (gn_tasks r)[i := Ended], gn_failures := gn_failures r @ [m]\<rparr>
      | (Inr k, gm) \<Rightarrow>
          r\<lparr>gn_client := gm, gn_tasks := (gn_tasks r)[i := Asking (gm_model gm) k],
            gn_requests := gn_requests r @ [(i, gm_model gm)], gn_failures := gn_failures r @ [m]\<rparr>)"

inductive gemini_step :: "(llm_exn \<Rightarrow> string) \<Rightarrow> gemini_run \<Rightarrow> gemini_run \<Rightarrow> bool" for str_of where
  starts: "gemini_step str_of r (r\<lparr>gn_tasks := gn_tasks r @ [Asking (gm_model (gn_client r)) 0],
    gn_requests := gn_requests r @ [(length (gn_tasks r), gm_model (gn_client r))]\<rparr>)"
| answered: "i < length (gn_tasks r) \<Longrightarrow> gn_tasks r ! i = Asking m k \<Longrightarrow>
    gemini_step str_of r (r\<lparr>gn_tasks := (gn_tasks r)[i := Ended]\<rparr>)"
| failed: "i < length (gn_tasks r) \<Longrightarrow> gn_tasks r ! i = Asking m k \<Longrightarrow>
    gemini_step str_of r (task_fails i m (model_failed str_of now k exc (gn_client r)) r)"

abbreviation gemini_reach :: "(llm_exn \<Rightarrow> string) \<Rightarrow> gemini_run \<Rightarrow> gemini_run \<Rightarrow> bool" where
  "gemini_reach str_of \<equiv> (gemini_step str_of)\<^sup>*\<^sup>*"

section \<open>The bound\<close>

definition requests_of :: "nat \<Rightarrow> gemini_run \<Rightarrow> nat" where
  "requests_of i r = length (filter (\<lambda>(j, _). j = i) (gn_requests r))"

definition task_ok :: "gemini_run \<Rightarrow> nat \<Rightarrow> bool" where
  "task_ok r i \<longleftrightarrow>
     (if i < length (gn_tasks r)
      then (case gn_tasks r ! i of Asking _ k \<Rightarrow> requests_of i r = Suc k \<and> k \<le> MAX_FALLBACK_SWITCHES
                                 | Ended \<Rightarrow> requests_of i r \<le> Suc MAX_FALLBACK_SWITCHES)
      else requests_of i r = 0)"

definition models_ok :: "string \<Rightarrow> gemini_run \<Rightarrow> bool" where
  "models_ok m0 r \<longleftrightarrow> (\<forall>m \<in> insert (gm_model (gn_client r)) (snd ` set (gn_requests r)). m = m0 \<or> m \<in> set MODEL_FALLBACK_CHAIN)"

lemma task_fails_cases:
  obtains (raised) e gm where "model_failed str_of now k exc g = (Inl e, gm)" and "gm_model gm = gm_model g"
    and "task_fails i m (model_failed str_of now k exc g) r =
      r\<lparr>gn_client := gm, gn_tasks := (gn_tasks r)[i := Ended], gn_failures := gn_failures r @ [m]\<rparr>"
  | (switched) gm where "k < MAX_FALLBACK_SWITCHES" and "gm_model gm \<in> set MODEL_FALLBACK_CHAIN"
    and "task_fails i m (model_failed str_of now k exc g) r =
      r\<lparr>gn_client := gm, gn_tasks := (gn_tasks r)[i := Asking (gm_model gm) (Suc k)],
        gn_requests := gn_requests r @ [(i, gm_model gm)], gn_failures := gn_failures r @ [m]\<rparr>"
proof (cases "model_failed str_of now k exc g")
  case (Pair out gm)
  show thesis
  proof (cases out)
    case (Inl e)
    with Pair have "gm_model gm = gm_model g" by (auto simp: model_failed_def Let_def split: if_splits option.splits)
    with Pair Inl show thesis by (intro raised) (auto simp: task_fails_def)
  next
    case (Inr n)
    with model_failed_Inr [of str_of now k exc g n gm] Pair show thesis by (intro switched [of gm]) (auto simp: task_fails_def)
  qed
qed

lemma task_ok_step:
  assumes "gemini_step str_of r r'" and ok: "\<And>i. task_ok r i"
  shows "task_ok r' j"
  using assms(1)
proof cases
  case starts
  with ok [of j] show ?thesis by (auto simp: task_ok_def requests_of_def nth_append split: if_splits gemini_task.splits)
next
  case (answered i m k)
  with ok [of j] ok [of i] show ?thesis by (auto simp: task_ok_def requests_of_def nth_list_update split: if_splits gemini_task.splits)
next
  case (failed i m k now exc)
  show ?thesis
  proof (cases rule: task_fails_cases [of str_of now k exc "gn_client r" i m r])
    case (raised e gm)
    with failed ok [of j] ok [of i] show ?thesis
      by (auto simp: task_ok_def requests_of_def nth_list_update split: if_splits gemini_task.splits)
  next
    case (switched gm)
    with failed ok [of j] ok [of i] show ?thesis
      by (auto simp: task_ok_def requests_of_def nth_list_update split: if_splits gemini_task.splits)
  qed
qed

lemma models_ok_step:
  assumes "gemini_step str_of r r'" and ok: "models_ok m0 r"
  shows "models_ok m0 r'"
  using assms(1)
proof cases
  case (failed i m k now exc)
  show ?thesis
  proof (cases rule: task_fails_cases [of str_of now k exc "gn_client r" i m r])
    case (raised e gm)
    with failed ok show ?thesis by (auto simp: models_ok_def)
  next
    case (switched gm)
    with failed ok show ?thesis by (auto simp: models_ok_def)
  qed
qed (use ok in \<open>auto simp: models_ok_def\<close>)

text \<open>
  C22. However the calls of a shared Gemini client interleave, and whenever and however their requests
  fail, no call sends more than three requests, and every request names the configured model or one of
  the fallback chain.
\<close>

theorem gemini_requests_bounded:
  assumes "gemini_reach str_of (idle_client gm) r"
  shows "requests_of i r \<le> 3 \<and> snd ` set (gn_requests r) \<subseteq> insert (gm_model gm) (set MODEL_FALLBACK_CHAIN)"
proof -
  have "(\<forall>i. task_ok r i) \<and> models_ok (gm_model gm) r"
    using assms
  proof (induction rule: rtranclp_induct)
    case base
    then show ?case by (simp add: task_ok_def models_ok_def requests_of_def idle_client_def)
  next
    case (step r r')
    with task_ok_step [OF step(2)] models_ok_step [OF step(2)] show ?case by blast
  qed
  then have "task_ok r i" "models_ok (gm_model gm) r" by auto
  then show ?thesis by (auto simp: task_ok_def models_ok_def MAX_FALLBACK_SWITCHES_def split: if_splits gemini_task.splits)
qed

section \<open>Runs\<close>

abbreviation silent :: "llm_exn \<Rightarrow> string" where
  \<comment> \<open>a timeout has no text\<close>
  "silent \<equiv> \<lambda>_. []"

definition fails_at :: "(llm_exn \<Rightarrow> string) \<Rightarrow> rat \<Rightarrow> nat \<Rightarrow> llm_exn \<Rightarrow> gemini_run \<Rightarrow> gemini_run" where
  "fails_at str_of now i exc r =
     (case gn_tasks r ! i of Asking m k \<Rightarrow> task_fails i m (model_failed str_of now k exc (gn_client r)) r | Ended \<Rightarrow> r)"

definition starts_call :: "gemini_run \<Rightarrow> gemini_run" where
  "starts_call r = r\<lparr>gn_tasks := gn_tasks r @ [Asking (gm_model (gn_client r)) 0],
     gn_requests := gn_requests r @ [(length (gn_tasks r), gm_model (gn_client r))]\<rparr>"

lemma starts_call_reach: "gemini_reach str_of r0 r \<Longrightarrow> gemini_reach str_of r0 (starts_call r)"
  unfolding starts_call_def by (blast intro: rtranclp.rtrancl_into_rtrancl gemini_step.starts)

lemma fails_at_reach: "gemini_reach str_of r0 r \<Longrightarrow> i < length (gn_tasks r) \<Longrightarrow> gemini_reach str_of r0 (fails_at str_of now i exc r)"
  by (cases "gn_tasks r ! i") (auto simp: fails_at_def intro: rtranclp.rtrancl_into_rtrancl gemini_step.failed)

definition two_timeouts :: gemini_run where
  \<comment> \<open>two calls ask the default model, both time out, one after the other\<close>
  "two_timeouts = fails_at silent 100 1 LlmTimeoutError (fails_at silent 100 0 LlmTimeoutError
     (starts_call (starts_call (idle_client (new_gemini [])))))"

lemma two_timeouts_eq:
  "two_timeouts =
     \<lparr>gn_client = \<lparr>gm_model = ''gemini-3.8-flash'', gm_unavailable_until = [(''gemini-3.6-flash'', 160), (''gemini-3.7-flash'', 160)]\<rparr>,
      gn_tasks = [Asking ''gemini-3.7-flash'' 1, Asking ''gemini-3.8-flash'' 1],
      gn_requests = [(0, ''gemini-3.6-flash''), (1, ''gemini-3.6-flash''), (0, ''gemini-3.7-flash''), (1, ''gemini-3.8-flash'')],
      gn_failures = [''gemini-3.6-flash'', ''gemini-3.6-flash'']\<rparr>"
  by code_simp

lemma two_timeouts_reach: "gemini_reach silent (idle_client (new_gemini [])) two_timeouts"
  unfolding two_timeouts_def
  by (intro fails_at_reach starts_call_reach rtranclp.rtrancl_refl)
     (simp_all add: starts_call_def idle_client_def fails_at_def task_fails_def split: prod.splits sum.splits)

theorem gemini_requests_bounded_witness:
  "requests_of 0 two_timeouts \<le> 3 \<and>
   snd ` set (gn_requests two_timeouts) \<subseteq> insert (gm_model (new_gemini [])) (set MODEL_FALLBACK_CHAIN)"
  by (rule gemini_requests_bounded [OF two_timeouts_reach])

text \<open>
  The handler blames the model the client has at the time, not the one the failed request was sent
  to: when two calls on one model fail, the second marks the model the first has just switched to as
  unavailable although no request to it has failed.
\<close>

theorem idle_model_blamed:
  "gemini_reach silent (idle_client (new_gemini [])) two_timeouts \<and>
   ''gemini-3.7-flash'' \<in> fst ` set (gm_unavailable_until (gn_client two_timeouts)) \<and>
   ''gemini-3.7-flash'' \<notin> set (gn_failures two_timeouts)"
  using two_timeouts_reach by (simp add: two_timeouts_eq)

text \<open>
  The fallback is not always to an untried model: a model whose error names a delay of no seconds is
  taken up again in the same call.
\<close>

definition no_delay :: "llm_exn \<Rightarrow> string" where
  "no_delay e = ''503 UNAVAILABLE, retryDelay: '' @ [CHR 0x27] @ ''0s'' @ [CHR 0x27]"

theorem tried_model_again:
  "\<exists>r. gemini_reach no_delay (idle_client (new_gemini [])) r \<and>
     gn_requests r = [(0, ''gemini-3.6-flash''), (0, ''gemini-3.7-flash''), (0, ''gemini-3.6-flash'')]"
proof -
  let ?r = "starts_call (idle_client (new_gemini []))"
  let ?f = "fails_at no_delay 100 0 (LlmExn (PyExn ''ServerError''))"
  have "gn_requests (?f (?f ?r)) = [(0, ''gemini-3.6-flash''), (0, ''gemini-3.7-flash''), (0, ''gemini-3.6-flash'')]"
    by code_simp
  moreover have "gemini_reach no_delay (idle_client (new_gemini [])) (?f (?f ?r))"
    by (intro fails_at_reach starts_call_reach rtranclp.rtrancl_refl)
       (simp_all add: starts_call_def idle_client_def fails_at_def task_fails_def split: prod.splits sum.splits)
  ultimately show ?thesis by blast
qed

text \<open>
  A call may so wait for three requests of eight seconds each, which is more than the deadline of the
  decision it is part of.
\<close>

theorem switching_exceeds_deadline:
  "of_nat (Suc MAX_FALLBACK_SWITCHES) * REQUEST_TIMEOUT_SECONDS > OVERALL_DEADLINE_SECONDS"
  by (simp add: MAX_FALLBACK_SWITCHES_def REQUEST_TIMEOUT_SECONDS_def OVERALL_DEADLINE_SECONDS_def)

end
