(* ===== verification/Agent_Run.thy ===== *)
theory Agent_Run
  imports Agent_Loop
begin

text \<open>
  The investigation loop itself (agent/orchestrator.py): the checks of a conclusion, one pass of
  the loop, the loop and its bounded last attempt, and the entry points that run it. The loop is
  a function whose termination is proved: a pass that does not answer spends one of the turns.
\<close>

section \<open>Conclusions\<close>

definition decision_event ::
    "'w agent_env \<Rightarrow> loop_ctx \<Rightarrow> string \<Rightarrow> jdict \<Rightarrow> ('w, unit) agent_op" where
  "decision_event env lx event_type payload =
     bindM (reads (\<lambda>r. \<lparr>dv_event_type = event_type, dv_conversation_id = Some (cs_conversation_id (rn_state r)),
                       dv_investigation_id = Some (iv_investigation_id (rn_inv r)),
                       dv_provider = fst (ae_llm_name env (lx_llm lx)), dv_model = snd (ae_llm_name env (lx_llm lx)),
                       dv_payload = payload\<rparr>)) (\<lambda>event.
     log_decision_event env event)"

definition self_critique_conclude :: "'w agent_env \<Rightarrow> loop_ctx \<Rightarrow> conclusion \<Rightarrow> ('w, CritiqueVerdict option) agent_op" where
  "self_critique_conclude env lx c =
     (if \<not> self_critique_enabled env then returnM None
      else bindM (reads (\<lambda>r. \<lparr>ci_problem_statement = iv_problem (rn_inv r), ci_transcript = iv_transcript (rn_inv r),
                             ci_conclusion = c\<rparr>)) (\<lambda>input.
           bindM (attempt (world (ae_critique env (lx_llm lx) input))) (\<lambda>outcome.
           case outcome of
             Inl exc \<Rightarrow> bindM (decision_event env lx ''self_critique_call_failed'' [(''error'', JStr (ae_exn_text env exc))])
                          (\<lambda>_. returnM None)
           | Inr verdict \<Rightarrow> returnM (Some verdict))))"

definition reject_ungrounded :: "string list \<Rightarrow> InvestigationState \<Rightarrow> InvestigationState" where
  "reject_ungrounded names iv =
     append_evidence_once (''(a draft conclusion naming '' @ join '', '' names @ '' was rejected '' @ em_dash @
         '' not found in any evidence gathered)'')
       (add_transcript (entry ''internal.grounding_check'' ''Verifying the conclusion before reporting it.''
          [(''rejected'', JArr (map JStr names)),
           (''message'', JStr (''Your conclusion named '' @ join '', '' names @
              '', which does not appear anywhere in this investigation's evidence or the DBA's own message '' @ em_dash @
              '' never state something as a finding unless it actually came from a tool result or what the DBA said. '' @
              ''Revise your conclusion using only that.''))]) iv)"

definition reject_pending :: "pending_check \<Rightarrow> InvestigationState \<Rightarrow> InvestigationState" where
  "reject_pending p iv =
     append_evidence_once (''(a draft conclusion after '' @ pv_tool_id p @ '' was rejected '' @ em_dash @
         '' not yet independently verified)'')
       (add_transcript (entry ''internal.verification_check'' ''Verifying the remediation's real-world effect before reporting it.''
          [(''pending_tool_id'', JStr (pv_tool_id p)),
           (''message'', JStr (pv_tool_id p @ '' executed, but nothing has independently re-checked yet whether it actually took '' @
              ''effect '' @ em_dash @ '' never mark an action as resolved merely because it was submitted. Call '' @
              join '' or '' (pv_verification_tools p) @ '' to confirm the real-world outcome before concluding.''))]) iv)"

definition reject_critique :: "CritiqueVerdict \<Rightarrow> InvestigationState \<Rightarrow> InvestigationState" where
  "reject_critique v iv =
     append_evidence_once (''(a draft conclusion was rejected on review '' @ em_dash @ '' '' @
         opt_or (cv_issue v) ''did not follow from the evidence'' @ '')'')
       (add_transcript (entry ''internal.self_critique_check'' ''A second review of the conclusion before reporting it.''
          [(''issue'', opt_json (cv_issue v)),
           (''message'', JStr (''A second review of your draft conclusion found a problem: '' @
              opt_or (cv_issue v) ''it does not follow from the evidence gathered.'' @
              '' Revise your conclusion so it only states what the evidence actually supports.''))]) iv)"

definition accept_conclusion :: "conclusion \<Rightarrow> InvestigationState \<Rightarrow> InvestigationState" where
  "accept_conclusion c iv =
     iv\<lparr>iv_status := conclusion_stage iv,
        iv_findings := iv_findings iv @ (if nonempty (cn_likely_root_cause c) then [opt_or (cn_likely_root_cause c) []] else []),
        iv_recommendations := iv_recommendations iv @
          (if nonempty (cn_recommendation c) then [opt_or (cn_recommendation c) []] else [])\<rparr>"

definition accept :: "conclusion \<Rightarrow> ('w, AgentReply option) agent_op" where
  "accept c =
     bindM (upd_inv (accept_conclusion c)) (\<lambda>_.
     reads (\<lambda>r. Some (inv_reply (rn_inv r) (format_report (rn_inv r) c) ''ok'')))"

definition review :: "'w agent_env \<Rightarrow> loop_ctx \<Rightarrow> conclusion \<Rightarrow> ('w, AgentReply option) agent_op" where
  \<comment> \<open>the checks that only apply while there are turns left\<close>
  "review env lx c =
     bindM (reads (\<lambda>r. iv_pending_verification (rn_inv r))) (\<lambda>pending.
     case pending of
       Some p \<Rightarrow>
         bindM (upd_inv (reject_pending p)) (\<lambda>_.
         bindM (decision_event env lx ''conclusion_rejected_pending_verification'' [(''tool_id'', JStr (pv_tool_id p))])
           (\<lambda>_. returnM None))
     | None \<Rightarrow>
         bindM (self_critique_conclude env lx c) (\<lambda>verdict.
         case verdict of
           Some v \<Rightarrow>
             if cv_sound v then accept c
             else bindM (upd_inv (reject_critique v)) (\<lambda>_.
                  bindM (decision_event env lx ''conclusion_rejected_self_critique'' [(''issue'', opt_json (cv_issue v))])
                    (\<lambda>_. returnM None))
         | None \<Rightarrow> accept c))"

definition finalize_conclude :: "'w agent_env \<Rightarrow> loop_ctx \<Rightarrow> bool \<Rightarrow> conclusion \<Rightarrow> ('w, AgentReply option) agent_op" where
  "finalize_conclude env lx final_chance c =
     bindM (reads (\<lambda>r. ungrounded_identifiers c (rn_inv r))) (\<lambda>ungrounded.
     if ungrounded \<noteq> []
     then bindM (upd_inv (reject_ungrounded ungrounded)) (\<lambda>_.
          bindM (decision_event env lx ''conclusion_rejected_ungrounded_identifiers'' [(''names'', JArr (map JStr ungrounded))])
            (\<lambda>_. returnM None))
     else if final_chance then accept c else review env lx c)"

section \<open>One pass of the loop\<close>

definition decide_action :: "'w agent_env \<Rightarrow> loop_ctx \<Rightarrow> decide_input \<Rightarrow> ('w, AgentAction) agent_op" where
  \<comment> \<open>a provider that answered for another one leaves a notice\<close>
  "decide_action env lx input =
     bindM (world (ae_decide env (lx_llm lx) input)) (\<lambda>(action, events).
     bindM (upd_state (\<lambda>st. st\<lparr>cs_llm_fallback_notices := cs_llm_fallback_notices st @ events\<rparr>)) (\<lambda>_.
     returnM action))"

definition give_up :: "('w, AgentReply) agent_op" where
  "give_up =
     bindM (upd_inv (\<lambda>iv. iv\<lparr>iv_status := conclusion_stage iv\<rparr>)) (\<lambda>_.
     reads (\<lambda>r. no_root_cause_reply (rn_inv r)))"

definition ask_clarification :: "string \<Rightarrow> ('w, AgentReply option) agent_op" where
  "ask_clarification question =
     bindM (upd_inv (\<lambda>iv. iv\<lparr>iv_consecutive_record_observations := 0,
              iv_clarification_count := Suc (iv_clarification_count iv)\<rparr>)) (\<lambda>_.
     bindM (reads (\<lambda>r. iv_clarification_count (rn_inv r))) (\<lambda>n.
     if n > MAX_CLARIFICATION_TURNS
     then bindM (upd_inv (\<lambda>iv. iv\<lparr>iv_status := conclusion_stage iv\<rparr>)) (\<lambda>_.
          reads (\<lambda>r. Some (inv_reply (rn_inv r)
            (''I still don't have enough information to proceed '' @ em_dash @
             '' please restate what you'd like me to check, including the environment, server, and database if '' @
             ''relevant, in one message.'') ''ok'')))
     else bindM (upd_inv (\<lambda>iv. iv\<lparr>iv_status := AWAITING_CLARIFICATION\<rparr>)) (\<lambda>_.
          reads (\<lambda>r. Some (inv_reply (rn_inv r) question ''clarification'')))))"

definition spend_turn :: "InvestigationState \<Rightarrow> InvestigationState" where
  "spend_turn iv = iv\<lparr>iv_turn_count := Suc (iv_turn_count iv)\<rparr>"

definition take_action :: "'w agent_env \<Rightarrow> loop_ctx \<Rightarrow> AgentAction \<Rightarrow> ('w, AgentReply option) agent_op" where
  "take_action env lx action =
     (case action of
        AskClarification question \<Rightarrow> ask_clarification question
      | _ \<Rightarrow>
        bindM (upd_inv (\<lambda>iv. (spend_turn iv)\<lparr>iv_clarification_count := 0\<rparr>)) (\<lambda>_.
        case action of
          RecordObservation text \<Rightarrow>
            bindM (upd_inv (\<lambda>iv. add_evidence text
                     (iv\<lparr>iv_consecutive_record_observations := Suc (iv_consecutive_record_observations iv)\<rparr>)))
              (\<lambda>_. returnM None)
        | ProposeToolCall p \<Rightarrow>
            bindM (upd_inv (\<lambda>iv. iv\<lparr>iv_consecutive_record_observations := 0\<rparr>)) (\<lambda>_. submit_and_relay env lx p)
        | Conclude c \<Rightarrow>
            bindM (upd_inv (\<lambda>iv. iv\<lparr>iv_consecutive_record_observations := 0\<rparr>)) (\<lambda>_. finalize_conclude env lx False c)
        | AskClarification _ \<Rightarrow> returnM None))"

definition loop_body :: "'w agent_env \<Rightarrow> loop_ctx \<Rightarrow> ('w, AgentReply option) agent_op" where
  \<comment> \<open>\<open>None\<close>: go round again\<close>
  "loop_body env lx =
     bindM (upd_inv (\<lambda>iv. iv\<lparr>iv_status := INVESTIGATING\<rparr>)) (\<lambda>_.
     bindM (next_playbook_action (lx_available_ids lx)) (\<lambda>step_action.
     case step_action of
       Some p \<Rightarrow> bindM (upd_inv spend_turn) (\<lambda>_. submit_and_relay env lx p)
     | None \<Rightarrow>
         bindM (reads rn_inv) (\<lambda>iv.
         if iv_consecutive_record_observations iv \<ge> MAX_CONSECUTIVE_RECORD_OBSERVATIONS
         then bindM give_up (\<lambda>rp. returnM (Some rp))
         else bindM (decide_action env lx
                \<lparr>di_problem_statement = problem_statement_for_llm iv, di_available_tool_ids = lx_available_ids lx,
                 di_transcript = iv_transcript iv, di_turn_count = iv_turn_count iv,
                 di_tool_requirements = lx_tool_requirements lx\<rparr>) (\<lambda>action.
              bindM (upd_inv (\<lambda>iv. iv\<lparr>iv_last_message := []\<rparr>)) (\<lambda>_.
              take_action env lx action)))))"

section \<open>Invariants of computations\<close>

lemma bindM_apply: "bindM m f s = (case m s of (Inl e, s') \<Rightarrow> (Inl e, s') | (Inr a, s') \<Rightarrow> f a s')"
  by (auto simp: bindM_def split: prod.splits sum.splits)

lemma preserves_world: "(\<And>r w. P r \<Longrightarrow> P (r\<lparr>rn_world := w\<rparr>)) \<Longrightarrow> preserves P (world m)"
  by (auto simp: preserves_def world_def zoom_def split: prod.splits)

lemma preserves_upd_inv: "(\<And>r. P r \<Longrightarrow> P (r\<lparr>rn_inv := f (rn_inv r)\<rparr>)) \<Longrightarrow> preserves P (upd_inv f)"
  by (simp add: preserves_def upd_inv_def)

lemma preserves_upd_state: "(\<And>r. P r \<Longrightarrow> P (r\<lparr>rn_state := f (rn_state r)\<rparr>)) \<Longrightarrow> preserves P (upd_state f)"
  by (simp add: preserves_def upd_state_def)

lemma preserves_reads [preserve_intros]: "preserves P (reads f)"
  by (simp add: preserves_def reads_def)

lemma preserves_attempt [preserve_intros]: "preserves P m \<Longrightarrow> preserves P (attempt m)"
  by (auto simp: preserves_def attempt_def split: prod.splits)

lemma preserves_option [preserve_intros]:
  "preserves P m \<Longrightarrow> (\<And>a. preserves P (f a)) \<Longrightarrow> preserves P (case x of None \<Rightarrow> m | Some a \<Rightarrow> f a)"
  by (cases x) auto

lemma preserves_sum [preserve_intros]:
  "(\<And>e. preserves P (f e)) \<Longrightarrow> (\<And>a. preserves P (g a)) \<Longrightarrow> preserves P (case x of Inl e \<Rightarrow> f e | Inr a \<Rightarrow> g a)"
  by (cases x) auto

lemma preserves_prod [preserve_intros]:
  "(\<And>a b. preserves P (f a b)) \<Longrightarrow> preserves P (case x of (a, b) \<Rightarrow> f a b)"
  by (cases x) auto

section \<open>A pass spends a turn\<close>

definition at_turn :: "nat \<Rightarrow> bool \<Rightarrow> 'w agent_run \<Rightarrow> bool" where
  \<comment> \<open>what no step but the spending of a turn changes\<close>
  "at_turn n b r \<longleftrightarrow> iv_turn_count (rn_inv r) = n \<and> iv_read_only (rn_inv r) = b"

lemma at_turn_simps [simp]:
  "at_turn n b (r\<lparr>rn_world := w\<rparr>) = at_turn n b r"
  "at_turn n b (r\<lparr>rn_state := st\<rparr>) = at_turn n b r"
  "at_turn n b (r\<lparr>rn_inv := iv\<rparr>) \<longleftrightarrow> iv_turn_count iv = n \<and> iv_read_only iv = b"
  by (simp_all add: at_turn_def)

definition keeps_turn :: "(InvestigationState \<Rightarrow> InvestigationState) \<Rightarrow> bool" where
  "keeps_turn f \<longleftrightarrow> (\<forall>iv. iv_turn_count (f iv) = iv_turn_count iv \<and> iv_read_only (f iv) = iv_read_only iv)"

named_theorems turn_intros \<open>updates of an investigation that spend no turn\<close>

lemma keeps_turnI: "(\<And>iv. iv_turn_count (f iv) = iv_turn_count iv \<and> iv_read_only (f iv) = iv_read_only iv) \<Longrightarrow> keeps_turn f"
  by (simp add: keeps_turn_def)

lemma at_turn_ops [preserve_intros]:
  "preserves (at_turn n b) (world m)"
  "preserves (at_turn n b) (upd_state f)"
  "keeps_turn g \<Longrightarrow> preserves (at_turn n b) (upd_inv g)"
  by (auto intro!: preserves_world preserves_upd_state preserves_upd_inv simp: keeps_turn_def) (simp add: at_turn_def)+

lemma keeps_turn_comp [turn_intros]: "keeps_turn f \<Longrightarrow> keeps_turn g \<Longrightarrow> keeps_turn (f \<circ> g)"
  by (simp add: keeps_turn_def)

lemma keeps_turn_steps [turn_intros]:
  "keeps_turn (add_transcript e)" "keeps_turn (add_evidence t)" "keeps_turn (append_evidence_once t)"
  "keeps_turn (readonly_drop a)" "keeps_turn (readonly_decline a)" "keeps_turn (relay_failed a rs)"
  "keeps_turn (reject_ungrounded ns)" "keeps_turn (reject_pending p)" "keeps_turn (reject_critique v)"
  "keeps_turn (accept_conclusion c)"
  by (auto simp: keeps_turn_def add_transcript_def add_evidence_def append_evidence_once_def readonly_drop_def
      readonly_decline_def relay_failed_def reject_ungrounded_def reject_pending_def reject_critique_def accept_conclusion_def)

lemma keeps_turn_note_write: "keeps_turn (note_write a args ots)"
  by (auto simp: keeps_turn_def note_write_def split: option.splits)

lemma keeps_turn_executed [turn_intros]: "keeps_turn (relay_executed lx a args rs)"
  using keeps_turn_note_write
  by (auto simp: keeps_turn_def relay_executed_def update_pending_verification_def add_transcript_def add_evidence_def
      Let_def split: option.splits)

lemma at_turn_relay_denied [preserve_intros]: "preserves (at_turn n b) (relay_denied a rs)"
  by (rule preservesI) (auto simp: relay_denied_def Let_def at_turn_def add_evidence_def add_transcript_def)

lemma at_turn_relay_approval [preserve_intros]: "preserves (at_turn n b) (relay_approval a rq rs)"
  unfolding relay_approval_def Let_def by (intro preserve_intros)

lemma at_turn_relay [preserve_intros]: "preserves (at_turn n b) (relay lx a args rq rs)"
  unfolding relay_def by (cases "rs_status rs"; simp; intro preserve_intros turn_intros)

lemma at_turn_submit [preserve_intros]: "preserves (at_turn n b) (submit_and_relay env lx a)"
  unfolding submit_and_relay_def send_proposal_def submit_failed_def Let_def
  by (intro preserve_intros turn_intros)

lemma at_turn_best_effort [preserve_intros]: "preserves (at_turn n b) (best_effort m)"
  unfolding best_effort_def by (intro preserve_intros)

lemma at_turn_decision_event [preserve_intros]: "preserves (at_turn n b) (decision_event env lx t p)"
  unfolding decision_event_def log_decision_event_def by (intro preserve_intros)

lemma at_turn_conclude [preserve_intros]: "preserves (at_turn n b) (finalize_conclude env lx final c)"
  unfolding finalize_conclude_def review_def accept_def self_critique_conclude_def
  by (intro preserve_intros turn_intros)

lemma at_turn_decide [preserve_intros]: "preserves (at_turn n b) (decide_action env lx i)"
  unfolding decide_action_def by (intro preserve_intros)

lemma at_turn_playbook [preserve_intros]: "preserves (at_turn n b) (next_playbook_action ids)"
  by (rule preservesI) (auto simp: next_playbook_action_def at_turn_def split: option.splits prod.splits)

text \<open>A computation that ends without a reply has gone through every step of its sequence.\<close>

definition spends :: "'w agent_run \<Rightarrow> ('w, AgentReply option) agent_op \<Rightarrow> bool" where
  "spends r m \<longleftrightarrow> (\<forall>r'. m r = (Inr None, r') \<longrightarrow>
      iv_turn_count (rn_inv r') = Suc (iv_turn_count (rn_inv r)) \<and> iv_read_only (rn_inv r') = iv_read_only (rn_inv r))"

lemma spends_after:
  assumes "m r = (Inr a, s)" and "at_turn (Suc (iv_turn_count (rn_inv r))) (iv_read_only (rn_inv r)) s"
    and "preserves (at_turn (Suc (iv_turn_count (rn_inv r))) (iv_read_only (rn_inv r))) (f a)"
  shows "spends r (bindM m f)"
  using assms by (auto simp: spends_def bindM_apply at_turn_def dest!: preservesD [OF assms(3) assms(2)])

lemma take_action_spends: "spends r (take_action env lx action)"
proof (cases action)
  case (AskClarification q)
  then show ?thesis
    by (auto simp: spends_def take_action_def ask_clarification_def bindM_apply upd_inv_def reads_def)
next
  case (ProposeToolCall p)
  show ?thesis unfolding ProposeToolCall take_action_def
    by (simp, rule spends_after, simp add: upd_inv_def)
       (simp add: spend_turn_def, intro preserve_intros turn_intros keeps_turnI, simp)
next
  case (RecordObservation t)
  show ?thesis unfolding RecordObservation take_action_def
    by (simp, rule spends_after, simp add: upd_inv_def)
       (simp add: spend_turn_def, intro preserve_intros turn_intros keeps_turnI, simp add: add_evidence_def)
next
  case (Conclude c)
  show ?thesis unfolding Conclude take_action_def
    by (simp, rule spends_after, simp add: upd_inv_def)
       (simp add: spend_turn_def, intro preserve_intros turn_intros keeps_turnI, simp)
qed

lemma at_turn_self [simp]: "at_turn (iv_turn_count (rn_inv r)) (iv_read_only (rn_inv r)) r"
  by (simp add: at_turn_def)

lemma spends_cong: "at_turn (iv_turn_count (rn_inv r)) (iv_read_only (rn_inv r)) s \<Longrightarrow> spends s m \<Longrightarrow> m s = (Inr None, r') \<Longrightarrow>
   iv_turn_count (rn_inv r') = Suc (iv_turn_count (rn_inv r)) \<and> iv_read_only (rn_inv r') = iv_read_only (rn_inv r)"
  by (simp add: spends_def at_turn_def)

lemma spends_bind:
  assumes "preserves (at_turn (iv_turn_count (rn_inv r)) (iv_read_only (rn_inv r))) m"
    and "\<And>a s. m r = (Inr a, s) \<Longrightarrow> spends s (f a)"
  shows "spends r (bindM m f)"
proof -
  { fix r' assume "bindM m f r = (Inr None, r')"
    then obtain a s where s: "m r = (Inr a, s)" "f a s = (Inr None, r')" by (auto simp: bindM_eq_Inr_iff)
    from preservesD [OF assms(1) at_turn_self s(1)] spends_cong [OF _ assms(2) [OF s(1)] s(2)]
    have "iv_turn_count (rn_inv r') = Suc (iv_turn_count (rn_inv r)) \<and> iv_read_only (rn_inv r') = iv_read_only (rn_inv r)"
      by blast }
  then show ?thesis by (simp add: spends_def)
qed

lemma give_up_spends: "spends r (bindM give_up (\<lambda>rp. returnM (Some rp)))"
  by (simp add: spends_def give_up_def bindM_apply upd_inv_def reads_def)

lemma step_spends: "spends r (bindM (upd_inv spend_turn) (\<lambda>_. submit_and_relay env lx p))"
  by (rule spends_after, simp add: upd_inv_def) (simp add: spend_turn_def, intro preserve_intros)

lemma loop_body_spends: "spends r (loop_body env lx)"
  unfolding loop_body_def
  by (intro spends_bind)
     (auto intro!: preserve_intros keeps_turnI spends_bind give_up_spends take_action_spends step_spends split: option.split)

lemma loop_body_turn:
  "loop_body env lx r = (Inr None, r') \<Longrightarrow>
     iv_turn_count (rn_inv r') = Suc (iv_turn_count (rn_inv r)) \<and> iv_read_only (rn_inv r') = iv_read_only (rn_inv r)"
  using loop_body_spends [of r env lx] by (simp add: spends_def)

section \<open>The loop\<close>

function investigation_loop :: "'w agent_env \<Rightarrow> loop_ctx \<Rightarrow> ('w, AgentReply option) agent_op" where
  "investigation_loop env lx r =
     (if iv_turn_count (rn_inv r) < MAX_INVESTIGATION_TURNS
      then (case loop_body env lx r of
              (Inl e, r') \<Rightarrow> (Inl e, r')
            | (Inr (Some rp), r') \<Rightarrow> (Inr (Some rp), r')
            | (Inr None, r') \<Rightarrow> investigation_loop env lx r')
      else (Inr None, r))"
  by pat_completeness auto

termination
  by (relation "measure (\<lambda>(env, lx, r). MAX_INVESTIGATION_TURNS - iv_turn_count (rn_inv r))")
     (auto dest: loop_body_turn [OF sym])

declare investigation_loop.simps [simp del]

definition LAST_CHANCE :: string where
  "LAST_CHANCE =
     newline @ newline @ ''You are out of further diagnostic or action turns. You MUST respond with action=conclude now, '' @
     ''summarizing what was found and done so far '' @ em_dash @
     '' even if the root cause isn't fully confirmed, an honest '' @ [CHR 0x22] @ ''here's what I found and tried'' @
     [CHR 0x22] @ '' is far more useful than nothing.''"

definition final_attempt :: "'w agent_env \<Rightarrow> loop_ctx \<Rightarrow> ('w, AgentReply) agent_op" where
  "final_attempt env lx =
     bindM (reads rn_inv) (\<lambda>iv.
     bindM (decide_action env lx
              \<lparr>di_problem_statement = problem_statement_for_llm iv @ LAST_CHANCE, di_available_tool_ids = [],
               di_transcript = iv_transcript iv, di_turn_count = iv_turn_count iv, di_tool_requirements = None\<rparr>) (\<lambda>action.
     bindM (case action of Conclude c \<Rightarrow> finalize_conclude env lx True c | _ \<Rightarrow> returnM None) (\<lambda>answer.
     case answer of Some rp \<Rightarrow> returnM rp | None \<Rightarrow> give_up)))"

definition run_investigation_loop :: "'w agent_env \<Rightarrow> loop_ctx \<Rightarrow> ('w, AgentReply) agent_op" where
  "run_investigation_loop env lx =
     bindM (investigation_loop env lx) (\<lambda>answer.
     case answer of Some rp \<Rightarrow> returnM rp | None \<Rightarrow> final_attempt env lx)"

section \<open>Servers by name\<close>

definition list_servers_cached :: "'w agent_env \<Rightarrow> ('w, server_view list) agent_op" where
  "list_servers_cached env = or_empty (http_servers env)"

definition server_matches :: "string \<Rightarrow> server_view \<Rightarrow> bool" where
  "server_matches instance_hint s =
     (let hint = lower (strip instance_hint);
          hint_normalized = normalize_server_reference hint;
          names = lower (sv_id s) # map lower (sv_aliases s);
          host = lower (opt_or (sv_host s) []);
          normalized_names = map normalize_server_reference names
      in List.member names hint \<or> hint = host \<or> List.member normalized_names hint_normalized \<or>
         list_ex (contains hint) names \<or> (host \<noteq> [] \<and> contains hint host) \<or>
         list_ex (contains hint_normalized) normalized_names)"

definition find_matching_servers :: "'w agent_env \<Rightarrow> string \<Rightarrow> ('w, server_view list) agent_op" where
  "find_matching_servers env instance_hint =
     bindM (list_servers_cached env) (\<lambda>servers. returnM (filter (server_matches instance_hint) servers))"

definition environment_for_instance :: "'w agent_env \<Rightarrow> string \<Rightarrow> ('w, string option) agent_op" where
  "environment_for_instance env instance_hint =
     bindM (find_matching_servers env instance_hint) (\<lambda>matches.
       let environments = filter (\<lambda>e. e \<noteq> []) (map sv_environment matches)
       in returnM (if length (remdups environments) = 1 then Some (hd environments) else None))"

definition canonical_server_id :: "'w agent_env \<Rightarrow> string \<Rightarrow> ('w, string) agent_op" where
  "canonical_server_id env instance_hint =
     bindM (find_matching_servers env instance_hint) (\<lambda>matches.
       let ids = remdups (map sv_id matches)
       in returnM (if length ids = 1 then hd ids else instance_hint))"

definition context_server_id :: "'w agent_env \<Rightarrow> ('w, string option) agent_op" where
  \<comment> \<open>\<open>await self._canonical_server_id(raw_instance) if raw_instance else None\<close>\<close>
  "context_server_id env =
     bindM (reads (\<lambda>r. map_of (cs_database_context (rn_state r)) ''instance'')) (\<lambda>raw.
       case raw of
         Some (JStr s) \<Rightarrow> if s = [] then returnM None else bindM (canonical_server_id env s) (\<lambda>i. returnM (Some i))
       | _ \<Rightarrow> returnM None)"

definition context_environment :: "ConversationState \<Rightarrow> string option" where
  "context_environment st =
     (case map_of (cs_database_context st) ''environment'' of Some (JStr s) \<Rightarrow> Some s | _ \<Rightarrow> None)"

section \<open>Continuing an investigation\<close>

definition bootstrap_investigation_memory :: "'w agent_env \<Rightarrow> string \<Rightarrow> ('w, unit) agent_op" where
  "bootstrap_investigation_memory env channel_account_id =
     bindM (reads rn_inv) (\<lambda>iv0.
     if iv_remote_bootstrap_done iv0 then returnM ()
     else
       bindM (upd_inv (\<lambda>iv. iv\<lparr>iv_remote_bootstrap_done := True\<rparr>)) (\<lambda>_.
       bindM (context_server_id env) (\<lambda>server_id.
       bindM (reads rn_state) (\<lambda>st.
       bindM (create_investigation env
                \<lparr>cr_investigation_id = iv_investigation_id iv0, cr_conversation_id = cs_conversation_id st,
                 cr_user_subject_id = channel_account_id, cr_server_id = server_id, cr_playbook_id = iv_playbook_id iv0,
                 cr_environment = context_environment st, cr_target = cs_database_context st,
                 cr_problem = iv_problem iv0, cr_status = stage_value (iv_status iv0)\<rparr>) (\<lambda>_.
       bindM (if nonempty server_id \<and> investigation_memory_lookback env > 0
              then get_investigation_memory env (opt_or server_id []) (Some (iv_investigation_id iv0))
                     (investigation_memory_lookback env)
              else returnM []) (\<lambda>entries.
       bindM (if nonempty (iv_playbook_id iv0)
              then get_cross_server_patterns env (opt_or (iv_playbook_id iv0) []) (context_environment st) server_id
              else returnM []) (\<lambda>patterns.
       upd_inv (\<lambda>iv. iv\<lparr>iv_memory_context := entries @ patterns\<rparr>))))))))"

definition llm_for :: "'w agent_env \<Rightarrow> bool \<Rightarrow> ConversationState \<Rightarrow> llm_choice" where
  \<comment> \<open>the tier's model, unless the conversation made a choice\<close>
  "llm_for env fast st =
     \<lparr>lc_provider = cs_llm_provider st,
      lc_model = (if cs_llm_provider st = None \<and> cs_llm_model st = None
                  then (let m = (if fast then llm_fast_model env else llm_strong_model env) in if m = [] then None else Some m)
                  else cs_llm_model st)\<rparr>"

definition make_ctx :: "string \<Rightarrow> string \<Rightarrow> llm_choice \<Rightarrow> ToolDefinition list \<Rightarrow> loop_ctx" where
  "make_ctx channel channel_account_id llm available =
     \<lparr>lx_channel = channel, lx_account = channel_account_id, lx_llm = llm,
      lx_available_ids = map td_tool_id available,
      lx_tool_requirements = Some (dict_of (map (\<lambda>t. (td_tool_id t, schema_required (td_argument_schema t))) available)),
      lx_tool_allowed_arguments =
        Some (dict_of (map (\<lambda>t. (td_tool_id t, schema_properties (td_argument_schema t))) available)),
      lx_tool_operation_types = Some (dict_of (map (\<lambda>t. (td_tool_id t, td_operation_type t)) available))\<rparr>"

definition offered :: "bool \<Rightarrow> ToolDefinition list \<Rightarrow> ToolDefinition list" where
  "offered read_only available = (if read_only then filter (\<lambda>t. td_operation_type t = READ) available else available)"

definition persist :: "'w agent_env \<Rightarrow> ('w, unit) agent_op" where
  "persist env =
     bindM (context_server_id env) (\<lambda>server_id.
     bindM (reads (\<lambda>r. (rn_state r, rn_inv r))) (\<lambda>(st, iv).
     update_investigation env (iv_investigation_id iv)
       \<lparr>up_server_id = server_id, up_playbook_id = iv_playbook_id iv, up_environment = context_environment st,
        up_target = Some (cs_database_context st), up_status = Some (stage_value (effective_status iv)),
        up_evidence = Some (iv_evidence iv), up_hypotheses = Some (iv_hypotheses iv),
        up_findings = Some (iv_findings iv), up_recommendations = Some (iv_recommendations iv),
        up_actions = Some (iv_actions iv)\<rparr>))"

definition continue_investigation ::
    "'w agent_env \<Rightarrow> string \<Rightarrow> string \<Rightarrow> ('w, AgentReply) agent_op" where
  "continue_investigation env channel channel_account_id =
     bindM (reads (\<lambda>r. llm_for env False (rn_state r))) (\<lambda>llm.
     bindM (bootstrap_investigation_memory env channel_account_id) (\<lambda>_.
     bindM (world (http_tools env channel channel_account_id)) (\<lambda>tools.
     bindM (reads (\<lambda>r. make_ctx channel channel_account_id llm (offered (iv_read_only (rn_inv r)) tools))) (\<lambda>lx.
     bindM (run_investigation_loop env lx) (\<lambda>answer.
     bindM (persist env) (\<lambda>_. returnM answer))))))"

end
