(* ===== verification/Agent_Conversation.thy ===== *)
theory Agent_Conversation
  imports Agent_Run Llm_Providers
begin

text \<open>
  The Agent's conversations (agent/orchestrator.py): the commands, the free-text equivalents the
  planner classifies, the collection of a target, the approval buttons, and the entry points that
  answer a message. A conversation is handled on its own state and the world; the investigation in
  it is the one object both share. The calls that leave the process are parameters.
\<close>

section \<open>Parameters and state\<close>

record 'w chat_env =
  cx_agent :: "'w agent_env"
  cx_registry :: llm_registry
  cx_describe :: "('w, exn, string) comp"                    \<comment> \<open>\<open>registry.describe_available()\<close>\<close>
  cx_list_models :: "string \<Rightarrow> ('w, exn, string list) comp"  \<comment> \<open>\<open>registry.list_models(provider)\<close>\<close>
  http_server_catalog :: "string \<Rightarrow> ('w, exn, (string \<times> ServerCatalog option) option) comp"
  http_refresh :: "string \<Rightarrow> string \<Rightarrow> string option \<Rightarrow> ('w, exn, int \<times> jdict) comp"

record 'w chat =
  ch_state :: ConversationState
  ch_world :: 'w

type_synonym ('w, 'a) chat_op = "('w chat, exn, 'a) comp"

definition chat_world :: "('w, exn, 'a) comp \<Rightarrow> ('w, 'a) chat_op" where
  "chat_world = zoom ch_world (\<lambda>w c. c\<lparr>ch_world := w\<rparr>)"

definition chat_upd :: "(ConversationState \<Rightarrow> ConversationState) \<Rightarrow> ('w, unit) chat_op" where
  "chat_upd f c = (Inr (), c\<lparr>ch_state := f (ch_state c)\<rparr>)"

definition chat_state :: "('w, ConversationState) chat_op" where
  "chat_state c = (Inr (ch_state c), c)"

definition in_investigation :: "('w, 'a) agent_op \<Rightarrow> InvestigationState \<Rightarrow> ('w, 'a) chat_op" where
  \<comment> \<open>work on the conversation's investigation, which stays in the conversation whatever happens\<close>
  "in_investigation m iv c =
     (case m \<lparr>rn_state = ch_state c, rn_inv = iv, rn_world = ch_world c\<rparr> of
        (r, s) \<Rightarrow> (r, \<lparr>ch_state = (rn_state s)\<lparr>cs_investigation := Some (rn_inv s)\<rparr>, ch_world = rn_world s\<rparr>))"

section \<open>Reading a message\<close>

definition mention :: "string \<Rightarrow> string option" where
  \<comment> \<open>what follows a leading token \<open><@...>\<close>\<close>
  "mention s =
     (case s of
        a # b # rest \<Rightarrow>
          if a = CHR ''<'' \<and> b = CHR ''@'' \<and> rest \<noteq> [] \<and> hd rest \<noteq> CHR ''>''
          then (case dropWhile (\<lambda>c. c \<noteq> CHR ''>'') rest of [] \<Rightarrow> None | _ # after \<Rightarrow> Some after)
          else None
      | _ \<Rightarrow> None)"

lemma mention_shorter: "mention s = Some t \<Longrightarrow> length t < length s"
proof -
  assume "mention s = Some t"
  then obtain rest x after where s: "s = CHR ''<'' # CHR ''@'' # rest" and
      after: "dropWhile (\<lambda>c. c \<noteq> CHR ''>'') rest = x # after" "t = after"
    by (auto simp: mention_def split: list.splits if_splits)
  have "length (x # after) \<le> length rest" using length_dropWhile_le [of "\<lambda>c. c \<noteq> CHR ''>''" rest] after(1) by simp
  then show ?thesis using s after(2) by simp
qed

lemma dropWhile_shorter: "length s \<le> n \<Longrightarrow> length (dropWhile P s) \<le> n"
  using length_dropWhile_le [of P s] by simp

function strip_leading_mentions :: "string \<Rightarrow> string" where
  \<comment> \<open>once a token was found, its spaces go with it\<close>
  "strip_leading_mentions s =
     (case mention (dropWhile is_space s) of
        None \<Rightarrow> s
      | Some t \<Rightarrow> strip_leading_mentions (dropWhile is_space t))"
  by pat_completeness auto

termination
proof (relation "measure length")
  fix s t :: string assume "mention (dropWhile is_space s) = Some t"
  then have "length t < length (dropWhile is_space s)" by (rule mention_shorter)
  also have "\<dots> \<le> length s" by (rule length_dropWhile_le)
  finally show "(dropWhile is_space t, s) \<in> measure length"
    using length_dropWhile_le [of is_space t] by simp
qed simp

declare strip_leading_mentions.simps [simp del]

function mentions_only :: "string \<Rightarrow> bool" where
  "mentions_only s =
     (case mention (dropWhile is_space s) of
        None \<Rightarrow> False
      | Some t \<Rightarrow> dropWhile is_space t = [] \<or> mentions_only (dropWhile is_space t))"
  by pat_completeness auto

termination
proof (relation "measure length")
  fix s t :: string assume "mention (dropWhile is_space s) = Some t"
  then have "length t < length (dropWhile is_space s)" by (rule mention_shorter)
  also have "\<dots> \<le> length s" by (rule length_dropWhile_le)
  finally show "(dropWhile is_space t, s) \<in> measure length"
    using length_dropWhile_le [of is_space t] by simp
qed simp

declare mentions_only.simps [simp del]

fun strip_trailing_mentions :: "string \<Rightarrow> string" where
  "strip_trailing_mentions [] = []"
| "strip_trailing_mentions (c # cs) = (if mentions_only (c # cs) then [] else c # strip_trailing_mentions cs)"

definition strip_bot_mention_noise :: "string \<Rightarrow> string" where
  "strip_bot_mention_noise message = strip (strip_trailing_mentions (strip_leading_mentions message))"

fun environment_answer :: "bool \<Rightarrow> string \<Rightarrow> string option" where
  \<comment> \<open>the first of the three words in the text, as a word of its own; the flag: after a word character\<close>
  "environment_answer after_word [] = None"
| "environment_answer after_word (c # cs) =
     (case find (\<lambda>w. prefix w (lower (c # cs)) \<and> \<not> starts_word (drop (length w) (c # cs)))
              [''development'', ''uat'', ''production''] of
        Some w \<Rightarrow> if \<not> after_word then Some w else environment_answer (word_char c) cs
      | None \<Rightarrow> environment_answer (word_char c) cs)"

fun split_words :: "string \<Rightarrow> string \<Rightarrow> string list" where
  \<comment> \<open>\<open>s.split()\<close>, with the reversed word so far\<close>
  "split_words acc [] = (if acc = [] then [] else [rev acc])"
| "split_words acc (c # cs) =
     (if is_space c then (if acc = [] then split_words [] cs else rev acc # split_words [] cs)
      else split_words (c # acc) cs)"

section \<open>Replies without an investigation\<close>

definition quote :: "string \<Rightarrow> string" where
  "quote s = [CHR 0x27] @ s @ [CHR 0x27]"

definition dquote :: "string \<Rightarrow> string" where
  "dquote s = [CHR 0x22] @ s @ [CHR 0x22]"

definition HELP_TEXT :: string where
  "HELP_TEXT =
     ''I'm Numi, your AI DBA assistant. I can investigate database health, performance, blocking, deadlocks, replication, '' @
     ''backups, and more, and '' @ em_dash @ '' with your role's approval where required '' @ em_dash @
     '' take controlled remediation actions. Try: '' @ dquote ''Why is CoreBanking slow?'' @ '' or '' @
     dquote ''Check blocking on CoreBanking production.'' @ newline @ newline @
     ''Commands: /help, /status, /approve <id>, /reject <id>, /models, /model <provider> <model>, /servers, /catalog <id>, '' @
     ''/discover, /playbooks, /approvers'' @ newline @ newline @
     ''You never need the exact slash syntax for any of these '' @ em_dash @ '' plain language works too (e.g. '' @
     dquote ''what servers do you have'' @ '' instead of /servers).''"

definition APPROVAL_MODEL_TEXT :: string where
  "APPROVAL_MODEL_TEXT =
     ''Approval requirements are decided by the DBA Control Gateway's policy engine, not by me '' @ em_dash @
     '' they depend on your own DBA role, the specific action, and the target environment, so there's no single fixed '' @
     ''answer I can give in the abstract. In general: routine read-only checks never need approval; higher-risk write '' @
     ''actions typically require a more senior DBA role or a separate, independent approver (you can never approve your '' @
     ''own request); and the most critical actions (an instance restart or a failover) require two different qualified '' @
     ''approvers, not just one. Whenever one of your own requests actually needs approval, I'll show you exactly what's '' @
     ''required at that moment '' @ em_dash @ '' for your role's specific permissions ahead of time, check with your '' @
     ''organization's RBAC documentation or a DBA_MANAGER.''"

definition say :: "string \<Rightarrow> ('w, AgentReply) chat_op" where
  \<comment> \<open>\<open>AgentReply(text=...)\<close>\<close>
  "say text = returnM (reply text ''ok'' None)"

definition say_as :: "string \<Rightarrow> string \<Rightarrow> ('w, AgentReply) chat_op" where
  "say_as status text = returnM (reply text status None)"

definition stage_phrase :: "InvestigationState \<Rightarrow> string" where
  "stage_phrase iv =
     (case effective_status iv of
        INVESTIGATING \<Rightarrow> ''Investigating.''
      | AWAITING_CLARIFICATION \<Rightarrow> ''Awaiting your answer to a clarifying question.''
      | AWAITING_VERIFICATION \<Rightarrow> ''Awaiting independent verification of '' @
          (case iv_pending_verification iv of None \<Rightarrow> ''the last action'' | Some p \<Rightarrow> pv_tool_id p) @ ''.''
      | CONCLUDED_VERIFIED \<Rightarrow> ''Concluded '' @ em_dash @ '' the remediation was independently re-checked and confirmed resolved.''
      | CONCLUDED_UNRESOLVED \<Rightarrow>
          ''Concluded '' @ em_dash @ '' the remediation was independently re-checked and did NOT resolve the condition.''
      | CONCLUDED_UNVERIFIED \<Rightarrow> ''Concluded '' @ em_dash @ '' a remediation ran but was never independently verified.''
      | CONCLUDED_NO_ACTION \<Rightarrow> ''Concluded.'')"

definition status_reply :: "ConversationState \<Rightarrow> AgentReply" where
  "status_reply state =
     (case cs_investigation state of
        None \<Rightarrow> reply ''No active investigation on this conversation.'' ''ok'' None
      | Some iv \<Rightarrow>
          let note = (case get_playbook (iv_playbook_id iv) of
                        None \<Rightarrow> []
                      | Some p \<Rightarrow> '' Following the '' @ quote (pb_name p) @ '' playbook (step '' @
                          nat_str (min (iv_playbook_step iv) (length (pb_steps p))) @ ''/'' @ nat_str (length (pb_steps p)) @ '').'')
          in reply (''Investigation '' @ iv_investigation_id iv @ '': '' @ stage_phrase iv @ note @ '' '' @
               nat_str (length (iv_evidence iv)) @ '' observations so far.'') ''ok'' (Some (iv_investigation_id iv)))"

definition handle_playbooks_command :: "('w, AgentReply) chat_op" where
  "handle_playbooks_command =
     say (''I automatically follow one of these fixed diagnostic sequences when your message matches its scenario, '' @
       ''instead of investigating fully freeform:'' @ newline @
       join newline (map (\<lambda>p. ''- '' @ pb_name p @ '': '' @ pb_description p) PLAYBOOKS))"

definition server_line :: "server_view \<Rightarrow> string" where
  "server_line s =
     (let summary = (case sv_catalog s of
            None \<Rightarrow> ''not yet discovered '' @ em_dash @ '' run /discover''
          | Some (names, discovered_at) \<Rightarrow>
              let preview = join '', '' (take 8 names) @ (if length names > 8 then '', '' @ ellipsis else [])
              in nat_str (length names) @ '' databases'' @ (if preview = [] then [] else '' ('' @ preview @ '')'') @
                 '', discovered '' @ take 16 (opt_or discovered_at []))
      in ''- '' @ sv_id s @ ''  ['' @ sv_environment s @ ''/'' @ sv_platform s @ '', '' @ sv_criticality s @ '']  '' @ summary)"

definition handle_servers_command :: "'w chat_env \<Rightarrow> ('w, AgentReply) chat_op" where
  "handle_servers_command env =
     bindM (chat_world (http_servers (cx_agent env))) (\<lambda>servers.
       if servers = [] then say ''No servers are registered.''
       else say (''Registered servers:'' @ newline @ join newline (map server_line servers)))"

definition handle_approvers_command :: "('w, AgentReply) chat_op" where
  "handle_approvers_command = say APPROVAL_MODEL_TEXT"

definition round_mb :: "int \<Rightarrow> int" where
  \<comment> \<open>\<open>f"{n / 1e6:.0f}"\<close>: to the nearest, halves to the even\<close>
  "round_mb n =
     (let q = n div 1000000; r = n mod 1000000
      in if r < 500000 \<or> (r = 500000 \<and> even q) then q else q + 1)"

definition count_kinds :: "DiscoveredObject list \<Rightarrow> jdict" where
  "count_kinds objects =
     map (\<lambda>k. (k, JInt (int (count_list (map do_kind objects) k)))) (fold add_new (map do_kind objects) [])"

definition database_line :: "DiscoveredDatabase \<Rightarrow> string" where
  "database_line d =
     (let size = (case dd_size_bytes d of
                    None \<Rightarrow> ''?'' | Some n \<Rightarrow> if n = 0 then ''?'' else int_str (round_mb n) @ ''MB'');
          exts = (if dd_extensions d = [] then [] else '', '' @ nat_str (length (dd_extensions d)) @ '' extensions'')
      in ''  '' @ dd_name d @ '' ('' @ dd_state d @ '', '' @ size @ '') '' @ em_dash @ '' '' @
         py_repr (JObj (count_kinds (dd_objects d))) @ exts)"

definition catalog_lines :: "string \<Rightarrow> ServerCatalog \<Rightarrow> string list" where
  "catalog_lines server_id c =
     [server_id @ '' '' @ em_dash @ '' '' @ sc_engine_edition c @ '' '' @ sc_engine_version c] @
     map database_line (take 40 (sc_databases c)) @
     (if sc_warnings c = [] then [] else [''  warnings: '' @ py_repr (JArr (map JStr (take 3 (sc_warnings c))))]) @
     (case sc_least_privilege c of
        None \<Rightarrow> []
      | Some f \<Rightarrow>
          (case warning_text f of
             None \<Rightarrow> []
           | Some w \<Rightarrow> (''  '' @ w) # (if lp_scope_note f = [] then [] else [''    scope: '' @ lp_scope_note f])))"

definition handle_catalog_command :: "'w chat_env \<Rightarrow> string option \<Rightarrow> ('w, AgentReply) chat_op" where
  "handle_catalog_command env server_id =
     (if \<not> nonempty server_id then say ''Which server's catalog would you like to see? (see /servers)''
      else
        bindM (chat_world (http_server_catalog env (opt_or server_id []))) (\<lambda>data.
          case data of
            Some (sid, Some c) \<Rightarrow> say (join newline (catalog_lines sid c))
          | _ \<Rightarrow> say (''No catalog for '' @ quote (opt_or server_id []) @ '' yet '' @ em_dash @ '' run /discover '' @
                  opt_or server_id [])))"

definition client_refresh :: "'w chat_env \<Rightarrow> string \<Rightarrow> string \<Rightarrow> string option \<Rightarrow> ('w, exn, jdict) comp" where
  "client_refresh env channel channel_account_id server_id =
     bindM (http_refresh env channel channel_account_id (if nonempty server_id then server_id else None)) (\<lambda>(code, body).
       returnM (if code \<ge> 400
                then [(''status'', JStr ''ERROR''), (''detail'', (case map_of body ''detail'' of None \<Rightarrow> JStr ''error'' | Some v \<Rightarrow> v))]
                else body))"

definition json_get :: "jdict \<Rightarrow> string \<Rightarrow> json" where
  \<comment> \<open>\<open>d.get(k)\<close>\<close>
  "json_get d k = (case map_of d k of None \<Rightarrow> JNull | Some v \<Rightarrow> v)"

definition py_len :: "json \<Rightarrow> nat result" where
  \<comment> \<open>\<open>len(v or [])\<close>\<close>
  "py_len v =
     (if \<not> truthy v then Inr 0
      else (case v of
              JArr xs \<Rightarrow> Inr (length xs) | JObj kvs \<Rightarrow> Inr (length kvs) | JStr s \<Rightarrow> Inr (length s)
            | _ \<Rightarrow> Inl (PyExn ''TypeError'')))"

definition handle_discover_command :: "'w chat_env \<Rightarrow> string option \<Rightarrow> string \<Rightarrow> string \<Rightarrow> ('w, AgentReply) chat_op" where
  "handle_discover_command env server_id channel channel_account_id =
     bindM (chat_world (client_refresh env channel channel_account_id server_id)) (\<lambda>result.
       if map_of result ''status'' = Some (JStr ''ERROR'')
       then say_as ''error'' (''Discovery failed: '' @ py_str (json_get result ''detail''))
       else (case server_id of
               Some sid \<Rightarrow>
                 let reported = py_str (case map_of result ''server_id'' of None \<Rightarrow> JStr sid | Some v \<Rightarrow> v)
                 in (case map_of result ''error'' of
                       Some e \<Rightarrow> say_as ''error'' (''Discovery failed for '' @ reported @ '': '' @ py_str e)
                     | None \<Rightarrow>
                         bindM (liftE (py_len (json_get result ''databases''))) (\<lambda>n.
                           say (''Discovery complete: '' @ reported @ '' ('' @ nat_str n @ '' databases).'')))
             | None \<Rightarrow>
                 say (''Discovery complete:'' @ newline @
                   join newline (map (\<lambda>(sid, status). ''- '' @ sid @ '': '' @ py_str status) result))))"

section \<open>Choosing a model\<close>

definition model_label :: "string \<Rightarrow> string option \<Rightarrow> string" where
  "model_label p m = p @ (if nonempty m then '' / '' @ opt_or m [] else '' (provider default)'')"

definition switch_model :: "'w chat_env \<Rightarrow> string \<Rightarrow> string option \<Rightarrow> ('w, AgentReply) chat_op" where
  "switch_model env provider model =
     (case validate_selection (cx_registry env) provider of
        Some error \<Rightarrow> say_as ''error'' error
      | None \<Rightarrow>
          bindM (case model of
                   Some m \<Rightarrow> if provider \<noteq> ''mock'' then chat_world (cx_list_models env provider) else returnM []
                 | None \<Rightarrow> returnM []) (\<lambda>available.
          if available \<noteq> [] \<and> (case model of None \<Rightarrow> False | Some m \<Rightarrow> m \<notin> set available)
          then say_as ''error'' (quote (opt_or model []) @ '' isn't in '' @ provider @ [CHR 0x27] @ ''s available models. Options: '' @
                 join '', '' (take 10 available))
          else bindM (chat_upd (\<lambda>st. st\<lparr>cs_llm_provider := Some provider, cs_llm_model := model\<rparr>)) (\<lambda>_.
               say (''Model for this conversation set to '' @ model_label provider model @ ''.''))))"

definition handle_model_command :: "'w chat_env \<Rightarrow> string \<Rightarrow> ('w, AgentReply) chat_op" where
  "handle_model_command env stripped =
     (case split_words [] stripped of
        [] \<Rightarrow> raiseM (PyExn ''IndexError'')
      | command # parts \<Rightarrow>
          if command = ''/models'' then bindM (chat_world (cx_describe env)) say
          else
            (case parts of
               [] \<Rightarrow>
                 bindM chat_state (\<lambda>st.
                   let (current, source) =
                         (if nonempty (cs_llm_provider st)
                          then (opt_or (cs_llm_provider st) [] @
                                (if nonempty (cs_llm_model st) then '' / '' @ opt_or (cs_llm_model st) [] else []),
                                ''this conversation'')
                          else (let (dp, dm) = effective_default_llm (rg_settings (cx_registry env))
                                in (model_label dp (Some dm), ''deployment default'')));
                       hint = (if selection_enabled (cx_registry env) then [] else '' (switching is disabled here)'')
                   in say (''Current model: '' @ current @ '' '' @ em_dash @ '' '' @ source @ ''.'' @ hint @ newline @
                        ''Use `/model <provider> <model>` to switch, or `/models` to list options.''))
             | provider # rest \<Rightarrow>
                 switch_model env (lower provider) (case rest of [] \<Rightarrow> None | m # _ \<Rightarrow> Some m)))"

section \<open>Approval decisions\<close>

definition approval_path_id :: "PendingApproval \<Rightarrow> string" where
  \<comment> \<open>the id as it is put into the URL\<close>
  "approval_path_id p = (case pa_approval_id p of None \<Rightarrow> ''None'' | Some i \<Rightarrow> i)"

definition approved_request :: "PendingApproval \<Rightarrow> ToolCallRequest" where
  "approved_request p = (pa_request p)\<lparr>rq_approval_id := pa_approval_id p\<rparr>"

definition note_action :: "string \<Rightarrow> tool_result option \<Rightarrow> ConversationState \<Rightarrow> ConversationState" where
  "note_action tool_id result state =
     state\<lparr>cs_investigation := map_option (\<lambda>iv. iv\<lparr>iv_actions := iv_actions iv @ [(tool_id, result)]\<rparr>) (cs_investigation state)\<rparr>"

definition result_text :: "tool_result option \<Rightarrow> string" where
  "result_text result = (case result of None \<Rightarrow> ''None'' | Some t \<Rightarrow> py_repr (JObj (result_dict result)))"

definition resubmit :: "'w chat_env \<Rightarrow> PendingApproval \<Rightarrow> ('w, AgentReply) chat_op" where
  \<comment> \<open>fully approved: the original request again, with the approval id\<close>
  "resubmit env pending =
     bindM (chat_upd (\<lambda>st. st\<lparr>cs_pending_approval := None\<rparr>)) (\<lambda>_.
     bindM (attempt (chat_world (http_submit (cx_agent env) (approved_request pending)))) (\<lambda>outcome.
     case outcome of
       Inl exc \<Rightarrow>
         say_as ''error'' (''Your approval was recorded, but I couldn't confirm '' @ pa_tool_id pending @ '' executed '' @ em_dash @
           '' the Gateway didn't respond in time. Check the audit trail for approval_id '' @ approval_path_id pending @
           '' before retrying (see OPERATIONS.md's '' @ dquote (''a DBA reports '' @ quote ''I approved it but nothing happened'') @
           '' runbook).'')
     | Inr response \<Rightarrow>
         if rs_status response = TC_EXECUTED
         then bindM (chat_upd (note_action (pa_tool_id pending) (rs_result response))) (\<lambda>_.
              bindM chat_state (\<lambda>st.
              returnM (reply (''Action approved.'' @ newline @ newline @ pa_tool_id pending @ '' completed successfully.'' @
                newline @ newline @ ''Result: '' @ result_text (rs_result response) @ newline @ newline @
                ''Incident status: MITIGATED.'') ''ok'' (map_option iv_investigation_id (cs_investigation st)))))
         else say_as ''error'' (''Approved, but execution did not complete: '' @ rs_message response)))"

definition approval_pending_still :: "string \<Rightarrow> string \<Rightarrow> ('w, AgentReply) chat_op" where
  "approval_pending_still status text = returnM ((reply text status None)\<lparr>rp_approval_still_pending := True\<rparr>)"

definition decide_on :: "'w chat_env \<Rightarrow> bool \<Rightarrow> PendingApproval \<Rightarrow> string \<Rightarrow> string \<Rightarrow> ('w, AgentReply) chat_op" where
  "decide_on env approve pending channel channel_account_id =
     bindM (chat_world (client_decide (cx_agent env) approve (approval_path_id pending) channel channel_account_id)) (\<lambda>result.
     if \<not> approve
     then bindM (chat_upd (\<lambda>st. st\<lparr>cs_pending_approval := None\<rparr>)) (\<lambda>_.
          say (''Understood '' @ em_dash @ '' action rejected and will not run.''))
     else if map_of result ''status'' = Some (JStr ''ERROR'')
     then approval_pending_still ''error'' (''Approval failed: '' @ py_str (json_get result ''detail''))
     else if map_of result ''status'' = Some (JStr ''AWAITING_SECOND_APPROVAL'')
     then approval_pending_still ''ok'' (''Recorded '' @ em_dash @ '' this critical action also needs a second approver.'')
     else resubmit env pending)"

definition decide_pending :: "'w chat_env \<Rightarrow> bool \<Rightarrow> string \<Rightarrow> string \<Rightarrow> ('w, AgentReply) chat_op" where
  \<comment> \<open>\<open>handle_approval_decision\<close> on the conversation's state; the flag: approve\<close>
  "decide_pending env approve channel channel_account_id =
     bindM chat_state (\<lambda>st.
     case cs_pending_approval st of
       None \<Rightarrow> say_as ''error'' ''There is no pending approval on this conversation.''
     | Some pending \<Rightarrow> decide_on env approve pending channel channel_account_id)"

section \<open>Commands\<close>

definition after_first_space :: "string \<Rightarrow> string" where
  \<comment> \<open>\<open>s.split(" ", 1)[1].strip()\<close> of a string with a space\<close>
  "after_first_space s = strip (drop 1 (dropWhile (\<lambda>c. c \<noteq> CHR '' '') s))"

definition command_argument :: "string \<Rightarrow> string option" where
  \<comment> \<open>\<open>s.split(maxsplit=1)[1].strip()\<close>, when there is a second part\<close>
  "command_argument s =
     (case strip (dropWhile (\<lambda>c. \<not> is_space c) (dropWhile is_space s)) of [] \<Rightarrow> None | a \<Rightarrow> Some a)"

definition decide_by_id :: "'w chat_env \<Rightarrow> bool \<Rightarrow> string \<Rightarrow> string \<Rightarrow> string \<Rightarrow> ('w, AgentReply) chat_op" where
  "decide_by_id env approve approval_id channel channel_account_id =
     bindM chat_state (\<lambda>st.
     if (case cs_pending_approval st of None \<Rightarrow> False | Some p \<Rightarrow> pa_approval_id p \<noteq> Some approval_id)
     then say_as ''error'' ''That approval id doesn't match the pending action on this conversation.''
     else decide_pending env approve channel channel_account_id)"

definition handle_command_if_any :: "'w chat_env \<Rightarrow> string \<Rightarrow> string \<Rightarrow> string \<Rightarrow> ('w, AgentReply option) chat_op" where
  "handle_command_if_any env message channel channel_account_id =
     (let stripped = strip message; answer = (\<lambda>m. bindM m (\<lambda>r. returnM (Some r)))
      in if stripped = ''/help'' then answer (say HELP_TEXT)
         else if stripped = ''/status'' then bindM chat_state (\<lambda>st. returnM (Some (status_reply st)))
         else if stripped = ''/playbooks'' then answer handle_playbooks_command
         else if prefix ''/approve '' stripped
         then answer (decide_by_id env True (after_first_space stripped) channel channel_account_id)
         else if prefix ''/reject '' stripped
         then answer (decide_by_id env False (after_first_space stripped) channel channel_account_id)
         else if stripped = ''/models'' \<or> stripped = ''/model'' \<or> prefix ''/model '' stripped
         then answer (handle_model_command env stripped)
         else if stripped = ''/approvers'' then answer handle_approvers_command
         else if stripped = ''/servers'' then answer (handle_servers_command env)
         else if stripped = ''/catalog'' \<or> prefix ''/catalog '' stripped
         then answer (handle_catalog_command env (command_argument stripped))
         else if stripped = ''/discover'' \<or> prefix ''/discover '' stripped
         then answer (handle_discover_command env (command_argument stripped) channel channel_account_id)
         else returnM None)"

definition handle_meta_command :: "'w chat_env \<Rightarrow> meta_command \<Rightarrow> string option \<Rightarrow> string \<Rightarrow> string \<Rightarrow> ('w, AgentReply) chat_op" where
  "handle_meta_command env command instance_hint channel channel_account_id =
     (case command of
        McHelp \<Rightarrow> say HELP_TEXT
      | McStatus \<Rightarrow> bindM chat_state (\<lambda>st. returnM (status_reply st))
      | McPlaybooks \<Rightarrow> handle_playbooks_command
      | McServers \<Rightarrow> handle_servers_command env
      | McCatalog \<Rightarrow> handle_catalog_command env instance_hint
      | McDiscover \<Rightarrow> handle_discover_command env instance_hint channel channel_account_id
      | McModels \<Rightarrow> handle_model_command env ''/models''
      | McApprovers \<Rightarrow> handle_approvers_command
      | McApprove \<Rightarrow> decide_pending env True channel channel_account_id
      | McReject \<Rightarrow> decide_pending env False channel channel_account_id)"

section \<open>A fresh investigation\<close>

definition ASK_ENVIRONMENT :: string where
  "ASK_ENVIRONMENT =
     ''Which environment should I investigate '' @ em_dash @
     '' development, uat, or production? For production targets I won't guess.''"

definition ctx_set :: "string \<Rightarrow> string \<Rightarrow> ConversationState \<Rightarrow> ConversationState" where
  "ctx_set k v st = st\<lparr>cs_database_context := dict_set (cs_database_context st) k (JStr v)\<rparr>"

definition ctx_pop :: "string \<Rightarrow> ConversationState \<Rightarrow> ConversationState" where
  "ctx_pop k st = st\<lparr>cs_database_context := filter (\<lambda>kv. fst kv \<noteq> k) (cs_database_context st)\<rparr>"

definition has_environment :: "ConversationState \<Rightarrow> bool" where
  "has_environment st \<longleftrightarrow> map_of (cs_database_context st) ''environment'' \<noteq> None"

definition set_hint :: "string \<Rightarrow> string option \<Rightarrow> ConversationState \<Rightarrow> ConversationState" where
  "set_hint k hint st = (if nonempty hint then ctx_set k (opt_or hint []) st else st)"

definition switch_instance :: "string \<Rightarrow> bool \<Rightarrow> ConversationState \<Rightarrow> ConversationState" where
  \<comment> \<open>a database remembered for another instance is forgotten, unless one was named; the flag says so\<close>
  "switch_instance instance_hint named st =
     ctx_set ''instance'' instance_hint
       (if \<not> named \<and> map_of (cs_database_context st) ''instance'' \<noteq> Some (JStr instance_hint) then ctx_pop ''database'' st else st)"

definition infer_environment :: "'w chat_env \<Rightarrow> InvestigationState \<Rightarrow> string \<Rightarrow> bool \<Rightarrow> ('w, unit) chat_op" where
  \<comment> \<open>the environment of a registered instance, when it is the only one; a stale one is dropped\<close>
  "infer_environment env iv instance_hint switched =
     bindM (in_investigation (environment_for_instance (cx_agent env) instance_hint) iv) (\<lambda>auto.
       if nonempty auto then chat_upd (ctx_set ''environment'' (opt_or auto []))
       else if switched then chat_upd (ctx_pop ''environment'') else returnM ())"

definition collect_target :: "'w chat_env \<Rightarrow> InvestigationState \<Rightarrow> IntentExtraction \<Rightarrow> ('w, unit) chat_op" where
  "collect_target env iv intent =
     bindM (chat_upd (set_hint ''database'' (ie_database_hint intent) \<circ> set_hint ''environment'' (ie_environment_hint intent))) (\<lambda>_.
     if \<not> nonempty (ie_instance_hint intent) then returnM ()
     else
       let hint = opt_or (ie_instance_hint intent) []
       in bindM chat_state (\<lambda>st.
          bindM (chat_upd (switch_instance hint (nonempty (ie_database_hint intent)))) (\<lambda>_.
          if nonempty (ie_environment_hint intent) then returnM ()
          else infer_environment env iv hint (map_of (cs_database_context st) ''instance'' \<noteq> Some (JStr hint)))))"

definition continue_with :: "'w chat_env \<Rightarrow> string \<Rightarrow> string \<Rightarrow> InvestigationState \<Rightarrow> ('w, AgentReply) chat_op" where
  "continue_with env channel channel_account_id =
     in_investigation (continue_investigation (cx_agent env) channel channel_account_id)"

definition begin_investigation :: "'w chat_env \<Rightarrow> string \<Rightarrow> ('w, InvestigationState) chat_op" where
  "begin_investigation env problem =
     bindM (chat_world (ae_new_id (cx_agent env) ''inv'')) (\<lambda>i.
     let iv = (new_investigation i problem)\<lparr>iv_playbook_id := map_option pb_playbook_id (match_playbook problem)\<rparr>
     in bindM (chat_upd (\<lambda>st. (start_investigation i problem st)\<lparr>cs_investigation := Some iv\<rparr>)) (\<lambda>_. returnM iv))"

definition is_decision :: "meta_command option \<Rightarrow> bool" where
  "is_decision m \<longleftrightarrow> m = Some McApprove \<or> m = Some McReject"

definition investigate_intent :: "'w chat_env \<Rightarrow> IntentExtraction \<Rightarrow> string \<Rightarrow> string \<Rightarrow> string \<Rightarrow> ('w, AgentReply) chat_op" where
  \<comment> \<open>the part for a task of a DBA\<close>
  "investigate_intent env intent message channel channel_account_id =
     bindM (begin_investigation env (opt_or (Some (ie_problem_summary intent)) message)) (\<lambda>iv.
     bindM (collect_target env iv intent) (\<lambda>_.
     bindM chat_state (\<lambda>st.
     if \<not> has_environment st then say_as ''clarification'' ASK_ENVIRONMENT
     else continue_with env channel channel_account_id iv)))"

definition start_fresh_investigation ::
    "'w chat_env \<Rightarrow> IntentExtraction \<Rightarrow> string \<Rightarrow> string \<Rightarrow> string \<Rightarrow> ('w, AgentReply) chat_op" where
  "start_fresh_investigation env intent message channel channel_account_id =
     bindM chat_state (\<lambda>st.
     let no_pending = (cs_pending_approval st = None); decision = is_decision (ie_meta_command intent)
     in case (if decision \<and> no_pending then None else ie_meta_command intent) of
          Some command \<Rightarrow> handle_meta_command env command (ie_instance_hint intent) channel channel_account_id
        | None \<Rightarrow>
            if ie_is_greeting_or_chitchat intent then say HELP_TEXT
            else if \<not> (ie_is_dba_task intent \<or> decision \<and> no_pending)
            then say_as ''clarification'' (''I can help with database health, performance, and operational investigations. '' @
                   ''Could you tell me more about what you'd like me to check?'')
            else investigate_intent env intent message channel channel_account_id)"

section \<open>Answering a message\<close>

definition chat_servers :: "'w chat_env \<Rightarrow> ('w, server_view list) chat_op" where
  "chat_servers env =
     bindM (attempt (chat_world (http_servers (cx_agent env)))) (\<lambda>r. returnM (case r of Inl _ \<Rightarrow> [] | Inr xs \<Rightarrow> xs))"

definition unique_names :: "string list \<Rightarrow> string list" where
  \<comment> \<open>\<open>[n for n in dict.fromkeys(names) if n]\<close>\<close>
  "unique_names names = filter (\<lambda>n. n \<noteq> []) (fold add_new names [])"

definition known_database_names :: "'w chat_env \<Rightarrow> ('w, string list) chat_op" where
  "known_database_names env =
     bindM (chat_servers env) (\<lambda>servers.
       returnM (unique_names (concat (map (\<lambda>s. case sv_catalog s of None \<Rightarrow> [] | Some (names, _) \<Rightarrow> names) servers))))"

definition known_server_hints :: "'w chat_env \<Rightarrow> ('w, string list) chat_op" where
  "known_server_hints env =
     bindM (chat_servers env) (\<lambda>servers. returnM (unique_names (concat (map (\<lambda>s. sv_id s # sv_aliases s) servers))))"

definition classify :: "'w chat_env \<Rightarrow> string \<Rightarrow> ('w, IntentExtraction) chat_op" where
  \<comment> \<open>\<open>llm.extract_intent\<close> with the tier of a cheap call; substitutions are noted\<close>
  "classify env message =
     bindM chat_state (\<lambda>st.
     bindM (known_database_names env) (\<lambda>names.
     bindM (known_server_hints env) (\<lambda>hints.
     bindM (chat_world (ae_extract_intent (cx_agent env) (llm_for (cx_agent env) True st) message names hints)) (\<lambda>(intent, events).
     bindM (chat_upd (\<lambda>st. st\<lparr>cs_llm_fallback_notices := cs_llm_fallback_notices st @ events\<rparr>)) (\<lambda>_.
     returnM intent)))))"

definition classify_potential_topic_shift :: "'w chat_env \<Rightarrow> string \<Rightarrow> ('w, IntentExtraction option) chat_op" where
  "classify_potential_topic_shift env message =
     (if length (split_words [] message) < 4 then returnM None
      else bindM (classify env message) (\<lambda>intent.
           returnM (if \<not> ie_is_dba_task intent \<or> ie_is_greeting_or_chitchat intent then None
                    else if \<not> (nonempty (ie_instance_hint intent) \<or> nonempty (ie_database_hint intent) \<or>
                               nonempty (ie_environment_hint intent)) then None
                    else Some intent)))"

definition resume_investigation ::
    "'w chat_env \<Rightarrow> InvestigationState \<Rightarrow> string \<Rightarrow> string \<Rightarrow> string \<Rightarrow> ('w, AgentReply) chat_op" where
  \<comment> \<open>with the environment known\<close>
  "resume_investigation env iv message channel channel_account_id =
     bindM chat_state (\<lambda>st.
     bindM (if iv_status iv = AWAITING_CLARIFICATION \<and> cs_pending_approval st = None
            then classify_potential_topic_shift env message else returnM None) (\<lambda>fresh.
     case fresh of
       Some intent \<Rightarrow>
         bindM (chat_upd (\<lambda>st. st\<lparr>cs_investigation := Some (iv\<lparr>iv_status := CONCLUDED_UNRESOLVED\<rparr>)\<rparr>)) (\<lambda>_.
         start_fresh_investigation env intent message channel channel_account_id)
     | None \<Rightarrow>
         continue_with env channel channel_account_id (iv\<lparr>iv_last_message := message\<rparr>)))"

definition resume :: "'w chat_env \<Rightarrow> InvestigationState \<Rightarrow> string \<Rightarrow> string \<Rightarrow> string \<Rightarrow> ('w, AgentReply) chat_op" where
  "resume env iv message channel channel_account_id =
     bindM chat_state (\<lambda>st.
     if has_environment st then resume_investigation env iv message channel channel_account_id
     else (case environment_answer False message of
             None \<Rightarrow> say_as ''clarification'' ASK_ENVIRONMENT
           | Some e \<Rightarrow>
               bindM (chat_upd (ctx_set ''environment'' e)) (\<lambda>_.
               resume_investigation env iv message channel channel_account_id)))"

definition answer_message :: "'w chat_env \<Rightarrow> string \<Rightarrow> string \<Rightarrow> string \<Rightarrow> ('w, AgentReply) chat_op" where
  \<comment> \<open>\<open>_handle_message\<close>\<close>
  "answer_message env raw channel channel_account_id =
     (let message = strip_bot_mention_noise raw
      in bindM (\<lambda>c. (Inr (), c\<lparr>ch_state := touch (ae_now (cx_agent env) (ch_world c)) (ch_state c)\<rparr>)) (\<lambda>_.
         bindM (handle_command_if_any env message channel channel_account_id) (\<lambda>command_reply.
         case command_reply of
           Some r \<Rightarrow> returnM r
         | None \<Rightarrow>
             bindM chat_state (\<lambda>st.
             case cs_investigation st of
               Some iv \<Rightarrow>
                 if \<not> is_concluded iv then resume env iv message channel channel_account_id
                 else bindM (classify env message) (\<lambda>intent. start_fresh_investigation env intent message channel channel_account_id)
             | None \<Rightarrow>
                 bindM (classify env message) (\<lambda>intent. start_fresh_investigation env intent message channel channel_account_id)))))"

fun log_fallbacks :: "'w chat_env \<Rightarrow> string \<Rightarrow> FallbackEvent list \<Rightarrow> ('w, unit) chat_op" where
  "log_fallbacks env conversation_id [] = returnM ()"
| "log_fallbacks env conversation_id (e # es) =
     bindM (attempt (chat_world (http_decision_event (cx_agent env)
       \<lparr>dv_event_type = ''llm_cross_provider_fallback_used'', dv_conversation_id = Some conversation_id,
        dv_investigation_id = None, dv_provider = fe_used_provider e, dv_model = [],
        dv_payload = [(''failed_providers'', JArr (map JStr (fe_failed_providers e)))]\<rparr>))) (\<lambda>_.
     log_fallbacks env conversation_id es)"

definition clear_notices :: "('w, unit) chat_op" where
  "clear_notices = chat_upd (\<lambda>st. st\<lparr>cs_llm_fallback_notices := []\<rparr>)"

definition with_notice :: "string \<Rightarrow> AgentReply \<Rightarrow> AgentReply" where
  "with_notice notice r =
     (if notice = [] then r
      else r\<lparr>rp_text := (if rp_text r = [] then notice else rp_text r @ newline @ newline @ notice)\<rparr>)"

definition chat_message :: "'w chat_env \<Rightarrow> string \<Rightarrow> string \<Rightarrow> string \<Rightarrow> string \<Rightarrow> ('w, AgentReply) chat_op" where
  \<comment> \<open>\<open>handle_message\<close> on the conversation's state\<close>
  "chat_message env conversation_id message channel channel_account_id =
     bindM clear_notices (\<lambda>_.
     bindM (answer_message env message channel channel_account_id) (\<lambda>answer.
     bindM chat_state (\<lambda>st.
     bindM (log_fallbacks env conversation_id (cs_llm_fallback_notices st)) (\<lambda>_.
     bindM clear_notices (\<lambda>_.
     returnM (with_notice (fallback_notice_text (cs_llm_fallback_notices st)) answer))))))"

section \<open>Entry points\<close>

record 'w agent_memory =
  am_conversations :: ContextManager
  am_world :: 'w

definition in_conversation ::
    "'w chat_env \<Rightarrow> string \<Rightarrow> string \<Rightarrow> string \<Rightarrow> string \<Rightarrow> ('w, 'a) chat_op \<Rightarrow> ('w agent_memory, exn, 'a) comp" where
  \<comment> \<open>the conversation's object is looked up, or created, and changed in place\<close>
  "in_conversation env conversation_id channel channel_thread_id channel_account_id m s =
     (case get_or_create (am_conversations s) conversation_id channel channel_thread_id channel_account_id
             (ae_now (cx_agent env) (am_world s)) of
        (state, conversations) \<Rightarrow>
          (case m \<lparr>ch_state = state, ch_world = am_world s\<rparr> of
             (r, c) \<Rightarrow> (r, \<lparr>am_conversations = dict_set conversations conversation_id (ch_state c), am_world = ch_world c\<rparr>)))"

definition handle_message ::
    "'w chat_env \<Rightarrow> string \<Rightarrow> string \<Rightarrow> string \<Rightarrow> string \<Rightarrow> string \<Rightarrow> ('w agent_memory, exn, AgentReply) comp" where
  "handle_message env channel channel_account_id conversation_id channel_thread_id message =
     in_conversation env conversation_id channel channel_thread_id channel_account_id
       (chat_message env conversation_id message channel channel_account_id)"

definition handle_approval_decision ::
    "'w chat_env \<Rightarrow> string \<Rightarrow> bool \<Rightarrow> string \<Rightarrow> string \<Rightarrow> ('w agent_memory, exn, AgentReply) comp" where
  "handle_approval_decision env conversation_id approve channel channel_account_id =
     in_conversation env conversation_id channel [] channel_account_id (decide_pending env approve channel channel_account_id)"

end
