(* ===== verification/Agent_Unattended.thy ===== *)
theory Agent_Unattended
  imports Agent_Run
begin

text \<open>
  Runs nobody is watching: the two unattended entry points of the orchestrator
  (agent/orchestrator.py) and the daily digest that sweeps the registered servers
  (agent/scheduled_report.py). The formatted time of a digest and the publisher are parameters.
\<close>

section \<open>Unattended investigations (orchestrator.py)\<close>

definition SCHEDULED_SUMMARY_PLAYBOOK_ID :: string where
  "SCHEDULED_SUMMARY_PLAYBOOK_ID = ''comprehensive_summary''"

definition scheduled_summary_problem :: "string \<Rightarrow> string \<Rightarrow> string" where
  "scheduled_summary_problem server_id environment =
     ''Scheduled daily health sweep of the '' @ server_id @ '' server ('' @ environment @ '') '' @ em_dash @
     '' an unattended, proactive run with no DBA in the conversation to answer a question or approve anything. '' @
     ''Report findings and recommendations as text only: only read-only diagnostics are available to you here, and '' @
     ''nothing you propose will be executed, approved, or acted on automatically. If something needs remediation, '' @
     ''describe what you would recommend and why, for a DBA to decide on '' @ em_dash @
     '' never as an action you are taking. Do not ask a clarifying question; nobody is there to answer it.''"

record ScheduledSummary =
  ss_server_id :: string
  ss_environment :: string
  ss_investigation_id :: string
  ss_status :: string
  ss_text :: string
  ss_findings :: "string list"
  ss_recommendations :: "string list"
  ss_dropped_proposals :: "string list"
  ss_error :: string

definition ss_ok :: "ScheduledSummary \<Rightarrow> bool" where
  "ss_ok s \<longleftrightarrow> ss_status s = ''ok'' \<and> ss_error s = []"

definition ss_is_clean :: "ScheduledSummary \<Rightarrow> bool" where
  "ss_is_clean s \<longleftrightarrow> ss_findings s = [] \<and> ss_recommendations s = []"

definition dropped_of :: "jdict \<Rightarrow> string" where
  \<comment> \<open>\<open>str(entry.get("result", {}).get("dropped_tool_id", ""))\<close>\<close>
  "dropped_of e =
     (case map_of e ''result'' of
        Some (JObj d) \<Rightarrow> (case map_of d ''dropped_tool_id'' of None \<Rightarrow> [] | Some v \<Rightarrow> py_str v)
      | _ \<Rightarrow> [])"

definition NO_DIAGNOSTIC :: string where
  "NO_DIAGNOSTIC =
     ''no diagnostic call succeeded '' @ em_dash @ '' the server may be unreachable, its discovery may never have '' @
     ''completed, or every check was denied''"

definition unattended_summary :: "string \<Rightarrow> string \<Rightarrow> InvestigationState \<Rightarrow> AgentReply \<Rightarrow> ScheduledSummary" where
  "unattended_summary server_id environment iv rp =
     \<lparr>ss_server_id = server_id, ss_environment = environment, ss_investigation_id = iv_investigation_id iv,
      ss_status = rp_status rp, ss_text = rp_text rp, ss_findings = iv_findings iv,
      ss_recommendations = iv_recommendations iv,
      ss_dropped_proposals =
        map dropped_of (filter (\<lambda>e. map_of e ''tool_id'' = Some (JStr READ_ONLY_GUARD_TOOL_ID)) (iv_transcript iv)),
      ss_error = (if iv_actions iv = [] then NO_DIAGNOSTIC
                  else if rp_status rp \<noteq> ''ok''
                  then ''the investigation ended with status '' @ [CHR 0x27] @ rp_status rp @ [CHR 0x27] else [])\<rparr>"

definition in_run :: "ConversationState \<Rightarrow> InvestigationState \<Rightarrow> ('w, 'a) agent_op \<Rightarrow>
    ('w, exn, 'a \<times> ConversationState \<times> InvestigationState) comp" where
  "in_run st iv m w =
     (case m \<lparr>rn_state = st, rn_inv = iv, rn_world = w\<rparr> of
        (Inl e, r) \<Rightarrow> (Inl e, rn_world r)
      | (Inr a, r) \<Rightarrow> (Inr (a, rn_state r, rn_inv r), rn_world r))"

definition unattended_state :: "string \<Rightarrow> string \<Rightarrow> string \<Rightarrow> string \<Rightarrow> string \<Rightarrow> int \<Rightarrow> ConversationState" where
  "unattended_state conversation_id channel channel_account_id server_id environment now =
     (new_conversation conversation_id channel [] channel_account_id now)
       \<lparr>cs_database_context := [(''instance'', JStr server_id), (''environment'', JStr environment)]\<rparr>"

definition run_unattended ::
    "'w agent_env \<Rightarrow> string \<Rightarrow> string \<Rightarrow> string option \<Rightarrow> string \<Rightarrow> string \<Rightarrow> string \<Rightarrow> string \<Rightarrow>
       ('w, exn, ScheduledSummary) comp" where
  \<comment> \<open>what the two entry points share: an ephemeral state and a read-only investigation\<close>
  "run_unattended env kind problem playbook_id server_id environment channel channel_account_id =
     bindM (ae_new_id env ''run'') (\<lambda>run_id.
     bindM (ae_new_id env ''inv'') (\<lambda>investigation_id w.
       bindM (in_run
                (unattended_state (kind @ '':'' @ server_id @ '':'' @ run_id) channel channel_account_id server_id environment
                   (ae_now env w))
                ((new_investigation investigation_id problem)\<lparr>iv_playbook_id := playbook_id, iv_read_only := True\<rparr>)
                (continue_investigation env channel channel_account_id)) (\<lambda>(rp, st, iv).
         returnM (unattended_summary server_id environment iv rp)) w))"

definition run_comprehensive_summary ::
    "'w agent_env \<Rightarrow> string \<Rightarrow> string \<Rightarrow> string \<Rightarrow> string \<Rightarrow> ('w, exn, ScheduledSummary) comp" where
  "run_comprehensive_summary env server_id environment channel channel_account_id =
     (if get_playbook (Some SCHEDULED_SUMMARY_PLAYBOOK_ID) = None then raiseM (PyExn ''RuntimeError'')
      else run_unattended env ''scheduled-digest'' (scheduled_summary_problem server_id environment)
             (Some SCHEDULED_SUMMARY_PLAYBOOK_ID) server_id environment channel channel_account_id)"

definition run_triggered_investigation ::
    "'w agent_env \<Rightarrow> string \<Rightarrow> string \<Rightarrow> string \<Rightarrow> string \<Rightarrow> string \<Rightarrow> ('w, exn, ScheduledSummary) comp" where
  "run_triggered_investigation env server_id environment channel channel_account_id problem =
     run_unattended env ''triggered-investigation'' problem None server_id environment channel channel_account_id"

section \<open>The daily digest (scheduled_report.py)\<close>

fun split_comma :: "char \<Rightarrow> string \<Rightarrow> string \<Rightarrow> string list" where
  \<comment> \<open>\<open>s.split(c)\<close>, \<open>acc\<close> being the reversed part so far\<close>
  "split_comma c acc [] = [rev acc]"
| "split_comma c acc (x # xs) = (if x = c then rev acc # split_comma c [] xs else split_comma c (x # acc) xs)"

definition select_servers :: "server_view list \<Rightarrow> string \<Rightarrow> server_view list" where
  "select_servers servers configured_subset =
     (let active = filter (\<lambda>s. (if sv_status s = [] then ''active'' else sv_status s) = ''active'') servers;
          wanted = map (lower \<circ> strip) (filter (\<lambda>p. strip p \<noteq> []) (split_comma (CHR '','') [] configured_subset))
      in if wanted = [] then active
         else filter (\<lambda>s. intersects (lower (sv_id s) # map lower (sv_aliases s)) wanted) active)"

definition server_block :: "ScheduledSummary \<Rightarrow> string" where
  "server_block s = join newline
     ([''*'' @ ss_server_id s @ ''* ('' @ ss_environment s @ '')'', ss_text s] @
      (if ss_dropped_proposals s = [] then []
       else [''(Numi would have proposed '' @ join '', '' (sort (remdups (filter (\<lambda>t. t \<noteq> []) (ss_dropped_proposals s)))) @
             '' here. A scheduled sweep never executes an action '' @ em_dash @
             '' treat this as a recommendation to act on, not something that was done.)'']))"

definition digest_header :: "string \<Rightarrow> string" where
  "digest_header stamp = ''Numi daily health digest '' @ em_dash @ '' '' @ stamp @ '' UTC''"

definition failed_line :: "ScheduledSummary \<Rightarrow> string" where
  "failed_line s = ''*'' @ ss_server_id s @ ''* ('' @ ss_environment s @ '') '' @ em_dash @ '' '' @
     (if ss_error s = [] then ''the investigation did not complete'' else ss_error s)"

definition build_digest :: "ScheduledSummary list \<Rightarrow> string \<Rightarrow> string" where
  "build_digest summaries stamp =
     (if summaries = []
      then digest_header stamp @ newline @ newline @
           ''No servers were swept: no active registered server matched this digest's configuration. Check '' @
           [CHR 0x60] @ ''config/servers.yaml'' @ [CHR 0x60] @ '' and '' @ [CHR 0x60] @ ''NUMI_DAILY_REPORT_SERVERS'' @ [CHR 0x60] @ ''.''
      else
        let checked = filter ss_ok summaries; failed = filter (\<lambda>s. \<not> ss_ok s) summaries;
            flagged = filter (\<lambda>s. \<not> ss_is_clean s) checked; clean = filter ss_is_clean checked
        in join (newline @ newline)
          ([digest_header stamp,
            nat_str (length summaries) @ '' servers swept: '' @ nat_str (length checked) @ '' checked, '' @
            nat_str (length failed) @ '' could not be checked.''] @
           (if flagged = [] then [] else ''*NEEDS ATTENTION*'' # map server_block flagged) @
           (if failed = [] then [] else ''*COULD NOT BE CHECKED*'' # map failed_line failed) @
           (if clean \<noteq> [] then [''All other checks came back clean: '' @ join '', '' (map ss_server_id clean) @ ''.'']
            else if flagged = [] \<and> failed = [] then [''All other checks came back clean.''] else [])))"

record 'w digest_env =
  dg_agent :: "'w agent_env"
  dg_publish :: "string \<Rightarrow> string \<Rightarrow> ('w, exn, unit) comp"
  dg_stamp :: "'w \<Rightarrow> string"
  daily_report_slack_channel :: string
  daily_report_servers :: string
  daily_report_identity_channel :: string
  daily_report_identity_account :: string

definition failed_summary :: "server_view \<Rightarrow> ScheduledSummary" where
  "failed_summary server =
     \<lparr>ss_server_id = sv_id server, ss_environment = sv_environment server, ss_investigation_id = [], ss_status = ''error'',
      ss_text = [], ss_findings = [], ss_recommendations = [], ss_dropped_proposals = [],
      ss_error = ''the health sweep failed to run against this server''\<rparr>"

definition summarize :: "'w digest_env \<Rightarrow> server_view \<Rightarrow> 'w \<Rightarrow> ScheduledSummary \<times> 'w" where
  "summarize dg server w =
     (case run_comprehensive_summary (dg_agent dg) (sv_id server) (sv_environment server)
             (daily_report_identity_channel dg) (daily_report_identity_account dg) w of
        (Inr s, w') \<Rightarrow> (s, w')
      | (Inl e, w') \<Rightarrow> (failed_summary server, w'))"

fun sweep :: "'w digest_env \<Rightarrow> server_view list \<Rightarrow> 'w \<Rightarrow> ScheduledSummary list \<times> 'w" where
  "sweep dg [] w = ([], w)"
| "sweep dg (s # ss) w =
     (case summarize dg s w of (x, w1) \<Rightarrow> (case sweep dg ss w1 of (xs, w2) \<Rightarrow> (x # xs, w2)))"

definition registry_unreachable :: "string \<Rightarrow> string" where
  "registry_unreachable stamp =
     digest_header stamp @ newline @ newline @
     ''No servers could be swept: the server registry was unreachable, so nothing was checked this morning. This is a '' @
     ''gap in coverage, not a clean bill of health.''"

definition run_once :: "'w digest_env \<Rightarrow> 'w \<Rightarrow> string option \<times> 'w" where
  "run_once dg w =
     (if daily_report_slack_channel dg = [] then (None, w)
      else
        let stamp = dg_stamp dg w
        in case (case http_servers (dg_agent dg) w of
                   (Inl e, w1) \<Rightarrow> (registry_unreachable stamp, w1)
                 | (Inr servers, w1) \<Rightarrow>
                     (case sweep dg (select_servers servers (daily_report_servers dg)) w1 of
                        (summaries, w2) \<Rightarrow> (build_digest summaries stamp, w2))) of
             (digest, w3) \<Rightarrow> (Some digest, snd (dg_publish dg (daily_report_slack_channel dg) digest w3)))"

end
