(* ===== verification/Agent_Safety.thy ===== *)
theory Agent_Safety
  imports Agent_Unattended
begin

text \<open>
  An unattended run is read-only. The interface between the Agent and everything it calls is the
  locale \<open>read_only_world\<close>: an invariant of the world that every call keeps, a submission when it
  names a read. Inside it, whole runs of the loop are shown to keep the invariant and to leave
  neither a pending approval nor an approval card behind, whatever the planner proposes.
\<close>

section \<open>Computations with a postcondition\<close>

definition yields :: "('s \<Rightarrow> bool) \<Rightarrow> ('a \<Rightarrow> bool) \<Rightarrow> ('s, 'e, 'a) comp \<Rightarrow> bool" where
  "yields P Q m \<longleftrightarrow> (\<forall>s. P s \<longrightarrow> P (snd (m s)) \<and> (case fst (m s) of Inl _ \<Rightarrow> True | Inr a \<Rightarrow> Q a))"

named_theorems yield_intros \<open>postconditions of computations, by their shape\<close>

lemma yieldsI: "(\<And>s. P s \<Longrightarrow> P (snd (m s)) \<and> (case fst (m s) of Inl _ \<Rightarrow> True | Inr a \<Rightarrow> Q a)) \<Longrightarrow> yields P Q m"
  by (simp add: yields_def)

lemma yieldsD: "yields P Q m \<Longrightarrow> P s \<Longrightarrow> m s = (Inr a, t) \<Longrightarrow> P t \<and> Q a"
  by (fastforce simp: yields_def)

lemma yields_preserves: "yields P Q m \<Longrightarrow> preserves P m"
  by (simp add: yields_def preserves_def)

lemma yields_weaken: "yields P Q m \<Longrightarrow> (\<And>a. Q a \<Longrightarrow> Q' a) \<Longrightarrow> yields P Q' m"
  by (fastforce simp: yields_def split: sum.splits)

lemma preserves_yields: "preserves P m \<Longrightarrow> yields P (\<lambda>_. True) m"
  by (simp add: yields_def preserves_def split: sum.split)

lemma yields_returnM [yield_intros]: "Q a \<Longrightarrow> yields P Q (returnM a)"
  by (simp add: yields_def)

lemma yields_raiseM [yield_intros]: "yields P Q (raiseM e)"
  by (simp add: yields_def)

lemma yields_bind:
  assumes "yields P R m" and "\<And>a. R a \<Longrightarrow> yields P Q (f a)"
  shows "yields P Q (bindM m f)"
proof (rule yieldsI)
  fix s assume s: "P s"
  obtain r t where m: "m s = (r, t)" by (cases "m s")
  from assms(1) s have t: "P t" and r: "case r of Inl _ \<Rightarrow> True | Inr a \<Rightarrow> R a" using m by (auto simp: yields_def)
  then show "P (snd (bindM m f s)) \<and> (case fst (bindM m f s) of Inl _ \<Rightarrow> True | Inr a \<Rightarrow> Q a)"
    using m assms(2) by (cases r) (auto simp: bindM_def yields_def)
qed

lemma yields_bind_preserves [yield_intros]:
  "preserves P m \<Longrightarrow> (\<And>a. yields P Q (f a)) \<Longrightarrow> yields P Q (bindM m f)"
  by (rule yields_bind [OF preserves_yields])

lemma yields_bind_reads: "(\<And>r. P r \<Longrightarrow> yields P Q (f (g r))) \<Longrightarrow> yields P Q (bindM (reads g) f)"
  by (simp add: yields_def bindM_def reads_def)

lemma yields_reads: "(\<And>r. P r \<Longrightarrow> Q (g r)) \<Longrightarrow> yields P Q (reads g)"
  by (simp add: yields_def reads_def)

lemma yields_if [yield_intros]:
  "(b \<Longrightarrow> yields P Q m) \<Longrightarrow> (\<not> b \<Longrightarrow> yields P Q n) \<Longrightarrow> yields P Q (if b then m else n)"
  by simp

lemma yields_option [yield_intros]:
  "yields P Q m \<Longrightarrow> (\<And>a. yields P Q (f a)) \<Longrightarrow> yields P Q (case x of None \<Rightarrow> m | Some a \<Rightarrow> f a)"
  by (cases x) auto

lemma yields_sum [yield_intros]:
  "(\<And>e. yields P Q (f e)) \<Longrightarrow> (\<And>a. yields P Q (g a)) \<Longrightarrow> yields P Q (case x of Inl e \<Rightarrow> f e | Inr a \<Rightarrow> g a)"
  by (cases x) auto

lemma loop_yields:
  assumes "yields P Q (loop_body env lx)" and "Q None"
  shows "yields P Q (investigation_loop env lx)"
proof (rule yieldsI)
  fix r
  show "P r \<Longrightarrow> P (snd (investigation_loop env lx r)) \<and>
      (case fst (investigation_loop env lx r) of Inl _ \<Rightarrow> True | Inr a \<Rightarrow> Q a)"
  proof (induction r rule: measure_induct_rule [of "\<lambda>r. MAX_INVESTIGATION_TURNS - iv_turn_count (rn_inv r)"])
    case (less r)
    obtain x r' where b: "loop_body env lx r = (x, r')" by fastforce
    from assms(1) [unfolded yields_def, rule_format, OF less.prems] b have post: "P r' \<and> (case x of Inl _ \<Rightarrow> True | Inr a \<Rightarrow> Q a)"
      by simp
    have "x = Inr None \<Longrightarrow> iv_turn_count (rn_inv r) < MAX_INVESTIGATION_TURNS \<Longrightarrow>
        MAX_INVESTIGATION_TURNS - iv_turn_count (rn_inv r') < MAX_INVESTIGATION_TURNS - iv_turn_count (rn_inv r)"
      using loop_body_turn [of env lx r r'] b by auto
    with less.IH [of r'] post less.prems b assms(2) show ?case
      by (subst (1 2) investigation_loop.simps) (auto split: sum.splits option.splits)
  qed
qed

section \<open>The contract of the outside world\<close>

definition no_card :: "AgentReply option \<Rightarrow> bool" where
  "no_card answer \<longleftrightarrow> (case answer of None \<Rightarrow> True | Some rp \<Rightarrow> rp_approval_card rp = None)"

lemma no_card_simps [simp]:
  "no_card None" "no_card (Some rp) = (rp_approval_card rp = None)"
  "rp_approval_card (reply t s i) = None" "rp_approval_card (inv_reply iv t s) = None"
  "rp_approval_card (no_root_cause_reply iv) = None"
  by (simp_all add: no_card_def reply_def inv_reply_def no_root_cause_reply_def)

lemma dict_merge_SomeD: "map_of (dict_merge d e) k = Some v \<Longrightarrow> map_of d k = Some v \<or> (k, v) \<in> set e"
  by (induction d e rule: dict_merge.induct) (auto split: if_splits)

locale outside_world =
  fixes env :: "'w agent_env" and W :: "'w \<Rightarrow> bool"
  assumes keeps_decide: "preserves W (ae_decide env l i)"
    and keeps_critique: "preserves W (ae_critique env l ci)"
    and keeps_new_id: "preserves W (ae_new_id env p)"
    and keeps_tools: "preserves W (http_tools env c a)"
    and keeps_servers: "preserves W (http_servers env)"
    and keeps_create: "preserves W (http_create_investigation env cr)"
    and keeps_update: "preserves W (http_update_investigation env k up)"
    and keeps_memory: "preserves W (http_memory env k x n)"
    and keeps_patterns: "preserves W (http_patterns env pb en ex n)"
    and keeps_event: "preserves W (http_decision_event env dv)"

locale read_only_world = outside_world env W for env :: "'w agent_env" and W :: "'w \<Rightarrow> bool" +
  fixes is_read :: "string \<Rightarrow> bool"
  assumes keeps_submit: "is_read (rq_tool_id rq) \<Longrightarrow> preserves W (http_submit env rq)"
    and tools_classified: "W w \<Longrightarrow> http_tools env c a w = (Inr ts, w') \<Longrightarrow> t \<in> set ts \<Longrightarrow>
      td_operation_type t = READ \<Longrightarrow> is_read (td_tool_id t)"
begin

definition quiet :: "'w agent_run \<Rightarrow> bool" where
  "quiet r \<longleftrightarrow> W (rn_world r) \<and> iv_read_only (rn_inv r) \<and> cs_pending_approval (rn_state r) = None"

lemma quiet_world: "preserves W m \<Longrightarrow> preserves quiet (world m)"
  by (fastforce simp: preserves_def quiet_def world_def zoom_def split: prod.splits)

lemma quiet_upd_inv: "keeps_turn f \<Longrightarrow> preserves quiet (upd_inv f)"
  by (simp add: preserves_def quiet_def upd_inv_def keeps_turn_def)

lemma quiet_upd_state:
  "(\<And>st. cs_pending_approval (f st) = cs_pending_approval st) \<Longrightarrow> preserves quiet (upd_state f)"
  by (simp add: preserves_def quiet_def upd_state_def)

lemmas quiet_calls =
  quiet_world [OF keeps_decide] quiet_world [OF keeps_critique] quiet_world [OF keeps_new_id]
  quiet_world [OF keeps_tools] quiet_world [OF keeps_servers] quiet_world [OF keeps_create]
  quiet_world [OF keeps_update] quiet_world [OF keeps_memory] quiet_world [OF keeps_patterns]
  quiet_world [OF keeps_event]

lemmas quiet_intros = preserve_intros quiet_calls quiet_upd_inv turn_intros

lemma quiet_best_effort: "preserves W m \<Longrightarrow> preserves quiet (best_effort m)"
  unfolding best_effort_def by (intro preserve_intros quiet_world)

lemma quiet_decision_event: "preserves quiet (decision_event env lx t p)"
  unfolding decision_event_def log_decision_event_def by (intro preserve_intros quiet_best_effort keeps_event)

lemma quiet_decide: "preserves quiet (decide_action env lx i)"
  unfolding decide_action_def by (intro quiet_intros quiet_upd_state) simp

lemma quiet_playbook: "preserves quiet (next_playbook_action ids)"
  by (rule preservesI) (auto simp: next_playbook_action_def quiet_def split: option.splits prod.splits)

definition knows_reads :: "loop_ctx \<Rightarrow> bool" where
  "knows_reads lx \<longleftrightarrow> (\<forall>i. is_confirmed_read_tool i (lx_tool_operation_types lx) \<longrightarrow> is_read i)"

lemma remember_database_pending [simp]: "cs_pending_approval (remember_database rq rs st) = cs_pending_approval st"
  by (simp add: remember_database_def split: option.split)

lemma relay_quiet: "yields quiet no_card (relay lx a args rq rs)"
proof -
  have denied: "yields quiet no_card (relay_denied a rs)"
    by (rule yieldsI) (auto simp: relay_denied_def Let_def quiet_def add_evidence_def add_transcript_def)
  show ?thesis unfolding relay_def
  proof (rule yields_bind_preserves [OF quiet_upd_state], simp, rule yields_bind_reads)
    fix r :: "'w agent_run" assume "quiet r"
    then have "iv_read_only (rn_inv r)" by (simp add: quiet_def)
    then show "yields quiet no_card (case rs_status rs of
        TC_EXECUTED \<Rightarrow> bindM (upd_inv (relay_executed lx a args rs)) (\<lambda>_. returnM None)
      | TC_APPROVAL_REQUIRED \<Rightarrow> if iv_read_only (rn_inv r) then bindM (upd_inv (readonly_decline a)) (\<lambda>_. returnM None)
          else relay_approval a rq rs
      | TC_DENIED \<Rightarrow> relay_denied a rs
      | TC_FAILED \<Rightarrow> bindM (upd_inv (relay_failed a rs)) (\<lambda>_. returnM None))"
      by (cases "rs_status rs") (auto intro!: yield_intros quiet_upd_inv turn_intros denied)
  qed
qed

lemma submit_quiet:
  assumes "knows_reads lx"
  shows "yields quiet no_card (submit_and_relay env lx a)"
proof -
  have answer: "yields quiet no_card (submit_failed env a e)" for e
    unfolding submit_failed_def
    by (rule yields_bind_preserves, intro quiet_intros) (rule yields_reads, simp)
  have send: "yields quiet no_card (send_proposal env lx a)" if "is_read (pr_tool_id a)"
    unfolding send_proposal_def Let_def
  proof (rule yields_bind_preserves [OF quiet_world [OF keeps_new_id]], rule yields_bind_reads)
    fix request_id and r :: "'w agent_run"
    let ?rq = "tool_call_request lx (rn_state r) (rn_inv r) a (strip_unschematized_arguments a (lx_tool_allowed_arguments lx)) request_id"
    have "preserves W (http_submit env ?rq)" by (rule keeps_submit) (simp add: tool_call_request_def that)
    then show "yields quiet no_card (bindM (attempt (world (http_submit env ?rq))) (\<lambda>outcome.
        case outcome of Inl exc \<Rightarrow> submit_failed env a exc
        | Inr response \<Rightarrow> relay lx a (strip_unschematized_arguments a (lx_tool_allowed_arguments lx)) ?rq response))"
      by (intro yields_bind_preserves preserve_intros quiet_world yields_sum answer relay_quiet)
  qed
  show ?thesis unfolding submit_and_relay_def
    using assms send
    by (intro yields_bind_reads yield_intros quiet_upd_inv turn_intros)
       (auto simp: quiet_def knows_reads_def)
qed


lemma conclude_quiet: "yields quiet no_card (finalize_conclude env lx final c)"
proof -
  have accept: "yields quiet no_card (accept c)"
    unfolding accept_def by (rule yields_bind_preserves, intro quiet_intros) (rule yields_reads, simp)
  have critique: "preserves quiet (self_critique_conclude env lx c)"
    unfolding self_critique_conclude_def by (intro quiet_intros quiet_decision_event)
  show ?thesis unfolding finalize_conclude_def review_def
    by (intro yield_intros accept critique quiet_decision_event quiet_intros) simp_all
qed

lemma keeps_turn_status [turn_intros]: "keeps_turn (\<lambda>iv. iv\<lparr>iv_status := f iv\<rparr>)"
  by (simp add: keeps_turn_def)

lemma give_up_quiet: "yields quiet (\<lambda>rp. rp_approval_card rp = None) give_up"
  unfolding give_up_def by (rule yields_bind_preserves, intro quiet_intros keeps_turn_status) (rule yields_reads, simp)

lemma spend_quiet: "preserves quiet (upd_inv spend_turn)" "preserves quiet (upd_inv (\<lambda>iv. (spend_turn iv)\<lparr>iv_clarification_count := 0\<rparr>))"
  by (simp_all add: preserves_def quiet_def upd_inv_def spend_turn_def)

lemma take_action_quiet:
  assumes "knows_reads lx"
  shows "yields quiet no_card (take_action env lx action)"
proof -
  have ask: "yields quiet no_card (ask_clarification q)" for q
    unfolding ask_clarification_def
    by (intro yield_intros quiet_intros yields_reads keeps_turnI) simp_all
  show ?thesis unfolding take_action_def
    by (cases action)
       (auto intro!: ask yields_bind_preserves spend_quiet quiet_upd_inv keeps_turnI yields_returnM submit_quiet conclude_quiet assms
         simp: add_evidence_def)
qed

lemma loop_body_quiet:
  assumes "knows_reads lx"
  shows "yields quiet no_card (loop_body env lx)"
proof -
  have give: "yields quiet no_card (bindM give_up (\<lambda>rp. returnM (Some rp)))"
    by (rule yields_bind [OF give_up_quiet]) (simp add: yields_returnM)
  show ?thesis unfolding loop_body_def
    by (intro yield_intros give quiet_playbook quiet_decide quiet_upd_inv keeps_turnI spend_quiet submit_quiet take_action_quiet
        assms preserve_intros) simp_all
qed

lemma loop_quiet: "knows_reads lx \<Longrightarrow> yields quiet no_card (investigation_loop env lx)"
  by (intro loop_yields loop_body_quiet) simp_all

lemma run_loop_quiet:
  assumes "knows_reads lx"
  shows "yields quiet (\<lambda>rp. rp_approval_card rp = None) (run_investigation_loop env lx)"
proof -
  have answer: "yields quiet (\<lambda>rp. rp_approval_card rp = None) (case x of Some rp \<Rightarrow> returnM rp | None \<Rightarrow> m)"
    if "no_card x" "yields quiet (\<lambda>rp. rp_approval_card rp = None) m" for x and m :: "('w, AgentReply) agent_op"
    using that by (cases x) (auto intro: yields_returnM)
  have last: "yields quiet no_card (case action of Conclude c \<Rightarrow> finalize_conclude env lx True c | _ \<Rightarrow> returnM None)" for action
    by (cases action) (auto intro: conclude_quiet yields_returnM)
  have final: "yields quiet (\<lambda>rp. rp_approval_card rp = None) (final_attempt env lx)"
    unfolding final_attempt_def
    by (rule yields_bind_preserves [OF preserves_reads], rule yields_bind_preserves [OF quiet_decide], rule yields_bind [OF last])
       (rule answer, assumption, rule give_up_quiet)
  show ?thesis unfolding run_investigation_loop_def
    by (rule yields_bind [OF loop_quiet [OF assms]], rule answer, assumption, rule final)
qed

lemma knows_reads_make_ctx:
  assumes "\<And>t. t \<in> set ts \<Longrightarrow> td_operation_type t = READ \<Longrightarrow> is_read (td_tool_id t)"
  shows "knows_reads (make_ctx channel account llm (offered True ts))"
proof -
  have "is_read i" if "map_of (dict_of (map (\<lambda>t. (td_tool_id t, td_operation_type t)) (offered True ts))) i = Some READ" for i
    using dict_merge_SomeD [OF that [unfolded dict_of_def]] assms by (auto simp: offered_def)
  then show ?thesis
    by (simp add: knows_reads_def is_confirmed_read_tool_def make_ctx_def)
qed

lemma quiet_or_empty: "preserves W m \<Longrightarrow> preserves quiet (or_empty m)"
  unfolding or_empty_def by (intro preserve_intros quiet_world)

lemma quiet_server_id: "preserves quiet (context_server_id env)"
proof -
  have find: "preserves quiet (canonical_server_id env s)" for s
    unfolding canonical_server_id_def find_matching_servers_def list_servers_cached_def Let_def
    by (intro preserve_intros quiet_or_empty keeps_servers)
  show ?thesis unfolding context_server_id_def
  proof (rule preserves_bindM [OF preserves_reads])
    fix raw show "preserves quiet (case raw of Some (JStr s) \<Rightarrow>
        if s = [] then returnM None else bindM (canonical_server_id env s) (\<lambda>i. returnM (Some i)) | _ \<Rightarrow> returnM None)"
      by (auto intro!: preserve_intros find split: option.split json.split)
  qed
qed

lemma quiet_bootstrap: "preserves quiet (bootstrap_investigation_memory env account)"
  unfolding bootstrap_investigation_memory_def create_investigation_def get_investigation_memory_def get_cross_server_patterns_def
  by (intro preserve_intros quiet_server_id quiet_best_effort quiet_or_empty quiet_upd_inv keeps_turnI
      keeps_create keeps_memory keeps_patterns) simp_all

lemma quiet_persist: "preserves quiet (persist env)"
  unfolding persist_def update_investigation_def
  by (intro preserve_intros quiet_server_id quiet_best_effort keeps_update)

lemma continue_quiet: "yields quiet (\<lambda>rp. rp_approval_card rp = None) (continue_investigation env channel account)"
proof -
  have tools: "yields quiet (\<lambda>ts. \<forall>t. t \<in> set ts \<longrightarrow> td_operation_type t = READ \<longrightarrow> is_read (td_tool_id t))
      (world (http_tools env channel account))"
  proof (rule yieldsI)
    fix r :: "'w agent_run" assume r: "quiet r"
    obtain x w' where t: "http_tools env channel account (rn_world r) = (x, w')" by fastforce
    from r have "W (rn_world r)" by (simp add: quiet_def)
    with preservesD [OF keeps_tools this t] tools_classified [OF this, of channel account] t r
    show "quiet (snd (world (http_tools env channel account) r)) \<and>
        (case fst (world (http_tools env channel account) r) of Inl _ \<Rightarrow> True
         | Inr ts \<Rightarrow> \<forall>t. t \<in> set ts \<longrightarrow> td_operation_type t = READ \<longrightarrow> is_read (td_tool_id t))"
      by (auto simp: world_def zoom_def quiet_def split: sum.split)
  qed
  have rest: "yields quiet (\<lambda>rp. rp_approval_card rp = None)
      (bindM (run_investigation_loop env lx) (\<lambda>answer. bindM (persist env) (\<lambda>_. returnM answer)))" if "knows_reads lx" for lx
    by (rule yields_bind [OF run_loop_quiet [OF that]]) (intro yields_bind_preserves quiet_persist yields_returnM)
  show ?thesis unfolding continue_investigation_def
  proof (rule yields_bind_preserves [OF preserves_reads], rule yields_bind_preserves [OF quiet_bootstrap],
      rule yields_bind [OF tools], rule yields_bind_reads)
    fix llm and ts :: "ToolDefinition list" and r :: "'w agent_run"
    assume ts: "\<forall>t. t \<in> set ts \<longrightarrow> td_operation_type t = READ \<longrightarrow> is_read (td_tool_id t)" and "quiet r"
    then have "iv_read_only (rn_inv r)" by (simp add: quiet_def)
    with knows_reads_make_ctx [of ts channel account llm] ts
    have "knows_reads (make_ctx channel account llm (offered (iv_read_only (rn_inv r)) ts))" by simp
    from rest [OF this] show "yields quiet (\<lambda>rp. rp_approval_card rp = None)
       (bindM (run_investigation_loop env (make_ctx channel account llm (offered (iv_read_only (rn_inv r)) ts)))
          (\<lambda>answer. bindM (persist env) (\<lambda>_. returnM answer)))" .
  qed
qed

lemma unattended_world: "preserves W (run_unattended env kind problem pb server environment channel account)"
proof -
  have "preserves W (in_run st iv (continue_investigation env channel account))"
    if "iv_read_only iv" "cs_pending_approval st = None" for st iv
  proof (rule preservesI)
    fix w assume "W w"
    with that have "quiet \<lparr>rn_state = st, rn_inv = iv, rn_world = w\<rparr>" by (simp add: quiet_def)
    with yields_preserves [OF continue_quiet, of channel account]
    have "quiet (snd (continue_investigation env channel account \<lparr>rn_state = st, rn_inv = iv, rn_world = w\<rparr>))"
      by (simp add: preserves_def)
    then show "W (snd (in_run st iv (continue_investigation env channel account) w))"
      by (auto simp: in_run_def quiet_def split: prod.splits sum.splits)
  qed
  note run = this
  show ?thesis unfolding run_unattended_def
  proof (intro preserves_bindM keeps_new_id, rule preservesI)
    fix run_id investigation_id w assume "W w"
    then show "W (snd (bindM (in_run (unattended_state (kind @ '':'' @ server @ '':'' @ run_id) channel account server environment
          (ae_now env w)) ((new_investigation investigation_id problem)\<lparr>iv_playbook_id := pb, iv_read_only := True\<rparr>)
          (continue_investigation env channel account)) (\<lambda>(rp, st, iv). returnM (unattended_summary server environment iv rp)) w))"
      using preserves_bindM [OF run, of _ _ "\<lambda>(rp, st, iv). returnM (unattended_summary server environment iv rp)"]
      by (auto simp: preserves_def unattended_state_def new_conversation_def intro!: preserve_intros)
  qed
qed

end

end
