(* ===== verification/Agent_Gateway.thy ===== *)
theory Agent_Gateway
  imports Agent_Safety Call_Outcomes Execution_Service Example_Deployment
begin

text \<open>
  The Agent wired to the Gateway: the tool client's submissions run the tool-call route of the
  model and its listing the tools route; the planner and the remaining endpoints are arbitrary
  computations on a state of their own. The contract of the outside world of \<open>Agent_Safety\<close> is
  discharged for this wiring, so that what an unattended run sends reaches diagnostic methods only.
\<close>

section \<open>The wiring\<close>

record 'p wired_world =
  ww_rest :: 'p
  ww_gateway :: gateway_state
  ww_calls :: nat


definition on_rest :: "('p, exn, 'a) comp \<Rightarrow> ('p wired_world, exn, 'a) comp" where
  "on_rest = zoom ww_rest (\<lambda>p w. w\<lparr>ww_rest := p\<rparr>)"

definition deployed :: "'n handler_env \<Rightarrow> Settings \<Rightarrow> 'n handler_env" where
  \<comment> \<open>the Gateway serves the catalog its settings build\<close>
  "deployed env st = env\<lparr>he_tools := ToolRegistry_init st\<rparr>"

definition route_submit ::
    "'n handler_env \<Rightarrow> accounts \<Rightarrow> (nat \<Rightarrow> call_env) \<Rightarrow> ToolCallRequest \<Rightarrow> ('p wired_world, exn, ToolCallResponse) comp" where
  "route_submit env accounts calls request w =
     (case submit_tool_call env accounts (calls (ww_calls w)) request (ww_gateway w) of
        (r, s) \<Rightarrow> (r, w\<lparr>ww_gateway := s, ww_calls := Suc (ww_calls w)\<rparr>))"

definition route_tools ::
    "'n handler_env \<Rightarrow> accounts \<Rightarrow> string \<Rightarrow> string \<Rightarrow> ('p wired_world, exn, ToolDefinition list) comp" where
  "route_tools env accounts channel channel_account_id =
     liftE (list_tools (he_tools env) accounts (Some channel) (Some channel_account_id))"

definition wired ::
    "'p agent_env \<Rightarrow> 'n handler_env \<Rightarrow> Settings \<Rightarrow> accounts \<Rightarrow> (nat \<Rightarrow> call_env) \<Rightarrow> 'p wired_world agent_env" where
  "wired rest env st accounts calls =
     \<lparr>ae_decide = (\<lambda>l i. on_rest (ae_decide rest l i)),
      ae_critique = (\<lambda>l i. on_rest (ae_critique rest l i)),
      ae_extract_intent = (\<lambda>l m d h. on_rest (ae_extract_intent rest l m d h)),
      ae_llm_name = ae_llm_name rest, ae_exn_text = ae_exn_text rest,
      ae_new_id = (\<lambda>p. on_rest (ae_new_id rest p)),
      http_submit = route_submit (deployed env st) accounts calls,
      http_tools = route_tools (deployed env st) accounts,
      http_servers = on_rest (http_servers rest),
      http_decide_approval = (\<lambda>b i c a. on_rest (http_decide_approval rest b i c a)),
      http_create_investigation = (\<lambda>r. on_rest (http_create_investigation rest r)),
      http_update_investigation = (\<lambda>i r. on_rest (http_update_investigation rest i r)),
      http_memory = (\<lambda>s x n. on_rest (http_memory rest s x n)),
      http_patterns = (\<lambda>p e x n. on_rest (http_patterns rest p e x n)),
      http_decision_event = (\<lambda>r. on_rest (http_decision_event rest r)),
      ae_now = (\<lambda>w. ae_now rest (ww_rest w)),
      self_critique_enabled = self_critique_enabled rest,
      investigation_memory_lookback = investigation_memory_lookback rest,
      llm_fast_model = llm_fast_model rest, llm_strong_model = llm_strong_model rest\<rparr>"

section \<open>What was sent\<close>

definition diagnostic :: "string \<Rightarrow> bool" where
  "diagnostic tool_id \<longleftrightarrow> tool_id \<in> set (map td_tool_id read_tools)"

definition only_reads_since :: "ExecutionRequest list \<Rightarrow> 'p wired_world \<Rightarrow> bool" where
  "only_reads_since base w \<longleftrightarrow> db_inv DEFAULT_TTL_SECONDS (gs_approvals (ww_gateway w)) \<and>
     (\<exists>sent. gs_sent (ww_gateway w) = base @ sent \<and> (\<forall>er \<in> set sent. diagnostic (ex_tool_id er)))"

lemma diagnostic_dispatch:
  assumes "diagnostic i"
  shows "map_of READ_METHODS i \<noteq> None \<and> map_of WRITE_METHODS i = None \<and> map_of restricted_dispatch i = None"
proof -
  have "i \<in> set (map fst READ_METHODS)" using assms by (simp only: diagnostic_def read_tool_ids)
  with dispatch_tables_disjoint show ?thesis by (auto simp: map_of_eq_None_iff)
qed

lemma catalog_reads: "t \<in> set (build_tool_catalog st) \<Longrightarrow> td_operation_type t = READ \<Longrightarrow> diagnostic (td_tool_id t)"
  by (erule catalog_cases) (auto simp: diagnostic_def write_tools_shape restricted_tools_shape)

lemma listed_in_catalog:
  assumes "list_tools (ToolRegistry_init st) accounts c a = Inr ts" and "t \<in> set ts"
  shows "t \<in> set (build_tool_catalog st)"
proof -
  have "set (tools_for_role (ToolRegistry_init st) role) \<subseteq> set (build_tool_catalog st)" for role
    by (auto simp: tools_for_role_def ToolRegistry_init_eq)
  moreover have "set (registry_all (ToolRegistry_init st)) = set (build_tool_catalog st)"
    by (force simp: registry_all_def ToolRegistry_init_eq)
  ultimately show ?thesis using assms unfolding list_tools_def
    by (cases "resolve_identity accounts (opt_or c []) (opt_or a [])") (auto split: if_splits option.split_asm)
qed

lemma preserves_snd: "preserves P m \<Longrightarrow> P s \<Longrightarrow> P (snd (m s))"
  by (simp add: preserves_def)

lemma on_rest_keeps: "preserves (only_reads_since base) (on_rest m)"
  by (auto simp: preserves_def on_rest_def zoom_def only_reads_since_def split: prod.splits)

lemma submit_db_inv:
  assumes inv: "db_inv DEFAULT_TTL_SECONDS (gs_approvals s)" and sub: "submit_tool_call env accounts call body s = (r, s')"
  shows "db_inv DEFAULT_TTL_SECONDS (gs_approvals s')"
  using submit_effect [OF assms] inv
  by (auto simp: approval_effect_def created_approvals_def intro: engine_step_inv create_inv)

lemma submit_sends:
  assumes inv: "db_inv DEFAULT_TTL_SECONDS (gs_approvals s)" and sub: "submit_tool_call env accounts call body s = (r, s')"
  shows "gs_sent s' = gs_sent s \<or>
     (\<exists>er tool. gs_sent s' = gs_sent s @ [er] \<and> ex_tool_id er = td_tool_id tool \<and>
        registry_get (he_tools env) (rq_tool_id body) (rq_tool_version body) = Inr tool)"
  using sub
proof (cases rule: submit_cases)
  case (handled identity s1)
  have wf: "wf_db (gs_approvals s)" using inv by (simp add: db_inv_def)
  from wf handled(2) show ?thesis
  proof (cases rule: sent_cases)
    case (sent a)
    with handled(3) admitted_facts(1) [OF sent(1)] show ?thesis by (auto simp: execution_request_def)
  qed (use handled(3) in simp)
qed simp

lemma submit_keeps:
  assumes "diagnostic (rq_tool_id rq)"
  shows "preserves (only_reads_since base) (route_submit (deployed env st) accounts calls rq)"
proof (rule preservesI)
  fix w :: "'p wired_world" assume w: "only_reads_since base w"
  then have inv: "db_inv DEFAULT_TTL_SECONDS (gs_approvals (ww_gateway w))" by (simp add: only_reads_since_def)
  obtain r s where sub: "submit_tool_call (deployed env st) accounts (calls (ww_calls w)) rq (ww_gateway w) = (r, s)" by fastforce
  have "td_tool_id tool = rq_tool_id rq"
    if "registry_get (he_tools (deployed env st)) (rq_tool_id rq) (rq_tool_version rq) = Inr tool" for tool
    using that by (simp add: deployed_def registry_get_Inr_iff registry_lookup)
  with submit_sends [OF inv sub] assms
  have "gs_sent s = gs_sent (ww_gateway w) \<or> (\<exists>er. gs_sent s = gs_sent (ww_gateway w) @ [er] \<and> diagnostic (ex_tool_id er))"
    by fastforce
  with w submit_db_inv [OF inv sub] sub show "only_reads_since base (snd (route_submit (deployed env st) accounts calls rq w))"
    by (fastforce simp: route_submit_def only_reads_since_def)
qed

interpretation gateway: read_only_world "wired rest env st accounts calls" "only_reads_since base" diagnostic
  for rest :: "'p agent_env" and env :: "'n handler_env" and st accounts calls base
proof unfold_locales
  show "td_operation_type t = READ \<Longrightarrow> diagnostic (td_tool_id t)"
    if "http_tools (wired rest env st accounts calls) c a w = (Inr ts, w')" "t \<in> set ts" for c a w ts w' t
    using that listed_in_catalog [of st accounts "Some c" "Some a" ts t] catalog_reads [of t st]
    by (simp add: wired_def route_tools_def deployed_def)
qed (simp_all add: wired_def on_rest_keeps submit_keeps route_tools_def preserves_liftE)

lemma sweep_keeps:
  assumes "dg_agent dg = wired rest env st accounts calls" and "only_reads_since base w"
  shows "only_reads_since base (snd (sweep dg servers w))"
  using assms(2)
proof (induction servers arbitrary: w)
  case (Cons s ss)
  have "only_reads_since base (snd (summarize dg s w))"
    using preservesD [OF gateway.unattended_world Cons.prems]
    by (auto simp: summarize_def run_comprehensive_summary_def assms(1) Cons.prems split: prod.splits sum.splits)
  with Cons.IH show ?case by (auto split: prod.splits) (metis snd_conv)
qed simp

lemma run_once_keeps:
  assumes "dg_agent dg = wired rest env st accounts calls" and "dg_publish dg = (\<lambda>c t. on_rest (publish c t))"
    and "only_reads_since base w"
  shows "only_reads_since base (snd (run_once dg w))"
proof -
  obtain x w1 where servers: "http_servers (dg_agent dg) w = (x, w1)" by fastforce
  have "only_reads_since base w1"
    using preservesD [OF on_rest_keeps assms(3)] servers by (simp add: assms(1) wired_def)
  then have "only_reads_since base (snd (sweep dg ss w1))" for ss by (rule sweep_keeps [OF assms(1)])
  then have "only_reads_since base (snd (on_rest (publish c t) (snd (sweep dg ss w1))))" for c t ss
    by (rule preserves_snd [OF on_rest_keeps])
  moreover have "only_reads_since base (snd (on_rest (publish c t) w1))" for c t
    using \<open>only_reads_since base w1\<close> by (rule preserves_snd [OF on_rest_keeps])
  ultimately show ?thesis using servers assms(3)
    by (auto simp: run_once_def Let_def assms(2) split: sum.split prod.split) (metis snd_conv)
qed

section \<open>Guarantees\<close>

text \<open>
  C6. A run nobody is watching never writes: an alert-triggered investigation, a scheduled health
  summary and a whole daily digest, wired to a Gateway in any state it can reach and whatever
  their planner proposes, add to what the Execution Service is sent only requests whose tool
  dispatches to a diagnostic method, never one that dispatches to a controlled write or to a
  restricted method.
\<close>

theorem unattended_never_writes:
  assumes "api_reachable (deployed env st) accounts (ww_gateway w)"
    and "agent = wired rest env st accounts calls"
    and "dg_agent dg = agent" and "dg_publish dg = (\<lambda>c t. on_rest (publish c t))"
    and "w' = snd (run_triggered_investigation agent server environment channel account problem w) \<or>
         w' = snd (run_comprehensive_summary agent server environment channel account w) \<or>
         w' = snd (run_once dg w)"
  shows "\<exists>sent. gs_sent (ww_gateway w') = gs_sent (ww_gateway w) @ sent \<and>
     (\<forall>er \<in> set sent. map_of READ_METHODS (ex_tool_id er) \<noteq> None \<and> map_of WRITE_METHODS (ex_tool_id er) = None \<and>
        map_of restricted_dispatch (ex_tool_id er) = None)"
proof -
  have start: "only_reads_since (gs_sent (ww_gateway w)) w"
    using api_reachable_inv [OF assms(1)] by (simp add: only_reads_since_def)
  have run: "only_reads_since (gs_sent (ww_gateway w)) (snd (run_unattended agent kind p pb server environment channel account w))" for kind p pb
    unfolding assms(2) by (rule preserves_snd [OF gateway.unattended_world start])
  have "only_reads_since (gs_sent (ww_gateway w)) w'"
    using assms(5) run start run_once_keeps [OF trans [OF assms(3) assms(2)] assms(4) start]
    by (auto simp: run_triggered_investigation_def run_comprehensive_summary_def)
  then show ?thesis using diagnostic_dispatch unfolding only_reads_since_def by blast
qed

section \<open>A planner that proposes nothing but a write\<close>

definition kill_proposal :: proposal where
  "kill_proposal =
     \<lparr>pr_tool_id = ''database.kill_session'', pr_arguments = [(''session_id'', JStr ''7''), (''reason'', JStr ''blocking'')],
      pr_target = [], pr_reason = ''The session blocks others.''\<rparr>"

definition demo_rest :: "nat agent_env" where
  \<comment> \<open>its state counts the decisions\<close>
  "demo_rest =
     \<lparr>ae_decide = (\<lambda>l i n. (Inr (ProposeToolCall kill_proposal, []), Suc n)),
      ae_critique = (\<lambda>l i n. (Inr \<lparr>cv_sound = True, cv_issue = None\<rparr>, n)),
      ae_extract_intent = (\<lambda>l m d h n. (Inl (PyExn ''NotImplementedError''), n)),
      ae_llm_name = (\<lambda>l. (''demo'', ''demo'')), ae_exn_text = (\<lambda>e. ''error''),
      ae_new_id = (\<lambda>p n. (Inr (p @ ''_1''), n)),
      http_submit = (\<lambda>rq n. (Inl (PyExn ''ConnectError''), n)),
      http_tools = (\<lambda>c a n. (Inr [], n)),
      http_servers = (\<lambda>n. (Inr [\<lparr>sv_id = ''db1'', sv_platform = ''postgresql'', sv_environment = ''production'',
         sv_criticality = ''HIGH'', sv_aliases = [], sv_status = ''active'', sv_host = None, sv_catalog = None\<rparr>], n)),
      http_decide_approval = (\<lambda>b i c a n. (Inr (404, []), n)),
      http_create_investigation = (\<lambda>r n. (Inr (), n)),
      http_update_investigation = (\<lambda>i r n. (Inr (), n)),
      http_memory = (\<lambda>s x k n. (Inr [], n)),
      http_patterns = (\<lambda>p e x k n. (Inr [], n)),
      http_decision_event = (\<lambda>r n. (Inr (), n)),
      ae_now = (\<lambda>n. 0), self_critique_enabled = True, investigation_memory_lookback = 3,
      llm_fast_model = [], llm_strong_model = []\<rparr>"

definition demo_world :: "nat wired_world" where
  "demo_world = \<lparr>ww_rest = 0, ww_gateway = demo_start, ww_calls = 0\<rparr>"

definition demo_agent :: "nat wired_world agent_env" where
  "demo_agent = wired demo_rest demo_env default_settings demo_accounts (\<lambda>n. demo_call (nat_str n) (int n))"

lemma demo_reachable: "api_reachable (deployed demo_env default_settings) demo_accounts (ww_gateway demo_world)"
  by (rule api_start) (simp add: demo_world_def demo_start_def)

theorem unattended_never_writes_witness:
  "\<exists>sent. gs_sent (ww_gateway (snd (run_triggered_investigation demo_agent ''db1'' ''production'' ''dev'' ''alice'' ''lag'' demo_world))) =
      gs_sent (ww_gateway demo_world) @ sent \<and> (\<nexists>er. er \<in> set sent \<and> ex_tool_id er = ''database.kill_session'')"
proof -
  let ?dg = "\<lparr>dg_agent = demo_agent, dg_publish = (\<lambda>c t. on_rest (\<lambda>n. (Inr (), n))), dg_stamp = (\<lambda>w. ''now''),
    daily_report_slack_channel = ''C1'', daily_report_servers = [], daily_report_identity_channel = ''dev'',
    daily_report_identity_account = ''alice''\<rparr>"
  have kill: "map_of WRITE_METHODS ''database.kill_session'' \<noteq> None" by (simp add: WRITE_METHODS_def)
  have "dg_agent ?dg = demo_agent" and "dg_publish ?dg = (\<lambda>c t. on_rest (\<lambda>n. (Inr (), n)))" by simp_all
  from unattended_never_writes [OF demo_reachable demo_agent_def this disjI1 [OF refl]]
  show ?thesis using kill by metis
qed

end
