(* ===== verification/Agent_Bounds.thy ===== *)
theory Agent_Bounds
  imports Agent_Gateway
begin

text \<open>
  How much an investigation can call: the locale \<open>costed_world\<close> charges a submission \<open>a\<close> and a
  planner decision \<open>b\<close>, and every other call nothing. A pass of the loop then costs at most
  \<open>a + b\<close>, and the whole loop, which ends, at most that for every turn left and one decision more.
\<close>

section \<open>Costs of computations\<close>

definition grows :: "('s \<Rightarrow> nat) \<Rightarrow> nat \<Rightarrow> ('s, 'e, 'a) comp \<Rightarrow> bool" where
  "grows c k m \<longleftrightarrow> (\<forall>s. c (snd (m s)) \<le> c s + k)"

named_theorems free_intros \<open>computations that cost nothing\<close>

lemma growsD: "grows c k m \<Longrightarrow> m s = (r, t) \<Longrightarrow> c t \<le> c s + k"
  by (metis grows_def snd_conv)

lemma grows_mono: "grows c k m \<Longrightarrow> k \<le> l \<Longrightarrow> grows c l m"
  unfolding grows_def by (meson add_left_mono le_trans)

lemma grows_bind:
  assumes "grows c k m" and "\<And>a. grows c l (f a)"
  shows "grows c (k + l) (bindM m f)"
  unfolding grows_def
proof
  fix s
  obtain r t where m: "m s = (r, t)" by fastforce
  from growsD [OF assms(1) m] assms(2) show "c (snd (bindM m f s)) \<le> c s + (k + l)"
    by (cases r) (simp_all add: bindM_def m grows_def, metis add.assoc add_le_mono1 le_trans)
qed

lemma free_bind [free_intros]: "grows c 0 m \<Longrightarrow> (\<And>a. grows c l (f a)) \<Longrightarrow> grows c l (bindM m f)"
  using grows_bind [of c 0 m l f] by simp

lemma grows_then_free: "grows c k m \<Longrightarrow> (\<And>a. grows c 0 (f a)) \<Longrightarrow> grows c k (bindM m f)"
  using grows_bind [of c k m 0 f] by simp

lemma grows_steps [free_intros]:
  "grows c k (returnM a)" "grows c k (raiseM e)" "grows c k (reads f)"
  by (simp_all add: grows_def reads_def)

lemma grows_attempt [free_intros]: "grows c k m \<Longrightarrow> grows c k (attempt m)"
  by (simp add: grows_def attempt_def split: prod.split) (metis snd_conv)

lemma grows_if [free_intros]:
  "(b \<Longrightarrow> grows c k m) \<Longrightarrow> (\<not> b \<Longrightarrow> grows c k n) \<Longrightarrow> grows c k (if b then m else n)"
  by simp

lemma grows_option [free_intros]:
  "grows c k m \<Longrightarrow> (\<And>a. grows c k (f a)) \<Longrightarrow> grows c k (case x of None \<Rightarrow> m | Some a \<Rightarrow> f a)"
  by (cases x) auto

lemma grows_sum [free_intros]:
  "(\<And>e. grows c k (f e)) \<Longrightarrow> (\<And>a. grows c k (g a)) \<Longrightarrow> grows c k (case x of Inl e \<Rightarrow> f e | Inr a \<Rightarrow> g a)"
  by (cases x) auto

lemma grows_prod [free_intros]: "(\<And>a b. grows c k (f a b)) \<Longrightarrow> grows c k (case x of (a, b) \<Rightarrow> f a b)"
  by (cases x) auto

definition world_cost :: "('w \<Rightarrow> nat) \<Rightarrow> 'w agent_run \<Rightarrow> nat" where
  "world_cost c r = c (rn_world r)"

lemma grows_updates [free_intros]:
  "grows (world_cost c) k (upd_inv f)" "grows (world_cost c) k (upd_state g)"
  "grows (world_cost c) k (next_playbook_action ids)" "grows (world_cost c) k (relay_denied p rs)"
  by (auto simp: grows_def world_cost_def upd_inv_def upd_state_def next_playbook_action_def relay_denied_def Let_def
      split: option.splits prod.splits)

lemma grows_world: "grows c k m \<Longrightarrow> grows (world_cost c) k (world m)"
  by (auto simp: grows_def world_cost_def world_def zoom_def split: prod.split) (metis snd_conv)

section \<open>A world with prices\<close>

locale costed_world =
  fixes env :: "'w agent_env" and cost :: "'w \<Rightarrow> nat" and a b :: nat
  assumes price_decide: "grows cost b (ae_decide env l i)"
    and price_submit: "grows cost a (http_submit env rq)"
    and free_critique: "grows cost 0 (ae_critique env l ci)"
    and free_new_id: "grows cost 0 (ae_new_id env p)"
    and free_event: "grows cost 0 (http_decision_event env dv)"
begin

lemma event_free: "grows (world_cost cost) 0 (decision_event env lx t p)"
  unfolding decision_event_def log_decision_event_def best_effort_def
  by (intro free_intros grows_world free_event)

lemma conclude_free: "grows (world_cost cost) 0 (finalize_conclude env lx final c)"
  unfolding finalize_conclude_def review_def accept_def self_critique_conclude_def
  by (intro free_intros grows_world free_critique event_free)

lemma relay_free: "grows (world_cost cost) 0 (relay lx p args rq rs)"
  unfolding relay_def relay_approval_def Let_def
  by (cases "rs_status rs"; simp; intro free_intros)

lemma submit_price: "grows (world_cost cost) a (submit_and_relay env lx p)"
  unfolding submit_and_relay_def send_proposal_def submit_failed_def Let_def
  by (intro free_bind [OF grows_steps(3)] grows_if free_bind [OF grows_updates(1)] grows_steps
      free_bind [OF grows_world [OF free_new_id]] grows_then_free grows_attempt grows_world price_submit grows_sum
      relay_free grows_updates)

lemma decide_price: "grows (world_cost cost) b (decide_action env lx i)"
  unfolding decide_action_def
  by (rule grows_then_free [OF grows_world [OF price_decide]]) (intro free_intros)

lemma take_action_price: "grows (world_cost cost) a (take_action env lx action)"
  unfolding take_action_def ask_clarification_def
  by (cases action; simp; intro free_bind grows_updates grows_if grows_steps submit_price
      grows_mono [OF conclude_free]; simp)

lemma body_price: "grows (world_cost cost) (b + a) (loop_body env lx)"
proof -
  have act: "grows (world_cost cost) (b + a) (bindM (decide_action env lx i)
      (\<lambda>action. bindM (upd_inv (\<lambda>iv. iv\<lparr>iv_last_message := []\<rparr>)) (\<lambda>_. take_action env lx action)))" for i
    by (rule grows_bind [OF decide_price]) (intro free_bind grows_updates take_action_price)
  have step: "grows (world_cost cost) (b + a) (submit_and_relay env lx p)" for p
    by (rule grows_mono [OF submit_price]) simp
  show ?thesis unfolding loop_body_def give_up_def
    by (intro free_bind grows_updates grows_option step act grows_if grows_steps)
qed

lemma loop_price:
  "cost (rn_world (snd (investigation_loop env lx r))) \<le>
     cost (rn_world r) + (MAX_INVESTIGATION_TURNS - iv_turn_count (rn_inv r)) * (b + a)"
proof (induction r rule: measure_induct_rule [of "\<lambda>r. MAX_INVESTIGATION_TURNS - iv_turn_count (rn_inv r)"])
  case (less r)
  show ?case
  proof (cases "iv_turn_count (rn_inv r) < MAX_INVESTIGATION_TURNS")
    case True
    obtain x r' where body: "loop_body env lx r = (x, r')" by fastforce
    from growsD [OF body_price body] have pay: "cost (rn_world r') \<le> cost (rn_world r) + (b + a)" by (simp add: world_cost_def)
    let ?n = "MAX_INVESTIGATION_TURNS - iv_turn_count (rn_inv r)"
    show ?thesis
    proof (cases "x = Inr None")
      case None: True
      from loop_body_turn [OF body [unfolded None]] True
      have n: "?n = Suc (MAX_INVESTIGATION_TURNS - iv_turn_count (rn_inv r'))" by auto
      with less.IH [of r'] pay body None True show ?thesis by (subst investigation_loop.simps) simp
    next
      case False
      have "1 \<le> ?n" using True by simp
      then have "1 * (b + a) \<le> ?n * (b + a)" by (rule mult_le_mono1)
      with pay have "cost (rn_world r') \<le> cost (rn_world r) + ?n * (b + a)" by (simp only: mult_1 le_trans [OF _ add_left_mono])
      moreover have "snd (investigation_loop env lx r) = r'"
        using False body True by (subst investigation_loop.simps) (simp split: sum.split option.split)
      ultimately show ?thesis by simp
    qed
  qed (simp add: investigation_loop.simps)
qed

lemma run_price:
  "cost (rn_world (snd (run_investigation_loop env lx r))) \<le>
     cost (rn_world r) + (MAX_INVESTIGATION_TURNS - iv_turn_count (rn_inv r)) * (b + a) + b"
proof -
  have conclude: "grows (world_cost cost) 0 (case action of Conclude c \<Rightarrow> finalize_conclude env lx True c | _ \<Rightarrow> returnM None)" for action
    by (cases action) (auto intro: conclude_free free_intros)
  have final: "grows (world_cost cost) b (final_attempt env lx)"
    unfolding final_attempt_def give_up_def
    by (intro free_bind [OF grows_steps(3)] grows_then_free [OF decide_price] free_bind [OF conclude] free_intros)
  obtain x r' where loop: "investigation_loop env lx r = (x, r')" by fastforce
  have "grows (world_cost cost) b (case y of Some rp \<Rightarrow> returnM rp | None \<Rightarrow> final_attempt env lx)" for y
    by (intro free_intros final)
  from growsD [OF this] loop_price [of lx r] loop show ?thesis
    unfolding run_investigation_loop_def bindM_def
    by (cases x) (auto simp: world_cost_def split: prod.splits, metis (no_types, lifting) add_le_mono1 le_trans prod.collapse)
qed

end

lemma on_rest_free: "grows ww_calls k (on_rest m)"
  by (auto simp: grows_def on_rest_def zoom_def split: prod.split)

interpretation submissions: costed_world "wired rest env st accounts calls" ww_calls 1 0
  for rest :: "'p agent_env" and env :: "'n handler_env" and st accounts calls
  by unfold_locales (simp_all add: wired_def on_rest_free, simp add: grows_def route_submit_def split: prod.split)

lemma on_rest_counts: "grows c k m \<Longrightarrow> grows (c \<circ> ww_rest) k (on_rest m)"
  by (auto simp: grows_def on_rest_def zoom_def split: prod.split) (metis snd_conv)

section \<open>Guarantees\<close>

text \<open>
  C10. An investigation is bounded: whatever the planner decides, a run of the loop submits at most
  one tool call for every turn left of the six, and asks the planner for at most one decision
  more than that. The loop is a total function: it always ends.
\<close>

theorem investigation_bounded:
  assumes "\<And>l i. grows count 1 (ae_decide rest l i)" and "\<And>l i. grows count 0 (ae_critique rest l i)"
    and "\<And>p. grows count 0 (ae_new_id rest p)" and "\<And>e. grows count 0 (http_decision_event rest e)"
    and "run_investigation_loop (wired rest env st accounts calls) lx r = (answer, r')"
  shows "ww_calls (rn_world r') \<le> ww_calls (rn_world r) + (6 - iv_turn_count (rn_inv r)) \<and>
     count (ww_rest (rn_world r')) \<le> count (ww_rest (rn_world r)) + (6 - iv_turn_count (rn_inv r)) + 1"
proof -
  have decisions: "costed_world (wired rest env st accounts calls) (count \<circ> ww_rest) 0 1"
  proof unfold_locales
    fix rq show "grows (count \<circ> ww_rest) 0 (http_submit (wired rest env st accounts calls) rq)"
      by (simp add: wired_def grows_def route_submit_def split: prod.split)
  qed (simp_all only: wired_def agent_env.simps on_rest_counts assms(1-4))
  show ?thesis
    using submissions.run_price [of rest env st accounts calls lx r] costed_world.run_price [OF decisions, of lx r] assms(5)
    by (simp add: MAX_INVESTIGATION_TURNS_def)
qed

theorem investigation_bounded_witness:
  "ww_calls (rn_world (snd (run_investigation_loop demo_agent (make_ctx ''dev'' ''alice'' \<lparr>lc_provider = None, lc_model = None\<rparr> read_tools)
       \<lparr>rn_state = new_conversation ''c'' ''dev'' [] ''alice'' 0, rn_inv = new_investigation ''inv_1'' ''lag'',
        rn_world = demo_world\<rparr>))) \<le> 6"
proof -
  let ?r = "\<lparr>rn_state = new_conversation ''c'' ''dev'' [] ''alice'' 0, rn_inv = new_investigation ''inv_1'' ''lag'',
        rn_world = demo_world\<rparr>"
  let ?lx = "make_ctx ''dev'' ''alice'' \<lparr>lc_provider = None, lc_model = None\<rparr> read_tools"
  obtain answer r' where run: "run_investigation_loop demo_agent ?lx ?r = (answer, r')" by fastforce
  have "ww_calls (rn_world r') \<le> ww_calls (rn_world ?r) + (6 - iv_turn_count (rn_inv ?r))"
    using investigation_bounded [of "\<lambda>n. n" demo_rest, OF _ _ _ _ run [unfolded demo_agent_def]]
    by (simp add: demo_rest_def grows_def)
  with run show ?thesis by (simp add: demo_world_def new_investigation_def)
qed

end
