(* ===== verification/Agent_Verification.thy ===== *)
theory Agent_Verification
  imports Agent_Bounds
begin

text \<open>
  What a conclusion may claim about a write. The history of executed tools determines, as a small
  abstract machine, whether the last session-terminating write was re-checked; the fields the
  orchestrator keeps refine that machine through every step of the loop, so the stage an
  investigation concludes in always tells the truth about its history.
\<close>

section \<open>The abstract machine\<close>

datatype check_state = NoWrite | Unchecked string | Checked

fun check_step :: "check_state \<Rightarrow> string \<Rightarrow> check_state" where
  "check_step (Unchecked w) t =
     (if t \<in> set (case map_of VERIFICATION_TOOLS_BY_WRITE_TOOL w of None \<Rightarrow> [] | Some ts \<Rightarrow> ts) then Checked
      else if map_of VERIFICATION_TOOLS_BY_WRITE_TOOL t \<noteq> None then Unchecked t else Unchecked w)"
| "check_step c t = (if map_of VERIFICATION_TOOLS_BY_WRITE_TOOL t \<noteq> None then Unchecked t else c)"

definition check_history :: "string list \<Rightarrow> check_state" where
  "check_history tools = foldl check_step NoWrite tools"

definition tracked :: "InvestigationState \<Rightarrow> check_state" where
  "tracked iv =
     (case iv_pending_verification iv of
        Some p \<Rightarrow> Unchecked (pv_tool_id p)
      | None \<Rightarrow> (case iv_last_verification iv of Some v \<Rightarrow> Checked | None \<Rightarrow> NoWrite))"

definition faithful :: "InvestigationState \<Rightarrow> bool" where
  "faithful iv \<longleftrightarrow> tracked iv = check_history (map fst (iv_actions iv)) \<and>
     (\<forall>p. iv_pending_verification iv = Some p \<longrightarrow>
        map_of VERIFICATION_TOOLS_BY_WRITE_TOOL (pv_tool_id p) = Some (pv_verification_tools p) \<and>
        iv_last_verification iv = None)"

definition knows_writes :: "loop_ctx \<Rightarrow> bool" where
  \<comment> \<open>the classification fetched with the tools, where there is one, has the two writes as such\<close>
  "knows_writes lx \<longleftrightarrow> (\<forall>m w. lx_tool_operation_types lx = Some m \<longrightarrow> w \<in> dom (map_of VERIFICATION_TOOLS_BY_WRITE_TOOL) \<longrightarrow>
     map_of m w = Some WRITE)"

section \<open>Refinement\<close>

lemma check_history_snoc: "check_history (ts @ [t]) = check_step (check_history ts) t"
  by (simp add: check_history_def)

lemma tracked_updates [simp]:
  "tracked (iv\<lparr>iv_status := s\<rparr>) = tracked iv" "tracked (iv\<lparr>iv_evidence := e\<rparr>) = tracked iv"
  "tracked (iv\<lparr>iv_transcript := t\<rparr>) = tracked iv" "tracked (iv\<lparr>iv_actions := a\<rparr>) = tracked iv"
  "tracked (iv\<lparr>iv_findings := f\<rparr>) = tracked iv" "tracked (iv\<lparr>iv_recommendations := f\<rparr>) = tracked iv"
  "tracked (iv\<lparr>iv_playbook_step := n\<rparr>) = tracked iv"
  by (simp_all add: tracked_def split: option.split)

lemma faithful_updates [simp]:
  "faithful (iv\<lparr>iv_status := s\<rparr>) = faithful iv" "faithful (iv\<lparr>iv_evidence := e\<rparr>) = faithful iv"
  "faithful (iv\<lparr>iv_transcript := t\<rparr>) = faithful iv" "faithful (iv\<lparr>iv_findings := f\<rparr>) = faithful iv"
  "faithful (iv\<lparr>iv_recommendations := f\<rparr>) = faithful iv" "faithful (iv\<lparr>iv_playbook_step := n\<rparr>) = faithful iv"
  by (simp_all add: faithful_def)

lemma note_write_tracked:
  assumes "knows_writes lx" and "tracked iv = c"
    and "\<And>w. c = Unchecked w \<Longrightarrow> pr_tool_id a \<notin> set (case map_of VERIFICATION_TOOLS_BY_WRITE_TOOL w of None \<Rightarrow> [] | Some ts \<Rightarrow> ts)"
  shows "tracked (note_write a args (lx_tool_operation_types lx) iv) = check_step c (pr_tool_id a)"
proof (cases "map_of VERIFICATION_TOOLS_BY_WRITE_TOOL (pr_tool_id a)")
  case None
  then show ?thesis using assms by (cases c) (auto simp: note_write_def)
next
  case (Some ts)
  then have "pr_tool_id a \<in> dom (map_of VERIFICATION_TOOLS_BY_WRITE_TOOL)" by auto
  with assms(1) have "case lx_tool_operation_types lx of None \<Rightarrow> True | Some m \<Rightarrow> map_of m (pr_tool_id a) = Some WRITE"
    by (auto simp: knows_writes_def split: option.split)
  with Some have "tracked (note_write a args (lx_tool_operation_types lx) iv) = Unchecked (pr_tool_id a)"
    by (auto simp: note_write_def tracked_def)
  with Some assms(3) show ?thesis by (cases c) auto
qed

lemma note_write_faithful:
  assumes "\<And>p. iv_pending_verification iv = Some p \<Longrightarrow>
        map_of VERIFICATION_TOOLS_BY_WRITE_TOOL (pv_tool_id p) = Some (pv_verification_tools p) \<and> iv_last_verification iv = None"
    and "tracked (note_write a args ots iv) = check_history (map fst (iv_actions iv))"
  shows "faithful (note_write a args ots iv)"
proof -
  have "iv_actions (note_write a args ots iv) = iv_actions iv" by (simp add: note_write_def split: option.split)
  moreover have "map_of VERIFICATION_TOOLS_BY_WRITE_TOOL (pv_tool_id p) = Some (pv_verification_tools p) \<and>
      iv_last_verification (note_write a args ots iv) = None"
    if "iv_pending_verification (note_write a args ots iv) = Some p" for p
    using that assms(1) by (auto simp: note_write_def split: option.splits if_splits)
  ultimately show ?thesis using assms(2) by (simp add: faithful_def)
qed

lemma update_faithful:
  assumes t: "tracked iv = check_history ts"
    and p: "\<And>p. iv_pending_verification iv = Some p \<Longrightarrow>
        map_of VERIFICATION_TOOLS_BY_WRITE_TOOL (pv_tool_id p) = Some (pv_verification_tools p) \<and> iv_last_verification iv = None"
    and acts: "map fst (iv_actions iv) = ts @ [pr_tool_id a]" and k: "knows_writes lx"
  shows "faithful (update_pending_verification a args rs (lx_tool_operation_types lx) iv)"
proof -
  have written: "faithful (note_write a args (lx_tool_operation_types lx) iv)"
    if "\<And>w. tracked iv = Unchecked w \<Longrightarrow>
      pr_tool_id a \<notin> set (case map_of VERIFICATION_TOOLS_BY_WRITE_TOOL w of None \<Rightarrow> [] | Some ts \<Rightarrow> ts)"
  proof (rule note_write_faithful, rule p)
    have "tracked (note_write a args (lx_tool_operation_types lx) iv) = check_step (tracked iv) (pr_tool_id a)"
      using note_write_tracked [OF k refl] that by blast
    then show "tracked (note_write a args (lx_tool_operation_types lx) iv) = check_history (map fst (iv_actions iv))"
      by (simp add: acts check_history_snoc t)
  qed
  show ?thesis
  proof (cases "iv_pending_verification iv")
    case None
    then have "tracked iv \<noteq> Unchecked w" for w by (auto simp: tracked_def split: option.splits)
    with written None show ?thesis by (simp add: update_pending_verification_def)
  next
    case (Some q)
    then have q: "tracked iv = Unchecked (pv_tool_id q)" by (simp add: tracked_def)
    show ?thesis
    proof (cases "pr_tool_id a \<in> set (pv_verification_tools q)")
      case True
      with q p [OF Some] have "check_step (check_history ts) (pr_tool_id a) = Checked" unfolding t [symmetric] by simp
      with True Some acts show ?thesis
        by (simp add: update_pending_verification_def faithful_def tracked_def check_history_snoc)
    next
      case False
      with Some q p [OF Some] show ?thesis by (auto simp: update_pending_verification_def intro!: written)
    qed
  qed
qed

lemma faithful_executed:
  assumes "faithful iv" and "knows_writes lx"
  shows "faithful (relay_executed lx a args rs iv)"
  unfolding relay_executed_def Let_def
  by (rule update_faithful [where ts = "map fst (iv_actions iv)"])
     (use assms in \<open>auto simp: faithful_def add_evidence_def add_transcript_def\<close>)

section \<open>Every step keeps it\<close>

definition keeps_check :: "(InvestigationState \<Rightarrow> InvestigationState) \<Rightarrow> bool" where
  "keeps_check f \<longleftrightarrow> (\<forall>iv. iv_pending_verification (f iv) = iv_pending_verification iv \<and>
     iv_last_verification (f iv) = iv_last_verification iv \<and> iv_actions (f iv) = iv_actions iv \<and> iv_status (f iv) = iv_status iv)"

named_theorems check_intros \<open>updates of an investigation that concern no write\<close>

lemma keeps_checkI:
  "(\<And>iv. iv_pending_verification (f iv) = iv_pending_verification iv \<and> iv_last_verification (f iv) = iv_last_verification iv \<and>
     iv_actions (f iv) = iv_actions iv \<and> iv_status (f iv) = iv_status iv) \<Longrightarrow> keeps_check f"
  by (simp add: keeps_check_def)

lemma keeps_check_comp [check_intros]: "keeps_check f \<Longrightarrow> keeps_check g \<Longrightarrow> keeps_check (f \<circ> g)"
  by (simp add: keeps_check_def)

lemma keeps_check_steps [check_intros]:
  "keeps_check (add_transcript e)" "keeps_check (add_evidence t)" "keeps_check (append_evidence_once t)"
  "keeps_check (readonly_drop a)" "keeps_check (readonly_decline a)" "keeps_check (relay_failed a rs)"
  "keeps_check (reject_ungrounded ns)" "keeps_check (reject_pending p)" "keeps_check (reject_critique v)" "keeps_check spend_turn"
  by (auto simp: keeps_check_def add_transcript_def add_evidence_def append_evidence_once_def readonly_drop_def
      readonly_decline_def relay_failed_def reject_ungrounded_def reject_pending_def reject_critique_def spend_turn_def)

definition settled :: "InvestigationState \<Rightarrow> bool" where
  "settled iv \<longleftrightarrow> iv_status iv \<in> {INVESTIGATING, AWAITING_CLARIFICATION} \<or> iv_status iv = conclusion_stage iv"

definition honest :: "'w agent_run \<Rightarrow> bool" where
  "honest r \<longleftrightarrow> faithful (rn_inv r) \<and> settled (rn_inv r)"

definition investigating :: "'w agent_run \<Rightarrow> bool" where
  "investigating r \<longleftrightarrow> faithful (rn_inv r) \<and> iv_status (rn_inv r) = INVESTIGATING"

lemma investigating_honest: "investigating r \<Longrightarrow> honest r"
  by (simp add: investigating_def honest_def settled_def)

lemma keeps_check_faithful: "keeps_check f \<Longrightarrow> faithful (f iv) = faithful iv"
  by (simp add: keeps_check_def faithful_def tracked_def split: option.split)

lemma keeps_check_settled: "keeps_check f \<Longrightarrow> settled (f iv) = settled iv"
  by (simp add: keeps_check_def settled_def conclusion_stage_def)

lemma honest_ops [preserve_intros]:
  "preserves honest (world m)" "preserves honest (upd_state g)" "keeps_check f \<Longrightarrow> preserves honest (upd_inv f)"
  "preserves investigating (world m)" "preserves investigating (upd_state g)"
  "keeps_check f \<Longrightarrow> preserves investigating (upd_inv f)"
  by (auto intro!: preserves_world preserves_upd_state preserves_upd_inv
      simp: honest_def investigating_def keeps_check_faithful keeps_check_settled keeps_check_def)

lemma honest_playbook [preserve_intros]: "preserves investigating (next_playbook_action ids)"
  by (rule preservesI)
     (auto simp: next_playbook_action_def investigating_def split: option.splits prod.splits)

lemma honest_relay_denied [preserve_intros]: "preserves investigating (relay_denied a rs)"
  by (rule preservesI)
     (auto simp: relay_denied_def Let_def investigating_def add_evidence_def add_transcript_def)

lemma relay_executed_status [simp]: "iv_status (relay_executed lx a args rs iv) = iv_status iv"
  by (simp add: relay_executed_def Let_def update_pending_verification_def note_write_def add_evidence_def add_transcript_def
      split: option.split)

lemma investigating_executed:
  "knows_writes lx \<Longrightarrow> preserves investigating (upd_inv (relay_executed lx a args rs))"
  by (simp add: preserves_def upd_inv_def investigating_def faithful_executed)

lemma investigating_relay:
  assumes "knows_writes lx" shows "preserves investigating (relay lx a args rq rs)"
  unfolding relay_def relay_approval_def Let_def
  by (cases "rs_status rs"; simp; intro preserve_intros check_intros investigating_executed assms)

lemma investigating_submit:
  assumes "knows_writes lx" shows "preserves investigating (submit_and_relay env lx a)"
  unfolding submit_and_relay_def send_proposal_def submit_failed_def Let_def
  by (intro preserve_intros check_intros investigating_relay assms)

lemma honest_conclude:
  "preserves honest (finalize_conclude env lx final c)"
proof -
  have "faithful (accept_conclusion c iv) = faithful iv" "settled (accept_conclusion c iv)" for iv
    by (simp_all add: accept_conclusion_def settled_def conclusion_stage_def)
  then have accepted: "preserves honest (upd_inv (accept_conclusion c))"
    by (simp add: preserves_def upd_inv_def honest_def)
  show ?thesis
    unfolding finalize_conclude_def review_def accept_def self_critique_conclude_def decision_event_def log_decision_event_def best_effort_def
    by (intro preserve_intros check_intros accepted)
qed

lemma honest_stage: "preserves honest (upd_inv (\<lambda>iv. iv\<lparr>iv_status := conclusion_stage iv\<rparr>))"
  "preserves honest (upd_inv (\<lambda>iv. iv\<lparr>iv_status := AWAITING_CLARIFICATION\<rparr>))"
  by (simp_all add: preserves_def upd_inv_def honest_def settled_def conclusion_stage_def)

lemma honest_give_up: "preserves honest give_up"
  unfolding give_up_def by (intro preserve_intros honest_stage)

definition leads :: "('s \<Rightarrow> bool) \<Rightarrow> ('s \<Rightarrow> bool) \<Rightarrow> ('s, 'e, 'a) comp \<Rightarrow> bool" where
  "leads P Q m \<longleftrightarrow> (\<forall>s. P s \<longrightarrow> Q (snd (m s)))"

lemma leads_bind: "leads P R m \<Longrightarrow> (\<And>a. leads R Q (f a)) \<Longrightarrow> (\<And>s. R s \<Longrightarrow> Q s) \<Longrightarrow> leads P Q (bindM m f)"
  by (auto simp: leads_def bindM_def split: prod.splits sum.splits)

lemma leads_preserves: "preserves P m \<Longrightarrow> (\<And>s. P s \<Longrightarrow> Q s) \<Longrightarrow> leads P Q m"
  by (simp add: leads_def preserves_def)

lemma leads_weaken: "preserves Q m \<Longrightarrow> (\<And>s. P s \<Longrightarrow> Q s) \<Longrightarrow> leads P Q m"
  by (simp add: leads_def preserves_def)

lemma leads_step: "preserves P m \<Longrightarrow> (\<And>a. leads P Q (f a)) \<Longrightarrow> (\<And>s. P s \<Longrightarrow> Q s) \<Longrightarrow> leads P Q (bindM m f)"
  by (rule leads_bind [OF leads_preserves])

lemma take_action_honest:
  assumes "knows_writes lx" shows "leads investigating honest (take_action env lx action)"
proof -
  have clear: "keeps_check (\<lambda>iv. iv\<lparr>iv_consecutive_record_observations := 0\<rparr>)"
      "keeps_check (\<lambda>iv. (spend_turn iv)\<lparr>iv_clarification_count := 0\<rparr>)"
      "keeps_check (\<lambda>iv. iv\<lparr>iv_consecutive_record_observations := 0, iv_clarification_count := Suc (iv_clarification_count iv)\<rparr>)"
      "keeps_check (\<lambda>iv. add_evidence t (iv\<lparr>iv_consecutive_record_observations := Suc (iv_consecutive_record_observations iv)\<rparr>))" for t
    by (simp_all add: keeps_check_def spend_turn_def add_evidence_def)
  show ?thesis
  proof (cases action)
    case (AskClarification q)
    have "preserves honest (ask_clarification q)"
      unfolding ask_clarification_def by (intro preserve_intros clear honest_stage)
    then have "leads investigating honest (ask_clarification q)" by (rule leads_weaken) (rule investigating_honest)
    then show ?thesis unfolding AskClarification take_action_def by simp
  next
    case (ProposeToolCall p)
    have "preserves investigating (take_action env lx action)"
      unfolding ProposeToolCall take_action_def by (simp, intro preserve_intros clear investigating_submit assms)
    then show ?thesis by (rule leads_preserves) (rule investigating_honest)
  next
    case (RecordObservation t)
    have "preserves investigating (take_action env lx action)"
      unfolding RecordObservation take_action_def by (simp, intro preserve_intros clear)
    then show ?thesis by (rule leads_preserves) (rule investigating_honest)
  next
    case (Conclude c)
    have "preserves honest (take_action env lx action)"
      unfolding Conclude take_action_def by (simp, intro preserve_intros clear honest_conclude)
    then show ?thesis by (rule leads_weaken) (rule investigating_honest)
  qed
qed

lemma loop_body_honest:
  assumes "knows_writes lx" shows "preserves honest (loop_body env lx)"
proof -
  have start: "leads honest investigating (upd_inv (\<lambda>iv. iv\<lparr>iv_status := INVESTIGATING\<rparr>))"
    by (simp add: leads_def upd_inv_def honest_def investigating_def)
  have decide: "preserves investigating (decide_action env lx i)" for i
    unfolding decide_action_def by (intro preserve_intros)
  have reset: "preserves investigating (upd_inv (\<lambda>iv. iv\<lparr>iv_last_message := []\<rparr>))"
    by (intro preserve_intros keeps_checkI) simp
  have step: "leads investigating honest (bindM (upd_inv spend_turn) (\<lambda>_. submit_and_relay env lx p))" for p
    by (rule leads_preserves [OF _ investigating_honest]) (intro preserve_intros check_intros investigating_submit assms)
  have give: "leads investigating honest (bindM give_up (\<lambda>rp. returnM (Some rp)))"
    by (rule leads_weaken [OF _ investigating_honest]) (intro preserve_intros honest_give_up)
  have free: "leads investigating honest (bindM (reads rn_inv) (\<lambda>iv.
      if iv_consecutive_record_observations iv \<ge> MAX_CONSECUTIVE_RECORD_OBSERVATIONS
      then bindM give_up (\<lambda>rp. returnM (Some rp))
      else bindM (decide_action env lx (f iv)) (\<lambda>action.
           bindM (upd_inv (\<lambda>iv. iv\<lparr>iv_last_message := []\<rparr>)) (\<lambda>_. take_action env lx action))))" for f
    by (intro leads_step decide reset take_action_honest assms preserves_reads investigating_honest)
       (auto intro!: give leads_step decide reset take_action_honest assms investigating_honest)
  have "leads honest honest (loop_body env lx)"
    unfolding loop_body_def
    by (rule leads_bind [OF start], rule leads_step [OF honest_playbook])
       (auto intro!: step free investigating_honest split: option.split)
  then show ?thesis by (simp add: leads_def preserves_def)
qed

lemma run_loop_honest:
  assumes "knows_writes lx" shows "preserves honest (run_investigation_loop env lx)"
proof -
  have loop: "preserves honest (investigation_loop env lx)"
    using loop_yields [OF preserves_yields [OF loop_body_honest [OF assms]]] by (auto dest: yields_preserves)
  have "preserves honest (case action of Conclude c \<Rightarrow> finalize_conclude env lx True c | _ \<Rightarrow> returnM None)" for action
    by (cases action) (auto intro: honest_conclude preserve_intros)
  then show ?thesis unfolding run_investigation_loop_def final_attempt_def decide_action_def
    by (intro preserve_intros loop honest_give_up)
qed

section \<open>Guarantees\<close>

text \<open>
  C8. One run of the investigation loop keeps the account of its own submissions: when it starts
  from an open investigation whose verification fields agree with its recorded actions
  (\<open>faithful\<close>), and the tool classification it was given, if any, lists the two
  session-terminating tools as writes (\<open>knows_writes\<close>), then a run that concludes, in whichever
  way, ends in CONCLUDED_NO_ACTION exactly when no session-terminating write was executed, in
  CONCLUDED_UNVERIFIED exactly when the last one was not re-checked by one of its tools since,
  and otherwise in CONCLUDED_VERIFIED or CONCLUDED_UNRESOLVED as that re-check found. A write run
  through its approval, between two runs of the loop, leaves fields that are not faithful and is
  outside this statement.
\<close>

theorem conclusion_tells_history:
  assumes "faithful (rn_inv r)" and "\<not> is_concluded (rn_inv r)" and "iv_status (rn_inv r) \<noteq> AWAITING_VERIFICATION"
    and "knows_writes lx" and "run_investigation_loop env lx r = (answer, r')" and "is_concluded (rn_inv r')"
  shows "iv_status (rn_inv r') =
     (case check_history (map fst (iv_actions (rn_inv r'))) of
        NoWrite \<Rightarrow> CONCLUDED_NO_ACTION
      | Unchecked w \<Rightarrow> CONCLUDED_UNVERIFIED
      | Checked \<Rightarrow> if iv_last_verification (rn_inv r') = Some RESOLVED then CONCLUDED_VERIFIED else CONCLUDED_UNRESOLVED)"
proof -
  have "iv_status (rn_inv r) \<in> {INVESTIGATING, AWAITING_CLARIFICATION}"
    using assms(2,3) by (cases "iv_status (rn_inv r)") (auto simp: is_concluded_def CONCLUDED_STAGES_def)
  with assms(1) have "honest r" by (simp add: honest_def settled_def)
  from preservesD [OF run_loop_honest [OF assms(4)] this assms(5)] have h: "honest r'" .
  then have "iv_status (rn_inv r') = conclusion_stage (rn_inv r')"
    using assms(6) by (auto simp: honest_def settled_def is_concluded_def CONCLUDED_STAGES_def)
  moreover have "check_history (map fst (iv_actions (rn_inv r'))) = tracked (rn_inv r')"
    "iv_pending_verification (rn_inv r') \<noteq> None \<Longrightarrow> iv_last_verification (rn_inv r') = None"
    using h by (auto simp: honest_def faithful_def)
  ultimately show ?thesis
    by (cases "iv_last_verification (rn_inv r')"; cases "the (iv_last_verification (rn_inv r'))")
       (auto simp: conclusion_stage_def tracked_def split: option.splits)
qed

definition spent_run :: "nat agent_run" where
  \<comment> \<open>an investigation that terminated a session with its last turn\<close>
  "spent_run =
     \<lparr>rn_state = new_conversation ''c'' ''dev'' [] ''alice'' 0,
      rn_inv = (new_investigation ''inv_1'' ''lag'')
        \<lparr>iv_turn_count := 6, iv_actions := [(''database.kill_session'', None)],
         iv_pending_verification := Some \<lparr>pv_tool_id = ''database.kill_session'',
           pv_verification_tools = [''database.get_blocking_sessions'', ''database.get_sessions''],
           pv_session_id = Some (JStr ''7''), pv_reason = ''blocking''\<rparr>\<rparr>,
      rn_world = 0\<rparr>"

lemma spent_run_result:
  "iv_status (rn_inv (snd (run_investigation_loop demo_rest lx spent_run))) = CONCLUDED_UNVERIFIED"
proof -
  have over: "investigation_loop demo_rest lx spent_run = (Inr None, spent_run)"
    by (subst investigation_loop.simps) (simp add: spent_run_def MAX_INVESTIGATION_TURNS_def)
  have "iv_status (rn_inv (snd (final_attempt demo_rest lx spent_run))) = CONCLUDED_UNVERIFIED"
    by (simp add: final_attempt_def decide_action_def give_up_def bindM_apply returnM_def reads_def upd_inv_def upd_state_def
        world_def zoom_def demo_rest_def conclusion_stage_def) (simp add: spent_run_def new_investigation_def)
  with over show ?thesis by (simp add: run_investigation_loop_def bindM_apply)
qed

theorem conclusion_tells_history_witness:
  "\<exists>w. check_history (map fst (iv_actions (rn_inv (snd (run_investigation_loop demo_rest
      (make_ctx ''dev'' ''alice'' \<lparr>lc_provider = None, lc_model = None\<rparr> (read_tools @ write_tools)) spent_run))))) = Unchecked w"
proof -
  let ?lx = "make_ctx ''dev'' ''alice'' \<lparr>lc_provider = None, lc_model = None\<rparr> (read_tools @ write_tools)"
  obtain answer r' where run: "run_investigation_loop demo_rest ?lx spent_run = (answer, r')" by fastforce
  have "list_all (\<lambda>w. map_of (the (lx_tool_operation_types ?lx)) w = Some WRITE) (map fst VERIFICATION_TOOLS_BY_WRITE_TOOL)"
    by code_simp
  then have kw: "knows_writes ?lx"
    by (force simp: knows_writes_def list_all_iff make_ctx_def dest: map_of_SomeD)
  have st: "iv_status (rn_inv r') = CONCLUDED_UNVERIFIED" using spent_run_result [of ?lx] run by simp
  have "faithful (rn_inv spent_run)"
    by (simp add: faithful_def spent_run_def new_investigation_def tracked_def check_history_def VERIFICATION_TOOLS_BY_WRITE_TOOL_def)
  moreover have "\<not> is_concluded (rn_inv spent_run)" "iv_status (rn_inv spent_run) \<noteq> AWAITING_VERIFICATION"
    by (simp_all add: spent_run_def new_investigation_def is_concluded_def CONCLUDED_STAGES_def)
  moreover have "is_concluded (rn_inv r')" using st by (simp add: is_concluded_def CONCLUDED_STAGES_def)
  ultimately have "iv_status (rn_inv r') = (case check_history (map fst (iv_actions (rn_inv r'))) of
        NoWrite \<Rightarrow> CONCLUDED_NO_ACTION | Unchecked w \<Rightarrow> CONCLUDED_UNVERIFIED
      | Checked \<Rightarrow> if iv_last_verification (rn_inv r') = Some RESOLVED then CONCLUDED_VERIFIED else CONCLUDED_UNRESOLVED)"
    by (rule conclusion_tells_history [OF _ _ _ kw run])
  with st show ?thesis unfolding run
    by (cases "check_history (map fst (iv_actions (rn_inv r')))") (simp_all split: if_splits)
qed

section \<open>Checks before a conclusion is reported\<close>

lemma join_snoc: "xs \<noteq> [] \<Longrightarrow> join sep (xs @ [x]) = join sep xs @ sep @ x"
  by (induction xs rule: induct_list012) auto

lemma set_unseen: "set (unseen seen ns) = set ns - set seen"
  by (induction seen ns rule: unseen.induct) auto

lemma stage_after_acceptance: "conclusion_stage (accept_conclusion c iv) = conclusion_stage iv"
  by (simp add: conclusion_stage_def accept_conclusion_def)

lemma report_ends_with_note:
  assumes "verification_note iv = Some note" "note \<noteq> []" shows "\<exists>body. format_report iv c = body @ newline @ note"
  unfolding format_report_def assms(1) option.case if_not_P [OF assms(2)] append_assoc [symmetric]
  by (subst join_snoc) auto

lemma critique_keeps: "preserves (\<lambda>r. rn_inv r = iv) (self_critique_conclude env lx c)"
  unfolding self_critique_conclude_def decision_event_def log_decision_event_def best_effort_def
  by (intro preserve_intros preserves_world) simp_all

lemma accept_result:
  assumes "accept c r = (Inr (Some rp), r')"
  shows "rn_inv r' = accept_conclusion c (rn_inv r) \<and> rp = inv_reply (rn_inv r') (format_report (rn_inv r') c) ''ok''"
  using assms by (auto simp: accept_def bindM_apply upd_inv_def reads_def)

lemma review_accepts:
  assumes "review env lx c r = (Inr (Some rp), r')"
  shows "iv_pending_verification (rn_inv r) = None \<and> rn_inv r' = accept_conclusion c (rn_inv r) \<and>
     rp = inv_reply (rn_inv r') (format_report (rn_inv r') c) ''ok''"
proof (cases "iv_pending_verification (rn_inv r)")
  case None
  then obtain verdict s where crit: "self_critique_conclude env lx c r = (Inr verdict, s)" and "accept c s = (Inr (Some rp), r')"
    using assms
    by (auto simp: review_def reads_def bindM_apply returnM_def split: prod.splits sum.splits option.splits if_splits)
  moreover have "rn_inv s = rn_inv r" using preservesD [OF critique_keeps _ crit] by blast
  ultimately show ?thesis using None by (auto dest: accept_result)
next
  case (Some p)
  then show ?thesis using assms by (auto simp: review_def reads_def bindM_apply returnM_def split: prod.splits sum.splits)
qed

text \<open>
  C9. While turns are left, a conclusion is only reported after its checks: every CamelCase
  identifier it claims occurs in the transcript, the evidence or the problem text, up to case; no
  executed write still awaits its re-check; and the report of an investigation with a re-checked
  write ends with what that re-check found, whatever the planner wrote.
\<close>

theorem conclusion_checked:
  assumes "finalize_conclude env lx False c r = (Inr (Some rp), r')"
  shows "(\<forall>name \<in> set (camel_names (claimed_text c)). contains (lower name) (grounding_haystack (rn_inv r))) \<and>
     iv_pending_verification (rn_inv r) = None \<and> rp_status rp = ''ok'' \<and> rp_approval_card rp = None \<and>
     iv_status (rn_inv r') = (case iv_last_verification (rn_inv r) of
        None \<Rightarrow> CONCLUDED_NO_ACTION | Some RESOLVED \<Rightarrow> CONCLUDED_VERIFIED | Some UNRESOLVED \<Rightarrow> CONCLUDED_UNRESOLVED) \<and>
     (iv_last_verification (rn_inv r) = Some RESOLVED \<longrightarrow>
        (\<exists>body. rp_text rp = body @ newline @ ''Verification: independently re-checked afterward and confirmed resolved.'')) \<and>
     (iv_last_verification (rn_inv r) = Some UNRESOLVED \<longrightarrow>
        (\<exists>body. rp_text rp = body @ newline @ ''Verification: independently re-checked afterward '' @ em_dash @
           '' this did NOT actually resolve the condition; further action is likely still needed.''))"
proof -
  have grounded: "ungrounded_identifiers c (rn_inv r) = []" and rev: "review env lx c r = (Inr (Some rp), r')"
    using assms by (auto simp: finalize_conclude_def reads_def bindM_apply returnM_def split: prod.splits sum.splits if_splits)
  note a = review_accepts [OF rev]
  have said: "rp_text rp = format_report (rn_inv r') c" "rp_status rp = ''ok''" "rp_approval_card rp = None"
    using a by (simp_all add: inv_reply_def reply_def)
  have stage: "conclusion_stage (rn_inv r') = conclusion_stage (rn_inv r)" "iv_status (rn_inv r') = conclusion_stage (rn_inv r)"
    using a by (simp_all add: stage_after_acceptance) (simp add: accept_conclusion_def)
  have "verification_note (rn_inv r') = Some nt \<Longrightarrow> nt \<noteq> [] \<Longrightarrow> \<exists>body. rp_text rp = body @ newline @ nt" for nt
    unfolding said(1) by (rule report_ends_with_note)
  note ends = this [unfolded verification_note_def stage]
  show ?thesis
    using a said(2,3) stage(2) grounded ends
    by (auto simp: conclusion_stage_def ungrounded_identifiers_def filter_empty_conv set_unseen
        split: option.splits verification_outcome.splits)
qed

definition checked_run :: "nat agent_run" where
  \<comment> \<open>an investigation whose write was re-checked, with a turn left\<close>
  "checked_run =
     \<lparr>rn_state = new_conversation ''c'' ''dev'' [] ''alice'' 0,
      rn_inv = (new_investigation ''inv_1'' ''lag'')
        \<lparr>iv_turn_count := 4, iv_actions := [(''database.kill_session'', None), (''database.get_sessions'', None)],
         iv_last_verification := Some RESOLVED\<rparr>,
      rn_world = 0\<rparr>"

definition demo_loop_ctx :: loop_ctx where
  "demo_loop_ctx = make_ctx ''dev'' ''alice'' \<lparr>lc_provider = None, lc_model = None\<rparr> (read_tools @ write_tools)"

definition plain_conclusion :: conclusion where
  "plain_conclusion =
     \<lparr>cn_summary = ''The session is gone.'', cn_likely_root_cause = None, cn_confidence = Likely,
      cn_recommendation = None, cn_recommended_tool_call = None\<rparr>"

theorem conclusion_checked_witness:
  "\<exists>rp body. fst (finalize_conclude demo_rest demo_loop_ctx False plain_conclusion checked_run) = Inr (Some rp) \<and>
     rp_text rp = body @ newline @ ''Verification: independently re-checked afterward and confirmed resolved.''"
proof -
  have "camel_names (claimed_text plain_conclusion) = []" by code_simp
  then have "ungrounded_identifiers plain_conclusion (rn_inv checked_run) = []" by (simp add: ungrounded_identifiers_def)
  moreover have "iv_pending_verification (rn_inv checked_run) = None" by (simp add: checked_run_def new_investigation_def)
  ultimately obtain rp r' where "finalize_conclude demo_rest demo_loop_ctx False plain_conclusion checked_run = (Inr (Some rp), r')"
    by (simp add: finalize_conclude_def review_def self_critique_conclude_def accept_def demo_rest_def reads_def
        bindM_apply attempt_def world_def zoom_def returnM_def upd_inv_def)
  moreover have "iv_last_verification (rn_inv checked_run) = Some RESOLVED" by (simp add: checked_run_def)
  ultimately show ?thesis using conclusion_checked by fastforce
qed

end
