(* ===== verification/Agent_Chat.thy ===== *)
theory Agent_Chat
  imports Agent_Conversation Agent_Verification
begin

text \<open>
  What a conversation may submit. Whatever the planner, the classifier and the DBA say, every
  request the Agent submits names an environment in its target, a non-empty text that came from
  the DBA or the server registry unless the planner's own proposal put a value there, and a
  request that carries an approval id is the one the conversation's approval card was shown for. The contract of the
  outside world is the locale \<open>targeted_world\<close>, extended to the calls of a conversation by
  \<open>chat_outside\<close>; it is discharged for an arbitrary outside world whose submissions are logged.
\<close>

section \<open>Requests\<close>

definition env_text :: "json \<Rightarrow> bool" where
  "env_text v \<longleftrightarrow> (case v of JStr t \<Rightarrow> t \<noteq> [] | _ \<Rightarrow> False)"

definition names_environment :: "(json \<Rightarrow> bool) \<Rightarrow> ToolCallRequest \<Rightarrow> bool" where
  \<comment> \<open>by a non-empty text, or by a value the planner may put into a proposal\<close>
  "names_environment planned rq \<longleftrightarrow>
     (case map_of (rq_target rq) ''environment'' of None \<Rightarrow> False | Some v \<Rightarrow> env_text v \<or> planned v)"

lemma names_environment_iff: "names_environment planned rq \<longleftrightarrow>
    (\<exists>v. map_of (rq_target rq) ''environment'' = Some v \<and> ((\<exists>t. v = JStr t \<and> t \<noteq> []) \<or> planned v))"
proof -
  have "env_text v \<longleftrightarrow> (\<exists>t. v = JStr t \<and> t \<noteq> [])" for v by (cases v) (simp_all add: env_text_def)
  then show ?thesis by (simp add: names_environment_def split: option.split)
qed

definition context_text :: "ConversationState \<Rightarrow> bool" where
  "context_text st \<longleftrightarrow> (case map_of (cs_database_context st) ''environment'' of None \<Rightarrow> True | Some v \<Rightarrow> env_text v)"

definition pending_named :: "(json \<Rightarrow> bool) \<Rightarrow> ConversationState \<Rightarrow> bool" where
  "pending_named planned st \<longleftrightarrow> context_text st \<and>
     (\<forall>p. cs_pending_approval st = Some p \<longrightarrow> names_environment planned (pa_request p))"

definition plan_ok :: "(json \<Rightarrow> bool) \<Rightarrow> proposal \<Rightarrow> bool" where
  "plan_ok planned p \<longleftrightarrow> (\<forall>v. (''environment'', v) \<in> set (pr_target p) \<longrightarrow> planned v)"

definition proper :: "(json \<Rightarrow> bool) \<Rightarrow> PendingApproval option \<Rightarrow> ToolCallRequest \<Rightarrow> bool" where
  "proper planned p0 rq \<longleftrightarrow> names_environment planned rq \<and> (rq_approval_id rq = None \<or> (\<exists>p. p0 = Some p \<and> rq = approved_request p))"

lemma dict_merge_keeps: "map_of d k \<noteq> None \<Longrightarrow> map_of (dict_merge d e) k \<noteq> None"
  by (induction d e rule: dict_merge.induct) auto

lemma dict_merge_Some: "map_of (dict_merge d e) k = Some v \<Longrightarrow> map_of d k = Some v \<or> (k, v) \<in> set e"
proof (induction d e rule: dict_merge.induct)
  case (2 d k' v' e)
  from "2.prems" have "map_of (dict_merge (dict_set d k' v') e) k = Some v" by simp
  from "2.IH" [OF this] show ?case by (cases "k = k'") auto
qed simp

lemma request_named:
  assumes "has_environment st" and "pending_named planned st" and "plan_ok planned a"
  shows "names_environment planned (tool_call_request lx st iv a args i)"
proof -
  let ?t = "dict_merge (cs_database_context st) (pr_target a)"
  obtain v where v: "map_of ?t ''environment'' = Some v"
    using dict_merge_keeps [of "cs_database_context st" _ "pr_target a"] assms(1) by (force simp: has_environment_def)
  from dict_merge_Some [OF v] assms(2,3) have "env_text v \<or> planned v"
    by (auto simp: pending_named_def context_text_def plan_ok_def)
  with v show ?thesis by (simp add: names_environment_def tool_call_request_def)
qed

lemma request_unapproved: "rq_approval_id (tool_call_request lx st iv a args i) = None"
  by (simp add: tool_call_request_def)

lemma remember_keeps:
  "has_environment st \<Longrightarrow> has_environment (remember_database rq rs st)"
  "cs_pending_approval (remember_database rq rs st) = cs_pending_approval st"
  "context_text (remember_database rq rs st) = context_text st"
  by (auto simp: remember_database_def has_environment_def context_text_def split: option.split)

lemma preserves_bind_reads: "(\<And>r. P r \<Longrightarrow> preserves P (f (g r))) \<Longrightarrow> preserves P (bindM (reads g) f)"
  by (simp add: preserves_def bindM_def reads_def)

section \<open>Investigations\<close>

locale targeted_world = outside_world env W for env :: "'w agent_env" and W :: "'w \<Rightarrow> bool" +
  fixes planned :: "json \<Rightarrow> bool" and good :: "ToolCallRequest \<Rightarrow> bool"
  assumes keeps_submit: "good rq \<Longrightarrow> preserves W (http_submit env rq)"
    and planner_sets: "ae_decide env l i w = (Inr (ProposeToolCall p, es), w') \<Longrightarrow> plan_ok planned p"
    and good_own: "names_environment planned rq \<Longrightarrow> rq_approval_id rq = None \<Longrightarrow> good rq"
begin

definition held :: "(ConversationState \<Rightarrow> bool) \<Rightarrow> 'w agent_run \<Rightarrow> bool" where
  "held S r \<longleftrightarrow> W (rn_world r) \<and> S (rn_state r)"

lemma held_world: "preserves W m \<Longrightarrow> preserves (held S) (world m)"
  by (fastforce simp: preserves_def held_def world_def zoom_def split: prod.splits)

lemma held_inv: "preserves (held S) (upd_inv f)"
  by (simp add: preserves_def held_def upd_inv_def)

lemma held_state: "(\<And>st. S st \<Longrightarrow> S (f st)) \<Longrightarrow> preserves (held S) (upd_state f)"
  by (simp add: preserves_def held_def upd_state_def)

lemmas held_calls =
  held_world [OF keeps_decide] held_world [OF keeps_critique] held_world [OF keeps_new_id]
  held_world [OF keeps_tools] held_world [OF keeps_servers] held_world [OF keeps_create]
  held_world [OF keeps_update] held_world [OF keeps_memory] held_world [OF keeps_patterns]
  held_world [OF keeps_event]

lemmas held_intros = preserve_intros held_calls held_inv

lemma held_best_effort: "preserves W m \<Longrightarrow> preserves (held S) (best_effort m)"
  unfolding best_effort_def by (intro preserve_intros held_world)

lemma held_or_empty: "preserves W m \<Longrightarrow> preserves (held S) (or_empty m)"
  unfolding or_empty_def by (intro preserve_intros held_world)

lemma held_environment: "preserves (held S) (environment_for_instance env hint)"
  unfolding environment_for_instance_def find_matching_servers_def list_servers_cached_def Let_def
  by (intro preserve_intros held_or_empty keeps_servers)

lemma held_server_id: "preserves (held S) (context_server_id env)"
proof -
  have find: "preserves (held S) (canonical_server_id env s)" for s
    unfolding canonical_server_id_def find_matching_servers_def list_servers_cached_def Let_def
    by (intro preserve_intros held_or_empty keeps_servers)
  show ?thesis unfolding context_server_id_def
    by (rule preserves_bindM [OF preserves_reads]) (auto intro!: preserve_intros find split: option.split json.split)
qed

definition targeted :: "'w agent_run \<Rightarrow> bool" where
  "targeted = held (\<lambda>st. has_environment st \<and> pending_named planned st)"

lemma targeted_state:
  "(\<And>st. has_environment st \<Longrightarrow> has_environment (f st)) \<Longrightarrow> (\<And>st. cs_pending_approval (f st) = cs_pending_approval st) \<Longrightarrow>
   (\<And>st. context_text (f st) = context_text st) \<Longrightarrow> preserves targeted (upd_state f)"
  unfolding targeted_def by (rule held_state) (simp add: pending_named_def)

lemmas targeted_intros = preserve_intros
  held_calls [where S = "\<lambda>st. has_environment st \<and> pending_named planned st", folded targeted_def]
  held_inv [where S = "\<lambda>st. has_environment st \<and> pending_named planned st", folded targeted_def]

lemma targeted_event: "preserves targeted (decision_event env lx t p)"
  unfolding decision_event_def log_decision_event_def targeted_def by (intro preserve_intros held_best_effort keeps_event)

lemma targeted_relay:
  assumes "names_environment planned rq" shows "preserves targeted (relay lx a args rq rs)"
proof -
  have card: "preserves targeted (upd_state (\<lambda>st. st\<lparr>cs_pending_approval := Some \<lparr>pa_approval_id = i, pa_tool_id = t,
      pa_summary = m, pa_request = rq\<rparr>\<rparr>))" for i t m
    unfolding targeted_def using assms by (intro held_state) (simp add: has_environment_def pending_named_def context_text_def)
  have denied: "preserves targeted (relay_denied a rs)"
    by (rule preservesI) (auto simp: relay_denied_def Let_def targeted_def held_def)
  show ?thesis unfolding relay_def relay_approval_def Let_def
    by (cases "rs_status rs"; simp; intro targeted_intros targeted_state card denied remember_keeps)
qed

lemma targeted_submit:
  assumes "plan_ok planned a" shows "preserves targeted (submit_and_relay env lx a)"
proof -
  have failed: "preserves targeted (submit_failed env a e)" for e
    unfolding submit_failed_def by (intro targeted_intros)
  have send: "preserves targeted (send_proposal env lx a)"
    unfolding send_proposal_def Let_def
  proof (rule preserves_bindM, intro targeted_intros, rule preserves_bind_reads)
    fix i r assume "targeted r"
    then have st: "has_environment (rn_state r)" "pending_named planned (rn_state r)" by (simp_all add: targeted_def held_def)
    let ?args = "strip_unschematized_arguments a (lx_tool_allowed_arguments lx)"
    let ?rq = "tool_call_request lx (rn_state r) (rn_inv r) a ?args i"
    have "preserves targeted (world (http_submit env ?rq))"
      unfolding targeted_def by (intro held_world keeps_submit good_own request_unapproved request_named [OF st assms])
    then show "preserves targeted (bindM (attempt (world (http_submit env ?rq))) (\<lambda>outcome.
        case outcome of Inl exc \<Rightarrow> submit_failed env a exc | Inr response \<Rightarrow> relay lx a ?args ?rq response))"
      by (intro preserve_intros failed targeted_relay request_named [OF st assms])
  qed
  show ?thesis unfolding submit_and_relay_def by (intro targeted_intros send)
qed

lemma targeted_decide:
  "yields targeted (\<lambda>action. \<forall>p. action = ProposeToolCall p \<longrightarrow> plan_ok planned p) (decide_action env lx i)"
  unfolding decide_action_def
proof (rule yields_bind)
  have "preserves targeted (world (ae_decide env (lx_llm lx) i))" by (intro targeted_intros)
  then show "yields targeted (\<lambda>x. \<forall>p. fst x = ProposeToolCall p \<longrightarrow> plan_ok planned p) (world (ae_decide env (lx_llm lx) i))"
    by (auto simp: yields_def preserves_def world_def zoom_def intro: planner_sets split: prod.splits sum.splits)
  have "preserves targeted (upd_state (\<lambda>st. st\<lparr>cs_llm_fallback_notices := cs_llm_fallback_notices st @ es\<rparr>))" for es
    by (intro targeted_state) (simp_all add: has_environment_def context_text_def)
  then show "yields targeted (\<lambda>action. \<forall>p. action = ProposeToolCall p \<longrightarrow> plan_ok planned p)
      (case x of (action, events) \<Rightarrow>
         bindM (upd_state (\<lambda>st. st\<lparr>cs_llm_fallback_notices := cs_llm_fallback_notices st @ events\<rparr>)) (\<lambda>_. returnM action))"
    if "\<forall>p. fst x = ProposeToolCall p \<longrightarrow> plan_ok planned p" for x
    using that by (cases x) (auto intro!: yields_bind_preserves yields_returnM)
qed

lemma targeted_conclude: "preserves targeted (finalize_conclude env lx final c)"
  unfolding finalize_conclude_def review_def accept_def self_critique_conclude_def by (intro targeted_intros targeted_event)

lemma targeted_give_up: "preserves targeted give_up"
  unfolding give_up_def by (intro targeted_intros)

lemma targeted_playbook: "yields targeted (\<lambda>step. \<forall>p. step = Some p \<longrightarrow> plan_ok planned p) (next_playbook_action ids)"
  by (rule yieldsI)
     (auto simp: next_playbook_action_def targeted_def held_def plan_ok_def split: option.splits prod.splits)

lemma targeted_body: "yields targeted (\<lambda>_. True) (loop_body env lx)"
proof -
  have ask: "preserves targeted (ask_clarification q)" for q
    unfolding ask_clarification_def by (intro targeted_intros)
  have act: "preserves targeted (take_action env lx action)" if "\<forall>p. action = ProposeToolCall p \<longrightarrow> plan_ok planned p" for action
    unfolding take_action_def using that
    by (cases action; simp; intro targeted_intros ask targeted_submit targeted_conclude; simp)
  have own: "yields targeted (\<lambda>_. True) (bindM (decide_action env lx i) (\<lambda>action.
      bindM (upd_inv (\<lambda>iv. iv\<lparr>iv_last_message := []\<rparr>)) (\<lambda>_. take_action env lx action)))" for i
    by (rule yields_bind [OF targeted_decide]) (intro preserves_yields targeted_intros act)
  have step: "yields targeted (\<lambda>_. True) (bindM (upd_inv spend_turn) (\<lambda>_. submit_and_relay env lx p))" if "plan_ok planned p" for p
    by (intro preserves_yields targeted_intros targeted_submit that)
  have quit: "preserves targeted (bindM give_up (\<lambda>rp. returnM (Some rp)))" by (intro targeted_intros targeted_give_up)
  show ?thesis unfolding loop_body_def
    by (rule yields_bind_preserves, intro targeted_intros, rule yields_bind [OF targeted_playbook])
       (auto intro!: step yields_bind_reads preserves_yields [OF quit] own split: option.split)
qed

lemma targeted_run: "preserves targeted (run_investigation_loop env lx)"
proof -
  have loop: "preserves targeted (investigation_loop env lx)"
    using loop_yields [OF targeted_body] by (auto dest: yields_preserves)
  have "preserves targeted (case action of Conclude c \<Rightarrow> finalize_conclude env lx True c | _ \<Rightarrow> returnM None)" for action
    by (cases action) (auto intro: targeted_conclude preserve_intros)
  then show ?thesis unfolding run_investigation_loop_def final_attempt_def
    by (intro targeted_intros loop targeted_give_up yields_preserves [OF targeted_decide])
qed

lemma targeted_continue: "preserves targeted (continue_investigation env channel account)"
proof -
  have boot: "preserves targeted (bootstrap_investigation_memory env account)"
    unfolding bootstrap_investigation_memory_def create_investigation_def get_investigation_memory_def
      get_cross_server_patterns_def targeted_def
    by (intro held_intros held_server_id held_best_effort held_or_empty keeps_create keeps_memory keeps_patterns)
  have keep: "preserves targeted (persist env)"
    unfolding persist_def update_investigation_def targeted_def
    by (intro held_intros held_server_id held_best_effort keeps_update)
  show ?thesis unfolding continue_investigation_def by (intro targeted_intros boot keep targeted_run)
qed

end

section \<open>Conversations\<close>

lemma leads_state:
  "(\<And>c. P c \<Longrightarrow> leads (\<lambda>d. P d \<and> ch_state d = ch_state c) Q (f (ch_state c))) \<Longrightarrow> leads P Q (bindM chat_state f)"
  by (simp add: leads_def bindM_def chat_state_def)

lemma leads_weaken_pre: "leads P Q m \<Longrightarrow> (\<And>c. R c \<Longrightarrow> P c) \<Longrightarrow> leads R Q m"
  by (simp add: leads_def)

lemma preserves_chat_state [preserve_intros]: "preserves P chat_state"
  by (simp add: preserves_def chat_state_def)

lemma preserves_say [preserve_intros]:
  "preserves P (say t)" "preserves P (say_as s t)" "preserves P (approval_pending_still s t)"
  by (simp_all add: say_def say_as_def approval_pending_still_def preserve_intros)

locale chat_outside = targeted_world "cx_agent chat" W planned good
    for chat :: "'w chat_env" and W :: "'w \<Rightarrow> bool" and planned :: "json \<Rightarrow> bool" and good :: "ToolCallRequest \<Rightarrow> bool" +
  fixes p0 :: "PendingApproval option"
  assumes keeps_intent: "preserves W (ae_extract_intent (cx_agent chat) l m ds hs)"
    and keeps_decision: "preserves W (http_decide_approval (cx_agent chat) b i ca aa)"
    and keeps_describe: "preserves W (cx_describe chat)"
    and keeps_models: "preserves W (cx_list_models chat prov)"
    and keeps_catalog: "preserves W (http_server_catalog chat sid)"
    and keeps_refresh: "preserves W (http_refresh chat ca aa so)"
    and good_pending: "p0 = Some p \<Longrightarrow> names_environment planned (pa_request p) \<Longrightarrow> good (approved_request p)"
begin

definition chat_held :: "(ConversationState \<Rightarrow> bool) \<Rightarrow> 'w chat \<Rightarrow> bool" where
  "chat_held S c \<longleftrightarrow> W (ch_world c) \<and> S (ch_state c)"

definition chat_ok :: "'w chat \<Rightarrow> bool" where
  "chat_ok = chat_held (pending_named planned)"

definition fresh :: "ConversationState \<Rightarrow> bool" where
  \<comment> \<open>nothing was decided or shown yet\<close>
  "fresh st \<longleftrightarrow> pending_named planned st \<and> cs_pending_approval st = p0"

definition at_start :: "'w chat \<Rightarrow> bool" where
  "at_start = chat_held fresh"

lemma start_ok: "at_start c \<Longrightarrow> chat_ok c"
  by (simp add: at_start_def chat_ok_def chat_held_def fresh_def)

lemma chat_held_world: "preserves W m \<Longrightarrow> preserves (chat_held S) (chat_world m)"
  by (fastforce simp: preserves_def chat_held_def chat_world_def zoom_def split: prod.splits)

lemma chat_held_upd: "(\<And>st. S st \<Longrightarrow> S (f st)) \<Longrightarrow> preserves (chat_held S) (chat_upd f)"
  by (simp add: preserves_def chat_held_def chat_upd_def)

lemma chat_held_in:
  assumes "preserves (held S) m" and "\<And>st x. S (st\<lparr>cs_investigation := x\<rparr>) = S st"
  shows "preserves (chat_held S) (in_investigation m iv)"
proof (rule preservesI)
  fix c :: "'w chat" assume c: "chat_held S c"
  obtain r s where m: "m \<lparr>rn_state = ch_state c, rn_inv = iv, rn_world = ch_world c\<rparr> = (r, s)" by fastforce
  have "held S \<lparr>rn_state = ch_state c, rn_inv = iv, rn_world = ch_world c\<rparr>" using c by (simp add: held_def chat_held_def)
  from preservesD [OF assms(1) this m] show "chat_held S (snd (in_investigation m iv c))"
    by (simp add: in_investigation_def m chat_held_def held_def assms(2))
qed

lemma context_text_upd [simp]:
  "context_text (st\<lparr>cs_investigation := x\<rparr>) = context_text st"
  "context_text (st\<lparr>cs_llm_fallback_notices := ns\<rparr>) = context_text st"
  "context_text (st\<lparr>cs_llm_provider := a, cs_llm_model := b\<rparr>) = context_text st"
  "context_text (st\<lparr>cs_updated_at := t\<rparr>) = context_text st"
  "context_text (st\<lparr>cs_pending_approval := q\<rparr>) = context_text st"
  by (simp_all add: context_text_def)

lemma pending_named_upd [simp]:
  "pending_named pl (st\<lparr>cs_investigation := x\<rparr>) = pending_named pl st"
  "has_environment (st\<lparr>cs_investigation := x\<rparr>) = has_environment st"
  "fresh (st\<lparr>cs_investigation := x\<rparr>) = fresh st"
  "pending_named pl (st\<lparr>cs_llm_fallback_notices := ns\<rparr>) = pending_named pl st"
  "fresh (st\<lparr>cs_llm_fallback_notices := ns\<rparr>) = fresh st"
  "has_environment (st\<lparr>cs_llm_fallback_notices := ns\<rparr>) = has_environment st"
  "pending_named pl (st\<lparr>cs_llm_provider := a, cs_llm_model := b\<rparr>) = pending_named pl st"
  "fresh (st\<lparr>cs_updated_at := t\<rparr>) = fresh st"
  by (simp_all add: pending_named_def has_environment_def fresh_def)

lemmas chat_calls = chat_held_world [OF keeps_intent] chat_held_world [OF keeps_describe] chat_held_world [OF keeps_models]
  chat_held_world [OF keeps_catalog] chat_held_world [OF keeps_refresh] chat_held_world [OF keeps_servers]
  chat_held_world [OF keeps_new_id] chat_held_world [OF keeps_event]

lemmas chat_intros = preserve_intros chat_calls

lemma continue_leads:
  "leads (\<lambda>c. chat_ok c \<and> has_environment (ch_state c)) chat_ok (continue_with chat channel account iv)"
proof -
  let ?S = "\<lambda>st. has_environment st \<and> pending_named planned st"
  have "preserves (chat_held ?S) (continue_with chat channel account iv)"
    unfolding continue_with_def using targeted_continue [unfolded targeted_def] by (intro chat_held_in) simp_all
  then show ?thesis by (auto simp: leads_def preserves_def chat_held_def chat_ok_def)
qed

lemma held_client: "preserves W (client_decide (cx_agent chat) b i channel account)"
  unfolding client_decide_def by (intro preserve_intros keeps_decision)

lemma resubmit_leads:
  assumes "p0 = Some p" and "names_environment planned (pa_request p)"
  shows "preserves chat_ok (resubmit chat p)"
proof -
  have noted: "preserves chat_ok (chat_upd (note_action t r))" for t r
    unfolding chat_ok_def by (rule chat_held_upd) (simp add: note_action_def)
  have clear: "preserves chat_ok (chat_upd (\<lambda>st. st\<lparr>cs_pending_approval := None\<rparr>))"
    unfolding chat_ok_def by (rule chat_held_upd) (simp add: pending_named_def)
  have send: "preserves chat_ok (chat_world (http_submit (cx_agent chat) (approved_request p)))"
    unfolding chat_ok_def by (intro chat_held_world keeps_submit good_pending assms)
  show ?thesis unfolding resubmit_def by (intro preserve_intros noted clear send)
qed

lemma decide_leads: "leads at_start chat_ok (decide_pending chat approve channel account)"
  unfolding decide_pending_def
proof (rule leads_state)
  fix c assume c: "at_start c"
  have clear: "preserves chat_ok (chat_upd (\<lambda>st. st\<lparr>cs_pending_approval := None\<rparr>))"
    unfolding chat_ok_def by (rule chat_held_upd) (simp add: pending_named_def)
  have ask: "preserves chat_ok (chat_world (client_decide (cx_agent chat) b i channel account))" for b i
    unfolding chat_ok_def by (intro chat_held_world held_client)
  have on: "preserves chat_ok (decide_on chat approve p channel account)" if "cs_pending_approval (ch_state c) = Some p" for p
  proof -
    have "p0 = Some p" "names_environment planned (pa_request p)"
      using c that by (auto simp: at_start_def chat_held_def fresh_def pending_named_def)
    then show ?thesis unfolding decide_on_def by (intro preserve_intros clear ask resubmit_leads)
  qed
  show "leads (\<lambda>d. at_start d \<and> ch_state d = ch_state c) chat_ok (case cs_pending_approval (ch_state c) of
       None \<Rightarrow> say_as ''error'' ''There is no pending approval on this conversation.''
     | Some p \<Rightarrow> decide_on chat approve p channel account)"
    by (rule leads_weaken [of chat_ok]) (auto intro: on preserve_intros start_ok split: option.split)
qed

lemma ok_plain:
  "preserves chat_ok handle_playbooks_command" "preserves chat_ok (handle_servers_command chat)"
  "preserves chat_ok handle_approvers_command" "preserves chat_ok (handle_catalog_command chat sid)"
  unfolding handle_playbooks_command_def handle_servers_command_def handle_approvers_command_def handle_catalog_command_def chat_ok_def
  by (intro chat_intros)+

lemma ok_discover: "preserves chat_ok (handle_discover_command chat sid channel account)"
proof -
  have "preserves W (client_refresh chat channel account sid)"
    unfolding client_refresh_def by (intro preserve_intros keeps_refresh)
  then show ?thesis unfolding handle_discover_command_def chat_ok_def Let_def
    by (intro chat_intros chat_held_world)
qed

lemma ok_model: "preserves chat_ok (handle_model_command chat t)"
proof -
  have switch: "preserves chat_ok (switch_model chat p m)" for p m
    unfolding switch_model_def chat_ok_def by (intro chat_intros chat_held_upd) simp
  have show_it: "preserves chat_ok (bindM chat_state f)" if "\<And>st. preserves chat_ok (f st)" for f :: "_ \<Rightarrow> ('w, AgentReply) chat_op"
    by (intro preserve_intros that)
  have describe: "preserves chat_ok (bindM (chat_world (cx_describe chat)) say)"
    unfolding chat_ok_def by (intro chat_intros)
  show ?thesis unfolding handle_model_command_def Let_def
    by (auto intro!: preserve_intros describe show_it switch split: list.split prod.split)
qed

lemma command_leads: "leads at_start chat_ok (handle_command_if_any chat m channel account)"
proof -
  have decide: "leads at_start chat_ok (bindM (decide_by_id chat b i channel account) (\<lambda>r. returnM (Some r)))" for b i
  proof (rule leads_bind [of _ chat_ok])
    show "leads at_start chat_ok (decide_by_id chat b i channel account)"
      unfolding decide_by_id_def
    proof (rule leads_state)
      fix c assume "at_start c"
      have "leads at_start chat_ok (if q then say_as s t else decide_pending chat b channel account)" for q s t
        using decide_leads by (auto intro: leads_weaken [OF preserves_say(2)] start_ok)
      then show "leads (\<lambda>d. at_start d \<and> ch_state d = ch_state c) chat_ok
         (if case cs_pending_approval (ch_state c) of None \<Rightarrow> False | Some p \<Rightarrow> pa_approval_id p \<noteq> Some i
          then say_as ''error'' ''That approval id doesn't match the pending action on this conversation.''
          else decide_pending chat b channel account)"
        by (rule leads_weaken_pre) simp
    qed
  qed (auto intro: leads_preserves preserve_intros)
  have plain: "leads at_start chat_ok x" if "preserves chat_ok x" for x :: "('w, AgentReply option) chat_op"
    by (rule leads_weaken [OF that start_ok])
  show ?thesis unfolding handle_command_if_any_def Let_def
    by (auto intro!: decide plain preserve_intros ok_plain ok_discover ok_model)
qed

lemma command_none: "handle_command_if_any chat m channel account c = (Inr None, c') \<Longrightarrow> c' = c"
  by (auto simp: handle_command_if_any_def Let_def bindM_eq_Inr_iff split: if_splits)

lemma command_then:
  assumes "leads at_start chat_ok (k :: ('w, AgentReply) chat_op)"
  shows "leads at_start chat_ok (bindM (handle_command_if_any chat m channel account)
     (\<lambda>answer. case answer of Some r \<Rightarrow> returnM r | None \<Rightarrow> k))"
proof -
  { fix c assume c: "at_start c"
    obtain x c' where x: "handle_command_if_any chat m channel account c = (x, c')" by fastforce
    have "chat_ok c'" using command_leads c x unfolding leads_def by (metis snd_conv)
    moreover have "x = Inr None \<Longrightarrow> chat_ok (snd (k c'))" using command_none x c assms unfolding leads_def by metis
    ultimately have "chat_ok (snd (bindM (handle_command_if_any chat m channel account)
        (\<lambda>answer. case answer of Some r \<Rightarrow> returnM r | None \<Rightarrow> k) c))"
      by (auto simp: bindM_def x split: sum.split option.split) }
  then show ?thesis by (simp add: leads_def)
qed

lemma meta_leads: "leads at_start chat_ok (handle_meta_command chat m hint channel account)"
  unfolding handle_meta_command_def
  by (cases m) (auto intro!: decide_leads leads_weaken [OF _ start_ok] preserve_intros ok_plain ok_discover ok_model)

lemma chat_held_notices:
  "(\<And>st ns. S (st\<lparr>cs_llm_fallback_notices := ns\<rparr>) = S st) \<Longrightarrow> preserves (chat_held S) (classify chat m)"
  unfolding classify_def known_database_names_def known_server_hints_def chat_servers_def
  by (intro chat_intros chat_held_upd) simp

lemma ok_begin: "preserves chat_ok (begin_investigation chat problem)"
  unfolding begin_investigation_def chat_ok_def Let_def
  by (intro chat_intros chat_held_upd) (simp add: start_investigation_def)

lemma map_of_filter_out: "map_of (filter (\<lambda>kv. fst kv \<noteq> k) xs) k' = (if k' = k then None else map_of xs k')"
  by (induction xs) auto

lemma opt_or_nonempty [simp]: "nonempty x \<Longrightarrow> opt_or x [] \<noteq> []"
  by (cases x) (auto simp: nonempty_def opt_or_def)

lemma environment_answer_text: "environment_answer b m = Some e \<Longrightarrow> e \<noteq> []"
  by (induction b m rule: environment_answer.induct) (auto split: option.splits if_splits)

lemma ctx_keeps [simp]:
  "k \<noteq> ''environment'' \<or> v \<noteq> [] \<Longrightarrow> pending_named pl st \<Longrightarrow> pending_named pl (ctx_set k v st)"
  "pending_named pl st \<Longrightarrow> pending_named pl (ctx_pop k st)"
  "k \<noteq> ''environment'' \<or> v \<noteq> [] \<Longrightarrow> fresh st \<Longrightarrow> fresh (ctx_set k v st)"
  "has_environment (ctx_set ''environment'' v st)"
  by (auto simp: ctx_set_def ctx_pop_def has_environment_def pending_named_def fresh_def context_text_def env_text_def
      map_of_filter_out split: option.splits if_splits)

lemma ok_collect: "preserves chat_ok (collect_target chat iv intent)"
proof -
  have infer: "preserves chat_ok (infer_environment chat iv h b)" for h b
    unfolding infer_environment_def chat_ok_def
    by (intro chat_intros chat_held_in held_environment chat_held_upd) simp_all
  show ?thesis unfolding collect_target_def Let_def
    by (intro preserve_intros infer; unfold chat_ok_def; rule chat_held_upd)
       (simp_all add: set_hint_def switch_instance_def)
qed

lemma fresh_leads: "leads at_start chat_ok (start_fresh_investigation chat intent m channel account)"
proof -
  have go: "leads chat_ok chat_ok (investigate_intent chat intent m channel account)"
    unfolding investigate_intent_def
  proof (rule leads_step [OF ok_begin], rule leads_step [OF ok_collect], rule leads_state)
    fix c :: "'w chat" and iv
    show "leads (\<lambda>d. chat_ok d \<and> ch_state d = ch_state c) chat_ok
       (if \<not> has_environment (ch_state c) then say_as ''clarification'' ASK_ENVIRONMENT
        else continue_with chat channel account iv)"
      by (auto intro: leads_weaken_pre [OF continue_leads] leads_weaken [OF preserves_say(2)])
  qed simp_all
  show ?thesis unfolding start_fresh_investigation_def
  proof (rule leads_state)
    fix c :: "'w chat"
    have "leads at_start chat_ok (case x of Some command \<Rightarrow> handle_meta_command chat command h channel account
        | None \<Rightarrow> if b1 then say HELP_TEXT else if b2 then say_as s t else investigate_intent chat intent m channel account)"
      for x h b1 b2 s t
      by (auto intro!: meta_leads leads_weaken [OF preserves_say(1) start_ok] leads_weaken [OF preserves_say(2) start_ok]
          leads_weaken_pre [OF go start_ok] split: option.split)
    then show "leads (\<lambda>d. at_start d \<and> ch_state d = ch_state c) chat_ok
      (let no_pending = cs_pending_approval (ch_state c) = None; decision = is_decision (ie_meta_command intent)
       in case if decision \<and> no_pending then None else ie_meta_command intent of
            None \<Rightarrow> if ie_is_greeting_or_chitchat intent then say HELP_TEXT
              else if \<not> (ie_is_dba_task intent \<or> decision \<and> no_pending)
              then say_as ''clarification'' (''I can help with database health, performance, and operational investigations. '' @
                   ''Could you tell me more about what you'd like me to check?'')
              else investigate_intent chat intent m channel account
          | Some command \<Rightarrow> handle_meta_command chat command (ie_instance_hint intent) channel account)"
      unfolding Let_def by (rule leads_weaken_pre) simp
  qed
qed

abbreviation located :: "ConversationState \<Rightarrow> bool" where
  "located st \<equiv> fresh st \<and> has_environment st"

lemma resume_located: "leads (chat_held located) chat_ok (resume_investigation chat iv m channel account)"
proof -
  have ok: "chat_held located c \<Longrightarrow> chat_ok c \<and> has_environment (ch_state c)" for c
    by (simp add: chat_held_def chat_ok_def fresh_def)
  have shift: "preserves (chat_held located) (classify_potential_topic_shift chat m)"
    unfolding classify_potential_topic_shift_def by (intro preserve_intros chat_held_notices) simp
  have old: "preserves (chat_held located) (chat_upd (\<lambda>st. st\<lparr>cs_investigation := x\<rparr>))" for x
    by (rule chat_held_upd) simp
  have anew: "leads (chat_held located) chat_ok (start_fresh_investigation chat intent m channel account)" for intent
    by (rule leads_weaken_pre [OF fresh_leads]) (simp add: at_start_def chat_held_def)
  show ?thesis unfolding resume_investigation_def
    by (rule leads_step [OF preserves_chat_state], rule leads_step, intro preserve_intros shift)
       (auto intro!: leads_step [OF old] anew leads_weaken_pre [OF continue_leads ok] dest: ok split: option.split)
qed

lemma resume_leads: "leads at_start chat_ok (resume chat iv m channel account)"
  unfolding resume_def
proof (rule leads_state)
  fix c assume c: "at_start c"
  have here: "leads (\<lambda>d. at_start d \<and> ch_state d = ch_state c) chat_ok (resume_investigation chat iv m channel account)"
    if "has_environment (ch_state c)"
    by (rule leads_weaken_pre [OF resume_located]) (use that in \<open>auto simp: at_start_def chat_held_def\<close>)
  have set_it: "leads at_start (chat_held located) (chat_upd (ctx_set ''environment'' e))" if "e \<noteq> []" for e
    using that by (simp add: leads_def chat_upd_def at_start_def chat_held_def)
  have there: "leads at_start chat_ok (bindM (chat_upd (ctx_set ''environment'' e)) (\<lambda>_. resume_investigation chat iv m channel account))"
    if "e \<noteq> []" for e
    by (rule leads_bind [OF set_it [OF that] resume_located]) (simp add: chat_held_def chat_ok_def fresh_def)
  show "leads (\<lambda>d. at_start d \<and> ch_state d = ch_state c) chat_ok
      (if has_environment (ch_state c) then resume_investigation chat iv m channel account
       else case environment_answer False m of None \<Rightarrow> say_as ''clarification'' ASK_ENVIRONMENT
         | Some e \<Rightarrow> bindM (chat_upd (ctx_set ''environment'' e)) (\<lambda>_. resume_investigation chat iv m channel account))"
    using here by (auto intro: leads_weaken_pre [OF there [OF environment_answer_text]] leads_weaken [OF preserves_say(2)] start_ok
      split: option.split)
qed

lemma answer_leads: "leads at_start chat_ok (answer_message chat raw channel account)"
proof -
  let ?touch = "\<lambda>c. (Inr (), c\<lparr>ch_state := touch (ae_now (cx_agent chat) (ch_world c)) (ch_state c)\<rparr>)"
  have touch: "preserves at_start ?touch"
    by (auto simp: preserves_def at_start_def chat_held_def touch_def)
  have new: "leads at_start chat_ok (bindM (classify chat m) (\<lambda>intent. start_fresh_investigation chat intent m channel account))" for m
    by (rule leads_step [OF _ fresh_leads start_ok]) (simp add: at_start_def chat_held_notices)
  have go: "leads at_start chat_ok (bindM chat_state (\<lambda>st. case cs_investigation st of
       Some iv \<Rightarrow>
         if \<not> is_concluded iv then resume chat iv m channel account
         else bindM (classify chat m) (\<lambda>intent. start_fresh_investigation chat intent m channel account)
     | None \<Rightarrow> bindM (classify chat m) (\<lambda>intent. start_fresh_investigation chat intent m channel account)))" for m
    by (rule leads_step [OF preserves_chat_state]) (auto intro: resume_leads new start_ok split: option.split)
  show ?thesis unfolding answer_message_def Let_def
    by (rule leads_step [OF touch command_then start_ok]) (rule go)
qed

lemma message_leads: "leads at_start chat_ok (chat_message chat i m channel account)"
proof -
  have clear: "preserves at_start clear_notices" "preserves chat_ok clear_notices"
    unfolding clear_notices_def at_start_def chat_ok_def by (rule chat_held_upd, simp)+
  have log: "preserves chat_ok (log_fallbacks chat i es)" for es
    unfolding chat_ok_def
    by (induction es) (auto intro!: preserve_intros chat_held_world [OF keeps_event] simp del: returnM_apply)
  have rest: "preserves chat_ok (bindM chat_state (\<lambda>st. bindM (log_fallbacks chat i (cs_llm_fallback_notices st)) (\<lambda>_.
      bindM clear_notices (\<lambda>_. returnM (with_notice (fallback_notice_text (cs_llm_fallback_notices st)) a)))))" for a
    by (intro preserve_intros log clear)
  show ?thesis unfolding chat_message_def
    by (rule leads_step [OF clear(1) _ start_ok], rule leads_bind [OF answer_leads leads_preserves [OF rest]])
qed

end

section \<open>A world that logs its submissions\<close>

type_synonym 'w logged = "'w \<times> ToolCallRequest list"

definition unlogged :: "('w, exn, 'a) comp \<Rightarrow> ('w logged, exn, 'a) comp" where
  "unlogged = zoom fst (\<lambda>w s. (w, snd s))"

definition log_submit :: "'w agent_env \<Rightarrow> ToolCallRequest \<Rightarrow> ('w logged, exn, ToolCallResponse) comp" where
  "log_submit a rq s = (case http_submit a rq (fst s) of (r, w) \<Rightarrow> (r, (w, snd s @ [rq])))"

definition logged_agent :: "'w agent_env \<Rightarrow> 'w logged agent_env" where
  "logged_agent a =
     \<lparr>ae_decide = (\<lambda>l i. unlogged (ae_decide a l i)), ae_critique = (\<lambda>l i. unlogged (ae_critique a l i)),
      ae_extract_intent = (\<lambda>l m d h. unlogged (ae_extract_intent a l m d h)), ae_llm_name = ae_llm_name a,
      ae_exn_text = ae_exn_text a, ae_new_id = (\<lambda>p. unlogged (ae_new_id a p)), http_submit = log_submit a,
      http_tools = (\<lambda>c i. unlogged (http_tools a c i)), http_servers = unlogged (http_servers a),
      http_decide_approval = (\<lambda>b i c j. unlogged (http_decide_approval a b i c j)),
      http_create_investigation = (\<lambda>r. unlogged (http_create_investigation a r)),
      http_update_investigation = (\<lambda>i r. unlogged (http_update_investigation a i r)),
      http_memory = (\<lambda>k x n. unlogged (http_memory a k x n)), http_patterns = (\<lambda>p e x n. unlogged (http_patterns a p e x n)),
      http_decision_event = (\<lambda>r. unlogged (http_decision_event a r)), ae_now = (\<lambda>s. ae_now a (fst s)),
      self_critique_enabled = self_critique_enabled a, investigation_memory_lookback = investigation_memory_lookback a,
      llm_fast_model = llm_fast_model a, llm_strong_model = llm_strong_model a\<rparr>"

definition logged_chat :: "'w chat_env \<Rightarrow> 'w logged chat_env" where
  "logged_chat e =
     \<lparr>cx_agent = logged_agent (cx_agent e), cx_registry = cx_registry e, cx_describe = unlogged (cx_describe e),
      cx_list_models = (\<lambda>p. unlogged (cx_list_models e p)), http_server_catalog = (\<lambda>i. unlogged (http_server_catalog e i)),
      http_refresh = (\<lambda>c i s. unlogged (http_refresh e c i s))\<rparr>"

definition log_extends :: "(ToolCallRequest \<Rightarrow> bool) \<Rightarrow> ToolCallRequest list \<Rightarrow> 'w logged \<Rightarrow> bool" where
  "log_extends good base s \<longleftrightarrow> (\<exists>sent. snd s = base @ sent \<and> list_all good sent)"

lemma unlogged_keeps: "preserves (log_extends good base) (unlogged m)"
  by (auto simp: preserves_def log_extends_def unlogged_def zoom_def split: prod.splits)

lemma log_submit_keeps: "good rq \<Longrightarrow> preserves (log_extends good base) (log_submit a rq)"
  by (auto simp: preserves_def log_extends_def log_submit_def split: prod.splits)

definition planner_sets :: "'w chat_env \<Rightarrow> json \<Rightarrow> bool" where
  \<comment> \<open>the planner can propose a call whose own target gives the environment this value\<close>
  "planner_sets e v \<longleftrightarrow> (\<exists>l i w p es w'. ae_decide (cx_agent e) l i w = (Inr (ProposeToolCall p, es), w') \<and>
     (''environment'', v) \<in> set (pr_target p))"

lemma unlogged_Inr: "unlogged m s = (Inr x, s') \<Longrightarrow> \<exists>w w'. m w = (Inr x, w')"
  by (auto simp: unlogged_def zoom_def split: prod.splits)

interpretation logged: chat_outside "logged_chat e" "log_extends (proper (planner_sets e) p0) base" "planner_sets e"
    "proper (planner_sets e) p0" p0
proof unfold_locales
  fix l i w p es w' assume "ae_decide (cx_agent (logged_chat e)) l i w = (Inr (ProposeToolCall p, es), w')"
  then have "unlogged (ae_decide (cx_agent e) l i) w = (Inr (ProposeToolCall p, es), w')"
    by (simp add: logged_chat_def logged_agent_def)
  then show "plan_ok (planner_sets e) p" unfolding plan_ok_def planner_sets_def by (blast dest: unlogged_Inr)
qed (simp_all add: logged_chat_def logged_agent_def unlogged_keeps log_submit_keeps proper_def approved_request_def
       names_environment_def)

section \<open>Guarantees\<close>

inductive chat_reachable :: "'w chat_env \<Rightarrow> 'w logged agent_memory \<Rightarrow> bool" for e where
  chat_empty: "am_conversations s = [] \<Longrightarrow> chat_reachable e s"
| chat_message: "chat_reachable e s \<Longrightarrow>
    chat_reachable e (snd (handle_message (logged_chat e) channel account i thread m s))"
| chat_decision: "chat_reachable e s \<Longrightarrow>
    chat_reachable e (snd (handle_approval_decision (logged_chat e) i approve channel account s))"

definition cards_named :: "(json \<Rightarrow> bool) \<Rightarrow> 'w agent_memory \<Rightarrow> bool" where
  "cards_named planned s \<longleftrightarrow> (\<forall>i st. map_of (am_conversations s) i = Some st \<longrightarrow> pending_named planned st)"

definition card_of :: "'w agent_memory \<Rightarrow> string \<Rightarrow> PendingApproval option" where
  "card_of s i = (case map_of (am_conversations s) i of None \<Rightarrow> None | Some st \<Rightarrow> cs_pending_approval st)"

lemma in_conversation_step:
  fixes s :: "'w logged agent_memory"
  assumes "cards_named (planner_sets e) s" and "in_conversation (logged_chat e) i channel thread account m s = (r, s')"
    and "\<And>base. leads (logged.at_start e (card_of s i) base) (logged.chat_ok e (card_of s i) base) m"
  shows "cards_named (planner_sets e) s' \<and> (\<exists>sent. snd (am_world s') = snd (am_world s) @ sent \<and> list_all (proper (planner_sets e) (card_of s i)) sent)"
proof -
  obtain st cs where g: "get_or_create (am_conversations s) i channel thread account
      (ae_now (cx_agent (logged_chat e)) (am_world s)) = (st, cs)" by fastforce
  have st: "cs_pending_approval st = card_of s i" "pending_named (planner_sets e) st"
    using g assms(1) by (auto simp: get_or_create_def card_of_def cards_named_def new_conversation_def pending_named_def context_text_def
        Let_def split: option.splits)
  let ?c = "\<lparr>ch_state = st, ch_world = am_world s\<rparr>"
  have start: "logged.at_start e (card_of s i) (snd (am_world s)) ?c"
    using st by (simp add: logged.at_start_def logged.chat_held_def logged.fresh_def log_extends_def)
  obtain x c where x: "m ?c = (x, c)" by fastforce
  have "logged.chat_ok e (card_of s i) (snd (am_world s)) c"
    using assms(3) start x unfolding leads_def by (metis snd_conv)
  moreover have "s' = \<lparr>am_conversations = dict_set cs i (ch_state c), am_world = ch_world c\<rparr>"
    using assms(2) by (simp add: in_conversation_def g x)
  moreover have "map_of cs j = Some st' \<Longrightarrow> j \<noteq> i \<Longrightarrow> map_of (am_conversations s) j = Some st'" for j st'
    using get_or_create_creates [OF g] by simp
  ultimately show ?thesis using assms(1)
    by (auto simp: cards_named_def logged.chat_ok_def logged.chat_held_def log_extends_def)
qed

lemma message_step:
  "cards_named (planner_sets e) s \<Longrightarrow> handle_message (logged_chat e) channel account i thread m s = (r, s') \<Longrightarrow>
   cards_named (planner_sets e) s' \<and> (\<exists>sent. snd (am_world s') = snd (am_world s) @ sent \<and> list_all (proper (planner_sets e) (card_of s i)) sent)"
  unfolding handle_message_def by (rule in_conversation_step [OF _ _ logged.message_leads])

lemma decision_step:
  "cards_named (planner_sets e) s \<Longrightarrow> handle_approval_decision (logged_chat e) i approve channel account s = (r, s') \<Longrightarrow>
   cards_named (planner_sets e) s' \<and> (\<exists>sent. snd (am_world s') = snd (am_world s) @ sent \<and> list_all (proper (planner_sets e) (card_of s i)) sent)"
  unfolding handle_approval_decision_def by (rule in_conversation_step [OF _ _ logged.decide_leads])

lemma reachable_cards: "chat_reachable e s \<Longrightarrow> cards_named (planner_sets e) s"
proof (induction rule: chat_reachable.induct)
  case (chat_empty s)
  then show ?case by (simp add: cards_named_def)
next
  case (chat_message s channel account i thread m)
  then show ?case using message_step by (metis prod.collapse)
next
  case (chat_decision s i approve channel account)
  then show ?case using decision_step by (metis prod.collapse)
qed

text \<open>
  C7. The Agent never guesses an environment and never replays an approval of its own making: in
  any state its conversations can reach, whatever the planner, the classifier, the Gateway and the
  DBA answer, every request that handling a message or a decision submits has an environment in
  its target, and its value is a non-empty text unless it is one the planner itself put into the
  target of a proposal; and a request carries an approval id only when it is, to the letter, the
  request the conversation's pending approval card was shown for, with that card's id.
\<close>

theorem submissions_targeted:
  assumes "chat_reachable e s"
    and "handle_message (logged_chat e) channel account i thread message s = (r, s') \<or>
         handle_approval_decision (logged_chat e) i approve channel account s = (r', s')"
  shows "\<exists>sent. snd (am_world s') = snd (am_world s) @ sent \<and>
     (\<forall>rq \<in> set sent.
        (\<exists>v. map_of (rq_target rq) ''environment'' = Some v \<and> ((\<exists>t. v = JStr t \<and> t \<noteq> []) \<or> planner_sets e v)) \<and>
        (rq_approval_id rq = None \<or>
         (\<exists>st p. map_of (am_conversations s) i = Some st \<and> cs_pending_approval st = Some p \<and> rq = approved_request p)))"
proof -
  have "cards_named (planner_sets e) s" by (rule reachable_cards [OF assms(1)])
  with message_step decision_step assms(2)
  obtain sent where "snd (am_world s') = snd (am_world s) @ sent" "list_all (proper (planner_sets e) (card_of s i)) sent" by metis
  then show ?thesis
    by (intro exI [of _ sent]) (auto simp: list_all_iff proper_def names_environment_iff card_of_def split: option.splits)
qed

definition demo_chat :: "nat chat_env" where
  "demo_chat =
     \<lparr>cx_agent = demo_rest, cx_registry = \<lparr>rg_settings = default_settings, rg_allow_user_model_selection = True,
        rg_cache = [], rg_fixed = None\<rparr>,
      cx_describe = returnM ''none'', cx_list_models = (\<lambda>p. returnM []), http_server_catalog = (\<lambda>i. returnM None),
      http_refresh = (\<lambda>c a s. returnM (404, []))\<rparr>"

definition no_conversations :: "nat logged agent_memory" where
  "no_conversations = \<lparr>am_conversations = [], am_world = (0, [])\<rparr>"

definition carding_chat :: "nat chat_env" where
  \<comment> \<open>the DBA names an environment, the planner proposes a kill, the Gateway asks for an approval
     and executes under it\<close>
  "carding_chat = demo_chat\<lparr>cx_agent := demo_rest
     \<lparr>ae_extract_intent := (\<lambda>l m d h. returnM (\<lparr>ie_is_dba_task = True, ie_is_greeting_or_chitchat = False, ie_database_hint = None,
        ie_environment_hint = Some ''uat'', ie_instance_hint = None, ie_meta_command = None, ie_problem_summary = m\<rparr>, [])),
      http_submit := (\<lambda>rq. returnM
        \<lparr>rs_status = (if rq_approval_id rq = None then TC_APPROVAL_REQUIRED else TC_EXECUTED), rs_execution_id = None,
         rs_approval_id = Some ''a1'', rs_result = None, rs_failure_code = None, rs_message = ''approval'', rs_risk = None,
         rs_policy_decision = None\<rparr>),
      http_decide_approval := (\<lambda>b i c a. returnM (200, [(''status'', JStr ''APPROVED'')]))\<rparr>\<rparr>"

definition carded :: "nat logged agent_memory" where
  "carded = snd (handle_message (logged_chat carding_chat) ''dev'' ''alice'' ''c1'' [] ''x'' no_conversations)"

definition then_decided :: "nat logged agent_memory \<Rightarrow> nat logged agent_memory" where
  "then_decided s = snd (handle_approval_decision (logged_chat carding_chat) ''c1'' True ''dev'' ''bob'' s)"

definition sent_calls :: "nat logged agent_memory \<Rightarrow> (jdict \<times> string option) list" where
  "sent_calls s = map (\<lambda>rq. (rq_target rq, rq_approval_id rq)) (snd (am_world s))"

definition both_logs :: "nat logged agent_memory \<Rightarrow> (jdict \<times> string option) list \<times> (jdict \<times> string option) list" where
  "both_logs s = (sent_calls s, sent_calls (then_decided s))"

lemma carding_logs: "both_logs carded =
    ([([(''environment'', JStr ''uat'')], None)],
     [([(''environment'', JStr ''uat'')], None), ([(''environment'', JStr ''uat'')], Some ''a1'')])"
  by code_simp

lemma carding_planner: "\<not> planner_sets carding_chat v"
  by (simp add: planner_sets_def carding_chat_def demo_chat_def demo_rest_def kill_proposal_def)

theorem submissions_targeted_witness:
  "\<exists>rq1 rq2. snd (am_world carded) = [rq1] \<and> snd (am_world (then_decided carded)) = [rq1, rq2] \<and>
     map_of (rq_target rq1) ''environment'' = Some (JStr ''uat'') \<and> rq_approval_id rq1 = None \<and> rq_approval_id rq2 = Some ''a1'' \<and>
     (\<exists>t. map_of (rq_target rq2) ''environment'' = Some (JStr t) \<and> t \<noteq> []) \<and>
     (\<exists>st p. map_of (am_conversations carded) ''c1'' = Some st \<and> cs_pending_approval st = Some p \<and> rq2 = approved_request p)"
proof -
  have start: "chat_reachable carding_chat no_conversations" by (rule chat_empty) (simp add: no_conversations_def)
  have reach: "chat_reachable carding_chat carded" unfolding carded_def by (rule chat_message [OF start])
  obtain r where d: "handle_approval_decision (logged_chat carding_chat) ''c1'' True ''dev'' ''bob'' carded = (r, (then_decided carded))"
    by (metis then_decided_def prod.collapse)
  obtain rq1 where one: "snd (am_world carded) = [rq1]" "rq_target rq1 = [(''environment'', JStr ''uat'')]" "rq_approval_id rq1 = None"
    using carding_logs by (auto simp: both_logs_def sent_calls_def map_eq_Cons_conv)
  obtain rq2 where two: "snd (am_world (then_decided carded)) = [rq1, rq2]" "rq_approval_id rq2 = Some ''a1''"
  proof -
    from submissions_targeted [OF reach disjI2 [OF d]] one(1) obtain sent where "snd (am_world (then_decided carded)) = rq1 # sent" by auto
    then show thesis using carding_logs that by (auto simp: both_logs_def sent_calls_def map_eq_Cons_conv)
  qed
  from submissions_targeted [OF reach disjI2 [OF d]] one(1) two carding_planner
  have "(\<exists>t. map_of (rq_target rq2) ''environment'' = Some (JStr t) \<and> t \<noteq> []) \<and>
     (\<exists>st p. map_of (am_conversations carded) ''c1'' = Some st \<and> cs_pending_approval st = Some p \<and> rq2 = approved_request p)" by auto
  with one two show ?thesis by auto
qed

section \<open>Approved writes are not re-checked\<close>

lemma written_history:
  assumes "map_of VERIFICATION_TOOLS_BY_WRITE_TOOL w = Some ts"
  shows "check_step c w = Unchecked w"
proof -
  have w: "w = ''database.kill_session'' \<or> w = ''database.cancel_query''"
    using assms by (auto simp: VERIFICATION_TOOLS_BY_WRITE_TOOL_def split: if_splits)
  have "w \<notin> set (case map_of VERIFICATION_TOOLS_BY_WRITE_TOOL v of None \<Rightarrow> [] | Some ts \<Rightarrow> ts)" for v
    using w by (auto simp: VERIFICATION_TOOLS_BY_WRITE_TOOL_def)
  then show ?thesis using assms by (cases c) auto
qed

text \<open>
  C38. A write that runs through its approval is never re-checked: when the DBA approves the pending
  kill or cancel and the Gateway executes it, the reply announces the incident as mitigated and the
  tool joins the investigation's executed tools, but no re-check is noted, so the investigation may
  still conclude in the stage it could before, as if nothing had been written, while its history
  says that the write is unchecked.
\<close>

theorem approved_write_unchecked:
  assumes "cs_pending_approval (ch_state c) = Some p" and "cs_investigation (ch_state c) = Some iv"
    and "map_of VERIFICATION_TOOLS_BY_WRITE_TOOL (pa_tool_id p) = Some ts"
    and "client_decide (cx_agent env) True (approval_path_id p) channel account (ch_world c) = (Inr body, w1)"
    and "map_of body ''status'' = Some (JStr ''APPROVED'')"
    and "http_submit (cx_agent env) (approved_request p) w1 = (Inr response, w2)" and "rs_status response = TC_EXECUTED"
  shows "\<exists>rp c' iv' said. decide_pending env True channel account c = (Inr rp, c') \<and>
     rp_text rp = said @ ''Incident status: MITIGATED.'' \<and> cs_investigation (ch_state c') = Some iv' \<and>
     check_history (map fst (iv_actions iv')) = Unchecked (pa_tool_id p) \<and>
     iv_pending_verification iv' = iv_pending_verification iv \<and> conclusion_stage iv' = conclusion_stage iv"
proof -
  let ?said = "''Action approved.'' @ newline @ newline @ pa_tool_id p @ '' completed successfully.'' @ newline @ newline @
    ''Result: '' @ result_text (rs_result response) @ newline @ newline"
  let ?iv = "iv\<lparr>iv_actions := iv_actions iv @ [(pa_tool_id p, rs_result response)]\<rparr>"
  have "decide_pending env True channel account c =
      (Inr (reply (?said @ ''Incident status: MITIGATED.'') ''ok'' (Some (iv_investigation_id iv))),
       \<lparr>ch_state = (ch_state c)\<lparr>cs_pending_approval := None, cs_investigation := Some ?iv\<rparr>, ch_world = w2\<rparr>)"
    using assms
    by (simp add: decide_pending_def decide_on_def resubmit_def chat_state_def chat_world_def chat_upd_def zoom_def
        attempt_def bindM_apply note_action_def)
  moreover have "check_history (map fst (iv_actions ?iv)) = Unchecked (pa_tool_id p)"
    by (simp add: check_history_snoc written_history [OF assms(3)])
  ultimately show ?thesis by (auto simp: reply_def conclusion_stage_def intro!: exI [of _ ?said])
qed

definition kill_card :: PendingApproval where
  "kill_card =
     \<lparr>pa_approval_id = Some ''a1'', pa_tool_id = ''database.kill_session'', pa_summary = ''blocking'',
      pa_request = tool_call_request demo_loop_ctx (new_conversation ''c'' ''dev'' [] ''alice'' 0) (new_investigation ''inv_1'' ''lag'')
        kill_proposal [] ''req_1''\<rparr>"

definition granting_chat :: "nat chat_env" where
  \<comment> \<open>a Gateway that approves and executes\<close>
  "granting_chat = demo_chat\<lparr>cx_agent := demo_rest
     \<lparr>http_submit := (\<lambda>rq. returnM \<lparr>rs_status = TC_EXECUTED, rs_execution_id = Some ''e1'', rs_approval_id = None,
        rs_result = None, rs_failure_code = None, rs_message = ''done'', rs_risk = None, rs_policy_decision = None\<rparr>),
      http_decide_approval := (\<lambda>b i c a. returnM (200, [(''status'', JStr ''APPROVED'')]))\<rparr>\<rparr>"

theorem approved_write_unchecked_witness:
  "\<exists>rp c' iv'. decide_pending granting_chat True ''dev'' ''bob''
       \<lparr>ch_state = (new_conversation ''c'' ''dev'' [] ''alice'' 0)\<lparr>cs_pending_approval := Some kill_card,
          cs_investigation := Some (new_investigation ''inv_1'' ''lag'')\<rparr>, ch_world = 0\<rparr> = (Inr rp, c') \<and>
     cs_investigation (ch_state c') = Some iv' \<and> check_history (map fst (iv_actions iv')) = Unchecked ''database.kill_session'' \<and>
     conclusion_stage iv' = CONCLUDED_NO_ACTION"
proof -
  let ?c = "\<lparr>ch_state = (new_conversation ''c'' ''dev'' [] ''alice'' 0)\<lparr>cs_pending_approval := Some kill_card,
          cs_investigation := Some (new_investigation ''inv_1'' ''lag'')\<rparr>, ch_world = 0\<rparr> :: nat chat"
  have "client_decide (cx_agent granting_chat) True (approval_path_id kill_card) ''dev'' ''bob'' 0 =
      (Inr [(''status'', JStr ''APPROVED'')], 0)"
    by (simp add: client_decide_def granting_chat_def)
  moreover obtain response where "http_submit (cx_agent granting_chat) (approved_request kill_card) 0 = (Inr response, 0)"
      "rs_status response = TC_EXECUTED"
    by (simp add: granting_chat_def)
  moreover have t: "pa_tool_id kill_card = ''database.kill_session''" by (simp add: kill_card_def)
  moreover obtain ts where "map_of VERIFICATION_TOOLS_BY_WRITE_TOOL (pa_tool_id kill_card) = Some ts"
    by (simp add: t VERIFICATION_TOOLS_BY_WRITE_TOOL_def)
  moreover have stage: "conclusion_stage (new_investigation ''inv_1'' ''lag'') = CONCLUDED_NO_ACTION"
    by (simp add: conclusion_stage_def new_investigation_def)
  ultimately have "\<exists>rp c' iv' said. decide_pending granting_chat True ''dev'' ''bob'' ?c = (Inr rp, c') \<and>
     rp_text rp = said @ ''Incident status: MITIGATED.'' \<and> cs_investigation (ch_state c') = Some iv' \<and>
     check_history (map fst (iv_actions iv')) = Unchecked (pa_tool_id kill_card) \<and>
     iv_pending_verification iv' = iv_pending_verification (new_investigation ''inv_1'' ''lag'') \<and>
     conclusion_stage iv' = conclusion_stage (new_investigation ''inv_1'' ''lag'')"
    by (intro approved_write_unchecked [where body = "[(''status'', JStr ''APPROVED'')]"]) simp_all
  then show ?thesis unfolding t stage by blast
qed

end
