(* ===== verification/Identity.thy ===== *)
theory Identity
  imports Config
begin

text \<open>
  Identity resolution (common/identity/provider.py, factory.py): the mapping of enterprise
  groups to roles, the directory-backed provider, the interface every provider satisfies,
  and the choice of a provider at start-up.
\<close>

section \<open>Groups and roles (class GroupRoleMapping)\<close>

record GroupRoleMapping =
  dba_team_groups :: "string list"
  role_group_map :: "(DBARole \<times> string list) list"

definition derive_roles :: "GroupRoleMapping \<Rightarrow> string list \<Rightarrow> DBARole list" where
  "derive_roles m groups =
     (if \<not> intersects groups (dba_team_groups m) then []
      else map fst (filter (\<lambda>(role, required_groups). intersects groups required_groups) (role_group_map m)))"

section \<open>The directory-backed provider (class MockIdentityProvider)\<close>

record DirectoryEntry =
  en_subject_id :: string
  en_email :: string
  en_display_name :: string
  en_channel_accounts :: "(string \<times> string) list"
  en_groups :: "string list"
  en_mfa :: bool

record MockIdentityProvider =
  mp_roles :: GroupRoleMapping
  mp_directory :: "DirectoryEntry list"

definition to_identity :: "MockIdentityProvider \<Rightarrow> string \<Rightarrow> DirectoryEntry \<Rightarrow> VerifiedIdentity" where
  \<comment> \<open>\<open>now\<close> is the ISO-8601 form of the current time\<close>
  "to_identity p now entry =
     \<lparr>subject_id = en_subject_id entry, email = en_email entry, display_name = en_display_name entry,
      enterprise_groups = en_groups entry, dba_roles = derive_roles (mp_roles p) (en_groups entry),
      mfa_satisfied = en_mfa entry, authenticated_at = now\<rparr>"

definition resolve_by_external_account ::
    "MockIdentityProvider \<Rightarrow> string \<Rightarrow> string \<Rightarrow> string \<Rightarrow> VerifiedIdentity option" where
  "resolve_by_external_account p now channel external_account_id =
     map_option (to_identity p now)
       (find (\<lambda>e. map_of (en_channel_accounts e) channel = Some external_account_id) (mp_directory p))"

definition refresh :: "MockIdentityProvider \<Rightarrow> string \<Rightarrow> string \<Rightarrow> VerifiedIdentity option" where
  "refresh p now subj =
     map_option (to_identity p now) (find (\<lambda>e. en_subject_id e = subj) (mp_directory p))"

section \<open>Choosing a provider (factory.py)\<close>

datatype provider_choice = BuildMock | BuildOIDC

definition build_identity_provider :: "Settings \<Rightarrow> provider_choice result" where
  "build_identity_provider s =
     (let name = lower (strip (identity_provider s))
      in if name = ''mock'' then Inr BuildMock
         else if name = ''oidc''
         then if oidc_issuer s = []
              then Inl (NumiError DEPENDENCY_UNAVAILABLE
                     (''IDENTITY_PROVIDER=oidc but OIDC_ISSUER is not set. Refusing to start '' @
                      ''with an identity provider that could never resolve anyone.''))
              else Inr BuildOIDC
         else Inl (NumiError DEPENDENCY_UNAVAILABLE
                (''Unknown identity provider '' @ [CHR 0x27] @ identity_provider s @ [CHR 0x27] @
                 ''. Expected one of: mock | oidc.'')))"

section \<open>What a provider promises\<close>

text \<open>
  Both lookups produce identities whose roles come from the group mapping and from nothing
  else, and an account resolves to the identity that refreshing its subject gives back.
\<close>

locale identity_source =
  fixes resolve :: "string \<Rightarrow> string \<Rightarrow> VerifiedIdentity option"
    and refresh_subject :: "string \<Rightarrow> VerifiedIdentity option"
    and mapping :: GroupRoleMapping
  assumes resolve_roles: "resolve ch acc = Some i \<Longrightarrow> dba_roles i = derive_roles mapping (enterprise_groups i)"
    and refresh_roles: "refresh_subject sub = Some i \<Longrightarrow>
          dba_roles i = derive_roles mapping (enterprise_groups i) \<and> subject_id i = sub"
    and resolve_refresh: "resolve ch acc = Some i \<Longrightarrow> \<exists>j. refresh_subject (subject_id i) = Some j"
begin

lemma resolve_outsider:
  assumes "resolve ch acc = Some i" and "\<not> intersects (enterprise_groups i) (dba_team_groups mapping)"
  shows "\<not> is_dba i"
  using resolve_roles [OF assms(1)] assms(2) by (simp add: derive_roles_def is_dba_def)

lemma resolve_role_group:
  assumes "resolve ch acc = Some i" and "r \<in> set (dba_roles i)"
  shows "\<exists>gs. (r, gs) \<in> set (role_group_map mapping) \<and> intersects (enterprise_groups i) gs"
  using resolve_roles [OF assms(1)] assms(2) by (auto simp: derive_roles_def split: if_splits)

lemma refresh_stable:
  "resolve ch acc = Some i \<Longrightarrow> \<exists>j. refresh_subject (subject_id i) = Some j \<and> subject_id j = subject_id i"
  using resolve_refresh refresh_roles by metis

end

interpretation mock: identity_source "resolve_by_external_account p now" "refresh p now" "mp_roles p"
  for p now
proof unfold_locales
  fix ch acc i
  assume r: "resolve_by_external_account p now ch acc = Some i"
  then show "dba_roles i = derive_roles (mp_roles p) (enterprise_groups i)"
    by (auto simp: resolve_by_external_account_def to_identity_def)
  from r obtain e where "e \<in> set (mp_directory p)" and i: "i = to_identity p now e"
    by (auto simp: resolve_by_external_account_def dest: find_Some_iff_mem)
  then have "find (\<lambda>e'. en_subject_id e' = en_subject_id e) (mp_directory p) \<noteq> None"
    by (auto simp: find_None_iff)
  with i show "\<exists>j. refresh p now (subject_id i) = Some j"
    by (auto simp: refresh_def to_identity_def)
next
  fix sub i
  assume "refresh p now sub = Some i"
  then show "dba_roles i = derive_roles (mp_roles p) (enterprise_groups i) \<and> subject_id i = sub"
    by (auto simp: refresh_def to_identity_def dest: find_Some_iff_mem)
qed

text \<open>
  A resolved person is a DBA only through group membership: someone outside every
  dba_team group has no role at all, and each role held is granted by a configured group the
  person is in.
\<close>
theorem resolved_roles_are_granted:
  assumes "resolve_by_external_account p now ch acc = Some i"
  shows "(\<not> intersects (enterprise_groups i) (dba_team_groups (mp_roles p)) \<longrightarrow> dba_roles i = []) \<and>
         (\<forall>r \<in> set (dba_roles i). \<exists>gs. (r, gs) \<in> set (role_group_map (mp_roles p)) \<and>
            intersects (enterprise_groups i) gs)"
  using mock.resolve_outsider [OF assms] mock.resolve_role_group [OF assms] by (auto simp: is_dba_def)

definition example_provider :: MockIdentityProvider where
  "example_provider =
     \<lparr>mp_roles = \<lparr>dba_team_groups = [''Enterprise-DBA''],
        role_group_map = [(DBA_L1, [''Enterprise-DBA-L1'']), (DBA_L3, [''Enterprise-DBA-L3''])]\<rparr>,
      mp_directory =
        [\<lparr>en_subject_id = ''s1'', en_email = ''a@x'', en_display_name = ''A'',
          en_channel_accounts = [(''slack'', ''U1'')],
          en_groups = [''Enterprise-DBA'', ''Enterprise-DBA-L3''], en_mfa = True\<rparr>]\<rparr>"

theorem resolved_roles_are_granted_witness:
  "\<exists>i. resolve_by_external_account example_provider ''t'' ''slack'' ''U1'' = Some i \<and>
     dba_roles i = [DBA_L3] \<and>
     (\<forall>r \<in> set (dba_roles i). \<exists>gs. (r, gs) \<in> set (role_group_map (mp_roles example_provider)) \<and>
        intersects (enterprise_groups i) gs)"
proof -
  have "\<exists>i. resolve_by_external_account example_provider ''t'' ''slack'' ''U1'' = Some i \<and> dba_roles i = [DBA_L3]"
    by (simp add: resolve_by_external_account_def example_provider_def to_identity_def derive_roles_def)
  then obtain i where i: "resolve_by_external_account example_provider ''t'' ''slack'' ''U1'' = Some i"
    and r: "dba_roles i = [DBA_L3]" by blast
  show ?thesis using resolved_roles_are_granted [OF i] i r by blast
qed

text \<open>
  The production check and the factory disagree on the name of the mock provider: the
  check compares the setting literally while the factory strips and lower-cases it, so a
  production process whose IDENTITY_PROVIDER is the mock's name in another case or with
  surrounding blanks passes the check and is then built on the mock directory.
\<close>
theorem mock_provider_passes_production_check:
  assumes "numi_env s = ''production''" and "production_violations s = []"
    and "lower (strip v) = ''mock''" and "v \<noteq> ''mock''"
  shows "validate_for_production (s\<lparr>identity_provider := v\<rparr>) = Inr () \<and>
         build_identity_provider (s\<lparr>identity_provider := v\<rparr>) = Inr BuildMock"
proof -
  let ?s = "s\<lparr>identity_provider := v\<rparr>"
  have "llm_api_keys ?s = llm_api_keys s" by (simp add: llm_api_keys_def)
  then have c: "configured_llm_providers ?s = configured_llm_providers s"
    unfolding configured_llm_providers_def by simp
  have "llm_selection_locked ?s = llm_selection_locked s" by (simp add: llm_selection_locked_def)
  then have llm: "effective_default_llm ?s = effective_default_llm s"
    by (simp add: effective_default_llm_def c split: list.split)
  have "production_violations ?s = []"
    using assms(2,4) unfolding production_violations_Nil_iff llm c by simp
  then have "validate_for_production ?s = Inr ()" by (simp add: validate_for_production_Inr_iff)
  moreover have "build_identity_provider ?s = Inr BuildMock"
    using assms(3) by (simp add: build_identity_provider_def Let_def)
  ultimately show ?thesis by blast
qed

definition production_settings :: Settings where
  "production_settings = default_settings\<lparr>numi_env := ''production'', rate_limit_backend := ''redis'',
     secrets_provider := ''vault'', identity_provider := ''oidc'', oidc_issuer := ''https://idp'',
     anthropic_api_key := ''key'', service_jwt_secret := ''unique''\<rparr>"

lemma production_settings_ok: "production_violations production_settings = []"
  by code_simp

theorem mock_provider_passes_production_check_witness:
  "validate_for_production (production_settings\<lparr>identity_provider := ''Mock ''\<rparr>) = Inr () \<and>
   build_identity_provider (production_settings\<lparr>identity_provider := ''Mock ''\<rparr>) = Inr BuildMock"
proof (rule mock_provider_passes_production_check)
  show "numi_env production_settings = ''production''" by (simp add: production_settings_def)
  show "production_violations production_settings = []" by (rule production_settings_ok)
  show "lower (strip ''Mock '') = ''mock''" by code_simp
qed simp

end
