(* ===== verification/Oidc_Provider.thy ===== *)
theory Oidc_Provider
  imports Complex_Main Identity Python_Text
begin

text \<open>
  The identity provider backed by an OpenID Connect issuer and a SCIM directory
  (common/identity/oidc_provider.py): the literal of a directory filter, the cached service token,
  the reading of a user resource, and the two lookups, which never raise. The HTTP client, its
  clock and the reading of a decimal text are parameters.
\<close>

section \<open>Configuration and state\<close>

record oidc_section =
  \<comment> \<open>the \<open>oidc\<close> section of config/identity.yaml; a key may be missing\<close>
  oi_directory_endpoint :: "string option"
  oi_channel_attributes :: "(string \<times> string) list"
  oi_groups_attribute :: "string option"
  oi_mfa_attribute :: "string option"
  oi_scopes :: "string option"

record OIDCIdentityProvider =
  oc_issuer :: string
  oc_client_id :: string
  oc_client_secret :: string
  oc_roles :: GroupRoleMapping
  oc_directory_endpoint :: string
  oc_channel_attributes :: "(string \<times> string) list"
  oc_groups_attribute :: string
  oc_mfa_attribute :: string
  oc_scopes :: string

definition oidc_init :: "string \<Rightarrow> string \<Rightarrow> string \<Rightarrow> GroupRoleMapping \<Rightarrow> oidc_section \<Rightarrow> OIDCIdentityProvider" where
  "oidc_init issuer client_id client_secret roles cfg =
     \<lparr>oc_issuer = rstrip_char (CHR ''/'') issuer, oc_client_id = client_id, oc_client_secret = client_secret,
      oc_roles = roles, oc_directory_endpoint = rstrip_char (CHR ''/'') (opt_or (oi_directory_endpoint cfg) []),
      oc_channel_attributes = oi_channel_attributes cfg, oc_groups_attribute = opt_or (oi_groups_attribute cfg) ''groups'',
      oc_mfa_attribute = opt_or (oi_mfa_attribute cfg) ''mfaEnrolled'', oc_scopes = opt_or (oi_scopes cfg) []\<rparr>"

type_synonym params = "(string \<times> string) list"

record 'w directory_http =
  \<comment> \<open>a response is its status and what \<open>response.json()\<close> gives\<close>
  dh_get :: "string \<Rightarrow> params \<Rightarrow> params \<Rightarrow> ('w, exn, int \<times> json result) comp"
  dh_post :: "string \<Rightarrow> params \<Rightarrow> params \<Rightarrow> ('w, exn, int \<times> json result) comp"
  dh_monotonic :: "'w \<Rightarrow> rat"
  dh_float :: "string \<Rightarrow> rat result"
  dh_now :: "'w \<Rightarrow> string"

record 'w oidc_state =
  od_discovery :: "jdict option"
  od_access_token :: "string option"
  od_access_token_expires_at :: rat
  od_world :: 'w

type_synonym ('w, 'a) oidc_op = "('w oidc_state, exn, 'a) comp"

definition oidc_world :: "('w, exn, 'a) comp \<Rightarrow> ('w, 'a) oidc_op" where
  "oidc_world m = zoom od_world (\<lambda>w s. s\<lparr>od_world := w\<rparr>) m"

definition TOKEN_EXPIRY_SKEW_SECONDS :: rat where
  "TOKEN_EXPIRY_SKEW_SECONDS = 30"

definition DEFAULT_TOKEN_LIFETIME_SECONDS :: rat where
  "DEFAULT_TOKEN_LIFETIME_SECONDS = 300"

section \<open>Filter literals\<close>

definition scim_string_literal :: "string \<Rightarrow> string" where
  "scim_string_literal v =
     [CHR 0x22] @ replace_char (CHR 0x22) [CHR 0x5C, CHR 0x22] (replace_char (CHR 0x5C) [CHR 0x5C, CHR 0x5C] v) @ [CHR 0x22]"

section \<open>The service's own token\<close>

definition runtime_error :: "('w, 'a) oidc_op" where
  "runtime_error = raiseM (PyExn ''RuntimeError'')"

definition discovery_document :: "OIDCIdentityProvider \<Rightarrow> 'w directory_http \<Rightarrow> ('w, jdict) oidc_op" where
  "discovery_document p http s =
     (case od_discovery s of
        Some d \<Rightarrow> (Inr d, s)
      | None \<Rightarrow>
          bindM (oidc_world (dh_get http (oc_issuer p @ ''/.well-known/openid-configuration'') [] [])) (\<lambda>(status, body).
          if status \<noteq> 200 then runtime_error
          else bindM (liftE body) (\<lambda>document.
               case document of
                 JObj d \<Rightarrow> (\<lambda>s. (Inr d, s\<lparr>od_discovery := Some d\<rparr>))
               | _ \<Rightarrow> runtime_error)) s)"

definition token_form :: "OIDCIdentityProvider \<Rightarrow> params" where
  "token_form p =
     [(''grant_type'', ''client_credentials''), (''client_id'', oc_client_id p), (''client_secret'', oc_client_secret p)] @
     (if oc_scopes p = [] then [] else [(''scope'', oc_scopes p)])"

definition py_float :: "(string \<Rightarrow> rat result) \<Rightarrow> json \<Rightarrow> rat result" where
  "py_float read v =
     (case v of JInt i \<Rightarrow> Inr (of_int i) | JBool b \<Rightarrow> Inr (if b then 1 else 0) | JStr t \<Rightarrow> read t
      | _ \<Rightarrow> Inl (PyExn ''TypeError''))"

definition token_lifetime :: "(string \<Rightarrow> rat result) \<Rightarrow> jdict \<Rightarrow> rat result" where
  "token_lifetime read payload =
     (case map_of payload ''expires_in'' of
        None \<Rightarrow> Inr DEFAULT_TOKEN_LIFETIME_SECONDS
      | Some v \<Rightarrow> if truthy v then py_float read v else Inr DEFAULT_TOKEN_LIFETIME_SECONDS)"

definition store_token :: "'w directory_http \<Rightarrow> rat \<Rightarrow> json \<Rightarrow> ('w, string) oidc_op" where
  \<comment> \<open>the answer of the token endpoint, asked at \<open>now\<close>\<close>
  "store_token http now payload =
     (case payload of
        JObj d \<Rightarrow>
          (case map_of d ''access_token'' of
             Some token \<Rightarrow>
               if truthy token
               then bindM (liftE (token_lifetime (dh_float http) d)) (\<lambda>lifetime s.
                 (Inr (py_str token),
                  s\<lparr>od_access_token := Some (py_str token),
                    od_access_token_expires_at := now + max (lifetime - TOKEN_EXPIRY_SKEW_SECONDS) 0\<rparr>))
               else runtime_error
           | None \<Rightarrow> runtime_error)
      | _ \<Rightarrow> runtime_error)"

definition bearer_token :: "OIDCIdentityProvider \<Rightarrow> 'w directory_http \<Rightarrow> ('w, string) oidc_op" where
  "bearer_token p http s =
     (let now = dh_monotonic http (od_world s)
      in if nonempty (od_access_token s) \<and> now < od_access_token_expires_at s
         then (Inr (opt_or (od_access_token s) []), s)
         else bindM (discovery_document p http) (\<lambda>discovery.
              case map_of discovery ''token_endpoint'' of
                None \<Rightarrow> runtime_error
              | Some endpoint \<Rightarrow>
                  if \<not> truthy endpoint then runtime_error
                  else (case endpoint of
                          JStr url \<Rightarrow>
                            bindM (oidc_world (dh_post http url (token_form p)
                              [(''Content-Type'', ''application/x-www-form-urlencoded'')])) (\<lambda>(status, body).
                            if status \<noteq> 200 then runtime_error
                            else bindM (liftE body) (store_token http now))
                        | _ \<Rightarrow> raiseM (PyExn ''TypeError''))) s)"

definition directory_headers :: "string \<Rightarrow> params" where
  "directory_headers token = [(''Authorization'', ''Bearer '' @ token), (''Accept'', ''application/scim+json'')]"

definition directory_get :: "OIDCIdentityProvider \<Rightarrow> 'w directory_http \<Rightarrow> string \<Rightarrow> params \<Rightarrow> ('w, json option) oidc_op" where
  "directory_get p http url params =
     bindM (bearer_token p http) (\<lambda>token.
     bindM (oidc_world (dh_get http url (directory_headers token) params)) (\<lambda>(status, body).
     if status = 404 then returnM None
     else if status \<noteq> 200 then runtime_error
     else bindM (liftE body) (\<lambda>v. returnM (Some v))))"

section \<open>Reading a user resource\<close>

definition group_name :: "json \<Rightarrow> string option" where
  "group_name item =
     (case item of
        JStr s \<Rightarrow> Some s
      | JObj d \<Rightarrow>
          (let shown = (case map_of d ''display'' of Some v \<Rightarrow> v | None \<Rightarrow> JNull);
               value = (case map_of d ''value'' of Some v \<Rightarrow> v | None \<Rightarrow> JNull)
           in case json_or shown value of JStr s \<Rightarrow> Some s | _ \<Rightarrow> None)
      | _ \<Rightarrow> None)"

definition groups_of :: "OIDCIdentityProvider \<Rightarrow> jdict \<Rightarrow> string list" where
  "groups_of p user =
     (case map_of user (oc_groups_attribute p) of Some (JArr items) \<Rightarrow> List.map_filter group_name items | _ \<Rightarrow> [])"

definition field_truthy :: "string \<Rightarrow> json \<Rightarrow> bool" where
  \<comment> \<open>\<open>isinstance(e, dict) and e.get(k)\<close>\<close>
  "field_truthy k e = (case e of JObj d \<Rightarrow> (case map_of d k of Some v \<Rightarrow> truthy v | None \<Rightarrow> False) | _ \<Rightarrow> False)"

definition value_text :: "json \<Rightarrow> string" where
  "value_text e = (case e of JObj d \<Rightarrow> (case map_of d ''value'' of Some v \<Rightarrow> py_str v | None \<Rightarrow> []) | _ \<Rightarrow> [])"

definition user_name :: "jdict \<Rightarrow> string" where
  "user_name user = (case map_of user ''userName'' of Some v \<Rightarrow> if truthy v then py_str v else [] | None \<Rightarrow> [])"

definition email_of :: "jdict \<Rightarrow> string" where
  "email_of user =
     (case map_of user ''emails'' of
        Some (JStr s) \<Rightarrow> s
      | Some (JArr es) \<Rightarrow>
          (case find (\<lambda>e. field_truthy ''primary'' e \<and> field_truthy ''value'' e) es of
             Some e \<Rightarrow> value_text e
           | None \<Rightarrow> (case find (field_truthy ''value'') es of Some e \<Rightarrow> value_text e | None \<Rightarrow> user_name user))
      | _ \<Rightarrow> user_name user)"

definition display_name_of :: "jdict \<Rightarrow> string" where
  "display_name_of user =
     (case map_of user ''displayName'' of
        Some (JStr (c # s)) \<Rightarrow> c # s
      | _ \<Rightarrow>
          (case map_of user ''name'' of
             Some (JObj d) \<Rightarrow> (case map_of d ''formatted'' of Some (JStr (c # s)) \<Rightarrow> c # s | _ \<Rightarrow> user_name user)
           | _ \<Rightarrow> user_name user))"

definition mfa_of :: "OIDCIdentityProvider \<Rightarrow> jdict \<Rightarrow> bool" where
  "mfa_of p user =
     (case map_of user (oc_mfa_attribute p) of
        Some (JBool b) \<Rightarrow> b
      | Some (JStr s) \<Rightarrow> lower (strip s) \<in> {''true'', ''yes'', ''1''}
      | _ \<Rightarrow> False)"

definition scim_to_identity :: "OIDCIdentityProvider \<Rightarrow> string \<Rightarrow> json \<Rightarrow> VerifiedIdentity option" where
  "scim_to_identity p now user =
     (case user of
        JObj d \<Rightarrow>
          (case map_of d ''id'' of
             Some subject \<Rightarrow>
               if \<not> truthy subject \<or> map_of d ''active'' = Some (JBool False) then None
               else Some \<lparr>subject_id = py_str subject, email = email_of d, display_name = display_name_of d,
                          enterprise_groups = groups_of p d, dba_roles = derive_roles (oc_roles p) (groups_of p d),
                          mfa_satisfied = mfa_of p d, authenticated_at = now\<rparr>
           | None \<Rightarrow> None)
      | _ \<Rightarrow> None)"

section \<open>The lookups\<close>

definition caught :: "('w, 'a option) oidc_op \<Rightarrow> 'w oidc_state \<Rightarrow> 'a option \<times> 'w oidc_state" where
  \<comment> \<open>an exception of the directory call is no answer\<close>
  "caught m s = (case m s of (Inl exc, s') \<Rightarrow> (None, s') | (Inr v, s') \<Rightarrow> (v, s'))"

definition account_filter :: "string \<Rightarrow> string \<Rightarrow> string" where
  "account_filter attribute account_id = attribute @ '' eq '' @ scim_string_literal account_id"

definition single_resource :: "json option \<Rightarrow> json option" where
  "single_resource payload =
     (case payload of
        Some (JObj d) \<Rightarrow> (case map_of d ''Resources'' of Some (JArr [user]) \<Rightarrow> Some user | _ \<Rightarrow> None)
      | _ \<Rightarrow> None)"

definition oidc_resolve_by_external_account ::
    "OIDCIdentityProvider \<Rightarrow> 'w directory_http \<Rightarrow> string \<Rightarrow> string \<Rightarrow> 'w oidc_state \<Rightarrow> VerifiedIdentity option \<times> 'w oidc_state" where
  "oidc_resolve_by_external_account p http channel external_account_id s =
     (if oc_directory_endpoint p = [] then (None, s)
      else let account_id = strip external_account_id
           in if account_id = [] then (None, s)
              else if \<not> nonempty (map_of (oc_channel_attributes p) channel) then (None, s)
              else case caught (directory_get p http (oc_directory_endpoint p)
                          [(''filter'', account_filter (opt_or (map_of (oc_channel_attributes p) channel) []) account_id)]) s of
                     (payload, s') \<Rightarrow>
                       (case single_resource payload of
                          None \<Rightarrow> (None, s')
                        | Some user \<Rightarrow> (scim_to_identity p (dh_now http (od_world s')) user, s')))"

definition oidc_refresh ::
    "OIDCIdentityProvider \<Rightarrow> 'w directory_http \<Rightarrow> string \<Rightarrow> 'w oidc_state \<Rightarrow> VerifiedIdentity option \<times> 'w oidc_state" where
  "oidc_refresh p http subject s =
     (if oc_directory_endpoint p = [] then (None, s)
      else if strip subject = [] then (None, s)
      else case caught (directory_get p http (oc_directory_endpoint p @ ''/'' @ strip subject) []) s of
             (payload, s') \<Rightarrow>
               (case payload of
                  None \<Rightarrow> (None, s')
                | Some user \<Rightarrow> (scim_to_identity p (dh_now http (od_world s')) user, s')))"

section \<open>Filters cannot be extended\<close>

text \<open>A string literal as a reader of filters takes it: up to the first quote that is not escaped.\<close>

lemma unescape_shorter [simp]: "length (snd (unescape (c # s))) \<le> length s"
  by (cases s) auto

function read_chars :: "string \<Rightarrow> (string \<times> string) option" where
  "read_chars [] = None"
| "read_chars (c # s) =
     (if c = CHR 0x22 then Some ([], s)
      else map_option (\<lambda>(t, r). (fst (unescape (c # s)) # t, r)) (read_chars (snd (unescape (c # s)))))"
  by pat_completeness auto
termination
  by (relation "measure length") (auto simp: le_imp_less_Suc)

definition read_literal :: "string \<Rightarrow> (string \<times> string) option" where
  \<comment> \<open>the value and what follows the literal\<close>
  "read_literal s = (case s of c # t \<Rightarrow> if c = CHR 0x22 then read_chars t else None | [] \<Rightarrow> None)"

definition scim_escape :: "char \<Rightarrow> string" where
  "scim_escape c = (if c = CHR 0x5C \<or> c = CHR 0x22 then [CHR 0x5C, c] else [c])"

lemma replace_twice:
  "replace_char (CHR 0x22) [CHR 0x5C, CHR 0x22] (replace_char (CHR 0x5C) [CHR 0x5C, CHR 0x5C] v) = concat (map scim_escape v)"
proof -
  have append: "replace_char c t (x @ y) = replace_char c t x @ replace_char c t y" for c t x y
    by (induction x) simp_all
  show ?thesis by (induction v) (auto simp: append scim_escape_def)
qed

text \<open>
  The literal a directory filter compares with is exactly the account id: whatever characters
  the id has, quotes and backslashes included, a reader of the literal gets the id back and stops
  where the literal was meant to end, so an account id can never add a term to the filter.
\<close>

theorem scim_literal_exact: "read_literal (scim_string_literal v @ rest) = Some (v, rest)"
proof -
  have "read_chars (concat (map scim_escape v) @ CHR 0x22 # rest) = Some (v, rest)"
    by (induction v) (auto simp: scim_escape_def)
  then show ?thesis by (simp add: read_literal_def scim_string_literal_def replace_twice)
qed

section \<open>What a lookup promises\<close>

text \<open>
  A lookup, of an account or of a subject, in a directory with state: the roles of whoever it
  finds come from the group mapping.
\<close>

locale identity_lookup =
  fixes lookup :: "'q \<Rightarrow> 's \<Rightarrow> VerifiedIdentity option \<times> 's" and mapping :: GroupRoleMapping
  assumes lookup_roles: "lookup q s = (Some i, s') \<Longrightarrow> dba_roles i = derive_roles mapping (enterprise_groups i)"
begin

lemma lookup_outsider:
  "lookup q s = (Some i, s') \<Longrightarrow> \<not> intersects (enterprise_groups i) (dba_team_groups mapping) \<Longrightarrow> \<not> is_dba i"
  using lookup_roles by (simp add: derive_roles_def is_dba_def)

lemma lookup_role_group:
  "lookup q s = (Some i, s') \<Longrightarrow> r \<in> set (dba_roles i) \<Longrightarrow>
     \<exists>gs. (r, gs) \<in> set (role_group_map mapping) \<and> intersects (enterprise_groups i) gs"
  using lookup_roles by (auto simp: derive_roles_def split: if_splits)

end

lemma scim_identity_roles: "scim_to_identity p now user = Some i \<Longrightarrow> dba_roles i = derive_roles (oc_roles p) (enterprise_groups i)"
  by (auto simp: scim_to_identity_def split: json.splits option.splits if_splits)

lemma scim_identity_active:
  "scim_to_identity p now user = Some i \<Longrightarrow> \<exists>d v. user = JObj d \<and> map_of d ''id'' = Some v \<and> subject_id i = py_str v \<and>
     map_of d ''active'' \<noteq> Some (JBool False) \<and> enterprise_groups i = groups_of p d \<and> mfa_satisfied i = mfa_of p d"
  by (auto simp: scim_to_identity_def split: json.splits option.splits if_splits)

lemma resolve_Some:
  assumes "oidc_resolve_by_external_account p http channel account s = (Some i, s')"
  shows "\<exists>attribute user payload. map_of (oc_channel_attributes p) channel = Some attribute \<and> attribute \<noteq> [] \<and> strip account \<noteq> [] \<and>
     directory_get p http (oc_directory_endpoint p) [(''filter'', account_filter attribute (strip account))] s = (Inr payload, s') \<and>
     single_resource payload = Some user \<and> scim_to_identity p (dh_now http (od_world s')) user = Some i"
  using assms
  by (auto simp: oidc_resolve_by_external_account_def caught_def Let_def nonempty_def single_resource_def opt_or_def
      split: if_splits option.splits prod.splits sum.splits)

lemma refresh_Some:
  assumes "oidc_refresh p http subject s = (Some i, s')"
  shows "\<exists>user. strip subject \<noteq> [] \<and>
     directory_get p http (oc_directory_endpoint p @ ''/'' @ strip subject) [] s = (Inr (Some user), s') \<and>
     scim_to_identity p (dh_now http (od_world s')) user = Some i"
  using assms by (auto simp: oidc_refresh_def caught_def split: if_splits option.splits prod.splits sum.splits)

interpretation oidc_account: identity_lookup "\<lambda>(channel, account). oidc_resolve_by_external_account p http channel account" "oc_roles p"
  for p http
  by unfold_locales (auto dest!: resolve_Some scim_identity_roles)

interpretation oidc_subject: identity_lookup "oidc_refresh p http" "oc_roles p"
  for p http
  by unfold_locales (auto dest!: refresh_Some scim_identity_roles)

interpretation mock_account: identity_lookup "\<lambda>(channel, account) s. (resolve_by_external_account p now channel account, s)" "mp_roles p"
  for p now
  by unfold_locales (auto dest: mock.resolve_roles)

section \<open>Identities are fresh\<close>

definition reads_identity :: "OIDCIdentityProvider \<Rightarrow> jdict \<Rightarrow> VerifiedIdentity \<Rightarrow> bool" where
  \<comment> \<open>the identity is that of an active user resource\<close>
  "reads_identity p d i \<longleftrightarrow>
     map_of d ''active'' \<noteq> Some (JBool False) \<and> (\<exists>v. map_of d ''id'' = Some v \<and> subject_id i = py_str v) \<and>
     enterprise_groups i = groups_of p d \<and> dba_roles i = derive_roles (oc_roles p) (groups_of p d) \<and> mfa_satisfied i = mfa_of p d"

lemma scim_reads: "scim_to_identity p now user = Some i \<Longrightarrow> \<exists>d. user = JObj d \<and> reads_identity p d i"
  using scim_identity_active [of p now user i] scim_identity_roles [of p now user i] by (auto simp: reads_identity_def)

lemma directory_get_Some:
  assumes "directory_get p http url params s = (Inr (Some v), s')"
  shows "\<exists>token w. dh_get http url (directory_headers token) params w = (Inr (200, Inr v), od_world s')"
  using assms
  by (fastforce simp: directory_get_def bindM_eq_Inr_iff oidc_world_def zoom_def runtime_error_def split: if_splits prod.splits)

text \<open>
  C15. Whoever the directory-backed provider recognises, it has just read from the directory: the
  last thing a successful lookup does is a request to the directory, for the one user whose
  configured attribute equals the account id, or for the subject itself, that was answered with
  status 200 and a resource of a user who is not deactivated, and subject, groups, roles and
  multi-factor state are those of this resource. No lookup answers from a cache, and none raises.
\<close>

theorem oidc_identity_fresh:
  "(oidc_resolve_by_external_account p http channel account s = (Some i, s') \<longrightarrow>
      (\<exists>attribute token w rs d. map_of (oc_channel_attributes p) channel = Some attribute \<and>
         dh_get http (oc_directory_endpoint p) (directory_headers token) [(''filter'', account_filter attribute (strip account))] w =
           (Inr (200, Inr (JObj rs)), od_world s') \<and>
         map_of rs ''Resources'' = Some (JArr [JObj d]) \<and> reads_identity p d i)) \<and>
   (oidc_refresh p http subject s = (Some i, s') \<longrightarrow>
      (\<exists>token w d. dh_get http (oc_directory_endpoint p @ ''/'' @ strip subject) (directory_headers token) [] w =
           (Inr (200, Inr (JObj d)), od_world s') \<and> reads_identity p d i))"
proof (intro conjI impI)
  assume "oidc_resolve_by_external_account p http channel account s = (Some i, s')"
  then obtain attribute user payload where r: "map_of (oc_channel_attributes p) channel = Some attribute"
      "directory_get p http (oc_directory_endpoint p) [(''filter'', account_filter attribute (strip account))] s = (Inr payload, s')"
      "single_resource payload = Some user" "scim_to_identity p (dh_now http (od_world s')) user = Some i"
    by (blast dest: resolve_Some)
  obtain rs where p: "payload = Some (JObj rs)" "map_of rs ''Resources'' = Some (JArr [user])"
    using r(3) by (auto simp: single_resource_def split: option.splits json.splits list.splits)
  from scim_reads [OF r(4)] obtain d where "user = JObj d" "reads_identity p d i" by blast
  with r(1) p directory_get_Some [OF r(2) [unfolded p(1)]]
  show "\<exists>attribute token w rs d. map_of (oc_channel_attributes p) channel = Some attribute \<and>
      dh_get http (oc_directory_endpoint p) (directory_headers token) [(''filter'', account_filter attribute (strip account))] w =
        (Inr (200, Inr (JObj rs)), od_world s') \<and> map_of rs ''Resources'' = Some (JArr [JObj d]) \<and> reads_identity p d i"
    by blast
next
  assume "oidc_refresh p http subject s = (Some i, s')"
  then obtain user where r: "directory_get p http (oc_directory_endpoint p @ ''/'' @ strip subject) [] s = (Inr (Some user), s')"
      "scim_to_identity p (dh_now http (od_world s')) user = Some i"
    by (blast dest: refresh_Some)
  from scim_reads [OF r(2)] directory_get_Some [OF r(1)]
  show "\<exists>token w d. dh_get http (oc_directory_endpoint p @ ''/'' @ strip subject) (directory_headers token) [] w =
      (Inr (200, Inr (JObj d)), od_world s') \<and> reads_identity p d i"
    by blast
qed

definition demo_oidc :: OIDCIdentityProvider where
  "demo_oidc = oidc_init ''https://idp/'' ''numi'' ''s3cret'' \<lparr>dba_team_groups = [''dba''], role_group_map = [(DBA_L2, [''dba-l2''])]\<rparr>
     \<lparr>oi_directory_endpoint = Some ''https://idp/Users/'', oi_channel_attributes = [(''slack'', ''slackUserId'')],
      oi_groups_attribute = None, oi_mfa_attribute = None, oi_scopes = None\<rparr>"

definition demo_user :: json where
  "demo_user = JObj [(''id'', JStr ''u1''), (''active'', JBool True), (''userName'', JStr ''ann''), (''mfaEnrolled'', JStr ''Yes''),
     (''groups'', JArr [JStr ''dba'', JObj [(''value'', JStr ''7''), (''display'', JStr ''dba-l2'')]])]"

definition demo_http :: "nat directory_http" where
  \<comment> \<open>its state counts the requests\<close>
  "demo_http =
     \<lparr>dh_get = (\<lambda>url h ps n.
        (Inr (200, Inr (if url = ''https://idp/.well-known/openid-configuration''
           then JObj [(''token_endpoint'', JStr ''https://idp/token'')]
           else if url = ''https://idp/Users'' then JObj [(''Resources'', JArr [demo_user])] else demo_user)), Suc n)),
      dh_post = (\<lambda>url f h n. (Inr (200, Inr (JObj [(''access_token'', JStr ''t1''), (''expires_in'', JInt 3600)])), Suc n)),
      dh_monotonic = of_nat, dh_float = (\<lambda>s. Inl (PyExn ''ValueError'')), dh_now = (\<lambda>n. ''now'')\<rparr>"

definition demo_lookup :: "VerifiedIdentity option \<times> nat oidc_state" where
  "demo_lookup = oidc_resolve_by_external_account demo_oidc demo_http ''slack'' '' U1 ''
     \<lparr>od_discovery = None, od_access_token = None, od_access_token_expires_at = 0, od_world = 0\<rparr>"

lemma demo_lookup_found: "map_option dba_roles (fst demo_lookup) = Some [DBA_L2]" "od_world (snd demo_lookup) = 3"
  by code_simp+

theorem oidc_identity_fresh_witness:
  "\<exists>i s' token w rs d. demo_lookup = (Some i, s') \<and>
     dh_get demo_http ''https://idp/Users'' (directory_headers token)
       [(''filter'', ''slackUserId eq '' @ [CHR 0x22] @ ''U1'' @ [CHR 0x22])] w = (Inr (200, Inr (JObj rs)), od_world s') \<and>
     map_of rs ''Resources'' = Some (JArr [JObj d]) \<and> dba_roles i = derive_roles (oc_roles demo_oidc) (groups_of demo_oidc d)"
proof -
  obtain i where "fst demo_lookup = Some i" using demo_lookup_found(1) by auto
  then obtain s' where l: "demo_lookup = (Some i, s')" by (metis prod.collapse)
  have at: "oc_directory_endpoint demo_oidc = ''https://idp/Users''" "map_of (oc_channel_attributes demo_oidc) ''slack'' = Some ''slackUserId''"
    "account_filter ''slackUserId'' (strip '' U1 '') = ''slackUserId eq '' @ [CHR 0x22] @ ''U1'' @ [CHR 0x22]"
    by code_simp+
  from oidc_identity_fresh [of demo_oidc demo_http "''slack''" "'' U1 ''" _ i s'] l show ?thesis
    unfolding demo_lookup_def reads_identity_def using at by fastforce
qed

end
