(* ===== verification/Channels.thy ===== *)
theory Channels
  imports Complex_Main Agent_Loop Service_Auth Python_Text
begin

text \<open>
  The channel adapters (channels/): webhook signatures, bot tokens, the suppression of retried
  deliveries, the rendering of replies, and every route of the service (channels/api/app.py). HMAC,
  the JSON reader, the identity provider, the Agent's and the chat services' HTTP endpoints, the
  validation of the Agent's reply and the verification of a Bot Framework token are parameters.
  What is only logged is left out.
\<close>

section \<open>The service and its surroundings\<close>

record ('w, 'k) channel_env =
  cf_production :: bool
  cf_slack_signing_secret :: string
  cf_alert_webhook_secret :: string
  cf_slack_bot_token :: string
  cf_teams_app_id :: string
  cf_teams_app_password :: string
  cf_jwt_secret :: string
  cf_jwt_issuer :: string
  cf_serializer :: "'k serializer"
  cf_hmac :: "string \<Rightarrow> string \<Rightarrow> string"      \<comment> \<open>key and message: the hex digest of HMAC-SHA256\<close>
  cf_json :: "string \<Rightarrow> json option"            \<comment> \<open>\<open>json.loads\<close>\<close>
  cf_time :: "'w \<Rightarrow> rat"                         \<comment> \<open>\<open>time.time()\<close>\<close>
  cf_monotonic :: "'w \<Rightarrow> rat"
  cf_now :: "'w \<Rightarrow> int"                          \<comment> \<open>the moment a token is signed or verified\<close>
  cf_resolve :: "string \<Rightarrow> json \<Rightarrow> ('w, exn, VerifiedIdentity option) comp"
  cf_agent :: "string \<Rightarrow> 'k \<Rightarrow> jdict \<Rightarrow> ('w, exn, json) comp"  \<comment> \<open>path, token, body\<close>
  cf_slack_api :: "string \<Rightarrow> jdict \<Rightarrow> ('w, exn, json) comp"
  cf_parse_reply :: "json \<Rightarrow> AgentReply result"
  cf_bot_claims :: "string \<Rightarrow> string \<Rightarrow> ('w, exn, json) comp"    \<comment> \<open>token, audience\<close>

type_synonym seen = "(json \<times> rat) list"

record 'w channel_state =
  cn_seen_slack_event_ids :: seen
  cn_seen_alert_ids :: seen
  cn_world :: 'w

type_synonym ('w, 'a) channel_op = "('w channel_state, exn, 'a) comp"

definition chan_world :: "('w, exn, 'a) comp \<Rightarrow> ('w, 'a) channel_op" where
  "chan_world m = zoom cn_world (\<lambda>w s. s\<lparr>cn_world := w\<rparr>) m"

section \<open>Signatures (slack/signature.py, alerts/signature.py)\<close>

definition MAX_CLOCK_SKEW_SECONDS :: rat where
  "MAX_CLOCK_SKEW_SECONDS = 60 * 5"

definition compare_digest :: "string \<Rightarrow> string \<Rightarrow> bool result" where
  \<comment> \<open>texts with other than ASCII characters are refused with an exception\<close>
  "compare_digest a b =
     (if list_all (\<lambda>c. char_code c < 128) (a @ b) then Inr (a = b) else Inl (PyExn ''TypeError''))"

definition check_signature :: "exn \<Rightarrow> string option \<Rightarrow> string option \<Rightarrow> rat \<Rightarrow> (string \<Rightarrow> string) \<Rightarrow> unit result" where
  \<comment> \<open>what the two schemes share: headers, freshness and the comparison with the computed signature\<close>
  "check_signature rejected timestamp_header signature_header now computed =
     (if \<not> nonempty timestamp_header \<or> \<not> nonempty signature_header then Inl rejected
      else (case int_of_text (opt_or timestamp_header []) of
              Inl exc \<Rightarrow> Inl rejected
            | Inr ts \<Rightarrow>
                if \<bar>now - of_int ts\<bar> > MAX_CLOCK_SKEW_SECONDS then Inl rejected
                else bindE (compare_digest (computed (opt_or timestamp_header [])) (opt_or signature_header [])) (\<lambda>same.
                     if same then Inr () else Inl rejected)))"

definition slack_signature :: "(string \<Rightarrow> string \<Rightarrow> string) \<Rightarrow> string \<Rightarrow> string \<Rightarrow> string \<Rightarrow> string" where
  "slack_signature hmac signing_secret request_body timestamp =
     ''v0='' @ hmac signing_secret (''v0:'' @ timestamp @ '':'' @ request_body)"

definition verify_slack_signature ::
    "(string \<Rightarrow> string \<Rightarrow> string) \<Rightarrow> string \<Rightarrow> string \<Rightarrow> string option \<Rightarrow> string option \<Rightarrow> rat \<Rightarrow> unit result" where
  "verify_slack_signature hmac signing_secret request_body timestamp_header signature_header now =
     check_signature (PyExn ''SlackSignatureError'') timestamp_header signature_header now
       (slack_signature hmac signing_secret request_body)"

definition alert_signature :: "(string \<Rightarrow> string \<Rightarrow> string) \<Rightarrow> string \<Rightarrow> string \<Rightarrow> string \<Rightarrow> string" where
  "alert_signature hmac secret request_body timestamp =
     ''sha256='' @ hmac secret (timestamp @ ''.'' @ request_body)"

definition verify_alert_signature ::
    "(string \<Rightarrow> string \<Rightarrow> string) \<Rightarrow> string \<Rightarrow> string \<Rightarrow> string option \<Rightarrow> string option \<Rightarrow> rat \<Rightarrow> unit result" where
  "verify_alert_signature hmac secret request_body timestamp_header signature_header now =
     (if secret = [] then Inl (PyExn ''AlertSignatureError'')
      else check_signature (PyExn ''AlertSignatureError'') timestamp_header signature_header now
             (alert_signature hmac secret request_body))"

section \<open>Bot tokens (teams/auth.py)\<close>

definition bearer_of :: "string option \<Rightarrow> string result" where
  "bearer_of authorization_header =
     (if \<not> nonempty authorization_header \<or> \<not> prefix ''Bearer '' (opt_or authorization_header [])
      then Inl (PyExn ''TeamsAuthError'')
      else Inr (strip (removeprefix ''Bearer '' (opt_or authorization_header []))))"

definition bot_framework_verify :: "('w, 'k) channel_env \<Rightarrow> string option \<Rightarrow> ('w, json) channel_op" where
  \<comment> \<open>class BotFrameworkJWTVerifier: signature, audience, issuer and expiry are checked by the library\<close>
  "bot_framework_verify env authorization_header =
     bindM (liftE (bearer_of authorization_header)) (\<lambda>token s.
     case chan_world (cf_bot_claims env token (cf_teams_app_id env)) s of
       (Inl exc, s') \<Rightarrow> (Inl (PyExn ''TeamsAuthError''), s')
     | (Inr claims, s') \<Rightarrow> (py_get claims ''appid'' (JStr []), s'))"

definition dev_teams_verify :: "('w, 'k) channel_env \<Rightarrow> string option \<Rightarrow> ('w, json) channel_op" where
  \<comment> \<open>class DevTeamsAuthVerifier\<close>
  "dev_teams_verify env authorization_header =
     bindM (liftE (bearer_of authorization_header)) (\<lambda>token.
     if cf_teams_app_password env = [] \<or> token \<noteq> cf_teams_app_password env then raiseM (PyExn ''TeamsAuthError'')
     else returnM (JStr ''dev-bot''))"

definition teams_verify :: "('w, 'k) channel_env \<Rightarrow> string option \<Rightarrow> ('w, json) channel_op" where
  "teams_verify env = (if cf_production env then bot_framework_verify env else dev_teams_verify env)"

section \<open>Retried deliveries\<close>

definition SEEN_EVENT_TTL_SECONDS :: rat where
  "SEEN_EVENT_TTL_SECONDS = 300"

fun hashable :: "json \<Rightarrow> bool" where
  "hashable (JArr _) = False"
| "hashable (JObj _) = False"
| "hashable _ = True"

fun hash_key :: "json \<Rightarrow> json" where
  \<comment> \<open>as keys of a dict, \<open>True\<close> is 1 and \<open>False\<close> is 0\<close>
  "hash_key (JBool b) = JInt (if b then 1 else 0)"
| "hash_key v = v"

definition already_seen :: "rat \<Rightarrow> json \<Rightarrow> seen \<Rightarrow> bool result \<times> seen" where
  \<comment> \<open>\<open>_slack_event_already_seen\<close> and \<open>_alert_already_seen\<close>, on their caches\<close>
  "already_seen now i cache =
     (if \<not> truthy i then (Inr False, cache)
      else let live = filter (\<lambda>(k, seen_at). \<not> now - seen_at > SEEN_EVENT_TTL_SECONDS) cache
           in if \<not> hashable i then (Inl (PyExn ''TypeError''), live)
              else if hash_key i \<in> fst ` set live then (Inr True, live)
              else (Inr False, live @ [(hash_key i, now)]))"

definition slack_event_already_seen :: "('w, 'k) channel_env \<Rightarrow> json \<Rightarrow> ('w, bool) channel_op" where
  "slack_event_already_seen env event_id s =
     (case already_seen (cf_monotonic env (cn_world s)) event_id (cn_seen_slack_event_ids s) of
        (r, cache) \<Rightarrow> (r, s\<lparr>cn_seen_slack_event_ids := cache\<rparr>))"

definition alert_already_seen :: "('w, 'k) channel_env \<Rightarrow> json \<Rightarrow> ('w, bool) channel_op" where
  "alert_already_seen env alert_id s =
     (case already_seen (cf_monotonic env (cn_world s)) alert_id (cn_seen_alert_ids s) of
        (r, cache) \<Rightarrow> (r, s\<lparr>cn_seen_alert_ids := cache\<rparr>))"

section \<open>Rendering (slack/blocks.py, teams/cards.py)\<close>

definition mrkdwn :: "string \<Rightarrow> json" where
  "mrkdwn t = JObj [(''type'', JStr ''mrkdwn''), (''text'', JStr t)]"

definition card_text :: "ApprovalCard \<Rightarrow> string" where
  "card_text ap =
     ''*AI DBA ACTION REQUIRES APPROVAL*'' @ newline @
     ''*Operation:* '' @ [CHR 0x60] @ ac_tool_id ap @ [CHR 0x60] @ newline @
     ''*Target:* '' @ ac_target_summary ap @ newline @
     ''*Reason:* '' @ ac_reason ap @ newline @
     ''*Risk:* '' @ ac_risk_level ap @ newline @
     ''*Blast radius:* '' @ ac_blast_radius ap @ newline @
     ''*Expires in:* '' @ int_str (ac_expires_in_seconds ap div 60) @ '' minutes''"

definition approval_button :: "string \<Rightarrow> string \<Rightarrow> string \<Rightarrow> ApprovalCard \<Rightarrow> json" where
  "approval_button style label action_id ap =
     JObj [(''type'', JStr ''button''), (''style'', JStr style),
           (''text'', JObj [(''type'', JStr ''plain_text''), (''text'', JStr label)]),
           (''action_id'', JStr action_id), (''value'', JStr (ac_approval_id ap))]"

definition approval_block_id :: "string \<Rightarrow> string" where
  "approval_block_id approval_id = ''numi_approval_'' @ approval_id"

definition render_reply_blocks :: "AgentReply \<Rightarrow> json list" where
  "render_reply_blocks rp =
     JObj [(''type'', JStr ''section''), (''text'', mrkdwn (rp_text rp))] #
     (case rp_approval_card rp of
        None \<Rightarrow> []
      | Some ap \<Rightarrow>
          [JObj [(''type'', JStr ''divider'')],
           JObj [(''type'', JStr ''section''), (''text'', mrkdwn (card_text ap))],
           JObj [(''type'', JStr ''actions''), (''block_id'', JStr (approval_block_id (ac_approval_id ap))),
                 (''elements'', JArr [approval_button ''primary'' ''Approve'' ''numi_approve'' ap,
                                     approval_button ''danger'' ''Reject'' ''numi_reject'' ap])]])"

definition resolved_block :: "string \<Rightarrow> string \<Rightarrow> json" where
  "resolved_block decision decided_by =
     JObj [(''type'', JStr ''context''),
           (''elements'', JArr [mrkdwn ((if decision = ''approve'' then [CHR 0xE2, CHR 0x9C, CHR 0x85] else [CHR 0xE2, CHR 0x9D, CHR 0x8C]) @
              '' *'' @ (if decision = ''approve'' then ''Approved'' else ''Rejected'') @ ''* by '' @ decided_by)])]"

fun resolve_approval_blocks :: "json list \<Rightarrow> string \<Rightarrow> string \<Rightarrow> string \<Rightarrow> json list result" where
  "resolve_approval_blocks [] approval_id decision decided_by = Inr []"
| "resolve_approval_blocks (block # blocks) approval_id decision decided_by =
     bindE (py_get block ''block_id'' JNull) (\<lambda>block_id.
     bindE (resolve_approval_blocks blocks approval_id decision decided_by) (\<lambda>rebuilt.
     Inr ((if block_id = JStr (approval_block_id approval_id) then resolved_block decision decided_by else block) # rebuilt)))"

definition card_fact :: "string \<Rightarrow> string \<Rightarrow> json" where
  "card_fact title value = JObj [(''title'', JStr title), (''value'', JStr value)]"

definition card_action :: "string \<Rightarrow> string \<Rightarrow> ApprovalCard \<Rightarrow> json" where
  "card_action title action ap =
     JObj [(''type'', JStr ''Action.Submit''), (''title'', JStr title),
           (''data'', JObj [(''numi_action'', JStr action), (''approval_id'', JStr (ac_approval_id ap))])]"

definition render_reply_card :: "AgentReply \<Rightarrow> json" where
  "render_reply_card rp =
     JObj [(''type'', JStr ''AdaptiveCard''), (''$schema'', JStr ''http://adaptivecards.io/schemas/adaptive-card.json''),
       (''version'', JStr ''1.4''),
       (''body'', JArr (JObj [(''type'', JStr ''TextBlock''), (''text'', JStr (rp_text rp)), (''wrap'', JBool True)] #
          (case rp_approval_card rp of
             None \<Rightarrow> []
           | Some ap \<Rightarrow>
               [JObj [(''type'', JStr ''TextBlock''), (''text'', JStr ''AI DBA ACTION REQUIRES APPROVAL''), (''weight'', JStr ''bolder'')],
                JObj [(''type'', JStr ''FactSet''), (''facts'', JArr
                  [card_fact ''Operation'' (ac_tool_id ap), card_fact ''Target'' (ac_target_summary ap),
                   card_fact ''Reason'' (ac_reason ap), card_fact ''Risk'' (ac_risk_level ap),
                   card_fact ''Blast radius'' (ac_blast_radius ap),
                   card_fact ''Expires in'' (int_str (ac_expires_in_seconds ap div 60) @ '' minutes'')])]]))),
       (''actions'', JArr (case rp_approval_card rp of
             None \<Rightarrow> []
           | Some ap \<Rightarrow> [card_action ''Approve'' ''approve'' ap, card_action ''Reject'' ''reject'' ap]))]"

section \<open>Outgoing calls (slack/sender.py, and the closures of create_app)\<close>

definition slack_call :: "('w, 'k) channel_env \<Rightarrow> string \<Rightarrow> jdict \<Rightarrow> ('w, unit) channel_op" where
  "slack_call env path body =
     (if cf_slack_bot_token env = [] then returnM ()
      else bindM (chan_world (cf_slack_api env path body)) (\<lambda>answer.
           bindM (liftE (py_get answer ''ok'' JNull)) (\<lambda>_. returnM ())))"

definition post_message :: "('w, 'k) channel_env \<Rightarrow> json \<Rightarrow> string \<Rightarrow> json list \<Rightarrow> ('w, unit) channel_op" where
  "post_message env channel said blocks =
     slack_call env ''/chat.postMessage'' [(''channel'', channel), (''text'', JStr said), (''blocks'', JArr blocks)]"

definition update_message :: "('w, 'k) channel_env \<Rightarrow> json \<Rightarrow> json \<Rightarrow> json \<Rightarrow> json list \<Rightarrow> ('w, unit) channel_op" where
  "update_message env channel ts said blocks =
     slack_call env ''/chat.update'' [(''channel'', channel), (''ts'', ts), (''text'', said), (''blocks'', JArr blocks)]"

definition call_agent :: "('w, 'k) channel_env \<Rightarrow> string \<Rightarrow> jdict \<Rightarrow> ('w, json) channel_op" where
  "call_agent env path body =
     chan_world (\<lambda>w. cf_agent env path
       (issue (cf_serializer env) (cf_jwt_secret env) (cf_jwt_issuer env) ''channels'' ''numi-agent'' (cf_now env w)) body w)"

definition call_agent_chat :: "('w, 'k) channel_env \<Rightarrow> string \<Rightarrow> json \<Rightarrow> string \<Rightarrow> json \<Rightarrow> json \<Rightarrow> ('w, json) channel_op" where
  "call_agent_chat env channel channel_account_id conversation_id channel_thread_id message =
     call_agent env ''/v1/chat''
       [(''channel'', JStr channel), (''channel_account_id'', channel_account_id), (''conversation_id'', JStr conversation_id),
        (''channel_thread_id'', channel_thread_id), (''message'', message)]"

definition call_agent_event :: "('w, 'k) channel_env \<Rightarrow> string \<Rightarrow> json \<Rightarrow> string \<Rightarrow> json \<Rightarrow> json \<Rightarrow> ('w, json) channel_op" where
  "call_agent_event env channel channel_account_id conversation_id approval_id decision =
     call_agent env ''/v1/chat/events''
       [(''channel'', JStr channel), (''channel_account_id'', channel_account_id), (''conversation_id'', JStr conversation_id),
        (''approval_id'', approval_id), (''decision'', decision)]"

definition call_agent_alert_trigger :: "('w, 'k) channel_env \<Rightarrow> jdict \<Rightarrow> ('w, json) channel_op" where
  "call_agent_alert_trigger env body = call_agent env ''/v1/alerts/trigger'' body"

definition slack_conversation_id :: "string \<Rightarrow> string \<Rightarrow> string \<Rightarrow> string" where
  "slack_conversation_id channel slack_user_id thread_ts =
     ''slack:'' @ channel @ '':'' @ (if thread_ts = [] then slack_user_id else thread_ts)"

definition or_text :: "json \<Rightarrow> string" where
  \<comment> \<open>a value of an f-string whose falsy values are replaced\<close>
  "or_text v = (if truthy v then py_str v else [])"

section \<open>Routes\<close>

definition loads :: "('w, 'k) channel_env \<Rightarrow> string \<Rightarrow> json result" where
  \<comment> \<open>\<open>json.loads(raw_body or b"{}")\<close>\<close>
  "loads env raw_body =
     (case cf_json env (if raw_body = [] then ''{}'' else raw_body) of
        None \<Rightarrow> Inl (PyExn ''JSONDecodeError'') | Some v \<Rightarrow> Inr v)"

definition ok_json :: json where
  "ok_json = JObj [(''ok'', JBool True)]"

definition is_team_member :: "VerifiedIdentity option \<Rightarrow> bool" where
  "is_team_member identity = (case identity of None \<Rightarrow> False | Some i \<Rightarrow> is_dba i)"

definition reply_to_slack :: "('w, 'k) channel_env \<Rightarrow> json \<Rightarrow> json \<Rightarrow> ('w, AgentReply) channel_op" where
  "reply_to_slack env channel answer =
     bindM (liftE (cf_parse_reply env answer)) (\<lambda>rp.
     bindM (post_message env channel (rp_text rp) (render_reply_blocks rp)) (\<lambda>_. returnM rp))"

definition slack_message :: "('w, 'k) channel_env \<Rightarrow> json \<Rightarrow> json \<Rightarrow> ('w, json) channel_op" where
  \<comment> \<open>a message event of a user\<close>
  "slack_message env event slack_user_id =
     bindM (chan_world (cf_resolve env ''slack'' slack_user_id)) (\<lambda>identity.
     if \<not> is_team_member identity
     then bindM (liftE (py_item event ''channel'')) (\<lambda>channel.
          bindM (post_message env channel ''Sorry, this account isn't recognized as a DBA team member.'' []) (\<lambda>_.
          returnM ok_json))
     else bindM (liftE (py_get event ''channel'' (JStr []))) (\<lambda>channel.
          bindM (liftE (py_get event ''thread_ts'' (JStr []))) (\<lambda>thread_ts.
          bindM (liftE (py_get event ''ts'' (JStr []))) (\<lambda>ts.
          bindM (liftE (py_get event ''thread_ts'' ts)) (\<lambda>channel_thread_id.
          bindM (liftE (py_get event ''text'' (JStr []))) (\<lambda>message.
          bindM (call_agent_chat env ''slack'' slack_user_id
                   (slack_conversation_id (py_str channel) (py_str slack_user_id) (or_text thread_ts)) channel_thread_id message) (\<lambda>answer.
          bindM (liftE (cf_parse_reply env answer)) (\<lambda>rp.
          bindM (liftE (py_item event ''channel'')) (\<lambda>channel'.
          bindM (post_message env channel' (rp_text rp) (render_reply_blocks rp)) (\<lambda>_. returnM ok_json))))))))))"

definition slack_event :: "('w, 'k) channel_env \<Rightarrow> json \<Rightarrow> ('w, json) channel_op" where
  "slack_event env payload =
     bindM (liftE (py_get payload ''event_id'' JNull)) (\<lambda>event_id.
     bindM (slack_event_already_seen env event_id) (\<lambda>seen.
     if seen then returnM ok_json
     else bindM (liftE (py_get payload ''event'' (JObj []))) (\<lambda>event.
          bindM (liftE (py_get event ''user'' JNull)) (\<lambda>slack_user_id.
          bindM (liftE (py_get event ''type'' JNull)) (\<lambda>ty.
          bindM (liftE (py_get event ''bot_id'' JNull)) (\<lambda>bot_id.
          if ty \<noteq> JStr ''message'' \<or> truthy bot_id \<or> \<not> truthy slack_user_id then returnM ok_json
          else slack_message env event slack_user_id))))))"

definition signed :: "unit result \<Rightarrow> exn \<Rightarrow> string \<Rightarrow> unit result" where
  \<comment> \<open>a rejected signature is a 401\<close>
  "signed verdict rejected detail =
     (case verdict of Inr _ \<Rightarrow> Inr () | Inl e \<Rightarrow> Inl (if e = rejected then HTTPException 401 detail else e))"

definition slack_webhook ::
    "('w, 'k) channel_env \<Rightarrow> string \<Rightarrow> string option \<Rightarrow> string option \<Rightarrow> ('w, json) channel_op" where
  "slack_webhook env raw_body timestamp signature s =
     bindM (liftE (signed (verify_slack_signature (cf_hmac env) (cf_slack_signing_secret env) raw_body timestamp signature
              (cf_time env (cn_world s))) (PyExn ''SlackSignatureError'') ''Invalid Slack signature.'')) (\<lambda>_.
     bindM (liftE (loads env raw_body)) (\<lambda>payload.
     bindM (liftE (py_get payload ''type'' JNull)) (\<lambda>ty.
     if ty = JStr ''url_verification''
     then bindM (liftE (py_get payload ''challenge'' (JStr []))) (\<lambda>c. returnM (JObj [(''challenge'', c)]))
     else if ty = JStr ''event_callback'' then slack_event env payload
     else returnM ok_json))) s"

datatype form_field = FormText string | FormUpload

definition first_action :: "json \<Rightarrow> json result" where
  \<comment> \<open>\<open>actions[0]\<close>, to be asked with \<open>get\<close>\<close>
  "first_action actions =
     (case actions of JArr (a # _) \<Rightarrow> Inr a | JObj _ \<Rightarrow> Inl (PyExn ''KeyError'') | JStr _ \<Rightarrow> Inl (PyExn ''AttributeError'')
      | _ \<Rightarrow> Inl (PyExn ''TypeError''))"

definition collapse_card ::
    "('w, 'k) channel_env \<Rightarrow> json \<Rightarrow> json \<Rightarrow> json \<Rightarrow> json \<Rightarrow> string \<Rightarrow> VerifiedIdentity option \<Rightarrow> json \<Rightarrow> ('w, unit) channel_op" where
  \<comment> \<open>best effort: an exception is only logged\<close>
  "collapse_card env channel_id message message_ts original_blocks decision identity approval_id s =
     (case bindM (liftE (py_get message ''text'' (JStr []))) (\<lambda>said.
           bindM (liftE (case original_blocks of
                    JArr blocks \<Rightarrow> resolve_approval_blocks blocks (py_str approval_id) decision
                      (case identity of None \<Rightarrow> [] | Some i \<Rightarrow> display_name i)
                  | _ \<Rightarrow> Inl (PyExn ''AttributeError''))) (\<lambda>blocks.
           update_message env channel_id message_ts said blocks)) s of
        (_, s') \<Rightarrow> (Inr (), s'))"

definition interactive_action :: "('w, 'k) channel_env \<Rightarrow> json \<Rightarrow> json \<Rightarrow> json \<Rightarrow> ('w, json) channel_op" where
  "interactive_action env payload user_id action =
     bindM (liftE (py_get action ''value'' JNull)) (\<lambda>approval_id.
     bindM (liftE (py_get action ''action_id'' JNull)) (\<lambda>action_id.
     let decision = (if action_id = JStr ''numi_approve'' then ''approve'' else ''reject'')
     in bindM (chan_world (cf_resolve env ''slack'' user_id)) (\<lambda>identity.
     if \<not> is_team_member identity
     then returnM (JObj [(''text'', JStr ''This account isn't recognized as a DBA team member.'')])
     else bindM (liftE (py_get payload ''channel'' (JObj []))) (\<lambda>channel.
          bindM (liftE (py_get channel ''id'' (JStr []))) (\<lambda>channel_id.
          bindM (liftE (py_get payload ''container'' (JObj []))) (\<lambda>container.
          bindM (liftE (py_get container ''thread_ts'' JNull)) (\<lambda>container_ts.
          bindM (liftE (py_get payload ''message'' (JObj []))) (\<lambda>message.
          bindM (if truthy container_ts then returnM container_ts else liftE (py_get message ''thread_ts'' (JStr []))) (\<lambda>thread_ts.
          bindM (call_agent_event env ''slack'' user_id
                   (slack_conversation_id (py_str channel_id) (py_str user_id) (or_text thread_ts)) approval_id (JStr decision)) (\<lambda>answer.
          bindM (reply_to_slack env channel_id answer) (\<lambda>rp.
          bindM (liftE (py_get message ''ts'' (JStr []))) (\<lambda>message_ts.
          bindM (liftE (py_get message ''blocks'' (JArr []))) (\<lambda>original_blocks.
          bindM (if truthy message_ts \<and> truthy original_blocks \<and> truthy approval_id \<and> \<not> rp_approval_still_pending rp
                 then collapse_card env channel_id message message_ts original_blocks decision identity approval_id
                 else returnM ()) (\<lambda>_.
          returnM ok_json))))))))))))))"

definition slack_interactive :: "('w, 'k) channel_env \<Rightarrow> form_field option \<Rightarrow> ('w, json) channel_op" where
  \<comment> \<open>the form field \<open>payload\<close>; the route takes no header\<close>
  "slack_interactive env raw =
     (case (case raw of None \<Rightarrow> FormText ''{}'' | Some f \<Rightarrow> f) of
        FormUpload \<Rightarrow> raiseM (HTTPException 400 ''Malformed interactive payload.'')
      | FormText raw_payload \<Rightarrow>
          bindM (liftE (case cf_json env raw_payload of None \<Rightarrow> Inl (PyExn ''JSONDecodeError'') | Some v \<Rightarrow> Inr v)) (\<lambda>payload.
          bindM (liftE (py_get payload ''user'' (JObj []))) (\<lambda>user.
          bindM (liftE (py_get user ''id'' (JStr []))) (\<lambda>user_id.
          bindM (liftE (py_get payload ''actions'' (JArr []))) (\<lambda>actions.
          if \<not> truthy actions then returnM ok_json
          else bindM (liftE (first_action actions)) (interactive_action env payload user_id))))))"

definition teams_reply :: "string \<Rightarrow> json" where
  "teams_reply said = JObj [(''type'', JStr ''message''), (''text'', JStr said)]"

definition teams_activity :: "('w, 'k) channel_env \<Rightarrow> string \<Rightarrow> ('w, json) channel_op" where
  \<comment> \<open>the connector token is None in every deployment, so the card is rendered and not sent\<close>
  "teams_activity env raw_body =
     bindM (liftE (case cf_json env raw_body of None \<Rightarrow> Inl (PyExn ''JSONDecodeError'') | Some v \<Rightarrow> Inr v)) (\<lambda>activity.
     bindM (liftE (py_get activity ''from'' (JObj []))) (\<lambda>sender.
     bindM (liftE (py_get sender ''aadObjectId'' JNull)) (\<lambda>aad.
     bindM (liftE (py_get sender ''id'' (JStr []))) (\<lambda>sender_id.
     let aad_object_id = json_or aad sender_id
     in bindM (chan_world (cf_resolve env ''teams'' aad_object_id)) (\<lambda>identity.
     if \<not> is_team_member identity
     then returnM (teams_reply ''Sorry, this account isn't recognized as a DBA team member.'')
     else bindM (liftE (py_get activity ''conversation'' (JObj []))) (\<lambda>conversation.
          bindM (liftE (py_get conversation ''id'' (JStr []))) (\<lambda>thread.
          bindM (liftE (py_get activity ''value'' JNull)) (\<lambda>value0.
          let conversation_id = ''teams:'' @ py_str thread; value = json_or value0 (JObj [])
          in bindM (liftE (py_get value ''numi_action'' JNull)) (\<lambda>numi_action.
          bindM (if numi_action = JStr ''approve'' \<or> numi_action = JStr ''reject''
                 then bindM (liftE (py_get value ''approval_id'' (JStr []))) (\<lambda>approval_id.
                      call_agent_event env ''teams'' aad_object_id conversation_id approval_id numi_action)
                 else bindM (liftE (py_get activity ''text'' (JStr []))) (\<lambda>message.
                      call_agent_chat env ''teams'' aad_object_id conversation_id thread message)) (\<lambda>answer.
          bindM (liftE (cf_parse_reply env answer)) (\<lambda>rp.
          returnM (teams_reply (rp_text rp)))))))))))))"

definition teams_webhook :: "('w, 'k) channel_env \<Rightarrow> string \<Rightarrow> string option \<Rightarrow> ('w, json) channel_op" where
  "teams_webhook env raw_body authorization s =
     (case teams_verify env authorization s of
        (Inl e, s1) \<Rightarrow> (Inl (if e = PyExn ''TeamsAuthError'' then HTTPException 401 ''Invalid Teams bot token.'' else e), s1)
      | (Inr _, s1) \<Rightarrow> teams_activity env raw_body s1)"

definition alert_delivery :: "('w, 'k) channel_env \<Rightarrow> string \<Rightarrow> ('w, json) channel_op" where
  "alert_delivery env raw_body =
     bindM (liftE (case loads env raw_body of Inl e \<Rightarrow> Inl (HTTPException 400 ''Malformed alert payload.'') | Inr v \<Rightarrow> Inr v)) (\<lambda>payload.
     bindM (liftE (py_get payload ''alert_id'' JNull)) (\<lambda>alert_id.
     bindM (alert_already_seen env alert_id) (\<lambda>seen.
     if seen then returnM ok_json
     else bindM (liftE (py_get payload ''server'' (JStr []))) (\<lambda>server.
          if \<not> truthy server then raiseM (HTTPException 400 (quoted ''server'' @ '' is required.''))
          else bindM (liftE (py_get payload ''metric'' (JStr []))) (\<lambda>metric.
               bindM (liftE (py_get payload ''current_value'' (JStr []))) (\<lambda>current_value.
               bindM (liftE (py_get payload ''threshold'' (JStr []))) (\<lambda>threshold.
               bindM (liftE (py_get payload ''severity'' (JStr []))) (\<lambda>severity.
               bindM (liftE (py_get payload ''source'' (JStr []))) (\<lambda>source.
               bindM (liftE (py_get payload ''message'' (JStr []))) (\<lambda>message.
               bindM (call_agent_alert_trigger env
                        [(''server'', server), (''metric'', metric), (''current_value'', JStr (py_str current_value)),
                         (''threshold'', JStr (py_str threshold)), (''severity'', severity), (''source'', source),
                         (''message'', message)]) (\<lambda>result.
               bindM (liftE (py_get result ''ok'' JNull)) (\<lambda>ok.
               if truthy ok then returnM ok_json
               else bindM (liftE (py_get result ''error'' (JStr []))) (\<lambda>error.
                    returnM (JObj [(''ok'', JBool False), (''error'', error)]))))))))))))))"

definition alerts_webhook ::
    "('w, 'k) channel_env \<Rightarrow> string \<Rightarrow> string option \<Rightarrow> string option \<Rightarrow> ('w, json) channel_op" where
  "alerts_webhook env raw_body timestamp signature s =
     bindM (liftE (signed (verify_alert_signature (cf_hmac env) (cf_alert_webhook_secret env) raw_body timestamp signature
              (cf_time env (cn_world s))) (PyExn ''AlertSignatureError'') ''Invalid alert signature.'')) (\<lambda>_. alert_delivery env raw_body) s"

record NotifyRequest =
  nq_channel_id :: string
  nq_text :: string

definition require_notify_token :: "('w, 'k) channel_env \<Rightarrow> 'k option \<Rightarrow> int \<Rightarrow> unit result" where
  "require_notify_token env token now =
     (case token of
        None \<Rightarrow> Inl (HTTPException 401 ''Missing service token.'')
      | Some k \<Rightarrow>
          (case verify_token (cf_serializer env) (cf_jwt_secret env) (cf_jwt_issuer env) DEFAULT_MAX_AGE k ''numi-channels'' now of
             Inl e \<Rightarrow> Inl (HTTPException 401 ''Invalid service token.'')
           | Inr _ \<Rightarrow> Inr ()))"

definition notify :: "('w, 'k) channel_env \<Rightarrow> 'k option \<Rightarrow> NotifyRequest \<Rightarrow> ('w, json) channel_op" where
  "notify env token body s =
     bindM (liftE (require_notify_token env token (cf_now env (cn_world s)))) (\<lambda>_.
     let rp = \<lparr>rp_text = nq_text body, rp_status = ''ok'', rp_approval_card = None, rp_investigation_id = None,
               rp_approval_still_pending = False\<rparr>
     in bindM (post_message env (JStr (nq_channel_id body)) (rp_text rp) (render_reply_blocks rp)) (\<lambda>_. returnM ok_json)) s"

record DevChatRequest =
  dv_user :: string
  dv_message :: string
  dv_conversation_id :: string

definition dev_chat :: "('w, 'k) channel_env \<Rightarrow> DevChatRequest \<Rightarrow> ('w, json) channel_op" where
  "dev_chat env body =
     bindM (chan_world (cf_resolve env ''dev'' (JStr (dv_user body)))) (\<lambda>identity.
     if identity = None then raiseM (HTTPException 401 ''Unknown development user.'')
     else if \<not> is_team_member identity
     then returnM (JObj [(''text'', JStr ''This account isn't recognized as a DBA team member.''), (''status'', JStr ''denied'')])
     else call_agent_chat env ''dev'' (JStr (dv_user body)) (dv_conversation_id body) (JStr []) (JStr (dv_message body)))"

definition dev_chat_event :: "('w, 'k) channel_env \<Rightarrow> jdict \<Rightarrow> ('w, json) channel_op" where
  "dev_chat_event env body =
     bindM (liftE (py_item (JObj body) ''user'')) (\<lambda>user.
     bindM (liftE (py_get (JObj body) ''conversation_id'' (JStr ''dev-conversation''))) (\<lambda>conversation_id.
     bindM (liftE (py_item (JObj body) ''approval_id'')) (\<lambda>approval_id.
     bindM (liftE (py_item (JObj body) ''decision'')) (\<lambda>decision.
     call_agent env ''/v1/chat/events''
       [(''channel'', JStr ''dev''), (''channel_account_id'', user), (''conversation_id'', conversation_id),
        (''approval_id'', approval_id), (''decision'', decision)]))))"

end
