(* ===== verification/Alert_Trigger.thy ===== *)
theory Alert_Trigger
  imports Agent_Gateway Python_Text
begin

text \<open>
  Alert-triggered investigations (agent/alert_trigger.py): matching the server an alert names,
  the cooldown per server and metric on the shared counting backend, the problem statement that
  opens the investigation, and the delivery of its result. The publisher and the fields of
  \<open>str.format\<close> beyond plain ones are parameters; \<open>now\<close> is the reading of the backend's clock.
\<close>

section \<open>Alerts and outcomes\<close>

record AlertPayload =
  alert_server :: string
  alert_metric :: string
  alert_current_value :: string
  alert_threshold :: string
  alert_severity :: string
  alert_source :: string
  alert_message :: string

record AlertTriggerOutcome =
  ao_ok :: bool
  ao_text :: string
  ao_error :: string
  ao_suppressed :: bool

definition alert_failed :: "string \<Rightarrow> string \<Rightarrow> AlertTriggerOutcome" where
  "alert_failed said error = \<lparr>ao_ok = False, ao_text = said, ao_error = error, ao_suppressed = False\<rparr>"

definition alert_suppressed :: AlertTriggerOutcome where
  "alert_suppressed = \<lparr>ao_ok = True, ao_text = [], ao_error = [], ao_suppressed = True\<rparr>"

section \<open>The server of an alert (resolve_server)\<close>

definition alert_names :: "server_view \<Rightarrow> string list" where
  "alert_names s = filter (\<lambda>n. n \<noteq> []) (sv_id s # sv_aliases s)"

definition resolve_alert_server :: "string \<Rightarrow> server_view list \<Rightarrow> server_view option" where
  "resolve_alert_server server_ref servers =
     (let needle = normalize_server_reference server_ref
      in case filter (\<lambda>s. list_ex (\<lambda>n. normalize_server_reference n = needle) (alert_names s)) servers of
           [s] \<Rightarrow> Some s
         | _ \<Rightarrow> None)"

section \<open>Texts\<close>

definition backticked :: "string \<Rightarrow> string" where
  "backticked s = [CHR 0x60] @ s @ [CHR 0x60]"

definition alert_details :: "AlertPayload \<Rightarrow> string list" where
  "alert_details a =
     (if alert_metric a = [] then []
      else [''metric '' @ backticked (alert_metric a) @
            (if alert_current_value a = [] then [] else '' is currently '' @ alert_current_value a) @
            (if alert_threshold a = [] then [] else '' (threshold: '' @ alert_threshold a @ '')'')]) @
     (if alert_severity a = [] then [] else [''severity: '' @ alert_severity a]) @
     (if alert_source a = [] then [] else [''reported by: '' @ alert_source a]) @
     (if alert_message a = [] then [] else [''alert message: '' @ alert_message a])"

definition UNATTENDED_RULES :: string where
  "UNATTENDED_RULES =
     ''This is an unattended, proactive investigation with no DBA in the '' @
     ''conversation to answer a question or approve anything. Investigate this '' @
     ''specific alert and report findings and a recommendation as text only: '' @
     ''only read-only diagnostics are available to you here, and nothing you '' @
     ''propose will be executed, approved, or acted on automatically. If this '' @
     ''needs remediation, describe what you would recommend and why, for a DBA '' @
     ''to decide on '' @ em_dash @ '' never as an action you are taking. Do not ask a '' @
     ''clarifying question; nobody is there to answer it.''"

definition build_problem_statement :: "AlertPayload \<Rightarrow> string" where
  \<comment> \<open>a template: the server's id is filled in by \<open>format\<close>\<close>
  "build_problem_statement a =
     ''A monitoring alert fired for the {server_id} server '' @ em_dash @ '' '' @
     (if alert_details a = [] then ''no further detail was provided by the alert'' else join ''; '' (alert_details a)) @
     ''. '' @ UNATTENDED_RULES"

definition format_alert_result :: "AlertPayload \<Rightarrow> ScheduledSummary \<Rightarrow> string" where
  "format_alert_result a s =
     (let header = ''Numi alert-triggered investigation '' @ em_dash @ '' '' @ ss_server_id s @ '' ('' @ ss_environment s @ '')'';
          trigger_line = ''Triggered by: '' @ (if alert_metric a = [] then ''monitoring alert'' else alert_metric a) @
            (if alert_source a = [] then [] else '' via '' @ alert_source a)
      in if \<not> ss_ok s
         then header @ newline @ trigger_line @ newline @ newline @ ''Could not complete the investigation: '' @
              (if ss_error s = [] then ''unknown error'' else ss_error s) @ ''.''
         else join newline
           ([header, trigger_line, [], ss_text s] @
            (if ss_dropped_proposals s = [] then []
             else [newline @ ''(Numi would have proposed '' @
                   join '', '' (sort (remdups (filter (\<lambda>t. t \<noteq> []) (ss_dropped_proposals s)))) @
                   '' here. An alert-triggered investigation never executes an action '' @ em_dash @
                   '' treat this as a recommendation to act on, not something that was done.)''])))"

section \<open>Handling an alert (class AlertTriggerRunner)\<close>

record 'w alert_env =
  at_agent :: "'w agent_env"
  at_publish :: "string \<Rightarrow> string \<Rightarrow> ('w, exn, unit) comp"
  at_field :: "string \<Rightarrow> (string \<times> nat) result"
  alert_webhook_slack_channel :: string
  alert_webhook_identity_channel :: string
  alert_webhook_identity_account :: string
  alert_webhook_cooldown_seconds :: int

record 'w alert_state =
  at_buckets :: buckets
  at_world :: 'w

type_synonym ('w, 'a) alert_op = "('w alert_state, exn, 'a) comp"

definition alert_world :: "('w, exn, 'a) comp \<Rightarrow> ('w, 'a) alert_op" where
  "alert_world m = zoom at_world (\<lambda>w s. s\<lparr>at_world := w\<rparr>) m"

definition cooldown_key :: "string \<Rightarrow> AlertPayload \<Rightarrow> string" where
  "cooldown_key server_id a =
     ''alert-cooldown:'' @ server_id @ '':'' @ (if alert_metric a = [] then ''_'' else alert_metric a)"

definition within_budget :: "'w alert_env \<Rightarrow> int \<Rightarrow> string \<Rightarrow> ('w, bool) alert_op" where
  "within_budget env now key s =
     (if alert_webhook_cooldown_seconds env > 0
      then (case increment_and_check now key 1 (alert_webhook_cooldown_seconds env * 1000000) (at_buckets s) of
              (ok, b) \<Rightarrow> (Inr ok, s\<lparr>at_buckets := b\<rparr>))
      else (Inr True, s))"

definition publish_result :: "'w alert_env \<Rightarrow> string \<Rightarrow> ('w, AlertTriggerOutcome) alert_op" where
  "publish_result env said =
     bindM (attempt (alert_world (at_publish env (alert_webhook_slack_channel env) said))) (\<lambda>outcome.
     case outcome of
       Inl exc \<Rightarrow> returnM (alert_failed said ''Investigated, but could not deliver the result.'')
     | Inr _ \<Rightarrow> returnM \<lparr>ao_ok = True, ao_text = said, ao_error = [], ao_suppressed = False\<rparr>)"

definition investigate_alert :: "'w alert_env \<Rightarrow> AlertPayload \<Rightarrow> server_view \<Rightarrow> ('w, AlertTriggerOutcome) alert_op" where
  "investigate_alert env a server =
     bindM (liftE (str_format (at_field env) ''server_id'' (sv_id server) (build_problem_statement a))) (\<lambda>problem.
     bindM (alert_world (run_triggered_investigation (at_agent env) (sv_id server) (sv_environment server)
              (alert_webhook_identity_channel env) (alert_webhook_identity_account env) problem)) (\<lambda>summary.
     publish_result env (format_alert_result a summary)))"

definition handle_alert :: "'w alert_env \<Rightarrow> int \<Rightarrow> AlertPayload \<Rightarrow> ('w, AlertTriggerOutcome) alert_op" where
  "handle_alert env now a =
     (if alert_webhook_slack_channel env = []
      then returnM (alert_failed [] ''Alert-triggered investigation is not configured.'')
      else bindM (attempt (alert_world (http_servers (at_agent env)))) (\<lambda>outcome.
           case outcome of
             Inl exc \<Rightarrow> returnM (alert_failed [] ''The server registry was unreachable.'')
           | Inr servers \<Rightarrow>
               (case resolve_alert_server (alert_server a) servers of
                  None \<Rightarrow> returnM (alert_failed []
                    (quoted (alert_server a) @ '' does not match exactly one registered server id or alias.''))
                | Some server \<Rightarrow>
                    bindM (within_budget env now (cooldown_key (sv_id server) a)) (\<lambda>ok.
                    if ok then investigate_alert env a server
                    else returnM alert_suppressed))))"

section \<open>Nothing is written\<close>

lemma handle_alert_keeps:
  assumes servers: "preserves W (http_servers (at_agent env))" and publish: "\<And>c t. preserves W (at_publish env c t)"
    and run: "\<And>sv en ch acc p. preserves W (run_triggered_investigation (at_agent env) sv en ch acc p)"
  shows "preserves (\<lambda>s. W (at_world s)) (handle_alert env now a)"
proof -
  have lift: "preserves (\<lambda>s. W (at_world s)) (alert_world m)" if "preserves W m" for m :: "('a, exn, 'b) comp"
    using that unfolding alert_world_def by (intro preserves_zoom [where Q = W]) simp_all
  have budget: "preserves (\<lambda>s. W (at_world s)) (within_budget env now key)" for key
    by (simp add: preserves_def within_budget_def split: prod.split)
  have investigate: "preserves (\<lambda>s. W (at_world s)) (investigate_alert env a sv)" for sv
    unfolding investigate_alert_def publish_result_def
    by (intro preserve_intros preserves_sum preserves_attempt lift run publish)
  show ?thesis unfolding handle_alert_def
    by (intro preserve_intros preserves_sum preserves_option preserves_attempt lift servers budget investigate)
qed

theorem alerts_never_write:
  assumes "api_reachable (deployed env st) accounts (ww_gateway (at_world s))"
    and "at_agent ae = wired rest env st accounts calls" and "at_publish ae = (\<lambda>c t. on_rest (publish c t))"
    and "handle_alert ae now a s = (r, s')"
  shows "\<exists>sent. gs_sent (ww_gateway (at_world s')) = gs_sent (ww_gateway (at_world s)) @ sent \<and>
     (\<forall>er \<in> set sent. map_of READ_METHODS (ex_tool_id er) \<noteq> None \<and> map_of WRITE_METHODS (ex_tool_id er) = None \<and>
        map_of restricted_dispatch (ex_tool_id er) = None)"
proof -
  let ?W = "only_reads_since (gs_sent (ww_gateway (at_world s)))"
  have start: "?W (at_world s)" using api_reachable_inv [OF assms(1)] by (simp add: only_reads_since_def)
  have "preserves (\<lambda>s. ?W (at_world s)) (handle_alert ae now a)"
    by (rule handle_alert_keeps)
       (simp_all add: assms(2,3) run_triggered_investigation_def gateway.keeps_servers gateway.unattended_world on_rest_keeps)
  from preservesD [OF this start assms(4)] show ?thesis
    using diagnostic_dispatch unfolding only_reads_since_def by blast
qed

section \<open>The cooldown\<close>

fun handle_alerts :: "'w alert_env \<Rightarrow> (int \<times> AlertPayload) list \<Rightarrow> 'w alert_state \<Rightarrow> 'w alert_state" where
  \<comment> \<open>alerts handled one after the other, each with the clock's reading\<close>
  "handle_alerts env [] s = s"
| "handle_alerts env ((now, a) # as) s = handle_alerts env as (snd (handle_alert env now a s))"

definition counted :: "buckets \<Rightarrow> bool" where
  "counted b \<longleftrightarrow> (\<forall>k n t. b k = Some (n, t) \<longrightarrow> 1 \<le> n)"

definition cooling :: "string \<Rightarrow> int \<Rightarrow> buckets \<Rightarrow> bool" where
  \<comment> \<open>the key's window opened at \<open>t\<close> and has counted a call\<close>
  "cooling key t b \<longleftrightarrow> (\<exists>n \<ge> 1. b key = Some (n, t))"

lemma counted_increment: "counted b \<Longrightarrow> counted (snd (increment_and_check now key lim window b))"
  by (fastforce simp: counted_def increment_and_check_def Let_def split: option.splits if_splits)

lemma increment_other: "key' \<noteq> key \<Longrightarrow> snd (increment_and_check now key' lim window b) key = b key"
  by (simp add: increment_and_check_def Let_def split: prod.split)

lemma cooling_increment:
  "cooling key t b \<Longrightarrow> now < t + window \<Longrightarrow> cooling key t (snd (increment_and_check now key' lim window b))"
  by (cases "key' = key") (auto simp: cooling_def increment_other, auto simp: increment_and_check_def Let_def)

lemma cooling_refuses: "cooling key t b \<Longrightarrow> now < t + window \<Longrightarrow> \<not> fst (increment_and_check now key 1 window b)"
  by (auto simp: cooling_def increment_and_check_def)

lemma granted_cools:
  assumes "counted b" and "fst (increment_and_check now key 1 window b)"
  shows "cooling key now (snd (increment_and_check now key 1 window b))"
proof (cases "b key")
  case None
  with assms show ?thesis by (auto simp: cooling_def increment_and_check_def Let_def split: if_splits)
next
  case (Some c)
  with assms show ?thesis
    by (cases c) (fastforce simp: counted_def cooling_def increment_and_check_def Let_def split: if_splits)
qed

lemma alert_world_buckets: "preserves (\<lambda>s. at_buckets s = b) (alert_world m)"
  by (simp add: preserves_def alert_world_def zoom_def split: prod.split)

lemma investigate_buckets: "at_buckets (snd (investigate_alert env a server s)) = at_buckets s"
proof -
  have "preserves (\<lambda>t. at_buckets t = at_buckets s) (investigate_alert env a server)"
    unfolding investigate_alert_def publish_result_def
    by (intro preserve_intros preserves_sum preserves_attempt alert_world_buckets)
  then show ?thesis by (simp add: preserves_def)
qed

lemma handle_alert_eq:
  assumes "alert_webhook_slack_channel env \<noteq> []" and "http_servers (at_agent env) (at_world s) = (Inr servers, w1)"
    and "resolve_alert_server (alert_server a) servers = Some server"
  shows "handle_alert env now a s =
     (case within_budget env now (cooldown_key (sv_id server) a) (s\<lparr>at_world := w1\<rparr>) of
        (Inl e, s1) \<Rightarrow> (Inl e, s1)
      | (Inr ok, s1) \<Rightarrow> if ok then investigate_alert env a server s1
          else (Inr alert_suppressed, s1))"
  using assms
  by (simp add: handle_alert_def bindM_def attempt_def alert_world_def zoom_def split: prod.split sum.split)

lemma handle_alert_buckets:
  assumes "0 < alert_webhook_cooldown_seconds env"
  obtains "at_buckets (snd (handle_alert env now a s)) = at_buckets s"
  | key where "at_buckets (snd (handle_alert env now a s)) =
      snd (increment_and_check now key 1 (alert_webhook_cooldown_seconds env * 1000000) (at_buckets s))"
proof (cases "alert_webhook_slack_channel env = []")
  case True
  then have "at_buckets (snd (handle_alert env now a s)) = at_buckets s" by (simp add: handle_alert_def)
  then show ?thesis by (rule that(1))
next
  case False
  obtain r w1 where r: "http_servers (at_agent env) (at_world s) = (r, w1)" by fastforce
  show ?thesis
  proof (cases "\<exists>servers server. r = Inr servers \<and> resolve_alert_server (alert_server a) servers = Some server")
    case True
    then obtain servers server where x: "r = Inr servers" "resolve_alert_server (alert_server a) servers = Some server" by blast
    let ?i = "increment_and_check now (cooldown_key (sv_id server) a) 1 (alert_webhook_cooldown_seconds env * 1000000) (at_buckets s)"
    have "within_budget env now (cooldown_key (sv_id server) a) (s\<lparr>at_world := w1\<rparr>) =
        (Inr (fst ?i), s\<lparr>at_world := w1, at_buckets := snd ?i\<rparr>)"
      using assms by (simp add: within_budget_def split: prod.split)
    then have "at_buckets (snd (handle_alert env now a s)) = snd ?i"
      using handle_alert_eq [OF False r [unfolded x(1)] x(2), of now] by (simp add: investigate_buckets)
    then show ?thesis by (rule that(2))
  next
    case other: False
    then have "at_buckets (snd (handle_alert env now a s)) = at_buckets s"
      using False r
      by (auto simp: handle_alert_def bindM_def attempt_def alert_world_def zoom_def split: sum.split option.split)
    then show ?thesis by (rule that(1))
  qed
qed

lemma handle_alerts_counted:
  "0 < alert_webhook_cooldown_seconds env \<Longrightarrow> counted (at_buckets s) \<Longrightarrow> counted (at_buckets (handle_alerts env as s))"
proof (induction as arbitrary: s)
  case (Cons x as)
  obtain now a where x: "x = (now, a)" by fastforce
  from Cons.prems(1) have "counted (at_buckets (snd (handle_alert env now a s)))"
    by (cases rule: handle_alert_buckets [of env now a s]) (use Cons.prems(2) counted_increment in auto)
  with Cons x show ?case by simp
qed simp

lemma handle_alerts_cooling:
  assumes "0 < alert_webhook_cooldown_seconds env" and "cooling key t (at_buckets s)"
    and "\<forall>x \<in> set as. fst x < t + alert_webhook_cooldown_seconds env * 1000000"
  shows "cooling key t (at_buckets (handle_alerts env as s))"
  using assms(2,3)
proof (induction as arbitrary: s)
  case (Cons x as)
  obtain now a where x: "x = (now, a)" by fastforce
  from assms(1) have "cooling key t (at_buckets (snd (handle_alert env now a s)))"
    by (cases rule: handle_alert_buckets [of env now a s]) (use Cons.prems cooling_increment x in auto)
  with Cons x show ?case by simp
qed simp

lemma handle_alert_suppressed:
  assumes "alert_webhook_slack_channel env \<noteq> []" and "0 < alert_webhook_cooldown_seconds env"
    and "http_servers (at_agent env) (at_world s) = (Inr servers, w1)"
    and "resolve_alert_server (alert_server a) servers = Some server"
    and "cooling (cooldown_key (sv_id server) a) t (at_buckets s)"
    and "now < t + alert_webhook_cooldown_seconds env * 1000000"
  shows "\<exists>s'. handle_alert env now a s =
      (Inr alert_suppressed, s') \<and> at_world s' = w1"
  using handle_alert_eq [OF assms(1,3,4), of now] cooling_refuses [OF assms(5,6)] assms(2)
  by (auto simp: within_budget_def split: prod.splits)

lemma investigate_not_suppressed: "fst (investigate_alert env a server s) \<noteq> Inr alert_suppressed"
  by (auto simp: investigate_alert_def publish_result_def bindM_def alert_suppressed_def alert_failed_def attempt_def
      split: prod.splits sum.splits)

lemma handle_alert_cools:
  assumes "alert_webhook_slack_channel env \<noteq> []" and "0 < alert_webhook_cooldown_seconds env"
    and "http_servers (at_agent env) (at_world s) = (Inr servers, w1)"
    and "resolve_alert_server (alert_server a) servers = Some server" and "counted (at_buckets s)"
    and "handle_alert env now a s = (r, s')" and "r \<noteq> Inr alert_suppressed"
  shows "cooling (cooldown_key (sv_id server) a) now (at_buckets s')"
proof -
  let ?i = "increment_and_check now (cooldown_key (sv_id server) a) 1 (alert_webhook_cooldown_seconds env * 1000000) (at_buckets s)"
  have "within_budget env now (cooldown_key (sv_id server) a) (s\<lparr>at_world := w1\<rparr>) =
      (Inr (fst ?i), s\<lparr>at_world := w1, at_buckets := snd ?i\<rparr>)"
    using assms(2) by (simp add: within_budget_def split: prod.split)
  then have step: "(r, s') = (if fst ?i then investigate_alert env a server (s\<lparr>at_world := w1, at_buckets := snd ?i\<rparr>)
      else (Inr alert_suppressed, s\<lparr>at_world := w1, at_buckets := snd ?i\<rparr>))"
    using handle_alert_eq [OF assms(1,3,4), of now] assms(6) by simp
  with assms(7) have ok: "fst ?i" by (auto split: if_splits)
  with step have "at_buckets s' = snd ?i"
    using investigate_buckets [of env a server "s\<lparr>at_world := w1, at_buckets := snd ?i\<rparr>"] by (simp add: prod_eq_iff)
  with granted_cools [OF assms(5) ok] show ?thesis by simp
qed

text \<open>
  C16. A flapping metric is investigated once per cooldown: after the runner has handled any
  alerts since its start, let it take up an alert on a registered server, that is, answer anything
  but \<open>suppressed\<close>, or raise. Whatever other alerts it handles until the cooldown has passed,
  another alert on the same server and metric in that time is suppressed, and all that happens is
  that the registered servers are listed.
\<close>

theorem alert_cooldown:
  assumes "alert_webhook_slack_channel env \<noteq> []" and "0 < alert_webhook_cooldown_seconds env"
    and "s = handle_alerts env earlier \<lparr>at_buckets = Map.empty, at_world = w\<rparr>"
    and "http_servers (at_agent env) (at_world s) = (Inr servers, w1)"
    and "resolve_alert_server (alert_server a) servers = Some server"
    and "handle_alert env t a s = (r, s1)" and "r \<noteq> Inr alert_suppressed"
    and "\<forall>x \<in> set later. fst x < t + alert_webhook_cooldown_seconds env * 1000000"
    and "http_servers (at_agent env) (at_world (handle_alerts env later s1)) = (Inr servers', w2)"
    and "resolve_alert_server (alert_server a') servers' = Some server'"
    and "sv_id server' = sv_id server" and "alert_metric a' = alert_metric a"
    and "t' < t + alert_webhook_cooldown_seconds env * 1000000"
  shows "\<exists>s2. handle_alert env t' a' (handle_alerts env later s1) = (Inr alert_suppressed, s2) \<and> at_world s2 = w2"
proof -
  have "counted (at_buckets s)" unfolding assms(3) by (rule handle_alerts_counted [OF assms(2)]) (simp add: counted_def)
  from handle_alert_cools [OF assms(1,2,4,5) this assms(6,7)]
  have "cooling (cooldown_key (sv_id server) a) t (at_buckets (handle_alerts env later s1))"
    by (rule handle_alerts_cooling [OF assms(2) _ assms(8)])
  then have "cooling (cooldown_key (sv_id server') a') t (at_buckets (handle_alerts env later s1))"
    unfolding cooldown_key_def assms(11,12) .
  from handle_alert_suppressed [OF assms(1,2,9,10) this assms(13)] show ?thesis .
qed

definition demo_alerts :: "nat alert_env" where
  "demo_alerts =
     \<lparr>at_agent = demo_rest, at_publish = (\<lambda>c t n. (Inr (), n)), at_field = (\<lambda>s. Inl (PyExn ''ValueError'')),
      alert_webhook_slack_channel = ''C1'', alert_webhook_identity_channel = ''slack'',
      alert_webhook_identity_account = ''U1'', alert_webhook_cooldown_seconds = 900\<rparr>"

definition demo_alert :: "string \<Rightarrow> AlertPayload" where
  "demo_alert message =
     \<lparr>alert_server = ''DB-01'', alert_metric = ''cpu'', alert_current_value = [], alert_threshold = [],
      alert_severity = [], alert_source = [], alert_message = message\<rparr>"

lemma demo_alert_resolves:
  "\<exists>servers server. http_servers (at_agent demo_alerts) n = (Inr servers, n) \<and>
     resolve_alert_server (alert_server (demo_alert m)) servers = Some server \<and> sv_id server = ''db1''"
  by (auto simp: demo_alerts_def demo_rest_def demo_alert_def resolve_alert_server_def alert_names_def Let_def)
     code_simp

theorem alert_cooldown_witness:
  "\<exists>s1 s2. snd (handle_alert demo_alerts 0 (demo_alert []) \<lparr>at_buckets = Map.empty, at_world = 0\<rparr>) = s1 \<and>
     handle_alert demo_alerts 60000000 (demo_alert ''again'') s1 = (Inr alert_suppressed, s2)"
proof -
  let ?s = "\<lparr>at_buckets = Map.empty, at_world = 0\<rparr> :: nat alert_state"
  obtain r s1 where first: "handle_alert demo_alerts 0 (demo_alert []) ?s = (r, s1)" by fastforce
  obtain servers server where sv: "http_servers (at_agent demo_alerts) (at_world ?s) = (Inr servers, 0)"
      "resolve_alert_server (alert_server (demo_alert [])) servers = Some server" "sv_id server = ''db1''"
    using demo_alert_resolves [of 0 "[]"] by auto
  obtain servers' server' where sv': "http_servers (at_agent demo_alerts) (at_world (handle_alerts demo_alerts [] s1)) = (Inr servers', at_world s1)"
      "resolve_alert_server (alert_server (demo_alert ''again'')) servers' = Some server'" "sv_id server' = ''db1''"
    using demo_alert_resolves [of "at_world s1" "''again''"] by auto
  have conf: "alert_webhook_slack_channel demo_alerts \<noteq> []" "0 < alert_webhook_cooldown_seconds demo_alerts"
    by (simp_all add: demo_alerts_def)
  have "r \<noteq> Inr alert_suppressed"
    using first handle_alert_eq [OF conf(1) sv(1,2), of 0] investigate_not_suppressed [of demo_alerts "demo_alert []" server] conf(2)
    by (auto simp: within_budget_def increment_and_check_def split: if_splits) (metis fst_conv)
  moreover have "alert_metric (demo_alert ''again'') = alert_metric (demo_alert [])" by (simp add: demo_alert_def)
  moreover have "60000000 < 0 + alert_webhook_cooldown_seconds demo_alerts * 1000000" by (simp add: demo_alerts_def)
  ultimately have "\<exists>s2. handle_alert demo_alerts 60000000 (demo_alert ''again'') (handle_alerts demo_alerts [] s1) =
      (Inr alert_suppressed, s2) \<and> at_world s2 = at_world s1"
    using sv sv' by (intro alert_cooldown [OF conf _ sv(1,2) first _ _ sv'(1,2), of "[]" 0]) simp_all
  then show ?thesis using first by auto
qed

section \<open>An alert that quotes braces\<close>

lemma join_last: "\<exists>pre. join sep (ds @ [x]) = pre @ x \<and> (brace_free sep \<and> list_all brace_free ds \<longrightarrow> brace_free pre)"
proof (induction ds)
  case (Cons d ds)
  then obtain pre where "join sep (ds @ [x]) = pre @ x" "brace_free sep \<and> list_all brace_free ds \<longrightarrow> brace_free pre" by blast
  then show ?case by (cases "ds @ [x]") (auto intro!: exI [of _ "d @ sep @ pre"])
qed (auto intro: exI [of _ "[]"])

lemma problem_quotes_message:
  assumes "brace_free (alert_metric a @ alert_current_value a @ alert_threshold a @ alert_severity a @ alert_source a)"
    and "alert_message a \<noteq> []"
  shows "\<exists>pre. brace_free pre \<and> build_problem_statement a =
     ''A monitoring alert fired for the '' @ ''{server_id}'' @ pre @ alert_message a @ ''. '' @ UNATTENDED_RULES"
proof -
  obtain ds where ds: "alert_details a = ds @ [''alert message: '' @ alert_message a]" "list_all brace_free ds"
    using assms by (auto simp: alert_details_def backticked_def)
  obtain pre where "join ''; '' (ds @ [''alert message: '' @ alert_message a]) = pre @ ''alert message: '' @ alert_message a" "brace_free pre"
    using join_last [of "''; ''" ds "''alert message: '' @ alert_message a"] ds(2) by auto
  then show ?thesis using ds(1)
    by (auto simp: build_problem_statement_def em_dash_def intro!: exI [of _ "'' server '' @ em_dash @ '' '' @ pre @ ''alert message: ''"])
qed

lemma problem_raises:
  assumes "brace_free (alert_metric a @ alert_current_value a @ alert_threshold a @ alert_severity a @ alert_source a)"
    and "alert_message a = before @ ''{'' @ name @ ''}'' @ after" and "brace_free before"
    and "list_all (\<lambda>x. \<not> field_stop x) name" and "name \<noteq> ''server_id''"
  shows "\<exists>e \<in> {''KeyError'', ''IndexError''}. str_format other ''server_id'' v (build_problem_statement a) = Inl (PyExn e)"
proof -
  let ?m = "CHR ''{'' # name @ CHR ''}'' # after @ ''. '' @ UNATTENDED_RULES"
  obtain pre where pre: "brace_free pre" "build_problem_statement a =
      ''A monitoring alert fired for the '' @ ''{server_id}'' @ pre @ alert_message a @ ''. '' @ UNATTENDED_RULES"
    using problem_quotes_message [OF assms(1)] assms(2) by auto
  have field: "str_format other ''server_id'' v ?m = Inl (PyExn (if list_all is_digit name then ''IndexError'' else ''KeyError''))"
    using assms(5) by (simp add: str_format_field [OF assms(4)])
  have "build_problem_statement a = ''A monitoring alert fired for the '' @ CHR ''{'' # ''server_id'' @ CHR ''}'' # (pre @ before) @ ?m"
    unfolding pre(2) assms(2) by simp
  then have "str_format other ''server_id'' v (build_problem_statement a) =
      bindE (str_format other ''server_id'' v (CHR ''{'' # ''server_id'' @ CHR ''}'' # (pre @ before) @ ?m))
        (\<lambda>u. Inr (''A monitoring alert fired for the '' @ u))"
    by (simp only:) (rule str_format_literal, simp)
  also have "str_format other ''server_id'' v (CHR ''{'' # ''server_id'' @ CHR ''}'' # (pre @ before) @ ?m) =
      bindE (str_format other ''server_id'' v ((pre @ before) @ ?m)) (\<lambda>u. Inr (v @ u))"
    by (subst str_format_field) (simp_all add: field_stop_def)
  also have "str_format other ''server_id'' v ((pre @ before) @ ?m) =
      bindE (str_format other ''server_id'' v ?m) (\<lambda>u. Inr ((pre @ before) @ u))"
    by (rule str_format_literal) (use pre(1) assms(3) in simp)
  finally show ?thesis unfolding field by auto
qed

text \<open>
  An alert whose message quotes a name in braces, as label sets of monitoring systems do, is
  lost: its problem statement is filled in with \<open>format\<close>, which takes the braces for a field of
  its own and raises. Nothing is investigated or delivered, but the cooldown has started: every
  alert on that server and metric is suppressed until it has passed.
\<close>

theorem alert_braces_lost:
  assumes "alert_webhook_slack_channel env \<noteq> []" and "0 < alert_webhook_cooldown_seconds env"
    and "http_servers (at_agent env) (at_world s) = (Inr servers, w1)"
    and "resolve_alert_server (alert_server a) servers = Some server"
    and "at_buckets s (cooldown_key (sv_id server) a) = None"
    and "brace_free (alert_metric a @ alert_current_value a @ alert_threshold a @ alert_severity a @ alert_source a)"
    and "alert_message a = before @ ''{'' @ name @ ''}'' @ after" and "brace_free before"
    and "list_all (\<lambda>x. \<not> field_stop x) name" and "name \<noteq> ''server_id''"
    and "http_servers (at_agent env) w1 = (Inr servers', w2)"
    and "resolve_alert_server (alert_server a') servers' = Some server'"
    and "sv_id server' = sv_id server" and "alert_metric a' = alert_metric a"
    and "t' < t + alert_webhook_cooldown_seconds env * 1000000"
  shows "\<exists>e s1 s2. handle_alert env t a s = (Inl (PyExn e), s1) \<and> e \<in> {''KeyError'', ''IndexError''} \<and>
     at_world s1 = w1 \<and> handle_alert env t' a' s1 = (Inr alert_suppressed, s2) \<and> at_world s2 = w2"
proof -
  let ?key = "cooldown_key (sv_id server) a"
  let ?s1 = "s\<lparr>at_world := w1, at_buckets := (at_buckets s)(?key \<mapsto> (1, t))\<rparr>"
  obtain e where e: "e \<in> {''KeyError'', ''IndexError''}"
      "str_format (at_field env) ''server_id'' (sv_id server) (build_problem_statement a) = Inl (PyExn e)"
    using problem_raises [OF assms(6-10)] by blast
  have "within_budget env t ?key (s\<lparr>at_world := w1\<rparr>) = (Inr True, ?s1)"
    using assms(2,5) by (simp add: within_budget_def increment_and_check_def)
  then have first: "handle_alert env t a s = (Inl (PyExn e), ?s1)"
    by (simp add: handle_alert_eq [OF assms(1,3,4)] investigate_alert_def e(2))
  have "cooling (cooldown_key (sv_id server') a') t (at_buckets ?s1)"
    unfolding cooldown_key_def assms(13,14) by (simp add: cooling_def cooldown_key_def)
  from handle_alert_suppressed [OF assms(1,2) _ assms(12) this assms(15)] assms(11) first e(1) show ?thesis by fastforce
qed

theorem alert_braces_lost_witness:
  "\<exists>e s1 s2. handle_alert demo_alerts 0 (demo_alert ''up{job} is 0'') \<lparr>at_buckets = Map.empty, at_world = 0\<rparr> = (Inl (PyExn e), s1) \<and>
     handle_alert demo_alerts 1 (demo_alert []) s1 = (Inr alert_suppressed, s2)"
proof -
  let ?s = "\<lparr>at_buckets = Map.empty, at_world = 0\<rparr> :: nat alert_state"
  let ?a = "demo_alert ''up{job} is 0''"
  obtain servers server where sv: "http_servers (at_agent demo_alerts) (at_world ?s) = (Inr servers, 0)"
      "resolve_alert_server (alert_server ?a) servers = Some server" "sv_id server = ''db1''"
    using demo_alert_resolves [of 0 "''up{job} is 0''"] by auto
  obtain servers' server' where sv': "http_servers (at_agent demo_alerts) 0 = (Inr servers', 0)"
      "resolve_alert_server (alert_server (demo_alert [])) servers' = Some server'" "sv_id server' = ''db1''"
    using demo_alert_resolves [of 0 "[]"] by auto
  have conf: "alert_webhook_slack_channel demo_alerts \<noteq> []" "0 < alert_webhook_cooldown_seconds demo_alerts"
    "1 < 0 + alert_webhook_cooldown_seconds demo_alerts * 1000000" by (simp_all add: demo_alerts_def)
  have quiet: "brace_free (alert_metric ?a @ alert_current_value ?a @ alert_threshold ?a @ alert_severity ?a @ alert_source ?a)"
    and said: "alert_message ?a = ''up'' @ ''{'' @ ''job'' @ ''}'' @ '' is 0''"
    and metric: "alert_metric (demo_alert []) = alert_metric ?a" by (simp_all add: demo_alert_def)
  have "\<exists>e s1 s2. handle_alert demo_alerts 0 ?a ?s = (Inl (PyExn e), s1) \<and> e \<in> {''KeyError'', ''IndexError''} \<and>
     at_world s1 = 0 \<and> handle_alert demo_alerts 1 (demo_alert []) s1 = (Inr alert_suppressed, s2) \<and> at_world s2 = 0"
    using sv sv' by (intro alert_braces_lost [OF conf(1,2) sv(1,2) _ quiet said _ _ _ sv'(1,2) _ metric conf(3)])
      (simp_all add: field_stop_def)
  then show ?thesis by blast
qed

end
