(* ===== verification/Agent_Api.thy ===== *)
theory Agent_Api
  imports Agent_Conversation Alert_Trigger Service_Auth
begin

text \<open>
  The Agent's HTTP surface (agent/api/app.py): the token of the channel adapters and the three
  routes, on the service's state: its conversations, the cooldown counters and the outside world.
\<close>

section \<open>State and requests\<close>

record 'w agent_service =
  ag_conversations :: ContextManager
  ag_buckets :: buckets
  ag_world :: 'w

record ('w, 'k) agent_api_env =
  aa_chat :: "'w chat_env"
  aa_alerts :: "'w alert_env"
  aa_serializer :: "'k serializer"
  aa_jwt_secret :: string
  aa_jwt_issuer :: string
  aa_token_now :: "'w \<Rightarrow> int"
  aa_cooldown_now :: "'w \<Rightarrow> int"

record ChatRequest =
  cr_channel :: string
  cr_channel_account_id :: string
  cr_conversation_id :: string
  cr_channel_thread_id :: string
  cr_message :: string

record ApprovalEventRequest =
  av_channel :: string
  av_channel_account_id :: string
  av_conversation_id :: string
  av_approval_id :: string
  av_decision :: string

record AlertTriggerResponse =
  atr_ok :: bool
  atr_error :: string

definition on_memory :: "('w agent_memory, exn, 'a) comp \<Rightarrow> ('w agent_service, exn, 'a) comp" where
  "on_memory m s =
     (case m \<lparr>am_conversations = ag_conversations s, am_world = ag_world s\<rparr> of
        (r, t) \<Rightarrow> (r, s\<lparr>ag_conversations := am_conversations t, ag_world := am_world t\<rparr>))"

definition on_alerts :: "('w, 'a) alert_op \<Rightarrow> ('w agent_service, exn, 'a) comp" where
  "on_alerts m s =
     (case m \<lparr>at_buckets = ag_buckets s, at_world = ag_world s\<rparr> of
        (r, t) \<Rightarrow> (r, s\<lparr>ag_buckets := at_buckets t, ag_world := at_world t\<rparr>))"

section \<open>Routes\<close>

definition require_channel_service_token :: "('w, 'k) agent_api_env \<Rightarrow> 'k option \<Rightarrow> ('w agent_service, exn, unit) comp" where
  "require_channel_service_token env token s =
     (case token of
        None \<Rightarrow> (Inl (HTTPException 401 ''Missing service token.''), s)
      | Some k \<Rightarrow>
          (case verify_token (aa_serializer env) (aa_jwt_secret env) (aa_jwt_issuer env) DEFAULT_MAX_AGE k ''numi-agent''
                  (aa_token_now env (ag_world s)) of
             Inl e \<Rightarrow> (Inl (HTTPException 401 ''Invalid service token.''), s)
           | Inr _ \<Rightarrow> (Inr (), s)))"

definition chat_route :: "('w, 'k) agent_api_env \<Rightarrow> 'k option \<Rightarrow> ChatRequest \<Rightarrow> ('w agent_service, exn, AgentReply) comp" where
  "chat_route env token body =
     bindM (require_channel_service_token env token) (\<lambda>_.
     on_memory (handle_message (aa_chat env) (cr_channel body) (cr_channel_account_id body) (cr_conversation_id body)
       (cr_channel_thread_id body) (cr_message body)))"

definition chat_events :: "('w, 'k) agent_api_env \<Rightarrow> 'k option \<Rightarrow> ApprovalEventRequest \<Rightarrow> ('w agent_service, exn, AgentReply) comp" where
  \<comment> \<open>the decision is a free text; only \<open>reject\<close> is compared with\<close>
  "chat_events env token body =
     bindM (require_channel_service_token env token) (\<lambda>_.
     on_memory (handle_approval_decision (aa_chat env) (av_conversation_id body) (av_decision body \<noteq> ''reject'')
       (av_channel body) (av_channel_account_id body)))"

definition alerts_trigger :: "('w, 'k) agent_api_env \<Rightarrow> 'k option \<Rightarrow> AlertPayload \<Rightarrow> ('w agent_service, exn, AlertTriggerResponse) comp" where
  "alerts_trigger env token body =
     bindM (require_channel_service_token env token) (\<lambda>_ s.
     bindM (on_alerts (handle_alert (aa_alerts env) (aa_cooldown_now env (ag_world s)) body)) (\<lambda>outcome.
     returnM \<lparr>atr_ok = ao_ok outcome, atr_error = ao_error outcome\<rparr>) s)"

section \<open>What the routes do without a token\<close>

lemma token_required:
  "require_channel_service_token env token s = (Inr (), s') \<Longrightarrow>
     s' = s \<and> (\<exists>k i. token = Some k \<and> verify_token (aa_serializer env) (aa_jwt_secret env) (aa_jwt_issuer env) DEFAULT_MAX_AGE k
        ''numi-agent'' (aa_token_now env (ag_world s)) = Inr i)"
  by (auto simp: require_channel_service_token_def split: option.splits sum.splits)

lemma token_refused: "require_channel_service_token env token s = (Inl e, s') \<Longrightarrow> s' = s \<and> (\<exists>d. e = HTTPException 401 d)"
  by (auto simp: require_channel_service_token_def split: option.splits sum.splits)

theorem unauthenticated_calls_do_nothing:
  assumes "require_channel_service_token env token s = (Inl e, t)"
  shows "chat_route env token c s = (Inl e, s)" and "chat_events env token a s = (Inl e, s)"
    and "alerts_trigger env token p s = (Inl e, s)"
  using token_refused [OF assms] assms
  by (simp_all add: chat_route_def chat_events_def alerts_trigger_def bindM_def)

section \<open>A decision on another conversation\<close>

lemma no_pending_decision:
  assumes "\<And>st. map_of (am_conversations s) i = Some st \<Longrightarrow> cs_pending_approval st = None"
  shows "\<exists>s' rp. handle_approval_decision env i approve channel account s = (Inr rp, s') \<and> rp_status rp = ''error'' \<and>
     rp_text rp = ''There is no pending approval on this conversation.'' \<and> am_world s' = am_world s \<and>
     (\<forall>j. j \<noteq> i \<longrightarrow> map_of (am_conversations s') j = map_of (am_conversations s) j)"
proof -
  obtain st cs where g: "get_or_create (am_conversations s) i channel [] account (ae_now (cx_agent env) (am_world s)) = (st, cs)"
    by fastforce
  have "cs_pending_approval st = None"
    using g assms by (auto simp: get_or_create_def new_conversation_def Let_def split: option.splits)
  moreover have "j \<noteq> i \<Longrightarrow> map_of cs j = map_of (am_conversations s) j" for j
    using g by (auto simp: get_or_create_def Let_def split: option.splits)
  ultimately show ?thesis
    by (auto simp: handle_approval_decision_def in_conversation_def g decide_pending_def chat_state_def say_as_def reply_def bindM_def)
qed

end
