(* ===== verification/Channel_Guarantees.thy ===== *)
theory Channel_Guarantees
  imports Channels Agent_Api
begin

text \<open>
  What the channel adapters guarantee: a webhook does nothing before its sender is authenticated, a
  retried delivery is handled once, an approval card's buttons disappear with its decision; and
  what they do not: the route of the buttons checks no signature, and a card in an unthreaded
  conversation can only be decided by the person who asked for it.
\<close>

section \<open>Authenticated senders\<close>

lemma check_signature_Inr:
  assumes "check_signature rejected timestamp signature now computed = Inr ()"
  shows "\<exists>t ts. timestamp = Some t \<and> int_of_text t = Inr ts \<and> \<bar>now - of_int ts\<bar> \<le> MAX_CLOCK_SKEW_SECONDS \<and>
     signature = Some (computed t)"
  using assms
  by (cases timestamp; cases signature)
     (auto simp: check_signature_def nonempty_def opt_or_def compare_digest_def not_less split: if_splits sum.splits)

lemma signed_Inr: "signed verdict rejected detail = Inr () \<Longrightarrow> verdict = Inr ()"
  by (auto simp: signed_def split: sum.splits)

lemma gate_first: "bindM (liftE g) f s = (r, s') \<Longrightarrow> s' = s \<or> g = Inr ()"
  by (cases g) (auto simp: bindM_def)

lemma bearer_Inr: "bearer_of h = Inr token \<Longrightarrow> \<exists>t. h = Some (''Bearer '' @ t) \<and> token = strip t"
  by (auto simp: bearer_of_def nonempty_def opt_or_def removeprefix_def prefix_def split: option.splits if_splits)

lemma chan_world_frame:
  "chan_world m s = (r, s') \<Longrightarrow> s' = s\<lparr>cn_world := cn_world s'\<rparr> \<and> m (cn_world s) = (r, cn_world s')"
  by (auto simp: chan_world_def zoom_def split: prod.splits)

text \<open>
  C11. The Slack events route, the alerts route and the Teams route act only for an authenticated
  sender. When a Slack event or an alert changes anything at all, be it the service's caches or the
  outside world, its signature header is the code computed from the service's secret over exactly
  this body and the timestamp header, the timestamp is at most five minutes off the clock, and, for
  alerts, a secret is configured. The Teams route checks a bearer token and no freshness of its
  own: outside production an activity that changes anything carries the configured password; in
  production it carries a token that the token library was asked about, and when the library
  refuses it nothing but that question has happened. The route of Slack's buttons is not covered.
\<close>

theorem webhooks_authenticated:
  "(slack_webhook env body timestamp signature s = (r, s') \<and> s' \<noteq> s \<longrightarrow>
      (\<exists>t ts. timestamp = Some t \<and> int_of_text t = Inr ts \<and> \<bar>cf_time env (cn_world s) - of_int ts\<bar> \<le> 300 \<and>
         signature = Some (''v0='' @ cf_hmac env (cf_slack_signing_secret env) (''v0:'' @ t @ '':'' @ body)))) \<and>
   (alerts_webhook env body timestamp signature s = (r, s') \<and> s' \<noteq> s \<longrightarrow>
      cf_alert_webhook_secret env \<noteq> [] \<and>
      (\<exists>t ts. timestamp = Some t \<and> int_of_text t = Inr ts \<and> \<bar>cf_time env (cn_world s) - of_int ts\<bar> \<le> 300 \<and>
         signature = Some (''sha256='' @ cf_hmac env (cf_alert_webhook_secret env) (t @ ''.'' @ body)))) \<and>
   (teams_webhook env body authorization s = (r, s') \<and> s' \<noteq> s \<and> \<not> cf_production env \<longrightarrow>
      cf_teams_app_password env \<noteq> [] \<and> (\<exists>t. authorization = Some (''Bearer '' @ t) \<and> strip t = cf_teams_app_password env)) \<and>
   (teams_webhook env body authorization s = (r, s') \<and> s' \<noteq> s \<and> cf_production env \<longrightarrow>
      (\<exists>t. authorization = Some (''Bearer '' @ t) \<and>
         (case cf_bot_claims env (strip t) (cf_teams_app_id env) (cn_world s) of
            (Inl e, w) \<Rightarrow> s' = s\<lparr>cn_world := w\<rparr> | (Inr claims, w) \<Rightarrow> True)))"
proof (intro conjI impI)
  assume "slack_webhook env body timestamp signature s = (r, s') \<and> s' \<noteq> s"
  then have "verify_slack_signature (cf_hmac env) (cf_slack_signing_secret env) body timestamp signature (cf_time env (cn_world s)) = Inr ()"
    unfolding slack_webhook_def by (blast dest: gate_first signed_Inr)
  from check_signature_Inr [OF this [unfolded verify_slack_signature_def]]
  show "\<exists>t ts. timestamp = Some t \<and> int_of_text t = Inr ts \<and> \<bar>cf_time env (cn_world s) - of_int ts\<bar> \<le> 300 \<and>
      signature = Some (''v0='' @ cf_hmac env (cf_slack_signing_secret env) (''v0:'' @ t @ '':'' @ body))"
    by (simp add: MAX_CLOCK_SKEW_SECONDS_def slack_signature_def)
next
  assume "alerts_webhook env body timestamp signature s = (r, s') \<and> s' \<noteq> s"
  then have v: "verify_alert_signature (cf_hmac env) (cf_alert_webhook_secret env) body timestamp signature (cf_time env (cn_world s)) = Inr ()"
    unfolding alerts_webhook_def by (blast dest: gate_first signed_Inr)
  then show "cf_alert_webhook_secret env \<noteq> []" by (auto simp: verify_alert_signature_def)
  with v show "\<exists>t ts. timestamp = Some t \<and> int_of_text t = Inr ts \<and> \<bar>cf_time env (cn_world s) - of_int ts\<bar> \<le> 300 \<and>
      signature = Some (''sha256='' @ cf_hmac env (cf_alert_webhook_secret env) (t @ ''.'' @ body))"
    by (auto simp: verify_alert_signature_def MAX_CLOCK_SKEW_SECONDS_def alert_signature_def dest!: check_signature_Inr)
next
  assume a: "teams_webhook env body authorization s = (r, s') \<and> s' \<noteq> s \<and> \<not> cf_production env"
  then obtain token where "bearer_of authorization = Inr token" and "cf_teams_app_password env \<noteq> []" "token = cf_teams_app_password env"
    by (cases "bearer_of authorization")
       (auto simp: teams_webhook_def teams_verify_def dev_teams_verify_def split: if_splits)
  then show "cf_teams_app_password env \<noteq> []" "\<exists>t. authorization = Some (''Bearer '' @ t) \<and> strip t = cf_teams_app_password env"
    by (auto dest: bearer_Inr)
next
  assume a: "teams_webhook env body authorization s = (r, s') \<and> s' \<noteq> s \<and> cf_production env"
  then obtain token where b: "bearer_of authorization = Inr token"
    by (cases "bearer_of authorization")
       (auto simp: teams_webhook_def teams_verify_def bot_framework_verify_def bindM_def split: if_splits)
  obtain x w where x: "cf_bot_claims env token (cf_teams_app_id env) (cn_world s) = (x, w)" by fastforce
  have "\<exists>e. x = Inl e \<Longrightarrow> s' = s\<lparr>cn_world := w\<rparr>"
    using a b x by (auto simp: teams_webhook_def teams_verify_def bot_framework_verify_def bindM_def chan_world_def zoom_def)
  with bearer_Inr [OF b] x show "\<exists>t. authorization = Some (''Bearer '' @ t) \<and>
         (case cf_bot_claims env (strip t) (cf_teams_app_id env) (cn_world s) of
            (Inl e, w) \<Rightarrow> s' = s\<lparr>cn_world := w\<rparr> | (Inr claims, w) \<Rightarrow> True)"
    by (auto split: sum.split)
qed

section \<open>Retried deliveries\<close>

lemma already_seen_keeps:
  assumes "already_seen now i cache = (r, cache')" and "now \<le> t + SEEN_EVENT_TTL_SECONDS" and "(k, t) \<in> set cache"
  shows "(k, t) \<in> set cache'"
  using assms by (auto simp: already_seen_def Let_def split: if_splits)

lemma already_seen_found:
  assumes "(hash_key i, t) \<in> set cache" and "now \<le> t + SEEN_EVENT_TTL_SECONDS" and "truthy i" and "hashable i"
  shows "fst (already_seen now i cache) = Inr True"
proof -
  have "hash_key i \<in> fst ` set (filter (\<lambda>(k, seen_at). \<not> now - seen_at > SEEN_EVENT_TTL_SECONDS) cache)"
    using assms(1,2) by (force simp: image_iff)
  with assms(3,4) show ?thesis by (simp add: already_seen_def Let_def)
qed

lemma already_seen_notes:
  assumes "already_seen now i cache = (Inr False, cache')" and "truthy i"
  shows "(hash_key i, now) \<in> set cache' \<and> hashable i"
  using assms by (auto simp: already_seen_def Let_def split: if_splits)

text \<open>
  A route call: one request to the service, whatever it carries. \<open>served_until env limit\<close> relates the
  state before and after any number of them, each taken up while the clock shows at most \<open>limit\<close>.
\<close>

inductive route :: "('w, 'k) channel_env \<Rightarrow> 'w channel_state \<Rightarrow> 'w channel_state \<Rightarrow> bool" for env where
  route_slack: "slack_webhook env body ts sig s = (r, s') \<Longrightarrow> route env s s'"
| route_interactive: "slack_interactive env form s = (r, s') \<Longrightarrow> route env s s'"
| route_teams: "teams_webhook env body auth s = (r, s') \<Longrightarrow> route env s s'"
| route_alerts: "alerts_webhook env body ts sig s = (r, s') \<Longrightarrow> route env s s'"
| route_notify: "notify env token n s = (r, s') \<Longrightarrow> route env s s'"
| route_dev: "dev_chat env d s = (r, s') \<Longrightarrow> route env s s'"
| route_dev_event: "dev_chat_event env b s = (r, s') \<Longrightarrow> route env s s'"

inductive served_until :: "('w, 'k) channel_env \<Rightarrow> rat \<Rightarrow> 'w channel_state \<Rightarrow> 'w channel_state \<Rightarrow> bool" for env limit s where
  served_none: "served_until env limit s s"
| served_more: "served_until env limit s s1 \<Longrightarrow> cf_monotonic env (cn_world s1) \<le> limit \<Longrightarrow> route env s1 s2 \<Longrightarrow> served_until env limit s s2"

definition caches :: "'w channel_state \<Rightarrow> seen \<times> seen" where
  "caches s = (cn_seen_slack_event_ids s, cn_seen_alert_ids s)"

lemma preserves_let: "(\<And>x. preserves P (f x)) \<Longrightarrow> preserves P (let x = v in f x)"
  by (simp add: Let_def)

lemma caches_world: "preserves (\<lambda>s. caches s = c) (chan_world m)"
  by (auto simp: preserves_def caches_def chan_world_def zoom_def split: prod.split)

lemma caches_slack_call: "preserves (\<lambda>s. caches s = c) (slack_call env path body)"
  unfolding slack_call_def by (intro preserve_intros caches_world)

lemma caches_agent: "preserves (\<lambda>s. caches s = c) (call_agent env path body)"
  unfolding call_agent_def by (rule caches_world)

lemmas caches_calls = caches_world caches_slack_call caches_agent

lemma caches_collapse: "preserves (\<lambda>s. caches s = c) (collapse_card env ch m ts blocks d who a)"
proof (rule preservesI)
  fix s :: "'a channel_state" assume c: "caches s = c"
  let ?update = "bindM (liftE (py_get m ''text'' (JStr []))) (\<lambda>said.
      bindM (liftE (case blocks of JArr bs \<Rightarrow> resolve_approval_blocks bs (py_str a) d (case who of None \<Rightarrow> [] | Some i \<Rightarrow> display_name i)
         | _ \<Rightarrow> Inl (PyExn ''AttributeError''))) (\<lambda>blocks. update_message env ch ts said blocks))"
  have keeps: "preserves (\<lambda>s. caches s = c) ?update"
    unfolding update_message_def by (intro preserve_intros caches_calls)
  obtain r s' where u: "?update s = (r, s')" by fastforce
  from preservesD [OF keeps c u] show "caches (snd (collapse_card env ch m ts blocks d who a s)) = c"
    unfolding collapse_card_def u by simp
qed

lemma caches_slack_message: "preserves (\<lambda>s. caches s = c) (slack_message env event user)"
  unfolding slack_message_def call_agent_chat_def post_message_def by (intro preserve_intros caches_calls)

lemma caches_interactive: "preserves (\<lambda>s. caches s = c) (slack_interactive env form)"
proof -
  have "preserves (\<lambda>s. caches s = c) (interactive_action env payload user action)" for payload user action
    unfolding interactive_action_def call_agent_event_def reply_to_slack_def post_message_def Let_def
    by (intro preserve_intros caches_calls caches_collapse)
  then show ?thesis unfolding slack_interactive_def
    by (cases "case form of None \<Rightarrow> FormText ''{}'' | Some f \<Rightarrow> f") (auto intro!: preserve_intros)
qed

lemma caches_teams: "preserves (\<lambda>s. caches s = c) (teams_webhook env body auth)"
proof -
  have claims: "preserves (\<lambda>s. caches s = c) (\<lambda>s. case chan_world (cf_bot_claims env token (cf_teams_app_id env)) s of
        (Inl exc, s') \<Rightarrow> (Inl (PyExn ''TeamsAuthError''), s') | (Inr claims, s') \<Rightarrow> (py_get claims ''appid'' (JStr []), s'))" for token
    using caches_world [of c "cf_bot_claims env token (cf_teams_app_id env)"]
    by (auto simp: preserves_def split: prod.split sum.split)
  have verify: "preserves (\<lambda>s. caches s = c) (teams_verify env auth)"
    by (cases "cf_production env")
       (auto simp: teams_verify_def bot_framework_verify_def dev_teams_verify_def intro!: preserve_intros claims)
  have activity: "preserves (\<lambda>s. caches s = c) (teams_activity env body)"
    unfolding teams_activity_def Let_def call_agent_event_def call_agent_chat_def by (intro preserve_intros caches_calls)
  show ?thesis
  proof (rule preservesI)
    fix s :: "'a channel_state" assume c: "caches s = c"
    obtain x s1 where v: "teams_verify env auth s = (x, s1)" by fastforce
    from preservesD [OF verify c v] activity show "caches (snd (teams_webhook env body auth s)) = c"
      by (cases x) (simp_all add: teams_webhook_def v preserves_def)
  qed
qed

lemma caches_others:
  "preserves (\<lambda>s. caches s = c) (notify env token n)" "preserves (\<lambda>s. caches s = c) (dev_chat env d)"
  "preserves (\<lambda>s. caches s = c) (dev_chat_event env b)"
proof -
  have post: "preserves (\<lambda>s. caches s = c) (bindM (liftE g) (\<lambda>_. bindM (post_message env ch said blocks) (\<lambda>_. returnM ok_json)))"
    for g :: "unit result" and ch said blocks
    unfolding post_message_def by (intro preserve_intros caches_calls)
  show "preserves (\<lambda>s. caches s = c) (notify env token n)"
    by (rule preservesI) (simp add: notify_def post [unfolded preserves_def, rule_format])
  show "preserves (\<lambda>s. caches s = c) (dev_chat env d)" "preserves (\<lambda>s. caches s = c) (dev_chat_event env b)"
    unfolding dev_chat_def dev_chat_event_def call_agent_chat_def by (intro preserve_intros caches_calls)+
qed

text \<open>What a call keeps of the delivery ids: every one that is not older than the time they are kept for.\<close>

definition remembers :: "('w, 'k) channel_env \<Rightarrow> 'w channel_state \<Rightarrow> 'w channel_state \<Rightarrow> bool" where
  "remembers env s s' \<longleftrightarrow>
     (\<forall>k t. cf_monotonic env (cn_world s) \<le> t + SEEN_EVENT_TTL_SECONDS \<longrightarrow>
        (k, t) \<in> set (cn_seen_slack_event_ids s) \<longrightarrow> (k, t) \<in> set (cn_seen_slack_event_ids s'))"

lemma remembers_same: "caches s' = caches s \<Longrightarrow> remembers env s s'"
  by (simp add: remembers_def caches_def)

lemma seen_step:
  assumes "slack_event_already_seen env i s = (x, s1)"
  shows "remembers env s s1" "cn_world s1 = cn_world s"
  using assms already_seen_keeps by (fastforce simp: slack_event_already_seen_def remembers_def split: prod.splits)+

lemma slack_event_rest:
  assumes "py_get payload ''event_id'' JNull = Inr i" and "slack_event_already_seen env i s = (x, s1)" and "slack_event env payload s = (r, s')"
  shows "caches s' = caches s1" "x = Inr True \<Longrightarrow> s' = s1"
proof -
  have "preserves (\<lambda>t. caches t = caches s1) (if seen then returnM ok_json
     else bindM (liftE (py_get payload ''event'' (JObj []))) (\<lambda>event.
          bindM (liftE (py_get event ''user'' JNull)) (\<lambda>slack_user_id.
          bindM (liftE (py_get event ''type'' JNull)) (\<lambda>ty.
          bindM (liftE (py_get event ''bot_id'' JNull)) (\<lambda>bot_id.
          if ty \<noteq> JStr ''message'' \<or> truthy bot_id \<or> \<not> truthy slack_user_id then returnM ok_json
          else slack_message env event slack_user_id)))))" for seen
    by (intro preserve_intros caches_slack_message)
  note rest = preservesD [OF this refl]
  show "caches s' = caches s1"
    using assms rest by (cases x) (auto simp: slack_event_def bindM_def split: prod.splits)
  show "x = Inr True \<Longrightarrow> s' = s1" using assms by (simp add: slack_event_def bindM_def)
qed

lemma slack_event_remembers: "slack_event env payload s = (r, s') \<Longrightarrow> remembers env s s'"
proof (cases "py_get payload ''event_id'' JNull")
  case (Inr i)
  assume e: "slack_event env payload s = (r, s')"
  obtain x s1 where x: "slack_event_already_seen env i s = (x, s1)" by fastforce
  from seen_step(1) [OF x] slack_event_rest(1) [OF Inr x e] show ?thesis by (simp add: remembers_def caches_def)
qed (simp add: slack_event_def remembers_def)

lemma slack_webhook_cases:
  assumes "slack_webhook env body ts sig s = (r, s')"
  obtains "s' = s" | payload where "loads env body = Inr payload" "slack_event env payload s = (r, s')"
  using assms by (auto simp: slack_webhook_def bindM_def liftE_def split: sum.splits if_splits prod.splits)

lemma alerts_keep_events:
  assumes "alerts_webhook env body ts sig s = (r, s')"
  shows "cn_seen_slack_event_ids s' = cn_seen_slack_event_ids s"
proof -
  have seen: "preserves (\<lambda>t. cn_seen_slack_event_ids t = c) (alert_already_seen env i)" for c i
    by (simp add: preserves_def alert_already_seen_def split: prod.split)
  have call: "preserves (\<lambda>t. cn_seen_slack_event_ids t = c) (call_agent_alert_trigger env b)" for c b
    by (auto simp: preserves_def call_agent_alert_trigger_def call_agent_def chan_world_def zoom_def split: prod.split)
  have "preserves (\<lambda>t. cn_seen_slack_event_ids t = cn_seen_slack_event_ids s) (alert_delivery env body)"
    unfolding alert_delivery_def by (intro preserve_intros seen call)
  from preservesD [OF this, of s] assms show ?thesis
    by (auto simp: alerts_webhook_def bindM_def split: sum.splits)
qed

lemma route_remembers: "route env s s' \<Longrightarrow> remembers env s s'"
proof (induction rule: route.induct)
  case (route_slack body ts sig s r s')
  then show ?case
    by (cases rule: slack_webhook_cases) (auto simp: remembers_same intro: slack_event_remembers)
next
  case (route_interactive form s r s')
  from preservesD [OF caches_interactive refl this] show ?case by (rule remembers_same)
next
  case (route_teams body auth s r s')
  from preservesD [OF caches_teams refl this] show ?case by (rule remembers_same)
next
  case (route_alerts body ts sig s r s')
  from alerts_keep_events [OF this] show ?case by (simp add: remembers_def)
next
  case (route_notify token n s r s')
  from preservesD [OF caches_others(1) refl this] show ?case by (rule remembers_same)
next
  case (route_dev d s r s')
  from preservesD [OF caches_others(2) refl this] show ?case by (rule remembers_same)
next
  case (route_dev_event b s r s')
  from preservesD [OF caches_others(3) refl this] show ?case by (rule remembers_same)
qed

lemma served_remembers:
  assumes "served_until env (t + SEEN_EVENT_TTL_SECONDS) s s'" and "(k, t) \<in> set (cn_seen_slack_event_ids s)"
  shows "(k, t) \<in> set (cn_seen_slack_event_ids s')"
  using assms by (induction rule: served_until.induct) (auto dest!: route_remembers simp: remembers_def)

text \<open>
  C12. A retried delivery does nothing: when a signed Slack event with a new id has been taken up at
  some moment, then whatever requests the service serves in the next five minutes, another delivery
  with that event id in this time leaves the outside world as it is: nothing is sent to the Agent
  or to Slack again.
\<close>

theorem deliveries_once:
  assumes "verify_slack_signature (cf_hmac env) (cf_slack_signing_secret env) body ts sig (cf_time env (cn_world s)) = Inr ()"
    and "loads env body = Inr (JObj d)" and "map_of d ''type'' = Some (JStr ''event_callback'')"
    and "map_of d ''event_id'' = Some i" and "truthy i" and "hashable i"
    and "hash_key i \<notin> fst ` set (cn_seen_slack_event_ids s)"
    and "slack_webhook env body ts sig s = (r, s1)"
    and "served_until env (cf_monotonic env (cn_world s) + 300) s1 s2"
    and "cf_monotonic env (cn_world s2) \<le> cf_monotonic env (cn_world s) + 300"
    and "loads env body' = Inr (JObj d')" and "map_of d' ''event_id'' = Some i"
    and "slack_webhook env body' ts' sig' s2 = (r', s3)"
  shows "cn_world s3 = cn_world s2"
proof -
  let ?t = "cf_monotonic env (cn_world s)"
  obtain x t1 where x: "slack_event_already_seen env i s = (x, t1)" by fastforce
  have "(hash_key i, ?t) \<in> set (cn_seen_slack_event_ids t1)"
    using x assms(5-7) by (auto simp: slack_event_already_seen_def already_seen_def Let_def split: if_splits)
  moreover have "slack_event env (JObj d) s = (r, s1)"
    using assms(1-4,8) by (simp add: slack_webhook_def signed_def)
  from slack_event_rest(1) [OF _ x this] assms(4) have "caches s1 = caches t1" by simp
  ultimately have "(hash_key i, ?t) \<in> set (cn_seen_slack_event_ids s1)" by (simp add: caches_def)
  then have known: "(hash_key i, ?t) \<in> set (cn_seen_slack_event_ids s2)"
    using served_remembers [of env ?t s1 s2 "hash_key i"] assms(9) by (simp add: SEEN_EVENT_TTL_SECONDS_def)
  from assms(13) show ?thesis
  proof (cases rule: slack_webhook_cases)
    case (2 payload)
    obtain y t2 where y: "slack_event_already_seen env i s2 = (y, t2)" by fastforce
    have "fst (already_seen (cf_monotonic env (cn_world s2)) i (cn_seen_slack_event_ids s2)) = Inr True"
      by (rule already_seen_found [OF known]) (use assms(5,6,10) in \<open>simp_all add: SEEN_EVENT_TTL_SECONDS_def\<close>)
    then have "y = Inr True" using y by (auto simp: slack_event_already_seen_def split: prod.splits)
    moreover have "py_get payload ''event_id'' JNull = Inr i" using 2(1) assms(11,12) by auto
    ultimately have "s3 = t2" using slack_event_rest(2) [OF _ y 2(2)] by simp
    with seen_step(2) [OF y] show ?thesis by simp
  qed simp
qed

section \<open>Decisions without a signature\<close>

text \<open>
  C13. The buttons of an approval card are not authenticated: the interactive route reads no
  signature, so whoever posts a payload naming the Slack id of a DBA has an approval in that
  person's name passed on to the Agent, which takes the account as given. In every deployment,
  production included, the development route passes any decision on for any account without even
  looking the account up.
\<close>

theorem unsigned_decisions:
  assumes "cf_json env raw = Some (JObj d)" and "map_of d ''user'' = Some (JObj du)" and "map_of du ''id'' = Some (JStr u)"
    and "map_of d ''actions'' = Some (JArr (JObj act # others))" and "map_of act ''value'' = Some (JStr a)"
    and "map_of act ''action_id'' = Some (JStr ''numi_approve'')"
    and "map_of d ''channel'' = Some (JObj dc)" and "map_of dc ''id'' = Some (JStr ch)"
    and "map_of d ''container'' = None" and "map_of d ''message'' = None"
    and "cf_resolve env ''slack'' (JStr u) (cn_world s) = (Inr (Some identity), w1)" and "is_dba identity"
  shows "(\<exists>f. slack_interactive env (Some (FormText raw)) s =
       bindM (call_agent_event env ''slack'' (JStr u) (slack_conversation_id ch u []) (JStr a) (JStr ''approve'')) f (s\<lparr>cn_world := w1\<rparr>)) \<and>
     dev_chat_event env [(''user'', JStr u), (''approval_id'', JStr a), (''decision'', JStr ''approve'')] =
       call_agent_event env ''dev'' (JStr u) ''dev-conversation'' (JStr a) (JStr ''approve'')"
proof (rule conjI)
  have "chan_world (cf_resolve env ''slack'' (JStr u)) s = (Inr (Some identity), s\<lparr>cn_world := w1\<rparr>)"
    using assms(11) by (simp add: chan_world_def zoom_def)
  then show "\<exists>f. slack_interactive env (Some (FormText raw)) s =
       bindM (call_agent_event env ''slack'' (JStr u) (slack_conversation_id ch u []) (JStr a) (JStr ''approve'')) f (s\<lparr>cn_world := w1\<rparr>)"
    using assms
    by (simp add: slack_interactive_def first_action_def interactive_action_def is_team_member_def or_text_def py_str_def Let_def bindM_Inr)
       (rule exI, rule refl)
  show "dev_chat_event env [(''user'', JStr u), (''approval_id'', JStr a), (''decision'', JStr ''approve'')] =
       call_agent_event env ''dev'' (JStr u) ''dev-conversation'' (JStr a) (JStr ''approve'')"
    by (simp add: dev_chat_event_def py_item_def call_agent_event_def)
qed

section \<open>A second approver on Slack\<close>

lemma slack_conversation_inj: "slack_conversation_id ch u [] = slack_conversation_id ch v [] \<longleftrightarrow> u = v"
  by (simp add: slack_conversation_id_def)

text \<open>
  On Slack, a card outside a thread can only be decided by the person it was shown to: the
  conversation of an unthreaded message and of an unthreaded click is that of the channel and the
  person, so the click of any other DBA, of the second approver a critical action needs for
  instance, is looked up in a conversation that has no pending approval. It is answered with an
  error, nothing reaches the Gateway, and the card stays as undecided as it was.
\<close>

theorem slack_second_approver_lost:
  assumes "requester \<noteq> approver" and "require_channel_service_token env token s = (Inr (), s)"
    and "map_of (ag_conversations s) (slack_conversation_id ch requester []) = Some st" and "cs_pending_approval st = Some p"
    and "\<forall>st'. map_of (ag_conversations s) (slack_conversation_id ch approver []) = Some st' \<longrightarrow> cs_pending_approval st' = None"
  shows "\<exists>s' rp. chat_events env token
       \<lparr>av_channel = ''slack'', av_channel_account_id = approver, av_conversation_id = slack_conversation_id ch approver [],
        av_approval_id = approval_path_id p, av_decision = decision\<rparr> s = (Inr rp, s') \<and>
     rp_status rp = ''error'' \<and> rp_text rp = ''There is no pending approval on this conversation.'' \<and>
     ag_world s' = ag_world s \<and> map_of (ag_conversations s') (slack_conversation_id ch requester []) = Some st"
proof -
  let ?i = "slack_conversation_id ch approver []" and ?m = "\<lparr>am_conversations = ag_conversations s, am_world = ag_world s\<rparr>"
  obtain m rp where h: "handle_approval_decision (aa_chat env) ?i (decision \<noteq> ''reject'') ''slack'' approver ?m = (Inr rp, m)"
      "rp_status rp = ''error''" "rp_text rp = ''There is no pending approval on this conversation.''" "am_world m = ag_world s"
      "\<forall>j. j \<noteq> ?i \<longrightarrow> map_of (am_conversations m) j = map_of (ag_conversations s) j"
    using no_pending_decision [of ?m ?i "aa_chat env" "decision \<noteq> ''reject''" "''slack''" approver] assms(5) by auto
  have "map_of (am_conversations m) (slack_conversation_id ch requester []) = Some st"
    using h(5) assms(1,3) by (simp add: slack_conversation_inj)
  with h assms(2) show ?thesis by (simp add: chat_events_def on_memory_def bindM_def)
qed

section \<open>A decided card\<close>

lemma resolve_blocks_objects:
  "resolve_approval_blocks (map JObj ds) a decision who =
     Inr (map (\<lambda>d. if map_of d ''block_id'' = Some (JStr (approval_block_id a)) then resolved_block decision who else JObj d) ds)"
  by (induction ds) (auto split: option.split)

theorem decided_card_collapses:
  assumes "rp_approval_card rp = Some ap"
  shows "resolve_approval_blocks (render_reply_blocks rp) (ac_approval_id ap) decision who =
     Inr (butlast (render_reply_blocks rp) @ [resolved_block decision who])"
  using assms by (simp add: render_reply_blocks_def)

section \<open>Examples\<close>

definition demo_channels :: "(nat, unit) channel_env" where
  \<comment> \<open>the world counts the calls of the Agent; the code of a message is the message\<close>
  "demo_channels =
     \<lparr>cf_production = False, cf_slack_signing_secret = ''k'', cf_alert_webhook_secret = ''k'', cf_slack_bot_token = [],
      cf_teams_app_id = [], cf_teams_app_password = [], cf_jwt_secret = [], cf_jwt_issuer = [],
      cf_serializer = \<lparr>sz_dumps = (\<lambda>_ _ _ _. ()), sz_loads = (\<lambda>_ _ _ _ _. Inl BadSignature)\<rparr>,
      cf_hmac = (\<lambda>k m. k @ m),
      cf_json = (\<lambda>t. if t = ''click''
        then Some (JObj [(''user'', JObj [(''id'', JStr ''U1'')]), (''channel'', JObj [(''id'', JStr ''C1'')]),
          (''actions'', JArr [JObj [(''action_id'', JStr ''numi_approve''), (''value'', JStr ''a1'')]])])
        else Some (JObj [(''type'', JStr ''event_callback''), (''event_id'', JStr ''E1''),
          (''event'', JObj [(''type'', JStr ''message''), (''user'', JStr ''U1''), (''channel'', JStr ''C1'')])])),
      cf_time = (\<lambda>n. 0), cf_monotonic = (\<lambda>n. 0), cf_now = (\<lambda>n. 0),
      cf_resolve = (\<lambda>c a. returnM (Some (person ''alice''))),
      cf_agent = (\<lambda>p k b n. (Inr (JObj []), Suc n)), cf_slack_api = (\<lambda>p b. returnM (JObj [])),
      cf_parse_reply = (\<lambda>v. Inr (reply ''done'' ''ok'' None)), cf_bot_claims = (\<lambda>t a. raiseM (PyExn ''InvalidTokenError''))\<rparr>"

definition idle_channels :: "nat channel_state" where
  "idle_channels = \<lparr>cn_seen_slack_event_ids = [], cn_seen_alert_ids = [], cn_world = 0\<rparr>"

definition demo_delivery :: "nat channel_state \<Rightarrow> (exn + json) \<times> nat channel_state" where
  "demo_delivery = slack_webhook demo_channels ''event'' (Some ''7'') (Some ''v0=kv0:7:event'')"

lemma demo_delivery_taken: "demo_delivery idle_channels =
    (Inr ok_json, \<lparr>cn_seen_slack_event_ids = [(JStr ''E1'', 0)], cn_seen_alert_ids = [], cn_world = 1\<rparr>)"
  by code_simp

definition open_channels :: "(nat, unit) channel_env" where
  "open_channels = demo_channels\<lparr>cf_teams_app_password := ''pw'', cf_json := (\<lambda>t. Some (JObj [(''server'', JStr ''db1'')]))\<rparr>"

definition live_channels :: "(nat, unit) channel_env" where
  \<comment> \<open>production, with a token library that knows one token\<close>
  "live_channels = open_channels\<lparr>cf_production := True,
     cf_bot_claims := (\<lambda>t a n. (if t = ''jwt'' then Inr (JObj [(''appid'', JStr ''bot'')]) else Inl (PyExn ''InvalidTokenError''), Suc n))\<rparr>"

lemma other_deliveries:
  "alerts_webhook open_channels ''alert'' (Some ''7'') (Some ''sha256=k7.alert'') idle_channels \<noteq> (r, idle_channels)"
  "teams_webhook open_channels ''hi'' (Some ''Bearer pw'') idle_channels \<noteq> (r, idle_channels)"
  "teams_webhook live_channels ''hi'' (Some ''Bearer jwx'') idle_channels = (Inl (HTTPException 401 ''Invalid Teams bot token.''), idle_channels\<lparr>cn_world := 1\<rparr>)"
proof -
  have "cn_world (snd (alerts_webhook open_channels ''alert'' (Some ''7'') (Some ''sha256=k7.alert'') idle_channels)) = 1" by code_simp
  then show "alerts_webhook open_channels ''alert'' (Some ''7'') (Some ''sha256=k7.alert'') idle_channels \<noteq> (r, idle_channels)"
    by (auto simp: idle_channels_def)
  have "cn_world (snd (teams_webhook open_channels ''hi'' (Some ''Bearer pw'') idle_channels)) = 1" by code_simp
  then show "teams_webhook open_channels ''hi'' (Some ''Bearer pw'') idle_channels \<noteq> (r, idle_channels)"
    by (auto simp: idle_channels_def)
qed code_simp

theorem webhooks_authenticated_witness:
  "(\<exists>t. Some ''7'' = Some t \<and> Some ''v0=kv0:7:event'' = Some (''v0='' @ cf_hmac demo_channels ''k'' (''v0:'' @ t @ '':'' @ ''event''))) \<and>
   (\<exists>t. Some ''7'' = Some t \<and> Some ''sha256=k7.alert'' = Some (''sha256='' @ cf_hmac open_channels ''k'' (t @ ''.'' @ ''alert''))) \<and>
   (\<exists>t. Some ''Bearer pw'' = Some (''Bearer '' @ t) \<and> strip t = ''pw'') \<and>
   (\<exists>t. Some ''Bearer jwx'' = Some (''Bearer '' @ t) \<and>
      (case cf_bot_claims live_channels (strip t) (cf_teams_app_id live_channels) 0 of
         (Inl e, w) \<Rightarrow> idle_channels\<lparr>cn_world := 1\<rparr> = idle_channels\<lparr>cn_world := w\<rparr> | (Inr claims, w) \<Rightarrow> True))"
proof -
  let ?s = "\<lparr>cn_seen_slack_event_ids = [(JStr ''E1'', 0)], cn_seen_alert_ids = [], cn_world = 1\<rparr> :: nat channel_state"
  have d: "slack_webhook demo_channels ''event'' (Some ''7'') (Some ''v0=kv0:7:event'') idle_channels = (Inr ok_json, ?s)"
    using demo_delivery_taken by (simp add: demo_delivery_def)
  have n: "?s \<noteq> idle_channels" "idle_channels\<lparr>cn_world := 1\<rparr> \<noteq> idle_channels" by (simp_all add: idle_channels_def)
  have k: "cf_slack_signing_secret demo_channels = ''k''" "cf_alert_webhook_secret open_channels = ''k''"
    "cf_teams_app_password open_channels = ''pw''" "\<not> cf_production open_channels" "cf_production live_channels" "cn_world idle_channels = 0"
    by (simp_all add: demo_channels_def open_channels_def live_channels_def idle_channels_def)
  obtain r s' where a: "alerts_webhook open_channels ''alert'' (Some ''7'') (Some ''sha256=k7.alert'') idle_channels = (r, s')" by fastforce
  obtain r2 s2 where b: "teams_webhook open_channels ''hi'' (Some ''Bearer pw'') idle_channels = (r2, s2)" by fastforce
  have m: "s' \<noteq> idle_channels" "s2 \<noteq> idle_channels" using a b other_deliveries(1,2) by auto
  show ?thesis
  proof (intro conjI)
    show "\<exists>t. Some ''7'' = Some t \<and> Some ''v0=kv0:7:event'' = Some (''v0='' @ cf_hmac demo_channels ''k'' (''v0:'' @ t @ '':'' @ ''event''))"
      using webhooks_authenticated [of demo_channels "''event''" "Some ''7''" "Some ''v0=kv0:7:event''" idle_channels "Inr ok_json" ?s] d n k(1)
      by auto
    show "\<exists>t. Some ''7'' = Some t \<and> Some ''sha256=k7.alert'' = Some (''sha256='' @ cf_hmac open_channels ''k'' (t @ ''.'' @ ''alert''))"
      using webhooks_authenticated [of open_channels "''alert''" "Some ''7''" "Some ''sha256=k7.alert''" idle_channels r s'] a m(1) k(2) by auto
    show "\<exists>t. Some ''Bearer pw'' = Some (''Bearer '' @ t) \<and> strip t = ''pw''"
      using webhooks_authenticated [of open_channels "''hi''" None None idle_channels r2 s2 "Some ''Bearer pw''"] b m(2) k(3,4) by metis
    show "\<exists>t. Some ''Bearer jwx'' = Some (''Bearer '' @ t) \<and>
      (case cf_bot_claims live_channels (strip t) (cf_teams_app_id live_channels) 0 of
         (Inl e, w) \<Rightarrow> idle_channels\<lparr>cn_world := 1\<rparr> = idle_channels\<lparr>cn_world := w\<rparr> | (Inr claims, w) \<Rightarrow> True)"
      using webhooks_authenticated [of live_channels "''hi''" None None idle_channels _ _ "Some ''Bearer jwx''"] other_deliveries(3) n(2) k(5,6) by metis
  qed
qed

theorem deliveries_once_witness:
  "cn_world (snd (demo_delivery (snd (demo_delivery idle_channels)))) = cn_world (snd (demo_delivery idle_channels))"
proof -
  let ?d = "[(''type'', JStr ''event_callback''), (''event_id'', JStr ''E1''),
     (''event'', JObj [(''type'', JStr ''message''), (''user'', JStr ''U1''), (''channel'', JStr ''C1'')])]"
  have v: "verify_slack_signature (cf_hmac demo_channels) (cf_slack_signing_secret demo_channels) ''event'' (Some ''7'')
      (Some ''v0=kv0:7:event'') (cf_time demo_channels (cn_world idle_channels)) = Inr ()" by code_simp
  have l: "loads demo_channels ''event'' = Inr (JObj ?d)" by (simp add: loads_def demo_channels_def)
  obtain r s1 where first: "demo_delivery idle_channels = (r, s1)" by fastforce
  obtain r' s3 where second: "demo_delivery s1 = (r', s3)" by fastforce
  have clock: "cf_monotonic demo_channels w = 0" for w by (simp add: demo_channels_def)
  have "cn_world s3 = cn_world s1"
    by (rule deliveries_once [OF v l _ _ _ _ _ first [unfolded demo_delivery_def] served_none _ l _ second [unfolded demo_delivery_def], of "JStr ''E1''"])
       (simp_all add: clock idle_channels_def)
  with first second show ?thesis by simp
qed

theorem unsigned_decisions_witness:
  "\<exists>f. slack_interactive demo_channels (Some (FormText ''click'')) idle_channels =
     bindM (call_agent_event demo_channels ''slack'' (JStr ''U1'') ''slack:C1:U1'' (JStr ''a1'') (JStr ''approve'')) f idle_channels"
proof -
  have dba: "is_dba (person ''alice'')" by code_simp
  have same: "idle_channels\<lparr>cn_world := 0\<rparr> = idle_channels" and at: "slack_conversation_id ''C1'' ''U1'' [] = ''slack:C1:U1''"
    by (simp_all add: idle_channels_def slack_conversation_id_def)
  have "\<exists>f. slack_interactive demo_channels (Some (FormText ''click'')) idle_channels =
     bindM (call_agent_event demo_channels ''slack'' (JStr ''U1'') (slack_conversation_id ''C1'' ''U1'' []) (JStr ''a1'') (JStr ''approve'')) f
       (idle_channels\<lparr>cn_world := 0\<rparr>)"
    by (rule conjunct1 [OF unsigned_decisions [OF _ _ _ _ _ _ _ _ _ _ _ dba]]) (auto simp: demo_channels_def idle_channels_def)
  then show ?thesis unfolding same at .
qed

definition demo_agent_api :: "(nat, string) agent_api_env" where
  \<comment> \<open>a token is the audience it was issued for\<close>
  "demo_agent_api =
     \<lparr>aa_chat = \<lparr>cx_agent = demo_rest,
        cx_registry = \<lparr>rg_settings = default_settings, rg_allow_user_model_selection = True, rg_cache = [], rg_fixed = None\<rparr>,
        cx_describe = returnM [], cx_list_models = (\<lambda>p. returnM []), http_server_catalog = (\<lambda>i. returnM None),
        http_refresh = (\<lambda>c a i. returnM (200, []))\<rparr>,
      aa_alerts = demo_alerts,
      aa_serializer = \<lparr>sz_dumps = (\<lambda>secret salt p t. salt),
        sz_loads = (\<lambda>secret salt age k now. if k = salt then Inr [(''iss'', ''numi''), (''aud'', salt), (''sub'', ''channels'')] else Inl BadSignature)\<rparr>,
      aa_jwt_secret = ''k'', aa_jwt_issuer = ''numi'', aa_token_now = (\<lambda>n. 0), aa_cooldown_now = (\<lambda>n. 0)\<rparr>"

definition demo_card :: PendingApproval where
  "demo_card =
     \<lparr>pa_approval_id = Some ''a1'', pa_tool_id = ''database.kill_session'', pa_summary = [],
      pa_request = \<lparr>rq_tool_id = ''database.kill_session'', rq_tool_version = None, rq_arguments = [], rq_target = [], rq_reason = [],
        rq_conversation_id = ''slack:C1:U1'', rq_investigation_id = None, rq_request_id = ''r1'', rq_channel = ''slack'',
        rq_channel_account_id = ''U1'', rq_approval_id = None, rq_change_id = None\<rparr>\<rparr>"

definition asked_on_slack :: "nat agent_service" where
  "asked_on_slack =
     \<lparr>ag_conversations = [(''slack:C1:U1'', (new_conversation ''slack:C1:U1'' ''slack'' [] ''U1'' 0)\<lparr>cs_pending_approval := Some demo_card\<rparr>)],
      ag_buckets = Map.empty, ag_world = 0\<rparr>"

theorem slack_second_approver_lost_witness:
  "\<exists>s' rp. chat_events demo_agent_api (Some ''numi-agent'')
       \<lparr>av_channel = ''slack'', av_channel_account_id = ''U2'', av_conversation_id = slack_conversation_id ''C1'' ''U2'' [],
        av_approval_id = approval_path_id demo_card, av_decision = ''approve''\<rparr> asked_on_slack = (Inr rp, s') \<and>
     rp_text rp = ''There is no pending approval on this conversation.'' \<and>
     map_of (ag_conversations s') (slack_conversation_id ''C1'' ''U1'' []) \<noteq> None"
proof -
  have token: "require_channel_service_token demo_agent_api (Some ''numi-agent'') asked_on_slack = (Inr (), asked_on_slack)"
    by (simp add: require_channel_service_token_def demo_agent_api_def verify_token_def)
  obtain st where st: "map_of (ag_conversations asked_on_slack) (slack_conversation_id ''C1'' ''U1'' []) = Some st"
      "cs_pending_approval st = Some demo_card"
    by (simp add: asked_on_slack_def slack_conversation_id_def)
  have "\<forall>st'. map_of (ag_conversations asked_on_slack) (slack_conversation_id ''C1'' ''U2'' []) = Some st' \<longrightarrow> cs_pending_approval st' = None"
    by (simp add: asked_on_slack_def slack_conversation_id_def)
  moreover have "''U1'' \<noteq> ''U2''" by simp
  ultimately show ?thesis using slack_second_approver_lost [OF _ token st, of "''U2''" "''approve''"] by fastforce
qed

end
