(* ===== verification/Spec2Isabelle.thy ===== *)
theory Spec2Isabelle
  imports Example_Deployment Redis_Backend Adapter_Service Execution_Api Investigation_Store Llm_Guarantees Model_Switching Scripted_Planner Agent_Chat Oidc_Provider Channel_Guarantees
begin

text \<open>
  A model of numi, an assistant for database administrators, with the theorems that make it correct.
  Paths below are relative to src/src/numi.

  \<^bold>\<open>The program.\<close> Four services work together. The channel adapters (channels/) authenticate the webhooks
  of Slack, Microsoft Teams and monitoring systems and pass messages, approval decisions and alerts on
  to the Agent. The Agent (agent/) plans investigations with a language model and turns its proposals
  into tool calls; it holds no database credential. The Gateway (gateway/) is the only gate to a
  database: for every tool call it resolves the caller's identity, looks the tool up in its catalog,
  validates the target, authorizes, applies rate limits and policy, asks for or verifies an approval,
  sends one request to the Execution Service, minimises what comes back and audits the call. The
  Execution Service (execution/) fetches a credential and dispatches the request to one method of an
  engine's adapter. The services authenticate each other with signed tokens (common/service_auth.py).

  \<^bold>\<open>Style of the model.\<close> Exceptions are values: a fallible function returns \<open>exn + 'a\<close>, an operation with
  state is a function \<open>'s \<Rightarrow> (exn + 'a) \<times> 's\<close> that keeps what was written before it raised
  (Numi_Prelude). A Python dict is an association list in insertion order or a partial map, a model class a
  record, an enumeration a datatype; JSON values are one datatype. Moments are integers in microseconds,
  durations that the source keeps as floats are rationals. What is not source text of the repository is a
  parameter of the definitions that use it: SHA-256 and HMAC, the token signer, the SQL parser, HTTP
  endpoints, language model vendors, secrets-manager SDKs, database drivers, time zones, generated ids and
  clocks. Laws assumed of a parameter are hypotheses of the theorem that needs them, or assumptions of a
  locale that is interpreted.

  \<^bold>\<open>The Gateway.\<close>
  \<^item> Common_Models, Json_Canonical: the data the services exchange (common/models) and the canonical JSON an
    approval's hash is taken of, with the lemma that the text determines the value.
  \<^item> Server_Registry, Catalog_Store, Target_Validation, Discovery: servers and references to them, the two
    catalog stores (the database-backed one refines the in-memory one and survives a restart; a write whose
    commit fails is served from the cache and lost), validation of a target, refreshing of catalogs.
  \<^item> Tool_Catalog, Tool_Arguments, Risk_Engine, Policy_Engine, Authorization, Rate_Limiter: the gateway/domain
    modules of these names. Rate_Limiter states the contract of a counting backend as a locale; Redis_Backend
    has the production backend over the documented behaviour of two Redis commands.
  \<^item> Sql_Text, Data_Policy: validation and scrubbing of SQL, and the minimiser of results with its exact
    specification.
  \<^item> Approval, Approval_Proofs, Approval_Guarantees: the approval engine as operations on its tables, the
    invariant of every reachable state, the life cycle as an abstract status machine each call refines, and
    what a verified approval says about the action.
  \<^item> Audit_Log, Tool_Call_Handler, Gateway_Api: the audit log, the handler with all its steps and error
    paths, the routes with their transactions. Handler_Proofs, Gateway_Proofs, Call_Outcomes: case rules for
    what a call does, the step relation of the service and the invariants of its reachable states.
    Example_Deployment is one concrete deployment, used by the witnesses.
  \<^item> Investigation_Store: persistence and recall of investigations and decision events.
  \<^item> Identity, Oidc_Provider, Service_Auth, Config: identity providers, service tokens, settings.

  \<^bold>\<open>The Execution Service.\<close> Execution_Service: dispatch tables, connections, error translation, and the
  hard timeout of a dispatch over the time each adapter call takes (a parameter, as what it answers is). Credentials:
  the providers of database credentials, over JSON documents with floating-point numbers. Engine_Sql, Engine_Adapters, Db_Connections: the SQL texts
  of the three engine adapters, their methods, and the query executors over a driver. Adapter_Guarantees: which
  statements a method can send, and that the names in the text the driver is given for a controlled write are read
  back as they were given, by a locale of quoting interpreted for each engine. Adapter_Service: that the methods
  of each class fit the service's dispatch tables, and the dispatch over them. Discovery_Sql, Discovery_Engines: execution/discovery, the crawl of a server's metadata with
  its texts. Discovery_Guarantees: what a crawl does as a sequence of sessions, and the privilege finding.
  Execution_Api: the routes of the service with their token, the Gateway's clients of it
  (gateway/infrastructure/execution_client.py), and that they meet what the Gateway's refresh of catalogs relies on.

  \<^bold>\<open>The Agent.\<close>
  \<^item> Playbooks, Agent_Text, Agent_Model: playbook library, texts, planner actions, conversation and
    investigation states.
  \<^item> Agent_Loop, Agent_Run, Agent_Unattended, Agent_Conversation: agent/orchestrator.py, from a single
    submission over the investigation loop to the commands, the collection of a target and the entry
    points; the scheduled digest (agent/scheduled_report.py).
  \<^item> Agent_Safety, Agent_Gateway, Agent_Bounds, Agent_Verification, Agent_Chat: what holds of them. The locales
    outside_world, read_only_world, targeted_world, chat_outside and costed_world state what the Agent's
    surroundings may do; Agent_Gateway interprets read_only_world with the Gateway of this development, so that a property
    of the Agent and one of the Gateway compose.
  \<^item> Llm_Providers, Llm_Guarantees: agent/llm/base.py, registry.py and fallback.py; the deadline of the walk
    over vendors and its liveness, under laws of the timed runner that are stated as hypotheses.
  \<^item> Llm_Prompts, Vendor_Clients, Model_Switching: the prompts and schemas of agent/llm/base.py, the clients of
    the vendors over their SDKs, and the interleaved calls of a shared Gemini client as a step relation.
    Scripted_Planner: the deterministic planner of agent/llm/mock.py, with its patterns.
  \<^item> Alert_Trigger, Agent_Api: agent/alert_trigger.py and agent/api/app.py.

  \<^bold>\<open>The channel adapters.\<close> Channels: signatures, bot tokens, suppression of retried deliveries, rendering and
  every route. Channel_Guarantees: authentication of webhooks and the step relation of the service.
  Python_Text holds the parts of the Python standard library the outer services share.

  \<^bold>\<open>What is shown.\<close> This theory has the properties that span the Gateway: nothing is executed but through the
  gate, by whom and under which approval; an approval is not replayed; results are minimised; every call is
  audited. The component theories have the rest, each right after its statement in words. Some theorems state
  behaviour the code was not meant to have: a used approval that is decided again is valid again, the
  approver's own authorization is never checked, a write that ran through its approval is never re-checked,
  approval buttons are not authenticated, a second approver cannot decide on an unthreaded Slack card, an
  alert that quotes braces is lost, on SQL Server cancelling a query kills its session, a call of a shared Gemini
  client can mark a model as unavailable that did not fail, a mention of a session is taken as an order to end it,
  a busy key of the Redis rate limiter never gets its budget back, the configured cap on the size of a result has
  no effect, two calls that overlap can both execute under one approval.

  \<^bold>\<open>Bounds.\<close> No definition uses fuel: the investigation loop terminates by the turns that are left, the walk
  over vendors by the list of vendors, the readers of text by length. Integers of the source are unbounded, as
  in Python.

  \<^bold>\<open>Ordering.\<close> The routes of the Gateway are steps of one relation, each handled to its end; what overlapping
  calls can do to an approval is shown in Call_Outcomes. The control database is taken to answer and to commit, except
  where a failure is an argument of the model: the writes of the catalog store and the lookups of past investigations.

  \<^bold>\<open>Not modelled.\<close> The SDKs of vendors and secrets managers, Redis and the database drivers: parameters. The
  construction of the applications, logging, listing routes that only dump tables, and the command-line entry points.
\<close>

section \<open>The gate\<close>

text \<open>
  C1. Nothing reaches a database but through the gate: from any state the Gateway can reach, a
  tool call sends at most one request to the Execution Service. When it sends one, the account
  was resolved to an identity, the tool is a registered and enabled one of the requested
  version, the identity is authorized for it on the resolved server, policy does not deny it,
  and policy either allows it outright or the call names an approval that is approved, not
  expired, and was issued for an action with exactly this hash. The request sent is the one
  built from what was checked.
\<close>

theorem execution_through_gate:
  assumes "api_reachable env accounts s" and "submit_tool_call env accounts call body s = (r, s')"
  shows "gs_sent s' = gs_sent s \<or>
     (\<exists>identity a. accounts (rq_channel body) (rq_channel_account_id body) = Some identity \<and>
        gs_sent s' = gs_sent s @ [execution_request call a] \<and>
        registry_get (he_tools env) (rq_tool_id body) (rq_tool_version body) = Inr (ad_tool a) \<and>
        authorize identity (ad_tool a) (ad_ctx a) = Inr () \<and>
        check_policy env call identity body (ad_tool a) (ad_ctx a) = Inr (ad_evaluation a) \<and>
        (pe_decision (ad_evaluation a) = ALLOW \<or>
         (\<exists>i record. rq_approval_id body = Some i \<and> adb_approvals (gs_approvals s) i = Some record \<and>
            ap_status record = AP_APPROVED \<and> ce_approval_now call \<le> ap_expires_at record \<and>
            ap_action_hash record = action_hash (he_sha256 env) (approval_context identity body a))))"
  using assms(2)
proof (cases rule: submit_cases)
  case (handled identity s1)
  have wf: "wf_db (gs_approvals s)" using assms(1) by (rule api_reachable_wf)
  from wf handled(2) show ?thesis
  proof (cases rule: sent_cases)
    case (sent a)
    have "gate_open (local_env env body) call identity body a (gs_approvals s)" by (rule sent(2))
    then have "pe_decision (ad_evaluation a) = ALLOW \<or>
         (\<exists>i record. rq_approval_id body = Some i \<and> adb_approvals (gs_approvals s) i = Some record \<and>
            ap_status record = AP_APPROVED \<and> ce_approval_now call \<le> ap_expires_at record \<and>
            ap_action_hash record = action_hash (he_sha256 env) (approval_context identity body a))"
      by (auto simp: gate_open_def verify_Inr_iff [OF wf])
    with sent(3) handled(1,3) admitted_facts [OF sent(1)] show ?thesis by auto
  qed (use handled(3) in simp)
qed simp

theorem execution_through_gate_witness:
  "\<exists>identity a. gs_sent executed = gs_sent granted @ [execution_request (demo_call ''a2'' 3) a] \<and>
     authorize identity (ad_tool a) (ad_ctx a) = Inr () \<and>
     registry_get (he_tools demo_env) ''database.restart_instance'' None = Inr (ad_tool a)"
proof -
  obtain resp where "demo_submit ''a2'' 3 ''database.restart_instance'' (Some ''a1'') granted = (Inr resp, executed)"
    using executed_facts(1) by blast
  from execution_through_gate [OF granted_reachable this]
  show ?thesis using executed_facts(2) granted_facts(4) by (auto simp: demo_request_def)
qed

text \<open>
  C5. Every answered call is audited: the Gateway adds exactly one audit event, of the kind the
  response's status has, in the caller's name and with the response's failure code, and adds a
  security event exactly when that code is one of the security codes. A call that ends in an
  exception of another kind leaves the audit log as it was.
\<close>

theorem every_call_audited:
  assumes "api_reachable env accounts s"
    and "accounts (rq_channel body) (rq_channel_account_id body) = Some identity"
    and "submit_tool_call env accounts call body s = (r, s')"
  shows "case r of Inl _ \<Rightarrow> gs_audit s' = gs_audit s | Inr resp \<Rightarrow> audited identity resp (gs_audit s) (gs_audit s')"
  using assms(3)
proof (cases rule: submit_cases)
  case (handled identity' s1)
  have "identity' = identity" using assms(2) handled(1) by simp
  with handle_audited [OF api_reachable_wf [OF assms(1)] handled(2)] handled(4) show ?thesis
    by (auto split: sum.splits)
qed (use assms(2,3) in simp)

theorem every_call_audited_witness:
  "\<exists>ev. al_events (gs_audit executed) = al_events (gs_audit granted) @ [ev] \<and> au_event_type ev = ''TOOL_CALL_EXECUTED'' \<and>
     au_actor_subject_id ev = ''alice''"
proof -
  obtain resp where r: "demo_submit ''a2'' 3 ''database.restart_instance'' (Some ''a1'') granted = (Inr resp, executed)"
    and st: "rs_status resp = TC_EXECUTED" using executed_facts(1) by blast
  from every_call_audited [OF granted_reachable _ r, of "person ''alice''"] st show ?thesis
    by (auto simp: demo_accounts_def demo_request_def audited_def person_def)
qed

text \<open>
  C4. What comes back to the Agent is minimised: the rows of a result are at most the row cap of
  the tool, or of the data policy where the tool has none, no row has more fields than the column cap, every field with
  a sensitive name shows the mask, no field is off the allowlist or on the denylist, and the
  row count is the number of rows.
\<close>

theorem results_minimised:
  assumes "api_reachable env accounts s" and "submit_tool_call env accounts call body s = (Inr resp, s')"
    and "rs_result resp = Some res"
  shows "tr_row_count res = length (tr_rows res) \<and>
     (\<exists>tool. registry_get (he_tools env) (rq_tool_id body) (rq_tool_version body) = Inr tool \<and>
        length (tr_rows res) \<le> row_cap (he_data_policy env) (Some (td_max_result_rows tool))) \<and>
     (\<forall>row \<in> set (tr_rows res). length row \<le> max_columns (he_data_policy env) \<and>
        (\<forall>(k, v) \<in> set row. (is_sensitive (he_data_policy env) k \<longrightarrow> v = JStr ''***MASKED***'') \<and>
           passes (he_data_policy env) (k, v)))"
  using assms(2)
proof (cases rule: submit_cases)
  case (handled identity s1)
  obtain a and x :: ExecutionResult where
    adm: "admitted (local_env env body) call identity body a" and rows: "tr_rows res = mr_rows (minimize (he_sqlglot (local_env env body)) (he_data_policy (local_env env body)) (Some (td_max_result_rows (ad_tool a)))
         (sqlglot_dialect_for_platform (Some (platform_value (ctx_platform (ad_ctx a))))) (xr_rows x))"
    and count: "tr_row_count res = length (tr_rows res)" 
    using handle_result [OF api_reachable_wf [OF assms(1)] handled(2) assms(3)] by (elim exE conjE) (rule that)
  have "length (tr_rows res) \<le> row_cap (he_data_policy env) (Some (td_max_result_rows (ad_tool a)))"
    unfolding rows by (simp add: minimize_spec Let_def)
  with admitted_facts(1) [OF adm] count show ?thesis using minimized_row unfolding rows by fastforce
qed simp

theorem results_minimised_witness:
  "\<exists>resp s'. demo_submit ''a2'' 3 ''database.restart_instance'' (Some ''a1'') granted = (Inr resp, s') \<and>
     (\<forall>res. rs_result resp = Some res \<longrightarrow> (\<forall>row \<in> set (tr_rows res). \<forall>(k, v) \<in> set row.
        is_sensitive default_data_policy k \<longrightarrow> v = JStr ''***MASKED***''))"
proof -
  obtain resp where r: "demo_submit ''a2'' 3 ''database.restart_instance'' (Some ''a1'') granted = (Inr resp, executed)"
    using executed_facts(1) by blast
  have p: "he_data_policy demo_env = default_data_policy" by (simp add: demo_env_def)
  from results_minimised [OF granted_reachable r] r show ?thesis unfolding p by blast
qed

section \<open>Approvals across the pipeline\<close>

text \<open>
  C3. A used approval does not authorise a second execution, for calls that are handled one after
  another, each to its end: after a call that policy required an approval for was executed under an
  approval, and after any further calls, decisions on other approvals and catalog refreshes but no
  decision on that approval, a call that names it sends nothing, unless policy allows that call's
  own action outright.
\<close>

theorem approval_not_replayed:
  assumes "api_reachable env accounts s" and "submit_tool_call env accounts call body s = (Inr resp, s')"
    and "rs_status resp = TC_EXECUTED" and "rs_policy_decision resp = Some ''REQUIRES_APPROVAL''"
    and "rq_approval_id body = Some i" and "adb_approvals (gs_approvals s) (ce_approval_id call) = None"
    and "(quiet_step env accounts i)\<^sup>*\<^sup>* s' s1"
    and "submit_tool_call env accounts call' body' s1 = (r, s2)" and "rq_approval_id body' = Some i"
  shows "gs_sent s2 = gs_sent s1 \<or>
     (\<exists>identity a. gs_sent s2 = gs_sent s1 @ [execution_request call' a] \<and>
        registry_get (he_tools env) (rq_tool_id body') (rq_tool_version body') = Inr (ad_tool a) \<and>
        check_policy env call' identity body' (ad_tool a) (ad_ctx a) = Inr (ad_evaluation a) \<and>
        pe_decision (ad_evaluation a) = ALLOW)"
  using assms(8)
proof (cases rule: submit_cases)
  case (handled identity t)
  have "api_step env accounts s s'" using step_submit [of s call env accounts body] assms(2,6) by simp
  then have "api_reachable env accounts s'" by (rule api_next [OF assms(1)])
  from quiet_steps_used [OF assms(7) this executed_used [OF assms(1-5)]]
  have reach: "api_reachable env accounts s1" and u: "used i s1" by auto
  note wf = api_reachable_wf [OF reach]
  from wf handled(2) show ?thesis
  proof (cases rule: sent_cases)
    case (sent a)
    have "pe_decision (ad_evaluation a) = ALLOW"
      using sent(2) u assms(9) by (auto simp: gate_open_def verify_Inr_iff [OF wf] used_def)
    with sent(3) handled(3) admitted_facts(1,3) [OF sent(1)] show ?thesis by metis
  qed (use handled(3) in simp)
qed simp

theorem approval_not_replayed_witness:
  "gs_sent (snd (demo_submit ''a3'' 4 ''database.restart_instance'' (Some ''a1'') executed)) = gs_sent executed"
proof -
  obtain resp where r: "demo_submit ''a2'' 3 ''database.restart_instance'' (Some ''a1'') granted = (Inr resp, executed)"
    and st: "rs_status resp = TC_EXECUTED" "rs_policy_decision resp = Some ''REQUIRES_APPROVAL''" using executed_facts(1) by blast
  obtain r' s' where r': "demo_submit ''a3'' 4 ''database.restart_instance'' (Some ''a1'') executed = (r', s')" by fastforce
  have "gs_sent s' = gs_sent executed \<or> (\<exists>identity a. gs_sent s' = gs_sent executed @ [execution_request (demo_call ''a3'' 4) a] \<and>
      registry_get (he_tools demo_env) ''database.restart_instance'' None = Inr (ad_tool a) \<and>
      check_policy demo_env (demo_call ''a3'' 4) identity (restart_request (Some ''a1'')) (ad_tool a) (ad_ctx a) = Inr (ad_evaluation a) \<and>
      pe_decision (ad_evaluation a) = ALLOW)"
    using approval_not_replayed [OF granted_reachable r st _ _ _ r', of "''a1''"]
    by (simp add: demo_request_def demo_call_def granted_facts)
  then show ?thesis using r' restart_not_allowed by auto
qed

text \<open>
  C2. The two-person rule, end to end: with the shipped catalog and a tool that needs dual
  approval, by its definition or by policy, and that no rule of the policy table allows
  outright, a request for it reaches the Execution Service only under a stored approval whose
  action has the same hash as this call's. Unless the two hashed texts are different texts with
  the same digest, two different people have approved it, and neither is the requester.
\<close>

theorem two_person_rule:
  assumes "api_reachable env accounts s" and "he_tools env = ToolRegistry_init settings"
    and "accounts (rq_channel body) (rq_channel_account_id body) = Some requester"
    and "submit_tool_call env accounts call body s = (r, s')" and "gs_sent s' = gs_sent s @ [er]"
    and "map_of (he_tools env) (ex_tool_id er) = Some tool"
    and "td_requires_dual_approval tool \<or> ex_tool_id er \<in> set (dual_approval_required (he_policy env))"
    and "\<And>environment role. fst (table_decision (he_policy env) environment (ex_tool_id er) role) \<noteq> ALLOW"
  shows "\<exists>a i record. er = execution_request call a \<and> rq_approval_id body = Some i \<and>
     adb_approvals (gs_approvals s) i = Some record \<and>
     he_sha256 env (record_text record) = he_sha256 env (action_text (approval_context requester body a)) \<and>
     (record_text record = action_text (approval_context requester body a) \<longrightarrow>
        (\<exists>p q. ap_approver_1_subject_id record = Some p \<and> ap_approver_2_subject_id record = Some q \<and> p \<noteq> q \<and>
           p \<noteq> subject_id requester \<and> q \<noteq> subject_id requester))"
  using assms(4)
proof (cases rule: submit_cases)
  case (handled identity s1)
  then have identity: "identity = requester" using assms(3) by simp
  have wf: "wf_db (gs_approvals s)" using assms(1) by (rule api_reachable_wf)
  from wf handled(2) show ?thesis
  proof (cases rule: sent_cases)
    case (sent a)
    then have er: "er = execution_request call a" using assms(5) handled(3) by simp
    then have tid: "ex_tool_id er = td_tool_id (ad_tool a)" by (simp add: execution_request_def)
    have "pe_decision (ad_evaluation a) \<noteq> ALLOW"
      by (rule check_policy_not_allowed [OF admitted_facts(3) [OF sent(1)]]) (use assms(8) tid in simp)
    with sent(2) obtain i rec where i: "rq_approval_id body = Some i"
      and look: "adb_approvals (gs_approvals s) i = Some rec" and st: "ap_status rec = AP_APPROVED"
      and hash: "ap_action_hash rec = he_sha256 env (action_text (approval_context requester body a))"
      by (auto simp: gate_open_def verify_Inr_iff [OF wf] action_hash_text identity)
    have issued: "issued env rec" using api_reachable_approvals [OF assms(1)] look by blast
    then have "he_sha256 env (record_text rec) = he_sha256 env (action_text (approval_context requester body a))"
      using hash by (simp add: issued_def)
    moreover have "\<exists>p q. ap_approver_1_subject_id rec = Some p \<and> ap_approver_2_subject_id rec = Some q \<and> p \<noteq> q \<and>
        p \<noteq> subject_id requester \<and> q \<noteq> subject_id requester"
      if "record_text rec = action_text (approval_context requester body a)"
    proof -
      have "ap_tool_id rec = ex_tool_id er" "ap_actor_subject_id rec = subject_id requester"
        using same_text [OF that] tid by (simp_all add: approval_context_def)
      moreover have "td_tool_id tool = ex_tool_id er" using assms(2,6) by (simp add: registry_lookup)
      ultimately have "ap_requires_dual_approval rec"
        using issued_dual [OF issued assms(2)] assms(6,7) by simp
      with approved_by_two [OF api_reachable_inv [OF assms(1)] look st] \<open>ap_actor_subject_id rec = _\<close> show ?thesis by simp
    qed
    ultimately show ?thesis using er i look by blast
  qed (use assms(5) handled(3) in simp)
qed (use assms(5) in simp)

theorem two_person_rule_witness:
  "\<exists>record p q. adb_approvals (gs_approvals granted) ''a1'' = Some record \<and> p \<noteq> q \<and> p \<noteq> ''alice'' \<and> q \<noteq> ''alice'' \<and>
     ap_approver_1_subject_id record = Some p \<and> ap_approver_2_subject_id record = Some q"
proof -
  obtain resp where r: "demo_submit ''a2'' 3 ''database.restart_instance'' (Some ''a1'') granted = (Inr resp, executed)"
    using executed_facts(1) by blast
  let ?er = "execution_request (demo_call ''a2'' 3) restart_admission"
  have tid: "ex_tool_id ?er = ''database.restart_instance''" by (simp add: execution_request_def demo_admission_def)
  have "\<exists>a i record. ?er = execution_request (demo_call ''a2'' 3) a \<and> rq_approval_id (restart_request (Some ''a1'')) = Some i \<and>
     adb_approvals (gs_approvals granted) i = Some record \<and>
     he_sha256 demo_env (record_text record) = he_sha256 demo_env (action_text (approval_context (person ''alice'') (restart_request (Some ''a1'')) a)) \<and>
     (record_text record = action_text (approval_context (person ''alice'') (restart_request (Some ''a1'')) a) \<longrightarrow>
        (\<exists>p q. ap_approver_1_subject_id record = Some p \<and> ap_approver_2_subject_id record = Some q \<and> p \<noteq> q \<and>
           p \<noteq> subject_id (person ''alice'') \<and> q \<noteq> subject_id (person ''alice'')))"
  proof (rule two_person_rule [OF granted_reachable _ _ r])
    show "he_tools demo_env = ToolRegistry_init default_settings" by (simp add: demo_env_def)
    show "demo_accounts (rq_channel (restart_request (Some ''a1''))) (rq_channel_account_id (restart_request (Some ''a1''))) = Some (person ''alice'')"
      by (simp add: demo_accounts_def demo_request_def)
    show "gs_sent executed = gs_sent granted @ [?er]" by (simp add: executed_facts granted_facts)
    show "map_of (he_tools demo_env) (ex_tool_id ?er) = Some restart_tool"
      unfolding tid using demo_registry(1) by (simp add: demo_env_def registry_get_Inr_iff)
    show "td_requires_dual_approval restart_tool \<or> ex_tool_id ?er \<in> set (dual_approval_required (he_policy demo_env))"
      unfolding tid by (simp add: demo_env_def demo_policy_def)
    show "fst (table_decision (he_policy demo_env) environment (ex_tool_id ?er) role) \<noteq> ALLOW" for environment role
      unfolding tid by (rule restart_never_allowed)
  qed
  then show ?thesis by (auto simp: demo_request_def demo_env_def plain_def person_def)
qed

text \<open>
  C37. An approver's own authorization is not checked: where the target model refuses unknown
  keys, whoever the deciding DBA is, with whatever role, and whatever the request's server and
  tool are, the approval route ends exactly as the engine's decision does, because the stored
  target is never accepted as a target and the exception is dropped.
\<close>

theorem approver_authorization_skipped:
  assumes "api_reachable env accounts s" and "forbids_extra (he_validate_target env)"
    and "adb_approvals (gs_approvals s) i = Some record"
    and "registry_get (he_tools env) (ap_tool_id record) (Some (ap_tool_version record)) = Inr tool"
    and "accounts' (bd_channel body) (bd_channel_account_id body) = Some approver" and "is_dba approver"
    and "decide i approver APPROVE now (gs_approvals s) = (Inr record', db)"
  shows "\<exists>s'. decide_approval env accounts' i body APPROVE now s = (Inr (i, approval_value (ap_status record')), s') \<and>
     gs_approvals s' = db"
proof -
  have "issued env record" using api_reachable_approvals [OF assms(1)] assms(3) by blast
  then obtain t where "ap_target record = target_dump t" by (auto simp: issued_def)
  from decide_approval_unchecked [where accounts = accounts', OF assms(2) this assms(4-6) assms(3) assms(7)]
  show ?thesis by auto
qed

theorem approver_authorization_skipped_witness:
  "\<exists>s'. decide_approval demo_env (\<lambda>_ account. Some ((person account)\<lparr>dba_roles := [DBA_L1]\<rparr>)) ''a1''
       \<lparr>bd_channel = ''slack'', bd_channel_account_id = ''bob''\<rparr> APPROVE 1 requested =
     (Inr (''a1'', ''AWAITING_SECOND_APPROVAL''), s') \<and>
   authorize ((person ''bob'')\<lparr>dba_roles := [DBA_L1]\<rparr>) restart_tool demo_ctx \<noteq> Inr ()"
proof -
  let ?bob = "(person ''bob'')\<lparr>dba_roles := [DBA_L1]\<rparr>"
  have d: "decided ?bob APPROVE 1 (expire 1 restart_record) = Inr once_approved"
    by (simp add: decided_def decide_record_def save_def Let_def expire_def restart_record_fields once_approved_def person_def)
  from decide_a1 [OF restart_record_fields(1,10) this] obtain db
    where db: "decide ''a1'' ?bob APPROVE 1 (gs_approvals requested) = (Inr once_approved, db)" by blast
  have look: "adb_approvals (gs_approvals requested) ''a1'' = Some restart_record" by (simp add: restart_record_fields)
  have reg: "registry_get (he_tools demo_env) (ap_tool_id restart_record) (Some (ap_tool_version restart_record)) = Inr restart_tool"
    by (simp add: restart_record_fields demo_env_def demo_registry)
  have "\<exists>s'. decide_approval demo_env (\<lambda>_ account. Some ((person account)\<lparr>dba_roles := [DBA_L1]\<rparr>)) ''a1''
       \<lparr>bd_channel = ''slack'', bd_channel_account_id = ''bob''\<rparr> APPROVE 1 requested =
     (Inr (''a1'', approval_value (ap_status once_approved)), s') \<and> gs_approvals s' = db"
    by (rule approver_authorization_skipped [OF requested_reachable demo_forbids_extra look reg _ _ db])
      (simp_all add: is_dba_def)
  moreover have "authorize ?bob restart_tool demo_ctx \<noteq> Inr ()"
    by (simp add: authorize_def is_dba_def person_def restart_tool_def write_tools_def tool_defs ADVANCED_ROLES_def)
  ultimately show ?thesis by (auto simp: once_approved_def)
qed

end
